(* ===== verification/Prelude.thy ===== *)
theory Prelude
  imports Complex_Main "HOL-Library.Char_ord" "HOL-Library.List_Lexorder"
    "HOL-Library.Product_Lexorder"
begin

text \<open>
  Shared vocabulary of the development: the exception results and the state-and-exception
  programs every component is written with, the Python string operations the code uses, and
  insertion-ordered dictionaries.

  A Python \<open>str\<close> is a \<open>string\<close> read as code points below 256 (Latin-1): white space,
  case mapping and line breaks below are Python's on exactly that range. A Python \<open>float\<close>
  is a \<open>rat\<close>: infinities, NaN and rounding of the floating-point operations are outside
  the model.
\<close>

section \<open>Collections used by the proof automation\<close>

named_theorems post_init_defs \<open>definitions of the dataclass constructors\<close>
named_theorems hoare_rules \<open>rules for programs with state and exceptions\<close>

section \<open>Results: a value or a raised exception\<close>

definition rbind :: "'e + 'a \<Rightarrow> ('a \<Rightarrow> 'e + 'b) \<Rightarrow> 'e + 'b" where
  "rbind m f = (case m of Inl e \<Rightarrow> Inl e | Inr x \<Rightarrow> f x)"

definition require_that :: "bool \<Rightarrow> 'e \<Rightarrow> 'e + unit" where
  "require_that b e = (if b then Inr () else Inl e)"

fun rmap :: "('a \<Rightarrow> 'e + 'b) \<Rightarrow> 'a list \<Rightarrow> 'e + 'b list" where
  "rmap f [] = Inr []"
| "rmap f (x # xs) = rbind (f x) (\<lambda>y. rbind (rmap f xs) (\<lambda>ys. Inr (y # ys)))"

fun rfold :: "('a \<Rightarrow> 's \<Rightarrow> 'e + 's) \<Rightarrow> 'a list \<Rightarrow> 's \<Rightarrow> 'e + 's" where
  "rfold f [] s = Inr s"
| "rfold f (x # xs) s = rbind (f x s) (rfold f xs)"

definition is_ok :: "'e + 'a \<Rightarrow> bool" where
  "is_ok m = (case m of Inl _ \<Rightarrow> False | Inr _ \<Rightarrow> True)"

lemma rbind_simps [simp]:
  "rbind (Inl e) f = Inl e"
  "rbind (Inr x) f = f x"
  by (simp_all add: rbind_def)

lemma rbind_eq_Inr: "rbind m f = Inr y \<longleftrightarrow> (\<exists>x. m = Inr x \<and> f x = Inr y)"
  by (cases m) auto

lemma rbind_eq_Inl:
  "rbind m f = Inl e \<longleftrightarrow> m = Inl e \<or> (\<exists>x. m = Inr x \<and> f x = Inl e)"
  by (cases m) auto

lemma rbind_assoc: "rbind (rbind m f) g = rbind m (\<lambda>x. rbind (f x) g)"
  by (cases m) auto

lemma rbind_Inr_right [simp]: "rbind m Inr = m"
  by (cases m) auto

lemma require_that_simps [simp]:
  "require_that True e = Inr ()"
  "require_that False e = Inl e"
  by (simp_all add: require_that_def)

lemma require_that_eq_Inr [simp]: "require_that b e = Inr u \<longleftrightarrow> b"
  by (simp add: require_that_def)

lemma require_that_eq_Inl [simp]: "require_that b e = Inl e' \<longleftrightarrow> \<not> b \<and> e' = e"
  by (auto simp: require_that_def)

lemma rbind_require_that:
  "rbind (require_that b e) f = (if b then f () else Inl e)"
  by simp

lemma is_ok_simps [simp]: "is_ok (Inl e) = False" "is_ok (Inr x) = True"
  by (simp_all add: is_ok_def)

lemma is_ok_iff: "is_ok m \<longleftrightarrow> (\<exists>x. m = Inr x)"
  by (cases m) auto

lemmas result_cases = rbind_eq_Inr rbind_eq_Inl

lemma rmap_eq_Inr: "rmap f xs = Inr ys \<longleftrightarrow> list_all2 (\<lambda>x y. f x = Inr y) xs ys"
  by (induction xs arbitrary: ys) (auto simp: rbind_eq_Inr list_all2_Cons1)

lemma rmap_Inr_set: "rmap f xs = Inr ys \<Longrightarrow> y \<in> set ys \<Longrightarrow> \<exists>x\<in>set xs. f x = Inr y"
  by (induction xs arbitrary: ys) (auto simp: rbind_eq_Inr)

lemma rmap_Inr_ball: "rmap f xs = Inr ys \<Longrightarrow> \<forall>y\<in>set ys. \<exists>x\<in>set xs. f x = Inr y"
  by (auto dest: rmap_Inr_set)

lemma rmap_all_ok: "(\<And>x. x \<in> set xs \<Longrightarrow> f x = Inr (g x)) \<Longrightarrow> rmap f xs = Inr (map g xs)"
  by (induction xs) auto

lemma rmap_id_ok: "(\<And>x. x \<in> set xs \<Longrightarrow> f x = Inr x) \<Longrightarrow> rmap f xs = Inr xs"
  using rmap_all_ok [of xs f id] by simp

lemma rmap_cong [fundef_cong]:
  "xs = ys \<Longrightarrow> (\<And>x. x \<in> set ys \<Longrightarrow> f x = g x) \<Longrightarrow> rmap f xs = rmap g ys"
  by (induction ys arbitrary: xs) (auto simp: rbind_def split: sum.splits)

lemma is_okE: "is_ok m \<Longrightarrow> (\<And>x. m = Inr x \<Longrightarrow> P) \<Longrightarrow> P"
  by (auto simp: is_ok_iff)

lemma is_ok_rbind: "is_ok (rbind m f) \<longleftrightarrow> (\<exists>x. m = Inr x \<and> is_ok (f x))"
  by (auto simp: is_ok_iff rbind_eq_Inr)

lemma rfold_ok: "(\<And>x s. x \<in> set xs \<Longrightarrow> is_ok (f x s)) \<Longrightarrow> is_ok (rfold f xs s)"
proof (induction xs arbitrary: s)
  case (Cons x xs)
  from Cons.prems [of x s] obtain t where "f x s = Inr t" by (auto elim: is_okE)
  with Cons show ?case by simp
qed simp

lemma rmap_ok: "(\<And>x. x \<in> set xs \<Longrightarrow> is_ok (f x)) \<Longrightarrow> is_ok (rmap f xs)"
proof (induction xs)
  case (Cons x xs)
  from Cons.prems [of x] obtain y where "f x = Inr y" by (auto elim: is_okE)
  with Cons show ?case by (auto simp: is_ok_rbind elim: is_okE)
qed simp

lemma rmap_Inr_mem: "rmap f xs = Inr ys \<Longrightarrow> x \<in> set xs \<Longrightarrow> f x = Inr y \<Longrightarrow> y \<in> set ys"
  by (induction xs arbitrary: ys) (auto simp: rbind_eq_Inr)

lemma rfold_invariant:
  assumes "rfold f xs s = Inr s'" "P s"
    and "\<And>x s s'. x \<in> set xs \<Longrightarrow> P s \<Longrightarrow> f x s = Inr s' \<Longrightarrow> P s'"
  shows "P s'"
  using assms by (induction xs arbitrary: s) (auto simp: rbind_eq_Inr)

lemma length_rmap: "rmap f xs = Inr ys \<Longrightarrow> length ys = length xs"
  by (auto simp: rmap_eq_Inr list_all2_lengthD)

section \<open>Programs over mutable state that may raise\<close>

text \<open>
  A program returns its result together with the state at that moment. A raise keeps the state
  mutations made before it, as Python objects do.
\<close>

type_synonym ('s, 'e, 'a) prog = "'s \<Rightarrow> ('e + 'a) \<times> 's"

definition sreturn :: "'a \<Rightarrow> ('s, 'e, 'a) prog" where
  "sreturn x s = (Inr x, s)"

definition sraise :: "'e \<Rightarrow> ('s, 'e, 'a) prog" where
  "sraise e s = (Inl e, s)"

definition slift :: "'e + 'a \<Rightarrow> ('s, 'e, 'a) prog" where
  "slift r s = (r, s)"

definition sbind :: "('s, 'e, 'a) prog \<Rightarrow> ('a \<Rightarrow> ('s, 'e, 'b) prog) \<Rightarrow> ('s, 'e, 'b) prog" where
  "sbind m f s = (case m s of (Inl e, s') \<Rightarrow> (Inl e, s') | (Inr x, s') \<Rightarrow> f x s')"

definition sthen :: "('s, 'e, 'a) prog \<Rightarrow> ('s, 'e, 'b) prog \<Rightarrow> ('s, 'e, 'b) prog" where
  "sthen m n = sbind m (\<lambda>_. n)"

definition sget :: "('s \<Rightarrow> 'a) \<Rightarrow> ('s, 'e, 'a) prog" where
  "sget f s = (Inr (f s), s)"

definition smodify :: "('s \<Rightarrow> 's) \<Rightarrow> ('s, 'e, unit) prog" where
  "smodify f s = (Inr (), f s)"

definition sguard :: "bool \<Rightarrow> 'e \<Rightarrow> ('s, 'e, unit) prog" where
  "sguard b e = slift (require_that b e)"

text \<open>\<open>scatch m h\<close> is \<open>try: m except Exception as e: h(e)\<close>.\<close>

definition scatch :: "('s, 'e, 'a) prog \<Rightarrow> ('e \<Rightarrow> ('s, 'e, 'a) prog) \<Rightarrow> ('s, 'e, 'a) prog" where
  "scatch m h s = (case m s of (Inl e, s') \<Rightarrow> h e s' | (Inr x, s') \<Rightarrow> (Inr x, s'))"

fun sfor :: "'a list \<Rightarrow> ('a \<Rightarrow> ('s, 'e, unit) prog) \<Rightarrow> ('s, 'e, unit) prog" where
  "sfor [] f s = (Inr (), s)"
| "sfor (x # xs) f s = sbind (f x) (\<lambda>_. sfor xs f) s"

lemmas prog_defs = sreturn_def sraise_def slift_def sbind_def sthen_def sget_def
  smodify_def sguard_def scatch_def

lemma sbind_simps [simp]:
  "m s = (Inl e, s') \<Longrightarrow> sbind m f s = (Inl e, s')"
  "m s = (Inr x, s') \<Longrightarrow> sbind m f s = f x s'"
  by (simp_all add: sbind_def)

lemma sbind_eq_Inr:
  "sbind m f s = (Inr y, s'') \<longleftrightarrow> (\<exists>x s'. m s = (Inr x, s') \<and> f x s' = (Inr y, s''))"
  by (auto simp: sbind_def split: prod.splits sum.splits)

lemma sbind_eq_Inl:
  "sbind m f s = (Inl e, s'') \<longleftrightarrow>
     m s = (Inl e, s'') \<or> (\<exists>x s'. m s = (Inr x, s') \<and> f x s' = (Inl e, s''))"
  by (auto simp: sbind_def split: prod.splits sum.splits)

lemma sbind_assoc: "sbind (sbind m f) g = sbind m (\<lambda>x. sbind (f x) g)"
  by (rule ext) (auto simp: sbind_def split: prod.splits sum.splits)

text \<open>Running a program: one equation per primitive, collected as \<open>prog_simps\<close>.\<close>

lemma slift_eq: "slift m s = (r, s') \<longleftrightarrow> m = r \<and> s' = s"
  by (auto simp: slift_def)

lemma sreturn_eq: "sreturn x s = (r, s') \<longleftrightarrow> r = Inr x \<and> s' = s"
  by (auto simp: sreturn_def)

lemma sraise_eq: "sraise e s = (r, s') \<longleftrightarrow> r = Inl e \<and> s' = s"
  by (auto simp: sraise_def)

lemma scatch_eq_Inr:
  "scatch m h s = (Inr x, s') \<longleftrightarrow> m s = (Inr x, s') \<or> (\<exists>e s1. m s = (Inl e, s1) \<and> h e s1 = (Inr x, s'))"
  by (auto simp: scatch_def split: sum.splits prod.splits)

lemmas prog_simps = sbind_eq_Inr sbind_eq_Inl sthen_def slift_eq sreturn_eq sraise_eq

subsection \<open>Triples: what holds after a return and after a raise\<close>

definition triple :: "('s \<Rightarrow> bool) \<Rightarrow> ('s, 'e, 'a) prog \<Rightarrow> ('a \<Rightarrow> 's \<Rightarrow> bool) \<Rightarrow>
    ('e \<Rightarrow> 's \<Rightarrow> bool) \<Rightarrow> bool" where
  "triple P m Q E \<longleftrightarrow>
     (\<forall>s. P s \<longrightarrow> (case m s of (Inl e, s') \<Rightarrow> E e s' | (Inr x, s') \<Rightarrow> Q x s'))"

lemma tripleI:
  "(\<And>s x s'. P s \<Longrightarrow> m s = (Inr x, s') \<Longrightarrow> Q x s') \<Longrightarrow>
   (\<And>s e s'. P s \<Longrightarrow> m s = (Inl e, s') \<Longrightarrow> E e s') \<Longrightarrow> triple P m Q E"
  by (auto simp: triple_def split: prod.splits sum.splits)

lemma tripleD_Inr: "triple P m Q E \<Longrightarrow> P s \<Longrightarrow> m s = (Inr x, s') \<Longrightarrow> Q x s'"
  by (force simp: triple_def)

lemma tripleD_Inl: "triple P m Q E \<Longrightarrow> P s \<Longrightarrow> m s = (Inl e, s') \<Longrightarrow> E e s'"
  by (force simp: triple_def)

lemma triple_pre: "triple P m Q E \<Longrightarrow> (\<And>s. P' s \<Longrightarrow> P s) \<Longrightarrow> triple P' m Q E"
  by (auto simp: triple_def)

lemma triple_post:
  "triple P m Q E \<Longrightarrow> (\<And>x s. Q x s \<Longrightarrow> Q' x s) \<Longrightarrow> (\<And>e s. E e s \<Longrightarrow> E' e s) \<Longrightarrow> triple P m Q' E'"
  by (fastforce simp: triple_def split: prod.splits sum.splits)

lemma triple_sreturn [hoare_rules]: "(\<And>s. P s \<Longrightarrow> Q x s) \<Longrightarrow> triple P (sreturn x) Q E"
  by (simp add: triple_def sreturn_def)

lemma triple_sraise [hoare_rules]: "(\<And>s. P s \<Longrightarrow> E e s) \<Longrightarrow> triple P (sraise e) Q E"
  by (simp add: triple_def sraise_def)

lemma triple_slift [hoare_rules]:
  "(\<And>s x. P s \<Longrightarrow> r = Inr x \<Longrightarrow> Q x s) \<Longrightarrow> (\<And>s e. P s \<Longrightarrow> r = Inl e \<Longrightarrow> E e s) \<Longrightarrow>
   triple P (slift r) Q E"
  by (cases r) (auto simp: triple_def slift_def)

lemma triple_sget [hoare_rules]: "(\<And>s. P s \<Longrightarrow> Q (f s) s) \<Longrightarrow> triple P (sget f) Q E"
  by (simp add: triple_def sget_def)

lemma triple_smodify [hoare_rules]: "(\<And>s. P s \<Longrightarrow> Q () (f s)) \<Longrightarrow> triple P (smodify f) Q E"
  by (simp add: triple_def smodify_def)

lemma triple_sguard [hoare_rules]:
  "(\<And>s. P s \<Longrightarrow> b \<Longrightarrow> Q () s) \<Longrightarrow> (\<And>s. P s \<Longrightarrow> \<not> b \<Longrightarrow> E e s) \<Longrightarrow> triple P (sguard b e) Q E"
  by (cases b) (auto simp: triple_def sguard_def slift_def)

lemma triple_sbind [hoare_rules]:
  "triple P m R E \<Longrightarrow> (\<And>x. triple (R x) (f x) Q E) \<Longrightarrow> triple P (sbind m f) Q E"
  by (fastforce simp: triple_def sbind_def split: prod.splits sum.splits)

lemma triple_sthen [hoare_rules]:
  "triple P m R E \<Longrightarrow> (\<And>x. triple (R x) n Q E) \<Longrightarrow> triple P (sthen m n) Q E"
  unfolding sthen_def by (rule triple_sbind)

lemma triple_scatch [hoare_rules]:
  "triple P m Q R \<Longrightarrow> (\<And>e. triple (R e) (h e) Q E) \<Longrightarrow> triple P (scatch m h) Q E"
  by (fastforce simp: triple_def scatch_def split: prod.splits sum.splits)

lemma triple_if [hoare_rules]:
  "(b \<Longrightarrow> triple P m Q E) \<Longrightarrow> (\<not> b \<Longrightarrow> triple P n Q E) \<Longrightarrow> triple P (if b then m else n) Q E"
  by simp

lemma triple_sfor:
  "(\<And>x. x \<in> set xs \<Longrightarrow> triple P (f x) (\<lambda>_. P) E) \<Longrightarrow> triple P (sfor xs f) (\<lambda>_. P) E"
proof (induction xs)
  case Nil
  then show ?case by (simp add: triple_def)
next
  case (Cons x xs)
  have "triple P (sbind (f x) (\<lambda>_. sfor xs f)) (\<lambda>_. P) E"
    by (rule triple_sbind) (use Cons in auto)
  then show ?case by (simp add: triple_def)
qed

section \<open>Strings\<close>

definition py_isspace :: "char \<Rightarrow> bool" where
  "py_isspace c \<longleftrightarrow> c \<in> {CHR 0x09, CHR 0x0A, CHR 0x0B, CHR 0x0C, CHR 0x0D, CHR 0x1C, CHR 0x1D,
     CHR 0x1E, CHR 0x1F, CHR 0x20, CHR 0x85, CHR 0xA0}"

definition lstrip :: "string \<Rightarrow> string" where
  "lstrip s = dropWhile py_isspace s"

definition rstrip :: "string \<Rightarrow> string" where
  "rstrip s = rev (dropWhile py_isspace (rev s))"

definition strip :: "string \<Rightarrow> string" where
  "strip s = rstrip (lstrip s)"

definition py_lower_char :: "char \<Rightarrow> char" where
  "py_lower_char c =
     (let n = of_char c :: nat
      in if (65 \<le> n \<and> n \<le> 90) \<or> (192 \<le> n \<and> n \<le> 222 \<and> n \<noteq> 215) then char_of (n + 32) else c)"

definition py_lower :: "string \<Rightarrow> string" where
  "py_lower s = map py_lower_char s"

fun py_join :: "string \<Rightarrow> string list \<Rightarrow> string" where
  "py_join sep [] = []"
| "py_join sep [x] = x"
| "py_join sep (x # y # ys) = x @ sep @ py_join sep (y # ys)"

text \<open>\<open>str.split()\<close> without arguments: the maximal runs of non-space characters.\<close>

function py_split :: "string \<Rightarrow> string list" where
  "py_split s =
     (if lstrip s = [] then []
      else takeWhile (\<lambda>c. \<not> py_isspace c) (lstrip s) #
           py_split (dropWhile (\<lambda>c. \<not> py_isspace c) (lstrip s)))"
  by pat_completeness auto
termination
proof (relation "measure length", goal_cases)
  case (2 s)
  have "lstrip s \<noteq> [] \<Longrightarrow> \<not> py_isspace (hd (lstrip s))"
    unfolding lstrip_def by (rule hd_dropWhile)
  with 2 obtain c cs where s: "lstrip s = c # cs" "\<not> py_isspace c"
    by (cases "lstrip s") auto
  have "length (dropWhile (\<lambda>c. \<not> py_isspace c) cs) \<le> length cs"
    by (rule length_dropWhile_le)
  also have "\<dots> < length (lstrip s)" using s by simp
  also have "\<dots> \<le> length s" by (simp add: lstrip_def length_dropWhile_le)
  finally show ?case using s by simp
qed simp

declare py_split.simps [simp del]

text \<open>\<open>re.sub(r"\<close>\<open>\s+", " ", s)\<close>: every run of white space becomes one blank.\<close>

fun collapse_ws :: "string \<Rightarrow> string" where
  "collapse_ws [] = []"
| "collapse_ws [c] = (if py_isspace c then '' '' else [c])"
| "collapse_ws (c # d # s) =
     (if py_isspace c then (if py_isspace d then collapse_ws (d # s)
                            else CHR 0x20 # collapse_ws (d # s))
      else c # collapse_ws (d # s))"

text \<open>\<open>str.splitlines()\<close>: a line ends at a line boundary, and CR LF is one boundary.\<close>

definition py_islinebreak :: "char \<Rightarrow> bool" where
  "py_islinebreak c \<longleftrightarrow> c \<in> {CHR 0x0A, CHR 0x0B, CHR 0x0C, CHR 0x0D, CHR 0x1C, CHR 0x1D, CHR 0x1E,
     CHR 0x85}"

fun splitlines_from :: "string \<Rightarrow> string \<Rightarrow> string list" where
  "splitlines_from cur [] = (if cur = [] then [] else [rev cur])"
| "splitlines_from cur [c] = (if py_islinebreak c then [rev cur] else [rev (c # cur)])"
| "splitlines_from cur (c # d # s) =
     (if c = CHR 0x0D \<and> d = CHR 0x0A then rev cur # splitlines_from [] s
      else if py_islinebreak c then rev cur # splitlines_from [] (d # s)
      else splitlines_from (c # cur) (d # s))"

definition splitlines :: "string \<Rightarrow> string list" where
  "splitlines s = splitlines_from [] s"

definition startswith :: "string \<Rightarrow> string \<Rightarrow> bool" where
  "startswith s p \<longleftrightarrow> take (length p) s = p"

definition removeprefix :: "string \<Rightarrow> string \<Rightarrow> string" where
  "removeprefix s p = (if startswith s p then drop (length p) s else s)"

fun contains_sub :: "string \<Rightarrow> string \<Rightarrow> bool" where
  "contains_sub [] p = (p = [])"
| "contains_sub (c # s) p = (startswith (c # s) p \<or> contains_sub s p)"

text \<open>\<open>str(value or "")\<close> of an optional string.\<close>

definition or_empty :: "string option \<Rightarrow> string" where
  "or_empty v = (case v of None \<Rightarrow> [] | Some s \<Rightarrow> s)"

definition quote :: string where
  "quote = [CHR 0x27]"

definition newline :: string where
  "newline = [CHR 0x0A]"

definition quoted :: "string \<Rightarrow> string" where
  "quoted s = quote @ s @ quote"

subsection \<open>Numbers as text\<close>

text \<open>The decimal digits of an integer that is not negative.\<close>

function str_digits :: "int \<Rightarrow> string" where
  "str_digits n =
     (if n < 10 then [char_of (48 + n)] else str_digits (n div 10) @ [char_of (48 + n mod 10)])"
  by pat_completeness auto
termination by (relation "measure nat") auto

declare str_digits.simps [simp del]

definition str_int :: "int \<Rightarrow> string" where
  "str_int i = (if i < 0 then CHR 0x2D # str_digits (- i) else str_digits i)"

text \<open>\<open>round(x)\<close>: to the nearest integer, ties to even.\<close>

definition round_half_even :: "rat \<Rightarrow> int" where
  "round_half_even q =
     (let f = floor q; r = q - of_int f
      in if r < 1 / 2 then f else if r > 1 / 2 then f + 1 else if even f then f else f + 1)"

definition pad6 :: "string \<Rightarrow> string" where
  "pad6 s = replicate (6 - length s) (CHR 0x30) @ s"

text \<open>\<open>f"{x:.6f}"\<close>: fixed point with six digits, correctly rounded.\<close>

definition format_6f :: "rat \<Rightarrow> string" where
  "format_6f q =
     (let n = round_half_even (\<bar>q\<bar> * 1000000)
      in (if q < 0 then [CHR 0x2D] else []) @ str_digits (n div 1000000) @ [CHR 0x2E] @
         pad6 (str_digits (n mod 1000000)))"

subsection \<open>Facts about strings\<close>

lemma lstrip_Nil [simp]: "lstrip [] = []"
  by (simp add: lstrip_def)

lemma rstrip_Nil [simp]: "rstrip [] = []"
  by (simp add: rstrip_def)

lemma strip_Nil [simp]: "strip [] = []"
  by (simp add: strip_def)

lemma lstrip_hd: "lstrip s \<noteq> [] \<Longrightarrow> \<not> py_isspace (hd (lstrip s))"
  unfolding lstrip_def by (rule hd_dropWhile)

lemma lstrip_no_space: "s = [] \<or> \<not> py_isspace (hd s) \<Longrightarrow> lstrip s = s"
  by (cases s) (auto simp: lstrip_def)

lemma rstrip_last: "rstrip s \<noteq> [] \<Longrightarrow> \<not> py_isspace (last (rstrip s))"
  unfolding rstrip_def
  by (metis hd_dropWhile last_rev rev_is_Nil_conv)

lemma rstrip_no_space: "s = [] \<or> \<not> py_isspace (last s) \<Longrightarrow> rstrip s = s"
  by (cases s rule: rev_cases) (auto simp: rstrip_def)

lemma rstrip_Cons: "\<not> py_isspace c \<Longrightarrow> rstrip (c # s) = c # rstrip s"
  by (simp add: rstrip_def dropWhile_append)

lemma rstrip_hd: "rstrip s \<noteq> [] \<Longrightarrow> hd (rstrip s) = hd s"
proof -
  assume ne: "rstrip s \<noteq> []"
  have "rev s = takeWhile py_isspace (rev s) @ dropWhile py_isspace (rev s)" by simp
  then have "s = rev (dropWhile py_isspace (rev s)) @ rev (takeWhile py_isspace (rev s))"
    by (metis rev_append rev_rev_ident)
  then have "s = rstrip s @ rev (takeWhile py_isspace (rev s))"
    by (simp add: rstrip_def)
  then show ?thesis by (metis hd_append2 ne)
qed

lemma strip_ends:
  assumes "strip s \<noteq> []"
  shows "\<not> py_isspace (hd (strip s))" "\<not> py_isspace (last (strip s))"
proof -
  from assms have "lstrip s \<noteq> []" by (auto simp: strip_def)
  then have "\<not> py_isspace (hd (lstrip s))" by (rule lstrip_hd)
  with assms show "\<not> py_isspace (hd (strip s))" by (simp add: strip_def rstrip_hd)
  from assms show "\<not> py_isspace (last (strip s))" unfolding strip_def by (rule rstrip_last)
qed

lemma strip_strip [simp]: "strip (strip s) = strip s"
proof (cases "strip s = []")
  case False
  then show ?thesis
    using strip_ends [OF False] lstrip_no_space [of "strip s"] rstrip_no_space [of "strip s"]
    by (simp add: strip_def)
qed simp

lemma strip_nonspace: "\<not> py_isspace (hd s) \<Longrightarrow> \<not> py_isspace (last s) \<Longrightarrow> strip s = s"
  by (simp add: strip_def lstrip_no_space rstrip_no_space)

lemma length_lstrip: "length (lstrip s) \<le> length s"
  by (simp add: lstrip_def length_dropWhile_le)

lemma length_rstrip: "length (rstrip s) \<le> length s"
  unfolding rstrip_def by (metis length_dropWhile_le length_rev)

lemma length_strip: "length (strip s) \<le> length s"
  unfolding strip_def using length_rstrip length_lstrip le_trans by blast

lemma startswith_append [simp]: "startswith (p @ s) p"
  by (simp add: startswith_def)

lemma removeprefix_append [simp]: "removeprefix (p @ s) p = s"
  by (simp add: removeprefix_def)

lemma startswith_iff: "startswith s p \<longleftrightarrow> (\<exists>t. s = p @ t)"
  by (metis append_eq_conv_conj append_take_drop_id startswith_def)

lemma length_py_join:
  "xs \<noteq> [] \<Longrightarrow> length (py_join sep xs) = sum_list (map length xs) + (length xs - 1) * length sep"
  by (induction sep xs rule: py_join.induct) auto

lemma py_join_eq_Nil: "\<forall>x\<in>set xs. x \<noteq> [] \<Longrightarrow> py_join sep xs = [] \<longleftrightarrow> xs = []"
  by (induction sep xs rule: py_join.induct) auto

subsection \<open>Words of a string\<close>

lemma py_split_Nil [simp]: "py_split [] = []"
  by (subst py_split.simps) simp

lemma py_split_lstrip: "py_split (lstrip s) = py_split s"
proof -
  have "lstrip (lstrip s) = lstrip s"
    using lstrip_hd [of s] lstrip_no_space [of "lstrip s"] by blast
  then show ?thesis by (subst (1 2) py_split.simps) simp
qed

definition word_ok :: "string \<Rightarrow> bool" where
  "word_ok w \<longleftrightarrow> w \<noteq> [] \<and> (\<forall>c\<in>set w. \<not> py_isspace c)"

lemma py_split_words: "w \<in> set (py_split s) \<Longrightarrow> word_ok w"
proof (induction s rule: py_split.induct)
  case (1 s)
  show ?case
  proof (cases "lstrip s = []")
    case True
    with 1 show ?thesis by (subst (asm) py_split.simps) simp
  next
    case False
    then obtain c cs where s: "lstrip s = c # cs" by (cases "lstrip s") auto
    with False have "\<not> py_isspace c" using lstrip_hd [OF False] by simp
    with s have "word_ok (takeWhile (\<lambda>c. \<not> py_isspace c) (lstrip s))"
      by (auto simp: word_ok_def dest: set_takeWhileD)
    with 1 False show ?thesis by (subst (asm) py_split.simps) auto
  qed
qed

lemma py_split_word: "word_ok w \<Longrightarrow> py_split w = [w]"
proof -
  assume w: "word_ok w"
  then have l: "lstrip w = w" by (intro lstrip_no_space) (auto simp: word_ok_def)
  from w have t: "takeWhile (\<lambda>c. \<not> py_isspace c) w = w" "dropWhile (\<lambda>c. \<not> py_isspace c) w = []"
    by (auto simp: word_ok_def)
  from w have "w \<noteq> []" by (simp add: word_ok_def)
  then show ?thesis by (subst py_split.simps) (simp only: l t py_split_Nil if_False)
qed

lemma py_split_cons: "word_ok w \<Longrightarrow> py_split (w @ CHR 0x20 # s) = w # py_split s"
proof -
  assume w: "word_ok w"
  then have l: "lstrip (w @ CHR 0x20 # s) = w @ CHR 0x20 # s"
    by (intro lstrip_no_space) (cases w; auto simp: word_ok_def)
  have sp: "py_isspace (CHR 0x20)" by (simp add: py_isspace_def)
  from w sp have t: "takeWhile (\<lambda>c. \<not> py_isspace c) (w @ CHR 0x20 # s) = w"
      "dropWhile (\<lambda>c. \<not> py_isspace c) (w @ CHR 0x20 # s) = CHR 0x20 # s"
    by (auto simp: word_ok_def takeWhile_append dropWhile_append)
  have "lstrip (CHR 0x20 # s) = lstrip s" using sp by (simp add: lstrip_def)
  then have "py_split (CHR 0x20 # s) = py_split s"
    by (metis py_split_lstrip)
  with l t w show ?thesis by (subst py_split.simps) simp
qed

lemma py_split_join: "\<forall>w\<in>set ws. word_ok w \<Longrightarrow> py_split (py_join '' '' ws) = ws"
  by (induction "'' ''" ws rule: py_join.induct) (auto simp: py_split_word py_split_cons)

lemma join_split_idem: "py_join '' '' (py_split (py_join '' '' (py_split s))) = py_join '' '' (py_split s)"
  using py_split_join [of "py_split s"] py_split_words by metis

section \<open>Sorted tuples of distinct values\<close>

definition sorted_unique :: "'a::linorder list \<Rightarrow> 'a list" where
  "sorted_unique xs = sort (remdups xs)"

lemma set_sorted_unique [simp]: "set (sorted_unique xs) = set xs"
  by (simp add: sorted_unique_def)

lemma sorted_unique_sorted [simp]: "sorted (sorted_unique xs)"
  by (simp add: sorted_unique_def)

lemma sorted_unique_distinct [simp]: "distinct (sorted_unique xs)"
  by (simp add: sorted_unique_def)

lemma sorted_unique_idem: "sorted xs \<Longrightarrow> distinct xs \<Longrightarrow> sorted_unique xs = xs"
  by (simp add: sorted_unique_def distinct_remdups_id sorted_sort_id)

lemma sorted_unique_eq: "set xs = set ys \<Longrightarrow> sorted_unique xs = sorted_unique ys"
  by (rule sorted_distinct_set_unique) auto

lemma sorted_unique_Nil_iff [simp]: "sorted_unique xs = [] \<longleftrightarrow> xs = []"
  by (metis set_empty set_sorted_unique)

lemma sorted_unique_Nil [simp]: "sorted_unique [] = []"
  by simp

definition list_diff :: "'a list \<Rightarrow> 'a list \<Rightarrow> 'a list" where
  "list_diff xs ys = filter (\<lambda>x. x \<notin> set ys) xs"

lemma set_list_diff [simp]: "set (list_diff xs ys) = set xs - set ys"
  by (auto simp: list_diff_def)

lemma list_diff_Nil_iff: "list_diff xs ys = [] \<longleftrightarrow> set xs \<subseteq> set ys"
  by (auto simp: list_diff_def filter_empty_conv)

section \<open>Dictionaries in insertion order\<close>

text \<open>
  A dict is its list of items in insertion order: assigning to a present key keeps its
  position, a new key goes last. \<open>map_of\<close> is the lookup.
\<close>

fun dict_set :: "'k \<Rightarrow> 'v \<Rightarrow> ('k \<times> 'v) list \<Rightarrow> ('k \<times> 'v) list" where
  "dict_set k v [] = [(k, v)]"
| "dict_set k v ((k', v') # d) = (if k = k' then (k, v) # d else (k', v') # dict_set k v d)"

fun dict_update :: "('k \<times> 'v) list \<Rightarrow> ('k \<times> 'v) list \<Rightarrow> ('k \<times> 'v) list" where
  "dict_update d [] = d"
| "dict_update d ((k, v) # xs) = dict_update (dict_set k v d) xs"

definition dict_of :: "('k \<times> 'v) list \<Rightarrow> ('k \<times> 'v) list" where
  "dict_of xs = dict_update [] xs"

definition dict_get_or :: "('k \<times> 'v) list \<Rightarrow> 'k \<Rightarrow> 'v \<Rightarrow> 'v" where
  "dict_get_or d k v = (case map_of d k of None \<Rightarrow> v | Some x \<Rightarrow> x)"

definition has_key :: "('k \<times> 'v) list \<Rightarrow> 'k \<Rightarrow> bool" where
  "has_key d k \<longleftrightarrow> k \<in> set (map fst d)"

lemma map_of_dict_set [simp]: "map_of (dict_set k v d) = (map_of d)(k \<mapsto> v)"
  by (induction k v d rule: dict_set.induct) (auto simp: fun_eq_iff)

lemma keys_dict_set: "set (map fst (dict_set k v d)) = insert k (set (map fst d))"
  by (induction k v d rule: dict_set.induct) auto

lemma dict_set_values: "set (map snd (dict_set k v d)) \<subseteq> insert v (set (map snd d))"
  by (induction k v d rule: dict_set.induct) auto

lemma distinct_dict_set: "distinct (map fst d) \<Longrightarrow> distinct (map fst (dict_set k v d))"
proof (induction k v d rule: dict_set.induct)
  case (2 k v k' v' d)
  then show ?case using keys_dict_set [of k v d] by auto
qed simp

lemma distinct_dict_update: "distinct (map fst d) \<Longrightarrow> distinct (map fst (dict_update d xs))"
  by (induction d xs rule: dict_update.induct) (auto simp: distinct_dict_set)

lemma distinct_dict_of: "distinct (map fst (dict_of xs))"
  by (simp add: dict_of_def distinct_dict_update)

lemma map_of_dict_update: "map_of (dict_update d xs) = map_of d ++ map_of (rev xs)"
  by (induction d xs rule: dict_update.induct) (auto simp: map_add_def fun_eq_iff split: option.splits)

lemma map_of_dict_of: "map_of (dict_of xs) = map_of (rev xs)"
  by (simp add: dict_of_def map_of_dict_update)

lemma dict_set_fresh: "k \<notin> set (map fst d) \<Longrightarrow> dict_set k v d = d @ [(k, v)]"
  by (induction k v d rule: dict_set.induct) auto

lemma dict_update_fresh:
  "distinct (map fst (d @ xs)) \<Longrightarrow> dict_update d xs = d @ xs"
  by (induction d xs rule: dict_update.induct) (auto simp: dict_set_fresh)

lemma dict_of_distinct: "distinct (map fst xs) \<Longrightarrow> dict_of xs = xs"
  by (simp add: dict_of_def dict_update_fresh)

lemma length_dict_set_le: "length (dict_set k v d) \<le> Suc (length d)"
  by (induction k v d rule: dict_set.induct) auto

lemma length_dict_update_le: "length (dict_update d xs) \<le> length d + length xs"
proof (induction d xs rule: dict_update.induct)
  case (2 d k v xs)
  then show ?case using length_dict_set_le [of k v d] by simp
qed simp

lemma dict_of_Nil [simp]: "dict_of [] = []"
  by (simp add: dict_of_def)

lemma has_key_iff: "has_key d k \<longleftrightarrow> map_of d k \<noteq> None"
  by (simp add: has_key_def map_of_eq_None_iff)

section \<open>Lists that grow while their elements evolve\<close>

definition grown :: "('a \<Rightarrow> 'a \<Rightarrow> bool) \<Rightarrow> 'a list \<Rightarrow> 'a list \<Rightarrow> bool" where
  "grown R xs ys \<longleftrightarrow> length xs \<le> length ys \<and> list_all2 R xs (take (length xs) ys)"

lemma grown_refl: "(\<And>x. R x x) \<Longrightarrow> grown R xs xs"
  by (simp add: grown_def list_all2_refl)

lemma grown_nth: "grown R xs ys \<longleftrightarrow> length xs \<le> length ys \<and> (\<forall>i<length xs. R (xs ! i) (ys ! i))"
  by (auto simp: grown_def list_all2_conv_all_nth)

lemma grown_trans:
  assumes "grown R xs ys" "grown R ys zs" "\<And>x y z. R x y \<Longrightarrow> R y z \<Longrightarrow> R x z"
  shows "grown R xs zs"
  using assms(1,2) unfolding grown_nth by (auto intro: assms(3))

lemma grown_append: "(\<And>x. R x x) \<Longrightarrow> grown R xs (xs @ ys)"
  by (simp add: grown_def list_all2_refl)

lemma grown_map: "(\<And>x. x \<in> set xs \<Longrightarrow> R x (f x)) \<Longrightarrow> grown R xs (map f xs)"
  by (simp add: grown_def list_all2_map2 list_all2_same)

lemma grown_mem: "grown R xs ys \<Longrightarrow> x \<in> set xs \<Longrightarrow> \<exists>y\<in>set ys. R x y"
  unfolding grown_nth in_set_conv_nth by fastforce

section \<open>Mapping some of the elements\<close>

lemma map_if_same: "(\<And>x. P x \<Longrightarrow> g (f x) = g x) \<Longrightarrow> map g (map (\<lambda>x. if P x then f x else x) xs) = map g xs"
  by (induction xs) auto

lemma list_all_map_if:
  "list_all Q xs \<Longrightarrow> (\<And>x. P x \<Longrightarrow> Q x \<longrightarrow> Q (f x)) \<Longrightarrow> list_all Q (map (\<lambda>x. if P x then f x else x) xs)"
  by (induction xs) auto

lemma find_member: "find P xs = Some x \<Longrightarrow> x \<in> set xs \<and> P x"
  by (auto simp: find_Some_iff)

section \<open>Values of PostgreSQL columns\<close>

text \<open>A TEXT value holds no NUL, an INTEGER has 32 bits, a CHAR(64) is padded with spaces.\<close>

definition storable :: "string list \<Rightarrow> bool" where
  "storable xs \<longleftrightarrow> list_all (\<lambda>s. CHR 0x00 \<notin> set s) xs"

definition sql_integer :: "int \<Rightarrow> bool" where
  "sql_integer n \<longleftrightarrow> - (2 ^ 31) \<le> n \<and> n < 2 ^ 31"

definition char64 :: "string \<Rightarrow> string option" where
  "char64 s =
     (if length s \<le> 64 then Some (s @ replicate (64 - length s) (CHR '' ''))
      else if list_all (\<lambda>c. c = CHR '' '') (drop 64 s) then Some (take 64 s)
      else None)"

text \<open>\<open>btrim(s) <> ''\<close>.\<close>

definition sql_nonblank :: "string \<Rightarrow> bool" where
  "sql_nonblank s \<longleftrightarrow> list_ex (\<lambda>c. c \<noteq> CHR '' '') s"

lemma char64_exact: "length s = 64 \<Longrightarrow> char64 s = Some s"
  by (simp add: char64_def)

end
