(* ===== verification/Errors.thy ===== *)
theory Errors
  imports Prelude
begin

text \<open>
  The exception hierarchy of \<open>sovereignflow/domain/errors.py\<close>. A \<open>SovereignFlowError\<close> carries its
  class and its safe message; every other Python exception (\<open>KeyError\<close>, \<open>IndexError\<close>, a driver
  error) is \<open>OtherError\<close> with the name of its class.
\<close>

datatype error_class =
    SovereignFlowError | ValidationError | PolicyViolationError | DomainNotFoundError
  | ProviderProtocolError | DependencyUnavailableError | ConfigurationError
  | PipelineDefinitionError | PipelineExecutionError | ConflictError | IngestionError
  | AuthenticationError

datatype py_exn = Known error_class string | OtherError string

type_synonym 'a result = "py_exn + 'a"

fun error_code_of_class :: "error_class \<Rightarrow> string" where
  "error_code_of_class SovereignFlowError = ''sovereignflow_error''"
| "error_code_of_class ValidationError = ''validation_error''"
| "error_code_of_class PolicyViolationError = ''policy_violation''"
| "error_code_of_class DomainNotFoundError = ''domain_not_found''"
| "error_code_of_class ProviderProtocolError = ''provider_protocol_error''"
| "error_code_of_class DependencyUnavailableError = ''dependency_unavailable''"
| "error_code_of_class ConfigurationError = ''configuration_error''"
| "error_code_of_class PipelineDefinitionError = ''pipeline_definition_error''"
| "error_code_of_class PipelineExecutionError = ''pipeline_execution_error''"
| "error_code_of_class ConflictError = ''conflict''"
| "error_code_of_class IngestionError = ''ingestion_error''"
| "error_code_of_class AuthenticationError = ''authentication_error''"

text \<open>\<open>PipelineDefinitionError\<close> inherits the status of \<open>ConfigurationError\<close>.\<close>

fun http_status_of_class :: "error_class \<Rightarrow> int" where
  "http_status_of_class SovereignFlowError = 500"
| "http_status_of_class ValidationError = 400"
| "http_status_of_class PolicyViolationError = 403"
| "http_status_of_class DomainNotFoundError = 404"
| "http_status_of_class ProviderProtocolError = 502"
| "http_status_of_class DependencyUnavailableError = 503"
| "http_status_of_class ConfigurationError = 500"
| "http_status_of_class PipelineDefinitionError = 500"
| "http_status_of_class PipelineExecutionError = 500"
| "http_status_of_class ConflictError = 409"
| "http_status_of_class IngestionError = 500"
| "http_status_of_class AuthenticationError = 401"

text \<open>\<open>isinstance(exc, SovereignFlowError)\<close> and \<open>isinstance(exc, ValidationError)\<close>.\<close>

fun is_sovereignflow_error :: "py_exn \<Rightarrow> bool" where
  "is_sovereignflow_error (Known _ _) = True"
| "is_sovereignflow_error (OtherError _) = False"

fun is_class :: "error_class \<Rightarrow> py_exn \<Rightarrow> bool" where
  "is_class c (Known c' _) = (c = c')"
| "is_class c (OtherError _) = False"

text \<open>
  \<open>error_code = exc.code if isinstance(exc, SovereignFlowError) else "internal_error"\<close> and the
  safe message, with the fallback text of each caller.
\<close>

fun exn_code :: "py_exn \<Rightarrow> string" where
  "exn_code (Known c _) = error_code_of_class c"
| "exn_code (OtherError _) = ''internal_error''"

fun exn_message :: "string \<Rightarrow> py_exn \<Rightarrow> string" where
  "exn_message fallback (Known _ m) = m"
| "exn_message fallback (OtherError _) = fallback"

text \<open>\<open>except SovereignFlowError: raise\<close> / \<open>except Exception as exc: raise DependencyUnavailableError(m)\<close>.\<close>

definition or_unavailable :: "(py_exn \<Rightarrow> bool) \<Rightarrow> string \<Rightarrow> 'a result \<Rightarrow> 'a result" where
  "or_unavailable keep m r =
     (case r of Inr x \<Rightarrow> Inr x
      | Inl e \<Rightarrow> if keep e then Inl e else Inl (Known DependencyUnavailableError m))"

lemma or_unavailable_Inr [simp]: "or_unavailable k m r = Inr x \<longleftrightarrow> r = Inr x"
  by (cases r) (auto simp: or_unavailable_def)

lemma or_unavailable_simps [simp]:
  "or_unavailable k m (Inr x) = Inr x"
  "k e \<Longrightarrow> or_unavailable k m (Inl e) = Inl e"
  "\<not> k e \<Longrightarrow> or_unavailable k m (Inl e) = Inl (Known DependencyUnavailableError m)"
  by (simp_all add: or_unavailable_def)

lemma exn_code_known: "error_code_of_class c \<noteq> ''internal_error''"
  by (cases c) auto

lemma error_code_inj: "error_code_of_class c = error_code_of_class d \<longleftrightarrow> c = d"
  by (cases c; cases d) auto

end
