(* ===== verification/Values.thy ===== *)
theory Values
  imports Errors
begin

text \<open>
  Python values that pass through pipeline configuration, state variables and metadata
  (\<open>Any\<close> in the code): the JSON-compatible values, lists and tuples kept apart, dictionaries
  with string keys in insertion order. \<open>POther\<close> is any object outside that universe, named by
  its type.
\<close>

datatype py =
    PNone
  | PBool bool
  | PInt int
  | PFloat rat
  | PStr string
  | PTuple "py list"
  | PList "py list"
  | PDict "(string \<times> py) list"
  | POther string

type_synonym mapping = "(string \<times> py) list"

text \<open>\<open>isinstance\<close> tests. A \<open>bool\<close> is an \<open>int\<close> in Python; the code excludes it explicitly.\<close>

fun is_str :: "py \<Rightarrow> bool" where
  "is_str (PStr _) = True"
| "is_str _ = False"

fun is_mapping :: "py \<Rightarrow> bool" where
  "is_mapping (PDict _) = True"
| "is_mapping _ = False"

fun as_str :: "py \<Rightarrow> string option" where
  "as_str (PStr s) = Some s"
| "as_str _ = None"

text \<open>\<open>value or ""\<close> on a possibly missing string value, then \<open>str(...)\<close>: only used on strings.\<close>

fun py_truthy :: "py \<Rightarrow> bool" where
  "py_truthy PNone = False"
| "py_truthy (PBool b) = b"
| "py_truthy (PInt i) = (i \<noteq> 0)"
| "py_truthy (PFloat q) = (q \<noteq> 0)"
| "py_truthy (PStr s) = (s \<noteq> [])"
| "py_truthy (PTuple xs) = (xs \<noteq> [])"
| "py_truthy (PList xs) = (xs \<noteq> [])"
| "py_truthy (PDict d) = (d \<noteq> [])"
| "py_truthy (POther _) = True"

text \<open>\<open>_required\<close> of \<open>domain/models.py\<close>, also in \<open>operations.py\<close> and \<open>dataset_reader.py\<close>.\<close>

definition required :: "string \<Rightarrow> string \<Rightarrow> string result" where
  "required value field_name =
     (let normalized = strip value
      in if normalized = [] then Inl (Known ValidationError (field_name @ '' is required''))
         else Inr normalized)"

definition required_opt :: "string option \<Rightarrow> string \<Rightarrow> string option result" where
  "required_opt value field_name =
     (case value of None \<Rightarrow> Inr None
      | Some v \<Rightarrow> rbind (required v field_name) (\<lambda>x. Inr (Some x)))"

text \<open>\<open>_normalized_values\<close>: the sorted tuple of the distinct stripped values.\<close>

definition normalized_values :: "string list \<Rightarrow> string \<Rightarrow> string list result" where
  "normalized_values values field_name =
     rbind (rmap (\<lambda>v. required v (field_name @ ''[]'')) values) (\<lambda>vs. Inr (sorted_unique vs))"

text \<open>\<open>_immutable_mapping\<close>: a read-only copy; dictionaries of the model are values already.\<close>

definition immutable_mapping :: "mapping option \<Rightarrow> mapping" where
  "immutable_mapping value = (case value of None \<Rightarrow> [] | Some d \<Rightarrow> d)"

section \<open>Well-formed identifiers and label tuples\<close>

definition trimmed :: "string \<Rightarrow> bool" where
  "trimmed s \<longleftrightarrow> s \<noteq> [] \<and> strip s = s"

definition trimmed_opt :: "string option \<Rightarrow> bool" where
  "trimmed_opt v = (case v of None \<Rightarrow> True | Some s \<Rightarrow> trimmed s)"

definition label_tuple :: "string list \<Rightarrow> bool" where
  "label_tuple xs \<longleftrightarrow> sorted xs \<and> distinct xs \<and> (\<forall>x\<in>set xs. trimmed x)"

lemma required_Inr: "required v f = Inr x \<longleftrightarrow> x = strip v \<and> x \<noteq> []"
  by (auto simp: required_def Let_def)

lemma required_Inl:
  "required v f = Inl e \<longleftrightarrow> strip v = [] \<and> e = Known ValidationError (f @ '' is required'')"
  by (auto simp: required_def Let_def)

lemma required_trimmed: "required v f = Inr x \<Longrightarrow> trimmed x"
  by (auto simp: required_Inr trimmed_def)

lemma trimmed_strip [simp]: "trimmed (strip v) \<longleftrightarrow> strip v \<noteq> []"
  by (auto simp: trimmed_def)

lemma required_idem [simp]: "trimmed x \<Longrightarrow> required x f = Inr x"
  by (simp add: trimmed_def required_def)

lemma not_trimmed_Nil [simp]: "\<not> trimmed []"
  by (simp add: trimmed_def)

lemma trimmed_opt_None [simp]: "trimmed_opt None"
  by (simp add: trimmed_opt_def)

lemma required_opt_trimmed: "required_opt v f = Inr x \<Longrightarrow> trimmed_opt x"
  by (auto simp: required_opt_def trimmed_opt_def rbind_eq_Inr required_trimmed split: option.splits)

lemma required_opt_idem [simp]: "trimmed_opt x \<Longrightarrow> required_opt x f = Inr x"
  by (auto simp: required_opt_def trimmed_opt_def split: option.splits)

lemma required_opt_None [simp]: "required_opt None f = Inr None"
  by (simp add: required_opt_def)

lemma required_opt_eq_None [simp]: "required_opt v f = Inr None \<longleftrightarrow> v = None"
  by (auto simp: required_opt_def rbind_eq_Inr split: option.splits)

lemma label_tuple_Nil [simp]: "label_tuple []"
  by (simp add: label_tuple_def)

lemma sorted_unique_trimmed: "\<forall>x\<in>set xs. trimmed x \<Longrightarrow> label_tuple (sorted_unique xs)"
  by (simp add: label_tuple_def)

lemma normalized_values_label_tuple: "normalized_values vs f = Inr xs \<Longrightarrow> label_tuple xs"
  by (auto simp: normalized_values_def rbind_eq_Inr intro!: sorted_unique_trimmed
      dest!: rmap_Inr_ball intro: required_trimmed)

lemma normalized_values_idem [simp]: "label_tuple xs \<Longrightarrow> normalized_values xs f = Inr xs"
  by (simp add: normalized_values_def label_tuple_def rmap_id_ok sorted_unique_idem)

lemma normalized_values_Nil [simp]: "normalized_values [] f = Inr []"
  by simp

lemma rmap_required: "rmap (\<lambda>v. required v f) vs = Inr ys \<Longrightarrow> ys = map strip vs"
  by (induction vs arbitrary: ys) (auto simp: rbind_eq_Inr required_Inr)

lemma normalized_values_set:
  "normalized_values vs f = Inr xs \<Longrightarrow> set xs = strip ` set vs"
  by (auto simp: normalized_values_def rbind_eq_Inr dest!: rmap_required)

lemma normalized_values_cong: "set vs = set ws \<Longrightarrow> label_tuple vs \<Longrightarrow> label_tuple ws \<Longrightarrow> vs = ws"
  by (auto simp: label_tuple_def intro: sorted_distinct_set_unique)

lemmas trimmed_intros = required_trimmed required_opt_trimmed normalized_values_label_tuple

section \<open>Freezing step configuration\<close>

text \<open>
  \<open>_freeze_config_value\<close> and \<open>_freeze_step_config\<close>: nested lists become tuples, keys are
  stripped, anything outside JSON is refused. The dict comprehension lets a later item win
  when two keys are equal after stripping. \<open>repr(key)\<close> in the field name of a message is
  written for keys without quotes or escapes.
\<close>

fun freeze_config_value :: "py \<Rightarrow> string \<Rightarrow> py result"
and freeze_items :: "mapping \<Rightarrow> string \<Rightarrow> mapping result" where
  "freeze_config_value (PDict d) f =
     rbind (freeze_items d f) (\<lambda>items. Inr (PDict (dict_of items)))"
| "freeze_config_value (PList xs) f =
     rbind (rmap (\<lambda>x. freeze_config_value x (f @ ''[]'')) xs) (\<lambda>ys. Inr (PTuple ys))"
| "freeze_config_value (PTuple xs) f =
     rbind (rmap (\<lambda>x. freeze_config_value x (f @ ''[]'')) xs) (\<lambda>ys. Inr (PTuple ys))"
| "freeze_config_value (POther t) f =
     Inl (Known ValidationError (f @ '' must contain only JSON-compatible values''))"
| "freeze_config_value v f = Inr v"
| "freeze_items [] f = Inr []"
| "freeze_items ((k, v) # d) f =
     rbind (required k (f @ '' key'')) (\<lambda>k'.
     rbind (freeze_config_value v (f @ ''.'' @ k)) (\<lambda>v'.
     rbind (freeze_items d f) (\<lambda>rest. Inr ((k', v') # rest))))"

definition freeze_step_config :: "mapping \<Rightarrow> mapping result" where
  "freeze_step_config value =
     rbind (rmap (\<lambda>(k, v).
       rbind (required k ''PipelineStepDefinition.config key'') (\<lambda>k'.
       rbind (freeze_config_value v (''PipelineStepDefinition.config['' @ quoted k @ '']'')) (\<lambda>v'.
         Inr (k', v')))) value) (\<lambda>items. Inr (dict_of items))"

text \<open>Frozen values: no list, no foreign object, trimmed distinct keys at every level.\<close>

fun frozen :: "py \<Rightarrow> bool" and frozen_items :: "mapping \<Rightarrow> bool" where
  "frozen (PDict d) = (frozen_items d \<and> distinct (map fst d))"
| "frozen (PTuple xs) = list_all frozen xs"
| "frozen (PList _) = False"
| "frozen (POther _) = False"
| "frozen _ = True"
| "frozen_items [] = True"
| "frozen_items ((k, v) # d) = (trimmed k \<and> frozen v \<and> frozen_items d)"

lemma frozen_items_iff: "frozen_items d \<longleftrightarrow> (\<forall>(k, v)\<in>set d. trimmed k \<and> frozen v)"
  by (induction d) auto

lemma set_dict_set: "set (dict_set k v d) \<subseteq> insert (k, v) (set d)"
  by (induction k v d rule: dict_set.induct) auto

lemma set_dict_update: "set (dict_update d xs) \<subseteq> set d \<union> set xs"
proof (induction d xs rule: dict_update.induct)
  case (2 d k v xs)
  then show ?case using set_dict_set [of k v d] by auto
qed simp

lemma set_dict_of: "set (dict_of xs) \<subseteq> set xs"
  using set_dict_update [of "[]" xs] by (simp add: dict_of_def)

lemma frozen_items_dict_of: "frozen_items xs \<Longrightarrow> frozen_items (dict_of xs)"
  using set_dict_of [of xs] by (fastforce simp: frozen_items_iff)

lemma freeze_frozen:
  "freeze_config_value v f = Inr v' \<Longrightarrow> frozen v'"
  "freeze_items d f = Inr d' \<Longrightarrow> frozen_items d'"
proof (induction v f and d f arbitrary: v' and d' rule: freeze_config_value_freeze_items.induct)
  case (2 xs f)
  then show ?case
    by (fastforce simp: rbind_eq_Inr list_all_iff dest!: rmap_Inr_ball)
next
  case (3 xs f)
  then show ?case
    by (fastforce simp: rbind_eq_Inr list_all_iff dest!: rmap_Inr_ball)
qed (auto simp: rbind_eq_Inr frozen_items_dict_of distinct_dict_of required_trimmed)

lemma freeze_idem:
  "frozen v \<Longrightarrow> freeze_config_value v f = Inr v"
  "frozen_items d \<Longrightarrow> freeze_items d f = Inr d"
  by (induction v f and d f rule: freeze_config_value_freeze_items.induct)
    (auto simp: dict_of_distinct list_all_iff rmap_id_ok)

lemma freeze_step_config_frozen:
  assumes "freeze_step_config c = Inr c'"
  shows "frozen (PDict c')"
proof -
  from assms obtain items where items: "c' = dict_of items"
    "rmap (\<lambda>(k, v).
       rbind (required k ''PipelineStepDefinition.config key'') (\<lambda>k'.
       rbind (freeze_config_value v (''PipelineStepDefinition.config['' @ quoted k @ '']'')) (\<lambda>v'.
         Inr (k', v')))) c = Inr items"
    by (auto simp: freeze_step_config_def rbind_eq_Inr)
  from items(2) have "frozen_items items"
    by (force simp: frozen_items_iff rbind_eq_Inr dest!: rmap_Inr_ball
        intro: required_trimmed freeze_frozen)
  with items(1) show ?thesis
    by (simp add: frozen_items_dict_of distinct_dict_of)
qed

lemma freeze_step_config_idem:
  assumes "frozen (PDict c)"
  shows "freeze_step_config c = Inr c"
proof -
  from assms have "\<And>k v. (k, v) \<in> set c \<Longrightarrow> trimmed k \<and> frozen v"
    by (auto simp: frozen_items_iff)
  then have "rmap (\<lambda>(k, v).
       rbind (required k ''PipelineStepDefinition.config key'') (\<lambda>k'.
       rbind (freeze_config_value v (''PipelineStepDefinition.config['' @ quoted k @ '']'')) (\<lambda>v'.
         Inr (k', v')))) c = Inr c"
    by (intro rmap_id_ok) (auto simp: freeze_idem)
  with assms show ?thesis by (simp add: freeze_step_config_def dict_of_distinct)
qed

text \<open>A UUID is written without surrounding space, and the text the server gives back denotes it.\<close>

definition uuid_texts :: "(string \<Rightarrow> string option) \<Rightarrow> bool" where
  "uuid_texts f \<longleftrightarrow> (\<forall>s u. f s = Some u \<longrightarrow> trimmed s \<and> f u = Some u)"

end
