(* ===== verification/Security.thy ===== *)
theory Security
  imports Values
begin

text \<open>
  Security models of \<open>sovereignflow/domain/models.py\<close> (lines 12--256): clearance levels,
  classification labels, the security of documents and subjects, and the two visibility
  decisions. A dataclass is a record; its \<open>__post_init__\<close> is a function from the record of the
  raw arguments to the checked and normalised record, so \<open>dataclasses.replace\<close> is an update
  followed by the same function. Enumerations are datatypes, so the branches that reject a
  value outside the enumeration are unreachable here.
\<close>

section \<open>Enumerations\<close>

datatype search_mode = SEMANTIC | BM25 | HYBRID

datatype graph_direction = OUTGOING | INCOMING | BOTH

datatype security_model_kind = NO_MODEL | CLEARANCE_LEVEL | CLASSIFICATION_LABELS

datatype trust_boundary = INTERNAL | EXTERNAL

datatype external_transmission_policy = ALLOWED | FORBIDDEN

text \<open>\<open>SearchMode(raw)\<close>, \<open>GraphDirection(raw)\<close>, \<open>ExternalTransmissionPolicy(raw)\<close>: \<open>None\<close> is the \<open>ValueError\<close>.\<close>

definition search_mode_of :: "string \<Rightarrow> search_mode option" where
  "search_mode_of raw =
     (if raw = ''semantic'' then Some SEMANTIC else if raw = ''bm25'' then Some BM25
      else if raw = ''hybrid'' then Some HYBRID else None)"

definition graph_direction_of :: "string \<Rightarrow> graph_direction option" where
  "graph_direction_of raw =
     (if raw = ''outgoing'' then Some OUTGOING else if raw = ''incoming'' then Some INCOMING
      else if raw = ''both'' then Some BOTH else None)"

definition external_transmission_of :: "string \<Rightarrow> external_transmission_policy option" where
  "external_transmission_of raw =
     (if raw = ''allowed'' then Some ALLOWED else if raw = ''forbidden'' then Some FORBIDDEN
      else None)"

section \<open>Clearance levels\<close>

record clearance_level_model =
  levels :: "(string \<times> int) list"

definition clearance_level_step :: "string \<times> py \<Rightarrow> (string \<times> int) list \<Rightarrow> (string \<times> int) list result"
  where
  "clearance_level_step item normalized =
     rbind (required (fst item) ''ClearanceLevelModel.levels[]'') (\<lambda>normalized_label.
       case snd item of
         PInt value \<Rightarrow>
           if value < 0
           then Inl (Known ValidationError ''ClearanceLevelModel levels must be non-negative integers'')
           else Inr (dict_set normalized_label value normalized)
       | _ \<Rightarrow> Inl (Known ValidationError ''ClearanceLevelModel levels must be non-negative integers''))"

definition clearance_level_model_post_init :: "mapping \<Rightarrow> clearance_level_model result" where
  "clearance_level_model_post_init raw =
     (if raw = [] then Inl (Known ValidationError ''ClearanceLevelModel.levels cannot be empty'')
      else rbind (rfold clearance_level_step raw []) (\<lambda>normalized.
        if length normalized \<noteq> length raw
        then Inl (Known ValidationError ''ClearanceLevelModel levels must be unique'')
        else Inr \<lparr>levels = normalized\<rparr>))"

definition clearance_value :: "clearance_level_model \<Rightarrow> string \<Rightarrow> string \<Rightarrow> int result" where
  "clearance_value m label field_name =
     rbind (required label field_name) (\<lambda>normalized.
       case map_of (levels m) normalized of
         Some v \<Rightarrow> Inr v
       | None \<Rightarrow> Inl (Known ValidationError (field_name @ '' is not allowed by the clearance model'')))"

definition allowed_document_labels :: "clearance_level_model \<Rightarrow> string \<Rightarrow> string list result" where
  "allowed_document_labels m subject_label =
     rbind (clearance_value m subject_label ''SubjectSecurity.clearance_label'') (\<lambda>subject_value.
       Inr (sort (map fst (filter (\<lambda>(label, value). value \<le> subject_value) (levels m)))))"

definition clearance_level_model_ok :: "clearance_level_model \<Rightarrow> bool" where
  "clearance_level_model_ok m \<longleftrightarrow> levels m \<noteq> [] \<and> distinct (map fst (levels m)) \<and>
     (\<forall>(l, v)\<in>set (levels m). trimmed l \<and> 0 \<le> v)"

section \<open>Classification labels\<close>

record classification_labels_model =
  labels_universe_subset :: "string list"

definition classification_labels_model_post_init ::
    "classification_labels_model \<Rightarrow> classification_labels_model result" where
  "classification_labels_model_post_init m =
     rbind (normalized_values (labels_universe_subset m)
              ''ClassificationLabelsModel.labels_universe_subset'') (\<lambda>ls.
       if ls = []
       then Inl (Known ValidationError
              ''ClassificationLabelsModel.labels_universe_subset cannot be empty'')
       else Inr (m\<lparr>labels_universe_subset := ls\<rparr>))"

definition validate_labels ::
    "classification_labels_model \<Rightarrow> string list \<Rightarrow> string \<Rightarrow> string list result" where
  "validate_labels m labels field_name =
     rbind (normalized_values labels field_name) (\<lambda>normalized.
       let unknown = list_diff normalized (labels_universe_subset m)
       in if unknown \<noteq> []
          then Inl (Known ValidationError (field_name @
                 '' contains labels outside the configured universe: '' @ py_join '', '' unknown))
          else Inr normalized)"

section \<open>The security model of a domain\<close>

record security_model =
  model_kind :: security_model_kind
  model_clearance_level :: "clearance_level_model option"
  model_classification_labels :: "classification_labels_model option"

definition security_model_none :: security_model where
  "security_model_none =
     \<lparr>model_kind = NO_MODEL, model_clearance_level = None, model_classification_labels = None\<rparr>"

definition security_model_post_init :: "security_model \<Rightarrow> security_model result" where
  "security_model_post_init m =
     (case model_kind m of
        NO_MODEL \<Rightarrow>
          if model_clearance_level m \<noteq> None \<or> model_classification_labels m \<noteq> None
          then Inl (Known ValidationError ''SecurityModel none must not define security details'')
          else Inr m
      | CLEARANCE_LEVEL \<Rightarrow>
          if model_clearance_level m = None \<or> model_classification_labels m \<noteq> None
          then Inl (Known ValidationError ''SecurityModel clearance_level requires levels only'')
          else Inr m
      | CLASSIFICATION_LABELS \<Rightarrow>
          if model_classification_labels m = None \<or> model_clearance_level m \<noteq> None
          then Inl (Known ValidationError
                 ''SecurityModel classification_labels requires labels universe only'')
          else Inr m)"

text \<open>A model whose parts went through their constructors.\<close>

definition security_model_ok :: "security_model \<Rightarrow> bool" where
  "security_model_ok m \<longleftrightarrow>
     security_model_post_init m = Inr m \<and>
     (case model_clearance_level m of None \<Rightarrow> True | Some c \<Rightarrow> clearance_level_model_ok c) \<and>
     (case model_classification_labels m of None \<Rightarrow> True
      | Some c \<Rightarrow> label_tuple (labels_universe_subset c) \<and> labels_universe_subset c \<noteq> [])"

text \<open>\<open>_required_model\<close>.\<close>

definition required_model :: "'a option \<Rightarrow> string \<Rightarrow> 'a result" where
  "required_model value name =
     (case value of None \<Rightarrow> Inl (Known ValidationError (''SecurityModel.'' @ name @ '' is required''))
      | Some v \<Rightarrow> Inr v)"

section \<open>Security of documents and subjects\<close>

record document_security =
  doc_clearance_label :: "string option"
  doc_classification_labels :: "string list"

definition document_security_post_init :: "document_security \<Rightarrow> document_security result" where
  "document_security_post_init d =
     rbind (required_opt (doc_clearance_label d) ''DocumentSecurity.clearance_label'') (\<lambda>c.
     rbind (normalized_values (doc_classification_labels d)
              ''DocumentSecurity.classification_labels'') (\<lambda>ls.
       Inr (d\<lparr>doc_clearance_label := c, doc_classification_labels := ls\<rparr>)))"

record subject_security =
  subj_clearance_label :: "string option"
  subj_classification_labels :: "string list"

definition subject_security_post_init :: "subject_security \<Rightarrow> subject_security result" where
  "subject_security_post_init s =
     rbind (required_opt (subj_clearance_label s) ''SubjectSecurity.clearance_label'') (\<lambda>c.
     rbind (normalized_values (subj_classification_labels s)
              ''SubjectSecurity.classification_labels'') (\<lambda>ls.
       Inr (s\<lparr>subj_clearance_label := c, subj_classification_labels := ls\<rparr>)))"

definition document_security_ok :: "document_security \<Rightarrow> bool" where
  "document_security_ok d \<longleftrightarrow>
     trimmed_opt (doc_clearance_label d) \<and> label_tuple (doc_classification_labels d)"

definition subject_security_ok :: "subject_security \<Rightarrow> bool" where
  "subject_security_ok s \<longleftrightarrow>
     trimmed_opt (subj_clearance_label s) \<and> label_tuple (subj_classification_labels s)"

section \<open>Visibility decisions\<close>

record security_decision =
  decision_allowed :: bool
  decision_reason_code :: string

definition security_decision_post_init :: "security_decision \<Rightarrow> security_decision result" where
  "security_decision_post_init d =
     rbind (required (decision_reason_code d) ''reason_code'') (\<lambda>r.
       Inr (d\<lparr>decision_reason_code := r\<rparr>))"

text \<open>\<open>SecurityDecision(allowed, reason)\<close>.\<close>

definition decide :: "bool \<Rightarrow> string \<Rightarrow> security_decision result" where
  "decide b reason =
     security_decision_post_init \<lparr>decision_allowed = b, decision_reason_code = reason\<rparr>"

definition document_visible_to_subject ::
    "security_model \<Rightarrow> document_security \<Rightarrow> subject_security \<Rightarrow> security_decision result" where
  "document_visible_to_subject model document subject =
     (case model_kind model of
        NO_MODEL \<Rightarrow> decide True ''security_model_none''
      | CLEARANCE_LEVEL \<Rightarrow>
          (case doc_clearance_label document of
             None \<Rightarrow> decide False ''document_clearance_missing''
           | Some document_label \<Rightarrow>
               (case subj_clearance_label subject of
                  None \<Rightarrow> decide False ''subject_clearance_missing''
                | Some subject_label \<Rightarrow>
                    rbind (required_model (model_clearance_level model) ''clearance_level'') (\<lambda>clearance.
                    rbind (clearance_value clearance document_label
                             ''DocumentSecurity.clearance_label'') (\<lambda>document_value.
                    rbind (clearance_value clearance subject_label
                             ''SubjectSecurity.clearance_label'') (\<lambda>subject_value.
                      decide (subject_value \<ge> document_value)
                        (if subject_value \<ge> document_value then ''clearance_allowed''
                         else ''clearance_denied''))))))
      | CLASSIFICATION_LABELS \<Rightarrow>
          rbind (required_model (model_classification_labels model) ''classification_labels'') (\<lambda>labels_model.
          rbind (validate_labels labels_model (doc_classification_labels document)
                   ''DocumentSecurity.classification_labels'') (\<lambda>document_labels.
          rbind (validate_labels labels_model (subj_classification_labels subject)
                   ''SubjectSecurity.classification_labels'') (\<lambda>subject_labels.
            let allowed = list_all (\<lambda>l. l \<in> set subject_labels) document_labels
            in decide allowed (if allowed then ''classification_labels_allowed''
                               else ''classification_labels_denied'')))))"

definition acl_visible_to_subject :: "string list \<Rightarrow> string list \<Rightarrow> security_decision result" where
  "acl_visible_to_subject document_acl_labels subject_acl_labels =
     rbind (normalized_values document_acl_labels ''document_acl_labels'') (\<lambda>document_labels.
       if document_labels = [] then decide True ''acl_public''
       else rbind (normalized_values subject_acl_labels ''subject_acl_labels'') (\<lambda>subject_labels.
         let allowed = list_ex (\<lambda>l. l \<in> set subject_labels) document_labels
         in decide allowed (if allowed then ''acl_allowed'' else ''acl_denied'')))"

section \<open>Constructor facts\<close>

lemma clearance_level_step_keys:
  assumes "clearance_level_step kv acc = Inr acc'"
  shows "set (map fst acc') = insert (strip (fst kv)) (set (map fst acc))"
    "distinct (map fst acc) \<Longrightarrow> distinct (map fst acc')"
    "\<forall>(l, v)\<in>set acc. trimmed l \<and> 0 \<le> v \<Longrightarrow> \<forall>(l, v)\<in>set acc'. trimmed l \<and> 0 \<le> v"
proof -
  from assms obtain l i where *: "required (fst kv) ''ClearanceLevelModel.levels[]'' = Inr l"
      "snd kv = PInt i" "0 \<le> i" "acc' = dict_set l i acc"
    by (cases "snd kv") (auto simp: clearance_level_step_def rbind_eq_Inr split: if_splits)
  then have l: "l = strip (fst kv)" "trimmed l" by (auto simp: required_Inr trimmed_def)
  with * show "set (map fst acc') = insert (strip (fst kv)) (set (map fst acc))"
    by (simp only: keys_dict_set)
  from * show "distinct (map fst acc) \<Longrightarrow> distinct (map fst acc')"
    by (simp add: distinct_dict_set)
  from * l show "\<forall>(l, v)\<in>set acc. trimmed l \<and> 0 \<le> v \<Longrightarrow> \<forall>(l, v)\<in>set acc'. trimmed l \<and> 0 \<le> v"
    using set_dict_set [of l i acc] by fastforce
qed

lemma clearance_levels_fold:
  "rfold clearance_level_step raw acc = Inr out \<Longrightarrow>
   distinct (map fst acc) \<Longrightarrow> \<forall>(l, v)\<in>set acc. trimmed l \<and> 0 \<le> v \<Longrightarrow>
   distinct (map fst out) \<and> (\<forall>(l, v)\<in>set out. trimmed l \<and> 0 \<le> v) \<and>
   set (map fst out) = set (map fst acc) \<union> strip ` set (map fst raw)"
proof (induction raw arbitrary: acc)
  case (Cons kv raw)
  from Cons.prems(1) obtain acc' where step: "clearance_level_step kv acc = Inr acc'"
    and rest: "rfold clearance_level_step raw acc' = Inr out" by (auto simp: rbind_eq_Inr)
  note keys = clearance_level_step_keys [OF step]
  from Cons.IH [OF rest keys(2) keys(3)] Cons.prems(2,3) keys(1) show ?case by auto
qed auto

lemma clearance_level_model_post_init_ok:
  "clearance_level_model_post_init raw = Inr m \<Longrightarrow> clearance_level_model_ok m"
  using clearance_levels_fold [of raw "[]"]
  by (auto simp: clearance_level_model_post_init_def clearance_level_model_ok_def rbind_eq_Inr
      split: if_splits)

lemma classification_labels_model_post_init_ok:
  "classification_labels_model_post_init m = Inr m' \<Longrightarrow>
   label_tuple (labels_universe_subset m') \<and> labels_universe_subset m' \<noteq> []"
  by (auto simp: classification_labels_model_post_init_def rbind_eq_Inr
      normalized_values_label_tuple split: if_splits)

lemma document_security_post_init_ok:
  "document_security_post_init d = Inr d' \<Longrightarrow> document_security_ok d'"
  by (auto simp: document_security_post_init_def document_security_ok_def rbind_eq_Inr
      intro: trimmed_intros)

lemma document_security_post_init_idem:
  "document_security_ok d \<Longrightarrow> document_security_post_init d = Inr d"
  by (simp add: document_security_post_init_def document_security_ok_def)

lemma subject_security_post_init_ok:
  "subject_security_post_init s = Inr s' \<Longrightarrow> subject_security_ok s'"
  by (auto simp: subject_security_post_init_def subject_security_ok_def rbind_eq_Inr
      intro: trimmed_intros)

lemma subject_security_post_init_idem:
  "subject_security_ok s \<Longrightarrow> subject_security_post_init s = Inr s"
  by (simp add: subject_security_post_init_def subject_security_ok_def)

lemma security_model_post_init_id: "security_model_post_init m = Inr m' \<Longrightarrow> m' = m"
  by (auto simp: security_model_post_init_def split: security_model_kind.splits if_splits)

lemma security_model_ok_cases:
  assumes "security_model_ok m"
  obtains (none) "model_kind m = NO_MODEL" "model_clearance_level m = None"
      "model_classification_labels m = None"
  | (clearance) c where "model_kind m = CLEARANCE_LEVEL" "model_clearance_level m = Some c"
      "clearance_level_model_ok c" "model_classification_labels m = None"
  | (labels) c where "model_kind m = CLASSIFICATION_LABELS" "model_clearance_level m = None"
      "model_classification_labels m = Some c" "label_tuple (labels_universe_subset c)"
  using assms
  by (cases "model_kind m")
    (auto simp: security_model_ok_def security_model_post_init_def split: if_splits option.splits)

section \<open>Decision facts\<close>

lemma strip_underscore: "strip (CHR 0x61 # s) = CHR 0x61 # rstrip s"
  by (simp add: strip_def lstrip_def rstrip_Cons py_isspace_def)

lemma decide_simp [simp]:
  "trimmed r \<Longrightarrow> decide b r = Inr \<lparr>decision_allowed = b, decision_reason_code = r\<rparr>"
  by (simp add: decide_def security_decision_post_init_def)

lemma trimmed_codes [simp]:
  "trimmed ''security_model_none''" "trimmed ''document_clearance_missing''"
  "trimmed ''subject_clearance_missing''" "trimmed ''clearance_allowed''"
  "trimmed ''clearance_denied''" "trimmed ''classification_labels_allowed''"
  "trimmed ''classification_labels_denied''" "trimmed ''acl_public''" "trimmed ''acl_allowed''"
  "trimmed ''acl_denied''"
  by (simp_all add: trimmed_def strip_nonspace py_isspace_def)

lemma clearance_value_Inr:
  "clearance_value m l f = Inr v \<longleftrightarrow> strip l \<noteq> [] \<and> map_of (levels m) (strip l) = Some v"
  by (auto simp: clearance_value_def rbind_eq_Inr required_Inr split: option.splits)

lemma clearance_value_nonneg:
  "clearance_level_model_ok m \<Longrightarrow> clearance_value m l f = Inr v \<Longrightarrow> 0 \<le> v"
  by (auto simp: clearance_level_model_ok_def clearance_value_Inr dest!: map_of_SomeD)

lemma allowed_document_labels_iff:
  assumes "clearance_level_model_ok m" "allowed_document_labels m s = Inr ls"
    "clearance_value m s ''SubjectSecurity.clearance_label'' = Inr sv"
  shows "l \<in> set ls \<longleftrightarrow> (\<exists>v. map_of (levels m) l = Some v \<and> v \<le> sv)"
  using assms
  by (force simp: allowed_document_labels_def clearance_level_model_ok_def map_of_eq_Some_iff)

lemma validate_labels_Inr:
  "validate_labels m ls f = Inr xs \<longleftrightarrow>
     normalized_values ls f = Inr xs \<and> set xs \<subseteq> set (labels_universe_subset m)"
  by (auto simp: validate_labels_def rbind_eq_Inr Let_def list_diff_Nil_iff)

lemma validate_labels_set:
  "label_tuple ls \<Longrightarrow> validate_labels m ls f = Inr xs \<Longrightarrow> xs = ls"
  by (auto simp: validate_labels_Inr)

text \<open>A decision that was reached and is positive.\<close>

definition granted :: "security_decision result \<Rightarrow> bool" where
  "granted r = (case r of Inl _ \<Rightarrow> False | Inr d \<Rightarrow> decision_allowed d)"

lemma granted_simps [simp]:
  "granted (Inl e) = False"
  "granted (Inr d) = decision_allowed d"
  by (simp_all add: granted_def)

lemma granted_rbind: "granted (rbind m f) \<longleftrightarrow> (\<exists>x. m = Inr x \<and> granted (f x))"
  by (cases m) auto

lemma visible_none: "model_kind m = NO_MODEL \<Longrightarrow> granted (document_visible_to_subject m d s)"
  by (simp add: document_visible_to_subject_def)

lemma visible_clearance:
  assumes "model_kind m = CLEARANCE_LEVEL" "model_clearance_level m = Some c"
  shows "granted (document_visible_to_subject m d s) \<longleftrightarrow>
    (\<exists>dl sl dv sv. doc_clearance_label d = Some dl \<and> subj_clearance_label s = Some sl \<and>
       clearance_value c dl ''DocumentSecurity.clearance_label'' = Inr dv \<and>
       clearance_value c sl ''SubjectSecurity.clearance_label'' = Inr sv \<and> dv \<le> sv)"
  using assms
  by (auto simp: document_visible_to_subject_def required_model_def granted_rbind
      split: option.splits)

lemma visible_labels:
  assumes "model_kind m = CLASSIFICATION_LABELS" "model_classification_labels m = Some c"
  shows "granted (document_visible_to_subject m d s) \<longleftrightarrow>
    (\<exists>dls sls. validate_labels c (doc_classification_labels d)
        ''DocumentSecurity.classification_labels'' = Inr dls \<and>
      validate_labels c (subj_classification_labels s)
        ''SubjectSecurity.classification_labels'' = Inr sls \<and> set dls \<subseteq> set sls)"
  using assms
  by (auto simp: document_visible_to_subject_def required_model_def granted_rbind Let_def
      list_all_iff)

lemma acl_visible_iff:
  assumes "label_tuple dls" "label_tuple sls"
  shows "granted (acl_visible_to_subject dls sls) \<longleftrightarrow> dls = [] \<or> set dls \<inter> set sls \<noteq> {}"
  using assms by (auto simp: acl_visible_to_subject_def granted_rbind Let_def list_ex_iff)

end
