(* ===== verification/Documents.thy ===== *)
theory Documents
  imports Security
begin

text \<open>
  Documents, retrieval and graph data of \<open>sovereignflow/domain/models.py\<close> (lines 480--759):
  graph nodes and relationships, chunks, the retrieval and graph profiles of a domain, search and
  traversal requests, hits and citations.
\<close>

section \<open>Graph nodes and relationships\<close>

record graph_node_ref =
  node_source_id :: string
  node_chunk_id :: string

definition graph_node_ref_post_init :: "graph_node_ref \<Rightarrow> graph_node_ref result" where
  "graph_node_ref_post_init n =
     rbind (required (node_source_id n) ''GraphNodeRef.source_id'') (\<lambda>s.
     rbind (required (node_chunk_id n) ''GraphNodeRef.chunk_id'') (\<lambda>c.
       Inr (n\<lparr>node_source_id := s, node_chunk_id := c\<rparr>)))"

definition node_ref :: "string \<Rightarrow> string \<Rightarrow> graph_node_ref" where
  "node_ref s c = \<lparr>node_source_id = s, node_chunk_id = c\<rparr>"

record graph_relationship =
  rel_from_node :: graph_node_ref
  rel_to_node :: graph_node_ref
  rel_type :: string
  rel_metadata :: mapping

definition graph_relationship_post_init :: "graph_relationship \<Rightarrow> graph_relationship result" where
  "graph_relationship_post_init r =
     rbind (required (rel_type r) ''GraphRelationship.relationship_type'') (\<lambda>t.
       Inr (r\<lparr>rel_type := t\<rparr>))"

section \<open>Document chunks\<close>

record document_chunk =
  chunk_id :: string
  chunk_domain :: string
  chunk_tenant_id :: string
  chunk_source_id :: string
  chunk_text :: string
  chunk_source_uri :: "string option"
  chunk_metadata :: mapping
  chunk_acl_labels :: "string list"
  chunk_security :: document_security

definition document_chunk_post_init :: "document_chunk \<Rightarrow> document_chunk result" where
  "document_chunk_post_init c =
     rbind (required (chunk_id c) ''DocumentChunk.chunk_id'') (\<lambda>i.
     rbind (required (chunk_domain c) ''DocumentChunk.domain'') (\<lambda>d.
     rbind (required (chunk_tenant_id c) ''DocumentChunk.tenant_id'') (\<lambda>t.
     rbind (required (chunk_source_id c) ''DocumentChunk.source_id'') (\<lambda>s.
     rbind (required (chunk_text c) ''DocumentChunk.text'') (\<lambda>x.
     rbind (normalized_values (chunk_acl_labels c) ''DocumentChunk.acl_labels'') (\<lambda>a.
       Inr (c\<lparr>chunk_id := i, chunk_domain := d, chunk_tenant_id := t, chunk_source_id := s,
              chunk_text := x, chunk_acl_labels := a\<rparr>)))))))"

definition document_chunk_ok :: "document_chunk \<Rightarrow> bool" where
  "document_chunk_ok c \<longleftrightarrow> trimmed (chunk_id c) \<and> trimmed (chunk_domain c) \<and>
     trimmed (chunk_tenant_id c) \<and> trimmed (chunk_source_id c) \<and> trimmed (chunk_text c) \<and>
     label_tuple (chunk_acl_labels c)"

definition chunk_node :: "document_chunk \<Rightarrow> graph_node_ref" where
  "chunk_node c = node_ref (chunk_source_id c) (chunk_id c)"

section \<open>Domain profiles\<close>

record retrieval_profile =
  retrieval_mode :: search_mode
  retrieval_top_k :: int
  retrieval_max_context_characters :: int
  retrieval_filters :: mapping
  retrieval_allowed_filter_fields :: "string list"

definition retrieval_profile_post_init :: "retrieval_profile \<Rightarrow> retrieval_profile result" where
  "retrieval_profile_post_init r =
     (if retrieval_top_k r < 1
      then Inl (Known ValidationError ''RetrievalProfile.top_k must be greater than zero'')
      else if retrieval_max_context_characters r < 1
      then Inl (Known ValidationError
             ''RetrievalProfile.max_context_characters must be greater than zero'')
      else rbind (normalized_values (retrieval_allowed_filter_fields r)
                    ''RetrievalProfile.allowed_filter_fields'') (\<lambda>f.
        Inr (r\<lparr>retrieval_allowed_filter_fields := f\<rparr>)))"

record graph_traversal_profile =
  profile_enabled :: bool
  profile_max_depth :: int
  profile_max_nodes :: int
  profile_direction :: graph_direction
  profile_relationship_types :: "string list"

definition graph_traversal_profile_post_init ::
    "graph_traversal_profile \<Rightarrow> graph_traversal_profile result" where
  "graph_traversal_profile_post_init g =
     (if profile_max_depth g < 1
      then Inl (Known ValidationError ''GraphTraversalProfile.max_depth must be greater than zero'')
      else if profile_max_nodes g < 1
      then Inl (Known ValidationError ''GraphTraversalProfile.max_nodes must be greater than zero'')
      else rbind (normalized_values (profile_relationship_types g)
                    ''GraphTraversalProfile.relationship_types'') (\<lambda>t.
        Inr (g\<lparr>profile_relationship_types := t\<rparr>)))"

record domain_profile =
  domain_name :: string
  domain_description :: string
  domain_collection :: string
  domain_tenant_id :: string
  domain_prompt_name :: string
  domain_allow_external_model :: bool
  domain_retrieval :: retrieval_profile
  domain_graph :: graph_traversal_profile
  domain_pipeline_name :: string
  domain_allowed_pipeline_names :: "string list"
  domain_disclaimer :: string
  domain_allowed_acl_labels :: "string list"
  domain_security_model :: security_model
  domain_require_travel_permission :: bool

definition domain_profile_post_init :: "domain_profile \<Rightarrow> domain_profile result" where
  "domain_profile_post_init p =
     rbind (required (domain_name p) ''DomainProfile.name'') (\<lambda>n.
     rbind (required (domain_collection p) ''DomainProfile.collection'') (\<lambda>c.
     rbind (required (domain_tenant_id p) ''DomainProfile.tenant_id'') (\<lambda>t.
     rbind (required (domain_prompt_name p) ''DomainProfile.prompt_name'') (\<lambda>pn.
     rbind (required (domain_pipeline_name p) ''DomainProfile.pipeline_name'') (\<lambda>pipe.
     rbind (rmap (\<lambda>x. required x ''DomainProfile.allowed_pipeline_names[]'')
              (domain_allowed_pipeline_names p)) (\<lambda>names.
     rbind (normalized_values (domain_allowed_acl_labels p) ''DomainProfile.allowed_acl_labels'') (\<lambda>a.
       Inr (p\<lparr>domain_name := n, domain_collection := c, domain_tenant_id := t,
              domain_prompt_name := pn, domain_pipeline_name := pipe,
              domain_allowed_pipeline_names := sorted_unique (names @ [pipe]),
              domain_allowed_acl_labels := a\<rparr>))))))))"

definition domain_profile_ok :: "domain_profile \<Rightarrow> bool" where
  "domain_profile_ok p \<longleftrightarrow> trimmed (domain_name p) \<and> trimmed (domain_collection p) \<and>
     trimmed (domain_tenant_id p) \<and> trimmed (domain_prompt_name p) \<and>
     trimmed (domain_pipeline_name p) \<and> label_tuple (domain_allowed_pipeline_names p) \<and>
     domain_pipeline_name p \<in> set (domain_allowed_pipeline_names p) \<and>
     label_tuple (domain_allowed_acl_labels p)"

section \<open>Search and traversal\<close>

record search_request =
  search_query :: string
  search_domain :: string
  search_tenant_id :: string
  search_top_k :: int
  search_request_mode :: search_mode
  search_filters :: mapping
  search_allowed_acl_labels :: "string list"
  search_security_model :: security_model
  search_subject_security :: subject_security

definition search_request_post_init :: "search_request \<Rightarrow> search_request result" where
  "search_request_post_init r =
     rbind (required (search_query r) ''SearchRequest.query'') (\<lambda>q.
     rbind (required (search_domain r) ''SearchRequest.domain'') (\<lambda>d.
     rbind (required (search_tenant_id r) ''SearchRequest.tenant_id'') (\<lambda>t.
       if search_top_k r < 1
       then Inl (Known ValidationError ''SearchRequest.top_k must be greater than zero'')
       else rbind (normalized_values (search_allowed_acl_labels r)
                     ''SearchRequest.allowed_acl_labels'') (\<lambda>a.
         Inr (r\<lparr>search_query := q, search_domain := d, search_tenant_id := t,
                search_allowed_acl_labels := a\<rparr>)))))"

record search_hit =
  hit_chunk :: document_chunk
  hit_score :: rat
  hit_score_type :: string

definition search_hit_post_init :: "search_hit \<Rightarrow> search_hit result" where
  "search_hit_post_init h =
     rbind (required (hit_score_type h) ''SearchHit.score_type'') (\<lambda>t.
       Inr (h\<lparr>hit_score_type := t\<rparr>))"

record graph_traversal_request =
  trav_seeds :: "search_hit list"
  trav_domain :: string
  trav_tenant_id :: string
  trav_max_depth :: int
  trav_max_nodes :: int
  trav_direction :: graph_direction
  trav_relationship_types :: "string list"
  trav_allowed_acl_labels :: "string list"
  trav_security_model :: security_model
  trav_subject_security :: subject_security

definition graph_traversal_request_post_init ::
    "graph_traversal_request \<Rightarrow> graph_traversal_request result" where
  "graph_traversal_request_post_init r =
     rbind (required (trav_domain r) ''GraphTraversalRequest.domain'') (\<lambda>d.
     rbind (required (trav_tenant_id r) ''GraphTraversalRequest.tenant_id'') (\<lambda>t.
       if trav_seeds r = []
       then Inl (Known ValidationError ''GraphTraversalRequest.seeds cannot be empty'')
       else if trav_max_depth r < 1
       then Inl (Known ValidationError ''GraphTraversalRequest.max_depth must be greater than zero'')
       else if trav_max_nodes r < 1
       then Inl (Known ValidationError ''GraphTraversalRequest.max_nodes must be greater than zero'')
       else rbind (normalized_values (trav_relationship_types r)
                     ''GraphTraversalRequest.relationship_types'') (\<lambda>types.
            rbind (normalized_values (trav_allowed_acl_labels r)
                     ''GraphTraversalRequest.allowed_acl_labels'') (\<lambda>a.
         Inr (r\<lparr>trav_domain := d, trav_tenant_id := t, trav_relationship_types := types,
                trav_allowed_acl_labels := a\<rparr>)))))"

record citation =
  citation_source_id :: string
  citation_chunk_id :: string
  citation_source_uri :: "string option"
  citation_score :: rat
  citation_score_type :: string
  citation_metadata :: mapping

definition citation_post_init :: "citation \<Rightarrow> citation result" where
  "citation_post_init c =
     rbind (required (citation_source_id c) ''Citation.source_id'') (\<lambda>s.
     rbind (required (citation_chunk_id c) ''Citation.chunk_id'') (\<lambda>i.
     rbind (required (citation_score_type c) ''Citation.score_type'') (\<lambda>t.
       Inr (c\<lparr>citation_source_id := s, citation_chunk_id := i, citation_score_type := t\<rparr>))))"

section \<open>Constructors check and are idempotent\<close>

lemma document_chunk_post_init_ok:
  "document_chunk_post_init c = Inr c' \<Longrightarrow> document_chunk_ok c' \<and>
     chunk_security c' = chunk_security c \<and> chunk_metadata c' = chunk_metadata c"
  by (auto simp: document_chunk_post_init_def document_chunk_ok_def rbind_eq_Inr
      intro: trimmed_intros)

lemma document_chunk_post_init_idem:
  "document_chunk_ok c \<Longrightarrow> document_chunk_post_init c = Inr c"
  by (simp add: document_chunk_post_init_def document_chunk_ok_def)

lemma rmap_required_trimmed:
  "rmap (\<lambda>x. required x f) xs = Inr ys \<Longrightarrow> \<forall>y\<in>set ys. trimmed y"
  by (fastforce dest: rmap_Inr_ball intro: required_trimmed)

lemma domain_profile_post_init_ok:
  "domain_profile_post_init p = Inr p' \<Longrightarrow> domain_profile_ok p'"
  by (auto simp: domain_profile_post_init_def domain_profile_ok_def rbind_eq_Inr required_Inr
      intro!: sorted_unique_trimmed intro: normalized_values_label_tuple dest!: rmap_required_trimmed)

lemma domain_profile_post_init_idem:
  assumes "domain_profile_ok p"
  shows "domain_profile_post_init p = Inr p"
proof -
  from assms have names: "\<forall>x\<in>set (domain_allowed_pipeline_names p). trimmed x"
    by (auto simp: domain_profile_ok_def label_tuple_def)
  have "sorted_unique (domain_allowed_pipeline_names p @ [domain_pipeline_name p]) =
      sorted_unique (domain_allowed_pipeline_names p)"
    using assms by (intro sorted_unique_eq) (auto simp: domain_profile_ok_def)
  also have "\<dots> = domain_allowed_pipeline_names p"
    using assms by (intro sorted_unique_idem) (auto simp: domain_profile_ok_def label_tuple_def)
  finally show ?thesis
    using assms names
    by (simp add: domain_profile_post_init_def domain_profile_ok_def rmap_id_ok)
qed

lemma search_request_post_init_fields:
  "search_request_post_init r = Inr r' \<Longrightarrow>
     search_domain r' = strip (search_domain r) \<and> search_tenant_id r' = strip (search_tenant_id r) \<and>
     1 \<le> search_top_k r' \<and> search_security_model r' = search_security_model r \<and>
     search_subject_security r' = search_subject_security r \<and>
     label_tuple (search_allowed_acl_labels r')"
  by (auto simp: search_request_post_init_def rbind_eq_Inr required_Inr
      intro: trimmed_intros split: if_splits)

lemma graph_traversal_request_post_init_fields:
  "graph_traversal_request_post_init r = Inr r' \<Longrightarrow>
     trav_seeds r' = trav_seeds r \<and> trav_seeds r \<noteq> [] \<and> 1 \<le> trav_max_depth r' \<and>
     1 \<le> trav_max_nodes r' \<and> label_tuple (trav_allowed_acl_labels r') \<and>
     label_tuple (trav_relationship_types r')"
  by (auto simp: graph_traversal_request_post_init_def rbind_eq_Inr
      intro: trimmed_intros split: if_splits)

end
