(* ===== verification/Model_Servers.thy ===== *)
theory Model_Servers
  imports Documents
begin

text \<open>
  Model servers and what a retrieved context requires of them,
  \<open>sovereignflow/domain/models.py\<close> (lines 259--477).
\<close>

section \<open>Profiles, definitions and requirements\<close>

record model_server_security_profile =
  server_model_kind :: security_model_kind
  server_clearance_label :: "string option"
  server_classification_labels :: "string list"

definition model_server_security_profile_post_init ::
    "model_server_security_profile \<Rightarrow> model_server_security_profile result" where
  "model_server_security_profile_post_init p =
     (case server_model_kind p of
        NO_MODEL \<Rightarrow>
          if server_clearance_label p \<noteq> None \<or> server_classification_labels p \<noteq> []
          then Inl (Known ValidationError ''ModelServerSecurityProfile none must not define labels'')
          else Inr p
      | CLEARANCE_LEVEL \<Rightarrow>
          if server_clearance_label p = None \<or> server_classification_labels p \<noteq> []
          then Inl (Known ValidationError
                 ''ModelServerSecurityProfile clearance_level requires clearance_label only'')
          else rbind (required_opt (server_clearance_label p)
                        ''ModelServerSecurityProfile.clearance_label'') (\<lambda>c.
                 Inr (p\<lparr>server_clearance_label := c\<rparr>))
      | CLASSIFICATION_LABELS \<Rightarrow>
          if server_clearance_label p \<noteq> None
          then Inl (Known ValidationError
                 ''ModelServerSecurityProfile classification_labels cannot define clearance_label'')
          else rbind (normalized_values (server_classification_labels p)
                        ''ModelServerSecurityProfile.classification_labels'') (\<lambda>ls.
                 Inr (p\<lparr>server_classification_labels := ls\<rparr>)))"

record model_server_definition =
  server_id :: string
  server_trust_boundary :: trust_boundary
  server_security_profile :: model_server_security_profile
  server_security_reroute_server_id :: "string option"

definition model_server_definition_post_init ::
    "model_server_definition \<Rightarrow> model_server_definition result" where
  "model_server_definition_post_init d =
     rbind (required (server_id d) ''ModelServerDefinition.server_id'') (\<lambda>i.
     rbind (required_opt (server_security_reroute_server_id d)
              ''ModelServerDefinition.security_reroute_server_id'') (\<lambda>r.
       Inr (d\<lparr>server_id := i, server_security_reroute_server_id := r\<rparr>)))"

record security_requirement =
  req_model_kind :: security_model_kind
  req_clearance_label :: "string option"
  req_classification_labels :: "string list"

definition context_security_requirement_post_init ::
    "security_requirement \<Rightarrow> security_requirement result" where
  "context_security_requirement_post_init r =
     (case req_model_kind r of
        CLEARANCE_LEVEL \<Rightarrow>
          rbind (required_opt (req_clearance_label r) ''ContextSecurityRequirement.clearance_label'') (\<lambda>c.
            if req_classification_labels r \<noteq> []
            then Inl (Known ValidationError
                   ''ContextSecurityRequirement clearance_level cannot define labels'')
            else Inr (r\<lparr>req_clearance_label := c\<rparr>))
      | CLASSIFICATION_LABELS \<Rightarrow>
          if req_clearance_label r \<noteq> None
          then Inl (Known ValidationError
                 ''ContextSecurityRequirement classification_labels cannot define clearance'')
          else rbind (normalized_values (req_classification_labels r)
                        ''ContextSecurityRequirement.classification_labels'') (\<lambda>ls.
                 Inr (r\<lparr>req_classification_labels := ls\<rparr>))
      | NO_MODEL \<Rightarrow>
          if req_clearance_label r \<noteq> None \<or> req_classification_labels r \<noteq> []
          then Inl (Known ValidationError ''ContextSecurityRequirement none must not define labels'')
          else Inr r)"

definition requirement_of ::
    "security_model_kind \<Rightarrow> string option \<Rightarrow> string list \<Rightarrow> security_requirement result" where
  "requirement_of k c ls = context_security_requirement_post_init
     \<lparr>req_model_kind = k, req_clearance_label = c, req_classification_labels = ls\<rparr>"

record model_server_selection =
  sel_allowed :: bool
  sel_reason_code :: string
  sel_selected_server_id :: string
  sel_final_server_id :: "string option"
  sel_rerouted :: bool
  sel_trust_boundary :: "trust_boundary option"
  sel_requirement :: security_requirement

definition model_server_selection_post_init ::
    "model_server_selection \<Rightarrow> model_server_selection result" where
  "model_server_selection_post_init s =
     rbind (required (sel_reason_code s) ''ModelServerSelection.reason_code'') (\<lambda>r.
     rbind (required (sel_selected_server_id s) ''ModelServerSelection.selected_server_id'') (\<lambda>i.
     rbind (required_opt (sel_final_server_id s) ''ModelServerSelection.final_server_id'') (\<lambda>f.
       Inr (s\<lparr>sel_reason_code := r, sel_selected_server_id := i, sel_final_server_id := f\<rparr>))))"

section \<open>What the retrieved hits require\<close>

text \<open>The loop over the hits keeps the highest label so far and its value.\<close>

fun highest_clearance ::
    "clearance_level_model \<Rightarrow> search_hit list \<Rightarrow> string option \<Rightarrow> int \<Rightarrow> (string option \<times> int) result"
  where
  "highest_clearance clearance [] highest_label highest_value = Inr (highest_label, highest_value)"
| "highest_clearance clearance (hit # hits) highest_label highest_value =
     (case doc_clearance_label (chunk_security (hit_chunk hit)) of
        None \<Rightarrow> Inl (Known ValidationError ''Retrieved context contains missing clearance label'')
      | Some label \<Rightarrow>
          rbind (clearance_value clearance label ''DocumentSecurity.clearance_label'') (\<lambda>value.
            if value > highest_value then highest_clearance clearance hits (Some label) value
            else highest_clearance clearance hits highest_label highest_value))"

fun required_labels ::
    "classification_labels_model \<Rightarrow> search_hit list \<Rightarrow> string list result" where
  "required_labels labels_model [] = Inr []"
| "required_labels labels_model (hit # hits) =
     rbind (validate_labels labels_model (doc_classification_labels (chunk_security (hit_chunk hit)))
              ''DocumentSecurity.classification_labels'') (\<lambda>ls.
     rbind (required_labels labels_model hits) (\<lambda>rest. Inr (ls @ rest)))"

definition context_security_requirement ::
    "security_model \<Rightarrow> search_hit list \<Rightarrow> security_requirement result" where
  "context_security_requirement model hits =
     (case model_kind model of
        NO_MODEL \<Rightarrow> requirement_of NO_MODEL None []
      | CLEARANCE_LEVEL \<Rightarrow>
          rbind (required_model (model_clearance_level model) ''clearance_level'') (\<lambda>clearance.
          rbind (highest_clearance clearance hits None (-1)) (\<lambda>highest.
            requirement_of CLEARANCE_LEVEL (fst highest) []))
      | CLASSIFICATION_LABELS \<Rightarrow>
          rbind (required_model (model_classification_labels model) ''classification_labels'') (\<lambda>labels_model.
          rbind (required_labels labels_model hits) (\<lambda>required.
            requirement_of CLASSIFICATION_LABELS None (sorted_unique required))))"

definition model_server_satisfies_requirement ::
    "security_model \<Rightarrow> model_server_definition \<Rightarrow> security_requirement \<Rightarrow>
     security_decision result" where
  "model_server_satisfies_requirement model server requirement =
     (if server_model_kind (server_security_profile server) \<noteq> model_kind model
      then decide False ''model_server_security_model_mismatch''
      else case model_kind model of
        NO_MODEL \<Rightarrow> decide True ''model_server_allowed''
      | CLEARANCE_LEVEL \<Rightarrow>
          (case req_clearance_label requirement of
             None \<Rightarrow> decide True ''model_server_allowed_empty_context''
           | Some required_label \<Rightarrow>
               rbind (required_model (model_clearance_level model) ''clearance_level'') (\<lambda>clearance.
                 case server_clearance_label (server_security_profile server) of
                   None \<Rightarrow> decide False ''model_server_clearance_missing''
                 | Some server_label \<Rightarrow>
                     rbind (clearance_value clearance server_label
                              ''ModelServerSecurityProfile.clearance_label'') (\<lambda>sv.
                     rbind (clearance_value clearance required_label
                              ''ContextSecurityRequirement.clearance_label'') (\<lambda>rv.
                       decide (sv \<ge> rv) (if sv \<ge> rv then ''model_server_allowed''
                                         else ''model_server_clearance_too_low'')))))
      | CLASSIFICATION_LABELS \<Rightarrow>
          rbind (required_model (model_classification_labels model) ''classification_labels'') (\<lambda>labels_model.
          rbind (validate_labels labels_model
                   (server_classification_labels (server_security_profile server))
                   ''ModelServerSecurityProfile.classification_labels'') (\<lambda>server_labels.
          rbind (validate_labels labels_model (req_classification_labels requirement)
                   ''ContextSecurityRequirement.classification_labels'') (\<lambda>required_labels.
            let allowed = list_all (\<lambda>l. l \<in> set server_labels) required_labels
            in decide allowed (if allowed then ''model_server_allowed''
                               else ''model_server_labels_missing'')))))"

section \<open>The server seen as a subject\<close>

text \<open>
  The specification: a server may receive a context when, reading with the server's own labels,
  every document of the context is visible.
\<close>

definition server_as_subject :: "model_server_definition \<Rightarrow> subject_security" where
  "server_as_subject server =
     \<lparr>subj_clearance_label = server_clearance_label (server_security_profile server),
      subj_classification_labels = server_classification_labels (server_security_profile server)\<rparr>"

definition server_cleared_for :: "security_model \<Rightarrow> model_server_definition \<Rightarrow> search_hit list \<Rightarrow> bool"
  where
  "server_cleared_for model server hits \<longleftrightarrow>
     (\<forall>hit\<in>set hits. granted (document_visible_to_subject model
        (chunk_security (hit_chunk hit)) (server_as_subject server)))"

lemma trimmed_server_codes [simp]:
  "trimmed ''model_server_security_model_mismatch''" "trimmed ''model_server_allowed''"
  "trimmed ''model_server_allowed_empty_context''" "trimmed ''model_server_clearance_missing''"
  "trimmed ''model_server_clearance_too_low''" "trimmed ''model_server_labels_missing''"
  by (simp_all add: trimmed_def strip_nonspace py_isspace_def)

lemma clearance_value_field: "clearance_value c l f = Inr v \<Longrightarrow> clearance_value c l g = Inr v"
  by (simp add: clearance_value_Inr)

lemma validate_labels_field: "validate_labels c l f = Inr v \<Longrightarrow> validate_labels c l g = Inr v"
proof -
  assume "validate_labels c l f = Inr v"
  then obtain ys where "rmap (\<lambda>x. required x (f @ ''[]'')) l = Inr ys" "v = sorted_unique ys"
    and sub: "set v \<subseteq> set (labels_universe_subset c)"
    by (auto simp: validate_labels_Inr normalized_values_def rbind_eq_Inr)
  moreover from this(1) have "rmap (\<lambda>x. required x (g @ ''[]'')) l = Inr ys"
    by (auto simp: rmap_eq_Inr required_Inr)
  ultimately show ?thesis by (simp add: validate_labels_Inr normalized_values_def)
qed

definition label_level :: "clearance_level_model \<Rightarrow> string option \<Rightarrow> int \<Rightarrow> bool" where
  "label_level c l v =
     (case l of None \<Rightarrow> v = -1 | Some s \<Rightarrow> clearance_value c s ''DocumentSecurity.clearance_label'' = Inr v)"

definition hit_level :: "clearance_level_model \<Rightarrow> search_hit \<Rightarrow> int \<Rightarrow> bool" where
  "hit_level c hit v \<longleftrightarrow> (\<exists>l. doc_clearance_label (chunk_security (hit_chunk hit)) = Some l \<and>
     clearance_value c l ''DocumentSecurity.clearance_label'' = Inr v)"

lemma highest_clearance_spec:
  assumes "highest_clearance c hits hl hv = Inr (l, v)" "label_level c hl hv"
  shows "label_level c l v \<and> hv \<le> v \<and> (\<forall>h\<in>set hits. \<exists>x. hit_level c h x \<and> x \<le> v) \<and>
    (v = hv \<and> l = hl \<or> (\<exists>h\<in>set hits. hit_level c h v))"
  using assms
proof (induction c hits hl hv rule: highest_clearance.induct)
  case (2 c hit hits hl hv)
  from "2.prems"(1) obtain lab val
    where lab: "doc_clearance_label (chunk_security (hit_chunk hit)) = Some lab"
      and val: "clearance_value c lab ''DocumentSecurity.clearance_label'' = Inr val"
    by (auto simp: rbind_eq_Inr split: option.splits)
  then have hit: "hit_level c hit val" by (simp add: hit_level_def)
  show ?case
  proof (cases "val > hv")
    case True
    with "2.prems" lab val have "highest_clearance c hits (Some lab) val = Inr (l, v)" by simp
    from "2.IH"(1) [OF lab True this] val have
      "label_level c l v \<and> val \<le> v \<and> (\<forall>h\<in>set hits. \<exists>x. hit_level c h x \<and> x \<le> v) \<and>
       (v = val \<and> l = Some lab \<or> (\<exists>h\<in>set hits. hit_level c h v))" by (simp add: label_level_def)
    with True hit show ?thesis by (auto intro: exI [of _ val])
  next
    case False
    with "2.prems" lab val have "highest_clearance c hits hl hv = Inr (l, v)" by simp
    from "2.IH"(2) [OF lab False this "2.prems"(2)] False hit show ?thesis
      by (auto intro: exI [of _ val])
  qed
qed simp

lemma hit_level_unique: "hit_level c h x \<Longrightarrow> hit_level c h y \<Longrightarrow> x = y"
  by (auto simp: hit_level_def)

lemma required_labels_spec:
  "required_labels m hits = Inr ls \<Longrightarrow>
   (\<forall>h\<in>set hits. \<exists>xs. validate_labels m (doc_classification_labels (chunk_security (hit_chunk h)))
       ''DocumentSecurity.classification_labels'' = Inr xs \<and> set xs \<subseteq> set ls) \<and>
   (\<forall>l\<in>set ls. \<exists>h\<in>set hits. \<exists>xs. validate_labels m
       (doc_classification_labels (chunk_security (hit_chunk h)))
       ''DocumentSecurity.classification_labels'' = Inr xs \<and> l \<in> set xs)"
proof (induction m hits arbitrary: ls rule: required_labels.induct)
  case (2 m hit hits)
  from "2.prems" obtain xs rest where
    xs: "validate_labels m (doc_classification_labels (chunk_security (hit_chunk hit)))
      ''DocumentSecurity.classification_labels'' = Inr xs"
    and rest: "required_labels m hits = Inr rest" and ls: "ls = xs @ rest"
    by (auto simp: rbind_eq_Inr)
  from "2.IH" [OF rest] xs ls show ?case by fastforce
qed simp

lemma validate_labels_unique:
  "validate_labels c l f = Inr x \<Longrightarrow> validate_labels c l g = Inr y \<Longrightarrow> x = y"
  using validate_labels_field [of c l f x g] by simp

lemma satisfies_clearance_iff:
  assumes model: "model_kind m = CLEARANCE_LEVEL" "model_clearance_level m = Some c"
      "clearance_level_model_ok c"
    and kind: "server_model_kind (server_security_profile s) = CLEARANCE_LEVEL"
    and req: "context_security_requirement m hits = Inr r"
  shows "granted (model_server_satisfies_requirement m s r) \<longleftrightarrow> server_cleared_for m s hits"
proof -
  from req model obtain l v where hc: "highest_clearance c hits None (-1) = Inr (l, v)"
    and r: "req_clearance_label r = l \<or>
      (\<exists>x. l = Some x \<and> req_clearance_label r = Some (strip x))"
      "l = None \<longleftrightarrow> req_clearance_label r = None"
    by (auto simp: context_security_requirement_def required_model_def rbind_eq_Inr requirement_of_def
        context_security_requirement_post_init_def required_opt_def required_Inr
        split: if_splits option.splits)
  have "label_level c None (-1)" by (simp add: label_level_def)
  from highest_clearance_spec [OF hc this] have lv: "label_level c l v" "-1 \<le> v"
    and all: "\<forall>h\<in>set hits. \<exists>x. hit_level c h x \<and> x \<le> v"
    and ex: "v = -1 \<and> l = None \<or> (\<exists>h\<in>set hits. hit_level c h v)" by auto
  have vis: "granted (document_visible_to_subject m (chunk_security (hit_chunk h)) (server_as_subject s))
      \<longleftrightarrow> (\<exists>sl sv. server_clearance_label (server_security_profile s) = Some sl \<and>
            clearance_value c sl ''SubjectSecurity.clearance_label'' = Inr sv \<and> x \<le> sv)"
    if "hit_level c h x" for h x
    using that model by (auto simp: visible_clearance server_as_subject_def hit_level_def)
  show ?thesis
  proof (cases l)
    case None
    with lv have "v = -1" by (simp add: label_level_def)
    have nonneg: "0 \<le> x" if "hit_level c h x" for h x
      using that model(3) clearance_value_nonneg by (auto simp: hit_level_def)
    have "hits = []"
    proof (rule ccontr)
      assume "hits \<noteq> []"
      then obtain h where "h \<in> set hits" by (cases hits) auto
      with all obtain x where "hit_level c h x" "x \<le> v" by blast
      with nonneg \<open>v = -1\<close> show False by fastforce
    qed
    with None r(2) model kind show ?thesis
      by (simp add: model_server_satisfies_requirement_def server_cleared_for_def)
  next
    case (Some lab)
    with lv have lab: "clearance_value c lab ''DocumentSecurity.clearance_label'' = Inr v"
      by (simp add: label_level_def)
    from r Some obtain lab' where lab': "req_clearance_label r = Some lab'" "strip lab' = strip lab"
      by auto
    from lab lab' have lab'': "clearance_value c lab' ''ContextSecurityRequirement.clearance_label'' = Inr v"
      by (simp add: clearance_value_Inr)
    from Some ex obtain h0 where h0: "h0 \<in> set hits" "hit_level c h0 v" by auto
    let ?ok = "\<exists>sl sv. server_clearance_label (server_security_profile s) = Some sl \<and>
        clearance_value c sl ''SubjectSecurity.clearance_label'' = Inr sv \<and> v \<le> sv"
    have "granted (model_server_satisfies_requirement m s r) \<longleftrightarrow> ?ok"
      using model kind lab'(1) lab''
      by (auto simp: model_server_satisfies_requirement_def required_model_def granted_rbind
          clearance_value_Inr split: option.splits)
    also have "\<dots> \<longleftrightarrow> server_cleared_for m s hits"
    proof
      assume ?ok
      then obtain sl sv where sl: "server_clearance_label (server_security_profile s) = Some sl"
        "clearance_value c sl ''SubjectSecurity.clearance_label'' = Inr sv" "v \<le> sv" by blast
      show "server_cleared_for m s hits"
        unfolding server_cleared_for_def
      proof
        fix h assume "h \<in> set hits"
        with all obtain x where "hit_level c h x" "x \<le> v" by blast
        with sl vis [of h x] show "granted (document_visible_to_subject m
            (chunk_security (hit_chunk h)) (server_as_subject s))" by auto
      qed
    next
      assume "server_cleared_for m s hits"
      with h0 vis [of h0 v] show ?ok by (auto simp: server_cleared_for_def)
    qed
    finally show ?thesis .
  qed
qed

lemma satisfies_labels_iff:
  assumes model: "model_kind m = CLASSIFICATION_LABELS" "model_classification_labels m = Some c"
      "label_tuple (labels_universe_subset c)"
    and kind: "server_model_kind (server_security_profile s) = CLASSIFICATION_LABELS"
    and server: "\<exists>sls. validate_labels c (server_classification_labels (server_security_profile s))
        ''ModelServerSecurityProfile.classification_labels'' = Inr sls"
    and req: "context_security_requirement m hits = Inr r"
  shows "granted (model_server_satisfies_requirement m s r) \<longleftrightarrow> server_cleared_for m s hits"
proof -
  from req model obtain ls where ls: "required_labels c hits = Inr ls"
    and r: "normalized_values (sorted_unique ls)
        ''ContextSecurityRequirement.classification_labels'' = Inr (req_classification_labels r)"
    by (auto simp: context_security_requirement_def required_model_def rbind_eq_Inr requirement_of_def
        context_security_requirement_post_init_def split: if_splits)
  from server obtain sls where sls: "validate_labels c
      (server_classification_labels (server_security_profile s))
      ''ModelServerSecurityProfile.classification_labels'' = Inr sls" by blast
  note sls' = validate_labels_field [OF sls]
  from required_labels_spec [OF ls] have all: "\<forall>h\<in>set hits. \<exists>xs. validate_labels c
        (doc_classification_labels (chunk_security (hit_chunk h)))
        ''DocumentSecurity.classification_labels'' = Inr xs \<and> set xs \<subseteq> set ls"
    and ex: "\<forall>l\<in>set ls. \<exists>h\<in>set hits. \<exists>xs. validate_labels c
        (doc_classification_labels (chunk_security (hit_chunk h)))
        ''DocumentSecurity.classification_labels'' = Inr xs \<and> l \<in> set xs" by auto
  have "\<forall>l\<in>set ls. trimmed l" "set ls \<subseteq> set (labels_universe_subset c)"
    using ex by (fastforce simp: validate_labels_Inr label_tuple_def dest: normalized_values_label_tuple)+
  then have tuple: "label_tuple (sorted_unique ls)" by (intro sorted_unique_trimmed)
  with r have "req_classification_labels r = sorted_unique ls" by simp
  with tuple have reqls: "set (req_classification_labels r) = set ls"
    "label_tuple (req_classification_labels r)" by simp_all
  have sat: "granted (model_server_satisfies_requirement m s r) \<longleftrightarrow> set ls \<subseteq> set sls"
    using model kind sls reqls \<open>set ls \<subseteq> set (labels_universe_subset c)\<close>
    by (auto simp: model_server_satisfies_requirement_def required_model_def granted_rbind Let_def
        validate_labels_Inr list_all_iff)
  have vis: "granted (document_visible_to_subject m (chunk_security (hit_chunk h)) (server_as_subject s))
      \<longleftrightarrow> set xs \<subseteq> set sls"
    if "validate_labels c (doc_classification_labels (chunk_security (hit_chunk h)))
        ''DocumentSecurity.classification_labels'' = Inr xs" for h xs
    using that model sls' by (auto simp: visible_labels server_as_subject_def)
  show ?thesis
    unfolding sat server_cleared_for_def
  proof
    assume sub: "set ls \<subseteq> set sls"
    show "\<forall>h\<in>set hits. granted (document_visible_to_subject m (chunk_security (hit_chunk h))
        (server_as_subject s))"
      using all vis sub by blast
  next
    assume "\<forall>h\<in>set hits. granted (document_visible_to_subject m (chunk_security (hit_chunk h))
        (server_as_subject s))"
    then show "set ls \<subseteq> set sls" using ex vis by blast
  qed
qed

end
