(* ===== verification/Access.thy ===== *)
theory Access
  imports Model_Servers
begin

text \<open>
  Authorization contexts, capabilities and access policies, \<open>sovereignflow/domain/models.py\<close>
  (lines 762--938).
\<close>

record authorization_context =
  auth_subject :: string
  auth_tenant_id :: string
  auth_roles :: "string list"
  auth_groups :: "string list"
  auth_acl_labels :: "string list"
  auth_security :: subject_security
  auth_allow_external_model :: bool
  auth_diagnostic_access :: bool

definition authorization_context_post_init ::
    "authorization_context \<Rightarrow> authorization_context result" where
  "authorization_context_post_init a =
     rbind (required (auth_subject a) ''AuthorizationContext.subject'') (\<lambda>s.
     rbind (required (auth_tenant_id a) ''AuthorizationContext.tenant_id'') (\<lambda>t.
     rbind (normalized_values (auth_roles a) ''AuthorizationContext.roles'') (\<lambda>r.
     rbind (normalized_values (auth_groups a) ''AuthorizationContext.groups'') (\<lambda>g.
     rbind (normalized_values (auth_acl_labels a) ''AuthorizationContext.acl_labels'') (\<lambda>l.
       Inr (a\<lparr>auth_subject := s, auth_tenant_id := t, auth_roles := r, auth_groups := g,
              auth_acl_labels := l\<rparr>))))))"

definition authorization_context_ok :: "authorization_context \<Rightarrow> bool" where
  "authorization_context_ok a \<longleftrightarrow> trimmed (auth_subject a) \<and> trimmed (auth_tenant_id a) \<and>
     label_tuple (auth_roles a) \<and> label_tuple (auth_groups a) \<and> label_tuple (auth_acl_labels a)"

record capability_descriptor =
  cap_capability_id :: string
  cap_display_name :: string
  cap_description :: string
  cap_domain :: string
  cap_pipeline_name :: string
  cap_diagnostics_available :: bool
  cap_external_model :: bool
  cap_policy_version :: int

definition capability_descriptor_post_init ::
    "capability_descriptor \<Rightarrow> capability_descriptor result" where
  "capability_descriptor_post_init c =
     rbind (required (cap_capability_id c) ''CapabilityDescriptor.capability_id'') (\<lambda>i.
     rbind (required (cap_display_name c) ''CapabilityDescriptor.display_name'') (\<lambda>n.
     rbind (required (cap_domain c) ''CapabilityDescriptor.domain'') (\<lambda>d.
     rbind (required (cap_pipeline_name c) ''CapabilityDescriptor.pipeline_name'') (\<lambda>p.
       if cap_policy_version c < 1
       then Inl (Known ValidationError ''CapabilityDescriptor.policy_version must be positive'')
       else Inr (c\<lparr>cap_capability_id := i, cap_display_name := n, cap_domain := d,
                   cap_pipeline_name := p\<rparr>)))))"

definition capability_descriptor_ok :: "capability_descriptor \<Rightarrow> bool" where
  "capability_descriptor_ok c \<longleftrightarrow> trimmed (cap_capability_id c) \<and> trimmed (cap_display_name c) \<and>
     trimmed (cap_domain c) \<and> trimmed (cap_pipeline_name c) \<and> 1 \<le> cap_policy_version c"

record claim_group_mapping =
  claim_name :: string
  claim_value :: string
  claim_group_id :: string

definition claim_group_mapping_post_init :: "claim_group_mapping \<Rightarrow> claim_group_mapping result" where
  "claim_group_mapping_post_init m =
     (if claim_name m \<notin> {''groups'', ''roles''}
      then Inl (Known ValidationError ''ClaimGroupMapping.claim_name must be groups or roles'')
      else rbind (required (claim_value m) ''ClaimGroupMapping.claim_value'') (\<lambda>v.
           rbind (required (claim_group_id m) ''ClaimGroupMapping.group_id'') (\<lambda>g.
             Inr (m\<lparr>claim_value := v, claim_group_id := g\<rparr>))))"

record group_capability_grant =
  grant_group_id :: string
  grant_capability_id :: string

definition group_capability_grant_post_init ::
    "group_capability_grant \<Rightarrow> group_capability_grant result" where
  "group_capability_grant_post_init g =
     rbind (required (grant_group_id g) ''GroupCapabilityGrant.group_id'') (\<lambda>i.
     rbind (required (grant_capability_id g) ''GroupCapabilityGrant.capability_id'') (\<lambda>c.
       Inr (g\<lparr>grant_group_id := i, grant_capability_id := c\<rparr>)))"

record access_policy_bundle =
  bundle_tenant_id :: string
  bundle_version :: int
  bundle_group_ids :: "string list"
  bundle_claim_mappings :: "claim_group_mapping list"
  bundle_capabilities :: "capability_descriptor list"
  bundle_grants :: "group_capability_grant list"

text \<open>The loops over capabilities, mappings and grants stop at the first offending item.\<close>

fun check_capabilities :: "int \<Rightarrow> capability_descriptor list \<Rightarrow> unit result" where
  "check_capabilities version [] = Inr ()"
| "check_capabilities version (c # cs) =
     (if cap_policy_version c \<noteq> version
      then Inl (Known ValidationError
             ''AccessPolicyBundle capability policy_version must match bundle version'')
      else check_capabilities version cs)"

fun check_mappings :: "string list \<Rightarrow> claim_group_mapping list \<Rightarrow> unit result" where
  "check_mappings groups [] = Inr ()"
| "check_mappings groups (m # ms) =
     (if claim_group_id m \<notin> set groups
      then Inl (Known ValidationError ''Claim mapping references an unknown group'')
      else check_mappings groups ms)"

fun check_grants :: "string list \<Rightarrow> string list \<Rightarrow> group_capability_grant list \<Rightarrow> unit result" where
  "check_grants groups caps [] = Inr ()"
| "check_grants groups caps (g # gs) =
     (if grant_group_id g \<notin> set groups
      then Inl (Known ValidationError ''Capability grant references an unknown group'')
      else if grant_capability_id g \<notin> set caps
      then Inl (Known ValidationError ''Capability grant references an unknown capability'')
      else check_grants groups caps gs)"

definition access_policy_bundle_post_init :: "access_policy_bundle \<Rightarrow> access_policy_bundle result" where
  "access_policy_bundle_post_init b =
     rbind (required (bundle_tenant_id b) ''AccessPolicyBundle.tenant_id'') (\<lambda>t.
     if bundle_version b < 1
     then Inl (Known ValidationError ''AccessPolicyBundle.version must be positive'')
     else rbind (normalized_values (bundle_group_ids b) ''AccessPolicyBundle.group_ids'') (\<lambda>groups.
       let capability_ids = map cap_capability_id (bundle_capabilities b)
       in if \<not> distinct capability_ids
          then Inl (Known ValidationError ''AccessPolicyBundle capabilities must be unique'')
          else rbind (check_capabilities (bundle_version b) (bundle_capabilities b)) (\<lambda>_.
               rbind (check_mappings groups (bundle_claim_mappings b)) (\<lambda>_.
               rbind (check_grants groups capability_ids (bundle_grants b)) (\<lambda>_.
                 if \<not> distinct (bundle_claim_mappings b)
                 then Inl (Known ValidationError ''AccessPolicyBundle claim mappings must be unique'')
                 else if \<not> distinct (bundle_grants b)
                 then Inl (Known ValidationError ''AccessPolicyBundle grants must be unique'')
                 else Inr (b\<lparr>bundle_tenant_id := t, bundle_group_ids := groups\<rparr>))))))"

record resolved_access_policy =
  policy_subject :: string
  policy_tenant_id :: string
  policy_group_ids :: "string list"
  policy_capability_ids :: "string list"
  policy_pipeline_names :: "string list"
  policy_version :: int

definition resolved_access_policy_post_init ::
    "resolved_access_policy \<Rightarrow> resolved_access_policy result" where
  "resolved_access_policy_post_init p =
     rbind (required (policy_subject p) ''ResolvedAccessPolicy.subject'') (\<lambda>s.
     rbind (required (policy_tenant_id p) ''ResolvedAccessPolicy.tenant_id'') (\<lambda>t.
     rbind (normalized_values (policy_group_ids p) ''ResolvedAccessPolicy.group_ids'') (\<lambda>g.
     rbind (normalized_values (policy_capability_ids p) ''ResolvedAccessPolicy.capability_ids'') (\<lambda>c.
     rbind (normalized_values (policy_pipeline_names p) ''ResolvedAccessPolicy.pipeline_names'') (\<lambda>n.
       if policy_version p < 1
       then Inl (Known ValidationError ''ResolvedAccessPolicy.policy_version must be positive'')
       else Inr (p\<lparr>policy_subject := s, policy_tenant_id := t, policy_group_ids := g,
                   policy_capability_ids := c, policy_pipeline_names := n\<rparr>))))))"

record pipeline_access_decision =
  access_allowed :: bool
  access_reason_code :: string
  access_capability :: "capability_descriptor option"
  access_policy :: resolved_access_policy

definition pipeline_access_decision_post_init ::
    "pipeline_access_decision \<Rightarrow> pipeline_access_decision result" where
  "pipeline_access_decision_post_init d =
     rbind (required (access_reason_code d) ''PipelineAccessDecision.reason_code'') (\<lambda>r.
       if access_allowed d \<and> access_capability d = None
       then Inl (Known ValidationError ''Allowed PipelineAccessDecision requires capability'')
       else Inr (d\<lparr>access_reason_code := r\<rparr>))"

section \<open>What a constructed bundle guarantees\<close>

definition bundle_ok :: "access_policy_bundle \<Rightarrow> bool" where
  "bundle_ok b \<longleftrightarrow> trimmed (bundle_tenant_id b) \<and> 1 \<le> bundle_version b \<and>
     label_tuple (bundle_group_ids b) \<and>
     distinct (map cap_capability_id (bundle_capabilities b)) \<and>
     (\<forall>c\<in>set (bundle_capabilities b). cap_policy_version c = bundle_version b) \<and>
     (\<forall>m\<in>set (bundle_claim_mappings b). claim_group_id m \<in> set (bundle_group_ids b)) \<and>
     (\<forall>g\<in>set (bundle_grants b). grant_group_id g \<in> set (bundle_group_ids b) \<and>
        grant_capability_id g \<in> set (map cap_capability_id (bundle_capabilities b))) \<and>
     distinct (bundle_claim_mappings b) \<and> distinct (bundle_grants b)"

lemma check_capabilities_Inr:
  "check_capabilities v cs = Inr u \<longleftrightarrow> (\<forall>c\<in>set cs. cap_policy_version c = v)"
  by (induction cs) auto

lemma check_mappings_Inr:
  "check_mappings gs ms = Inr u \<longleftrightarrow> (\<forall>m\<in>set ms. claim_group_id m \<in> set gs)"
  by (induction ms) auto

lemma check_grants_Inr:
  "check_grants gs cs xs = Inr u \<longleftrightarrow>
     (\<forall>g\<in>set xs. grant_group_id g \<in> set gs \<and> grant_capability_id g \<in> set cs)"
  by (induction xs) auto

lemmas bundle_checks = check_capabilities_Inr check_mappings_Inr check_grants_Inr

lemma access_policy_bundle_post_init_ok:
  "access_policy_bundle_post_init b = Inr b' \<Longrightarrow> bundle_ok b'"
  by (auto simp: access_policy_bundle_post_init_def bundle_ok_def rbind_eq_Inr Let_def
      required_Inr normalized_values_label_tuple bundle_checks split: if_splits)

lemma access_policy_bundle_post_init_idem:
  assumes "bundle_ok b"
  shows "access_policy_bundle_post_init b = Inr b"
proof -
  from assms have "check_capabilities (bundle_version b) (bundle_capabilities b) = Inr ()"
    "check_mappings (bundle_group_ids b) (bundle_claim_mappings b) = Inr ()"
    "check_grants (bundle_group_ids b) (map cap_capability_id (bundle_capabilities b))
       (bundle_grants b) = Inr ()"
    by (simp_all only: bundle_ok_def bundle_checks) blast+
  with assms show ?thesis
    by (simp add: access_policy_bundle_post_init_def bundle_ok_def Let_def)
qed

lemma authorization_context_post_init_ok:
  "authorization_context_post_init a = Inr a' \<Longrightarrow> authorization_context_ok a'"
  by (auto simp: authorization_context_post_init_def authorization_context_ok_def rbind_eq_Inr
      required_Inr normalized_values_label_tuple)

lemma authorization_context_post_init_idem:
  "authorization_context_ok a \<Longrightarrow> authorization_context_post_init a = Inr a"
  by (simp add: authorization_context_post_init_def authorization_context_ok_def)

lemma capability_descriptor_post_init_ok:
  "capability_descriptor_post_init c = Inr c' \<Longrightarrow> capability_descriptor_ok c'"
  by (auto simp: capability_descriptor_post_init_def capability_descriptor_ok_def rbind_eq_Inr
      required_Inr split: if_splits)

lemma capability_descriptor_post_init_idem:
  "capability_descriptor_ok c \<Longrightarrow> capability_descriptor_post_init c = Inr c"
  by (simp add: capability_descriptor_post_init_def capability_descriptor_ok_def)

end
