(* ===== verification/Pipelines.thy ===== *)
theory Pipelines
  imports Access
begin

text \<open>
  Queries, their results and diagnostics, and pipeline definitions and audit records,
  \<open>sovereignflow/domain/models.py\<close> (lines 941--1217).
\<close>

section \<open>Diagnostics, queries and results\<close>

record retrieval_diagnostic =
  rd_chunk_id :: string
  rd_source_id :: string
  rd_score :: rat
  rd_score_type :: string
  rd_rank :: int
  rd_origin :: string
  rd_graph_depth :: "int option"
  rd_graph_path :: "py list"

record model_transmission_diagnostic =
  mt_checked :: bool
  mt_allowed :: bool
  mt_reason_code :: string
  mt_selected_model_server_id :: "string option"
  mt_final_model_server_id :: "string option"
  mt_rerouted :: bool
  mt_trust_boundary :: "trust_boundary option"
  mt_external_transmission :: "external_transmission_policy option"
  mt_context_security_requirement :: security_requirement
  mt_checked_chunk_ids :: "string list"
  mt_blocked_chunk_ids :: "string list"

record query_diagnostics =
  qd_contract_version :: string
  qd_subject_hash :: string
  qd_tenant_id :: string
  qd_allowed_acl_labels :: "string list"
  qd_security_model_kind :: security_model_kind
  qd_search_mode :: search_mode
  qd_retrieval :: "retrieval_diagnostic list"
  qd_omitted_chunk_ids :: "string list"
  qd_context_chunk_ids :: "string list"
  qd_context_characters :: int
  qd_provider :: string
  qd_model :: string
  qd_prompt_key :: string
  qd_model_transmission :: model_transmission_diagnostic
  qd_system_prompt_hash :: string
  qd_prompt_tokens :: int
  qd_completion_tokens :: int
  qd_model_duration_ms :: int
  qd_pipeline_trace :: "string list"

record query_command =
  command_request_id :: string
  command_query :: string
  command_domain :: string
  command_session_id :: string
  command_authorization :: authorization_context
  command_filters :: mapping
  command_diagnostics_requested :: bool
  command_conversation_id :: "string option"

definition query_command_post_init :: "query_command \<Rightarrow> query_command result" where
  "query_command_post_init q =
     rbind (required (command_request_id q) ''QueryCommand.request_id'') (\<lambda>r.
     rbind (required (command_query q) ''QueryCommand.query'') (\<lambda>x.
     rbind (required (command_domain q) ''QueryCommand.domain'') (\<lambda>d.
     rbind (required (command_session_id q) ''QueryCommand.session_id'') (\<lambda>s.
     rbind (required_opt (command_conversation_id q) ''QueryCommand.conversation_id'') (\<lambda>c.
       Inr (q\<lparr>command_request_id := r, command_query := x, command_domain := d,
              command_session_id := s, command_conversation_id := c\<rparr>))))))"

definition query_command_ok :: "query_command \<Rightarrow> bool" where
  "query_command_ok q \<longleftrightarrow> trimmed (command_request_id q) \<and> trimmed (command_query q) \<and>
     trimmed (command_domain q) \<and> trimmed (command_session_id q) \<and>
     trimmed_opt (command_conversation_id q)"

record query_result =
  result_request_id :: string
  result_answer :: string
  result_domain :: string
  result_session_id :: string
  result_citations :: "citation list"
  result_pipeline_trace :: "string list"
  result_diagnostics :: "query_diagnostics option"
  result_conversation_id :: "string option"
  result_turn_id :: "string option"

record model_generation =
  gen_text :: string
  gen_prompt_tokens :: int
  gen_completion_tokens :: int
  gen_estimated_cost :: rat

definition model_generation_post_init :: "model_generation \<Rightarrow> model_generation result" where
  "model_generation_post_init g =
     rbind (required (gen_text g) ''ModelGeneration.text'') (\<lambda>t.
       if gen_prompt_tokens g < 0
       then Inl (Known ValidationError ''ModelGeneration.prompt_tokens cannot be negative'')
       else if gen_completion_tokens g < 0
       then Inl (Known ValidationError ''ModelGeneration.completion_tokens cannot be negative'')
       else if gen_estimated_cost g < 0
       then Inl (Known ValidationError ''ModelGeneration.estimated_cost cannot be negative'')
       else Inr (g\<lparr>gen_text := t\<rparr>))"

definition gen_total_tokens :: "model_generation \<Rightarrow> int" where
  "gen_total_tokens g = gen_prompt_tokens g + gen_completion_tokens g"

datatype pipeline_run_status = RUN_RUNNING | RUN_SUCCEEDED | RUN_FAILED

section \<open>Pipeline definitions\<close>

record pipeline_step_definition =
  step_id :: string
  step_action :: string
  step_action_version :: string
  step_next_step_id :: "string option"
  step_routes :: "(string \<times> string) list"
  step_terminal :: bool
  step_config :: mapping

definition normalized_routes :: "(string \<times> string) list \<Rightarrow> (string \<times> string) list result" where
  "normalized_routes routes =
     rbind (rmap (\<lambda>(k, v).
       rbind (required k ''PipelineStepDefinition.routes key'') (\<lambda>k'.
       rbind (required v ''PipelineStepDefinition.routes value'') (\<lambda>v'. Inr (k', v')))) routes)
     (\<lambda>items. Inr (dict_of items))"

definition pipeline_step_definition_post_init ::
    "pipeline_step_definition \<Rightarrow> pipeline_step_definition result" where
  "pipeline_step_definition_post_init s =
     rbind (required (step_id s) ''PipelineStepDefinition.step_id'') (\<lambda>i.
     rbind (required (step_action s) ''PipelineStepDefinition.action'') (\<lambda>a.
     rbind (required (step_action_version s) ''PipelineStepDefinition.action_version'') (\<lambda>v.
     rbind (required_opt (step_next_step_id s) ''PipelineStepDefinition.next_step_id'') (\<lambda>n.
     rbind (normalized_routes (step_routes s)) (\<lambda>r.
     rbind (freeze_step_config (step_config s)) (\<lambda>c.
       if step_terminal s \<and> (n \<noteq> None \<or> r \<noteq> [])
       then Inl (Known ValidationError ''A terminal pipeline step cannot define transitions'')
       else if \<not> step_terminal s \<and> n = None \<and> r = []
       then Inl (Known ValidationError ''A non-terminal pipeline step must define a transition'')
       else Inr (s\<lparr>step_id := i, step_action := a, step_action_version := v,
                   step_next_step_id := n, step_routes := r, step_config := c\<rparr>)))))))"

record pipeline_definition =
  pipeline_name :: string
  pipeline_behavior_version :: string
  pipeline_entry_step_id :: string
  pipeline_max_steps :: int
  pipeline_steps :: "pipeline_step_definition list"
  pipeline_checksum :: string

definition pipeline_definition_post_init :: "pipeline_definition \<Rightarrow> pipeline_definition result" where
  "pipeline_definition_post_init p =
     rbind (required (pipeline_name p) ''PipelineDefinition.name'') (\<lambda>n.
     rbind (required (pipeline_behavior_version p) ''PipelineDefinition.behavior_version'') (\<lambda>v.
     rbind (required (pipeline_entry_step_id p) ''PipelineDefinition.entry_step_id'') (\<lambda>e.
     rbind (required (pipeline_checksum p) ''PipelineDefinition.checksum'') (\<lambda>c.
       if pipeline_max_steps p < 1
       then Inl (Known ValidationError ''PipelineDefinition.max_steps must be greater than zero'')
       else if pipeline_steps p = []
       then Inl (Known ValidationError ''PipelineDefinition.steps cannot be empty'')
       else Inr (p\<lparr>pipeline_name := n, pipeline_behavior_version := v,
                   pipeline_entry_step_id := e, pipeline_checksum := c\<rparr>)))))"

text \<open>\<open>PipelineDefinition.step\<close>: the first step with the identifier.\<close>

definition pipeline_step :: "pipeline_definition \<Rightarrow> string \<Rightarrow> pipeline_step_definition result" where
  "pipeline_step p sid =
     (case find (\<lambda>s. step_id s = sid) (pipeline_steps p) of
        Some s \<Rightarrow> Inr s
      | None \<Rightarrow> Inl (Known ValidationError (''Unknown pipeline step: '' @ sid)))"

section \<open>Audit records\<close>

record pipeline_run =
  run_run_id :: string
  run_request_id :: string
  run_session_id :: string
  run_domain :: string
  run_tenant_id :: string
  run_pipeline_name :: string
  run_pipeline_version :: string
  run_pipeline_checksum :: string
  run_query :: string

definition pipeline_run_post_init :: "pipeline_run \<Rightarrow> pipeline_run result" where
  "pipeline_run_post_init r =
     rbind (required (run_run_id r) ''PipelineRun.run_id'') (\<lambda>a.
     rbind (required (run_request_id r) ''PipelineRun.request_id'') (\<lambda>b.
     rbind (required (run_session_id r) ''PipelineRun.session_id'') (\<lambda>c.
     rbind (required (run_domain r) ''PipelineRun.domain'') (\<lambda>d.
     rbind (required (run_tenant_id r) ''PipelineRun.tenant_id'') (\<lambda>e.
     rbind (required (run_pipeline_name r) ''PipelineRun.pipeline_name'') (\<lambda>f.
     rbind (required (run_pipeline_version r) ''PipelineRun.pipeline_version'') (\<lambda>g.
     rbind (required (run_pipeline_checksum r) ''PipelineRun.pipeline_checksum'') (\<lambda>h.
     rbind (required (run_query r) ''PipelineRun.query'') (\<lambda>q.
       Inr \<lparr>run_run_id = a, run_request_id = b, run_session_id = c, run_domain = d,
            run_tenant_id = e, run_pipeline_name = f, run_pipeline_version = g,
            run_pipeline_checksum = h, run_query = q\<rparr>)))))))))"

record pipeline_step_audit =
  audit_run_id :: string
  audit_sequence_number :: int
  audit_step_id :: string
  audit_action :: string
  audit_action_version :: string
  audit_duration_ms :: int
  audit_next_step_id :: "string option"

definition pipeline_step_audit_post_init :: "pipeline_step_audit \<Rightarrow> pipeline_step_audit result" where
  "pipeline_step_audit_post_init a =
     rbind (required (audit_run_id a) ''PipelineStepAudit.run_id'') (\<lambda>r.
     rbind (required (audit_step_id a) ''PipelineStepAudit.step_id'') (\<lambda>s.
     rbind (required (audit_action a) ''PipelineStepAudit.action'') (\<lambda>x.
     rbind (required (audit_action_version a) ''PipelineStepAudit.action_version'') (\<lambda>v.
       if audit_sequence_number a < 1
       then Inl (Known ValidationError ''PipelineStepAudit.sequence_number must be greater than zero'')
       else if audit_duration_ms a < 0
       then Inl (Known ValidationError ''PipelineStepAudit.duration_ms cannot be negative'')
       else Inr (a\<lparr>audit_run_id := r, audit_step_id := s, audit_action := x,
                   audit_action_version := v\<rparr>)))))"

section \<open>Well-formed steps\<close>

text \<open>What every constructed step satisfies: a terminal step has no transition, any other has one.\<close>

definition step_ok :: "pipeline_step_definition \<Rightarrow> bool" where
  "step_ok s \<longleftrightarrow> trimmed (step_id s) \<and> trimmed (step_action s) \<and> trimmed (step_action_version s) \<and>
     trimmed_opt (step_next_step_id s) \<and>
     distinct (map fst (step_routes s)) \<and> (\<forall>(k, v)\<in>set (step_routes s). trimmed k \<and> trimmed v) \<and>
     frozen (PDict (step_config s)) \<and>
     (step_terminal s \<longleftrightarrow> step_next_step_id s = None \<and> step_routes s = [])"

lemma normalized_routes_ok:
  assumes "normalized_routes r = Inr r'"
  shows "distinct (map fst r') \<and> (\<forall>(k, v)\<in>set r'. trimmed k \<and> trimmed v)"
proof -
  from assms obtain items where items: "r' = dict_of items"
    "rmap (\<lambda>(k, v).
       rbind (required k ''PipelineStepDefinition.routes key'') (\<lambda>k'.
       rbind (required v ''PipelineStepDefinition.routes value'') (\<lambda>v'. Inr (k', v')))) r = Inr items"
    by (auto simp: normalized_routes_def rbind_eq_Inr)
  from items(2) have "\<forall>(k, v)\<in>set items. trimmed k \<and> trimmed v"
    by (force simp: rbind_eq_Inr required_Inr dest!: rmap_Inr_ball)
  with items(1) show ?thesis using set_dict_of [of items] distinct_dict_of [of items] by blast
qed

lemma normalized_routes_idem:
  assumes "distinct (map fst r)" "\<forall>(k, v)\<in>set r. trimmed k \<and> trimmed v"
  shows "normalized_routes r = Inr r"
proof -
  have "rmap (\<lambda>(k, v).
       rbind (required k ''PipelineStepDefinition.routes key'') (\<lambda>k'.
       rbind (required v ''PipelineStepDefinition.routes value'') (\<lambda>v'. Inr (k', v')))) r = Inr r"
    using assms(2) by (intro rmap_id_ok) fastforce
  with assms(1) show ?thesis by (simp add: normalized_routes_def dict_of_distinct)
qed

lemma step_post_init_ok: "pipeline_step_definition_post_init s = Inr s' \<Longrightarrow> step_ok s'"
  unfolding pipeline_step_definition_post_init_def step_ok_def
  by (auto simp: rbind_eq_Inr required_Inr dest!: normalized_routes_ok required_opt_trimmed
      freeze_step_config_frozen split: if_splits)

lemma step_post_init_idem: "step_ok s \<Longrightarrow> pipeline_step_definition_post_init s = Inr s"
  by (auto simp: pipeline_step_definition_post_init_def step_ok_def normalized_routes_idem
      freeze_step_config_idem simp del: frozen.simps)

lemma query_command_post_init_ok: "query_command_post_init q = Inr q' \<Longrightarrow> query_command_ok q'"
  by (auto simp: query_command_post_init_def query_command_ok_def rbind_eq_Inr required_Inr
      dest: required_opt_trimmed)

lemma query_command_post_init_idem: "query_command_ok q \<Longrightarrow> query_command_post_init q = Inr q"
  by (simp add: query_command_post_init_def query_command_ok_def)

lemma pipeline_step_Inr:
  "pipeline_step p sid = Inr s \<Longrightarrow> s \<in> set (pipeline_steps p) \<and> step_id s = sid"
  by (auto simp: pipeline_step_def find_Some_iff split: option.splits)

lemma pipeline_step_distinct:
  assumes "distinct (map step_id (pipeline_steps p))" "s \<in> set (pipeline_steps p)"
  shows "pipeline_step p (step_id s) = Inr s"
proof (cases "pipeline_step p (step_id s)")
  case (Inl e)
  with assms(2) show ?thesis by (auto simp: pipeline_step_def find_None_iff split: option.splits)
next
  case (Inr t)
  then have "t \<in> set (pipeline_steps p)" "step_id t = step_id s" by (auto dest: pipeline_step_Inr)
  with assms have "t = s" by (auto simp: distinct_map dest: inj_onD)
  with Inr show ?thesis by simp
qed

end
