(* ===== verification/Conversations.thy ===== *)
theory Conversations
  imports Values
begin

text \<open>
  Conversations and their turns, \<open>sovereignflow/domain/models.py\<close> (lines 1235--1360).
\<close>

datatype conversation_status = CONV_ACTIVE | CONV_DELETED

datatype conversation_turn_status = TURN_STARTED | TURN_FINALIZED | TURN_FAILED | TURN_DISCARDED

record conversation =
  conv_conversation_id :: string
  conv_tenant_id :: string
  conv_subject_hash :: string
  conv_session_id :: string
  conv_domain :: string
  conv_title :: string
  conv_status :: conversation_status
  conv_created_at :: string
  conv_updated_at :: string
  conv_deleted_at :: "string option"

definition conversation_post_init :: "conversation \<Rightarrow> conversation result" where
  "conversation_post_init c =
     rbind (required (conv_conversation_id c) ''Conversation.conversation_id'') (\<lambda>i.
     rbind (required (conv_tenant_id c) ''Conversation.tenant_id'') (\<lambda>t.
     rbind (required (conv_subject_hash c) ''Conversation.subject_hash'') (\<lambda>h.
     rbind (required (conv_session_id c) ''Conversation.session_id'') (\<lambda>s.
     rbind (required (conv_domain c) ''Conversation.domain'') (\<lambda>d.
     rbind (required (conv_title c) ''Conversation.title'') (\<lambda>n.
     rbind (required (conv_created_at c) ''Conversation.created_at'') (\<lambda>ca.
     rbind (required (conv_updated_at c) ''Conversation.updated_at'') (\<lambda>ua.
     rbind (required_opt (conv_deleted_at c) ''Conversation.deleted_at'') (\<lambda>da.
       if conv_status c = CONV_ACTIVE \<and> da \<noteq> None
       then Inl (Known ValidationError ''Active conversation cannot define deleted_at'')
       else if conv_status c = CONV_DELETED \<and> da = None
       then Inl (Known ValidationError ''Deleted conversation requires deleted_at'')
       else Inr (c\<lparr>conv_conversation_id := i, conv_tenant_id := t, conv_subject_hash := h,
                   conv_session_id := s, conv_domain := d, conv_title := n,
                   conv_created_at := ca, conv_updated_at := ua, conv_deleted_at := da\<rparr>))))))))))"

record conversation_turn =
  turn_turn_id :: string
  turn_conversation_id :: string
  turn_request_id :: string
  turn_sequence_number :: int
  turn_question_text :: string
  turn_status :: conversation_turn_status
  turn_created_at :: string
  turn_answer_text :: "string option"
  turn_finalized_at :: "string option"
  turn_error_code :: "string option"
  turn_metadata :: mapping

text \<open>The status rules, in the order the constructor checks them.\<close>

definition turn_status_check ::
    "conversation_turn_status \<Rightarrow> string option \<Rightarrow> string option \<Rightarrow> string option \<Rightarrow> unit result" where
  "turn_status_check st answer finalized_at err =
     (case st of
        TURN_STARTED \<Rightarrow>
          if answer \<noteq> None \<or> finalized_at \<noteq> None
          then Inl (Known ValidationError ''Started conversation turn cannot be finalized'')
          else if err \<noteq> None
          then Inl (Known ValidationError ''Started conversation turn cannot define error_code'')
          else Inr ()
      | TURN_FINALIZED \<Rightarrow>
          if answer = None \<or> finalized_at = None
          then Inl (Known ValidationError
                 ''Finalized conversation turn requires answer and finalized_at'')
          else if err \<noteq> None
          then Inl (Known ValidationError ''Finalized conversation turn cannot define error_code'')
          else Inr ()
      | _ \<Rightarrow>
          if answer \<noteq> None
          then Inl (Known ValidationError ''Unsuccessful conversation turn cannot define answer'')
          else if finalized_at = None
          then Inl (Known ValidationError ''Unsuccessful conversation turn requires finalized_at'')
          else if st = TURN_FAILED \<and> err = None
          then Inl (Known ValidationError ''Failed conversation turn requires error_code'')
          else Inr ())"

definition conversation_turn_post_init :: "conversation_turn \<Rightarrow> conversation_turn result" where
  "conversation_turn_post_init t =
     rbind (required (turn_turn_id t) ''ConversationTurn.turn_id'') (\<lambda>i.
     rbind (required (turn_conversation_id t) ''ConversationTurn.conversation_id'') (\<lambda>c.
     rbind (required (turn_request_id t) ''ConversationTurn.request_id'') (\<lambda>r.
     rbind (required (turn_question_text t) ''ConversationTurn.question_text'') (\<lambda>q.
     rbind (required (turn_created_at t) ''ConversationTurn.created_at'') (\<lambda>ca.
       if turn_sequence_number t < 1
       then Inl (Known ValidationError ''ConversationTurn.sequence_number must be positive'')
       else
         rbind (required_opt (turn_answer_text t) ''ConversationTurn.answer_text'') (\<lambda>a.
         rbind (required_opt (turn_finalized_at t) ''ConversationTurn.finalized_at'') (\<lambda>f.
         rbind (required_opt (turn_error_code t) ''ConversationTurn.error_code'') (\<lambda>e.
         rbind (turn_status_check (turn_status t) a f e) (\<lambda>_.
           Inr (t\<lparr>turn_turn_id := i, turn_conversation_id := c, turn_request_id := r,
                  turn_question_text := q, turn_created_at := ca, turn_answer_text := a,
                  turn_finalized_at := f, turn_error_code := e\<rparr>))))))))))"

record conversation_history =
  history_conversation :: conversation
  history_turns :: "conversation_turn list"

section \<open>Well-formed conversations and turns\<close>

definition conversation_ok :: "conversation \<Rightarrow> bool" where
  "conversation_ok c \<longleftrightarrow> trimmed (conv_conversation_id c) \<and> trimmed (conv_tenant_id c) \<and>
     trimmed (conv_subject_hash c) \<and> trimmed (conv_session_id c) \<and> trimmed (conv_domain c) \<and>
     trimmed (conv_title c) \<and> trimmed (conv_created_at c) \<and> trimmed (conv_updated_at c) \<and>
     trimmed_opt (conv_deleted_at c) \<and>
     (conv_status c = CONV_DELETED \<longleftrightarrow> conv_deleted_at c \<noteq> None)"

definition turn_ok :: "conversation_turn \<Rightarrow> bool" where
  "turn_ok t \<longleftrightarrow> trimmed (turn_turn_id t) \<and> trimmed (turn_conversation_id t) \<and>
     trimmed (turn_request_id t) \<and> trimmed (turn_question_text t) \<and> trimmed (turn_created_at t) \<and>
     1 \<le> turn_sequence_number t \<and> trimmed_opt (turn_answer_text t) \<and>
     trimmed_opt (turn_finalized_at t) \<and> trimmed_opt (turn_error_code t) \<and>
     turn_status_check (turn_status t) (turn_answer_text t) (turn_finalized_at t)
       (turn_error_code t) = Inr ()"

lemma conversation_post_init_ok: "conversation_post_init c = Inr c' \<Longrightarrow> conversation_ok c'"
  by (cases "conv_status c")
    (auto simp: conversation_post_init_def conversation_ok_def rbind_eq_Inr required_Inr
      dest: required_opt_trimmed split: if_splits)

lemma conversation_post_init_idem: "conversation_ok c \<Longrightarrow> conversation_post_init c = Inr c"
  by (cases "conv_status c") (auto simp: conversation_post_init_def conversation_ok_def)

lemma turn_post_init_ok: "conversation_turn_post_init t = Inr t' \<Longrightarrow> turn_ok t'"
  by (auto simp: conversation_turn_post_init_def turn_ok_def rbind_eq_Inr required_Inr
      dest: required_opt_trimmed split: if_splits)

lemma turn_post_init_idem: "turn_ok t \<Longrightarrow> conversation_turn_post_init t = Inr t"
  by (simp add: conversation_turn_post_init_def turn_ok_def)

text \<open>The status decides which of the optional fields are present.\<close>

lemma turn_status_check_iff:
  "turn_status_check st a f e = Inr u \<longleftrightarrow>
     (case st of TURN_STARTED \<Rightarrow> a = None \<and> f = None \<and> e = None
      | TURN_FINALIZED \<Rightarrow> a \<noteq> None \<and> f \<noteq> None \<and> e = None
      | TURN_FAILED \<Rightarrow> a = None \<and> f \<noteq> None \<and> e \<noteq> None
      | TURN_DISCARDED \<Rightarrow> a = None \<and> f \<noteq> None)"
  by (cases st) (auto simp: turn_status_check_def)

lemma turn_ok_answer_iff: "turn_ok t \<Longrightarrow> turn_answer_text t \<noteq> None \<longleftrightarrow> turn_status t = TURN_FINALIZED"
  by (cases "turn_status t") (auto simp: turn_ok_def turn_status_check_iff)

end
