(* ===== verification/Context.thy ===== *)
theory Context
  imports Pipelines Conversations
begin

text \<open>
  The pipeline context of \<open>sovereignflow/application/pipeline.py\<close> and the ports it carries
  (\<open>application/ports.py\<close>). A port method is a program over a world \<open>'w\<close> outside the context:
  it may change the world and may raise. Actions run over the pair of the world and the
  context, so that a mutation made before a raise stays visible, as it does in Python.

  The clock, \<open>hashlib.sha256\<close>, \<open>json.loads\<close>, \<open>json.dumps\<close> and the replacement fields of \<open>str.format\<close>
  other than \<open>{}\<close> are the fields of an environment that the definitions take as an argument;
  nothing is assumed about them unless a theorem names it.
\<close>

section \<open>Ports\<close>

record 'w model_gateway =
  gw_name :: string
  gw_model_id :: string
  gw_generate :: "string \<Rightarrow> string \<Rightarrow> mapping \<Rightarrow> ('w, py_exn, model_generation) prog"

record 'w model_server_runtime =
  rt_definition :: model_server_definition
  rt_gateway :: "'w model_gateway"

text \<open>The methods of the conversation history service that actions call.\<close>

record 'w conversation_service =
  cs_get :: "authorization_context \<Rightarrow> string \<Rightarrow> int \<Rightarrow> ('w, py_exn, conversation_history) prog"
  cs_create :: "authorization_context \<Rightarrow> string \<Rightarrow> string \<Rightarrow> string \<Rightarrow> ('w, py_exn, conversation) prog"
  cs_start_turn :: "authorization_context \<Rightarrow> string \<Rightarrow> string \<Rightarrow> string \<Rightarrow>
    ('w, py_exn, conversation_turn) prog"
  cs_finalize_turn :: "authorization_context \<Rightarrow> string \<Rightarrow> string \<Rightarrow> string \<Rightarrow> mapping \<Rightarrow>
    ('w, py_exn, conversation_turn) prog"
  cs_fail_turn :: "authorization_context \<Rightarrow> string \<Rightarrow> string \<Rightarrow> string \<Rightarrow> mapping \<Rightarrow>
    ('w, py_exn, conversation_turn) prog"
  cs_recent_finalized_turns :: "authorization_context \<Rightarrow> string \<Rightarrow> int \<Rightarrow>
    ('w, py_exn, conversation_turn list) prog"

record 'w runtime_env =
  env_monotonic :: "'w \<Rightarrow> rat \<times> 'w"
  env_sha256 :: "string \<Rightarrow> string"
  env_json_loads :: "string \<Rightarrow> py option"
  env_json_dumps :: "py \<Rightarrow> string"
  env_format_field :: "string \<Rightarrow> nat \<Rightarrow> string \<Rightarrow> py_exn + (string \<times> nat)"

section \<open>The context\<close>

record 'w pipeline_context =
  ctx_command :: query_command
  ctx_domain :: domain_profile
  ctx_retrieval :: "search_request \<Rightarrow> ('w, py_exn, search_hit list) prog"
  ctx_graph :: "graph_traversal_request \<Rightarrow> ('w, py_exn, search_hit list) prog"
  ctx_model :: "'w model_gateway"
  ctx_prompts :: "string \<Rightarrow> ('w, py_exn, string) prog"
  ctx_conversation_history :: "'w conversation_service option"
  ctx_model_servers :: "(string \<times> 'w model_server_runtime) list"
  ctx_conversation_id :: "string option"
  ctx_conversation_turn_id :: "string option"
  ctx_conversation_turn_finalized :: bool
  ctx_conversation_history_text :: string
  ctx_conversation_history_turns :: "conversation_turn list"
  ctx_normalized_query :: string
  ctx_hits :: "search_hit list"
  ctx_seed_hits :: "search_hit list"
  ctx_graph_hits :: "search_hit list"
  ctx_omitted_chunk_ids :: "string list"
  ctx_context_chunk_ids :: "string list"
  ctx_evidence :: string
  ctx_citations :: "citation list"
  ctx_answer :: string
  ctx_last_model_response :: string
  ctx_last_route :: string
  ctx_last_prefix :: string
  ctx_variables :: mapping
  ctx_loop_counters :: "(string \<times> int) list"
  ctx_retrieval_queries_asked_norm :: "string set"
  ctx_prompt_tokens :: int
  ctx_completion_tokens :: int
  ctx_estimated_cost :: rat
  ctx_model_duration_ms :: int
  ctx_prompt_key :: string
  ctx_system_prompt_hash :: string
  ctx_mt_checked :: bool
  ctx_mt_allowed :: bool
  ctx_mt_reason_code :: string
  ctx_mt_selected_server_id :: "string option"
  ctx_mt_final_server_id :: "string option"
  ctx_mt_rerouted :: bool
  ctx_mt_trust_boundary :: "trust_boundary option"
  ctx_mt_external_policy :: "external_transmission_policy option"
  ctx_mt_context_requirement :: security_requirement
  ctx_mt_checked_chunk_ids :: "string list"
  ctx_mt_blocked_chunk_ids :: "string list"
  ctx_trace :: "string list"

text \<open>The dataclass defaults, for a context built from its required arguments.\<close>

definition new_context ::
    "query_command \<Rightarrow> domain_profile \<Rightarrow> (search_request \<Rightarrow> ('w, py_exn, search_hit list) prog) \<Rightarrow>
     (graph_traversal_request \<Rightarrow> ('w, py_exn, search_hit list) prog) \<Rightarrow> 'w model_gateway \<Rightarrow>
     (string \<Rightarrow> ('w, py_exn, string) prog) \<Rightarrow> 'w conversation_service option \<Rightarrow>
     (string \<times> 'w model_server_runtime) list \<Rightarrow> 'w pipeline_context" where
  "new_context command domain retrieval graph model prompts history servers =
     \<lparr>ctx_command = command, ctx_domain = domain, ctx_retrieval = retrieval, ctx_graph = graph,
      ctx_model = model, ctx_prompts = prompts, ctx_conversation_history = history,
      ctx_model_servers = servers, ctx_conversation_id = None, ctx_conversation_turn_id = None,
      ctx_conversation_turn_finalized = False, ctx_conversation_history_text = [],
      ctx_conversation_history_turns = [], ctx_normalized_query = [], ctx_hits = [],
      ctx_seed_hits = [], ctx_graph_hits = [], ctx_omitted_chunk_ids = [],
      ctx_context_chunk_ids = [], ctx_evidence = [], ctx_citations = [], ctx_answer = [],
      ctx_last_model_response = [], ctx_last_route = [], ctx_last_prefix = [], ctx_variables = [],
      ctx_loop_counters = [], ctx_retrieval_queries_asked_norm = {}, ctx_prompt_tokens = 0,
      ctx_completion_tokens = 0, ctx_estimated_cost = 0, ctx_model_duration_ms = 0,
      ctx_prompt_key = [], ctx_system_prompt_hash = [], ctx_mt_checked = False,
      ctx_mt_allowed = False, ctx_mt_reason_code = ''not_checked'',
      ctx_mt_selected_server_id = None, ctx_mt_final_server_id = None, ctx_mt_rerouted = False,
      ctx_mt_trust_boundary = None, ctx_mt_external_policy = None,
      ctx_mt_context_requirement =
        \<lparr>req_model_kind = NO_MODEL, req_clearance_label = None, req_classification_labels = []\<rparr>,
      ctx_mt_checked_chunk_ids = [], ctx_mt_blocked_chunk_ids = [], ctx_trace = []\<rparr>"

section \<open>Programs of actions\<close>

record 'w run_state =
  rs_world :: 'w
  rs_ctx :: "'w pipeline_context"

type_synonym ('w, 'a) action_prog = "('w run_state, py_exn, 'a) prog"

type_synonym 'w action_fun = "pipeline_step_definition \<Rightarrow> ('w, string option) action_prog"

definition in_world :: "('w, py_exn, 'a) prog \<Rightarrow> ('w, 'a) action_prog" where
  "in_world m s = (case m (rs_world s) of (r, w) \<Rightarrow> (r, s\<lparr>rs_world := w\<rparr>))"

definition ask :: "('w pipeline_context \<Rightarrow> 'a) \<Rightarrow> ('w, 'a) action_prog" where
  "ask f = sget (\<lambda>s. f (rs_ctx s))"

definition modify_ctx :: "('w pipeline_context \<Rightarrow> 'w pipeline_context) \<Rightarrow> ('w, unit) action_prog" where
  "modify_ctx f = smodify (\<lambda>s. s\<lparr>rs_ctx := f (rs_ctx s)\<rparr>)"

definition read_clock :: "'w runtime_env \<Rightarrow> ('w, rat) action_prog" where
  "read_clock env s = (case env_monotonic env (rs_world s) of (t, w) \<Rightarrow> (Inr t, s\<lparr>rs_world := w\<rparr>))"

text \<open>\<open>max(0, round((end - start) * 1000))\<close>.\<close>

definition duration_ms :: "rat \<Rightarrow> rat \<Rightarrow> int" where
  "duration_ms started finished = max 0 (round_half_even ((finished - started) * 1000))"

lemma triple_in_world [hoare_rules]:
  "(\<And>s r w. P s \<Longrightarrow> m (rs_world s) = (r, w) \<Longrightarrow>
      (case r of Inl e \<Rightarrow> E e (s\<lparr>rs_world := w\<rparr>) | Inr x \<Rightarrow> Q x (s\<lparr>rs_world := w\<rparr>))) \<Longrightarrow>
   triple P (in_world m) Q E"
  by (fastforce simp: triple_def in_world_def split: prod.splits sum.splits)

lemma triple_ask [hoare_rules]: "(\<And>s. P s \<Longrightarrow> Q (f (rs_ctx s)) s) \<Longrightarrow> triple P (ask f) Q E"
  by (simp add: ask_def triple_sget)

lemma triple_modify_ctx [hoare_rules]:
  "(\<And>s. P s \<Longrightarrow> Q () (s\<lparr>rs_ctx := f (rs_ctx s)\<rparr>)) \<Longrightarrow> triple P (modify_ctx f) Q E"
  by (simp add: modify_ctx_def triple_smodify)

lemma triple_read_clock [hoare_rules]:
  "(\<And>s t w. P s \<Longrightarrow> Q t (s\<lparr>rs_world := w\<rparr>)) \<Longrightarrow> triple P (read_clock env) Q E"
  by (auto simp: triple_def read_clock_def split: prod.splits)

lemma duration_nonneg [simp]: "0 \<le> duration_ms a b"
  by (simp add: duration_ms_def)

text \<open>
  Frame reasoning: a predicate of the context that no mutation of a program breaks survives the
  program, whatever the ports do to the world.
\<close>

definition keeps :: "('w pipeline_context \<Rightarrow> bool) \<Rightarrow> ('w, 'a) action_prog \<Rightarrow> bool" where
  "keeps P m \<longleftrightarrow> triple (\<lambda>s. P (rs_ctx s)) m (\<lambda>_ s. P (rs_ctx s)) (\<lambda>_ s. P (rs_ctx s))"

named_theorems keeps_rules \<open>programs that keep a predicate of the context\<close>

lemma keeps_sreturn [keeps_rules]: "keeps P (sreturn x)"
  by (auto simp: keeps_def intro: hoare_rules)

lemma keeps_sraise [keeps_rules]: "keeps P (sraise e)"
  by (auto simp: keeps_def intro: hoare_rules)

lemma keeps_slift [keeps_rules]: "keeps P (slift r)"
  by (auto simp: keeps_def intro: hoare_rules)

lemma keeps_sguard [keeps_rules]: "keeps P (sguard b e)"
  by (auto simp: keeps_def intro: hoare_rules)

lemma keeps_ask [keeps_rules]: "keeps P (ask f)"
  by (auto simp: keeps_def intro: hoare_rules)

lemma keeps_read_clock [keeps_rules]: "keeps P (read_clock env)"
  by (auto simp: keeps_def intro: hoare_rules)

lemma keeps_in_world [keeps_rules]: "keeps P (in_world m)"
  unfolding keeps_def by (rule triple_in_world) (auto split: sum.splits)

lemma keeps_modify_ctx [keeps_rules]: "(\<And>c. P c \<Longrightarrow> P (f c)) \<Longrightarrow> keeps P (modify_ctx f)"
  by (auto simp: keeps_def intro!: hoare_rules)

lemma keeps_sbind [keeps_rules]: "keeps P m \<Longrightarrow> (\<And>x. keeps P (f x)) \<Longrightarrow> keeps P (sbind m f)"
  unfolding keeps_def by (rule triple_sbind)

lemma keeps_sthen [keeps_rules]: "keeps P m \<Longrightarrow> keeps P n \<Longrightarrow> keeps P (sthen m n)"
  unfolding keeps_def by (rule triple_sthen)

lemma keeps_if [keeps_rules]:
  "(b \<Longrightarrow> keeps P m) \<Longrightarrow> (\<not> b \<Longrightarrow> keeps P n) \<Longrightarrow> keeps P (if b then m else n)"
  by simp

lemma keeps_case_option [keeps_rules]:
  "keeps P m \<Longrightarrow> (\<And>x. keeps P (f x)) \<Longrightarrow> keeps P (case v of None \<Rightarrow> m | Some x \<Rightarrow> f x)"
  by (cases v) auto

lemma keeps_sfor [keeps_rules]: "(\<And>x. keeps P (f x)) \<Longrightarrow> keeps P (sfor xs f)"
  unfolding keeps_def by (rule triple_sfor)

lemma keepsD: "keeps P m \<Longrightarrow> P (rs_ctx s) \<Longrightarrow> m s = (r, s') \<Longrightarrow> P (rs_ctx s')"
  by (cases r) (auto simp: keeps_def dest: tripleD_Inr tripleD_Inl)

text \<open>Running a program: one equation per primitive, collected as \<open>run_simps\<close>.\<close>

lemma in_world_eq:
  "in_world m s = (r, s') \<longleftrightarrow> (\<exists>w. m (rs_world s) = (r, w) \<and> s' = s\<lparr>rs_world := w\<rparr>)"
  by (auto simp: in_world_def split: prod.splits)

lemma ask_eq: "ask f s = (r, s') \<longleftrightarrow> r = Inr (f (rs_ctx s)) \<and> s' = s"
  by (auto simp: ask_def sget_def)

lemma modify_ctx_eq:
  "modify_ctx f s = (r, s') \<longleftrightarrow> r = Inr () \<and> s' = s\<lparr>rs_ctx := f (rs_ctx s)\<rparr>"
  by (auto simp: modify_ctx_def smodify_def)

lemma read_clock_eq:
  "read_clock env s = (r, s') \<longleftrightarrow>
     (\<exists>t w. env_monotonic env (rs_world s) = (t, w) \<and> r = Inr t \<and> s' = s\<lparr>rs_world := w\<rparr>)"
  by (auto simp: read_clock_def split: prod.splits)

lemmas run_simps = prog_simps in_world_eq ask_eq modify_ctx_eq read_clock_eq

text \<open>
  The route a program returns: no route (\<open>silent\<close>), or a route out of a given set (\<open>routes_in\<close>).
\<close>

definition silent :: "('w, string option) action_prog \<Rightarrow> bool" where
  "silent m \<longleftrightarrow> (\<forall>s r s'. m s = (Inr r, s') \<longrightarrow> r = None)"

definition routes_in :: "string set \<Rightarrow> ('w, string option) action_prog \<Rightarrow> bool" where
  "routes_in R m \<longleftrightarrow> (\<forall>s r s'. m s = (Inr r, s') \<longrightarrow> (\<exists>x\<in>R. r = Some x))"

named_theorems route_rules \<open>which route a program returns\<close>

lemma silent_rules [route_rules]:
  "silent (sreturn None)"
  "silent (sraise e)"
  "(\<And>x. silent (f x)) \<Longrightarrow> silent (sbind m f)"
  "silent n \<Longrightarrow> silent (sthen k n)"
  "(b \<Longrightarrow> silent m1) \<Longrightarrow> (\<not> b \<Longrightarrow> silent m2) \<Longrightarrow> silent (if b then m1 else m2)"
  by (auto simp: silent_def run_simps)

lemma routes_in_rules [route_rules]:
  "x \<in> R \<Longrightarrow> routes_in R (sreturn (Some x))"
  "routes_in R (sraise e)"
  "routes_in R n \<Longrightarrow> routes_in R (sthen k n)"
  "(b \<Longrightarrow> routes_in R m1) \<Longrightarrow> (\<not> b \<Longrightarrow> routes_in R m2) \<Longrightarrow> routes_in R (if b then m1 else m2)"
  by (auto simp: routes_in_def run_simps)

lemma routes_in_bind: "(\<And>x. routes_in R (f x)) \<Longrightarrow> routes_in R (sbind m f)"
  by (fastforce simp: routes_in_def run_simps)

lemma routes_in_slift:
  "(\<And>x. v = Inr x \<Longrightarrow> routes_in R (f x)) \<Longrightarrow> routes_in R (sbind (slift v) f)"
  by (fastforce simp: routes_in_def run_simps)

end
