(* ===== verification/Action_Support.thy ===== *)
theory Action_Support
  imports Context
begin

text \<open>
  The helpers shared by the actions: \<open>application/actions/_config.py\<close> (reading step
  configuration), \<open>_state.py\<close> (state variables and their transforms), \<open>_retrieval.py\<close>
  (the retrieval boundary and the evidence text) and \<open>_conversation.py\<close>.
\<close>

section \<open>Step configuration\<close>

definition definition_error :: "string \<Rightarrow> py_exn" where
  "definition_error m = Known PipelineDefinitionError m"

definition execution_error :: "string \<Rightarrow> py_exn" where
  "execution_error m = Known PipelineExecutionError m"

definition step_prefix :: "pipeline_step_definition \<Rightarrow> string" where
  "step_prefix step = ''Step '' @ quoted (step_id step) @ '' ''"

definition reject_unknown_config_keys ::
    "pipeline_step_definition \<Rightarrow> string list \<Rightarrow> string \<Rightarrow> unit result" where
  "reject_unknown_config_keys step allowed action =
     (let unknown = list_diff (map fst (step_config step)) allowed
      in if unknown \<noteq> []
         then Inl (definition_error (step_prefix step @ ''has unsupported '' @ action @ '' fields: '' @
                py_join '', '' (sorted_unique unknown)))
         else Inr ())"

definition required_config_string :: "pipeline_step_definition \<Rightarrow> string \<Rightarrow> string \<Rightarrow> string result" where
  "required_config_string step key action =
     (case map_of (step_config step) key of
        Some (PStr v) \<Rightarrow>
          if strip v \<noteq> [] then Inr (strip v)
          else Inl (definition_error (step_prefix step @ action @ ''.'' @ key @
                 '' must be a non-empty string''))
      | _ \<Rightarrow> Inl (definition_error (step_prefix step @ action @ ''.'' @ key @
               '' must be a non-empty string'')))"

definition required_rule_string :: "mapping \<Rightarrow> string \<Rightarrow> string \<Rightarrow> string result" where
  "required_rule_string rule key field_name =
     (case map_of rule key of
        Some (PStr v) \<Rightarrow>
          if strip v \<noteq> [] then Inr (strip v)
          else Inl (definition_error (field_name @ '' must be a non-empty string''))
      | _ \<Rightarrow> Inl (definition_error (field_name @ '' must be a non-empty string'')))"

definition route_name :: "py \<Rightarrow> string \<Rightarrow> string result" where
  "route_name value field_name =
     (case value of
        PStr v \<Rightarrow>
          if strip v \<noteq> [] then Inr (py_lower (strip v))
          else Inl (definition_error (field_name @ '' must be a non-empty string''))
      | _ \<Rightarrow> Inl (definition_error (field_name @ '' must be a non-empty string'')))"

definition positive_config_integer :: "pipeline_step_definition \<Rightarrow> string \<Rightarrow> string \<Rightarrow> int result" where
  "positive_config_integer step key action =
     (case map_of (step_config step) key of
        Some (PInt v) \<Rightarrow>
          if v < 1
          then Inl (definition_error (step_prefix step @ action @ ''.'' @ key @
                 '' must be a positive integer''))
          else Inr v
      | _ \<Rightarrow> Inl (definition_error (step_prefix step @ action @ ''.'' @ key @
               '' must be a positive integer'')))"

definition optional_boolean ::
    "pipeline_step_definition \<Rightarrow> string \<Rightarrow> string \<Rightarrow> bool \<Rightarrow> bool result" where
  "optional_boolean step key action default_value =
     (case map_of (step_config step) key of
        None \<Rightarrow> Inr default_value
      | Some (PBool b) \<Rightarrow> Inr b
      | Some _ \<Rightarrow> Inl (definition_error (step_prefix step @ action @ ''.'' @ key @
                 '' must be a boolean'')))"

definition has_route :: "pipeline_step_definition \<Rightarrow> string \<Rightarrow> bool" where
  "has_route step r \<longleftrightarrow> r \<in> set (map fst (step_routes step))"

lemma positive_config_integer_ge: "positive_config_integer step k a = Inr v \<Longrightarrow> 1 \<le> v"
  by (auto simp: positive_config_integer_def split: option.splits py.splits if_splits)

lemma required_config_string_ok: "required_config_string step k a = Inr v \<Longrightarrow> trimmed v"
  by (auto simp: required_config_string_def split: option.splits py.splits if_splits)

section \<open>State variables\<close>

definition state_value :: "string \<Rightarrow> 'w pipeline_context \<Rightarrow> py result" where
  "state_value source c =
     (if source = ''answer'' then Inr (PStr (ctx_answer c))
      else if source = ''last_model_response'' then Inr (PStr (ctx_last_model_response c))
      else if source = ''normalized_query'' then Inr (PStr (ctx_normalized_query c))
      else if source = ''evidence'' then Inr (PStr (ctx_evidence c))
      else if source = ''context_chunk_ids'' then Inr (PTuple (map PStr (ctx_context_chunk_ids c)))
      else if source = ''last_route'' then Inr (PStr (ctx_last_route c))
      else if source = ''last_prefix'' then Inr (PStr (ctx_last_prefix c))
      else if source = ''variables'' then Inr (PDict (ctx_variables c))
      else Inl (execution_error (''Unsupported state source '' @ quoted source)))"

definition string_state_value :: "py \<Rightarrow> string \<Rightarrow> string result" where
  "string_state_value value target =
     (case value of PStr s \<Rightarrow> Inr s
      | _ \<Rightarrow> Inl (execution_error (target @ '' must be assigned from a string'')))"

definition set_state_value ::
    "string \<Rightarrow> py \<Rightarrow> 'w pipeline_context \<Rightarrow> 'w pipeline_context result" where
  "set_state_value target value c =
     (if target = ''answer'' then
        rbind (string_state_value value target) (\<lambda>s. Inr (c\<lparr>ctx_answer := s\<rparr>))
      else if target = ''last_model_response'' then
        rbind (string_state_value value target) (\<lambda>s. Inr (c\<lparr>ctx_last_model_response := s\<rparr>))
      else if target = ''normalized_query'' then
        rbind (string_state_value value target) (\<lambda>s. Inr (c\<lparr>ctx_normalized_query := s\<rparr>))
      else if target = ''evidence'' then
        rbind (string_state_value value target) (\<lambda>s. Inr (c\<lparr>ctx_evidence := s\<rparr>))
      else if target = ''variables'' then
        (case value of PDict d \<Rightarrow> Inr (c\<lparr>ctx_variables := d\<rparr>)
         | _ \<Rightarrow> Inl (execution_error ''variables must be assigned from a mapping''))
      else Inl (execution_error (''Unsupported state target '' @ quoted target)))"

definition clear_value :: "py \<Rightarrow> py" where
  "clear_value v = (case v of PStr _ \<Rightarrow> PStr [] | PDict _ \<Rightarrow> PDict [] | PTuple _ \<Rightarrow> PList []
     | PList _ \<Rightarrow> PList [] | _ \<Rightarrow> PNone)"

definition to_list_value :: "py \<Rightarrow> py list result" where
  "to_list_value v = (case v of PNone \<Rightarrow> Inr [] | PList xs \<Rightarrow> Inr xs | PTuple xs \<Rightarrow> Inr xs
     | PStr s \<Rightarrow> Inr (if strip s \<noteq> [] then [PStr s] else [])
     | _ \<Rightarrow> Inl (execution_error ''to_list requires null, string, or list-like input''))"

definition split_lines :: "py \<Rightarrow> string list result" where
  "split_lines v = (case v of PNone \<Rightarrow> Inr []
     | PStr s \<Rightarrow> Inr (map strip (filter (\<lambda>line. strip line \<noteq> []) (splitlines s)))
     | _ \<Rightarrow> Inl (execution_error ''split_lines requires string input''))"

definition parse_json_value :: "'w runtime_env \<Rightarrow> py \<Rightarrow> py result" where
  "parse_json_value env v = (case v of
       PStr s \<Rightarrow> (case env_json_loads env s of Some x \<Rightarrow> Inr x
                  | None \<Rightarrow> Inl (execution_error ''parse_json received invalid JSON''))
     | _ \<Rightarrow> Inl (execution_error ''parse_json requires string input''))"

definition transform_value :: "'w runtime_env \<Rightarrow> string \<Rightarrow> py \<Rightarrow> py result" where
  "transform_value env transform value =
     (if transform = ''copy'' then Inr value
      else if transform = ''clear'' then Inr (clear_value value)
      else if transform = ''to_list'' then rbind (to_list_value value) (\<lambda>xs. Inr (PList xs))
      else if transform = ''split_lines'' then rbind (split_lines value) (\<lambda>xs. Inr (PList (map PStr xs)))
      else if transform = ''parse_json'' then parse_json_value env value
      else Inl (execution_error (''Unsupported set_variables transform '' @ quoted transform)))"

section \<open>The retrieval boundary\<close>

fun verify_retrieval_boundary ::
    "domain_profile \<Rightarrow> authorization_context \<Rightarrow> search_hit list \<Rightarrow> unit result" where
  "verify_retrieval_boundary domain authorization [] = Inr ()"
| "verify_retrieval_boundary domain authorization (hit # hits) =
     (let chunk = hit_chunk hit
      in if chunk_domain chunk \<noteq> domain_name domain \<or>
            chunk_tenant_id chunk \<noteq> auth_tenant_id authorization
         then Inl (Known PolicyViolationError ''Retrieval provider crossed a domain or tenant boundary'')
         else if chunk_acl_labels chunk \<noteq> [] \<and>
                 \<not> list_ex (\<lambda>l. l \<in> set (auth_acl_labels authorization)) (chunk_acl_labels chunk)
         then Inl (Known PolicyViolationError ''Retrieval provider returned a forbidden ACL label'')
         else rbind (document_visible_to_subject (domain_security_model domain)
                       (chunk_security chunk) (auth_security authorization)) (\<lambda>decision.
           if \<not> decision_allowed decision
           then Inl (Known PolicyViolationError
                  ''Retrieval provider returned forbidden security metadata'')
           else verify_retrieval_boundary domain authorization hits))"

text \<open>The promise of the check: each hit may be read by the authenticated subject.\<close>

definition hit_authorized :: "domain_profile \<Rightarrow> authorization_context \<Rightarrow> search_hit \<Rightarrow> bool" where
  "hit_authorized domain authorization hit \<longleftrightarrow>
     chunk_domain (hit_chunk hit) = domain_name domain \<and>
     chunk_tenant_id (hit_chunk hit) = auth_tenant_id authorization \<and>
     (chunk_acl_labels (hit_chunk hit) = [] \<or>
      set (chunk_acl_labels (hit_chunk hit)) \<inter> set (auth_acl_labels authorization) \<noteq> {}) \<and>
     granted (document_visible_to_subject (domain_security_model domain)
       (chunk_security (hit_chunk hit)) (auth_security authorization))"

lemma verify_retrieval_boundary_iff:
  "verify_retrieval_boundary d a hits = Inr () \<longleftrightarrow> (\<forall>h\<in>set hits. hit_authorized d a h)"
proof (induction hits)
  case (Cons h hits)
  show ?case
  proof (cases "document_visible_to_subject (domain_security_model d)
      (chunk_security (hit_chunk h)) (auth_security a)")
    case (Inl e)
    then show ?thesis by (simp add: hit_authorized_def Let_def)
  next
    case (Inr dec)
    then show ?thesis using Cons by (auto simp: hit_authorized_def Let_def list_ex_iff)
  qed
qed simp

section \<open>Evidence text\<close>

definition evidence_block :: "search_hit \<Rightarrow> string" where
  "evidence_block hit =
     ''[source_id='' @ chunk_source_id (hit_chunk hit) @ ''; chunk_id='' @ chunk_id (hit_chunk hit) @
     ''; '' @ hit_score_type hit @ ''='' @ format_6f (hit_score hit) @ '']'' @ newline @
     chunk_text (hit_chunk hit)"

definition hit_citation :: "search_hit \<Rightarrow> citation result" where
  "hit_citation hit = citation_post_init
     \<lparr>citation_source_id = chunk_source_id (hit_chunk hit), citation_chunk_id = chunk_id (hit_chunk hit),
      citation_source_uri = chunk_source_uri (hit_chunk hit), citation_score = hit_score hit,
      citation_score_type = hit_score_type hit, citation_metadata = chunk_metadata (hit_chunk hit)\<rparr>"

text \<open>Python's \<open>block[:remaining]\<close>, where \<open>remaining\<close> is never negative in the loop below.\<close>

definition py_prefix :: "string \<Rightarrow> int \<Rightarrow> string" where
  "py_prefix s n = (if n < 0 then take (nat (int (length s) + n)) s else take (nat n) s)"

fun build_blocks ::
    "search_hit list \<Rightarrow> int \<Rightarrow> int \<Rightarrow>
     (string list \<times> citation list \<times> string list \<times> string list) result" where
  "build_blocks [] maximum used = Inr ([], [], [], [])"
| "build_blocks (hit # hits) maximum used =
     (let block = evidence_block hit;
          selected = py_prefix block (maximum - used)
      in rbind (hit_citation hit) (\<lambda>citation.
         if length selected < length block
         then Inr ([selected], [citation], [chunk_id (hit_chunk hit)],
                   map (\<lambda>h. chunk_id (hit_chunk h)) hits)
         else rbind (build_blocks hits maximum (used + int (length selected)))
           (\<lambda>(blocks, citations, chunk_ids, omitted).
             Inr (selected # blocks, citation # citations, chunk_id (hit_chunk hit) # chunk_ids,
                  omitted))))"

definition block_separator :: string where
  "block_separator = newline @ newline @ ''---'' @ newline @ newline"

definition build_context ::
    "search_hit list \<Rightarrow> int \<Rightarrow> (string \<times> citation list \<times> string list \<times> string list) result" where
  "build_context hits maximum =
     rbind (build_blocks hits maximum 0) (\<lambda>(blocks, citations, chunk_ids, omitted).
       let joined = py_join block_separator blocks
       in Inr (if joined = [] then ''No relevant evidence was retrieved.'' else joined,
               citations, chunk_ids, omitted))"

definition normalize_guard_query :: "string \<Rightarrow> string" where
  "normalize_guard_query q = collapse_ws (py_lower (strip q))"

definition optional_text :: "string option \<Rightarrow> string" where
  "optional_text v = (case v of None \<Rightarrow> ''None'' | Some s \<Rightarrow> s)"

definition enumerate_from_1 :: "'a list \<Rightarrow> (int \<times> 'a) list" where
  "enumerate_from_1 xs = zip (map int [1..<Suc (length xs)]) xs"

definition citations_text :: "citation list \<Rightarrow> string" where
  "citations_text citations = py_join newline (map (\<lambda>(index, c).
     str_int index @ ''. source_id='' @ citation_source_id c @ ''; chunk_id='' @ citation_chunk_id c @
     ''; '' @ citation_score_type c @ ''='' @ format_6f (citation_score c) @ ''; uri='' @
     optional_text (citation_source_uri c)) (enumerate_from_1 citations))"

definition retrieval_trace_summary :: "search_hit list \<Rightarrow> string" where
  "retrieval_trace_summary hits = py_join newline (map (\<lambda>(index, h).
     str_int index @ ''. source_id='' @ chunk_source_id (hit_chunk h) @ ''; chunk_id='' @
     chunk_id (hit_chunk h) @ ''; '' @ hit_score_type h @ ''='' @ format_6f (hit_score h))
     (enumerate_from_1 hits))"

section \<open>Conversations\<close>

definition conversation_history_service ::
    "'w pipeline_context \<Rightarrow> 'w conversation_service result" where
  "conversation_history_service c = (case ctx_conversation_history c of
       None \<Rightarrow> Inl (execution_error ''Conversation history service is not configured'')
     | Some svc \<Rightarrow> Inr svc)"

definition fail_conversation_turn :: "string \<Rightarrow> ('w, unit) action_prog" where
  "fail_conversation_turn error_code =
     sbind (ask id) (\<lambda>c.
       case (ctx_conversation_id c, ctx_conversation_turn_id c) of
         (Some cid, Some tid) \<Rightarrow>
           sbind (slift (conversation_history_service c)) (\<lambda>svc.
           sthen (in_world (cs_fail_turn svc (command_authorization (ctx_command c)) cid tid error_code
             [(''request_id'', PStr (command_request_id (ctx_command c)))]))
           (modify_ctx (\<lambda>c. c\<lparr>ctx_conversation_turn_finalized := True\<rparr>)))
       | _ \<Rightarrow> sraise (execution_error ''Conversation turn must be started before marking failure''))"

definition conversation_title :: "string \<Rightarrow> 'w pipeline_context \<Rightarrow> string result" where
  "conversation_title source c =
     (if source = ''query''
      then let title = take 80 (py_join '' '' (py_split (command_query (ctx_command c))))
           in Inr (if title = [] then ''Untitled conversation'' else title)
      else Inl (execution_error (''Unsupported conversation title source '' @ quoted source)))"

definition render_turn :: "conversation_turn \<Rightarrow> string \<Rightarrow> string" where
  "render_turn t answer =
     ''User: '' @ turn_question_text t @ newline @ ''Assistant: '' @ answer @ newline @ newline"

text \<open>
  The loop over the reversed turns: an over-long turn is skipped, the first turn that no longer
  fits ends the loop. The result is the list \<open>selected\<close>, newest turn first.
\<close>

fun select_turns :: "conversation_turn list \<Rightarrow> int \<Rightarrow> int \<Rightarrow> string list" where
  "select_turns [] max_characters used = []"
| "select_turns (t # ts) max_characters used =
     (case turn_answer_text t of
        None \<Rightarrow> select_turns ts max_characters used
      | Some answer \<Rightarrow>
          (let rendered = render_turn t answer; len = int (length rendered)
           in if len > max_characters then select_turns ts max_characters used
              else if used + len > max_characters then []
              else rendered # select_turns ts max_characters (used + len)))"

definition format_conversation_history :: "conversation_turn list \<Rightarrow> int \<Rightarrow> string" where
  "format_conversation_history turns max_characters =
     strip (concat (rev (select_turns (rev turns) max_characters 0)))"

lemma keeps_fail_conversation_turn [keeps_rules]:
  "(\<And>c. P c \<Longrightarrow> P (c\<lparr>ctx_conversation_turn_finalized := True\<rparr>)) \<Longrightarrow>
   keeps P (fail_conversation_turn code)"
  unfolding fail_conversation_turn_def
  by (auto intro!: keeps_rules split: option.splits prod.splits)

end
