(* ===== verification/Actions_Retrieval.thy ===== *)
theory Actions_Retrieval
  imports Action_Support
begin

text \<open>
  The actions that build the evidence: \<open>normalize_query.py\<close>, \<open>retrieve.py\<close>, \<open>expand_graph.py\<close>,
  \<open>manage_context_budget.py\<close> and \<open>require_evidence.py\<close>. Each action is its configuration reader
  (which is also its \<open>validate_config\<close>) and its \<open>execute\<close> method over the pipeline context.
\<close>

section \<open>normalize_query\<close>

definition normalize_query_execute :: "'w action_fun" where
  "normalize_query_execute step =
     sthen (modify_ctx (\<lambda>c. c\<lparr>ctx_normalized_query :=
              py_join '' '' (py_split (command_query (ctx_command c)))\<rparr>))
       (sreturn None)"

section \<open>retrieve\<close>

record retrieve_settings =
  rc_query_source :: string
  rc_search_mode :: search_mode
  rc_top_k :: int
  rc_filters :: mapping

definition read_search_mode :: "pipeline_step_definition \<Rightarrow> search_mode result" where
  "read_search_mode step =
     rbind (required_config_string step ''search_mode'' ''retrieve'') (\<lambda>raw.
       case search_mode_of raw of
         Some m \<Rightarrow> Inr m
       | None \<Rightarrow> Inl (definition_error (step_prefix step @ ''retrieve.search_mode is invalid'')))"

definition retrieve_config :: "pipeline_step_definition \<Rightarrow> retrieve_settings result" where
  "retrieve_config step =
     rbind (reject_unknown_config_keys step
              [''query_source'', ''search_mode'', ''top_k'', ''filters''] ''retrieve'') (\<lambda>_.
     rbind (required_config_string step ''query_source'' ''retrieve'') (\<lambda>query_source.
       if query_source \<notin> {''normalized_query'', ''command_query''}
       then Inl (definition_error (step_prefix step @ ''retrieve.query_source is not allowed''))
       else rbind (read_search_mode step) (\<lambda>mode.
         case dict_get_or (step_config step) ''filters'' (PDict []) of
           PDict filters \<Rightarrow>
             rbind (positive_config_integer step ''top_k'' ''retrieve'') (\<lambda>top_k.
               Inr \<lparr>rc_query_source = query_source, rc_search_mode = mode, rc_top_k = top_k,
                    rc_filters = filters\<rparr>)
         | _ \<Rightarrow> Inl (definition_error (step_prefix step @ ''retrieve.filters must be a mapping'')))))"

definition retrieval_query :: "string \<Rightarrow> 'w pipeline_context \<Rightarrow> string result" where
  "retrieval_query source c =
     (if source = ''normalized_query'' then Inr (ctx_normalized_query c)
      else if source = ''command_query'' then Inr (command_query (ctx_command c))
      else Inl (execution_error (''Unsupported retrieve query source '' @ quoted source)))"

definition retrieve_request ::
    "retrieve_settings \<Rightarrow> string \<Rightarrow> 'w pipeline_context \<Rightarrow> search_request result" where
  "retrieve_request config request_query c =
     (let domain = ctx_domain c; authorization = command_authorization (ctx_command c)
      in search_request_post_init
        \<lparr>search_query = request_query, search_domain = domain_name domain,
         search_tenant_id = auth_tenant_id authorization, search_top_k = rc_top_k config,
         search_request_mode = rc_search_mode config,
         search_filters = dict_update (dict_update (command_filters (ctx_command c))
           (retrieval_filters (domain_retrieval domain))) (rc_filters config),
         search_allowed_acl_labels = auth_acl_labels authorization,
         search_security_model = domain_security_model domain,
         search_subject_security = auth_security authorization\<rparr>)"

definition retrieve_execute :: "'w action_fun" where
  "retrieve_execute step =
     sbind (slift (retrieve_config step)) (\<lambda>config.
     sbind (ask id) (\<lambda>c.
     sbind (slift (retrieval_query (rc_query_source config) c)) (\<lambda>request_query.
     sbind (slift (retrieve_request config request_query c)) (\<lambda>request.
     sbind (in_world (ctx_retrieval c request)) (\<lambda>found.
     sthen (modify_ctx (\<lambda>c. c\<lparr>ctx_seed_hits := found\<rparr>))
     (sthen (modify_ctx (\<lambda>c. c\<lparr>ctx_retrieval_queries_asked_norm :=
              insert (normalize_guard_query request_query) (ctx_retrieval_queries_asked_norm c)\<rparr>))
     (sthen (slift (verify_retrieval_boundary (ctx_domain c)
              (command_authorization (ctx_command c)) found))
     (sthen (modify_ctx (\<lambda>c. c\<lparr>ctx_hits := ctx_seed_hits c\<rparr>))
       (sreturn None)))))))))"

section \<open>expand_graph\<close>

record expand_graph_settings =
  eg_enabled :: bool
  eg_max_depth :: int
  eg_max_nodes :: int
  eg_direction :: graph_direction
  eg_relationship_types :: "string list"

definition read_graph_direction :: "pipeline_step_definition \<Rightarrow> graph_direction result" where
  "read_graph_direction step =
     rbind (required_config_string step ''direction'' ''expand_graph'') (\<lambda>raw.
       case graph_direction_of raw of
         Some d \<Rightarrow> Inr d
       | None \<Rightarrow> Inl (definition_error (step_prefix step @ ''expand_graph.direction is invalid'')))"

fun strings_of :: "py list \<Rightarrow> string list option" where
  "strings_of [] = Some []"
| "strings_of (PStr s # xs) =
     (if strip s = [] then None
      else case strings_of xs of None \<Rightarrow> None | Some ys \<Rightarrow> Some (strip s # ys))"
| "strings_of (x # xs) = None"

definition read_relationship_types :: "pipeline_step_definition \<Rightarrow> string list result" where
  "read_relationship_types step =
     (let failure = Inl (definition_error (step_prefix step @
                      ''expand_graph.relationship_types must be a list of strings''))
      in case map_of (step_config step) ''relationship_types'' of
           Some (PTuple raw) \<Rightarrow> (case strings_of raw of Some ts \<Rightarrow> Inr ts | None \<Rightarrow> failure)
         | _ \<Rightarrow> failure)"

definition expand_graph_config :: "pipeline_step_definition \<Rightarrow> expand_graph_settings result" where
  "expand_graph_config step =
     rbind (reject_unknown_config_keys step
              [''enabled'', ''max_depth'', ''max_nodes'', ''direction'', ''relationship_types'']
              ''expand_graph'') (\<lambda>_.
       case map_of (step_config step) ''enabled'' of
         Some (PBool enabled) \<Rightarrow>
           rbind (read_graph_direction step) (\<lambda>direction.
           rbind (positive_config_integer step ''max_depth'' ''expand_graph'') (\<lambda>depth.
           rbind (positive_config_integer step ''max_nodes'' ''expand_graph'') (\<lambda>nodes.
           rbind (read_relationship_types step) (\<lambda>types.
             Inr \<lparr>eg_enabled = enabled, eg_max_depth = depth, eg_max_nodes = nodes,
                  eg_direction = direction, eg_relationship_types = types\<rparr>))))
       | _ \<Rightarrow> Inl (definition_error (step_prefix step @ ''expand_graph.enabled must be a boolean'')))"

definition traversal_request ::
    "expand_graph_settings \<Rightarrow> 'w pipeline_context \<Rightarrow> graph_traversal_request result" where
  "traversal_request config c =
     (let authorization = command_authorization (ctx_command c)
      in graph_traversal_request_post_init
        \<lparr>trav_seeds = ctx_hits c, trav_domain = domain_name (ctx_domain c),
         trav_tenant_id = auth_tenant_id authorization, trav_max_depth = eg_max_depth config,
         trav_max_nodes = eg_max_nodes config, trav_direction = eg_direction config,
         trav_relationship_types = eg_relationship_types config,
         trav_allowed_acl_labels = auth_acl_labels authorization,
         trav_security_model = domain_security_model (ctx_domain c),
         trav_subject_security = auth_security authorization\<rparr>)"

text \<open>\<open>unique.setdefault(hit.chunk.chunk_id, hit)\<close> for every expanded hit.\<close>

definition hit_key :: "search_hit \<Rightarrow> string" where
  "hit_key h = chunk_id (hit_chunk h)"

fun add_missing_hits :: "(string \<times> search_hit) list \<Rightarrow> search_hit list \<Rightarrow> (string \<times> search_hit) list"
  where
  "add_missing_hits unique [] = unique"
| "add_missing_hits unique (h # hits) =
     add_missing_hits (if has_key unique (hit_key h) then unique else dict_set (hit_key h) h unique) hits"

definition merge_hits :: "search_hit list \<Rightarrow> search_hit list \<Rightarrow> search_hit list" where
  "merge_hits seeds expanded =
     map snd (add_missing_hits (dict_of (map (\<lambda>h. (hit_key h, h)) seeds)) expanded)"

definition expand_graph_execute :: "'w action_fun" where
  "expand_graph_execute step =
     sbind (slift (expand_graph_config step)) (\<lambda>config.
     sbind (ask id) (\<lambda>c.
       if \<not> eg_enabled config \<or> ctx_hits c = [] then sreturn None
       else
         sbind (slift (traversal_request config c)) (\<lambda>request.
         sbind (in_world (ctx_graph c request)) (\<lambda>expanded.
         sthen (slift (verify_retrieval_boundary (ctx_domain c)
                  (command_authorization (ctx_command c)) expanded))
         (sthen (modify_ctx (\<lambda>c. c\<lparr>ctx_graph_hits := expanded\<rparr>))
         (sthen (modify_ctx (\<lambda>c. c\<lparr>ctx_hits := merge_hits (ctx_seed_hits c) expanded\<rparr>))
           (sreturn None)))))))"

section \<open>manage_context_budget and require_evidence\<close>

definition context_budget_config :: "pipeline_step_definition \<Rightarrow> int result" where
  "context_budget_config step =
     rbind (reject_unknown_config_keys step [''source'', ''target'', ''max_context_characters'']
              ''manage_context_budget'') (\<lambda>_.
     rbind (required_config_string step ''source'' ''manage_context_budget'') (\<lambda>source.
     rbind (required_config_string step ''target'' ''manage_context_budget'') (\<lambda>target.
       if source \<noteq> ''hits''
       then Inl (definition_error (step_prefix step @ ''manage_context_budget.source must be '' @
              quoted ''hits''))
       else if target \<noteq> ''evidence''
       then Inl (definition_error (step_prefix step @ ''manage_context_budget.target must be '' @
              quoted ''evidence''))
       else positive_config_integer step ''max_context_characters'' ''manage_context_budget'')))"

definition manage_context_budget_execute :: "'w action_fun" where
  "manage_context_budget_execute step =
     sbind (slift (context_budget_config step)) (\<lambda>maximum.
     sbind (ask ctx_hits) (\<lambda>hits.
     sbind (slift (build_context hits maximum)) (\<lambda>(evidence, citations, chunk_ids, omitted).
     sthen (modify_ctx (\<lambda>c. c\<lparr>ctx_evidence := evidence, ctx_citations := citations,
              ctx_context_chunk_ids := chunk_ids, ctx_omitted_chunk_ids := omitted\<rparr>))
       (sreturn None))))"

definition require_evidence_execute :: "'w action_fun" where
  "require_evidence_execute step =
     sbind (ask id) (\<lambda>c.
       if ctx_evidence c = [] \<or> ctx_citations c = []
       then sraise (execution_error ''The pipeline requires retrieved evidence'')
       else sreturn None)"

section \<open>Merging seeds and expanded hits\<close>

lemma dict_set_keyed:
  "(\<forall>(k, h)\<in>set d. k = hit_key h) \<Longrightarrow> \<forall>(k, x)\<in>set (dict_set (hit_key h) h d). k = hit_key x"
  using set_dict_set [of "hit_key h" h d] by fastforce

lemma add_missing_hits_spec:
  assumes "\<forall>(k, h)\<in>set u. k = hit_key h" "distinct (map fst u)"
  shows "(\<forall>(k, h)\<in>set (add_missing_hits u hs). k = hit_key h) \<and>
    distinct (map fst (add_missing_hits u hs)) \<and>
    set (add_missing_hits u hs) \<subseteq> set u \<union> (\<lambda>h. (hit_key h, h)) ` set hs \<and>
    fst ` set (add_missing_hits u hs) = fst ` set u \<union> hit_key ` set hs \<and>
    map_of u \<subseteq>\<^sub>m map_of (add_missing_hits u hs)"
  using assms
proof (induction u hs rule: add_missing_hits.induct)
  case (2 unique h hits)
  let ?u = "if has_key unique (hit_key h) then unique else dict_set (hit_key h) h unique"
  have keyed: "\<forall>(k, x)\<in>set ?u. k = hit_key x" using "2.prems"(1) dict_set_keyed by simp
  have dist: "distinct (map fst ?u)" using "2.prems"(2) distinct_dict_set by auto
  have sub: "set ?u \<subseteq> set unique \<union> {(hit_key h, h)}"
    using set_dict_set [of "hit_key h" h unique] by auto
  have keys: "fst ` set ?u = insert (hit_key h) (fst ` set unique)"
    using keys_dict_set [of "hit_key h" h unique] by (auto simp: has_key_def)
  have le: "map_of unique \<subseteq>\<^sub>m map_of ?u" by (auto simp: map_le_def has_key_iff)
  from "2.IH" [OF keyed dist] sub keys le show ?case
    by (auto intro: map_le_trans simp del: has_key_def)
qed simp

lemma merge_hits_distinct: "distinct (map hit_key (merge_hits seeds expanded))"
  and merge_hits_subset: "set (merge_hits seeds expanded) \<subseteq> set seeds \<union> set expanded"
  and merge_hits_keys: "hit_key ` set (merge_hits seeds expanded) = hit_key ` (set seeds \<union> set expanded)"
proof -
  let ?d = "dict_of (map (\<lambda>h. (hit_key h, h)) seeds)"
  let ?m = "add_missing_hits ?d expanded"
  have sub: "set ?d \<subseteq> (\<lambda>h. (hit_key h, h)) ` set seeds"
    using set_dict_of [of "map (\<lambda>h. (hit_key h, h)) seeds"] by auto
  then have keyed: "\<forall>(k, h)\<in>set ?d. k = hit_key h" by auto
  have "fst ` set ?d = dom (map_of ?d)" by (simp add: dom_map_of_conv_image_fst)
  also have "\<dots> = hit_key ` set seeds"
    by (simp add: map_of_dict_of dom_map_of_conv_image_fst image_image)
  finally have keys: "fst ` set ?d = hit_key ` set seeds" .
  from add_missing_hits_spec [OF keyed distinct_dict_of, of expanded]
  have m: "\<forall>(k, h)\<in>set ?m. k = hit_key h" "distinct (map fst ?m)"
    "set ?m \<subseteq> set ?d \<union> (\<lambda>h. (hit_key h, h)) ` set expanded"
    "fst ` set ?m = fst ` set ?d \<union> hit_key ` set expanded" by simp_all
  have *: "map hit_key (map snd ?m) = map fst ?m" using m(1) by auto
  have "distinct (map hit_key (map snd ?m))" unfolding * by (rule m(2))
  then show "distinct (map hit_key (merge_hits seeds expanded))" unfolding merge_hits_def .
  have "snd ` set ?m \<subseteq> set seeds \<union> set expanded" using m(3) sub by fastforce
  then show "set (merge_hits seeds expanded) \<subseteq> set seeds \<union> set expanded"
    by (simp add: merge_hits_def)
  have "hit_key ` set (map snd ?m) = fst ` set ?m" by (metis * list.set_map)
  with m(4) keys show "hit_key ` set (merge_hits seeds expanded) = hit_key ` (set seeds \<union> set expanded)"
    by (simp add: merge_hits_def image_Un)
qed

section \<open>The evidence budget\<close>

lemma py_prefix_le: "0 \<le> n \<Longrightarrow> int (length (py_prefix s n)) \<le> n"
  by (simp add: py_prefix_def)

text \<open>
  The blocks stay in the budget; the kept and the omitted identifiers split the hits in order;
  every kept block has one citation.
\<close>

lemma build_blocks_spec:
  assumes "build_blocks hits maximum used = Inr (blocks, citations, chunk_ids, omitted)"
    "0 \<le> used" "used \<le> maximum"
  shows "used + int (sum_list (map length blocks)) \<le> maximum \<and>
    chunk_ids @ omitted = map hit_key hits \<and>
    length citations = length chunk_ids \<and> length blocks = length chunk_ids"
  using assms
proof (induction hits maximum used arbitrary: blocks citations chunk_ids omitted
    rule: build_blocks.induct)
  case (2 hit hits maximum used)
  let ?sel = "py_prefix (evidence_block hit) (maximum - used)"
  have le: "int (length ?sel) \<le> maximum - used" using py_prefix_le "2.prems"(3) by simp
  from "2.prems"(1) obtain c where c: "hit_citation hit = Inr c" by (auto simp: Let_def rbind_eq_Inr)
  show ?case
  proof (cases "length ?sel < length (evidence_block hit)")
    case True
    with "2.prems"(1) c le show ?thesis by (auto simp: Let_def hit_key_def)
  next
    case False
    with "2.prems"(1) c obtain bs cs ids om where
      rec: "build_blocks hits maximum (used + int (length ?sel)) = Inr (bs, cs, ids, om)"
      and eq: "blocks = ?sel # bs" "citations = c # cs" "chunk_ids = hit_key hit # ids" "omitted = om"
      by (auto simp: Let_def rbind_eq_Inr hit_key_def)
    from "2.IH" [OF refl refl False rec] "2.prems"(2) le eq show ?thesis by auto
  qed
qed simp

lemma build_context_spec:
  assumes "build_context hits maximum = Inr (evidence, citations, chunk_ids, omitted)" "1 \<le> maximum"
  shows "chunk_ids @ omitted = map hit_key hits" "length citations = length chunk_ids"
    "evidence \<noteq> []"
    "int (length evidence) \<le> max 35 (maximum + 7 * int (length chunk_ids - 1))"
proof -
  from assms(1) obtain blocks where b: "build_blocks hits maximum 0 = Inr (blocks, citations, chunk_ids, omitted)"
    and ev: "evidence = (if py_join block_separator blocks = []
      then ''No relevant evidence was retrieved.'' else py_join block_separator blocks)"
    by (auto simp: build_context_def rbind_eq_Inr Let_def)
  from build_blocks_spec [OF b] assms(2) have spec: "int (sum_list (map length blocks)) \<le> maximum"
    "chunk_ids @ omitted = map hit_key hits" "length citations = length chunk_ids"
    "length blocks = length chunk_ids" by auto
  have sep: "length block_separator = 7" by (simp add: block_separator_def newline_def)
  show "chunk_ids @ omitted = map hit_key hits" "length citations = length chunk_ids" using spec by auto
  show "evidence \<noteq> []" using ev by auto
  show "int (length evidence) \<le> max 35 (maximum + 7 * int (length chunk_ids - 1))"
  proof (cases "blocks = []")
    case False
    then show ?thesis using ev spec sep length_py_join [of blocks block_separator] by auto
  qed (use ev in simp)
qed

section \<open>Every hit of the context is authorised\<close>

definition hits_authorized :: "'w pipeline_context \<Rightarrow> bool" where
  "hits_authorized c \<longleftrightarrow>
     (\<forall>h\<in>set (ctx_hits c). hit_authorized (ctx_domain c) (command_authorization (ctx_command c)) h)"

definition seeds_authorized :: "'w pipeline_context \<Rightarrow> bool" where
  "seeds_authorized c \<longleftrightarrow>
     (\<forall>h\<in>set (ctx_seed_hits c). hit_authorized (ctx_domain c) (command_authorization (ctx_command c)) h)"

text \<open>
  A raise may leave unchecked seed hits behind: \<open>retrieve\<close> stores them before the check. The hits
  later actions read are only ever the checked ones.
\<close>

definition retrieval_safe :: "'w pipeline_context \<Rightarrow> bool" where
  "retrieval_safe c \<longleftrightarrow> hits_authorized c \<and> seeds_authorized c"

lemmas retrieval_safe_defs = retrieval_safe_def hits_authorized_def seeds_authorized_def

definition retrieval_contract :: "('w, 'a) action_prog \<Rightarrow> bool" where
  "retrieval_contract m \<longleftrightarrow> triple (\<lambda>s. retrieval_safe (rs_ctx s)) m
     (\<lambda>_ s. retrieval_safe (rs_ctx s)) (\<lambda>_ s. hits_authorized (rs_ctx s))"

lemma keeps_retrieval_contract: "keeps retrieval_safe m \<Longrightarrow> retrieval_contract m"
  unfolding keeps_def retrieval_contract_def
  by (erule triple_post) (auto simp: retrieval_safe_def)

lemma retrieval_contract_bind:
  "retrieval_contract m \<Longrightarrow> (\<And>x. retrieval_contract (f x)) \<Longrightarrow> retrieval_contract (sbind m f)"
  unfolding retrieval_contract_def by (rule triple_sbind)

lemma normalize_query_keeps [keeps_rules]:
  "(\<And>c q. P c \<Longrightarrow> P (c\<lparr>ctx_normalized_query := q\<rparr>)) \<Longrightarrow> keeps P (normalize_query_execute step)"
  unfolding normalize_query_execute_def by (intro keeps_rules) auto

lemma manage_context_budget_keeps [keeps_rules]:
  "(\<And>c e cs ids om. P c \<Longrightarrow> P (c\<lparr>ctx_evidence := e, ctx_citations := cs,
      ctx_context_chunk_ids := ids, ctx_omitted_chunk_ids := om\<rparr>)) \<Longrightarrow>
   keeps P (manage_context_budget_execute step)"
  unfolding manage_context_budget_execute_def
  by (intro keeps_rules) (auto split: prod.splits intro!: keeps_rules)

lemma require_evidence_keeps [keeps_rules]: "keeps P (require_evidence_execute step)"
  unfolding require_evidence_execute_def by (intro keeps_rules)

lemma retrieve_contract: "retrieval_contract (retrieve_execute step)"
  unfolding retrieval_contract_def
proof (rule tripleI)
  fix s x s'
  assume "retrieval_safe (rs_ctx s)" "retrieve_execute step s = (Inr x, s')"
  then show "retrieval_safe (rs_ctx s')"
    by (auto simp: retrieve_execute_def run_simps retrieval_safe_defs verify_retrieval_boundary_iff)
next
  fix s e s'
  assume "retrieval_safe (rs_ctx s)" "retrieve_execute step s = (Inl e, s')"
  then show "hits_authorized (rs_ctx s')"
    by (auto simp: retrieve_execute_def run_simps retrieval_safe_defs)
qed

lemma expand_graph_contract: "retrieval_contract (expand_graph_execute step)"
  unfolding retrieval_contract_def
proof (rule tripleI)
  fix s x s'
  assume "retrieval_safe (rs_ctx s)" "expand_graph_execute step s = (Inr x, s')"
  then show "retrieval_safe (rs_ctx s')"
    by (auto simp: expand_graph_execute_def run_simps retrieval_safe_defs verify_retrieval_boundary_iff
        dest!: subsetD [OF merge_hits_subset] split: if_splits)
next
  fix s e s'
  assume "retrieval_safe (rs_ctx s)" "expand_graph_execute step s = (Inl e, s')"
  then show "hits_authorized (rs_ctx s')"
    by (auto simp: expand_graph_execute_def run_simps retrieval_safe_defs split: if_splits)
qed

section \<open>Normalised queries\<close>

lemma normalize_query_result:
  "normalize_query_execute step s = (Inr None, s\<lparr>rs_ctx := (rs_ctx s)\<lparr>ctx_normalized_query :=
     py_join '' '' (py_split (command_query (ctx_command (rs_ctx s))))\<rparr>\<rparr>)"
  by (simp add: normalize_query_execute_def modify_ctx_def sthen_def sbind_def smodify_def sreturn_def)

lemma silent_retrieval_actions [route_rules]:
  "silent (normalize_query_execute step)" "silent (retrieve_execute step)"
  "silent (expand_graph_execute step)" "silent (manage_context_budget_execute step)"
  "silent (require_evidence_execute step)"
  unfolding normalize_query_execute_def retrieve_execute_def expand_graph_execute_def
    manage_context_budget_execute_def require_evidence_execute_def split_beta
  by (intro route_rules)+

end
