(* ===== verification/Actions_Routing.thy ===== *)
theory Actions_Routing
  imports Action_Support
begin

text \<open>
  The actions that assign variables and choose routes: \<open>set_variables.py\<close>, \<open>prefix_router.py\<close>,
  \<open>json_decision_router.py\<close>, \<open>loop_guard.py\<close> and \<open>repeat_query_guard.py\<close>.
\<close>

text \<open>
  \<open>str(value).strip()\<close> compared with fixed names: the text of a value that is not a string is
  none of the names the code accepts, so it is \<open>None\<close> here.
\<close>

definition stripped_name :: "py \<Rightarrow> string option" where
  "stripped_name v = (case v of PStr s \<Rightarrow> Some (strip s) | _ \<Rightarrow> None)"

section \<open>set_variables\<close>

record set_variable_rule =
  rule_target :: string
  rule_source :: string
  rule_literal_value :: py
  rule_has_literal :: bool
  rule_transform :: string

definition set_variable_sources :: "string list" where
  "set_variable_sources = [''answer'', ''last_model_response'', ''normalized_query'', ''evidence'',
     ''context_chunk_ids'', ''last_route'', ''last_prefix'', ''variables'']"

definition set_variable_targets :: "string list" where
  "set_variable_targets =
     [''answer'', ''last_model_response'', ''normalized_query'', ''evidence'', ''variables'']"

definition set_variable_transforms :: "string list" where
  "set_variable_transforms = [''copy'', ''to_list'', ''split_lines'', ''parse_json'', ''clear'']"

definition read_rule_source :: "mapping \<Rightarrow> string result" where
  "read_rule_source raw_rule =
     rbind (required_rule_string raw_rule ''from'' ''set_variables.rules[].from'') (\<lambda>source.
       if CHR ''.'' \<in> set source
       then Inl (definition_error ''set_variables source must not contain dot paths'')
       else if source \<notin> set set_variable_sources
       then Inl (definition_error ''set_variables source is not allowed'')
       else Inr source)"

definition read_rule :: "int \<Rightarrow> py \<Rightarrow> set_variable_rule result" where
  "read_rule index raw =
     (case raw of
        PDict raw_rule \<Rightarrow>
          (let unknown = list_diff (map fst raw_rule) [''set'', ''from'', ''value'', ''transform'']
           in if unknown \<noteq> []
              then Inl (definition_error (''set_variables rule has unsupported fields: '' @
                     py_join '', '' (sorted_unique unknown)))
              else
                rbind (required_rule_string raw_rule ''set'' ''set_variables.rules[].set'') (\<lambda>target.
                if CHR ''.'' \<in> set target
                then Inl (definition_error ''set_variables target must not contain dot paths'')
                else if target \<notin> set set_variable_targets
                then Inl (definition_error ''set_variables target is not allowed'')
                else if has_key raw_rule ''from'' = has_key raw_rule ''value''
                then Inl (definition_error (''set_variables rule '' @ str_int index @
                       '' must define exactly one of from or value''))
                else
                  rbind (if has_key raw_rule ''from'' then read_rule_source raw_rule else Inr [])
                  (\<lambda>source.
                    case stripped_name (dict_get_or raw_rule ''transform'' (PStr ''copy'')) of
                      None \<Rightarrow> Inl (definition_error ''set_variables transform is not allowed'')
                    | Some transform \<Rightarrow>
                        if transform \<notin> set set_variable_transforms
                        then Inl (definition_error ''set_variables transform is not allowed'')
                        else Inr \<lparr>rule_target = target, rule_source = source,
                               rule_literal_value = dict_get_or raw_rule ''value'' PNone,
                               rule_has_literal = has_key raw_rule ''value'',
                               rule_transform = transform\<rparr>)))
      | _ \<Rightarrow> Inl (definition_error ''set_variables.rules[] must be a mapping''))"

definition set_variables_config :: "pipeline_step_definition \<Rightarrow> set_variable_rule list result" where
  "set_variables_config step =
     rbind (reject_unknown_config_keys step [''rules''] ''set_variables'') (\<lambda>_.
       case map_of (step_config step) ''rules'' of
         Some (PTuple raw_rules) \<Rightarrow>
           if raw_rules = []
           then Inl (definition_error ''set_variables.rules must be a non-empty list'')
           else rmap (\<lambda>(index, raw). read_rule index raw) (enumerate_from_1 raw_rules)
       | _ \<Rightarrow> Inl (definition_error ''set_variables.rules must be a non-empty list''))"

definition apply_rule :: "'w runtime_env \<Rightarrow> set_variable_rule \<Rightarrow> ('w, unit) action_prog" where
  "apply_rule env rule =
     sbind (ask id) (\<lambda>c.
     sbind (slift (if rule_has_literal rule then Inr (rule_literal_value rule)
                   else state_value (rule_source rule) c)) (\<lambda>value.
     sbind (slift (transform_value env (rule_transform rule) value)) (\<lambda>transformed.
     sbind (slift (set_state_value (rule_target rule) transformed c)) (\<lambda>c'.
       modify_ctx (\<lambda>_. c')))))"

definition set_variables_execute :: "'w runtime_env \<Rightarrow> 'w action_fun" where
  "set_variables_execute env step =
     sbind (slift (set_variables_config step)) (\<lambda>rules.
     sthen (sfor rules (apply_rule env)) (sreturn None))"

section \<open>Routers\<close>

definition router_sources :: "string list" where
  "router_sources = [''answer'', ''last_model_response'', ''normalized_query'', ''evidence'']"

text \<open>
  \<open>str(_state_value(source, context) or "")\<close> for a router source, which is always a string
  (\<open>router_text_string\<close> below); other values are not rendered.
\<close>

definition router_text :: "string \<Rightarrow> 'w pipeline_context \<Rightarrow> string result" where
  "router_text source c =
     rbind (state_value source c) (\<lambda>v. case v of PStr s \<Rightarrow> Inr s | _ \<Rightarrow> Inr [])"

lemma router_text_string:
  "source \<in> set router_sources \<Longrightarrow> \<exists>s. state_value source c = Inr (PStr s) \<and> router_text source c = Inr s"
  by (auto simp: router_sources_def router_text_def state_value_def)

record prefix_router_settings =
  prc_source :: string
  prc_prefixes :: "(string \<times> string) list"
  prc_on_other :: string

definition read_prefix :: "pipeline_step_definition \<Rightarrow> string \<times> py \<Rightarrow> (string \<times> string) result" where
  "read_prefix step item =
     rbind (route_name (PStr (fst item)) ''prefix_router.prefixes route'') (\<lambda>route.
       if \<not> has_route step route
       then Inl (definition_error ''prefix_router prefix route is not declared in routes'')
       else case snd item of
         PStr prefix \<Rightarrow>
           if prefix = []
           then Inl (definition_error ''prefix_router prefix must be a non-empty string'')
           else Inr (route, prefix)
       | _ \<Rightarrow> Inl (definition_error ''prefix_router prefix must be a non-empty string''))"

definition prefix_router_config :: "pipeline_step_definition \<Rightarrow> prefix_router_settings result" where
  "prefix_router_config step =
     rbind (reject_unknown_config_keys step [''source'', ''prefixes'', ''on_other''] ''prefix_router'') (\<lambda>_.
     rbind (required_config_string step ''source'' ''prefix_router'') (\<lambda>source.
       if source \<notin> set router_sources
       then Inl (definition_error ''prefix_router.source is not allowed'')
       else case map_of (step_config step) ''prefixes'' of
         Some (PDict raw_prefixes) \<Rightarrow>
           if raw_prefixes = []
           then Inl (definition_error ''prefix_router.prefixes must be a non-empty mapping'')
           else
             rbind (rmap (read_prefix step) raw_prefixes) (\<lambda>prefixes.
             rbind (required_config_string step ''on_other'' ''prefix_router'') (\<lambda>on_other.
               if \<not> has_route step on_other
               then Inl (definition_error ''prefix_router.on_other route is not declared in routes'')
               else Inr \<lparr>prc_source = source, prc_prefixes = prefixes, prc_on_other = on_other\<rparr>))
       | _ \<Rightarrow> Inl (definition_error ''prefix_router.prefixes must be a non-empty mapping'')))"

definition prefix_router_execute :: "'w action_fun" where
  "prefix_router_execute step =
     sbind (slift (prefix_router_config step)) (\<lambda>config.
     sbind (ask id) (\<lambda>c.
     sbind (slift (router_text (prc_source config) c)) (\<lambda>raw.
       let txt = strip raw
       in case find (\<lambda>(route, prefix). startswith txt prefix) (prc_prefixes config) of
            Some (route, prefix) \<Rightarrow>
              sthen (modify_ctx (\<lambda>c. c\<lparr>ctx_last_route := route, ctx_last_prefix := route,
                       ctx_last_model_response := strip (removeprefix txt prefix)\<rparr>))
                (sreturn (Some route))
          | None \<Rightarrow>
              sthen (modify_ctx (\<lambda>c. c\<lparr>ctx_last_route := prc_on_other config,
                       ctx_last_prefix := [], ctx_last_model_response := txt\<rparr>))
                (sreturn (Some (prc_on_other config))))))"

record json_decision_router_settings =
  jrc_source :: string
  jrc_allowed_decisions :: "string list"
  jrc_on_other :: "string option"

definition json_decision_router_config ::
    "pipeline_step_definition \<Rightarrow> json_decision_router_settings result" where
  "json_decision_router_config step =
     rbind (reject_unknown_config_keys step [''source'', ''allowed_decisions'', ''on_other'']
              ''json_decision_router'') (\<lambda>_.
     rbind (required_config_string step ''source'' ''json_decision_router'') (\<lambda>source.
       if source \<notin> set router_sources
       then Inl (definition_error ''json_decision_router.source is not allowed'')
       else case map_of (step_config step) ''allowed_decisions'' of
         Some (PTuple raw_decisions) \<Rightarrow>
           if raw_decisions = []
           then Inl (definition_error
                  ''json_decision_router.allowed_decisions must be a non-empty list'')
           else
             rbind (rmap (\<lambda>x. route_name x ''json_decision_router decision'') raw_decisions) (\<lambda>decisions.
             if \<not> list_all (has_route step) decisions
             then Inl (definition_error ''json_decision_router decisions must be declared in routes'')
             else
               rbind (case dict_get_or (step_config step) ''on_other'' PNone of
                        PNone \<Rightarrow> Inr None
                      | _ \<Rightarrow>
                          rbind (required_config_string step ''on_other'' ''json_decision_router'') (\<lambda>r.
                            if \<not> has_route step r
                            then Inl (definition_error
                                   ''json_decision_router.on_other route is not declared in routes'')
                            else Inr (Some r))) (\<lambda>on_other.
                 Inr \<lparr>jrc_source = source, jrc_allowed_decisions = decisions,
                      jrc_on_other = on_other\<rparr>))
       | _ \<Rightarrow> Inl (definition_error
                ''json_decision_router.allowed_decisions must be a non-empty list'')))"

fun first_decision :: "string list \<Rightarrow> mapping \<Rightarrow> string" where
  "first_decision [] payload = []"
| "first_decision (key # keys) payload =
     (case map_of payload key of
        Some (PStr v) \<Rightarrow> if strip v \<noteq> [] then py_lower (strip v) else first_decision keys payload
      | _ \<Rightarrow> first_decision keys payload)"

definition decision_keys :: "string list" where
  "decision_keys = [''decision'', ''route'', ''mode'']"

definition json_decision :: "mapping \<Rightarrow> string" where
  "json_decision payload = first_decision decision_keys payload"

definition cleaned_payload :: "mapping \<Rightarrow> mapping" where
  "cleaned_payload payload = filter (\<lambda>(k, v). py_lower (strip k) \<notin> set decision_keys) payload"

text \<open>The three fallbacks: with no \<open>on_other\<close> route the message is raised.\<close>

definition take_other :: "string option \<Rightarrow> string \<Rightarrow> ('w, string option) action_prog" where
  "take_other on_other message =
     (case on_other of
        None \<Rightarrow> sraise (execution_error message)
      | Some r \<Rightarrow> sthen (modify_ctx (\<lambda>c. c\<lparr>ctx_last_route := r\<rparr>)) (sreturn (Some r)))"

definition json_decision_router_execute :: "'w runtime_env \<Rightarrow> 'w action_fun" where
  "json_decision_router_execute env step =
     sbind (slift (json_decision_router_config step)) (\<lambda>config.
     sbind (ask id) (\<lambda>c.
     sbind (slift (router_text (jrc_source config) c)) (\<lambda>raw.
       case env_json_loads env (strip raw) of
         None \<Rightarrow> take_other (jrc_on_other config) ''json_decision_router received invalid JSON''
       | Some (PDict payload) \<Rightarrow>
           (let decision = json_decision payload
            in sthen (modify_ctx (\<lambda>c. c\<lparr>ctx_last_model_response :=
                        env_json_dumps env (PDict (cleaned_payload payload))\<rparr>))
                 (if decision \<in> set (jrc_allowed_decisions config)
                  then sthen (modify_ctx (\<lambda>c. c\<lparr>ctx_last_route := decision\<rparr>))
                         (sreturn (Some decision))
                  else take_other (jrc_on_other config)
                         ''json_decision_router decision is not allowed''))
       | Some _ \<Rightarrow> take_other (jrc_on_other config)
                     ''json_decision_router payload must be a JSON object'')))"

section \<open>Guards\<close>

record loop_guard_settings =
  lgc_max_loops :: int
  lgc_on_allow :: string
  lgc_on_deny :: string

definition loop_guard_config :: "pipeline_step_definition \<Rightarrow> loop_guard_settings result" where
  "loop_guard_config step =
     rbind (reject_unknown_config_keys step [''max_loops'', ''on_allow'', ''on_deny''] ''loop_guard'') (\<lambda>_.
     rbind (required_config_string step ''on_allow'' ''loop_guard'') (\<lambda>on_allow.
     rbind (required_config_string step ''on_deny'' ''loop_guard'') (\<lambda>on_deny.
       if \<not> has_route step on_allow \<or> \<not> has_route step on_deny
       then Inl (definition_error ''loop_guard route is not declared in routes'')
       else rbind (positive_config_integer step ''max_loops'' ''loop_guard'') (\<lambda>n.
         Inr \<lparr>lgc_max_loops = n, lgc_on_allow = on_allow, lgc_on_deny = on_deny\<rparr>))))"

definition loop_guard_execute :: "'w action_fun" where
  "loop_guard_execute step =
     sbind (slift (loop_guard_config step)) (\<lambda>config.
     sbind (ask (\<lambda>c. dict_get_or (ctx_loop_counters c) (step_id step) 0 + 1)) (\<lambda>current.
     sthen (modify_ctx (\<lambda>c. c\<lparr>ctx_loop_counters :=
              dict_set (step_id step) current (ctx_loop_counters c)\<rparr>))
       (let route = (if current \<le> lgc_max_loops config then lgc_on_allow config
                     else lgc_on_deny config)
        in sthen (modify_ctx (\<lambda>c. c\<lparr>ctx_last_route := route\<rparr>)) (sreturn (Some route)))))"

record repeat_query_guard_settings =
  rgc_source :: string
  rgc_query_parser :: string
  rgc_on_ok :: string
  rgc_on_repeat :: string

definition repeat_query_guard_config ::
    "pipeline_step_definition \<Rightarrow> repeat_query_guard_settings result" where
  "repeat_query_guard_config step =
     rbind (reject_unknown_config_keys step [''source'', ''query_parser'', ''on_ok'', ''on_repeat'']
              ''repeat_query_guard'') (\<lambda>_.
     rbind (required_config_string step ''source'' ''repeat_query_guard'') (\<lambda>source.
       if source \<notin> set router_sources
       then Inl (definition_error ''repeat_query_guard.source is not allowed'')
       else case stripped_name (dict_get_or (step_config step) ''query_parser'' (PStr ''raw'')) of
         None \<Rightarrow> Inl (definition_error ''repeat_query_guard.query_parser is not allowed'')
       | Some parser \<Rightarrow>
           if parser \<notin> {''raw'', ''json''}
           then Inl (definition_error ''repeat_query_guard.query_parser is not allowed'')
           else
             rbind (required_config_string step ''on_ok'' ''repeat_query_guard'') (\<lambda>on_ok.
             rbind (required_config_string step ''on_repeat'' ''repeat_query_guard'') (\<lambda>on_repeat.
               if \<not> has_route step on_ok \<or> \<not> has_route step on_repeat
               then Inl (definition_error ''repeat_query_guard route is not declared in routes'')
               else Inr \<lparr>rgc_source = source, rgc_query_parser = parser, rgc_on_ok = on_ok,
                      rgc_on_repeat = on_repeat\<rparr>))))"

definition guard_query ::
    "'w runtime_env \<Rightarrow> repeat_query_guard_settings \<Rightarrow> 'w pipeline_context \<Rightarrow> string result" where
  "guard_query env config c =
     rbind (router_text (rgc_source config) c) (\<lambda>raw.
       if rgc_query_parser config = ''raw'' then Inr raw
       else case env_json_loads env raw of
         None \<Rightarrow> Inl (execution_error ''repeat_query_guard received invalid JSON'')
       | Some (PDict payload) \<Rightarrow>
           (case dict_get_or payload ''query'' (PStr []) of
              PStr query \<Rightarrow> Inr query
            | _ \<Rightarrow> Inl (execution_error ''repeat_query_guard query must be a string''))
       | Some _ \<Rightarrow> Inl (execution_error ''repeat_query_guard JSON payload must be an object''))"

definition repeat_query_guard_execute :: "'w runtime_env \<Rightarrow> 'w action_fun" where
  "repeat_query_guard_execute env step =
     sbind (slift (repeat_query_guard_config step)) (\<lambda>config.
     sbind (ask id) (\<lambda>c.
     sbind (slift (guard_query env config c)) (\<lambda>query.
       let normalized = normalize_guard_query query
       in if normalized = [] \<or> normalized \<in> ctx_retrieval_queries_asked_norm c
          then sthen (modify_ctx (\<lambda>c. c\<lparr>ctx_last_route := rgc_on_repeat config\<rparr>))
                 (sreturn (Some (rgc_on_repeat config)))
          else sthen (modify_ctx (\<lambda>c. c\<lparr>ctx_retrieval_queries_asked_norm :=
                        insert normalized (ctx_retrieval_queries_asked_norm c)\<rparr>))
                 (sthen (modify_ctx (\<lambda>c. c\<lparr>ctx_last_route := rgc_on_ok config\<rparr>))
                   (sreturn (Some (rgc_on_ok config)))))))"

section \<open>Frames\<close>

lemma keeps_take_other [keeps_rules]:
  "(\<And>c r. P c \<Longrightarrow> P (c\<lparr>ctx_last_route := r\<rparr>)) \<Longrightarrow> keeps P (take_other o_route m)"
  unfolding take_other_def by (intro keeps_rules) auto

lemma set_state_value_keeps:
  assumes "set_state_value t v c = Inr c'" "P c"
    "\<And>c x. P c \<Longrightarrow> P (c\<lparr>ctx_answer := x\<rparr>)" "\<And>c x. P c \<Longrightarrow> P (c\<lparr>ctx_last_model_response := x\<rparr>)"
    "\<And>c x. P c \<Longrightarrow> P (c\<lparr>ctx_normalized_query := x\<rparr>)" "\<And>c x. P c \<Longrightarrow> P (c\<lparr>ctx_evidence := x\<rparr>)"
    "\<And>c x. P c \<Longrightarrow> P (c\<lparr>ctx_variables := x\<rparr>)"
  shows "P c'"
  using assms by (auto simp: set_state_value_def rbind_eq_Inr split: if_splits py.splits)

lemma keeps_set_variables [keeps_rules]:
  assumes "\<And>c x. P c \<Longrightarrow> P (c\<lparr>ctx_answer := x\<rparr>)" "\<And>c x. P c \<Longrightarrow> P (c\<lparr>ctx_last_model_response := x\<rparr>)"
    "\<And>c x. P c \<Longrightarrow> P (c\<lparr>ctx_normalized_query := x\<rparr>)" "\<And>c x. P c \<Longrightarrow> P (c\<lparr>ctx_evidence := x\<rparr>)"
    "\<And>c x. P c \<Longrightarrow> P (c\<lparr>ctx_variables := x\<rparr>)"
  shows "keeps P (set_variables_execute env step)"
proof -
  have rule: "keeps P (apply_rule env r)" for r
    unfolding keeps_def
  proof (rule tripleI)
    fix s x s'
    assume "P (rs_ctx s)" "apply_rule env r s = (Inr x, s')"
    then show "P (rs_ctx s')"
      using set_state_value_keeps [of "rule_target r" _ "rs_ctx s" "rs_ctx s'" P] assms
      by (auto simp: apply_rule_def run_simps)
  next
    fix s e s'
    assume "P (rs_ctx s)" "apply_rule env r s = (Inl e, s')"
    then show "P (rs_ctx s')" by (auto simp: apply_rule_def run_simps)
  qed
  show ?thesis unfolding set_variables_execute_def by (intro keeps_rules rule)
qed

lemma keeps_prefix_router [keeps_rules]:
  assumes "\<And>c r p m. P c \<Longrightarrow>
    P (c\<lparr>ctx_last_route := r, ctx_last_prefix := p, ctx_last_model_response := m\<rparr>)"
  shows "keeps P (prefix_router_execute step)"
  unfolding prefix_router_execute_def Let_def
  by (intro keeps_rules) (auto intro!: keeps_rules assms split: prod.splits)

lemma keeps_json_decision_router [keeps_rules]:
  assumes "\<And>c r. P c \<Longrightarrow> P (c\<lparr>ctx_last_route := r\<rparr>)" "\<And>c m. P c \<Longrightarrow> P (c\<lparr>ctx_last_model_response := m\<rparr>)"
  shows "keeps P (json_decision_router_execute env step)"
  unfolding json_decision_router_execute_def Let_def
  by (intro keeps_rules) (auto intro!: keeps_rules assms split: py.splits)

lemma keeps_loop_guard [keeps_rules]:
  assumes "\<And>c r. P c \<Longrightarrow> P (c\<lparr>ctx_last_route := r\<rparr>)" "\<And>c m. P c \<Longrightarrow> P (c\<lparr>ctx_loop_counters := m\<rparr>)"
  shows "keeps P (loop_guard_execute step)"
  unfolding loop_guard_execute_def Let_def by (intro keeps_rules assms)

lemma keeps_repeat_query_guard [keeps_rules]:
  assumes "\<And>c r. P c \<Longrightarrow> P (c\<lparr>ctx_last_route := r\<rparr>)"
    "\<And>c m. P c \<Longrightarrow> P (c\<lparr>ctx_retrieval_queries_asked_norm := m\<rparr>)"
  shows "keeps P (repeat_query_guard_execute env step)"
  unfolding repeat_query_guard_execute_def Let_def by (intro keeps_rules assms)

section \<open>Routes\<close>

abbreviation declared :: "pipeline_step_definition \<Rightarrow> string set" where
  "declared step \<equiv> Collect (has_route step)"

lemma read_prefix_declared: "read_prefix step i = Inr (r, p) \<Longrightarrow> r \<in> declared step \<and> p \<noteq> []"
  by (auto simp: read_prefix_def rbind_eq_Inr split: if_splits py.splits)

lemma find_SomeD: "find P xs = Some x \<Longrightarrow> x \<in> set xs \<and> P x"
  by (induction xs) (auto split: if_splits)

lemma prefix_router_config_declared:
  "prefix_router_config step = Inr config \<Longrightarrow> prc_on_other config \<in> declared step \<and>
     (\<forall>(r, p)\<in>set (prc_prefixes config). r \<in> declared step \<and> p \<noteq> []) \<and>
     prc_source config \<in> set router_sources"
proof -
  assume config: "prefix_router_config step = Inr config"
  then obtain raw where raw: "rmap (read_prefix step) raw = Inr (prc_prefixes config)"
    by (auto simp: prefix_router_config_def rbind_eq_Inr split: if_splits py.splits option.splits)
  have "\<forall>i\<in>set (prc_prefixes config). fst i \<in> declared step \<and> snd i \<noteq> []"
    using rmap_Inr_ball [OF raw] read_prefix_declared by (metis prod.collapse)
  then show ?thesis
    using config
    by (auto simp: prefix_router_config_def rbind_eq_Inr split: if_splits py.splits option.splits)
qed

lemma silent_set_variables [route_rules]: "silent (set_variables_execute env step)"
  unfolding set_variables_execute_def by (intro route_rules)

lemma routes_prefix_router [route_rules]: "routes_in (declared step) (prefix_router_execute step)"
  unfolding prefix_router_execute_def Let_def
proof (rule routes_in_slift, rule routes_in_bind, rule routes_in_bind)
  fix config :: prefix_router_settings and raw
  assume "prefix_router_config step = Inr config"
  note ok = prefix_router_config_declared [OF this]
  show "routes_in (declared step) (case find (\<lambda>(route, prefix). startswith (strip raw) prefix) (prc_prefixes config) of
         None \<Rightarrow> sthen (modify_ctx (\<lambda>c. c\<lparr>ctx_last_route := prc_on_other config, ctx_last_prefix := [],
                   ctx_last_model_response := strip raw\<rparr>)) (sreturn (Some (prc_on_other config)))
       | Some (route, prefix) \<Rightarrow> sthen (modify_ctx (\<lambda>c. c\<lparr>ctx_last_route := route, ctx_last_prefix := route,
                   ctx_last_model_response := strip (removeprefix (strip raw) prefix)\<rparr>))
            (sreturn (Some route)))"
    using ok by (fastforce intro!: route_rules split: option.splits prod.splits dest!: find_SomeD)
qed

lemma json_config_declared:
  "json_decision_router_config step = Inr config \<Longrightarrow>
     set (jrc_allowed_decisions config) \<subseteq> declared step \<and>
     (\<forall>r. jrc_on_other config = Some r \<longrightarrow> r \<in> declared step)"
  by (auto simp: json_decision_router_config_def rbind_eq_Inr list_all_iff
      split: if_splits py.splits option.splits)

lemma routes_json_decision_router [route_rules]:
  "routes_in (declared step) (json_decision_router_execute env step)"
  unfolding json_decision_router_execute_def Let_def
proof (rule routes_in_slift, rule routes_in_bind, rule routes_in_bind)
  fix config :: json_decision_router_settings and raw
  assume "json_decision_router_config step = Inr config"
  note ok = json_config_declared [OF this]
  have other: "routes_in (declared step) (take_other (jrc_on_other config) m)" for m
    unfolding take_other_def using ok by (auto intro!: route_rules split: option.splits)
  show "routes_in (declared step) (case env_json_loads env (strip raw) of
         None \<Rightarrow> take_other (jrc_on_other config) ''json_decision_router received invalid JSON''
       | Some (PDict payload) \<Rightarrow>
           sthen (modify_ctx (\<lambda>c. c\<lparr>ctx_last_model_response :=
                        env_json_dumps env (PDict (cleaned_payload payload))\<rparr>))
                 (if json_decision payload \<in> set (jrc_allowed_decisions config)
                  then sthen (modify_ctx (\<lambda>c. c\<lparr>ctx_last_route := json_decision payload\<rparr>))
                         (sreturn (Some (json_decision payload)))
                  else take_other (jrc_on_other config)
                         ''json_decision_router decision is not allowed'')
       | Some _ \<Rightarrow> take_other (jrc_on_other config)
                     ''json_decision_router payload must be a JSON object'')"
    using ok by (auto intro!: route_rules other split: option.splits py.splits)
qed

lemma loop_guard_config_declared:
  "loop_guard_config step = Inr config \<Longrightarrow> lgc_on_allow config \<in> declared step \<and>
     lgc_on_deny config \<in> declared step \<and> 1 \<le> lgc_max_loops config"
  by (auto simp: loop_guard_config_def rbind_eq_Inr positive_config_integer_ge
      split: if_splits)

lemma routes_loop_guard [route_rules]: "routes_in (declared step) (loop_guard_execute step)"
  unfolding loop_guard_execute_def Let_def
  by (intro routes_in_slift routes_in_bind route_rules) (auto dest!: loop_guard_config_declared)

lemma repeat_config_declared:
  "repeat_query_guard_config step = Inr config \<Longrightarrow> rgc_on_ok config \<in> declared step \<and>
     rgc_on_repeat config \<in> declared step"
  by (auto simp: repeat_query_guard_config_def rbind_eq_Inr
      split: if_splits option.splits)

lemma routes_repeat_query_guard [route_rules]:
  "routes_in (declared step) (repeat_query_guard_execute env step)"
  unfolding repeat_query_guard_execute_def Let_def
  by (intro routes_in_slift routes_in_bind route_rules) (auto dest!: repeat_config_declared)

section \<open>What the guards decide\<close>

definition loop_count :: "'w run_state \<Rightarrow> string \<Rightarrow> int" where
  "loop_count s sid = dict_get_or (ctx_loop_counters (rs_ctx s)) sid 0"

lemma loop_guard_run:
  assumes "loop_guard_config step = Inr config"
  shows "\<exists>s'. loop_guard_execute step s =
      (Inr (Some (if loop_count s (step_id step) + 1 \<le> lgc_max_loops config
                  then lgc_on_allow config else lgc_on_deny config)), s') \<and>
    loop_count s' (step_id step) = loop_count s (step_id step) + 1 \<and>
    (\<forall>sid. sid \<noteq> step_id step \<longrightarrow> loop_count s' sid = loop_count s sid)"
  using assms
  by (auto simp: loop_guard_execute_def sbind_def sthen_def slift_def ask_def sget_def modify_ctx_def
      smodify_def sreturn_def Let_def loop_count_def dict_get_or_def)

text \<open>The state after \<open>n\<close> consecutive visits.\<close>

fun after_visits :: "nat \<Rightarrow> ('w, string option) action_prog \<Rightarrow> 'w run_state \<Rightarrow> 'w run_state" where
  "after_visits 0 m s = s"
| "after_visits (Suc n) m s = snd (m (after_visits n m s))"

lemma loop_count_after_visits:
  assumes "loop_guard_config step = Inr config"
  shows "loop_count (after_visits n (loop_guard_execute step) s) (step_id step) =
    loop_count s (step_id step) + int n"
proof (induction n)
  case (Suc n)
  from loop_guard_run [OF assms, of "after_visits n (loop_guard_execute step) s"] Suc
  show ?case by auto
qed simp

lemma repeat_guard_run:
  assumes "repeat_query_guard_config step = Inr config" "guard_query env config (rs_ctx s) = Inr query"
  shows "repeat_query_guard_execute env step s =
    (if normalize_guard_query query = [] \<or>
        normalize_guard_query query \<in> ctx_retrieval_queries_asked_norm (rs_ctx s)
     then (Inr (Some (rgc_on_repeat config)),
           s\<lparr>rs_ctx := (rs_ctx s)\<lparr>ctx_last_route := rgc_on_repeat config\<rparr>\<rparr>)
     else (Inr (Some (rgc_on_ok config)),
           s\<lparr>rs_ctx := (rs_ctx s)\<lparr>ctx_retrieval_queries_asked_norm :=
                insert (normalize_guard_query query) (ctx_retrieval_queries_asked_norm (rs_ctx s)),
              ctx_last_route := rgc_on_ok config\<rparr>\<rparr>))"
  using assms
  by (simp add: repeat_query_guard_execute_def sbind_def sthen_def slift_def ask_def sget_def
      modify_ctx_def smodify_def sreturn_def Let_def)

lemma state_value_frame:
  "source \<in> set router_sources \<Longrightarrow>
   router_text source (c\<lparr>ctx_last_route := r\<rparr>) = router_text source c \<and>
   router_text source (c\<lparr>ctx_retrieval_queries_asked_norm := q, ctx_last_route := r\<rparr>) =
     router_text source c"
  by (auto simp: router_sources_def router_text_def state_value_def)

lemma repeat_config_source:
  "repeat_query_guard_config step = Inr config \<Longrightarrow> rgc_source config \<in> set router_sources"
  by (auto simp: repeat_query_guard_config_def rbind_eq_Inr split: if_splits option.splits)

lemma prefix_router_run:
  assumes "prefix_router_config step = Inr config" "router_text (prc_source config) (rs_ctx s) = Inr raw"
  shows "prefix_router_execute step s =
    (case find (\<lambda>(route, prefix). startswith (strip raw) prefix) (prc_prefixes config) of
       Some (route, prefix) \<Rightarrow>
         (Inr (Some route), s\<lparr>rs_ctx := (rs_ctx s)\<lparr>ctx_last_route := route, ctx_last_prefix := route,
            ctx_last_model_response := strip (removeprefix (strip raw) prefix)\<rparr>\<rparr>)
     | None \<Rightarrow>
         (Inr (Some (prc_on_other config)), s\<lparr>rs_ctx := (rs_ctx s)\<lparr>
            ctx_last_route := prc_on_other config, ctx_last_prefix := [],
            ctx_last_model_response := strip raw\<rparr>\<rparr>))"
  using assms
  by (auto simp: prefix_router_execute_def sbind_def sthen_def slift_def ask_def sget_def
      modify_ctx_def smodify_def sreturn_def Let_def split: option.splits)

end
