(* ===== verification/Actions_Conversation.thy ===== *)
theory Actions_Conversation
  imports Action_Support "HOL-Library.Sublist"
begin

text \<open>
  The actions over the conversation history: \<open>resolve_conversation.py\<close>,
  \<open>start_conversation_turn.py\<close>, \<open>load_conversation_history.py\<close>, \<open>finalize_conversation_turn.py\<close> and
  \<open>fail_conversation_turn.py\<close>.
\<close>

section \<open>resolve_conversation\<close>

record resolve_conversation_settings =
  rcc_conversation_id_source :: string
  rcc_create_if_missing :: bool
  rcc_title_source :: string

definition resolve_conversation_config ::
    "pipeline_step_definition \<Rightarrow> resolve_conversation_settings result" where
  "resolve_conversation_config step =
     rbind (reject_unknown_config_keys step
              [''conversation_id_source'', ''create_if_missing'', ''title_source'']
              ''resolve_conversation'') (\<lambda>_.
     rbind (required_config_string step ''conversation_id_source'' ''resolve_conversation'') (\<lambda>id_source.
       if id_source \<noteq> ''request''
       then Inl (definition_error ''resolve_conversation.conversation_id_source is not allowed'')
       else case map_of (step_config step) ''create_if_missing'' of
         Some (PBool create) \<Rightarrow>
           rbind (required_config_string step ''title_source'' ''resolve_conversation'') (\<lambda>title_source.
             if title_source \<noteq> ''query''
             then Inl (definition_error ''resolve_conversation.title_source is not allowed'')
             else Inr \<lparr>rcc_conversation_id_source = id_source, rcc_create_if_missing = create,
                    rcc_title_source = title_source\<rparr>)
       | _ \<Rightarrow> Inl (definition_error ''resolve_conversation.create_if_missing must be a boolean'')))"

definition resolve_conversation_execute :: "'w action_fun" where
  "resolve_conversation_execute step =
     sbind (ask id) (\<lambda>c.
     sbind (slift (conversation_history_service c)) (\<lambda>svc.
     sbind (slift (resolve_conversation_config step)) (\<lambda>config.
       case command_conversation_id (ctx_command c) of
         Some cid \<Rightarrow>
           sbind (in_world (cs_get svc (command_authorization (ctx_command c)) cid 1)) (\<lambda>history.
           sthen (modify_ctx (\<lambda>c. c\<lparr>ctx_conversation_id :=
                    Some (conv_conversation_id (history_conversation history))\<rparr>))
             (sreturn None))
       | None \<Rightarrow>
           if \<not> rcc_create_if_missing config
           then sraise (execution_error ''Conversation id is required by the pipeline'')
           else
             sbind (slift (conversation_title (rcc_title_source config) c)) (\<lambda>title.
             sbind (in_world (cs_create svc (command_authorization (ctx_command c))
                      (command_session_id (ctx_command c)) (domain_name (ctx_domain c)) title)) (\<lambda>conv.
             sthen (modify_ctx (\<lambda>c. c\<lparr>ctx_conversation_id := Some (conv_conversation_id conv)\<rparr>))
               (sreturn None))))))"

section \<open>start_conversation_turn\<close>

definition no_config :: "string \<Rightarrow> pipeline_step_definition \<Rightarrow> unit result" where
  "no_config action step = reject_unknown_config_keys step [] action"

definition start_conversation_turn_execute :: "'w action_fun" where
  "start_conversation_turn_execute step =
     sbind (ask id) (\<lambda>c.
       case ctx_conversation_id c of
         None \<Rightarrow> sraise (execution_error ''Conversation must be resolved before starting a turn'')
       | Some cid \<Rightarrow>
           sbind (slift (conversation_history_service c)) (\<lambda>svc.
           sbind (in_world (cs_start_turn svc (command_authorization (ctx_command c)) cid
                    (command_request_id (ctx_command c)) (command_query (ctx_command c)))) (\<lambda>turn.
           sthen (modify_ctx (\<lambda>c. c\<lparr>ctx_conversation_turn_id := Some (turn_turn_id turn)\<rparr>))
             (sreturn None))))"

section \<open>load_conversation_history\<close>

record load_history_config =
  lhc_limit :: int
  lhc_max_characters :: int
  lhc_include_failed :: bool
  lhc_format :: string

definition load_conversation_history_config ::
    "pipeline_step_definition \<Rightarrow> load_history_config result" where
  "load_conversation_history_config step =
     rbind (reject_unknown_config_keys step
              [''limit'', ''max_characters'', ''include_failed'', ''format'']
              ''load_conversation_history'') (\<lambda>_.
       case dict_get_or (step_config step) ''include_failed'' (PBool False) of
         PBool include_failed \<Rightarrow>
           if include_failed
           then Inl (definition_error ''load_conversation_history.include_failed cannot be true'')
           else
             rbind (required_config_string step ''format'' ''load_conversation_history'') (\<lambda>fmt.
             if fmt \<noteq> ''dialog''
             then Inl (definition_error ''load_conversation_history.format is not allowed'')
             else
               rbind (positive_config_integer step ''limit'' ''load_conversation_history'') (\<lambda>limit.
               rbind (positive_config_integer step ''max_characters'' ''load_conversation_history'') (\<lambda>n.
                 Inr \<lparr>lhc_limit = limit, lhc_max_characters = n,
                      lhc_include_failed = include_failed, lhc_format = fmt\<rparr>)))
       | _ \<Rightarrow> Inl (definition_error
                ''load_conversation_history.include_failed must be a boolean''))"

definition load_conversation_history_execute :: "'w action_fun" where
  "load_conversation_history_execute step =
     sbind (ask id) (\<lambda>c.
       case ctx_conversation_id c of
         None \<Rightarrow> sraise (execution_error ''Conversation must be resolved before loading history'')
       | Some cid \<Rightarrow>
           sbind (slift (load_conversation_history_config step)) (\<lambda>config.
           sbind (slift (conversation_history_service c)) (\<lambda>svc.
           sbind (in_world (cs_recent_finalized_turns svc (command_authorization (ctx_command c)) cid
                    (lhc_limit config))) (\<lambda>turns.
           sthen (modify_ctx (\<lambda>c. c\<lparr>ctx_conversation_history_turns := turns\<rparr>))
           (sthen (modify_ctx (\<lambda>c. c\<lparr>ctx_conversation_history_text :=
                     format_conversation_history turns (lhc_max_characters config)\<rparr>))
             (sreturn None))))))"

section \<open>finalize_conversation_turn and fail_conversation_turn\<close>

definition optional_py :: "string option \<Rightarrow> py" where
  "optional_py v = (case v of None \<Rightarrow> PNone | Some s \<Rightarrow> PStr s)"

definition finalize_conversation_turn_execute :: "'w action_fun" where
  "finalize_conversation_turn_execute step =
     sbind (ask id) (\<lambda>c.
       case (ctx_conversation_id c, ctx_conversation_turn_id c) of
         (Some cid, Some tid) \<Rightarrow>
           if ctx_answer c = []
           then sraise (execution_error ''Conversation turn finalization requires answer'')
           else
             sbind (slift (conversation_history_service c)) (\<lambda>svc.
             sbind (in_world (cs_finalize_turn svc (command_authorization (ctx_command c)) cid tid
                      (ctx_answer c)
                      [(''request_id'', PStr (command_request_id (ctx_command c))),
                       (''pipeline_trace'', PTuple (map PStr (ctx_trace c))),
                       (''model_server_id'', optional_py (ctx_mt_final_server_id c)),
                       (''citation_count'', PInt (int (length (ctx_citations c))))])) (\<lambda>turn.
             sthen (modify_ctx (\<lambda>c. c\<lparr>ctx_conversation_turn_id := Some (turn_turn_id turn)\<rparr>))
             (sthen (modify_ctx (\<lambda>c. c\<lparr>ctx_conversation_turn_finalized := True\<rparr>))
               (sreturn None))))
       | _ \<Rightarrow> sraise (execution_error ''Conversation turn must be started before finalization''))"

definition fail_conversation_turn_execute :: "'w action_fun" where
  "fail_conversation_turn_execute step =
     sthen (fail_conversation_turn ''pipeline_marked_failed'') (sreturn None)"

section \<open>Frames and routes\<close>

lemma keeps_resolve_conversation [keeps_rules]:
  assumes "\<And>c x. P c \<Longrightarrow> P (c\<lparr>ctx_conversation_id := x\<rparr>)"
  shows "keeps P (resolve_conversation_execute step)"
  unfolding resolve_conversation_execute_def by (intro keeps_rules assms)

lemma keeps_start_conversation_turn [keeps_rules]:
  assumes "\<And>c x. P c \<Longrightarrow> P (c\<lparr>ctx_conversation_turn_id := x\<rparr>)"
  shows "keeps P (start_conversation_turn_execute step)"
  unfolding start_conversation_turn_execute_def by (intro keeps_rules assms)

lemma keeps_load_conversation_history [keeps_rules]:
  assumes "\<And>c x. P c \<Longrightarrow> P (c\<lparr>ctx_conversation_history_turns := x\<rparr>)"
    "\<And>c x. P c \<Longrightarrow> P (c\<lparr>ctx_conversation_history_text := x\<rparr>)"
  shows "keeps P (load_conversation_history_execute step)"
  unfolding load_conversation_history_execute_def by (intro keeps_rules assms)

lemma keeps_finalize_conversation_turn [keeps_rules]:
  assumes "\<And>c x. P c \<Longrightarrow> P (c\<lparr>ctx_conversation_turn_id := x\<rparr>)"
    "\<And>c x. P c \<Longrightarrow> P (c\<lparr>ctx_conversation_turn_finalized := x\<rparr>)"
  shows "keeps P (finalize_conversation_turn_execute step)"
  unfolding finalize_conversation_turn_execute_def
  by (intro keeps_rules) (auto split: option.splits prod.splits intro!: keeps_rules assms)

lemma keeps_fail_conversation_turn_execute [keeps_rules]:
  assumes "\<And>c x. P c \<Longrightarrow> P (c\<lparr>ctx_conversation_turn_finalized := x\<rparr>)"
  shows "keeps P (fail_conversation_turn_execute step)"
  unfolding fail_conversation_turn_execute_def by (intro keeps_rules assms)

lemma silent_case_option:
  "silent m \<Longrightarrow> (\<And>x. silent (f x)) \<Longrightarrow> silent (case v of None \<Rightarrow> m | Some x \<Rightarrow> f x)"
  by (cases v) auto

lemma silent_conversation_actions [route_rules]:
  "silent (resolve_conversation_execute step)" "silent (start_conversation_turn_execute step)"
  "silent (load_conversation_history_execute step)" "silent (finalize_conversation_turn_execute step)"
  "silent (fail_conversation_turn_execute step)"
  unfolding resolve_conversation_execute_def start_conversation_turn_execute_def
    load_conversation_history_execute_def finalize_conversation_turn_execute_def
    fail_conversation_turn_execute_def prod.case
  by (intro route_rules silent_case_option)+

section \<open>The history text\<close>

lemma select_turns_length:
  assumes "0 \<le> used" "used \<le> n"
  shows "used + int (length (concat (select_turns ts n used))) \<le> n"
  using assms
proof (induction ts n used rule: select_turns.induct)
  case (2 t ts n used)
  then show ?case
    by (cases "turn_answer_text t") (auto simp: Let_def add.assoc)
qed simp

text \<open>The turns that can appear: those with an answer, rendered, in their order.\<close>

definition rendered_turns :: "conversation_turn list \<Rightarrow> string list" where
  "rendered_turns ts = concat (map (\<lambda>t. case turn_answer_text t of
     None \<Rightarrow> [] | Some a \<Rightarrow> [render_turn t a]) ts)"

lemma rendered_turns_simps [simp]:
  "rendered_turns [] = []"
  "rendered_turns (t # ts) = (case turn_answer_text t of None \<Rightarrow> rendered_turns ts
     | Some a \<Rightarrow> render_turn t a # rendered_turns ts)"
  by (auto simp: rendered_turns_def split: option.splits)

lemma select_turns_subseq: "subseq (select_turns ts n used) (rendered_turns ts)"
proof (induction ts n used rule: select_turns.induct)
  case (2 t ts n used)
  then show ?case by (cases "turn_answer_text t") (auto simp: Let_def)
qed simp

lemma rendered_turns_rev: "rendered_turns (rev ts) = rev (rendered_turns ts)"
  by (induction ts) (auto simp: rendered_turns_def split: option.splits)

lemma length_concat_rev: "length (concat (rev xs)) = length (concat xs)"
  by (induction xs) auto

text \<open>Turns that all fit together are all shown.\<close>

lemma select_turns_all:
  assumes "used + int (length (concat (rendered_turns ts))) \<le> n" "0 \<le> used"
  shows "select_turns ts n used = rendered_turns ts"
  using assms
proof (induction ts n used rule: select_turns.induct)
  case (2 t ts n used)
  then show ?case by (cases "turn_answer_text t") (auto simp: Let_def add.assoc)
qed simp

lemma history_text_bound:
  assumes "0 \<le> n"
  shows "int (length (format_conversation_history turns n)) \<le> n"
proof -
  have "int (length (concat (rev (select_turns (rev turns) n 0)))) \<le> n"
    using select_turns_length [of 0 n "rev turns"] assms length_concat_rev by simp
  then show ?thesis
    unfolding format_conversation_history_def
    by (meson length_strip of_nat_le_iff order_trans)
qed

end
