(* ===== verification/Actions_Model.thy ===== *)
theory Actions_Model
  imports Action_Support
begin

text \<open>
  The actions around the model call: \<open>enforce_model_transmission_policy.py\<close>, \<open>call_model.py\<close> and
  \<open>finalize.py\<close>.
\<close>

section \<open>enforce_model_transmission_policy\<close>

record model_transmission_policy_settings =
  mtp_selected_model_server_id :: string
  mtp_external_transmission :: external_transmission_policy

definition model_transmission_policy_config ::
    "pipeline_step_definition \<Rightarrow> model_transmission_policy_settings result" where
  "model_transmission_policy_config step =
     rbind (reject_unknown_config_keys step [''selected_model_server_id'', ''external_transmission'']
              ''enforce_model_transmission_policy'') (\<lambda>_.
     rbind (required_config_string step ''selected_model_server_id''
              ''enforce_model_transmission_policy'') (\<lambda>selected.
     rbind (required_config_string step ''external_transmission''
              ''enforce_model_transmission_policy'') (\<lambda>raw.
       case external_transmission_of raw of
         Some p \<Rightarrow> Inr \<lparr>mtp_selected_model_server_id = selected, mtp_external_transmission = p\<rparr>
       | None \<Rightarrow> Inl (definition_error
           ''enforce_model_transmission_policy.external_transmission must be allowed or forbidden''))))"

definition model_server_runtime_of ::
    "'w pipeline_context \<Rightarrow> string \<Rightarrow> 'w model_server_runtime result" where
  "model_server_runtime_of c sid =
     (case map_of (ctx_model_servers c) sid of
        Some r \<Rightarrow> Inr r
      | None \<Rightarrow> Inl (execution_error (''Model server is not configured: '' @ sid)))"

text \<open>The answer is \<open>_Decision(allowed, reason_code)\<close>.\<close>

definition server_transmission_decision ::
    "'w model_server_runtime \<Rightarrow> security_requirement \<Rightarrow> 'w pipeline_context \<Rightarrow>
     external_transmission_policy \<Rightarrow> (bool \<times> string) result" where
  "server_transmission_decision runtime requirement c external_transmission =
     (let ext = server_trust_boundary (rt_definition runtime) = EXTERNAL
      in if ext \<and> external_transmission = FORBIDDEN
         then Inr (False, ''external_transmission_forbidden_by_pipeline'')
         else if ext \<and> \<not> auth_allow_external_model (command_authorization (ctx_command c))
         then Inr (False, ''external_model_not_allowed_for_subject'')
         else rbind (model_server_satisfies_requirement (domain_security_model (ctx_domain c))
                       (rt_definition runtime) requirement) (\<lambda>decision.
                Inr (decision_allowed decision, decision_reason_code decision)))"

definition transmission_diagnostic ::
    "bool \<Rightarrow> string \<Rightarrow> string \<Rightarrow> string option \<Rightarrow> bool \<Rightarrow> trust_boundary option \<Rightarrow>
     external_transmission_policy \<Rightarrow> security_requirement \<Rightarrow> string list \<Rightarrow> string list \<Rightarrow>
     model_transmission_diagnostic" where
  "transmission_diagnostic allowed reason selected final rerouted boundary external requirement
      checked blocked =
     \<lparr>mt_checked = True, mt_allowed = allowed, mt_reason_code = reason,
      mt_selected_model_server_id = Some selected, mt_final_model_server_id = final,
      mt_rerouted = rerouted, mt_trust_boundary = boundary, mt_external_transmission = Some external,
      mt_context_security_requirement = requirement, mt_checked_chunk_ids = checked,
      mt_blocked_chunk_ids = blocked\<rparr>"

text \<open>
  \<open>_model_transmission_decision\<close>: the diagnostic, and the gateway the context gets when a server
  is allowed.
\<close>

definition model_transmission_decision ::
    "model_transmission_policy_settings \<Rightarrow> 'w pipeline_context \<Rightarrow>
     (model_transmission_diagnostic \<times> 'w model_gateway option) result" where
  "model_transmission_decision config c =
     (let checked = map (\<lambda>h. chunk_id (hit_chunk h)) (ctx_hits c);
          external = mtp_external_transmission config
      in rbind (context_security_requirement (domain_security_model (ctx_domain c)) (ctx_hits c)) (\<lambda>requirement.
         rbind (model_server_runtime_of c (mtp_selected_model_server_id config)) (\<lambda>selected.
         let sdef = rt_definition selected
         in rbind (server_transmission_decision selected requirement c external) (\<lambda>(allowed, reason).
            if allowed
            then Inr (transmission_diagnostic True ''model_server_allowed'' (server_id sdef)
                        (Some (server_id sdef)) False (Some (server_trust_boundary sdef)) external
                        requirement checked [], Some (rt_gateway selected))
            else case server_security_reroute_server_id sdef of
              None \<Rightarrow> Inr (transmission_diagnostic False reason (server_id sdef) None False
                        (Some (server_trust_boundary sdef)) external requirement checked checked, None)
            | Some reroute_id \<Rightarrow>
                rbind (model_server_runtime_of c reroute_id) (\<lambda>reroute.
                let rdef = rt_definition reroute
                in rbind (server_transmission_decision reroute requirement c external) (\<lambda>(r_allowed, r_reason).
                   if \<not> r_allowed
                   then Inr (transmission_diagnostic False r_reason (server_id sdef)
                          (Some (server_id rdef)) True (Some (server_trust_boundary rdef)) external
                          requirement checked checked, None)
                   else Inr (transmission_diagnostic True ''model_server_security_rerouted''
                          (server_id sdef) (Some (server_id rdef)) True
                          (Some (server_trust_boundary rdef)) external requirement checked [],
                          Some (rt_gateway reroute))))))))"

definition store_diagnostic ::
    "model_transmission_diagnostic \<Rightarrow> 'w pipeline_context \<Rightarrow> 'w pipeline_context" where
  "store_diagnostic d c = c\<lparr>ctx_mt_checked := mt_checked d, ctx_mt_allowed := mt_allowed d,
     ctx_mt_reason_code := mt_reason_code d,
     ctx_mt_selected_server_id := mt_selected_model_server_id d,
     ctx_mt_final_server_id := mt_final_model_server_id d, ctx_mt_rerouted := mt_rerouted d,
     ctx_mt_trust_boundary := mt_trust_boundary d,
     ctx_mt_external_policy := mt_external_transmission d,
     ctx_mt_context_requirement := mt_context_security_requirement d,
     ctx_mt_checked_chunk_ids := mt_checked_chunk_ids d,
     ctx_mt_blocked_chunk_ids := mt_blocked_chunk_ids d\<rparr>"

definition enforce_policy_execute :: "'w action_fun" where
  "enforce_policy_execute step =
     sbind (slift (model_transmission_policy_config step)) (\<lambda>config.
     sbind (ask id) (\<lambda>c.
     sbind (slift (model_transmission_decision config c)) (\<lambda>(diagnostic, gateway).
     sthen (case gateway of None \<Rightarrow> sreturn () | Some g \<Rightarrow> modify_ctx (\<lambda>c. c\<lparr>ctx_model := g\<rparr>))
     (sthen (modify_ctx (store_diagnostic diagnostic))
       (if \<not> mt_allowed diagnostic
        then sraise (Known PolicyViolationError (mt_reason_code diagnostic))
        else sreturn None)))))"

section \<open>call_model\<close>

record user_prompt_part =
  part_name :: string
  part_source :: string
  part_template :: string

record call_model_settings =
  cmc_prompt_key :: string
  cmc_user_parts :: "user_prompt_part list"
  cmc_generation_parameters :: mapping
  cmc_use_history :: bool
  cmc_history_source :: "string option"

definition user_part_sources :: "string list" where
  "user_part_sources = [''normalized_query'', ''evidence'', ''context_chunk_ids'', ''citations_text'',
     ''retrieval_trace_summary'', ''conversation_history'']"

definition part_prefix :: "pipeline_step_definition \<Rightarrow> string \<Rightarrow> string" where
  "part_prefix step name = step_prefix step @ ''call_model.user_parts.'' @ name"

definition required_user_part_string ::
    "pipeline_step_definition \<Rightarrow> string \<Rightarrow> mapping \<Rightarrow> string \<Rightarrow> string result" where
  "required_user_part_string step name part key =
     (let failure = Inl (definition_error (part_prefix step name @ ''.'' @ key @
                      '' must be a non-empty string''))
      in case map_of part key of
           Some (PStr v) \<Rightarrow> if strip v = [] then failure else Inr (strip v)
         | _ \<Rightarrow> failure)"

definition required_user_part_template ::
    "pipeline_step_definition \<Rightarrow> string \<Rightarrow> mapping \<Rightarrow> string result" where
  "required_user_part_template step name part =
     (let failure = Inl (definition_error (part_prefix step name @
                      ''.template must be a non-empty string''))
      in case map_of part ''template'' of
           Some (PStr v) \<Rightarrow> if v = [] then failure else Inr v
         | _ \<Rightarrow> failure)"

definition read_user_part ::
    "pipeline_step_definition \<Rightarrow> bool \<Rightarrow> string \<times> py \<Rightarrow> user_prompt_part result" where
  "read_user_part step use_history item =
     (let name = fst item
      in case snd item of
        PDict raw_part \<Rightarrow>
          (let unknown = list_diff (map fst raw_part) [''source'', ''template'']
           in if unknown \<noteq> []
              then Inl (definition_error (part_prefix step name @ '' has unsupported fields: '' @
                     py_join '', '' (sorted_unique unknown)))
              else
                rbind (required_user_part_string step name raw_part ''source'') (\<lambda>source.
                if source \<notin> set user_part_sources
                then Inl (definition_error (part_prefix step name @ ''.source is not allowed''))
                else if source = ''conversation_history'' \<and> \<not> use_history
                then Inl (definition_error (part_prefix step name @
                       ''.source requires use_history=true''))
                else
                  rbind (required_user_part_template step name raw_part) (\<lambda>template.
                  if \<not> contains_sub template ''{}''
                  then Inl (definition_error (part_prefix step name @ ''.template must contain {}''))
                  else Inr \<lparr>part_name = strip name, part_source = source,
                         part_template = template\<rparr>)))
      | _ \<Rightarrow> Inl (definition_error (part_prefix step name @ '' must be a mapping'')))"

text \<open>\<open>_bounded_number\<close>: the value of a present key; both bounds are integers in the code.\<close>

definition bounded_number ::
    "pipeline_step_definition \<Rightarrow> string \<Rightarrow> py \<Rightarrow> int \<Rightarrow> int \<Rightarrow> rat result" where
  "bounded_number step key value minimum maximum =
     (let check = (\<lambda>n. if n < of_int minimum \<or> n > of_int maximum
            then Inl (definition_error (step_prefix step @ ''call_model.'' @ key @ '' must be between '' @
                   str_int minimum @ '' and '' @ str_int maximum))
            else Inr n)
      in case value of
           PInt i \<Rightarrow> check (of_int i)
         | PFloat q \<Rightarrow> check q
         | _ \<Rightarrow> Inl (definition_error (step_prefix step @ ''call_model.'' @ key @
                  '' must be a number'')))"

definition positive_model_integer :: "pipeline_step_definition \<Rightarrow> string \<Rightarrow> py \<Rightarrow> int result" where
  "positive_model_integer step key value =
     (let failure = Inl (definition_error (step_prefix step @ ''call_model.'' @ key @
                      '' must be a positive integer''))
      in case value of PInt i \<Rightarrow> if i < 1 then failure else Inr i | _ \<Rightarrow> failure)"

definition optional_parameter ::
    "pipeline_step_definition \<Rightarrow> string \<Rightarrow> string \<Rightarrow> (py \<Rightarrow> py result) \<Rightarrow> mapping \<Rightarrow> mapping result" where
  "optional_parameter step key target read parameters =
     (case map_of (step_config step) key of
        None \<Rightarrow> Inr parameters
      | Some v \<Rightarrow> rbind (read v) (\<lambda>x. Inr (dict_set target x parameters)))"

definition generation_parameters :: "pipeline_step_definition \<Rightarrow> mapping result" where
  "generation_parameters step =
     (if has_key (step_config step) ''max_tokens'' \<and> has_key (step_config step) ''max_output_tokens''
      then Inl (definition_error (step_prefix step @
             ''cannot define both max_tokens and max_output_tokens''))
      else
        rbind (optional_parameter step ''temperature'' ''temperature''
          (\<lambda>v. rbind (bounded_number step ''temperature'' v 0 2) (\<lambda>q. Inr (PFloat q))) []) (\<lambda>p1.
        rbind (optional_parameter step ''top_p'' ''top_p''
          (\<lambda>v. rbind (bounded_number step ''top_p'' v 0 1) (\<lambda>q. Inr (PFloat q))) p1) (\<lambda>p2.
        rbind (optional_parameter step ''max_tokens'' ''max_tokens''
          (\<lambda>v. rbind (positive_model_integer step ''max_tokens'' v) (\<lambda>i. Inr (PInt i))) p2) (\<lambda>p3.
          optional_parameter step ''max_output_tokens'' ''max_tokens''
            (\<lambda>v. rbind (positive_model_integer step ''max_output_tokens'' v) (\<lambda>i. Inr (PInt i))) p3))))"

definition call_model_config :: "pipeline_step_definition \<Rightarrow> call_model_settings result" where
  "call_model_config step =
     rbind (reject_unknown_config_keys step [''prompt_key'', ''user_parts'', ''temperature'', ''top_p'',
              ''max_tokens'', ''max_output_tokens'', ''use_history'', ''history_source''] ''call_model'') (\<lambda>_.
     rbind (required_config_string step ''prompt_key'' ''call_model'') (\<lambda>prompt_key.
     rbind (optional_boolean step ''use_history'' ''call_model'' False) (\<lambda>use_history.
     rbind (case dict_get_or (step_config step) ''history_source'' PNone of
              PNone \<Rightarrow> Inr None
            | _ \<Rightarrow> rbind (required_config_string step ''history_source'' ''call_model'') (\<lambda>h.
                     Inr (Some h))) (\<lambda>history_source.
       if use_history \<and> history_source \<noteq> Some ''conversation_history''
       then Inl (definition_error (step_prefix step @
              ''call_model.history_source must be conversation_history''))
       else if \<not> use_history \<and> history_source \<noteq> None
       then Inl (definition_error (step_prefix step @
              ''call_model.history_source requires use_history=true''))
       else
         let failure = Inl (definition_error (step_prefix step @
                         ''call_model.user_parts must be a non-empty mapping''))
         in case map_of (step_config step) ''user_parts'' of
              Some (PDict raw_parts) \<Rightarrow>
                if raw_parts = [] then failure
                else
                  rbind (rmap (read_user_part step use_history) raw_parts) (\<lambda>parts.
                  rbind (generation_parameters step) (\<lambda>parameters.
                    Inr \<lparr>cmc_prompt_key = prompt_key, cmc_user_parts = parts,
                         cmc_generation_parameters = parameters, cmc_use_history = use_history,
                         cmc_history_source = history_source\<rparr>))
            | _ \<Rightarrow> failure))))"

definition source_value :: "string \<Rightarrow> 'w pipeline_context \<Rightarrow> string result" where
  "source_value source c =
     (if source = ''normalized_query'' then Inr (ctx_normalized_query c)
      else if source = ''evidence'' then Inr (ctx_evidence c)
      else if source = ''context_chunk_ids'' then Inr (py_join newline (ctx_context_chunk_ids c))
      else if source = ''citations_text'' then Inr (citations_text (ctx_citations c))
      else if source = ''retrieval_trace_summary'' then Inr (retrieval_trace_summary (ctx_hits c))
      else if source = ''conversation_history'' then Inr (ctx_conversation_history_text c)
      else Inl (execution_error (''Unsupported call_model source '' @ quoted source)))"

text \<open>
  \<open>template.format(value)\<close>: \<open>{{\<close> and \<open>}}\<close> are escapes, the first \<open>{}\<close> is the value and any later one
  is out of range. A field with a name, an index, a conversion or a format specification is
  left to the environment, with the number of automatic fields seen so far.
\<close>

fun take_field :: "string \<Rightarrow> nat \<Rightarrow> (string \<times> string) option" where
  "take_field [] depth = None"
| "take_field (c # s) depth =
     (if c = CHR ''{'' then map_option (\<lambda>(f, rest). (c # f, rest)) (take_field s (Suc depth))
      else if c = CHR ''}''
      then (if depth = 0 then Some ([], s)
            else map_option (\<lambda>(f, rest). (c # f, rest)) (take_field s (depth - 1)))
      else map_option (\<lambda>(f, rest). (c # f, rest)) (take_field s depth))"

lemma take_field_length: "take_field s d = Some (f, rest) \<Longrightarrow> length rest < length s"
  by (induction s d arbitrary: f rest rule: take_field.induct) (fastforce split: if_splits)+

function py_format :: "'w runtime_env \<Rightarrow> string \<Rightarrow> nat \<Rightarrow> string \<Rightarrow> string result" where
  "py_format env [] n value = Inr []"
| "py_format env (c # s) n value =
     (if c = CHR ''{'' then
        (if s \<noteq> [] \<and> hd s = CHR ''{''
         then rbind (py_format env (tl s) n value) (\<lambda>r. Inr (CHR ''{'' # r))
         else case take_field s 0 of
           None \<Rightarrow> Inl (OtherError ''ValueError'')
         | Some (field, rest) \<Rightarrow>
             if field = [] then
               (if n = 0 then rbind (py_format env rest (Suc n) value) (\<lambda>r. Inr (value @ r))
                else Inl (OtherError ''IndexError''))
             else rbind (env_format_field env field n value) (\<lambda>(txt, m).
               rbind (py_format env rest m value) (\<lambda>r. Inr (txt @ r))))
      else if c = CHR ''}'' then
        (if s \<noteq> [] \<and> hd s = CHR ''}''
         then rbind (py_format env (tl s) n value) (\<lambda>r. Inr (CHR ''}'' # r))
         else Inl (OtherError ''ValueError''))
      else rbind (py_format env s n value) (\<lambda>r. Inr (c # r)))"
  by pat_completeness auto
termination
  by (relation "measure (\<lambda>(env, s, n, v). length s)") (auto dest!: take_field_length)

definition render_user_prompt ::
    "'w runtime_env \<Rightarrow> user_prompt_part list \<Rightarrow> 'w pipeline_context \<Rightarrow> string result" where
  "render_user_prompt env parts c =
     rbind (rmap (\<lambda>part. rbind (source_value (part_source part) c) (\<lambda>v.
              py_format env (part_template part) 0 v)) parts) (\<lambda>rendered. Inr (concat rendered))"

definition call_model_execute :: "'w runtime_env \<Rightarrow> 'w action_fun" where
  "call_model_execute env step =
     sbind (ask id) (\<lambda>c.
       if \<not> ctx_mt_checked c
       then sraise (execution_error ''Model transmission policy has not been enforced'')
       else if \<not> ctx_mt_allowed c
       then sraise (Known PolicyViolationError ''Model transmission policy blocked the model call'')
       else
         sbind (slift (call_model_config step)) (\<lambda>config.
         sbind (in_world (ctx_prompts c (cmc_prompt_key config))) (\<lambda>system_prompt.
         sbind (slift (render_user_prompt env (cmc_user_parts config) c)) (\<lambda>user_prompt.
         sthen (modify_ctx (\<lambda>c. c\<lparr>ctx_prompt_key := cmc_prompt_key config\<rparr>))
         (sthen (modify_ctx (\<lambda>c. c\<lparr>ctx_system_prompt_hash := env_sha256 env system_prompt\<rparr>))
         (sbind (read_clock env) (\<lambda>started.
          sbind (in_world (gw_generate (ctx_model c) system_prompt user_prompt
                   (cmc_generation_parameters config))) (\<lambda>generation.
          sbind (read_clock env) (\<lambda>finished.
          sthen (modify_ctx (\<lambda>c. c\<lparr>ctx_model_duration_ms := duration_ms started finished,
                   ctx_answer := gen_text generation,
                   ctx_last_model_response := gen_text generation,
                   ctx_prompt_tokens := gen_prompt_tokens generation,
                   ctx_completion_tokens := gen_completion_tokens generation,
                   ctx_estimated_cost := gen_estimated_cost generation\<rparr>))
            (sreturn None))))))))))"

section \<open>finalize\<close>

definition finalize_execute :: "'w action_fun" where
  "finalize_execute step =
     sthen (modify_ctx (\<lambda>c.
       if domain_disclaimer (ctx_domain c) \<noteq> []
       then c\<lparr>ctx_answer := strip (ctx_answer c @ newline @ newline @ ''---'' @ newline @ newline @
              domain_disclaimer (ctx_domain c))\<rparr>
       else c))
       (sreturn None)"

section \<open>What an allowed transmission means\<close>

text \<open>The server may receive a context with this requirement under the pipeline's policy.\<close>

definition server_may_receive ::
    "'w pipeline_context \<Rightarrow> external_transmission_policy option \<Rightarrow> security_requirement \<Rightarrow>
     model_server_definition \<Rightarrow> bool" where
  "server_may_receive c policy requirement server \<longleftrightarrow>
     (server_trust_boundary server = EXTERNAL \<longrightarrow>
        policy = Some ALLOWED \<and> auth_allow_external_model (command_authorization (ctx_command c))) \<and>
     granted (model_server_satisfies_requirement (domain_security_model (ctx_domain c)) server requirement)"

lemma server_transmission_decision_iff:
  "(\<exists>r. server_transmission_decision rt requirement c policy = Inr (True, r)) \<longleftrightarrow>
     server_may_receive c (Some policy) requirement (rt_definition rt)"
  by (cases policy; cases "model_server_satisfies_requirement (domain_security_model (ctx_domain c))
      (rt_definition rt) requirement")
    (auto simp: server_transmission_decision_def server_may_receive_def Let_def)

text \<open>
  The invariant of a run: while a transmission counts as allowed, the model of the context is a
  configured server that may receive a context with the recorded requirement.
\<close>

definition transmission_inv :: "'w pipeline_context \<Rightarrow> bool" where
  "transmission_inv c \<longleftrightarrow> (ctx_mt_checked c \<and> ctx_mt_allowed c \<longrightarrow>
     (\<exists>sid rt. map_of (ctx_model_servers c) sid = Some rt \<and> ctx_model c = rt_gateway rt \<and>
        ctx_mt_final_server_id c = Some (server_id (rt_definition rt)) \<and>
        server_may_receive c (ctx_mt_external_policy c) (ctx_mt_context_requirement c)
          (rt_definition rt)))"

lemma model_server_runtime_of_Inr:
  "model_server_runtime_of c sid = Inr rt \<longleftrightarrow> map_of (ctx_model_servers c) sid = Some rt"
  by (auto simp: model_server_runtime_of_def split: option.splits)

lemma transmission_decision_allowed:
  assumes "model_transmission_decision config c = Inr (d, g)"
  shows "mt_checked d"
    "context_security_requirement (domain_security_model (ctx_domain c)) (ctx_hits c) =
       Inr (mt_context_security_requirement d)"
    "mt_external_transmission d = Some (mtp_external_transmission config)"
    "mt_allowed d \<longleftrightarrow> g \<noteq> None"
    "mt_allowed d \<Longrightarrow> \<exists>sid rt. map_of (ctx_model_servers c) sid = Some rt \<and> g = Some (rt_gateway rt) \<and>
       mt_final_model_server_id d = Some (server_id (rt_definition rt)) \<and>
       server_may_receive c (mt_external_transmission d) (mt_context_security_requirement d)
         (rt_definition rt)"
proof -
  obtain req sel where req: "context_security_requirement (domain_security_model (ctx_domain c))
        (ctx_hits c) = Inr req"
    and sel: "model_server_runtime_of c (mtp_selected_model_server_id config) = Inr sel"
    using assms by (auto simp: model_transmission_decision_def Let_def rbind_eq_Inr)
  note may = server_transmission_decision_iff [THEN iffD1, OF exI]
  note facts = assms req sel
  show "mt_checked d" "context_security_requirement (domain_security_model (ctx_domain c)) (ctx_hits c) =
       Inr (mt_context_security_requirement d)"
    "mt_external_transmission d = Some (mtp_external_transmission config)"
    "mt_allowed d \<longleftrightarrow> g \<noteq> None"
    using facts by (auto simp: model_transmission_decision_def transmission_diagnostic_def Let_def
        rbind_eq_Inr split: if_splits option.splits)
  show "\<exists>sid rt. map_of (ctx_model_servers c) sid = Some rt \<and> g = Some (rt_gateway rt) \<and>
       mt_final_model_server_id d = Some (server_id (rt_definition rt)) \<and>
       server_may_receive c (mt_external_transmission d) (mt_context_security_requirement d)
         (rt_definition rt)" if "mt_allowed d"
    using facts that by (auto simp: model_transmission_decision_def transmission_diagnostic_def Let_def
        rbind_eq_Inr model_server_runtime_of_Inr split: if_splits option.splits dest!: may) blast+
qed

lemma transmission_inv_enforce:
  assumes "transmission_inv (rs_ctx s)" "enforce_policy_execute step s = (r, s')"
  shows "transmission_inv (rs_ctx s')"
proof (cases "\<exists>config d g. model_transmission_policy_config step = Inr config \<and>
    model_transmission_decision config (rs_ctx s) = Inr (d, g)")
  case True
  then obtain config d g where c: "model_transmission_policy_config step = Inr config"
    and d: "model_transmission_decision config (rs_ctx s) = Inr (d, g)" by blast
  note facts = transmission_decision_allowed [OF d]
  show ?thesis
  proof (cases g)
    case None
    then have "rs_ctx s' = store_diagnostic d (rs_ctx s)" "\<not> mt_allowed d"
      using assms(2) c d facts by (auto simp: enforce_policy_execute_def run_simps sbind_def sthen_def
          slift_def ask_def sget_def modify_ctx_def smodify_def sreturn_def sraise_def)
    then show ?thesis by (simp add: transmission_inv_def store_diagnostic_def)
  next
    case (Some gw)
    then have "rs_ctx s' = store_diagnostic d ((rs_ctx s)\<lparr>ctx_model := gw\<rparr>)" "mt_allowed d"
      using assms(2) c d facts by (auto simp: enforce_policy_execute_def run_simps sbind_def sthen_def
          slift_def ask_def sget_def modify_ctx_def smodify_def sreturn_def sraise_def)
    with facts(5) [OF this(2)] Some show ?thesis
      by (auto simp: transmission_inv_def store_diagnostic_def server_may_receive_def)
  qed
next
  case False
  then have "rs_ctx s' = rs_ctx s"
    using assms(2) by (cases "model_transmission_policy_config step";
      cases "model_transmission_decision (projr (model_transmission_policy_config step)) (rs_ctx s)")
      (auto simp: enforce_policy_execute_def sbind_def sthen_def slift_def ask_def sget_def)
  with assms(1) show ?thesis by simp
qed

lemma keeps_call_model [keeps_rules]:
  assumes "\<And>c x. P c \<Longrightarrow> P (c\<lparr>ctx_prompt_key := x\<rparr>)"
    "\<And>c x. P c \<Longrightarrow> P (c\<lparr>ctx_system_prompt_hash := x\<rparr>)"
    "\<And>c d a l p q e. P c \<Longrightarrow> P (c\<lparr>ctx_model_duration_ms := d, ctx_answer := a,
       ctx_last_model_response := l, ctx_prompt_tokens := p, ctx_completion_tokens := q,
       ctx_estimated_cost := e\<rparr>)"
  shows "keeps P (call_model_execute env step)"
  unfolding call_model_execute_def by (intro keeps_rules assms)

lemma keeps_finalize [keeps_rules]:
  assumes "\<And>c x. P c \<Longrightarrow> P (c\<lparr>ctx_answer := x\<rparr>)"
  shows "keeps P (finalize_execute step)"
  unfolding finalize_execute_def by (intro keeps_rules) (auto intro: assms)

lemma silent_model_actions [route_rules]:
  "silent (enforce_policy_execute step)" "silent (call_model_execute env step)"
  "silent (finalize_execute step)"
  unfolding enforce_policy_execute_def call_model_execute_def finalize_execute_def split_beta
  by (intro route_rules)+

text \<open>Without an allowed transmission the model is never reached: the world is untouched.\<close>

lemma call_model_blocked:
  "\<not> (ctx_mt_checked (rs_ctx s) \<and> ctx_mt_allowed (rs_ctx s)) \<Longrightarrow>
   \<exists>e. call_model_execute env step s = (Inl e, s)"
  by (auto simp: call_model_execute_def sbind_def ask_def sget_def sraise_def)

section \<open>The server reads what its labels allow\<close>

lemma may_receive_cleared:
  assumes ok: "security_model_ok m" and req: "context_security_requirement m hits = Inr r"
    and sat: "granted (model_server_satisfies_requirement m server r)"
  shows "server_cleared_for m server hits"
  using ok
proof (cases rule: security_model_ok_cases)
  case none
  then show ?thesis by (simp add: server_cleared_for_def visible_none)
next
  case (clearance c)
  from sat clearance have kind: "server_model_kind (server_security_profile server) = CLEARANCE_LEVEL"
    by (auto simp: model_server_satisfies_requirement_def split: if_splits)
  from satisfies_clearance_iff [OF clearance(1-3) kind req] sat show ?thesis by simp
next
  case (labels c)
  from sat labels have kind: "server_model_kind (server_security_profile server) = CLASSIFICATION_LABELS"
    by (auto simp: model_server_satisfies_requirement_def split: if_splits)
  from sat labels kind have "\<exists>sls. validate_labels c (server_classification_labels (server_security_profile server))
        ''ModelServerSecurityProfile.classification_labels'' = Inr sls"
    by (auto simp: model_server_satisfies_requirement_def required_model_def granted_rbind)
  from satisfies_labels_iff [OF labels(1,3,4) kind this req] sat show ?thesis by simp
qed

end
