(* ===== verification/Registry.thy ===== *)
theory Registry
  imports Actions_Retrieval Actions_Routing Actions_Conversation Actions_Model
begin

text \<open>
  The action registry of \<open>application/pipeline.py\<close>: what each action requires of the state and
  provides to it, its behaviour version, its configuration check and its \<open>execute\<close> method.
\<close>

record 'w pipeline_action =
  act_id :: string
  act_version :: string
  act_requires :: "string list"
  act_provides :: "string list"
  act_validate_config :: "pipeline_step_definition \<Rightarrow> unit result"
  act_execute :: "'w action_fun"

type_synonym 'w registry = "(string \<times> 'w pipeline_action) list"

definition action_registry :: "'w pipeline_action list \<Rightarrow> 'w registry result" where
  "action_registry actions =
     (let registered = dict_of (map (\<lambda>a. (act_id a, a)) actions)
      in if length registered \<noteq> length actions
         then Inl (definition_error ''Pipeline action identifiers must be unique'')
         else Inr registered)"

definition get_action :: "'w registry \<Rightarrow> string \<Rightarrow> 'w pipeline_action result" where
  "get_action registry aid =
     (case map_of registry aid of
        Some a \<Rightarrow> Inr a
      | None \<Rightarrow> Inl (definition_error (''Unknown pipeline action: '' @ aid)))"

text \<open>An action without \<open>validate_config\<close> is not checked.\<close>

definition no_check :: "pipeline_step_definition \<Rightarrow> unit result" where
  "no_check step = Inr ()"

definition checked_by :: "(pipeline_step_definition \<Rightarrow> 'c result) \<Rightarrow> pipeline_step_definition \<Rightarrow> unit result"
  where
  "checked_by config step = rbind (config step) (\<lambda>_. Inr ())"

definition action ::
    "string \<Rightarrow> string list \<Rightarrow> string list \<Rightarrow> (pipeline_step_definition \<Rightarrow> unit result) \<Rightarrow> 'w action_fun \<Rightarrow>
     'w pipeline_action" where
  "action i requires provides check execute =
     \<lparr>act_id = i, act_version = ''1.0'', act_requires = requires, act_provides = provides,
      act_validate_config = check, act_execute = execute\<rparr>"

definition retrieval_actions :: "'w pipeline_action list" where
  "retrieval_actions =
     [action ''normalize_query'' [''command''] [''normalized_query''] no_check normalize_query_execute,
      action ''retrieve'' [''normalized_query'', ''domain''] [''hits''] (checked_by retrieve_config)
        retrieve_execute,
      action ''expand_graph'' [''hits'', ''domain''] [''hits''] (checked_by expand_graph_config)
        expand_graph_execute,
      action ''manage_context_budget'' [''hits''] [''evidence'', ''citations'']
        (checked_by context_budget_config) manage_context_budget_execute,
      action ''require_evidence'' [''evidence'', ''citations''] [] no_check require_evidence_execute]"

definition enforce_policy_action :: "'w pipeline_action" where
  "enforce_policy_action =
     (action ''enforce_model_transmission_policy'' [''hits'', ''evidence'', ''citations'']
        [''model_transmission_policy''] (checked_by model_transmission_policy_config)
        enforce_policy_execute)\<lparr>act_version := ''2.0''\<rparr>"

definition routing_actions :: "'w runtime_env \<Rightarrow> 'w pipeline_action list" where
  "routing_actions env =
     [action ''set_variables'' [] [] (checked_by set_variables_config) (set_variables_execute env),
      action ''prefix_router'' [] [] (checked_by prefix_router_config) prefix_router_execute,
      action ''json_decision_router'' [] [] (checked_by json_decision_router_config)
        (json_decision_router_execute env),
      action ''loop_guard'' [] [] (checked_by loop_guard_config) loop_guard_execute,
      action ''repeat_query_guard'' [] [] (checked_by repeat_query_guard_config)
        (repeat_query_guard_execute env)]"

definition conversation_actions :: "'w pipeline_action list" where
  "conversation_actions =
     [action ''resolve_conversation'' [''command'', ''domain'', ''conversation_history_service'']
        [''conversation''] (checked_by resolve_conversation_config) resolve_conversation_execute,
      action ''start_conversation_turn'' [''conversation'', ''conversation_history_service'']
        [''conversation_turn''] (no_config ''start_conversation_turn'') start_conversation_turn_execute,
      action ''load_conversation_history'' [''conversation'', ''conversation_history_service'']
        [''conversation_history''] (checked_by load_conversation_history_config)
        load_conversation_history_execute]"

definition closing_actions :: "'w runtime_env \<Rightarrow> 'w pipeline_action list" where
  "closing_actions env =
     [action ''call_model'' [''normalized_query'', ''evidence'', ''domain'', ''model_transmission_policy'']
        [''answer''] (checked_by call_model_config) (call_model_execute env),
      action ''finalize'' [''answer'', ''citations''] [''result''] no_check finalize_execute,
      action ''finalize_conversation_turn''
        [''conversation_turn'', ''answer'', ''conversation_history_service''] []
        (no_config ''finalize_conversation_turn'') finalize_conversation_turn_execute,
      action ''fail_conversation_turn'' [''conversation_turn'', ''conversation_history_service''] []
        (no_config ''fail_conversation_turn'') fail_conversation_turn_execute]"

definition default_actions :: "'w runtime_env \<Rightarrow> 'w pipeline_action list" where
  "default_actions env = retrieval_actions @ [enforce_policy_action] @ routing_actions env @
     conversation_actions @ closing_actions env"

definition default_registry :: "'w runtime_env \<Rightarrow> 'w registry" where
  "default_registry env = map (\<lambda>a. (act_id a, a)) (default_actions env)"

lemmas action_lists = default_actions_def retrieval_actions_def enforce_policy_action_def
  routing_actions_def conversation_actions_def closing_actions_def

lemma default_action_ids:
  "map act_id (default_actions env) =
     [''normalize_query'', ''retrieve'', ''expand_graph'', ''manage_context_budget'', ''require_evidence'',
      ''enforce_model_transmission_policy'', ''set_variables'', ''prefix_router'',
      ''json_decision_router'', ''loop_guard'', ''repeat_query_guard'', ''resolve_conversation'',
      ''start_conversation_turn'', ''load_conversation_history'', ''call_model'', ''finalize'',
      ''finalize_conversation_turn'', ''fail_conversation_turn'']"
  by (simp add: action_lists action_def)

text \<open>The identifiers are distinct, so the constructor accepts the list as it stands.\<close>

lemma default_registry_built: "action_registry (default_actions env) = Inr (default_registry env)"
proof -
  have "distinct (map fst (default_registry env))"
    using default_action_ids [of env] by (simp add: default_registry_def o_def)
  then have "dict_of (default_registry env) = default_registry env" by (rule dict_of_distinct)
  then show ?thesis
    unfolding action_registry_def Let_def default_registry_def by simp
qed

lemma get_action_mem:
  "get_action (default_registry env) aid = Inr a \<Longrightarrow> a \<in> set (default_actions env) \<and> act_id a = aid"
  by (auto simp: get_action_def default_registry_def split: option.splits dest!: map_of_SomeD)

text \<open>An induction over the default actions: a law is proved action by action.\<close>

lemma default_action_cases:
  assumes "get_action (default_registry env) aid = Inr a"
    and "\<And>a. a \<in> set retrieval_actions \<Longrightarrow> P a" "P enforce_policy_action"
    and "\<And>a. a \<in> set (routing_actions env) \<Longrightarrow> P a" "\<And>a. a \<in> set conversation_actions \<Longrightarrow> P a"
    and "\<And>a. a \<in> set (closing_actions env) \<Longrightarrow> P a"
  shows "P a"
  using get_action_mem [OF assms(1)] assms(2-) by (auto simp: default_actions_def)

section \<open>Every action returns no route or a declared route\<close>

lemma default_action_routes:
  assumes "get_action (default_registry env) aid = Inr a"
  shows "silent (act_execute a step) \<or> routes_in (declared step) (act_execute a step)"
  using assms
proof (rule default_action_cases)
  fix a :: "'a pipeline_action"
  assume "a \<in> set retrieval_actions"
  then show "silent (act_execute a step) \<or> routes_in (declared step) (act_execute a step)"
    by (auto simp: retrieval_actions_def action_def intro: route_rules)
qed (auto simp: enforce_policy_action_def routing_actions_def conversation_actions_def
    closing_actions_def action_def intro: route_rules)

end
