(* ===== verification/Validator.thy ===== *)
theory Validator
  imports Registry
begin

text \<open>
  \<open>PipelineValidator\<close> of \<open>application/pipeline.py\<close>: the static checks of a pipeline definition and
  the walk over all its paths, which rejects cycles, paths longer than \<open>max_steps\<close> and steps whose
  required state is not available on some path.
\<close>

definition initial_state :: "string list" where
  "initial_state = [''command'', ''domain'', ''conversation_history_service'']"

definition known_step :: "pipeline_definition \<Rightarrow> string \<Rightarrow> bool" where
  "known_step p sid \<longleftrightarrow> sid \<in> set (map step_id (pipeline_steps p))"

fun check_routes :: "pipeline_definition \<Rightarrow> string \<Rightarrow> (string \<times> string) list \<Rightarrow> unit result" where
  "check_routes p sid [] = Inr ()"
| "check_routes p sid ((route, target) # routes) =
     (if \<not> known_step p target
      then Inl (definition_error (''Step '' @ quoted sid @ '' route '' @ quoted route @
             '' references unknown step '' @ quoted target))
      else check_routes p sid routes)"

definition check_step ::
    "'w registry \<Rightarrow> pipeline_definition \<Rightarrow> pipeline_step_definition \<Rightarrow> unit result" where
  "check_step registry p step =
     rbind (get_action registry (step_action step)) (\<lambda>a.
       if act_version a \<noteq> step_action_version step
       then Inl (definition_error (''Action version mismatch for '' @ quoted (step_id step) @
              '': expected '' @ act_version a @ '', got '' @ step_action_version step))
       else case step_next_step_id step of
         Some n \<Rightarrow>
           if \<not> known_step p n
           then Inl (definition_error (''Step '' @ quoted (step_id step) @
                  '' references unknown step '' @ quoted n))
           else rbind (check_routes p (step_id step) (step_routes step)) (\<lambda>_.
                  act_validate_config a step)
       | None \<Rightarrow> rbind (check_routes p (step_id step) (step_routes step)) (\<lambda>_.
                  act_validate_config a step))"

fun check_steps ::
    "'w registry \<Rightarrow> pipeline_definition \<Rightarrow> pipeline_step_definition list \<Rightarrow> unit result" where
  "check_steps registry p [] = Inr ()"
| "check_steps registry p (step # steps) =
     rbind (check_step registry p step) (\<lambda>_. check_steps registry p steps)"

text \<open>\<open>sorted(targets)\<close> of a step that is not terminal.\<close>

definition step_targets :: "pipeline_step_definition \<Rightarrow> string list" where
  "step_targets step = sorted_unique (map snd (step_routes step) @
     (case step_next_step_id step of None \<Rightarrow> [] | Some n \<Rightarrow> [n]))"

definition missing_state :: "'w pipeline_action \<Rightarrow> string list \<Rightarrow> string list" where
  "missing_state a available = list_diff (act_requires a) available"

text \<open>
  The walk carries \<open>visited\<close> and \<open>terminal_results\<close>; the cycle check and the length check come
  first, so the depth of the recursion is at most \<open>max_steps\<close>.
\<close>

type_synonym walk_state = "string list \<times> bool list"

function (sequential) walk_step ::
    "'w registry \<Rightarrow> pipeline_definition \<Rightarrow> string \<Rightarrow> string list \<Rightarrow> string list \<Rightarrow> walk_state \<Rightarrow>
     walk_state result"
  and walk_targets ::
    "'w registry \<Rightarrow> pipeline_definition \<Rightarrow> string list \<Rightarrow> string list \<Rightarrow> string list \<Rightarrow> walk_state \<Rightarrow>
     walk_state result" where
  "walk_step registry p sid available path st =
     (if sid \<in> set path
      then Inl (definition_error (''Pipeline contains a cycle at step '' @ quoted sid))
      else if int (length path) + 1 > pipeline_max_steps p
      then Inl (definition_error ''Pipeline path exceeds max_steps'')
      else case pipeline_step p sid of
        Inl e \<Rightarrow> Inl (OtherError ''KeyError'')
      | Inr step \<Rightarrow>
          (case get_action registry (step_action step) of
             Inl e \<Rightarrow> Inl e
           | Inr a \<Rightarrow>
               if missing_state a available \<noteq> []
               then Inl (definition_error (''Step '' @ quoted (step_id step) @
                      '' requires unavailable state: '' @
                      py_join '', '' (sorted_unique (missing_state a available))))
               else
                 (let next_available = available @ act_provides a; visited = fst st @ [sid]
                  in if step_terminal step
                     then Inr (visited, snd st @ [''result'' \<in> set next_available])
                     else walk_targets registry p (step_targets step) next_available (path @ [sid])
                            (visited, snd st))))"
| "walk_targets registry p [] available path st = Inr st"
| "walk_targets registry p (t # ts) available path st =
     (case walk_step registry p t available path st of
        Inl e \<Rightarrow> Inl e
      | Inr st' \<Rightarrow> walk_targets registry p ts available path st')"
  by pat_completeness auto
termination
  by (relation "measures [\<lambda>x. case x of
       Inl (registry, p, sid, available, path, st) \<Rightarrow> nat (pipeline_max_steps p - int (length path))
     | Inr (registry, p, ts, available, path, st) \<Rightarrow> nat (pipeline_max_steps p - int (length path)),
     \<lambda>x. case x of Inl _ \<Rightarrow> 0 | Inr (registry, p, ts, available, path, st) \<Rightarrow> Suc (length ts)]") auto

declare walk_step.simps [simp del]

definition validate :: "'w registry \<Rightarrow> pipeline_definition \<Rightarrow> unit result" where
  "validate registry p =
     (if \<not> distinct (map step_id (pipeline_steps p))
      then Inl (definition_error ''Pipeline step identifiers must be unique'')
      else if \<not> known_step p (pipeline_entry_step_id p)
      then Inl (definition_error ''Pipeline entry step does not exist'')
      else
        rbind (check_steps registry p (pipeline_steps p)) (\<lambda>_.
        rbind (walk_step registry p (pipeline_entry_step_id p) initial_state [] ([], []))
          (\<lambda>(visited, terminal_results).
            if set visited \<noteq> set (map step_id (pipeline_steps p))
            then Inl (definition_error (''Pipeline contains unreachable steps: '' @ py_join '', ''
                   (sorted_unique (list_diff (map step_id (pipeline_steps p)) visited))))
            else if \<not> list_all (\<lambda>b. b) terminal_results
            then Inl (definition_error ''Pipeline does not produce a result'')
            else Inr ())))"

section \<open>What a successful walk establishes\<close>

text \<open>
  The specification: every path of the step graph from here is acyclic, within the limit, finds
  the state it requires, and ends with a result.
\<close>

inductive sound_from ::
    "'w registry \<Rightarrow> pipeline_definition \<Rightarrow> string \<Rightarrow> string list \<Rightarrow> string list \<Rightarrow> bool"
  for registry p where
  sound_terminal:
    "sid \<notin> set path \<Longrightarrow> int (length path) < pipeline_max_steps p \<Longrightarrow> pipeline_step p sid = Inr step \<Longrightarrow>
     get_action registry (step_action step) = Inr a \<Longrightarrow> set (act_requires a) \<subseteq> set available \<Longrightarrow>
     step_terminal step \<Longrightarrow> ''result'' \<in> set (available @ act_provides a) \<Longrightarrow>
     sound_from registry p sid available path"
| sound_inner:
    "sid \<notin> set path \<Longrightarrow> int (length path) < pipeline_max_steps p \<Longrightarrow> pipeline_step p sid = Inr step \<Longrightarrow>
     get_action registry (step_action step) = Inr a \<Longrightarrow> set (act_requires a) \<subseteq> set available \<Longrightarrow>
     \<not> step_terminal step \<Longrightarrow>
     (\<And>t. t \<in> set (step_targets step) \<Longrightarrow>
        sound_from registry p t (available @ act_provides a) (path @ [sid])) \<Longrightarrow>
     sound_from registry p sid available path"

inductive_cases sound_fromE: "sound_from registry p sid available path"

lemma missing_state_Nil: "missing_state a av = [] \<longleftrightarrow> set (act_requires a) \<subseteq> set av"
  by (simp add: missing_state_def list_diff_Nil_iff)

lemma walk_step_Inr:
  assumes "walk_step registry p sid av path st = Inr st'"
  obtains step a where "sid \<notin> set path" "int (length path) < pipeline_max_steps p"
    "pipeline_step p sid = Inr step" "get_action registry (step_action step) = Inr a"
    "missing_state a av = []"
    "step_terminal step \<Longrightarrow> st' = (fst st @ [sid], snd st @ [''result'' \<in> set (av @ act_provides a)])"
    "\<not> step_terminal step \<Longrightarrow> walk_targets registry p (step_targets step) (av @ act_provides a)
       (path @ [sid]) (fst st @ [sid], snd st) = Inr st'"
proof -
  note eq = assms [unfolded walk_step.simps [of registry p sid av path st] Let_def]
  from eq have 1: "sid \<notin> set path" "\<not> int (length path) + 1 > pipeline_max_steps p"
    by (simp_all split: if_splits)
  with eq obtain step where 2: "pipeline_step p sid = Inr step" by (cases "pipeline_step p sid") auto
  with eq 1 obtain a where 3: "get_action registry (step_action step) = Inr a"
    by (cases "get_action registry (step_action step)") auto
  from eq 1 2 3 have 4: "missing_state a av = []" by (simp split: if_splits)
  show ?thesis
    by (rule that [OF 1(1) _ 2 3 4]) (use eq 1 2 3 4 in simp_all)
qed

lemma walk_targets_Cons:
  assumes "walk_targets registry p (t # ts) av path st = Inr st'"
  obtains st1 where "walk_step registry p t av path st = Inr st1"
    "walk_targets registry p ts av path st1 = Inr st'"
  using assms by (cases "walk_step registry p t av path st") auto

lemma walk_extends:
  "walk_step registry p sid av path st = Inr st' \<Longrightarrow> \<exists>xs. snd st' = snd st @ xs"
  "walk_targets registry p ts av path st = Inr st' \<Longrightarrow> \<exists>xs. snd st' = snd st @ xs"
proof (induction registry p sid av path st and registry p ts av path st
    arbitrary: st' and st' rule: walk_step_walk_targets.induct)
  case (1 registry p sid av path st)
  from "1.prems" show ?case
  proof (rule walk_step_Inr)
    fix step a
    assume s: "sid \<notin> set path" "int (length path) < pipeline_max_steps p"
      "pipeline_step p sid = Inr step" "get_action registry (step_action step) = Inr a"
      "missing_state a av = []"
      "step_terminal step \<Longrightarrow> st' = (fst st @ [sid], snd st @ [''result'' \<in> set (av @ act_provides a)])"
      "\<not> step_terminal step \<Longrightarrow> walk_targets registry p (step_targets step) (av @ act_provides a)
         (path @ [sid]) (fst st @ [sid], snd st) = Inr st'"
    show ?thesis
    proof (cases "step_terminal step")
      case False
      from "1.IH" [OF s(1) _ s(3,4) _ refl refl False s(7) [OF False]] s(2,5) show ?thesis by simp
    qed (use s(6) in simp)
  qed
next
  case (3 registry p t ts available path st)
  from "3.prems" obtain st1 where w: "walk_step registry p t available path st = Inr st1"
    "walk_targets registry p ts available path st1 = Inr st'" by (rule walk_targets_Cons)
  from "3.IH"(1) [OF w(1)] "3.IH"(2) [OF w(1) w(2)] show ?case by auto
qed auto

lemma walk_sound:
  "walk_step registry p sid av path st = Inr st' \<Longrightarrow> list_all (\<lambda>b. b) (snd st') \<Longrightarrow>
     sound_from registry p sid av path"
  "walk_targets registry p ts av path st = Inr st' \<Longrightarrow> list_all (\<lambda>b. b) (snd st') \<Longrightarrow>
     \<forall>t\<in>set ts. sound_from registry p t av path"
proof (induction registry p sid av path st and registry p ts av path st
    arbitrary: st' and st' rule: walk_step_walk_targets.induct)
  case (1 registry p sid av path st)
  from "1.prems"(1) show ?case
  proof (rule walk_step_Inr)
    fix step a
    assume s: "sid \<notin> set path" "int (length path) < pipeline_max_steps p"
      "pipeline_step p sid = Inr step" "get_action registry (step_action step) = Inr a"
      "missing_state a av = []"
      "step_terminal step \<Longrightarrow> st' = (fst st @ [sid], snd st @ [''result'' \<in> set (av @ act_provides a)])"
      "\<not> step_terminal step \<Longrightarrow> walk_targets registry p (step_targets step) (av @ act_provides a)
         (path @ [sid]) (fst st @ [sid], snd st) = Inr st'"
    note base = s(1-4) s(5) [unfolded missing_state_Nil]
    show ?thesis
    proof (cases "step_terminal step")
      case True
      with s(6) "1.prems"(2) have "''result'' \<in> set (av @ act_provides a)" by simp
      with base True show ?thesis by (rule sound_terminal)
    next
      case False
      have "\<forall>t\<in>set (step_targets step). sound_from registry p t (av @ act_provides a) (path @ [sid])"
        using "1.IH" [OF s(1) _ s(3,4) _ refl refl False s(7) [OF False] "1.prems"(2)] s(2,5) by simp
      then show ?thesis using sound_inner [OF base False] by blast
    qed
  qed
next
  case (3 registry p t ts av path st)
  from "3.prems"(1) obtain st1 where w: "walk_step registry p t av path st = Inr st1"
    "walk_targets registry p ts av path st1 = Inr st'" by (rule walk_targets_Cons)
  from walk_extends(2) [OF w(2)] "3.prems"(2) have "list_all (\<lambda>b. b) (snd st1)" by auto
  with "3.IH"(1) [OF w(1)] "3.IH"(2) [OF w(1) w(2) "3.prems"(2)] show ?case by auto
qed auto

lemma check_steps_Inr:
  "check_steps registry p steps = Inr () \<longleftrightarrow> (\<forall>s\<in>set steps. check_step registry p s = Inr ())"
  by (induction steps) (auto simp: rbind_eq_Inr)

lemma validate_sound:
  assumes "validate registry p = Inr ()"
  shows "sound_from registry p (pipeline_entry_step_id p) initial_state []"
    and "\<forall>s\<in>set (pipeline_steps p). check_step registry p s = Inr ()"
    and "distinct (map step_id (pipeline_steps p))"
proof -
  from assms obtain visited results where w:
    "walk_step registry p (pipeline_entry_step_id p) initial_state [] ([], []) = Inr (visited, results)"
    "list_all (\<lambda>b. b) results"
    by (auto simp: validate_def rbind_eq_Inr split: if_splits)
  from walk_sound(1) [OF w(1)] w(2)
  show "sound_from registry p (pipeline_entry_step_id p) initial_state []" by simp
  from assms show "\<forall>s\<in>set (pipeline_steps p). check_step registry p s = Inr ()"
    "distinct (map step_id (pipeline_steps p))"
    by (auto simp: validate_def rbind_eq_Inr check_steps_Inr split: if_splits)
qed

text \<open>The converse: the walk accepts every sound pipeline.\<close>

lemma walk_step_unfold:
  assumes "sid \<notin> set path" "int (length path) < pipeline_max_steps p" "pipeline_step p sid = Inr step"
    "get_action registry (step_action step) = Inr a" "set (act_requires a) \<subseteq> set av"
  shows "walk_step registry p sid av path st =
    (if step_terminal step
     then Inr (fst st @ [sid], snd st @ [''result'' \<in> set (av @ act_provides a)])
     else walk_targets registry p (step_targets step) (av @ act_provides a) (path @ [sid])
            (fst st @ [sid], snd st))"
  using assms by (subst walk_step.simps) (simp add: Let_def missing_state_Nil)

lemma walk_targets_complete:
  assumes "\<And>t st. t \<in> set ts \<Longrightarrow> list_all (\<lambda>b. b) (snd st) \<Longrightarrow>
      \<exists>st'. walk_step registry p t av path st = Inr st' \<and> list_all (\<lambda>b. b) (snd st')"
    "list_all (\<lambda>b. b) (snd st)"
  shows "\<exists>st'. walk_targets registry p ts av path st = Inr st' \<and> list_all (\<lambda>b. b) (snd st')"
  using assms
proof (induction ts arbitrary: st)
  case (Cons t ts)
  obtain st1 where st1: "walk_step registry p t av path st = Inr st1" "list_all (\<lambda>b. b) (snd st1)"
    using Cons.prems(1) [of t st] Cons.prems(2) by auto
  with Cons.IH [of st1] Cons.prems(1) show ?case by auto
qed simp

lemma walk_complete:
  "sound_from registry p sid av path \<Longrightarrow> list_all (\<lambda>b. b) (snd st) \<Longrightarrow>
   \<exists>st'. walk_step registry p sid av path st = Inr st' \<and> list_all (\<lambda>b. b) (snd st')"
proof (induction arbitrary: st rule: sound_from.induct)
  case (sound_terminal sid path step a available)
  then show ?case by (simp add: walk_step_unfold)
next
  case (sound_inner sid path step a available)
  then show ?case
    using walk_targets_complete [of "step_targets step" registry p "available @ act_provides a"
        "path @ [sid]" "(fst st @ [sid], snd st)"]
    by (simp add: walk_step_unfold)
qed

lemma walk_iff_sound:
  "(\<exists>st'. walk_step registry p sid av path ([], []) = Inr st' \<and> list_all (\<lambda>b. b) (snd st')) \<longleftrightarrow>
     sound_from registry p sid av path"
  using walk_sound(1) walk_complete [of registry p sid av path "([], [])"] by fastforce

end
