(* ===== verification/Engine.thy ===== *)
theory Engine
  imports Validator
begin

text \<open>
  \<open>PipelineEngine\<close> of \<open>application/pipeline.py\<close>: the execution loop with its audit, the choice of the
  next step, the diagnostics of a result and the error handler.
\<close>

record 'w execution_audit =
  audit_start :: "pipeline_run \<Rightarrow> ('w, py_exn, unit) prog"
  audit_record_step :: "pipeline_step_audit \<Rightarrow> ('w, py_exn, unit) prog"
  audit_succeed :: "string \<Rightarrow> string \<Rightarrow> int \<Rightarrow> int \<Rightarrow> int \<Rightarrow> rat \<Rightarrow> ('w, py_exn, unit) prog"
  audit_fail :: "string \<Rightarrow> string \<Rightarrow> string \<Rightarrow> ('w, py_exn, unit) prog"

record 'w engine =
  engine_registry :: "'w registry"
  engine_audit :: "'w execution_audit"
  engine_run_id_factory :: "('w, py_exn, string) prog"

section \<open>Steps\<close>

definition next_step :: "pipeline_step_definition \<Rightarrow> string option \<Rightarrow> string option result" where
  "next_step step route =
     (if step_terminal step
      then (case route of
              Some _ \<Rightarrow> Inl (execution_error (''Terminal step '' @ quoted (step_id step) @
                          '' returned a route''))
            | None \<Rightarrow> Inr None)
      else case route of
        Some r \<Rightarrow>
          (case map_of (step_routes step) r of
             Some t \<Rightarrow> Inr (Some t)
           | None \<Rightarrow> Inl (execution_error (step_prefix step @ ''returned unknown route '' @ quoted r)))
      | None \<Rightarrow>
          (case step_next_step_id step of
             Some n \<Rightarrow> Inr (Some n)
           | None \<Rightarrow> Inl (execution_error (step_prefix step @
                       ''requires an explicit route decision''))))"

text \<open>One round of the loop: the step, its action, the trace, the next step and the audit record.\<close>

definition engine_step ::
    "'w engine \<Rightarrow> 'w runtime_env \<Rightarrow> pipeline_definition \<Rightarrow> string \<Rightarrow> string \<Rightarrow> int \<Rightarrow>
     ('w, string option) action_prog" where
  "engine_step eng env p run_id current sequence =
     sbind (slift (pipeline_step p current)) (\<lambda>step.
     sbind (slift (get_action (engine_registry eng) (step_action step))) (\<lambda>a.
     sbind (read_clock env) (\<lambda>started.
     sbind (act_execute a step) (\<lambda>route.
     sbind (read_clock env) (\<lambda>finished.
     sthen (modify_ctx (\<lambda>c. c\<lparr>ctx_trace := ctx_trace c @ [step_id step]\<rparr>))
     (sbind (slift (next_step step route)) (\<lambda>next_step_id.
      sbind (slift (pipeline_step_audit_post_init
        \<lparr>audit_run_id = run_id, audit_sequence_number = sequence, audit_step_id = step_id step,
         audit_action = step_action step, audit_action_version = step_action_version step,
         audit_duration_ms = duration_ms started finished, audit_next_step_id = next_step_id\<rparr>)) (\<lambda>record.
      sthen (in_world (audit_record_step (engine_audit eng) record))
        (sreturn next_step_id)))))))))"

text \<open>The loop; it ends because \<open>sequence\<close> may not pass \<open>max_steps\<close>.\<close>

function run_steps ::
    "'w engine \<Rightarrow> 'w runtime_env \<Rightarrow> pipeline_definition \<Rightarrow> string \<Rightarrow> string option \<Rightarrow> int \<Rightarrow>
     ('w, unit) action_prog" where
  "run_steps eng env p run_id None sequence s = (Inr (), s)"
| "run_steps eng env p run_id (Some current) sequence s =
     (if sequence + 1 > pipeline_max_steps p
      then (Inl (execution_error ''Pipeline exceeded its configured step limit''), s)
      else case engine_step eng env p run_id current (sequence + 1) s of
        (Inl e, s') \<Rightarrow> (Inl e, s')
      | (Inr next, s') \<Rightarrow> run_steps eng env p run_id next (sequence + 1) s')"
  by pat_completeness auto
termination
  by (relation "measure (\<lambda>(eng, env, p, run_id, current, sequence, s).
        nat (pipeline_max_steps p - sequence))") auto

section \<open>Diagnostics\<close>

text \<open>
  \<open>int(value)\<close>: integers and booleans as they are, a float towards zero, a string with an optional
  sign, digits and single underscores between digits.
\<close>

definition is_digit :: "char \<Rightarrow> bool" where
  "is_digit c \<longleftrightarrow> 48 \<le> (of_char c :: nat) \<and> (of_char c :: nat) \<le> 57"

fun digits_value :: "nat \<Rightarrow> bool \<Rightarrow> string \<Rightarrow> nat option" where
  "digits_value acc after_digit [] = (if after_digit then Some acc else None)"
| "digits_value acc after_digit (c # s) =
     (if is_digit c then digits_value (10 * acc + (of_char c - 48)) True s
      else if c = CHR ''_'' \<and> after_digit then digits_value acc False s
      else None)"

definition int_of_string :: "string \<Rightarrow> int result" where
  "int_of_string raw =
     (let s = strip raw;
          (sign, digits) = (if s \<noteq> [] \<and> hd s = CHR ''-'' then (-1, tl s)
                            else if s \<noteq> [] \<and> hd s = CHR ''+'' then (1, tl s) else (1, s))
      in case digits_value 0 False digits of
           Some n \<Rightarrow> Inr (sign * int n)
         | None \<Rightarrow> Inl (OtherError ''ValueError''))"

definition py_int :: "py \<Rightarrow> int result" where
  "py_int v =
     (case v of
        PInt i \<Rightarrow> Inr i
      | PBool b \<Rightarrow> Inr (if b then 1 else 0)
      | PFloat q \<Rightarrow> Inr (if q < 0 then - \<lfloor>- q\<rfloor> else \<lfloor>q\<rfloor>)
      | PStr s \<Rightarrow> int_of_string s
      | _ \<Rightarrow> Inl (OtherError ''TypeError''))"

definition py_tuple :: "py \<Rightarrow> py list result" where
  "py_tuple v =
     (case v of
        PTuple xs \<Rightarrow> Inr xs
      | PList xs \<Rightarrow> Inr xs
      | PStr s \<Rightarrow> Inr (map (\<lambda>c. PStr [c]) s)
      | PDict d \<Rightarrow> Inr (map (PStr \<circ> fst) d)
      | _ \<Rightarrow> Inl (OtherError ''TypeError''))"

text \<open>The origin of each chunk: a seed wins over a graph hit.\<close>

definition hit_origins :: "search_hit list \<Rightarrow> search_hit list \<Rightarrow> (string \<times> string) list" where
  "hit_origins seeds graph_hits =
     (let origins = dict_of (map (\<lambda>h. (hit_key h, ''seed'')) seeds)
      in dict_update origins (map (\<lambda>h. (hit_key h, ''graph''))
           (filter (\<lambda>h. \<not> has_key origins (hit_key h)) graph_hits)))"

definition graph_depth_of :: "mapping \<Rightarrow> int option result" where
  "graph_depth_of metadata =
     (case map_of metadata ''graph_depth'' of
        None \<Rightarrow> Inr None
      | Some v \<Rightarrow> rbind (py_int v) (\<lambda>i. Inr (Some i)))"

definition hit_diagnostic ::
    "(string \<times> string) list \<Rightarrow> int \<times> search_hit \<Rightarrow> retrieval_diagnostic result" where
  "hit_diagnostic origins ranked =
     (let index = fst ranked; hit = snd ranked; chunk = hit_chunk hit
      in rbind (graph_depth_of (chunk_metadata chunk)) (\<lambda>depth.
         rbind (py_tuple (dict_get_or (chunk_metadata chunk) ''graph_path'' (PTuple []))) (\<lambda>path.
           Inr \<lparr>rd_chunk_id = chunk_id chunk, rd_source_id = chunk_source_id chunk,
                rd_score = hit_score hit, rd_score_type = hit_score_type hit, rd_rank = index,
                rd_origin = dict_get_or origins (chunk_id chunk) ''seed'', rd_graph_depth = depth,
                rd_graph_path = path\<rparr>)))"

definition context_transmission :: "'w pipeline_context \<Rightarrow> model_transmission_diagnostic" where
  "context_transmission c =
     \<lparr>mt_checked = ctx_mt_checked c, mt_allowed = ctx_mt_allowed c,
      mt_reason_code = ctx_mt_reason_code c,
      mt_selected_model_server_id = ctx_mt_selected_server_id c,
      mt_final_model_server_id = ctx_mt_final_server_id c, mt_rerouted = ctx_mt_rerouted c,
      mt_trust_boundary = ctx_mt_trust_boundary c,
      mt_external_transmission = ctx_mt_external_policy c,
      mt_context_security_requirement = ctx_mt_context_requirement c,
      mt_checked_chunk_ids = ctx_mt_checked_chunk_ids c,
      mt_blocked_chunk_ids = ctx_mt_blocked_chunk_ids c\<rparr>"

definition diagnostics :: "'w runtime_env \<Rightarrow> 'w pipeline_context \<Rightarrow> query_diagnostics result" where
  "diagnostics env c =
     (let authorization = command_authorization (ctx_command c);
          origins = hit_origins (ctx_seed_hits c) (ctx_graph_hits c)
      in rbind (rmap (hit_diagnostic origins) (enumerate_from_1 (ctx_hits c))) (\<lambda>retrieval.
         Inr \<lparr>qd_contract_version = ''1.0'',
              qd_subject_hash = env_sha256 env (auth_subject authorization),
              qd_tenant_id = auth_tenant_id authorization,
              qd_allowed_acl_labels = auth_acl_labels authorization,
              qd_security_model_kind = model_kind (domain_security_model (ctx_domain c)),
              qd_search_mode = retrieval_mode (domain_retrieval (ctx_domain c)),
              qd_retrieval = retrieval, qd_omitted_chunk_ids = ctx_omitted_chunk_ids c,
              qd_context_chunk_ids = ctx_context_chunk_ids c,
              qd_context_characters = int (length (ctx_evidence c)),
              qd_provider = gw_name (ctx_model c), qd_model = gw_model_id (ctx_model c),
              qd_prompt_key = ctx_prompt_key c, qd_model_transmission = context_transmission c,
              qd_system_prompt_hash = ctx_system_prompt_hash c,
              qd_prompt_tokens = ctx_prompt_tokens c,
              qd_completion_tokens = ctx_completion_tokens c,
              qd_model_duration_ms = ctx_model_duration_ms c,
              qd_pipeline_trace = ctx_trace c\<rparr>))"

definition query_result_of :: "'w pipeline_context \<Rightarrow> query_diagnostics \<Rightarrow> query_result" where
  "query_result_of c d =
     \<lparr>result_request_id = command_request_id (ctx_command c), result_answer = ctx_answer c,
      result_domain = domain_name (ctx_domain c),
      result_session_id = command_session_id (ctx_command c), result_citations = ctx_citations c,
      result_pipeline_trace = ctx_trace c, result_diagnostics = Some d,
      result_conversation_id = ctx_conversation_id c, result_turn_id = ctx_conversation_turn_id c\<rparr>"

section \<open>A run\<close>

definition engine_body ::
    "'w engine \<Rightarrow> 'w runtime_env \<Rightarrow> pipeline_definition \<Rightarrow> string \<Rightarrow> ('w, query_result) action_prog" where
  "engine_body eng env p run_id =
     sthen (run_steps eng env p run_id (Some (pipeline_entry_step_id p)) 0)
     (sbind (ask id) (\<lambda>c.
      sbind (slift (diagnostics env c)) (\<lambda>d.
      let result = query_result_of c d
      in sthen (in_world (audit_succeed (engine_audit eng) run_id (result_answer result)
             (int (length (result_citations result))) (ctx_prompt_tokens c) (ctx_completion_tokens c)
             (ctx_estimated_cost c)))
           (sreturn result))))"

definition engine_failed :: "'w engine \<Rightarrow> string \<Rightarrow> py_exn \<Rightarrow> ('w, 'a) action_prog" where
  "engine_failed eng run_id e =
     sthen (in_world (audit_fail (engine_audit eng) run_id (exn_code e)
              (exn_message ''Unhandled pipeline execution failure'' e)))
       (sraise e)"

definition engine_handler :: "'w engine \<Rightarrow> string \<Rightarrow> py_exn \<Rightarrow> ('w, 'a) action_prog" where
  "engine_handler eng run_id e =
     sbind (ask id) (\<lambda>c.
       if ctx_conversation_turn_id c \<noteq> None \<and> \<not> ctx_conversation_turn_finalized c
       then
         sthen (scatch (fail_conversation_turn (exn_code e)) (\<lambda>history_exc.
           sthen (in_world (audit_fail (engine_audit eng) run_id (exn_code history_exc)
                    (exn_message ''Conversation history failure'' history_exc)))
             (sraise history_exc)))
         (engine_failed eng run_id e)
       else engine_failed eng run_id e)"

definition engine_execute ::
    "'w engine \<Rightarrow> 'w runtime_env \<Rightarrow> pipeline_definition \<Rightarrow> ('w, query_result) action_prog" where
  "engine_execute eng env p =
     sbind (in_world (engine_run_id_factory eng)) (\<lambda>run_id.
     sbind (ask id) (\<lambda>c.
     sbind (slift (pipeline_run_post_init
       \<lparr>run_run_id = run_id, run_request_id = command_request_id (ctx_command c),
        run_session_id = command_session_id (ctx_command c), run_domain = domain_name (ctx_domain c),
        run_tenant_id = auth_tenant_id (command_authorization (ctx_command c)),
        run_pipeline_name = pipeline_name p, run_pipeline_version = pipeline_behavior_version p,
        run_pipeline_checksum = pipeline_checksum p, run_query = command_query (ctx_command c)\<rparr>)) (\<lambda>run.
     sthen (in_world (audit_start (engine_audit eng) run))
       (scatch (engine_body eng env p run_id) (engine_handler eng run_id)))))"

end
