(* ===== verification/Run_Invariants.thy ===== *)
theory Run_Invariants
  imports Engine
begin

text \<open>
  What a pipeline accepted by the validator guarantees of its runs. The locale \<open>pipeline_contract\<close>
  is the interface between the engine and its actions: what an action promises when the state
  it requires is available. It is interpreted three times on the default actions.
\<close>

section \<open>The choice of the next step\<close>

lemma next_step_target:
  "next_step step route = Inr (Some t) \<Longrightarrow> \<not> step_terminal step \<and> t \<in> set (step_targets step)"
  by (force simp: next_step_def step_targets_def split: if_splits option.splits dest: map_of_SomeD)

lemma next_step_end: "next_step step route = Inr None \<Longrightarrow> step_terminal step"
  by (auto simp: next_step_def split: if_splits option.splits)

text \<open>What one round does, in terms of the action it runs.\<close>

text \<open>A round up to the end of its action, then its closing part.\<close>

definition close_round ::
    "'w engine \<Rightarrow> 'w runtime_env \<Rightarrow> string \<Rightarrow> int \<Rightarrow> pipeline_step_definition \<Rightarrow> rat \<Rightarrow> string option \<Rightarrow>
     ('w, string option) action_prog" where
  "close_round eng env run_id sequence step started route =
     sbind (read_clock env) (\<lambda>finished.
     sthen (modify_ctx (\<lambda>c. c\<lparr>ctx_trace := ctx_trace c @ [step_id step]\<rparr>))
     (sbind (slift (next_step step route)) (\<lambda>next_step_id.
      sbind (slift (pipeline_step_audit_post_init
        \<lparr>audit_run_id = run_id, audit_sequence_number = sequence, audit_step_id = step_id step,
         audit_action = step_action step, audit_action_version = step_action_version step,
         audit_duration_ms = duration_ms started finished, audit_next_step_id = next_step_id\<rparr>)) (\<lambda>record.
      sthen (in_world (audit_record_step (engine_audit eng) record))
        (sreturn next_step_id)))))"

lemma close_round_ctx:
  assumes "close_round eng env rid n step started route s = (r, s')"
  shows "rs_ctx s' = (rs_ctx s)\<lparr>ctx_trace := ctx_trace (rs_ctx s) @ [step_id step]\<rparr>"
    and "r = Inr nxt \<Longrightarrow> next_step step route = Inr nxt"
  using assms by (cases r; auto simp: close_round_def run_simps)+

lemma engine_step_cases:
  assumes "engine_step eng env p rid sid n s = (r, s')"
  obtains (early) e where "r = Inl e" "s' = s"
      "(\<exists>e. pipeline_step p sid = Inl e) \<or> (\<exists>step e. pipeline_step p sid = Inr step \<and>
         get_action (engine_registry eng) (step_action step) = Inl e)"
  | (raised) step a s1 e where "pipeline_step p sid = Inr step"
      "get_action (engine_registry eng) (step_action step) = Inr a" "rs_ctx s1 = rs_ctx s"
      "act_execute a step s1 = (Inl e, s')" "r = Inl e"
  | (closed) step a s1 route s2 where "pipeline_step p sid = Inr step"
      "get_action (engine_registry eng) (step_action step) = Inr a" "rs_ctx s1 = rs_ctx s"
      "act_execute a step s1 = (Inr route, s2)"
      "rs_ctx s' = (rs_ctx s2)\<lparr>ctx_trace := ctx_trace (rs_ctx s2) @ [sid]\<rparr>"
      "\<And>nxt. r = Inr nxt \<Longrightarrow> next_step step route = Inr nxt"
proof (cases "pipeline_step p sid")
  case (Inl e)
  with assms early show ?thesis by (auto simp: engine_step_def sbind_def slift_def)
next
  case (Inr step)
  note step = this
  show ?thesis
  proof (cases "get_action (engine_registry eng) (step_action step)")
    case (Inl e)
    with assms early step show ?thesis by (auto simp: engine_step_def sbind_def slift_def)
  next
    case (Inr a)
    obtain t w where clock: "env_monotonic env (rs_world s) = (t, w)" by force
    let ?s1 = "s\<lparr>rs_world := w\<rparr>"
    obtain x s2 where x: "act_execute a step ?s1 = (x, s2)" by force
    have run: "(r, s') = (case x of Inl e \<Rightarrow> (Inl e, s2) | Inr route \<Rightarrow>
        close_round eng env rid n step t route s2)"
      using assms step Inr clock x
      by (auto simp: engine_step_def close_round_def sbind_def slift_def read_clock_def split: sum.splits)
    show ?thesis
    proof (cases x)
      case (Inl e)
      with run x show ?thesis by (intro raised [OF step Inr, of ?s1 e]) auto
    next
      case (Inr route)
      with run have "close_round eng env rid n step t route s2 = (r, s')" by simp
      note close = close_round_ctx [OF this]
      from x Inr have "act_execute a step ?s1 = (Inr route, s2)" by simp
      with close pipeline_step_Inr [OF step] \<open>get_action (engine_registry eng) (step_action step) = Inr a\<close>
      show ?thesis by (intro closed [OF step, of a ?s1 route s2]) auto
    qed
  qed
qed

section \<open>The configurations a run passes through\<close>

inductive engine_reaches ::
    "'w engine \<Rightarrow> 'w runtime_env \<Rightarrow> pipeline_definition \<Rightarrow> string \<Rightarrow> 'w run_state \<Rightarrow>
     string option \<Rightarrow> int \<Rightarrow> 'w run_state \<Rightarrow> bool"
  for eng env p rid s0 where
  reach_start: "engine_reaches eng env p rid s0 (Some (pipeline_entry_step_id p)) 0 s0"
| reach_round:
    "engine_reaches eng env p rid s0 (Some sid) n s \<Longrightarrow> n + 1 \<le> pipeline_max_steps p \<Longrightarrow>
     engine_step eng env p rid sid (n + 1) s = (Inr nxt, s') \<Longrightarrow>
     engine_reaches eng env p rid s0 nxt (n + 1) s'"

inductive_cases engine_reachesE: "engine_reaches eng env p rid s0 cur n s"

text \<open>The loop only visits reachable configurations, and a finished loop ends in one.\<close>

lemma run_steps_reaches:
  "run_steps eng env p rid cur n s = (Inr (), s') \<Longrightarrow> engine_reaches eng env p rid s0 cur n s \<Longrightarrow>
   \<exists>m. engine_reaches eng env p rid s0 None m s'"
proof (induction eng env p rid cur n s rule: run_steps.induct)
  case (2 eng env p rid current n s)
  from "2.prems"(1) have le: "\<not> n + 1 > pipeline_max_steps p" by (auto split: if_splits)
  obtain x s1 where x: "engine_step eng env p rid current (n + 1) s = (x, s1)" by force
  with "2.prems"(1) le obtain nxt where nxt: "x = Inr nxt"
    "run_steps eng env p rid nxt (n + 1) s1 = (Inr (), s')" by (cases x) auto
  with x le "2.prems"(2) have "engine_reaches eng env p rid s0 nxt (n + 1) s1"
    by (auto intro: reach_round)
  from "2.IH" [OF le x [unfolded nxt(1), symmetric] refl nxt(2) this] show ?case by blast
qed auto

section \<open>The contract between the engine and its actions\<close>

locale pipeline_contract =
  fixes registry :: "'w registry"
    and holds :: "string list \<Rightarrow> 'w pipeline_context \<Rightarrow> bool"
    and after_raise :: "'w pipeline_context \<Rightarrow> bool"
  assumes action_returns:
      "get_action registry aid = Inr a \<Longrightarrow> set (act_requires a) \<subseteq> set av \<Longrightarrow> holds av (rs_ctx s) \<Longrightarrow>
       act_execute a step s = (Inr r, s') \<Longrightarrow> holds (av @ act_provides a) (rs_ctx s')"
    and action_raises:
      "get_action registry aid = Inr a \<Longrightarrow> set (act_requires a) \<subseteq> set av \<Longrightarrow> holds av (rs_ctx s) \<Longrightarrow>
       act_execute a step s = (Inl e, s') \<Longrightarrow> after_raise (rs_ctx s')"
    and holds_trace: "holds av c \<Longrightarrow> holds av (c\<lparr>ctx_trace := t\<rparr>)"
    and holds_raise: "holds av c \<Longrightarrow> after_raise c"
begin

lemma round_returns:
  assumes "engine_registry eng = registry" "pipeline_step p sid = Inr step"
    "get_action registry (step_action step) = Inr a" "set (act_requires a) \<subseteq> set av"
    "holds av (rs_ctx s)" "engine_step eng env p rid sid n s = (Inr nxt, s')"
  shows "holds (av @ act_provides a) (rs_ctx s')"
    and "nxt = None \<Longrightarrow> step_terminal step"
    and "nxt = Some t \<Longrightarrow> \<not> step_terminal step \<and> t \<in> set (step_targets step)"
proof -
  from assms(6) obtain s1 route s2 where ctx: "rs_ctx s1 = rs_ctx s"
    and run: "act_execute a step s1 = (Inr route, s2)"
    and trace: "rs_ctx s' = (rs_ctx s2)\<lparr>ctx_trace := ctx_trace (rs_ctx s2) @ [sid]\<rparr>"
    and nxt: "next_step step route = Inr nxt"
    by (cases rule: engine_step_cases) (use assms(1-3) in auto)
  have "holds (av @ act_provides a) (rs_ctx s2)"
    by (rule action_returns [OF assms(3,4) _ run]) (use ctx assms(5) in simp)
  then show "holds (av @ act_provides a) (rs_ctx s')" unfolding trace by (rule holds_trace)
  show "nxt = None \<Longrightarrow> step_terminal step"
    "nxt = Some t \<Longrightarrow> \<not> step_terminal step \<and> t \<in> set (step_targets step)"
    using nxt next_step_end next_step_target by blast+
qed

lemma round_raises:
  assumes "engine_registry eng = registry" "pipeline_step p sid = Inr step"
    "get_action registry (step_action step) = Inr a" "set (act_requires a) \<subseteq> set av"
    "holds av (rs_ctx s)" "engine_step eng env p rid sid n s = (Inl e, s')"
  shows "after_raise (rs_ctx s')"
  using assms(6)
proof (cases rule: engine_step_cases)
  case early
  with assms(5) show ?thesis by (simp add: holds_raise)
next
  case (raised step' a' s1 e')
  with assms(1-3) have run: "act_execute a step s1 = (Inl e, s')" by simp
  show ?thesis by (rule action_raises [OF assms(3,4) _ run]) (use raised assms(5) in simp)
next
  case (closed step' a' s1 route s2)
  with assms(1-3) have run: "act_execute a step s1 = (Inr route, s2)" by simp
  have "holds (av @ act_provides a) (rs_ctx s2)"
    by (rule action_returns [OF assms(3,4) _ run]) (use closed assms(5) in simp)
  then have "holds (av @ act_provides a) (rs_ctx s')" unfolding closed(5) by (rule holds_trace)
  then show ?thesis by (rule holds_raise)
qed

lemma run_holds:
  assumes "sound_from registry p sid av path" "engine_registry eng = registry"
    "holds av (rs_ctx s)" "n = int (length path)"
    "run_steps eng env p rid (Some sid) n s = (r, s')"
  shows "case r of Inr u \<Rightarrow> \<exists>av'. holds av' (rs_ctx s') \<and> ''result'' \<in> set av'
    | Inl e \<Rightarrow> after_raise (rs_ctx s')"
  using assms
proof (induction sid av path arbitrary: s n rule: sound_from.induct)
  case (sound_terminal sid path step a av)
  note pre = sound_terminal(8) sound_terminal(3-5) sound_terminal(9)
  obtain x s1 where x: "engine_step eng env p rid sid (n + 1) s = (x, s1)" by force
  show ?case
  proof (cases x)
    case (Inl e)
    with round_raises [OF pre] x sound_terminal show ?thesis by auto
  next
    case (Inr nxt)
    note ret = round_returns [OF pre x [unfolded Inr]]
    from ret(3) sound_terminal(6) have "nxt = None" by (cases nxt) auto
    with x Inr sound_terminal(2,10,11) have "r = Inr ()" "s' = s1" by simp_all
    with ret(1) sound_terminal(7) show ?thesis by auto
  qed
next
  case (sound_inner sid path step a av)
  note pre = sound_inner(9) sound_inner(3-5) sound_inner(10)
  obtain x s1 where x: "engine_step eng env p rid sid (n + 1) s = (x, s1)" by force
  show ?case
  proof (cases x)
    case (Inl e)
    with round_raises [OF pre] x sound_inner(2,11,12) show ?thesis by auto
  next
    case (Inr nxt)
    note ret = round_returns [OF pre x [unfolded Inr]]
    from ret(2) sound_inner(6) obtain t where t: "nxt = Some t" by (cases nxt) auto
    with ret(3) have mem: "t \<in> set (step_targets step)" by blast
    have "run_steps eng env p rid (Some t) (n + 1) s1 = (r, s')"
      using sound_inner(2,11,12) x Inr t by simp
    with sound_inner(8) [OF mem sound_inner(9) ret(1), of "n + 1"] sound_inner(11) show ?thesis by simp
  qed
qed

text \<open>The engine's loop on a validated pipeline, the configurations it reaches and its body.\<close>

lemma reach_holds:
  assumes "validate registry p = Inr ()" "engine_registry eng = registry" "holds initial_state (rs_ctx s0)"
  shows "engine_reaches eng env p rid s0 cur n s \<Longrightarrow>
    (case cur of
       Some sid \<Rightarrow> \<exists>av path. sound_from registry p sid av path \<and> holds av (rs_ctx s) \<and> n = int (length path)
     | None \<Rightarrow> \<exists>av. holds av (rs_ctx s) \<and> ''result'' \<in> set av)"
proof (induction rule: engine_reaches.induct)
  case reach_start
  from validate_sound(1) [OF assms(1)] assms(3) show ?case by force
next
  case (reach_round sid n s nxt s')
  then obtain av path where ih: "sound_from registry p sid av path" "holds av (rs_ctx s)"
    "n = int (length path)" by auto
  from ih(1) show ?case
  proof (cases rule: sound_from.cases)
    case (sound_terminal step a)
    note ret = round_returns [OF assms(2) sound_terminal(3-5) ih(2) reach_round(3)]
    from ret(3) sound_terminal(6) have "nxt = None" by (cases nxt) auto
    with ret(1) sound_terminal(7) show ?thesis by auto
  next
    case (sound_inner step a)
    note ret = round_returns [OF assms(2) sound_inner(3-5) ih(2) reach_round(3)]
    from ret(2) sound_inner(6) obtain t where t: "nxt = Some t" by (cases nxt) auto
    with ret(3) have "sound_from registry p t (av @ act_provides a) (path @ [sid])"
      using sound_inner(7) by blast
    with ret(1) ih(3) t show ?thesis by force
  qed
qed

lemma validated_run:
  assumes "validate registry p = Inr ()" "engine_registry eng = registry"
    "holds initial_state (rs_ctx s)"
    "run_steps eng env p rid (Some (pipeline_entry_step_id p)) 0 s = (r, s')"
  shows "case r of Inr u \<Rightarrow> \<exists>av'. holds av' (rs_ctx s') \<and> ''result'' \<in> set av'
    | Inl e \<Rightarrow> after_raise (rs_ctx s')"
  by (rule run_holds [OF validate_sound(1) [OF assms(1)] assms(2,3) _ assms(4)]) simp

lemma validated_body:
  assumes "validate registry p = Inr ()" "engine_registry eng = registry"
    "holds initial_state (rs_ctx s)" "engine_body eng env p rid s = (r, s')"
  shows "after_raise (rs_ctx s')" and "r = Inr q \<Longrightarrow> \<exists>av. holds av (rs_ctx s') \<and> ''result'' \<in> set av"
proof -
  obtain x s1 where x: "run_steps eng env p rid (Some (pipeline_entry_step_id p)) 0 s = (x, s1)"
    by force
  note run = validated_run [OF assms(1-3) x]
  have "(\<exists>e. x = Inl e \<and> r = Inl e \<and> s' = s1) \<or> ((\<exists>u. x = Inr u) \<and> rs_ctx s' = rs_ctx s1)"
    using assms(4) x
    by (cases x; cases r) (auto simp: engine_body_def sthen_def sbind_def ask_def sget_def slift_def
        Let_def in_world_def sreturn_def split: sum.splits prod.splits)
  with run show "after_raise (rs_ctx s')"
    "r = Inr q \<Longrightarrow> \<exists>av. holds av (rs_ctx s') \<and> ''result'' \<in> set av"
    by (auto intro: holds_raise split: sum.splits)
qed

end

text \<open>With a condition the error handler keeps, the contract reaches the whole \<open>execute\<close> method.\<close>

locale pipeline_contract_handled = pipeline_contract +
  assumes raise_finalized: "after_raise c \<Longrightarrow> after_raise (c\<lparr>ctx_conversation_turn_finalized := True\<rparr>)"
begin

lemma handler_keeps: "keeps after_raise (engine_handler eng rid e)"
proof -
  have history: "keeps after_raise (scatch (fail_conversation_turn code) h)"
    if "\<And>e. keeps after_raise (h e)" for code h
    using keeps_fail_conversation_turn [of after_raise code] that raise_finalized
    unfolding keeps_def by (blast intro: triple_scatch)
  show ?thesis
    unfolding engine_handler_def engine_failed_def
    by (intro keeps_rules history)
qed

lemma validated_execute:
  assumes "validate registry p = Inr ()" "engine_registry eng = registry"
    "holds initial_state (rs_ctx s)" "engine_execute eng env p s = (r, s')"
  shows "after_raise (rs_ctx s')"
proof -
  have start: "after_raise (rs_ctx s)" using assms(3) by (rule holds_raise)
  have body: "after_raise (rs_ctx s2)"
    if "scatch (engine_body eng env p rid) (engine_handler eng rid) s1 = (r, s2)"
      "rs_ctx s1 = rs_ctx s" for rid s1 s2 r
  proof -
    obtain x s3 where x: "engine_body eng env p rid s1 = (x, s3)" by force
    have "after_raise (rs_ctx s3)"
      by (rule validated_body(1) [OF assms(1,2) _ x]) (use assms(3) that(2) in simp)
    with x that(1) keepsD [OF handler_keeps, of s3] show ?thesis
      by (cases x) (auto simp: scatch_def)
  qed
  show ?thesis
    using assms(4) start body
    by (cases r) (auto simp: engine_execute_def run_simps)
qed

end

end
