(* ===== verification/Pipeline_Safety.thy ===== *)
theory Pipeline_Safety
  imports Run_Invariants
begin

text \<open>
  The contract of \<open>Run_Invariants\<close> discharged by the default actions, and what follows for a run
  of a validated pipeline: only authorised evidence, only cleared model servers, and no step
  before the state it requires.
\<close>

section \<open>Evidence\<close>

lemma retrieval_action_contract:
  assumes "get_action (default_registry env) aid = Inr a"
  shows "retrieval_contract (act_execute a step)"
proof -
  note frame = retrieval_safe_def hits_authorized_def seeds_authorized_def
  show ?thesis
    using assms
  proof (rule default_action_cases)
    fix a :: "'a pipeline_action"
    assume "a \<in> set retrieval_actions"
    then show "retrieval_contract (act_execute a step)"
      by (auto simp: retrieval_actions_def action_def frame
          intro!: retrieve_contract expand_graph_contract
            keeps_retrieval_contract [OF normalize_query_keeps]
            keeps_retrieval_contract [OF manage_context_budget_keeps]
            keeps_retrieval_contract [OF require_evidence_keeps])
  next
    have "keeps retrieval_safe (enforce_policy_execute step :: ('a, string option) action_prog)"
      unfolding enforce_policy_execute_def
      by (intro keeps_rules) (auto simp: frame store_diagnostic_def intro!: keeps_rules)
    then show "retrieval_contract (act_execute (enforce_policy_action :: 'a pipeline_action) step)"
      unfolding enforce_policy_action_def action_def by (simp add: keeps_retrieval_contract)
  next
    fix a :: "'a pipeline_action"
    assume "a \<in> set (routing_actions env)"
    then show "retrieval_contract (act_execute a step)"
      by (auto simp: routing_actions_def action_def frame intro!: keeps_retrieval_contract keeps_rules)
  next
    fix a :: "'a pipeline_action"
    assume "a \<in> set conversation_actions"
    then show "retrieval_contract (act_execute a step)"
      by (auto simp: conversation_actions_def action_def frame intro!: keeps_retrieval_contract keeps_rules)
  next
    fix a :: "'a pipeline_action"
    assume "a \<in> set (closing_actions env)"
    then show "retrieval_contract (act_execute a step)"
      by (auto simp: closing_actions_def action_def frame intro!: keeps_retrieval_contract keeps_rules)
  qed
qed

interpretation retrieval_run: pipeline_contract_handled "default_registry env" "\<lambda>_. retrieval_safe"
  hits_authorized for env :: "'w runtime_env"
proof (unfold_locales, goal_cases)
  case (1 aid a av s step r s')
  from retrieval_action_contract [OF 1(1), of step] 1(3,4) show ?case
    unfolding retrieval_contract_def by (rule tripleD_Inr)
next
  case (2 aid a av s step e s')
  from retrieval_action_contract [OF 2(1), of step] 2(3,4) show ?case
    unfolding retrieval_contract_def by (rule tripleD_Inl)
qed (auto simp: retrieval_safe_defs)

section \<open>Model servers\<close>

lemma keeps_retrieve:
  assumes "\<And>c x. P c \<Longrightarrow> P (c\<lparr>ctx_seed_hits := x\<rparr>)" "\<And>c x. P c \<Longrightarrow> P (c\<lparr>ctx_hits := x\<rparr>)"
    "\<And>c x. P c \<Longrightarrow> P (c\<lparr>ctx_retrieval_queries_asked_norm := x\<rparr>)"
  shows "keeps P (retrieve_execute step)"
  unfolding retrieve_execute_def by (intro keeps_rules assms)

lemma keeps_expand_graph:
  assumes "\<And>c x. P c \<Longrightarrow> P (c\<lparr>ctx_graph_hits := x\<rparr>)" "\<And>c x. P c \<Longrightarrow> P (c\<lparr>ctx_hits := x\<rparr>)"
  shows "keeps P (expand_graph_execute step)"
  unfolding expand_graph_execute_def by (intro keeps_rules assms)

lemma transmission_action_contract:
  assumes "get_action (default_registry env) aid = Inr a"
  shows "keeps transmission_inv (act_execute a step)"
proof -
  note frame = transmission_inv_def server_may_receive_def
  show ?thesis
    using assms
  proof (rule default_action_cases)
    fix a :: "'a pipeline_action"
    assume "a \<in> set retrieval_actions"
    then show "keeps transmission_inv (act_execute a step)"
      by (auto simp: retrieval_actions_def action_def frame intro!: keeps_rules keeps_retrieve
          keeps_expand_graph)
  next
    show "keeps transmission_inv (act_execute (enforce_policy_action :: 'a pipeline_action) step)"
      unfolding keeps_def enforce_policy_action_def action_def
      by (rule tripleI) (auto dest: transmission_inv_enforce)
  next
    fix a :: "'a pipeline_action"
    assume "a \<in> set (routing_actions env)"
    then show "keeps transmission_inv (act_execute a step)"
      by (auto simp: routing_actions_def action_def frame intro!: keeps_rules)
  next
    fix a :: "'a pipeline_action"
    assume "a \<in> set conversation_actions"
    then show "keeps transmission_inv (act_execute a step)"
      by (auto simp: conversation_actions_def action_def frame intro!: keeps_rules)
  next
    fix a :: "'a pipeline_action"
    assume "a \<in> set (closing_actions env)"
    then show "keeps transmission_inv (act_execute a step)"
      by (auto simp: closing_actions_def action_def frame intro!: keeps_rules)
  qed
qed

interpretation transmission_run: pipeline_contract_handled "default_registry env"
  "\<lambda>_. transmission_inv" transmission_inv for env :: "'w runtime_env"
proof (unfold_locales, goal_cases)
  case (1 aid a av s step r s')
  from keepsD [OF transmission_action_contract [OF 1(1)] 1(3,4)] show ?case .
next
  case (2 aid a av s step e s')
  from keepsD [OF transmission_action_contract [OF 2(1)] 2(3,4)] show ?case .
qed (auto simp: transmission_inv_def server_may_receive_def)

section \<open>The state a step requires is there\<close>

text \<open>
  The meaning of the names the validator tracks, for those an action relies on at run time: an
  allowed transmission decision, a resolved conversation and a started turn.
\<close>

definition token_holds :: "string \<Rightarrow> 'w pipeline_context \<Rightarrow> bool" where
  "token_holds t c \<longleftrightarrow>
     (t = ''model_transmission_policy'' \<longrightarrow> ctx_mt_checked c \<and> ctx_mt_allowed c) \<and>
     (t = ''conversation'' \<longrightarrow> ctx_conversation_id c \<noteq> None) \<and>
     (t = ''conversation_turn'' \<longrightarrow> ctx_conversation_turn_id c \<noteq> None)"

definition state_available :: "string list \<Rightarrow> 'w pipeline_context \<Rightarrow> bool" where
  "state_available av c \<longleftrightarrow> (\<forall>t\<in>set av. token_holds t c)"

lemma initial_state_available: "state_available initial_state c"
  by (simp add: state_available_def initial_state_def token_holds_def)

lemma state_available_append:
  "state_available (av @ bv) c \<longleftrightarrow> state_available av c \<and> state_available bv c"
  by (auto simp: state_available_def)

text \<open>A token that an update of the context may only add.\<close>

lemma token_holds_updates [simp]:
  "token_holds t (c\<lparr>ctx_trace := x1\<rparr>) = token_holds t c"
  "token_holds t (c\<lparr>ctx_conversation_turn_finalized := b\<rparr>) = token_holds t c"
  "token_holds t c \<Longrightarrow> token_holds t (c\<lparr>ctx_conversation_id := Some x2\<rparr>)"
  "token_holds t c \<Longrightarrow> token_holds t (c\<lparr>ctx_conversation_turn_id := Some x2\<rparr>)"
  by (auto simp: token_holds_def)

definition plain_tokens :: "string list \<Rightarrow> bool" where
  "plain_tokens ts \<longleftrightarrow> ''model_transmission_policy'' \<notin> set ts \<and> ''conversation'' \<notin> set ts \<and>
     ''conversation_turn'' \<notin> set ts"

lemma plain_tokens_available: "plain_tokens ts \<Longrightarrow> state_available ts c"
  by (auto simp: plain_tokens_def state_available_def token_holds_def)

definition state_contract :: "'w pipeline_action \<Rightarrow> pipeline_step_definition \<Rightarrow> bool" where
  "state_contract a step \<longleftrightarrow> (\<forall>av s r s'. state_available av (rs_ctx s) \<longrightarrow>
     act_execute a step s = (Inr r, s') \<longrightarrow> state_available (av @ act_provides a) (rs_ctx s'))"

lemma plain_contract:
  assumes "plain_tokens (act_provides a)" "\<And>av. keeps (state_available av) (act_execute a step)"
  shows "state_contract a step"
  unfolding state_contract_def state_available_append
  using assms(1) keepsD [OF assms(2)] by (blast intro: plain_tokens_available)

lemma resolve_conversation_ctx:
  assumes "resolve_conversation_execute step s = (Inr r, s')"
  shows "\<exists>x. rs_ctx s' = (rs_ctx s)\<lparr>ctx_conversation_id := Some x\<rparr>"
  using assms
  by (cases "command_conversation_id (ctx_command (rs_ctx s))")
    (auto simp: resolve_conversation_execute_def run_simps split: if_splits)

lemma start_turn_ctx:
  assumes "start_conversation_turn_execute step s = (Inr r, s')"
  shows "\<exists>x. rs_ctx s' = (rs_ctx s)\<lparr>ctx_conversation_turn_id := Some x\<rparr>"
  using assms
  by (cases "ctx_conversation_id (rs_ctx s)")
    (auto simp: start_conversation_turn_execute_def run_simps)

lemma enforce_policy_returns:
  assumes "enforce_policy_execute step s = (Inr r, s')"
  obtains config d g where "model_transmission_decision config (rs_ctx s) = Inr (d, Some g)"
    "mt_allowed d" "rs_ctx s' = store_diagnostic d ((rs_ctx s)\<lparr>ctx_model := g\<rparr>)"
proof -
  from assms obtain config d g where config: "model_transmission_policy_config step = Inr config"
    and d: "model_transmission_decision config (rs_ctx s) = Inr (d, g)"
    by (auto simp: enforce_policy_execute_def run_simps)
  have allowed: "mt_allowed d"
    using assms config d
    by (cases g) (auto simp: enforce_policy_execute_def run_simps split: if_splits)
  with transmission_decision_allowed(4) [OF d] obtain m where m: "g = Some m" by auto
  with assms config d have "rs_ctx s' = store_diagnostic d ((rs_ctx s)\<lparr>ctx_model := m\<rparr>)"
    by (auto simp: enforce_policy_execute_def run_simps split: if_splits)
  with d m allowed that show ?thesis by blast
qed

lemma resolve_contract:
  assumes "resolve_conversation_execute step s = (Inr r, s')" "state_available av (rs_ctx s)"
  shows "state_available (av @ [''conversation'']) (rs_ctx s')"
proof -
  from resolve_conversation_ctx [OF assms(1)] obtain x
    where "rs_ctx s' = (rs_ctx s)\<lparr>ctx_conversation_id := Some x\<rparr>" by blast
  with assms(2) show ?thesis by (simp add: state_available_def) (simp add: token_holds_def)
qed

lemma start_turn_contract:
  assumes "start_conversation_turn_execute step s = (Inr r, s')" "state_available av (rs_ctx s)"
  shows "state_available (av @ [''conversation_turn'']) (rs_ctx s')"
proof -
  from start_turn_ctx [OF assms(1)] obtain x
    where "rs_ctx s' = (rs_ctx s)\<lparr>ctx_conversation_turn_id := Some x\<rparr>" by blast
  with assms(2) show ?thesis by (simp add: state_available_def) (simp add: token_holds_def)
qed

lemma enforce_contract:
  assumes "enforce_policy_execute step s = (Inr r, s')" "state_available av (rs_ctx s)"
  shows "state_available (av @ [''model_transmission_policy'']) (rs_ctx s')"
  using assms(1)
proof (rule enforce_policy_returns)
  fix config d g
  assume d: "model_transmission_decision config (rs_ctx s) = Inr (d, Some g)" "mt_allowed d"
    "rs_ctx s' = store_diagnostic d ((rs_ctx s)\<lparr>ctx_model := g\<rparr>)"
  from transmission_decision_allowed(1) [OF d(1)] d(2)
  have set: "token_holds t (rs_ctx s) \<Longrightarrow> token_holds t (rs_ctx s')"
    "token_holds ''model_transmission_policy'' (rs_ctx s')" for t
    by (simp_all add: d(3) token_holds_def store_diagnostic_def)
  with assms(2) show ?thesis by (auto simp: state_available_def)
qed

lemma state_action_contract:
  assumes "get_action (default_registry env) aid = Inr a"
  shows "state_contract a step"
proof -
  note frame = state_available_def token_holds_def
  show ?thesis
    using assms
  proof (rule default_action_cases)
    fix a :: "'a pipeline_action"
    assume "a \<in> set retrieval_actions"
    then show "state_contract a step"
      by (auto simp: retrieval_actions_def action_def plain_tokens_def frame
          intro!: plain_contract keeps_rules keeps_retrieve keeps_expand_graph)
  next
    show "state_contract (enforce_policy_action :: 'a pipeline_action) step"
      unfolding state_contract_def enforce_policy_action_def action_def
      by (auto dest: enforce_contract)
  next
    fix a :: "'a pipeline_action"
    assume "a \<in> set (routing_actions env)"
    then show "state_contract a step"
      by (auto simp: routing_actions_def action_def plain_tokens_def frame
          intro!: plain_contract keeps_rules)
  next
    fix a :: "'a pipeline_action"
    have load: "keeps (state_available av) (load_conversation_history_execute step)" for av
      by (auto simp: frame intro!: keeps_rules)
    assume "a \<in> set conversation_actions"
    then consider "act_execute a = resolve_conversation_execute" "act_provides a = [''conversation'']"
      | "act_execute a = start_conversation_turn_execute" "act_provides a = [''conversation_turn'']"
      | "act_execute a = load_conversation_history_execute" "plain_tokens (act_provides a)"
      by (auto simp: conversation_actions_def action_def plain_tokens_def)
    then show "state_contract a step"
    proof cases
      case 1
      then show ?thesis unfolding state_contract_def by (auto dest: resolve_contract)
    next
      case 2
      then show ?thesis unfolding state_contract_def by (auto dest: start_turn_contract)
    next
      case 3
      with load show ?thesis by (intro plain_contract) auto
    qed
  next
    fix a :: "'a pipeline_action"
    have turn: "keeps (state_available av) (finalize_conversation_turn_execute step)" for av
      unfolding finalize_conversation_turn_execute_def
      by (auto simp: state_available_def intro!: keeps_rules split: option.splits)
    have others: "keeps (state_available av) (call_model_execute env step)"
      "keeps (state_available av) (finalize_execute step :: ('a, string option) action_prog)"
      "keeps (state_available av) (fail_conversation_turn_execute step :: ('a, string option) action_prog)"
      for av by (auto simp: frame intro!: keeps_rules)
    assume "a \<in> set (closing_actions env)"
    then have "plain_tokens (act_provides a)"
      "act_execute a \<in> {call_model_execute env, finalize_execute, finalize_conversation_turn_execute,
         fail_conversation_turn_execute}"
      by (auto simp: closing_actions_def action_def plain_tokens_def)
    with turn others show "state_contract a step" by (intro plain_contract) auto
  qed
qed

interpretation state_run: pipeline_contract "default_registry env" state_available "\<lambda>_. True"
  for env :: "'w runtime_env"
proof (unfold_locales, goal_cases)
  case (1 aid a av s step r s')
  from state_action_contract [OF 1(1), of step] 1(3,4) show ?case by (auto simp: state_contract_def)
qed (auto simp: state_available_def)

section \<open>What no action changes\<close>

definition fixed_part ::
    "'w pipeline_context \<Rightarrow>
     query_command \<times> domain_profile \<times> (string \<times> 'w model_server_runtime) list \<times> string list" where
  "fixed_part c = (ctx_command c, ctx_domain c, ctx_model_servers c, ctx_trace c)"

lemma fixed_action_contract:
  assumes "get_action (default_registry env) aid = Inr a"
  shows "keeps (\<lambda>c. fixed_part c = x) (act_execute a step)"
  using assms
proof (rule default_action_cases)
  fix a :: "'a pipeline_action"
  assume "a \<in> set retrieval_actions"
  then show "keeps (\<lambda>c. fixed_part c = x) (act_execute a step)"
    by (auto simp: retrieval_actions_def action_def fixed_part_def intro!: keeps_rules keeps_retrieve
        keeps_expand_graph)
next
  have "keeps (\<lambda>c. fixed_part c = x) (enforce_policy_execute step)"
    unfolding enforce_policy_execute_def
    by (intro keeps_rules) (auto simp: fixed_part_def store_diagnostic_def intro!: keeps_rules)
  then show "keeps (\<lambda>c. fixed_part c = x) (act_execute (enforce_policy_action :: 'a pipeline_action) step)"
    unfolding enforce_policy_action_def action_def by simp
next
  fix a :: "'a pipeline_action"
  assume "a \<in> set (routing_actions env)"
  then show "keeps (\<lambda>c. fixed_part c = x) (act_execute a step)"
    by (auto simp: routing_actions_def action_def fixed_part_def intro!: keeps_rules)
next
  fix a :: "'a pipeline_action"
  assume "a \<in> set conversation_actions"
  then show "keeps (\<lambda>c. fixed_part c = x) (act_execute a step)"
    by (auto simp: conversation_actions_def action_def fixed_part_def intro!: keeps_rules)
next
  fix a :: "'a pipeline_action"
  assume "a \<in> set (closing_actions env)"
  then show "keeps (\<lambda>c. fixed_part c = x) (act_execute a step)"
    by (auto simp: closing_actions_def action_def fixed_part_def intro!: keeps_rules)
qed

text \<open>The command, the domain and the configured servers of a run never change.\<close>

definition same_request :: "'w pipeline_context \<Rightarrow> 'w pipeline_context \<Rightarrow> bool" where
  "same_request c0 c \<longleftrightarrow> ctx_command c = ctx_command c0 \<and> ctx_domain c = ctx_domain c0 \<and>
     ctx_model_servers c = ctx_model_servers c0"

interpretation request_run: pipeline_contract_handled "default_registry env" "\<lambda>_. same_request c0"
  "same_request c0" for env :: "'w runtime_env" and c0
proof (unfold_locales, goal_cases)
  case (1 aid a av s step r s')
  from keepsD [OF fixed_action_contract [OF 1(1), of "fixed_part (rs_ctx s)"] refl 1(4)] 1(3)
  show ?case by (simp add: fixed_part_def same_request_def)
next
  case (2 aid a av s step e s')
  from keepsD [OF fixed_action_contract [OF 2(1), of "fixed_part (rs_ctx s)"] refl 2(4)] 2(3)
  show ?case by (simp add: fixed_part_def same_request_def)
qed (auto simp: same_request_def)

section \<open>The trace of a run\<close>

text \<open>Every round appends its step, so the trace is the path of the validator's walk.\<close>

lemma reach_trace:
  assumes "validate (default_registry env) p = Inr ()"
    "engine_registry eng = default_registry env" "ctx_trace (rs_ctx s0) = []"
  shows "engine_reaches eng env p rid s0 cur n s \<Longrightarrow>
    n = int (length (ctx_trace (rs_ctx s))) \<and> distinct (ctx_trace (rs_ctx s)) \<and>
    n \<le> pipeline_max_steps p \<and>
    (case cur of
       Some sid \<Rightarrow> n < pipeline_max_steps p \<and>
         (\<exists>av. sound_from (default_registry env) p sid av (ctx_trace (rs_ctx s)))
     | None \<Rightarrow> True)"
proof (induction rule: engine_reaches.induct)
  case reach_start
  from validate_sound(1) [OF assms(1)] have sound: "sound_from (default_registry env) p
      (pipeline_entry_step_id p) initial_state []" .
  then have "0 < pipeline_max_steps p" by (cases rule: sound_from.cases) auto
  with sound assms(3) show ?case by auto
next
  case (reach_round sid n s nxt s')
  from reach_round(4) obtain av where ih: "n = int (length (ctx_trace (rs_ctx s)))"
    "distinct (ctx_trace (rs_ctx s))" "sound_from (default_registry env) p sid av (ctx_trace (rs_ctx s))"
    by auto
  from ih(3) obtain step a where step: "pipeline_step p sid = Inr step" "sid \<notin> set (ctx_trace (rs_ctx s))"
    "get_action (default_registry env) (step_action step) = Inr a"
    and inner: "\<not> step_terminal step \<Longrightarrow> \<forall>t\<in>set (step_targets step).
      sound_from (default_registry env) p t (av @ act_provides a) (ctx_trace (rs_ctx s) @ [sid])"
    by (cases rule: sound_from.cases) auto
  from reach_round(3) obtain s1 route s2 where ctx: "rs_ctx s1 = rs_ctx s"
    and run: "act_execute a step s1 = (Inr route, s2)"
    and trace: "rs_ctx s' = (rs_ctx s2)\<lparr>ctx_trace := ctx_trace (rs_ctx s2) @ [sid]\<rparr>"
    and nxt: "next_step step route = Inr nxt"
    by (cases rule: engine_step_cases) (use assms(2) step in auto)
  from keepsD [OF fixed_action_contract [OF step(3), of "fixed_part (rs_ctx s1)"] refl run] trace ctx
  have tr: "ctx_trace (rs_ctx s') = ctx_trace (rs_ctx s) @ [sid]" by (simp add: fixed_part_def)
  have cur: "case nxt of Some t \<Rightarrow> sound_from (default_registry env) p t (av @ act_provides a)
      (ctx_trace (rs_ctx s')) | None \<Rightarrow> True"
    using nxt inner tr next_step_target [of step route] by (auto split: option.splits)
  then have "case nxt of Some t \<Rightarrow> n + 1 < pipeline_max_steps p | None \<Rightarrow> True"
    using tr ih(1) by (auto split: option.splits elim!: sound_from.cases)
  with cur tr ih step(2) reach_round(2) show ?case by (auto split: option.splits)
qed

end
