(* ===== verification/Examples.thy ===== *)
theory Examples
  imports Pipeline_Safety
begin

text \<open>
  A concrete instance the witnesses evaluate: the pipeline of \<open>src/pipelines/direct.yaml\<close> as the
  parser builds it, one domain with clearance levels, an internal model server, a store of two
  chunks and an engine that keeps its audit calls in a list.
\<close>

section \<open>Environment and ports\<close>

definition demo_env :: "string list runtime_env" where
  "demo_env = \<lparr>env_monotonic = (\<lambda>w. (0, w)), env_sha256 = (\<lambda>s. ''hash''),
     env_json_loads = (\<lambda>s. if s = ''{}'' then Some (PDict []) else None), env_json_dumps = (\<lambda>v. ''{}''),
     env_format_field = (\<lambda>field n v. Inl (OtherError ''KeyError''))\<rparr>"

definition demo_levels :: clearance_level_model where
  "demo_levels = \<lparr>levels = [(''public'', 0), (''secret'', 5)]\<rparr>"

definition demo_model :: security_model where
  "demo_model = \<lparr>model_kind = CLEARANCE_LEVEL, model_clearance_level = Some demo_levels,
     model_classification_labels = None\<rparr>"

definition demo_domain :: domain_profile where
  "demo_domain = \<lparr>domain_name = ''docs'', domain_description = [], domain_collection = ''Docs'',
     domain_tenant_id = ''acme'', domain_prompt_name = ''answer'', domain_allow_external_model = False,
     domain_retrieval = \<lparr>retrieval_mode = BM25, retrieval_top_k = 3,
       retrieval_max_context_characters = 500, retrieval_filters = [],
       retrieval_allowed_filter_fields = []\<rparr>,
     domain_graph = \<lparr>profile_enabled = False, profile_max_depth = 1, profile_max_nodes = 1,
       profile_direction = BOTH, profile_relationship_types = []\<rparr>,
     domain_pipeline_name = ''direct-rag'', domain_allowed_pipeline_names = [''direct-rag''],
     domain_disclaimer = [], domain_allowed_acl_labels = [], domain_security_model = demo_model,
     domain_require_travel_permission = False\<rparr>"

definition demo_authorization :: authorization_context where
  "demo_authorization = \<lparr>auth_subject = ''alice'', auth_tenant_id = ''acme'', auth_roles = [],
     auth_groups = [], auth_acl_labels = [],
     auth_security = \<lparr>subj_clearance_label = Some ''secret'', subj_classification_labels = []\<rparr>,
     auth_allow_external_model = False, auth_diagnostic_access = False\<rparr>"

definition demo_command :: query_command where
  "demo_command = \<lparr>command_request_id = ''r1'', command_query = ''what  is new'', command_domain = ''docs'',
     command_session_id = ''s1'', command_authorization = demo_authorization, command_filters = [],
     command_diagnostics_requested = False, command_conversation_id = None\<rparr>"

definition demo_hit :: "string \<Rightarrow> string \<Rightarrow> search_hit" where
  "demo_hit cid label = \<lparr>hit_chunk = \<lparr>chunk_id = cid, chunk_domain = ''docs'', chunk_tenant_id = ''acme'',
     chunk_source_id = ''src'', chunk_text = ''text'', chunk_source_uri = None, chunk_metadata = [],
     chunk_acl_labels = [], chunk_security = \<lparr>doc_clearance_label = Some label,
       doc_classification_labels = []\<rparr>\<rparr>, hit_score = 1, hit_score_type = ''bm25''\<rparr>"

definition demo_gateway :: "string list model_gateway" where
  "demo_gateway = \<lparr>gw_name = ''internal'', gw_model_id = ''m'', gw_generate = (\<lambda>system_prompt user_prompt parameters w.
     (Inr \<lparr>gen_text = ''answer'', gen_prompt_tokens = 1, gen_completion_tokens = 1, gen_estimated_cost = 0\<rparr>,
      w @ [''generate'']))\<rparr>"

definition demo_server :: "string list model_server_runtime" where
  "demo_server = \<lparr>rt_definition = \<lparr>server_id = ''default-model'', server_trust_boundary = INTERNAL,
     server_security_profile = \<lparr>server_model_kind = CLEARANCE_LEVEL,
       server_clearance_label = Some ''secret'', server_classification_labels = []\<rparr>,
     server_security_reroute_server_id = None\<rparr>, rt_gateway = demo_gateway\<rparr>"

definition demo_context :: "search_hit list \<Rightarrow> string list pipeline_context" where
  "demo_context found = new_context demo_command demo_domain (\<lambda>request w. (Inr found, w @ [''search'']))
     (\<lambda>request w. (Inr [], w @ [''expand''])) demo_gateway (\<lambda>key w. (Inr ''You answer.'', w @ [''prompt'']))
     None [(''default-model'', demo_server)]"

definition demo_audit :: "string list execution_audit" where
  "demo_audit = \<lparr>audit_start = (\<lambda>run w. (Inr (), w @ [''start''])),
     audit_record_step = (\<lambda>a w. (Inr (), w @ [audit_step_id a])),
     audit_succeed = (\<lambda>rid answer citations pt ct cost w. (Inr (), w @ [''succeed''])),
     audit_fail = (\<lambda>rid code message w. (Inr (), w @ [''fail '' @ code]))\<rparr>"

definition demo_engine :: "string list engine" where
  "demo_engine = \<lparr>engine_registry = default_registry demo_env, engine_audit = demo_audit,
     engine_run_id_factory = (\<lambda>w. (Inr ''run-1'', w))\<rparr>"

section \<open>The pipeline\<close>

definition demo_step :: "string \<Rightarrow> string \<Rightarrow> string option \<Rightarrow> mapping \<Rightarrow> pipeline_step_definition" where
  "demo_step sid version next config = \<lparr>step_id = sid, step_action = sid, step_action_version = version,
     step_next_step_id = next, step_routes = [], step_terminal = (next = None), step_config = config\<rparr>"

definition direct_pipeline :: pipeline_definition where
  "direct_pipeline = \<lparr>pipeline_name = ''direct-rag'', pipeline_behavior_version = ''1.0'',
     pipeline_entry_step_id = ''normalize_query'', pipeline_max_steps = 6, pipeline_steps =
     [demo_step ''normalize_query'' ''1.0'' (Some ''retrieve'') [],
      demo_step ''retrieve'' ''1.0'' (Some ''manage_context_budget'')
        [(''query_source'', PStr ''normalized_query''), (''search_mode'', PStr ''bm25''), (''top_k'', PInt 3),
         (''filters'', PDict [])],
      demo_step ''manage_context_budget'' ''1.0'' (Some ''enforce_model_transmission_policy'')
        [(''source'', PStr ''hits''), (''target'', PStr ''evidence''), (''max_context_characters'', PInt 500)],
      demo_step ''enforce_model_transmission_policy'' ''2.0'' (Some ''call_model'')
        [(''selected_model_server_id'', PStr ''default-model''), (''external_transmission'', PStr ''allowed'')],
      demo_step ''call_model'' ''1.0'' (Some ''finalize'')
        [(''prompt_key'', PStr ''answer''),
         (''user_parts'', PDict
           [(''user_question'', PDict [(''source'', PStr ''normalized_query''), (''template'', PStr ''Q {} '')]),
            (''evidence'', PDict [(''source'', PStr ''evidence''), (''template'', PStr ''E {} '')])])],
      demo_step ''finalize'' ''1.0'' None []],
     pipeline_checksum = ''sum''\<rparr>"

definition demo_start :: "search_hit list \<Rightarrow> string list run_state" where
  "demo_start found = \<lparr>rs_world = [], rs_ctx = demo_context found\<rparr>"

lemma direct_pipeline_valid: "validate (default_registry demo_env) direct_pipeline = Inr ()"
  by code_simp

section \<open>Following a run\<close>

text \<open>The steps the first \<open>k\<close> rounds choose, and the configuration they reach.\<close>

fun chosen_steps ::
    "'w engine \<Rightarrow> 'w runtime_env \<Rightarrow> pipeline_definition \<Rightarrow> string \<Rightarrow> nat \<Rightarrow> string \<Rightarrow> int \<Rightarrow> 'w run_state \<Rightarrow>
     string list" where
  "chosen_steps eng env p rid 0 sid n s = []"
| "chosen_steps eng env p rid (Suc k) sid n s =
     (case engine_step eng env p rid sid (n + 1) s of
        (Inr (Some t), s') \<Rightarrow> t # chosen_steps eng env p rid k t (n + 1) s'
      | _ \<Rightarrow> [])"

lemma chosen_steps_reach:
  "chosen_steps eng env p rid k sid n s = ts \<Longrightarrow> ts \<noteq> [] \<Longrightarrow>
   engine_reaches eng env p rid s0 (Some sid) n s \<Longrightarrow> n + int k \<le> pipeline_max_steps p \<Longrightarrow>
   \<exists>m s'. engine_reaches eng env p rid s0 (Some (last ts)) m s'"
proof (induction eng env p rid k sid n s arbitrary: ts rule: chosen_steps.induct)
  case (2 eng env p rid k sid n s)
  from "2.prems"(1,2) obtain t s' where step: "engine_step eng env p rid sid (n + 1) s = (Inr (Some t), s')"
    and ts: "ts = t # chosen_steps eng env p rid k t (n + 1) s'"
    by (auto split: prod.splits sum.splits option.splits)
  from "2.prems"(3,4) step have reach: "engine_reaches eng env p rid s0 (Some t) (n + 1) s'"
    by (auto intro: reach_round)
  show ?case
  proof (cases "chosen_steps eng env p rid k t (n + 1) s' = []")
    case True
    with ts reach show ?thesis by auto
  next
    case False
    with "2.IH" [OF step [symmetric] refl refl refl False reach] "2.prems"(4) ts show ?thesis by simp
  qed
qed simp

lemma demo_chosen:
  "chosen_steps demo_engine demo_env direct_pipeline ''run-1'' 4 ''normalize_query'' 0
     (demo_start [demo_hit ''c1'' ''secret'']) =
   [''retrieve'', ''manage_context_budget'', ''enforce_model_transmission_policy'', ''call_model'']"
  by code_simp

lemma demo_reaches_call:
  "\<exists>n s. engine_reaches demo_engine demo_env direct_pipeline ''run-1''
     (demo_start [demo_hit ''c1'' ''secret'']) (Some ''call_model'') n s"
proof -
  have "engine_reaches demo_engine demo_env direct_pipeline ''run-1'' (demo_start [demo_hit ''c1'' ''secret''])
      (Some ''normalize_query'') 0 (demo_start [demo_hit ''c1'' ''secret''])"
    using reach_start [of demo_engine demo_env direct_pipeline] by (simp add: direct_pipeline_def)
  from chosen_steps_reach [OF demo_chosen _ this] show ?thesis by (simp add: direct_pipeline_def)
qed

end
