(* ===== verification/Pipeline_Properties.thy ===== *)
theory Pipeline_Properties
  imports Examples
begin

text \<open>
  The properties of the pipeline engine, its validator and its actions, each with a witness on the
  concrete instance of \<open>Examples\<close> where it has hypotheses.
\<close>

definition fresh_context :: "'w pipeline_context \<Rightarrow> bool" where
  "fresh_context c \<longleftrightarrow> ctx_hits c = [] \<and> ctx_seed_hits c = [] \<and> \<not> ctx_mt_checked c \<and> ctx_trace c = []"

lemma new_context_fresh: "fresh_context (new_context k d r g m p h servers)"
  by (simp add: fresh_context_def new_context_def)

lemma fresh_retrieval: "fresh_context c \<Longrightarrow> retrieval_safe c"
  by (simp add: fresh_context_def retrieval_safe_defs)

lemma fresh_transmission: "fresh_context c \<Longrightarrow> transmission_inv c"
  by (simp add: fresh_context_def transmission_inv_def)

lemma demo_start_fresh: "fresh_context (rs_ctx (demo_start found))"
  by (simp add: demo_start_def demo_context_def new_context_fresh)

lemma demo_engine_registry: "engine_registry demo_engine = default_registry demo_env"
  by (simp add: demo_engine_def)

lemmas demo_facts = direct_pipeline_valid demo_engine_registry demo_start_fresh

section \<open>Runs of validated pipelines\<close>

text \<open>
  C1: Whatever a validated pipeline does and however it ends, after \<open>PipelineEngine.execute\<close> every
  hit in the context belongs to the domain and tenant of the request, passes the ACL and is
  visible to the authenticated subject under the domain's security model.
\<close>

theorem evidence_authorized:
  assumes "validate (default_registry env) p = Inr ()" "engine_registry eng = default_registry env"
    "fresh_context (rs_ctx s)" "engine_execute eng env p s = (r, s')"
  shows "list_all (hit_authorized (ctx_domain (rs_ctx s)) (command_authorization (ctx_command (rs_ctx s))))
    (ctx_hits (rs_ctx s'))"
proof -
  from retrieval_run.validated_execute [OF assms(1,2) fresh_retrieval [OF assms(3)] assms(4)]
  have "hits_authorized (rs_ctx s')" .
  moreover from request_run.validated_execute [OF assms(1,2) _ assms(4), of "rs_ctx s"]
  have "same_request (rs_ctx s) (rs_ctx s')" by (simp add: same_request_def)
  ultimately show ?thesis by (simp add: hits_authorized_def same_request_def list_all_iff)
qed

lemma evidence_authorized_witness:
  "list_all (hit_authorized demo_domain demo_authorization)
     (ctx_hits (rs_ctx (snd (engine_execute demo_engine demo_env direct_pipeline
       (demo_start [demo_hit ''c1'' ''public''])))))"
  using evidence_authorized [OF demo_facts surjective_pairing, of "[demo_hit ''c1'' ''public'']"]
  by (simp add: demo_start_def demo_context_def new_context_def demo_command_def)

text \<open>
  C2: When a validated pipeline reaches a \<open>call_model\<close> step, the transmission policy has been enforced
  and allowed: the model of the context is a configured server that satisfies the recorded
  security requirement, and an external one only with the pipeline's and the subject's consent.
\<close>

theorem model_call_cleared:
  assumes "validate (default_registry env) p = Inr ()" "engine_registry eng = default_registry env"
    "fresh_context (rs_ctx s0)" "engine_reaches eng env p rid s0 (Some sid) n s"
    "pipeline_step p sid = Inr step" "step_action step = ''call_model''"
  shows "ctx_mt_checked (rs_ctx s) \<and> ctx_mt_allowed (rs_ctx s) \<and>
    (\<exists>server_id rt. map_of (ctx_model_servers (rs_ctx s)) server_id = Some rt \<and>
       ctx_model (rs_ctx s) = rt_gateway rt \<and>
       server_may_receive (rs_ctx s) (ctx_mt_external_policy (rs_ctx s))
         (ctx_mt_context_requirement (rs_ctx s)) (rt_definition rt))"
proof -
  from state_run.reach_holds [OF assms(1,2) initial_state_available assms(4)] obtain av path
    where sound: "sound_from (default_registry env) p sid av path"
      and av: "state_available av (rs_ctx s)" by auto
  from sound assms(5) obtain a where a: "get_action (default_registry env) (step_action step) = Inr a"
    "set (act_requires a) \<subseteq> set av" by (cases rule: sound_from.cases) auto
  have "''model_transmission_policy'' \<in> set (act_requires a)"
    using get_action_mem [OF a(1)] assms(6)
    by (auto simp: action_lists action_def)
  with a(2) av have "token_holds ''model_transmission_policy'' (rs_ctx s)"
    by (auto simp: state_available_def)
  then have checked: "ctx_mt_checked (rs_ctx s)" "ctx_mt_allowed (rs_ctx s)"
    by (simp_all add: token_holds_def)
  from transmission_run.reach_holds [OF assms(1,2) fresh_transmission [OF assms(3)] assms(4)]
  have "transmission_inv (rs_ctx s)" by auto
  with checked show ?thesis by (auto simp: transmission_inv_def)
qed

lemma model_call_cleared_witness:
  "\<exists>s. ctx_mt_allowed (rs_ctx (s :: string list run_state)) \<and>
     (\<exists>rt :: string list model_server_runtime. ctx_model (rs_ctx s) = rt_gateway rt \<and>
        server_may_receive (rs_ctx s) (ctx_mt_external_policy (rs_ctx s))
          (ctx_mt_context_requirement (rs_ctx s)) (rt_definition rt))"
proof -
  obtain n s where reach: "engine_reaches demo_engine demo_env direct_pipeline ''run-1''
      (demo_start [demo_hit ''c1'' ''secret'']) (Some ''call_model'') n s"
    using demo_reaches_call by blast
  obtain step where "pipeline_step direct_pipeline ''call_model'' = Inr step"
    "step_action step = ''call_model''"
    by (simp add: pipeline_step_def direct_pipeline_def demo_step_def)
  from model_call_cleared [OF demo_facts reach this] show ?thesis by blast
qed

text \<open>
  C20: A run of a validated pipeline never meets the engine's step limit and never visits a step
  twice: every configuration it reaches has a trace of distinct steps, one per round, shorter
  than \<open>max_steps\<close> while a step is left to run.
\<close>

theorem validated_run_bounded:
  assumes "validate (default_registry env) p = Inr ()" "engine_registry eng = default_registry env"
    "fresh_context (rs_ctx s0)" "engine_reaches eng env p rid s0 cur n s"
  shows "n = int (length (ctx_trace (rs_ctx s))) \<and> distinct (ctx_trace (rs_ctx s)) \<and>
    n \<le> pipeline_max_steps p \<and> (cur \<noteq> None \<longrightarrow> n < pipeline_max_steps p)"
  using reach_trace [OF assms(1,2) _ assms(4)] assms(3)
  by (auto simp: fresh_context_def split: option.splits)

lemma validated_run_bounded_witness:
  "\<exists>s n. n < pipeline_max_steps direct_pipeline \<and>
     n = int (length (ctx_trace (rs_ctx (s :: string list run_state)))) \<and> distinct (ctx_trace (rs_ctx s))"
proof -
  obtain n s where reach: "engine_reaches demo_engine demo_env direct_pipeline ''run-1''
      (demo_start [demo_hit ''c1'' ''secret'']) (Some ''call_model'') n s"
    using demo_reaches_call by blast
  from validated_run_bounded [OF demo_facts reach] show ?thesis by blast
qed

text \<open>
  C16: The walk of the validator accepts a pipeline exactly when every path from the entry step is
  free of cycles, stays within \<open>max_steps\<close>, finds the state each action requires already
  provided on that path, and provides \<open>result\<close> before its terminal step.
\<close>

theorem validator_walk_exact:
  "(case walk_step registry p sid available path ([], []) of
      Inr st \<Rightarrow> list_all (\<lambda>b. b) (snd st) | Inl e \<Rightarrow> False) =
   sound_from registry p sid available path"
  using walk_iff_sound [of registry p sid available path]
  by (cases "walk_step registry p sid available path ([], [])") auto

section \<open>Evidence and model transmission\<close>

text \<open>
  C8: When \<open>enforce_model_transmission_policy\<close> lets the pipeline go on, the server whose gateway
  the context now holds may read every retrieved hit: with the server's own labels as the
  subject, each hit is visible under the domain's security model.
\<close>

theorem enforce_policy_sound:
  assumes "security_model_ok (domain_security_model (ctx_domain (rs_ctx s)))"
    "enforce_policy_execute step s = (Inr r, s')"
  shows "\<exists>server_id rt. map_of (ctx_model_servers (rs_ctx s')) server_id = Some rt \<and>
    ctx_model (rs_ctx s') = rt_gateway rt \<and>
    ctx_mt_final_server_id (rs_ctx s') = Some (model_server_definition.server_id (rt_definition rt)) \<and>
    ctx_hits (rs_ctx s') = ctx_hits (rs_ctx s) \<and>
    server_cleared_for (domain_security_model (ctx_domain (rs_ctx s))) (rt_definition rt)
      (ctx_hits (rs_ctx s)) \<and>
    (server_trust_boundary (rt_definition rt) = EXTERNAL \<longrightarrow>
       auth_allow_external_model (command_authorization (ctx_command (rs_ctx s))))"
  using assms(2)
proof (rule enforce_policy_returns)
  fix config d g
  assume d: "model_transmission_decision config (rs_ctx s) = Inr (d, Some g)" "mt_allowed d"
    and s': "rs_ctx s' = store_diagnostic d ((rs_ctx s)\<lparr>ctx_model := g\<rparr>)"
  from transmission_decision_allowed(5) [OF d] obtain sid rt where rt:
    "map_of (ctx_model_servers (rs_ctx s)) sid = Some rt" "g = rt_gateway rt"
    "mt_final_model_server_id d = Some (model_server_definition.server_id (rt_definition rt))"
    "server_may_receive (rs_ctx s) (mt_external_transmission d) (mt_context_security_requirement d)
       (rt_definition rt)" by auto
  from may_receive_cleared [OF assms(1) transmission_decision_allowed(2) [OF d(1)]] rt(4)
  have "server_cleared_for (domain_security_model (ctx_domain (rs_ctx s))) (rt_definition rt)
      (ctx_hits (rs_ctx s))" by (simp add: server_may_receive_def)
  with rt show ?thesis by (auto simp: s' store_diagnostic_def server_may_receive_def)
qed

definition demo_enforce_step :: pipeline_step_definition where
  "demo_enforce_step = demo_step ''enforce_model_transmission_policy'' ''2.0'' (Some ''call_model'')
     [(''selected_model_server_id'', PStr ''default-model''), (''external_transmission'', PStr ''allowed'')]"

definition demo_enforced :: "string list run_state" where
  "demo_enforced = \<lparr>rs_world = [],
     rs_ctx = (demo_context [])\<lparr>ctx_hits := [demo_hit ''c1'' ''public'', demo_hit ''c2'' ''secret'']\<rparr>\<rparr>"

lemma demo_enforce_runs: "is_ok (fst (enforce_policy_execute demo_enforce_step demo_enforced))"
  by code_simp

lemma enforce_policy_sound_witness:
  "\<exists>rt. server_cleared_for demo_model (rt_definition (rt :: string list model_server_runtime))
     [demo_hit ''c1'' ''public'', demo_hit ''c2'' ''secret'']"
proof -
  obtain r s' where run: "enforce_policy_execute demo_enforce_step demo_enforced = (Inr r, s')"
    using demo_enforce_runs
    by (cases "enforce_policy_execute demo_enforce_step demo_enforced") (auto simp: is_ok_iff)
  have ok: "security_model_ok (domain_security_model (ctx_domain (rs_ctx demo_enforced)))"
    by code_simp
  from enforce_policy_sound [OF ok run] show ?thesis
    by (auto simp: demo_enforced_def demo_context_def new_context_def demo_domain_def)
qed

text \<open>
  The boundary check on what a retrieval provider returns accepts exactly the lists whose
  every hit is of the domain and tenant, shares an ACL label (or has none) and is visible to the
  subject.
\<close>

theorem retrieval_boundary_exact:
  "is_ok (verify_retrieval_boundary domain authorization hits) =
   list_all (hit_authorized domain authorization) hits"
  using verify_retrieval_boundary_iff [of domain authorization hits]
  by (auto simp: is_ok_iff list_all_iff)

text \<open>
  C37: \<open>_build_context\<close> keeps a prefix of the hits in order and reports the rest as omitted, with one
  citation for each kept hit; the text is never empty and exceeds the budget by at most the
  separators between blocks, seven characters each, or is the fixed 35-character notice.
\<close>

theorem evidence_budget:
  assumes "build_context hits maximum = Inr (evidence, citations, chunk_ids, omitted)" "1 \<le> maximum"
  shows "chunk_ids @ omitted = map hit_key hits \<and> length citations = length chunk_ids \<and>
    evidence \<noteq> [] \<and>
    int (length evidence) \<le> max 35 (maximum + 7 * int (length chunk_ids - 1))"
  using build_context_spec [OF assms] by blast

lemma demo_build_context:
  "build_context [demo_hit ''c1'' ''public'', demo_hit ''c2'' ''public''] 20 =
     Inr (''[source_id=src; chun'', [\<lparr>citation_source_id = ''src'', citation_chunk_id = ''c1'',
       citation_source_uri = None, citation_score = 1, citation_score_type = ''bm25'',
       citation_metadata = []\<rparr>], [''c1''], [''c2''])"
  by code_simp

lemma evidence_budget_witness:
  "[''c1''] @ [''c2''] = map hit_key [demo_hit ''c1'' ''public'', demo_hit ''c2'' ''public''] \<and>
   int (length ''[source_id=src; chun'') \<le> max 35 (20 + 7 * int (length [''c1''] - 1))"
  using evidence_budget [OF demo_build_context] by simp

text \<open>
  A block that exactly fills the budget is not the last one: the next hit is kept with an empty
  block. It is cited and listed among the context chunks although none of its text is there.
\<close>

theorem empty_block_cited:
  assumes "build_blocks (hit # hits) maximum maximum = Inr (blocks, citations, chunk_ids, omitted)"
  shows "blocks = [[]] \<and> chunk_ids = [hit_key hit] \<and> omitted = map hit_key hits \<and> length citations = 1"
  using assms
  by (auto simp: Let_def rbind_eq_Inr py_prefix_def evidence_block_def hit_key_def hit_key_def [abs_def])

lemma empty_block_cited_witness:
  "\<exists>blocks citations. build_blocks [demo_hit ''c1'' ''public''] 57 57 = Inr (blocks, citations, [''c1''], []) \<and>
     blocks = [[]] \<and> length citations = 1"
proof -
  have "\<exists>blocks citations. build_blocks [demo_hit ''c1'' ''public''] 57 57 = Inr (blocks, citations, [''c1''], [])"
    by (simp add: demo_hit_def hit_citation_def citation_post_init_def required_def py_prefix_def
        evidence_block_def strip_nonspace py_isspace_def)
  then obtain blocks citations where
    run: "build_blocks [demo_hit ''c1'' ''public''] 57 57 = Inr (blocks, citations, [''c1''], [])" by blast
  from empty_block_cited [OF run] run show ?thesis by blast
qed

text \<open>
  Merging seeds and expanded hits loses no chunk, adds none and keeps each chunk once.
\<close>

theorem merge_hits_exact:
  "distinct (map hit_key (merge_hits seeds expanded)) \<and>
   hit_key ` set (merge_hits seeds expanded) = hit_key ` (set seeds \<union> set expanded) \<and>
   set (merge_hits seeds expanded) \<subseteq> set seeds \<union> set expanded"
  using merge_hits_distinct merge_hits_keys merge_hits_subset by blast

section \<open>History, queries and guards\<close>

lemma subseq_reversed: "subseq xs ys \<Longrightarrow> subseq (rev xs) (rev ys)"
proof (induction rule: list_emb.induct)
  case (list_emb_Cons xs ys y)
  then show ?case by (simp add: subseq_rev_drop_many)
next
  case (list_emb_Cons2 x y xs ys)
  then show ?case by (simp add: list_emb_append_mono)
qed simp

text \<open>
  The history text given to a prompt is never longer than \<open>max_characters\<close>, and it is built from
  a subsequence of the finalized turns in their order.
\<close>

theorem history_within_budget:
  assumes "0 \<le> max_characters"
  shows "int (length (format_conversation_history turns max_characters)) \<le> max_characters \<and>
    (\<exists>shown. subseq shown (rendered_turns turns) \<and>
       format_conversation_history turns max_characters = strip (concat shown))"
proof -
  let ?shown = "rev (select_turns (rev turns) max_characters 0)"
  have "subseq ?shown (rev (rendered_turns (rev turns)))"
    using select_turns_subseq [of "rev turns" max_characters 0] by (rule subseq_reversed)
  then have "subseq ?shown (rendered_turns turns)" by (simp add: rendered_turns_rev)
  moreover have "format_conversation_history turns max_characters = strip (concat ?shown)"
    by (simp add: format_conversation_history_def)
  ultimately show ?thesis using history_text_bound [OF assms] by blast
qed

lemma history_within_budget_witness:
  "int (length (format_conversation_history [] 10)) \<le> 10"
  using history_within_budget [of 10 "[]"] by simp

text \<open>
  Query normalisation is idempotent: normalising the stored normalised query changes nothing.
\<close>

theorem normalize_query_idempotent:
  "let once = ctx_normalized_query (rs_ctx (snd (normalize_query_execute step s)));
       again = s\<lparr>rs_ctx := (rs_ctx s)\<lparr>ctx_command := (ctx_command (rs_ctx s))\<lparr>command_query := once\<rparr>\<rparr>\<rparr>
   in ctx_normalized_query (rs_ctx (snd (normalize_query_execute step again))) = once"
  by (simp add: normalize_query_result join_split_idem Let_def)

text \<open>
  Visit number \<open>n + 1\<close> of a \<open>loop_guard\<close> step takes the \<open>on_allow\<close> route exactly while
  \<open>n < max_loops\<close>, starting from a context that has not counted the step.
\<close>

theorem loop_guard_counts:
  assumes "loop_guard_config step = Inr config" "loop_count s (step_id step) = 0"
  shows "fst (loop_guard_execute step (after_visits n (loop_guard_execute step) s)) =
    Inr (Some (if int n < lgc_max_loops config then lgc_on_allow config else lgc_on_deny config))"
  using loop_guard_run [OF assms(1), of "after_visits n (loop_guard_execute step) s"]
    loop_count_after_visits [OF assms(1), of n s] assms(2)
  by auto

definition demo_guard_step :: pipeline_step_definition where
  "demo_guard_step = \<lparr>step_id = ''guard'', step_action = ''loop_guard'', step_action_version = ''1.0'',
     step_next_step_id = None, step_routes = [(''again'', ''retrieve''), (''stop'', ''finalize'')],
     step_terminal = False,
     step_config = [(''max_loops'', PInt 2), (''on_allow'', PStr ''again''), (''on_deny'', PStr ''stop'')]\<rparr>"

lemma demo_guard_config:
  "loop_guard_config demo_guard_step = Inr \<lparr>lgc_max_loops = 2, lgc_on_allow = ''again'', lgc_on_deny = ''stop''\<rparr>"
  by code_simp

lemma loop_guard_counts_witness:
  "fst (loop_guard_execute demo_guard_step
     (after_visits 2 (loop_guard_execute demo_guard_step) (demo_start []))) = Inr (Some ''stop'') \<and>
   fst (loop_guard_execute demo_guard_step
     (after_visits 1 (loop_guard_execute demo_guard_step) (demo_start []))) = Inr (Some ''again'')"
proof -
  have "loop_count (demo_start []) (step_id demo_guard_step) = 0"
    by (simp add: loop_count_def demo_start_def demo_context_def new_context_def dict_get_or_def)
  from loop_guard_counts [OF demo_guard_config this, of 2] loop_guard_counts [OF demo_guard_config this, of 1]
  show ?thesis by simp
qed

text \<open>
  A query that \<open>repeat_query_guard\<close> has answered, whichever route it took, is a repeat the next
  time the guard sees it.
\<close>

theorem repeat_guard_second_visit:
  assumes "repeat_query_guard_config step = Inr config"
    "repeat_query_guard_execute env step s = (Inr r, s')"
  shows "fst (repeat_query_guard_execute env step s') = Inr (Some (rgc_on_repeat config))"
proof -
  from assms obtain query where q: "guard_query env config (rs_ctx s) = Inr query"
    by (auto simp: repeat_query_guard_execute_def run_simps)
  have "router_text (rgc_source config) (rs_ctx s') = router_text (rgc_source config) (rs_ctx s)"
    using repeat_guard_run [OF assms(1) q] assms(2)
      state_value_frame [OF repeat_config_source [OF assms(1)]] by (auto split: if_splits)
  then have "guard_query env config (rs_ctx s') = guard_query env config (rs_ctx s)"
    by (simp add: guard_query_def)
  with q have "guard_query env config (rs_ctx s') = Inr query" by simp
  from repeat_guard_run [OF assms(1) this] repeat_guard_run [OF assms(1) q] assms(2)
  show ?thesis by (auto split: if_splits)
qed

definition demo_repeat_step :: pipeline_step_definition where
  "demo_repeat_step = \<lparr>step_id = ''repeat'', step_action = ''repeat_query_guard'',
     step_action_version = ''1.0'', step_next_step_id = None,
     step_routes = [(''ok'', ''retrieve''), (''repeat'', ''finalize'')], step_terminal = False,
     step_config = [(''source'', PStr ''normalized_query''), (''on_ok'', PStr ''ok''),
       (''on_repeat'', PStr ''repeat'')]\<rparr>"

definition demo_asked :: "string list run_state" where
  "demo_asked = \<lparr>rs_world = [], rs_ctx = (demo_context [])\<lparr>ctx_normalized_query := ''what is new''\<rparr>\<rparr>"

lemma demo_repeat_first:
  "fst (repeat_query_guard_execute demo_env demo_repeat_step demo_asked) = Inr (Some ''ok'')"
  by code_simp

lemma demo_repeat_config:
  "map_sum id rgc_on_repeat (repeat_query_guard_config demo_repeat_step) = Inr ''repeat''"
  by code_simp

lemma repeat_guard_second_visit_witness:
  "fst (repeat_query_guard_execute demo_env demo_repeat_step
     (snd (repeat_query_guard_execute demo_env demo_repeat_step demo_asked))) = Inr (Some ''repeat'')"
proof -
  from demo_repeat_config obtain config where config: "repeat_query_guard_config demo_repeat_step = Inr config"
    "rgc_on_repeat config = ''repeat''"
    by (cases "repeat_query_guard_config demo_repeat_step") auto
  obtain s' where run: "repeat_query_guard_execute demo_env demo_repeat_step demo_asked = (Inr (Some ''ok''), s')"
    using demo_repeat_first by (metis prod.collapse)
  from repeat_guard_second_visit [OF config(1) run] config(2) run show ?thesis by simp
qed

end
