(* ===== verification/Policy_Repository.thy ===== *)
theory Policy_Repository
  imports Access
begin

text \<open>
  \<open>infrastructure/access_policies.py\<close> over an explicit database: the tables of migrations 006 and 007
  as lists of rows, a SQL statement as the list operation it denotes. \<open>pdb_up\<close> says whether the
  server answers; a failed connection is the \<open>except Exception\<close> branch, and since every write
  method commits once at its end, a failure leaves the tables as they were. Rows are compared by
  code point, where the code leaves the order to the collation of the server. Timestamps and
  surrogate keys, which no method reads back, are left out.
\<close>

section \<open>Tables\<close>

record capability_row =
  crow_tenant :: string
  crow_capability_id :: string
  crow_display_name :: string
  crow_description :: string
  crow_domain :: string
  crow_pipeline_name :: string
  crow_diagnostics :: bool
  crow_external :: bool
  crow_active :: bool

record decision_row =
  drow_request_id :: string
  drow_subject_hash :: string
  drow_tenant :: string
  drow_capability_id :: string
  drow_pipeline_name :: "string option"
  drow_allowed :: bool
  drow_reason_code :: string
  drow_policy_version :: int

record policy_db =
  pdb_versions :: "(string \<times> int \<times> bool) list"
  pdb_groups :: "(string \<times> string \<times> bool) list"
  pdb_mappings :: "(string \<times> claim_group_mapping) list"
  pdb_capabilities :: "capability_row list"
  pdb_grants :: "(string \<times> group_capability_grant) list"
  pdb_changes :: "(string \<times> int option \<times> int) list"
  pdb_decisions :: "decision_row list"
  pdb_up :: bool

type_synonym 'a policy_prog = "(policy_db, py_exn, 'a) prog"

definition policy_unavailable :: py_exn where
  "policy_unavailable = Known DependencyUnavailableError ''Access policy repository is unavailable''"

section \<open>resolve\<close>

definition empty_policy :: "authorization_context \<Rightarrow> int \<Rightarrow> resolved_access_policy result" where
  "empty_policy a version = resolved_access_policy_post_init
     \<lparr>policy_subject = auth_subject a, policy_tenant_id = auth_tenant_id a, policy_group_ids = [],
      policy_capability_ids = [], policy_pipeline_names = [], policy_version = version\<rparr>"

definition active_version :: "policy_db \<Rightarrow> string \<Rightarrow> int option" where
  "active_version db tenant = map_option (\<lambda>row. fst (snd row))
     (find (\<lambda>row. fst row = tenant \<and> snd (snd row)) (pdb_versions db))"

text \<open>The join of the claim mappings with the active groups, for the claims of the subject.\<close>

definition mapping_applies :: "authorization_context \<Rightarrow> claim_group_mapping \<Rightarrow> bool" where
  "mapping_applies a m \<longleftrightarrow>
     (claim_name m = ''groups'' \<and> claim_value m \<in> set (auth_groups a)) \<or>
     (claim_name m = ''roles'' \<and> claim_value m \<in> set (auth_roles a))"

definition resolved_groups :: "policy_db \<Rightarrow> authorization_context \<Rightarrow> string list" where
  "resolved_groups db a = sorted_unique (map (\<lambda>(t, m). claim_group_id m)
     (filter (\<lambda>(t, m). t = auth_tenant_id a \<and> mapping_applies a m \<and>
        list_ex (\<lambda>(gt, g, active). gt = t \<and> g = claim_group_id m \<and> active) (pdb_groups db))
        (pdb_mappings db)))"

text \<open>The distinct pairs of capability and pipeline granted to the groups.\<close>

definition granted_rows :: "policy_db \<Rightarrow> string \<Rightarrow> string list \<Rightarrow> (string \<times> string) list" where
  "granted_rows db tenant groups = sorted_unique (concat (map (\<lambda>(t, g).
     map (\<lambda>c. (crow_capability_id c, crow_pipeline_name c))
       (filter (\<lambda>c. crow_tenant c = t \<and> crow_capability_id c = grant_capability_id g \<and> crow_active c)
          (pdb_capabilities db)))
     (filter (\<lambda>(t, g). t = tenant \<and> grant_group_id g \<in> set groups) (pdb_grants db))))"

definition resolve_policy ::
    "policy_db \<Rightarrow> authorization_context \<Rightarrow> resolved_access_policy result" where
  "resolve_policy db a =
     (if \<not> pdb_up db then Inl policy_unavailable
      else case active_version db (auth_tenant_id a) of
        None \<Rightarrow> empty_policy a 1
      | Some version \<Rightarrow>
          (let groups = resolved_groups db a
           in if groups = [] then empty_policy a version
              else
                (let rows = granted_rows db (auth_tenant_id a) groups
                 in resolved_access_policy_post_init
                   \<lparr>policy_subject = auth_subject a, policy_tenant_id = auth_tenant_id a,
                    policy_group_ids = groups, policy_capability_ids = map fst rows,
                    policy_pipeline_names = map snd rows, policy_version = version\<rparr>)))"

definition repo_resolve :: "authorization_context \<Rightarrow> resolved_access_policy policy_prog" where
  "repo_resolve a db = (resolve_policy db a, db)"

section \<open>capabilities and capability\<close>

definition descriptor_of :: "capability_row \<Rightarrow> int \<Rightarrow> capability_descriptor result" where
  "descriptor_of row version = capability_descriptor_post_init
     \<lparr>cap_capability_id = crow_capability_id row, cap_display_name = crow_display_name row,
      cap_description = crow_description row, cap_domain = crow_domain row,
      cap_pipeline_name = crow_pipeline_name row, cap_diagnostics_available = crow_diagnostics row,
      cap_external_model = crow_external row, cap_policy_version = version\<rparr>"

definition capability_rows :: "policy_db \<Rightarrow> resolved_access_policy \<Rightarrow> capability_row list" where
  "capability_rows db policy = sort_key crow_capability_id (filter (\<lambda>row.
     crow_tenant row = policy_tenant_id policy \<and>
     crow_capability_id row \<in> set (policy_capability_ids policy) \<and> crow_active row)
     (pdb_capabilities db))"

text \<open>A \<open>ValidationError\<close> of a descriptor is reported as unavailability too.\<close>

definition list_capabilities ::
    "policy_db \<Rightarrow> resolved_access_policy \<Rightarrow> capability_descriptor list result" where
  "list_capabilities db policy =
     (if policy_capability_ids policy = [] then Inr []
      else if \<not> pdb_up db then Inl policy_unavailable
      else or_unavailable (\<lambda>_. False) ''Access policy repository is unavailable''
        (rmap (\<lambda>row. descriptor_of row (policy_version policy))
          (filter (\<lambda>row. crow_capability_id row \<in> set (policy_capability_ids policy) \<and>
                         crow_pipeline_name row \<in> set (policy_pipeline_names policy))
            (capability_rows db policy))))"

definition repo_capabilities :: "resolved_access_policy \<Rightarrow> capability_descriptor list policy_prog" where
  "repo_capabilities policy db = (list_capabilities db policy, db)"

definition repo_capability ::
    "string \<Rightarrow> resolved_access_policy \<Rightarrow> capability_descriptor option policy_prog" where
  "repo_capability cid policy db =
     (if cid \<notin> set (policy_capability_ids policy) then (Inr None, db)
      else (rbind (list_capabilities db policy) (\<lambda>cs.
              Inr (find (\<lambda>c. cap_capability_id c = cid) cs)), db))"

section \<open>publish\<close>

definition capability_row_of :: "string \<Rightarrow> capability_descriptor \<Rightarrow> capability_row" where
  "capability_row_of tenant c = \<lparr>crow_tenant = tenant, crow_capability_id = cap_capability_id c,
     crow_display_name = cap_display_name c, crow_description = cap_description c,
     crow_domain = cap_domain c, crow_pipeline_name = cap_pipeline_name c,
     crow_diagnostics = cap_diagnostics_available c, crow_external = cap_external_model c,
     crow_active = True\<rparr>"

definition stored_version :: "policy_db \<Rightarrow> string \<Rightarrow> int option" where
  "stored_version db tenant = map_option (\<lambda>row. fst (snd row))
     (find (\<lambda>row. fst row = tenant) (pdb_versions db))"

text \<open>The upsert of the version row: a tenant has one row (its primary key).\<close>

fun upsert_version ::
    "string \<Rightarrow> int \<Rightarrow> (string \<times> int \<times> bool) list \<Rightarrow> (string \<times> int \<times> bool) list" where
  "upsert_version tenant version [] = [(tenant, version, True)]"
| "upsert_version tenant version (row # rows) =
     (if fst row = tenant then (tenant, version, True) # rows
      else row # upsert_version tenant version rows)"

definition replace_policy :: "access_policy_bundle \<Rightarrow> int option \<Rightarrow> policy_db \<Rightarrow> policy_db" where
  "replace_policy b current db =
     (let tenant = bundle_tenant_id b
      in db\<lparr>pdb_versions := upsert_version tenant (bundle_version b) (pdb_versions db),
            pdb_groups := filter (\<lambda>(t, g, active). t \<noteq> tenant) (pdb_groups db) @
              map (\<lambda>g. (tenant, g, True)) (bundle_group_ids b),
            pdb_mappings := filter (\<lambda>(t, m). t \<noteq> tenant) (pdb_mappings db) @
              map (\<lambda>m. (tenant, m)) (bundle_claim_mappings b),
            pdb_capabilities := filter (\<lambda>c. crow_tenant c \<noteq> tenant) (pdb_capabilities db) @
              map (capability_row_of tenant) (bundle_capabilities b),
            pdb_grants := filter (\<lambda>(t, g). t \<noteq> tenant) (pdb_grants db) @
              map (\<lambda>g. (tenant, g)) (bundle_grants b),
            pdb_changes := pdb_changes db @ [(tenant, current, bundle_version b)]\<rparr>)"

definition repo_publish :: "access_policy_bundle \<Rightarrow> int option \<Rightarrow> unit policy_prog" where
  "repo_publish b expected_version db =
     (if \<not> pdb_up db then (Inl policy_unavailable, db)
      else
        (let current = stored_version db (bundle_tenant_id b)
         in if expected_version \<noteq> None \<and> current \<noteq> expected_version
            then (Inl (Known ConflictError ''Access policy version changed before publication''), db)
            else (Inr (), replace_policy b current db)))"

definition repo_check :: "unit policy_prog" where
  "repo_check db = (if pdb_up db then Inr () else Inl policy_unavailable, db)"

section \<open>The audit of decisions\<close>

definition audit_decision ::
    "(string \<Rightarrow> string) \<Rightarrow> string \<Rightarrow> string \<Rightarrow> string \<Rightarrow> string \<Rightarrow> string option \<Rightarrow> bool \<Rightarrow> string \<Rightarrow> int \<Rightarrow>
     unit policy_prog" where
  "audit_decision sha256 request_id subject tenant capability pipeline allowed reason version db =
     (if \<not> pdb_up db
      then (Inl (Known DependencyUnavailableError ''Security decision audit is unavailable''), db)
      else (Inr (), db\<lparr>pdb_decisions := pdb_decisions db @
        [\<lparr>drow_request_id = request_id, drow_subject_hash = sha256 subject, drow_tenant = tenant,
          drow_capability_id = capability, drow_pipeline_name = pipeline, drow_allowed = allowed,
          drow_reason_code = reason, drow_policy_version = version\<rparr>]\<rparr>))"

section \<open>A published bundle is what later requests resolve\<close>

lemma find_upsert:
  "find (\<lambda>row. fst row = tenant) (upsert_version tenant version rows) = Some (tenant, version, True)"
  by (induction rows) auto

lemma find_upsert_active:
  "find (\<lambda>row. fst row = tenant \<and> snd (snd row)) (upsert_version tenant version rows) =
     Some (tenant, version, True)"
  by (induction rows) auto

lemma find_upsert_other:
  assumes "t' \<noteq> tenant"
  shows "find (\<lambda>row. fst row = t' \<and> P row) (upsert_version tenant version rows) =
      find (\<lambda>row. fst row = t' \<and> P row) rows"
  using assms by (induction rows) auto

lemma publish_version:
  "active_version (replace_policy b c db) (bundle_tenant_id b) = Some (bundle_version b)"
  "stored_version (replace_policy b c db) (bundle_tenant_id b) = Some (bundle_version b)"
  by (simp_all add: active_version_def stored_version_def replace_policy_def Let_def find_upsert
      find_upsert_active)

lemma publish_groups:
  assumes "bundle_ok b" "auth_tenant_id a = bundle_tenant_id b"
  shows "set (resolved_groups (replace_policy b c db) a) =
    claim_group_id ` {m \<in> set (bundle_claim_mappings b). mapping_applies a m}"
  using assms
  by (force simp: resolved_groups_def replace_policy_def Let_def list_ex_iff bundle_ok_def image_iff)

lemma publish_rows:
  assumes "bundle_ok b"
  shows "set (granted_rows (replace_policy b c db) (bundle_tenant_id b) groups) =
    (\<lambda>k. (cap_capability_id k, cap_pipeline_name k)) ` {k \<in> set (bundle_capabilities b).
       \<exists>g\<in>set (bundle_grants b). grant_capability_id g = cap_capability_id k \<and>
         grant_group_id g \<in> set groups}"
  by (force simp: granted_rows_def replace_policy_def Let_def capability_row_of_def image_iff)

text \<open>What the specification grants: the capabilities of the groups the claims map to.\<close>

definition granted_by ::
    "access_policy_bundle \<Rightarrow> authorization_context \<Rightarrow> capability_descriptor list" where
  "granted_by b a = filter (\<lambda>k. list_ex (\<lambda>g. grant_capability_id g = cap_capability_id k \<and>
     list_ex (\<lambda>m. claim_group_id m = grant_group_id g \<and> mapping_applies a m) (bundle_claim_mappings b))
     (bundle_grants b)) (bundle_capabilities b)"

lemma granted_by_iff:
  "k \<in> set (granted_by b a) \<longleftrightarrow> k \<in> set (bundle_capabilities b) \<and>
     (\<exists>g\<in>set (bundle_grants b). grant_capability_id g = cap_capability_id k \<and>
        grant_group_id g \<in> claim_group_id ` {m \<in> set (bundle_claim_mappings b). mapping_applies a m})"
  by (auto simp: granted_by_def list_ex_iff image_iff; metis)

lemma publish_granted_rows:
  assumes "bundle_ok b" "auth_tenant_id a = bundle_tenant_id b"
  shows "set (granted_rows (replace_policy b c db) (bundle_tenant_id b)
      (resolved_groups (replace_policy b c db) a)) =
    (\<lambda>k. (cap_capability_id k, cap_pipeline_name k)) ` set (granted_by b a)"
proof -
  have "set (granted_by b a) = {k \<in> set (bundle_capabilities b). \<exists>g\<in>set (bundle_grants b).
      grant_capability_id g = cap_capability_id k \<and>
      grant_group_id g \<in> set (resolved_groups (replace_policy b c db) a)}"
    unfolding publish_groups [OF assms] by (rule set_eqI) (simp only: granted_by_iff mem_Collect_eq)
  then show ?thesis by (simp only: publish_rows [OF assms(1)])
qed

definition bundle_parts_ok :: "access_policy_bundle \<Rightarrow> bool" where
  "bundle_parts_ok b \<longleftrightarrow> bundle_ok b \<and> list_all capability_descriptor_ok (bundle_capabilities b)"

lemma normalized_values_trimmed:
  assumes "\<forall>v\<in>set vs. trimmed v"
  shows "normalized_values vs f = Inr (sorted_unique vs)"
proof -
  have "rmap (\<lambda>v. required v (f @ ''[]'')) vs = Inr vs"
    using assms by (intro rmap_id_ok) auto
  then show ?thesis by (simp add: normalized_values_def)
qed

lemma resolve_after_publish:
  assumes "bundle_parts_ok b" "authorization_context_ok a" "auth_tenant_id a = bundle_tenant_id b"
    "pdb_up db"
  shows "\<exists>p. resolve_policy (replace_policy b c db) a = Inr p \<and>
    policy_subject p = auth_subject a \<and> policy_tenant_id p = auth_tenant_id a \<and>
    set (policy_capability_ids p) = cap_capability_id ` set (granted_by b a) \<and>
    set (policy_pipeline_names p) = cap_pipeline_name ` set (granted_by b a) \<and>
    policy_version p = bundle_version b"
proof -
  let ?db = "replace_policy b c db"
  let ?groups = "resolved_groups ?db a"
  let ?rows = "granted_rows ?db (bundle_tenant_id b) ?groups"
  from assms have ok: "bundle_ok b" "\<forall>k\<in>set (bundle_capabilities b). capability_descriptor_ok k"
    "trimmed (auth_subject a)" "trimmed (auth_tenant_id a)" "1 \<le> bundle_version b"
    by (auto simp: bundle_parts_ok_def list_all_iff authorization_context_ok_def bundle_ok_def)
  note rows = publish_granted_rows [OF ok(1) assms(3)]
  have caps: "set (granted_by b a) \<subseteq> set (bundle_capabilities b)" by (auto simp: granted_by_def)
  then have trimmed: "\<forall>x\<in>set (map fst ?rows). trimmed x" "\<forall>x\<in>set (map snd ?rows). trimmed x"
    using ok(2) rows by (force simp: capability_descriptor_ok_def)+
  have groups: "\<forall>x\<in>set ?groups. trimmed x"
    using ok(1) publish_groups [OF ok(1) assms(3)] by (auto simp: bundle_ok_def label_tuple_def)
  have up: "pdb_up ?db" using assms(4) by (simp add: replace_policy_def Let_def)
  show ?thesis
  proof (cases "?groups = []")
    case True
    with publish_groups [OF ok(1) assms(3), of c db]
    have "{m \<in> set (bundle_claim_mappings b). mapping_applies a m} = {}" by auto
    then have "k \<notin> set (granted_by b a)" for k unfolding granted_by_iff by blast
    then have "granted_by b a = []" by (metis last_in_set)
    with True up ok assms(3) publish_version(1) [of b c db] show ?thesis
      by (simp add: resolve_policy_def empty_policy_def resolved_access_policy_post_init_def)
  next
    case False
    with up ok assms(3) publish_version(1) [of b c db] rows
      normalized_values_trimmed [OF trimmed(1)] normalized_values_trimmed [OF trimmed(2)]
      normalized_values_trimmed [OF groups]
    show ?thesis
      by (simp add: resolve_policy_def Let_def resolved_access_policy_post_init_def image_image)
  qed
qed

text \<open>Another tenant sees no difference.\<close>

lemma filter_other_tenant:
  assumes "t' \<noteq> tenant"
  shows "filter (\<lambda>(t, m). t = t' \<and> P t m) (filter (\<lambda>(t, m). t \<noteq> tenant) rows @ map (\<lambda>x. (tenant, x)) xs) =
    filter (\<lambda>(t, m). t = t' \<and> P t m) rows"
  using assms by (induction rows) (auto simp: filter_empty_conv)

lemma resolve_other_tenant:
  assumes "auth_tenant_id a \<noteq> bundle_tenant_id b"
  shows "resolve_policy (replace_policy b c db) a = resolve_policy db a"
proof -
  let ?db = "replace_policy b c db"
  have version: "active_version ?db (auth_tenant_id a) = active_version db (auth_tenant_id a)"
    using find_upsert_other [OF assms] by (simp add: active_version_def replace_policy_def Let_def)
  have "list_ex (\<lambda>(gt, g, active). gt = auth_tenant_id a \<and> g = x \<and> active) (pdb_groups ?db) =
      list_ex (\<lambda>(gt, g, active). gt = auth_tenant_id a \<and> g = x \<and> active) (pdb_groups db)" for x
    using assms by (auto simp: replace_policy_def Let_def list_ex_iff)
  then have groups: "resolved_groups ?db a = resolved_groups db a"
    using filter_other_tenant [OF assms, of "\<lambda>t m. mapping_applies a m \<and>
        list_ex (\<lambda>(gt, g, active). gt = auth_tenant_id a \<and> g = claim_group_id m \<and> active) (pdb_groups db)"
        "pdb_mappings db" "bundle_claim_mappings b"]
    unfolding resolved_groups_def
    by (intro arg_cong [where f = sorted_unique] arg_cong [where f = "map _"])
      (simp add: replace_policy_def Let_def case_prod_beta cong: conj_cong)
  have rows: "granted_rows ?db (auth_tenant_id a) gs = granted_rows db (auth_tenant_id a) gs" for gs
    unfolding granted_rows_def
    using assms
    by (intro sorted_unique_eq) (auto simp: replace_policy_def Let_def capability_row_of_def)
  have "pdb_up ?db = pdb_up db" by (simp add: replace_policy_def Let_def)
  then show ?thesis unfolding resolve_policy_def version groups Let_def rows by simp
qed

end
