(* ===== verification/Authorization_Service.thy ===== *)
theory Authorization_Service
  imports Policy_Repository
begin

text \<open>
  \<open>application/authorization.py\<close> and \<open>application/policy_administration.py\<close>. The services call their
  repository and audit ports; the ports are records of programs over a world, the locale
  \<open>access_policies\<close> states what the services rely on, and it is interpreted on the PostgreSQL
  repository of \<open>Policy_Repository\<close>.
\<close>

record 'w access_policy_port =
  ap_resolve :: "authorization_context \<Rightarrow> ('w, py_exn, resolved_access_policy) prog"
  ap_capabilities :: "resolved_access_policy \<Rightarrow> ('w, py_exn, capability_descriptor list) prog"
  ap_capability :: "string \<Rightarrow> resolved_access_policy \<Rightarrow> ('w, py_exn, capability_descriptor option) prog"
  ap_publish :: "access_policy_bundle \<Rightarrow> int option \<Rightarrow> ('w, py_exn, unit) prog"

type_synonym 'w decision_audit =
  "string \<Rightarrow> string \<Rightarrow> string \<Rightarrow> string \<Rightarrow> string option \<Rightarrow> bool \<Rightarrow> string \<Rightarrow> int \<Rightarrow> ('w, py_exn, unit) prog"

section \<open>PipelineAuthorizationService\<close>

definition service_catalog ::
    "'w access_policy_port \<Rightarrow> authorization_context \<Rightarrow> ('w, py_exn, capability_descriptor list) prog" where
  "service_catalog repo a = sbind (ap_resolve repo a) (ap_capabilities repo)"

definition capability_allowed ::
    "resolved_access_policy \<Rightarrow> capability_descriptor option \<Rightarrow> bool \<Rightarrow> bool" where
  "capability_allowed policy capability diagnostics_requested =
     (case capability of
        None \<Rightarrow> False
      | Some c \<Rightarrow> cap_capability_id c \<in> set (policy_capability_ids policy) \<and>
          cap_pipeline_name c \<in> set (policy_pipeline_names policy) \<and>
          (\<not> diagnostics_requested \<or> cap_diagnostics_available c))"

definition access_reason :: "bool \<Rightarrow> capability_descriptor option \<Rightarrow> bool \<Rightarrow> string" where
  "access_reason allowed capability diagnostics_requested =
     (if allowed then ''pipeline_access_allowed''
      else case capability of
        Some c \<Rightarrow> if diagnostics_requested \<and> \<not> cap_diagnostics_available c
                  then ''capability_diagnostics_denied'' else ''pipeline_access_denied''
      | None \<Rightarrow> ''pipeline_access_denied'')"

definition service_authorize ::
    "'w access_policy_port \<Rightarrow> 'w decision_audit \<Rightarrow> string \<Rightarrow> string \<Rightarrow> authorization_context \<Rightarrow> bool \<Rightarrow>
     ('w, py_exn, pipeline_access_decision) prog" where
  "service_authorize repo audit request_id capability_id a diagnostics_requested =
     sbind (ap_resolve repo a) (\<lambda>policy.
     sbind (ap_capability repo capability_id policy) (\<lambda>capability.
     let allowed = capability_allowed policy capability diagnostics_requested;
         reason = access_reason allowed capability diagnostics_requested
     in sthen (audit request_id (auth_subject a) (auth_tenant_id a) capability_id
                 (map_option cap_pipeline_name capability) allowed reason (policy_version policy))
        (sbind (slift (pipeline_access_decision_post_init
            \<lparr>access_allowed = allowed, access_reason_code = reason,
             access_capability = (if allowed then capability else None), access_policy = policy\<rparr>)) (\<lambda>decision.
          if \<not> access_allowed decision
          then sraise (Known PolicyViolationError ''The requested capability is not available'')
          else sreturn decision))))"

section \<open>PolicyAdministrationService\<close>

text \<open>\<open>domain_pipelines\<close>: the configured pipelines of each domain.\<close>

fun check_configured :: "(string \<times> string list) list \<Rightarrow> capability_descriptor list \<Rightarrow> unit result" where
  "check_configured domain_pipelines [] = Inr ()"
| "check_configured domain_pipelines (c # cs) =
     (case map_of domain_pipelines (cap_domain c) of
        None \<Rightarrow> Inl (Known ValidationError ''Policy capability references an unknown domain'')
      | Some pipelines \<Rightarrow>
          if cap_pipeline_name c \<notin> set pipelines
          then Inl (Known ValidationError
                 ''Policy capability references a pipeline not configured for its domain'')
          else check_configured domain_pipelines cs)"

definition service_publish ::
    "'w access_policy_port \<Rightarrow> (string \<times> string list) list \<Rightarrow> access_policy_bundle \<Rightarrow> int option \<Rightarrow>
     ('w, py_exn, unit) prog" where
  "service_publish repo domain_pipelines bundle expected_version =
     sthen (slift (check_configured domain_pipelines (bundle_capabilities bundle)))
       (ap_publish repo bundle expected_version)"

definition capability_configured :: "(string \<times> string list) list \<Rightarrow> capability_descriptor \<Rightarrow> bool" where
  "capability_configured domain_pipelines c \<longleftrightarrow> (\<exists>pipelines.
     map_of domain_pipelines (cap_domain c) = Some pipelines \<and> cap_pipeline_name c \<in> set pipelines)"

lemma check_configured_iff:
  "check_configured dp cs = Inr () \<longleftrightarrow> (\<forall>c\<in>set cs. capability_configured dp c)"
  by (induction cs) (auto simp: capability_configured_def split: option.splits)

lemma access_reason_trimmed: "trimmed (access_reason allowed capability diag)"
  by (auto simp: access_reason_def trimmed_def strip_nonspace py_isspace_def split: option.splits)

section \<open>What the services rely on\<close>

locale access_policies =
  fixes repo :: "'w access_policy_port"
    and audit :: "'w decision_audit"
    and decisions :: "'w \<Rightarrow> decision_row list"
    and hash :: "string \<Rightarrow> string"
  assumes resolve_subject:
      "ap_resolve repo a w = (Inr p, w') \<Longrightarrow>
         policy_tenant_id p = strip (auth_tenant_id a) \<and> policy_subject p = strip (auth_subject a)"
    and resolve_quiet: "ap_resolve repo a w = (r, w') \<Longrightarrow> decisions w' = decisions w"
    and capability_quiet: "ap_capability repo cid p w = (r2, w') \<Longrightarrow> decisions w' = decisions w"
    and capability_requested: "ap_capability repo cid p w = (Inr (Some c), w') \<Longrightarrow> cap_capability_id c = cid"
    and audit_writes:
      "audit rid sub ten cid pipe allowed reason version w = (Inr u, w') \<Longrightarrow>
         decisions w' = decisions w @ [\<lparr>drow_request_id = rid, drow_subject_hash = hash sub,
           drow_tenant = ten, drow_capability_id = cid, drow_pipeline_name = pipe,
           drow_allowed = allowed, drow_reason_code = reason, drow_policy_version = version\<rparr>]"
    and audit_raises:
      "audit rid sub ten cid pipe allowed reason version w = (Inl e, w') \<Longrightarrow> decisions w' = decisions w"
begin

text \<open>A decision is returned only for a capability the resolved policy grants, and it is on record.\<close>

lemma authorize_returns:
  assumes "service_authorize repo audit rid cid a diag w = (Inr d, w')"
  shows "\<exists>c row. access_allowed d \<and> access_capability d = Some c \<and> cap_capability_id c = cid \<and>
    cid \<in> set (policy_capability_ids (access_policy d)) \<and>
    cap_pipeline_name c \<in> set (policy_pipeline_names (access_policy d)) \<and>
    (diag \<longrightarrow> cap_diagnostics_available c) \<and>
    policy_tenant_id (access_policy d) = strip (auth_tenant_id a) \<and>
    decisions w' = decisions w @ [row] \<and> drow_allowed row \<and> drow_capability_id row = cid \<and>
    drow_tenant row = auth_tenant_id a \<and> drow_subject_hash row = hash (auth_subject a)"
proof -
  from assms obtain p w1 cap w2 u w3 where steps: "ap_resolve repo a w = (Inr p, w1)"
    "ap_capability repo cid p w1 = (Inr cap, w2)"
    "audit rid (auth_subject a) (auth_tenant_id a) cid (map_option cap_pipeline_name cap)
       (capability_allowed p cap diag) (access_reason (capability_allowed p cap diag) cap diag)
       (policy_version p) w2 = (Inr u, w3)"
    and d: "w' = w3" "capability_allowed p cap diag" "access_allowed d" "access_capability d = cap"
      "access_policy d = p"
    by (auto simp: service_authorize_def Let_def prog_simps pipeline_access_decision_post_init_def
        rbind_eq_Inr split: if_splits)
  from d(2) obtain c where c: "cap = Some c" by (cases cap) (auto simp: capability_allowed_def)
  from audit_writes [OF steps(3)] capability_quiet [OF steps(2)] resolve_quiet [OF steps(1)] d(1,2)
  show ?thesis
    using capability_requested [OF steps(2) [unfolded c]] resolve_subject [OF steps(1)] d c
    by (auto simp: capability_allowed_def)
qed

text \<open>A refusal by policy is on record as well.\<close>

lemma authorize_refuses:
  assumes "ap_resolve repo a w = (Inr p, w1)" "ap_capability repo cid p w1 = (Inr cap, w2)"
    "\<not> capability_allowed p cap diag"
    "service_authorize repo audit rid cid a diag w = (r, w')"
  shows "(\<exists>e. r = Inl e \<and> decisions w' = decisions w) \<or>
    (r = Inl (Known PolicyViolationError ''The requested capability is not available'') \<and>
     (\<exists>row. decisions w' = decisions w @ [row] \<and> \<not> drow_allowed row \<and> drow_capability_id row = cid))"
proof -
  let ?reason = "access_reason False cap diag"
  obtain x w3 where x: "audit rid (auth_subject a) (auth_tenant_id a) cid
      (map_option cap_pipeline_name cap) False ?reason (policy_version p) w2 = (x, w3)" by force
  have quiet: "decisions w2 = decisions w"
    using resolve_quiet [OF assms(1)] capability_quiet [OF assms(2)] by simp
  show ?thesis
  proof (cases x)
    case (Inl e)
    with assms x have "r = Inl e" "w' = w3"
      by (simp_all add: service_authorize_def sbind_def sthen_def Let_def)
    with audit_raises [OF x [unfolded Inl]] quiet show ?thesis by auto
  next
    case (Inr u)
    with assms x have "r = Inl (Known PolicyViolationError ''The requested capability is not available'')"
      "w' = w3"
      by (simp_all add: service_authorize_def sbind_def sthen_def Let_def slift_def sraise_def
          pipeline_access_decision_post_init_def access_reason_trimmed)
    with audit_writes [OF x [unfolded Inr]] quiet show ?thesis by auto
  qed
qed

end

section \<open>The PostgreSQL repository keeps the contract\<close>

definition postgres_policies :: "policy_db access_policy_port" where
  "postgres_policies = \<lparr>ap_resolve = repo_resolve, ap_capabilities = repo_capabilities,
     ap_capability = repo_capability, ap_publish = repo_publish\<rparr>"

lemma resolve_policy_subject:
  "resolve_policy db a = Inr p \<Longrightarrow>
     policy_tenant_id p = strip (auth_tenant_id a) \<and> policy_subject p = strip (auth_subject a)"
  by (auto simp: resolve_policy_def empty_policy_def resolved_access_policy_post_init_def Let_def
      rbind_eq_Inr required_Inr split: if_splits option.splits)

interpretation postgres: access_policies postgres_policies "audit_decision hash" pdb_decisions hash
  for hash
proof (unfold_locales, goal_cases)
  case (1 a w p w')
  then show ?case by (auto simp: postgres_policies_def repo_resolve_def resolve_policy_subject)
next
  case (4 cid p w c w')
  then show ?case
    by (auto simp: postgres_policies_def repo_capability_def rbind_eq_Inr find_Some_iff split: if_splits)
qed (auto simp: postgres_policies_def repo_resolve_def repo_capability_def audit_decision_def
    split: if_splits)

text \<open>Publishing through the service: only configured capabilities, and then they resolve.\<close>

lemma service_publish_Inr:
  "service_publish postgres_policies dp b ev db = (Inr u, db') \<longleftrightarrow>
     (\<forall>c\<in>set (bundle_capabilities b). capability_configured dp c) \<and> pdb_up db \<and>
     (ev = None \<or> stored_version db (bundle_tenant_id b) = ev) \<and>
     db' = replace_policy b (stored_version db (bundle_tenant_id b)) db"
  by (auto simp: service_publish_def sthen_def sbind_eq_Inr slift_eq check_configured_iff
      postgres_policies_def repo_publish_def Let_def split: if_splits)

lemma service_publish_Inl:
  "service_publish postgres_policies dp b ev db = (Inl e, db') \<Longrightarrow> db' = db"
  by (auto simp: service_publish_def sthen_def sbind_eq_Inl slift_eq postgres_policies_def
      repo_publish_def Let_def split: if_splits)

section \<open>From a published bundle to a decision\<close>

definition row_descriptor :: "int \<Rightarrow> capability_row \<Rightarrow> capability_descriptor" where
  "row_descriptor version row =
     \<lparr>cap_capability_id = crow_capability_id row, cap_display_name = crow_display_name row,
      cap_description = crow_description row, cap_domain = crow_domain row,
      cap_pipeline_name = crow_pipeline_name row, cap_diagnostics_available = crow_diagnostics row,
      cap_external_model = crow_external row, cap_policy_version = version\<rparr>"

lemma row_descriptor_row:
  "cap_policy_version k = v \<Longrightarrow> row_descriptor v (capability_row_of t k) = k"
  by (auto simp: row_descriptor_def capability_row_of_def)

lemma find_unique:
  assumes "x \<in> set xs" "P x" "\<And>y. y \<in> set xs \<Longrightarrow> P y \<Longrightarrow> y = x"
  shows "find P xs = Some x"
proof (cases "find P xs")
  case None
  with assms(1,2) show ?thesis by (auto simp: find_None_iff)
next
  case (Some y)
  then have "y \<in> set xs" "P y" by (auto simp: find_Some_iff)
  with assms(3) Some show ?thesis by blast
qed

lemma published_capabilities:
  assumes "bundle_parts_ok b" "pdb_up db" "policy_tenant_id p = bundle_tenant_id b"
    "policy_version p = bundle_version b"
    "set (policy_capability_ids p) = cap_capability_id ` set ks"
    "set (policy_pipeline_names p) = cap_pipeline_name ` set ks" "set ks \<subseteq> set (bundle_capabilities b)"
  shows "\<exists>cs. list_capabilities (replace_policy b c db) p = Inr cs \<and> set cs = set ks"
proof (cases "policy_capability_ids p = []")
  case True
  with assms(5) show ?thesis by (simp add: list_capabilities_def)
next
  case False
  let ?db = "replace_policy b c db"
  let ?rows = "filter (\<lambda>row. crow_capability_id row \<in> set (policy_capability_ids p) \<and>
      crow_pipeline_name row \<in> set (policy_pipeline_names p)) (capability_rows ?db p)"
  from assms(1) have caps: "\<forall>k\<in>set (bundle_capabilities b). capability_descriptor_ok k \<and>
      cap_policy_version k = bundle_version b" "distinct (map cap_capability_id (bundle_capabilities b))"
    by (simp_all add: bundle_parts_ok_def list_all_iff bundle_ok_def)
  have same: "k = k'" if "k \<in> set (bundle_capabilities b)" "k' \<in> set (bundle_capabilities b)"
      "cap_capability_id k = cap_capability_id k'" for k k'
    using caps(2) that by (auto simp: distinct_map dest: inj_onD)
  have rows: "set ?rows = capability_row_of (bundle_tenant_id b) ` set ks"
  proof (intro set_eqI iffI)
    fix row assume "row \<in> set ?rows"
    then obtain k where k: "k \<in> set (bundle_capabilities b)" "row = capability_row_of (bundle_tenant_id b) k"
      "cap_capability_id k \<in> cap_capability_id ` set ks"
      by (auto simp: capability_rows_def replace_policy_def Let_def assms(3,5) capability_row_of_def)
    then obtain k' where "k' \<in> set ks" "cap_capability_id k = cap_capability_id k'" by auto
    with same [of k k'] k(1) assms(7) have "k \<in> set ks" by auto
    with k(2) show "row \<in> capability_row_of (bundle_tenant_id b) ` set ks" by simp
  next
    fix row assume "row \<in> capability_row_of (bundle_tenant_id b) ` set ks"
    with assms(7) show "row \<in> set ?rows"
      by (auto simp: capability_rows_def replace_policy_def Let_def assms(3,5,6) capability_row_of_def)
  qed
  have each: "descriptor_of row (policy_version p) = Inr (row_descriptor (policy_version p) row)"
    if "row \<in> set ?rows" for row
  proof -
    from that rows obtain k where "k \<in> set ks" "row = capability_row_of (bundle_tenant_id b) k" by blast
    with assms(4,7) caps show ?thesis
      by (auto simp: descriptor_of_def row_descriptor_def capability_row_of_def capability_descriptor_ok_def
          capability_descriptor_post_init_def subset_iff)
  qed
  have "rmap (\<lambda>row. descriptor_of row (policy_version p)) ?rows =
      Inr (map (row_descriptor (policy_version p)) ?rows)"
    by (rule rmap_all_ok) (rule each)
  moreover have "set (map (row_descriptor (policy_version p)) ?rows) = set ks"
  proof -
    have "row_descriptor (policy_version p) (capability_row_of (bundle_tenant_id b) k) = k"
      if "k \<in> set ks" for k
      using that assms(4,7) caps(1) by (intro row_descriptor_row) auto
    then show ?thesis unfolding set_map rows image_image by simp
  qed
  moreover have "pdb_up ?db" using assms(2) by (simp add: replace_policy_def Let_def)
  ultimately show ?thesis using False by (simp add: list_capabilities_def)
qed

lemma authorize_after_publish:
  assumes "bundle_parts_ok b" "authorization_context_ok a" "auth_tenant_id a = bundle_tenant_id b"
    "pdb_up db"
  shows "(\<exists>d db'. service_authorize postgres_policies (audit_decision hash) rid cid a diag
      (replace_policy b c db) = (Inr d, db')) \<longleftrightarrow>
    (\<exists>k\<in>set (granted_by b a). cap_capability_id k = cid \<and> (diag \<longrightarrow> cap_diagnostics_available k))"
    (is "?lhs \<longleftrightarrow> ?rhs")
proof -
  let ?db = "replace_policy b c db"
  from resolve_after_publish [OF assms, of c] obtain p where p: "resolve_policy ?db a = Inr p"
    "policy_tenant_id p = bundle_tenant_id b" "policy_version p = bundle_version b"
    "set (policy_capability_ids p) = cap_capability_id ` set (granted_by b a)"
    "set (policy_pipeline_names p) = cap_pipeline_name ` set (granted_by b a)"
    using assms(3) by auto
  have sub: "set (granted_by b a) \<subseteq> set (bundle_capabilities b)" by (auto simp: granted_by_def)
  from published_capabilities [OF assms(1,4) p(2,3,4,5) sub, of c] obtain cs
    where cs: "list_capabilities ?db p = Inr cs" "set cs = set (granted_by b a)" by blast
  have same: "k = k'" if "k \<in> set (granted_by b a)" "k' \<in> set (granted_by b a)"
      "cap_capability_id k = cap_capability_id k'" for k k'
    using assms(1) sub that by (auto simp: bundle_parts_ok_def bundle_ok_def distinct_map dest: inj_onD)
  have up: "pdb_up ?db" using assms(4) by (simp add: replace_policy_def Let_def)
  show ?thesis
  proof
    assume ?lhs
    then obtain d db' where run: "service_authorize postgres_policies (audit_decision hash) rid cid a diag ?db
        = (Inr d, db')" by blast
    then obtain k where k: "find (\<lambda>c. cap_capability_id c = cid) cs = Some k"
      "capability_allowed p (Some k) diag"
      by (auto simp: service_authorize_def Let_def prog_simps postgres_policies_def repo_resolve_def
          repo_capability_def p(1) cs(1) capability_allowed_def pipeline_access_decision_post_init_def
          rbind_eq_Inr split: if_splits option.splits)
    then show ?rhs using cs(2) by (auto simp: find_Some_iff capability_allowed_def)
  next
    assume ?rhs
    then obtain k where k: "k \<in> set (granted_by b a)" "cap_capability_id k = cid"
      "diag \<longrightarrow> cap_diagnostics_available k" by blast
    then have "find (\<lambda>c. cap_capability_id c = cid) cs = Some k"
      using cs(2) same by (intro find_unique) auto
    moreover have "capability_allowed p (Some k) diag" using k p by (auto simp: capability_allowed_def)
    ultimately show ?lhs
      using k p(4) up
      by (auto simp: service_authorize_def Let_def sbind_def sthen_def slift_def sreturn_def
          postgres_policies_def repo_resolve_def repo_capability_def p(1) cs(1) audit_decision_def
          pipeline_access_decision_post_init_def access_reason_trimmed)
  qed
qed

end
