(* ===== verification/Ingestion_Data.thy ===== *)
theory Ingestion_Data
  imports Documents
begin

text \<open>
  Ingestion commands, jobs and dataset imports, \<open>sovereignflow/domain/models.py\<close>
  (lines 1220--1232 and 1363--1569).
\<close>

datatype ingestion_job_status = JOB_STAGED | JOB_INDEXING | JOB_INDEXED | JOB_FAILED

datatype dataset_import_status =
  IMPORT_STAGING | IMPORT_RELATING | IMPORT_DELETING | IMPORT_COMPLETED | IMPORT_FAILED

section \<open>Dataset imports\<close>

record dataset_import_request =
  ireq_import_id :: string
  ireq_domain :: string
  ireq_tenant_id :: string
  ireq_dataset_hash :: string
  ireq_source_count :: int
  ireq_chunk_count :: int
  ireq_relationship_count :: int
  ireq_deletion_count :: int

definition dataset_import_request_post_init ::
    "dataset_import_request \<Rightarrow> dataset_import_request result" where
  "dataset_import_request_post_init r =
     rbind (required (ireq_import_id r) ''DatasetImportRequest.import_id'') (\<lambda>i.
     rbind (required (ireq_domain r) ''DatasetImportRequest.domain'') (\<lambda>d.
     rbind (required (ireq_tenant_id r) ''DatasetImportRequest.tenant_id'') (\<lambda>t.
     rbind (required (ireq_dataset_hash r) ''DatasetImportRequest.dataset_hash'') (\<lambda>h.
       if ireq_source_count r < 0
       then Inl (Known ValidationError ''DatasetImportRequest.source_count cannot be negative'')
       else if ireq_chunk_count r < 0
       then Inl (Known ValidationError ''DatasetImportRequest.chunk_count cannot be negative'')
       else if ireq_relationship_count r < 0
       then Inl (Known ValidationError ''DatasetImportRequest.relationship_count cannot be negative'')
       else if ireq_deletion_count r < 0
       then Inl (Known ValidationError ''DatasetImportRequest.deletion_count cannot be negative'')
       else if ireq_source_count r < 1 \<or> ireq_chunk_count r < 1
       then Inl (Known ValidationError ''Dataset import must contain at least one source and chunk'')
       else Inr (r\<lparr>ireq_import_id := i, ireq_domain := d, ireq_tenant_id := t,
                   ireq_dataset_hash := h\<rparr>)))))"

record dataset_import_run =
  irun_import_id :: string
  irun_domain :: string
  irun_tenant_id :: string
  irun_dataset_hash :: string
  irun_status :: dataset_import_status
  irun_source_count :: int
  irun_chunk_count :: int
  irun_relationship_count :: int
  irun_deletion_count :: int
  irun_indexed_sources :: int
  irun_published_relationships :: int
  irun_deleted_sources :: int
  irun_error_code :: "string option"
  irun_error_message :: "string option"

text \<open>The run constructs a request for its checks and keeps its own fields as given.\<close>

definition dataset_import_run_post_init :: "dataset_import_run \<Rightarrow> dataset_import_run result" where
  "dataset_import_run_post_init r =
     rbind (dataset_import_request_post_init
       \<lparr>ireq_import_id = irun_import_id r, ireq_domain = irun_domain r,
        ireq_tenant_id = irun_tenant_id r, ireq_dataset_hash = irun_dataset_hash r,
        ireq_source_count = irun_source_count r, ireq_chunk_count = irun_chunk_count r,
        ireq_relationship_count = irun_relationship_count r,
        ireq_deletion_count = irun_deletion_count r\<rparr>) (\<lambda>_.
       if irun_indexed_sources r < 0
       then Inl (Known ValidationError ''DatasetImportRun.indexed_sources cannot be negative'')
       else if irun_published_relationships r < 0
       then Inl (Known ValidationError ''DatasetImportRun.published_relationships cannot be negative'')
       else if irun_deleted_sources r < 0
       then Inl (Known ValidationError ''DatasetImportRun.deleted_sources cannot be negative'')
       else Inr r)"

record dataset_consistency_report =
  report_domain :: string
  report_tenant_id :: string
  report_active_sources :: int
  report_active_chunks :: int
  report_indexed_chunks :: int
  report_active_relationships :: int

definition dataset_consistency_report_post_init ::
    "dataset_consistency_report \<Rightarrow> dataset_consistency_report result" where
  "dataset_consistency_report_post_init r =
     rbind (required (report_domain r) ''DatasetConsistencyReport.domain'') (\<lambda>d.
     rbind (required (report_tenant_id r) ''DatasetConsistencyReport.tenant_id'') (\<lambda>t.
       if report_active_sources r < 0
       then Inl (Known ValidationError ''DatasetConsistencyReport.active_sources cannot be negative'')
       else if report_active_chunks r < 0
       then Inl (Known ValidationError ''DatasetConsistencyReport.active_chunks cannot be negative'')
       else if report_indexed_chunks r < 0
       then Inl (Known ValidationError ''DatasetConsistencyReport.indexed_chunks cannot be negative'')
       else if report_active_relationships r < 0
       then Inl (Known ValidationError
              ''DatasetConsistencyReport.active_relationships cannot be negative'')
       else Inr (r\<lparr>report_domain := d, report_tenant_id := t\<rparr>)))"

definition report_consistent :: "dataset_consistency_report \<Rightarrow> bool" where
  "report_consistent r \<longleftrightarrow> report_active_chunks r = report_indexed_chunks r"

section \<open>Ingestion commands\<close>

record ingestion_command =
  ing_idempotency_key :: string
  ing_domain :: string
  ing_tenant_id :: string
  ing_source_id :: string
  ing_source_version :: string
  ing_chunks :: "document_chunk list"
  ing_relationships :: "graph_relationship list"
  ing_source_uri :: "string option"
  ing_metadata :: mapping

text \<open>
  The loop over the chunks compares with the command's normalised identity and collects the
  chunk identifiers; the loop over the relationships collects their keys.
\<close>

fun check_chunks ::
    "string \<Rightarrow> string \<Rightarrow> string \<Rightarrow> document_chunk list \<Rightarrow> string list \<Rightarrow> string list result" where
  "check_chunks d t s [] chunk_ids = Inr chunk_ids"
| "check_chunks d t s (c # cs) chunk_ids =
     (if chunk_domain c \<noteq> d \<or> chunk_tenant_id c \<noteq> t \<or> chunk_source_id c \<noteq> s
      then Inl (Known ValidationError
             ''Every ingestion chunk must match command domain, tenant and source'')
      else if chunk_id c \<in> set chunk_ids
      then Inl (Known ValidationError (''Duplicate ingestion chunk id: '' @ chunk_id c))
      else check_chunks d t s cs (chunk_id c # chunk_ids))"

type_synonym relationship_key_tuple = "string \<times> string \<times> string \<times> string \<times> string"

definition relationship_key :: "graph_relationship \<Rightarrow> relationship_key_tuple" where
  "relationship_key r =
     (node_source_id (rel_from_node r), node_chunk_id (rel_from_node r),
      node_source_id (rel_to_node r), node_chunk_id (rel_to_node r), rel_type r)"

fun check_relationships ::
    "string \<Rightarrow> string list \<Rightarrow> graph_relationship list \<Rightarrow> relationship_key_tuple list \<Rightarrow> unit result" where
  "check_relationships s chunk_ids [] keys = Inr ()"
| "check_relationships s chunk_ids (r # rs) keys =
     (if node_source_id (rel_from_node r) \<noteq> s
      then Inl (Known ValidationError
             ''Every ingestion relationship must originate from the command source'')
      else if node_chunk_id (rel_from_node r) \<notin> set chunk_ids
      then Inl (Known ValidationError
             ''Every ingestion relationship must originate from an ingested chunk'')
      else if node_source_id (rel_to_node r) = s \<and> node_chunk_id (rel_to_node r) \<notin> set chunk_ids
      then Inl (Known ValidationError ''An internal relationship target must be an ingested chunk'')
      else if relationship_key r \<in> set keys
      then Inl (Known ValidationError ''Duplicate ingestion relationship'')
      else check_relationships s chunk_ids rs (relationship_key r # keys))"

definition ingestion_command_post_init :: "ingestion_command \<Rightarrow> ingestion_command result" where
  "ingestion_command_post_init c =
     rbind (required (ing_idempotency_key c) ''IngestionCommand.idempotency_key'') (\<lambda>k.
     rbind (required (ing_domain c) ''IngestionCommand.domain'') (\<lambda>d.
     rbind (required (ing_tenant_id c) ''IngestionCommand.tenant_id'') (\<lambda>t.
     rbind (required (ing_source_id c) ''IngestionCommand.source_id'') (\<lambda>s.
     rbind (required (ing_source_version c) ''IngestionCommand.source_version'') (\<lambda>v.
       if ing_chunks c = []
       then Inl (Known ValidationError ''IngestionCommand.chunks cannot be empty'')
       else
         rbind (check_chunks d t s (ing_chunks c) []) (\<lambda>chunk_ids.
         rbind (check_relationships s chunk_ids (ing_relationships c) []) (\<lambda>_.
           Inr (c\<lparr>ing_idempotency_key := k, ing_domain := d, ing_tenant_id := t,
                  ing_source_id := s, ing_source_version := v\<rparr>))))))))"

record ingestion_job =
  job_job_id :: string
  job_payload_hash :: string
  job_status :: ingestion_job_status
  job_command :: ingestion_command
  job_attempts :: int

definition ingestion_job_post_init :: "ingestion_job \<Rightarrow> ingestion_job result" where
  "ingestion_job_post_init j =
     rbind (required (job_job_id j) ''IngestionJob.job_id'') (\<lambda>i.
     rbind (required (job_payload_hash j) ''IngestionJob.payload_hash'') (\<lambda>h.
       if job_attempts j < 0
       then Inl (Known ValidationError ''IngestionJob.attempts cannot be negative'')
       else Inr (j\<lparr>job_job_id := i, job_payload_hash := h\<rparr>)))"

record ingestion_result =
  ires_job_id :: string
  ires_domain :: string
  ires_tenant_id :: string
  ires_source_id :: string
  ires_source_version :: string
  ires_status :: ingestion_job_status
  ires_chunk_count :: int

definition ingestion_result_post_init :: "ingestion_result \<Rightarrow> ingestion_result result" where
  "ingestion_result_post_init r =
     rbind (required (ires_job_id r) ''IngestionResult.job_id'') (\<lambda>j.
     rbind (required (ires_domain r) ''IngestionResult.domain'') (\<lambda>d.
     rbind (required (ires_tenant_id r) ''IngestionResult.tenant_id'') (\<lambda>t.
     rbind (required (ires_source_id r) ''IngestionResult.source_id'') (\<lambda>s.
     rbind (required (ires_source_version r) ''IngestionResult.source_version'') (\<lambda>v.
       if ires_chunk_count r < 1
       then Inl (Known ValidationError ''IngestionResult.chunk_count must be greater than zero'')
       else Inr (r\<lparr>ires_job_id := j, ires_domain := d, ires_tenant_id := t,
                   ires_source_id := s, ires_source_version := v\<rparr>))))))"

section \<open>Well-formed commands\<close>

definition command_ok :: "ingestion_command \<Rightarrow> bool" where
  "command_ok c \<longleftrightarrow> trimmed (ing_idempotency_key c) \<and> trimmed (ing_domain c) \<and>
     trimmed (ing_tenant_id c) \<and> trimmed (ing_source_id c) \<and> trimmed (ing_source_version c) \<and>
     ing_chunks c \<noteq> [] \<and>
     (\<forall>x\<in>set (ing_chunks c). chunk_domain x = ing_domain c \<and> chunk_tenant_id x = ing_tenant_id c \<and>
        chunk_source_id x = ing_source_id c) \<and>
     distinct (map chunk_id (ing_chunks c)) \<and>
     (\<forall>r\<in>set (ing_relationships c).
        node_source_id (rel_from_node r) = ing_source_id c \<and>
        node_chunk_id (rel_from_node r) \<in> set (map chunk_id (ing_chunks c)) \<and>
        (node_source_id (rel_to_node r) = ing_source_id c \<longrightarrow>
           node_chunk_id (rel_to_node r) \<in> set (map chunk_id (ing_chunks c)))) \<and>
     distinct (map relationship_key (ing_relationships c))"

lemma check_chunks_Inr:
  "check_chunks d t s cs ids = Inr ids' \<longleftrightarrow>
     (\<forall>x\<in>set cs. chunk_domain x = d \<and> chunk_tenant_id x = t \<and> chunk_source_id x = s) \<and>
     distinct (map chunk_id cs) \<and> set (map chunk_id cs) \<inter> set ids = {} \<and>
     ids' = rev (map chunk_id cs) @ ids"
  by (induction cs arbitrary: ids) auto

lemma check_relationships_Inr:
  "check_relationships s ids rs keys = Inr u \<longleftrightarrow>
     (\<forall>r\<in>set rs. node_source_id (rel_from_node r) = s \<and> node_chunk_id (rel_from_node r) \<in> set ids \<and>
        (node_source_id (rel_to_node r) = s \<longrightarrow> node_chunk_id (rel_to_node r) \<in> set ids)) \<and>
     distinct (map relationship_key rs) \<and> set (map relationship_key rs) \<inter> set keys = {}"
  by (induction rs arbitrary: keys) auto

lemma ingestion_command_post_init_iff:
  "ingestion_command_post_init c = Inr c' \<longleftrightarrow>
     c' = c\<lparr>ing_idempotency_key := strip (ing_idempotency_key c), ing_domain := strip (ing_domain c),
            ing_tenant_id := strip (ing_tenant_id c), ing_source_id := strip (ing_source_id c),
            ing_source_version := strip (ing_source_version c)\<rparr> \<and> command_ok c'"
  by (auto simp: ingestion_command_post_init_def command_ok_def rbind_eq_Inr required_Inr
      check_chunks_Inr check_relationships_Inr split: if_splits)

lemma ingestion_command_post_init_ok: "ingestion_command_post_init c = Inr c' \<Longrightarrow> command_ok c'"
  using ingestion_command_post_init_iff by blast

lemma ingestion_command_post_init_idem: "command_ok c \<Longrightarrow> ingestion_command_post_init c = Inr c"
  unfolding ingestion_command_post_init_iff by (auto simp: command_ok_def trimmed_def)

lemma command_ok_no_relationships: "command_ok c \<Longrightarrow> command_ok (c\<lparr>ing_relationships := []\<rparr>)"
  by (simp add: command_ok_def)

end
