(* ===== verification/Access_Properties.thy ===== *)
theory Access_Properties
  imports Authorization_Service Ingestion_Data Conversations Examples
begin

text \<open>
  The properties of the domain values, of the security model and of access policies, with their
  witnesses.
\<close>

section \<open>Constructed values\<close>

text \<open>
  A constructed pipeline step is well formed (trimmed identifiers, distinct routes, frozen
  configuration, a terminal step without targets) and constructing it again changes nothing.
\<close>

theorem step_constructed:
  assumes "pipeline_step_definition_post_init s = Inr s'"
  shows "step_ok s' \<and> pipeline_step_definition_post_init s' = Inr s'"
  using step_post_init_ok [OF assms] step_post_init_idem by blast

lemma step_constructed_witness:
  "\<exists>s'. pipeline_step_definition_post_init (demo_step '' finalize '' ''1.0'' None [(''k '', PList [PInt 1])]) = Inr s' \<and>
     step_ok s' \<and> step_id s' = ''finalize'' \<and> step_config s' = [(''k'', PTuple [PInt 1])]"
proof -
  let ?s = "demo_step '' finalize '' ''1.0'' None [(''k '', PList [PInt 1])]"
  have "map_sum id (\<lambda>s. (step_id s, step_config s)) (pipeline_step_definition_post_init ?s) =
      Inr (''finalize'', [(''k'', PTuple [PInt 1])])" by code_simp
  then obtain s' where s': "pipeline_step_definition_post_init ?s = Inr s'" "step_id s' = ''finalize''"
    "step_config s' = [(''k'', PTuple [PInt 1])]"
    by (cases "pipeline_step_definition_post_init ?s") auto
  from step_constructed [OF s'(1)] s' show ?thesis by blast
qed

text \<open>
  A constructed access policy bundle has a positive version that all its capabilities carry,
  unique capabilities, mappings and grants that only name its groups and capabilities, and
  constructing it again changes nothing.
\<close>

theorem bundle_constructed:
  assumes "access_policy_bundle_post_init b = Inr b'"
  shows "1 \<le> bundle_version b' \<and>
    distinct (map cap_capability_id (bundle_capabilities b')) \<and>
    (\<forall>c\<in>set (bundle_capabilities b'). cap_policy_version c = bundle_version b') \<and>
    claim_group_id ` set (bundle_claim_mappings b') \<subseteq> set (bundle_group_ids b') \<and>
    grant_group_id ` set (bundle_grants b') \<subseteq> set (bundle_group_ids b') \<and>
    grant_capability_id ` set (bundle_grants b') \<subseteq> cap_capability_id ` set (bundle_capabilities b') \<and>
    access_policy_bundle_post_init b' = Inr b'"
proof -
  from access_policy_bundle_post_init_ok [OF assms] have ok: "bundle_ok b'" .
  from access_policy_bundle_post_init_idem [OF ok] ok show ?thesis
    by (auto simp: bundle_ok_def)
qed

definition demo_capability :: capability_descriptor where
  "demo_capability = \<lparr>cap_capability_id = ''ask'', cap_display_name = ''Ask'', cap_description = [],
     cap_domain = ''docs'', cap_pipeline_name = ''direct-rag'', cap_diagnostics_available = False,
     cap_external_model = False, cap_policy_version = 3\<rparr>"

definition demo_bundle :: access_policy_bundle where
  "demo_bundle = \<lparr>bundle_tenant_id = ''acme'', bundle_version = 3, bundle_group_ids = [''staff''],
     bundle_claim_mappings = [\<lparr>claim_name = ''roles'', claim_value = ''reader'', claim_group_id = ''staff''\<rparr>],
     bundle_capabilities = [demo_capability],
     bundle_grants = [\<lparr>grant_group_id = ''staff'', grant_capability_id = ''ask''\<rparr>]\<rparr>"

lemma demo_bundle_constructed: "access_policy_bundle_post_init demo_bundle = Inr demo_bundle"
  by code_simp

lemma bundle_constructed_witness:
  "list_all (\<lambda>c. cap_policy_version c = bundle_version demo_bundle) (bundle_capabilities demo_bundle) \<and>
   claim_group_id ` set (bundle_claim_mappings demo_bundle) \<subseteq> set (bundle_group_ids demo_bundle)"
  using bundle_constructed [OF demo_bundle_constructed] unfolding list_all_iff by blast

text \<open>
  An ingestion command is accepted exactly when its chunks are non-empty, of its own domain,
  tenant and source with distinct ids, and its relationships start from its chunks, stay within
  them when internal, and are distinct; construction only trims the five identifiers.
\<close>

theorem ingestion_command_exact:
  "ingestion_command_post_init c = Inr c' \<longleftrightarrow>
     c' = c\<lparr>ing_idempotency_key := strip (ing_idempotency_key c), ing_domain := strip (ing_domain c),
            ing_tenant_id := strip (ing_tenant_id c), ing_source_id := strip (ing_source_id c),
            ing_source_version := strip (ing_source_version c)\<rparr> \<and> command_ok c'"
  by (rule ingestion_command_post_init_iff)

text \<open>
  The status of a constructed conversation turn decides which of its optional fields are
  present: an answer exactly when finalized, an error only when failed or discarded, and an end
  time exactly when it is no longer started.
\<close>

theorem turn_fields_by_status:
  assumes "conversation_turn_post_init t = Inr t'"
  shows "(turn_answer_text t' \<noteq> None \<longleftrightarrow> turn_status t' = TURN_FINALIZED) \<and>
    (turn_finalized_at t' \<noteq> None \<longleftrightarrow> turn_status t' \<noteq> TURN_STARTED) \<and>
    (turn_error_code t' \<noteq> None \<longrightarrow> turn_status t' \<in> {TURN_FAILED, TURN_DISCARDED}) \<and>
    (turn_status t' = TURN_FAILED \<longrightarrow> turn_error_code t' \<noteq> None) \<and>
    conversation_turn_post_init t' = Inr t'"
proof -
  from turn_post_init_ok [OF assms] have ok: "turn_ok t'" .
  from turn_post_init_idem [OF ok] ok show ?thesis
    by (cases "turn_status t'") (auto simp: turn_ok_def turn_status_check_iff)
qed

definition demo_turn :: conversation_turn where
  "demo_turn = \<lparr>turn_turn_id = ''t1'', turn_conversation_id = ''c1'', turn_request_id = ''r1'',
     turn_sequence_number = 1, turn_question_text = ''why'', turn_status = TURN_FAILED,
     turn_created_at = ''1'', turn_answer_text = None, turn_finalized_at = Some ''2'',
     turn_error_code = Some ''timeout'', turn_metadata = []\<rparr>"

lemma demo_turn_constructed: "conversation_turn_post_init demo_turn = Inr demo_turn"
  by code_simp

lemma turn_fields_by_status_witness: "turn_error_code demo_turn \<noteq> None"
  using turn_fields_by_status [OF demo_turn_constructed] by (simp add: demo_turn_def)

section \<open>The security model\<close>

text \<open>
  Under a clearance-level model a document is visible exactly when both labels are present,
  both are levels of the model (after trimming) and the subject's value is at least the document's.
\<close>

theorem clearance_visibility_exact:
  assumes "model_kind m = CLEARANCE_LEVEL" "model_clearance_level m = Some c"
  shows "(\<exists>dec. document_visible_to_subject m d s = Inr dec \<and> decision_allowed dec) \<longleftrightarrow>
    (\<exists>dl sl dv sv. doc_clearance_label d = Some dl \<and> subj_clearance_label s = Some sl \<and>
       strip dl \<noteq> [] \<and> strip sl \<noteq> [] \<and>
       map_of (levels c) (strip dl) = Some dv \<and> map_of (levels c) (strip sl) = Some sv \<and> dv \<le> sv)"
proof -
  have "(\<exists>dec. document_visible_to_subject m d s = Inr dec \<and> decision_allowed dec) \<longleftrightarrow>
      granted (document_visible_to_subject m d s)"
    by (cases "document_visible_to_subject m d s") auto
  also note visible_clearance [OF assms]
  finally show ?thesis unfolding clearance_value_Inr by blast
qed

lemma clearance_visibility_exact_witness:
  "\<exists>dec. document_visible_to_subject demo_model
     \<lparr>doc_clearance_label = Some ''public'', doc_classification_labels = []\<rparr>
     \<lparr>subj_clearance_label = Some ''secret'', subj_classification_labels = []\<rparr> = Inr dec \<and>
   decision_allowed dec"
  by (subst clearance_visibility_exact [where c = demo_levels])
    (simp_all add: demo_model_def demo_levels_def strip_nonspace py_isspace_def)

text \<open>
  C21: Under a clearance-level model a server of that kind satisfies the requirement computed from
  the retrieved hits exactly when, read with the server's own label, every hit is visible.
\<close>

theorem server_clearance_exact:
  assumes "model_kind m = CLEARANCE_LEVEL" "model_clearance_level m = Some c"
    "clearance_level_model_ok c"
    "server_model_kind (server_security_profile s) = CLEARANCE_LEVEL"
    "context_security_requirement m hits = Inr r"
  shows "granted (model_server_satisfies_requirement m s r) \<longleftrightarrow> server_cleared_for m s hits"
  by (rule satisfies_clearance_iff [OF assms])

definition demo_requirement :: security_requirement where
  "demo_requirement = \<lparr>req_model_kind = CLEARANCE_LEVEL, req_clearance_label = Some ''secret'',
     req_classification_labels = []\<rparr>"

lemma server_clearance_exact_witness:
  "granted (model_server_satisfies_requirement demo_model (rt_definition demo_server) demo_requirement) \<longleftrightarrow>
   server_cleared_for demo_model (rt_definition demo_server)
     [demo_hit ''c1'' ''public'', demo_hit ''c2'' ''secret'']"
proof -
  have "context_security_requirement demo_model [demo_hit ''c1'' ''public'', demo_hit ''c2'' ''secret''] =
      Inr demo_requirement" by code_simp
  then show ?thesis
    by (intro server_clearance_exact [where c = demo_levels])
      (simp_all add: demo_model_def demo_server_def clearance_level_model_ok_def demo_levels_def
        trimmed_def strip_nonspace py_isspace_def)
qed

text \<open>
  The same under a model of classification labels, for a server whose labels are in the
  universe of the model: the union of the labels of the hits must be among the server's.
\<close>

theorem server_labels_exact:
  assumes "model_kind m = CLASSIFICATION_LABELS" "model_classification_labels m = Some c"
    "label_tuple (labels_universe_subset c)"
    "server_model_kind (server_security_profile s) = CLASSIFICATION_LABELS"
    "is_ok (validate_labels c (server_classification_labels (server_security_profile s))
       ''ModelServerSecurityProfile.classification_labels'')"
    "context_security_requirement m hits = Inr r"
  shows "granted (model_server_satisfies_requirement m s r) \<longleftrightarrow> server_cleared_for m s hits"
  using assms(5) by (intro satisfies_labels_iff [OF assms(1-4) _ assms(6)]) (simp add: is_ok_iff)

definition demo_labels_model :: security_model where
  "demo_labels_model = \<lparr>model_kind = CLASSIFICATION_LABELS, model_clearance_level = None,
     model_classification_labels = Some \<lparr>labels_universe_subset = [''a'', ''b'']\<rparr>\<rparr>"

definition demo_labels_server :: model_server_definition where
  "demo_labels_server = \<lparr>server_id = ''s'', server_trust_boundary = INTERNAL,
     server_security_profile = \<lparr>server_model_kind = CLASSIFICATION_LABELS,
       server_clearance_label = None, server_classification_labels = [''a'']\<rparr>,
     server_security_reroute_server_id = None\<rparr>"

definition demo_labelled_hit :: "string \<Rightarrow> search_hit" where
  "demo_labelled_hit l = (demo_hit ''c1'' ''public'')\<lparr>hit_chunk :=
     (hit_chunk (demo_hit ''c1'' ''public''))\<lparr>chunk_security :=
       \<lparr>doc_clearance_label = None, doc_classification_labels = [l]\<rparr>\<rparr>\<rparr>"

lemma server_labels_exact_witness:
  "\<not> server_cleared_for demo_labels_model demo_labels_server [demo_labelled_hit ''a'', demo_labelled_hit ''b'']"
proof -
  let ?hits = "[demo_labelled_hit ''a'', demo_labelled_hit ''b'']"
  let ?r = "\<lparr>req_model_kind = CLASSIFICATION_LABELS, req_clearance_label = None,
    req_classification_labels = [''a'', ''b'']\<rparr>"
  have req: "context_security_requirement demo_labels_model ?hits = Inr ?r" by code_simp
  have valid: "is_ok (validate_labels \<lparr>labels_universe_subset = [''a'', ''b'']\<rparr>
      (server_classification_labels (server_security_profile demo_labels_server))
      ''ModelServerSecurityProfile.classification_labels'')" by code_simp
  have refused: "\<not> granted (model_server_satisfies_requirement demo_labels_model demo_labels_server ?r)"
    by code_simp
  have "granted (model_server_satisfies_requirement demo_labels_model demo_labels_server ?r) \<longleftrightarrow>
      server_cleared_for demo_labels_model demo_labels_server ?hits"
    by (rule server_labels_exact [OF _ _ _ _ valid req])
      (simp_all add: demo_labels_model_def demo_labels_server_def label_tuple_def trimmed_def
        strip_nonspace py_isspace_def)
  with refused show ?thesis by blast
qed

section \<open>Access policies\<close>

text \<open>
  C15: After a bundle is published, an authenticated subject of its tenant is authorized for a
  capability exactly when one of the subject's groups or roles maps to a group that the bundle
  grants it to, and the capability offers diagnostics if they are requested.
\<close>

theorem publish_then_authorize:
  assumes "bundle_parts_ok b" "authorization_context_ok a" "auth_tenant_id a = bundle_tenant_id b"
    "pdb_up db" "repo_publish b expected db = (Inr u, db')"
  shows "(\<exists>d db''. service_authorize postgres_policies (audit_decision hash) rid cid a diag db' =
      (Inr d, db'')) \<longleftrightarrow>
    (\<exists>k\<in>set (bundle_capabilities b). cap_capability_id k = cid \<and> (\<not> diag \<or> cap_diagnostics_available k) \<and>
       (\<exists>g\<in>set (bundle_grants b). grant_capability_id g = cid \<and>
         (\<exists>m\<in>set (bundle_claim_mappings b). claim_group_id m = grant_group_id g \<and> mapping_applies a m)))"
proof -
  from assms(5) have db': "db' = replace_policy b (stored_version db (bundle_tenant_id b)) db"
    by (auto simp: repo_publish_def Let_def split: if_splits)
  show ?thesis unfolding db' authorize_after_publish [OF assms(1-4)] granted_by_def
    by (auto simp: list_ex_iff)
qed

definition demo_reader :: authorization_context where
  "demo_reader = demo_authorization\<lparr>auth_roles := [''reader'']\<rparr>"

definition empty_policy_db :: policy_db where
  "empty_policy_db = \<lparr>pdb_versions = [], pdb_groups = [], pdb_mappings = [], pdb_capabilities = [],
     pdb_grants = [], pdb_changes = [], pdb_decisions = [], pdb_up = True\<rparr>"

lemma demo_parts: "bundle_parts_ok demo_bundle" "authorization_context_ok demo_reader"
  by code_simp+

lemma publish_then_authorize_witness:
  "(\<exists>d db''. service_authorize postgres_policies (audit_decision (\<lambda>s. ''h'')) ''r1'' ''ask'' demo_reader False
     (replace_policy demo_bundle None empty_policy_db) = (Inr d, db'')) \<and>
   \<not> (\<exists>d db''. service_authorize postgres_policies (audit_decision (\<lambda>s. ''h'')) ''r1'' ''ask'' demo_reader True
     (replace_policy demo_bundle None empty_policy_db) = (Inr d, db''))"
proof -
  have tenant: "auth_tenant_id demo_reader = bundle_tenant_id demo_bundle"
    by (simp add: demo_reader_def demo_authorization_def demo_bundle_def)
  have up: "pdb_up empty_policy_db" by (simp add: empty_policy_db_def)
  have pub: "repo_publish demo_bundle None empty_policy_db =
      (Inr (), replace_policy demo_bundle None empty_policy_db)"
    by (simp add: repo_publish_def empty_policy_db_def stored_version_def)
  note iff = publish_then_authorize [OF demo_parts tenant up pub, of "\<lambda>s. ''h''" "''r1''" "''ask''"]
  show ?thesis unfolding iff
    by (simp add: demo_bundle_def demo_capability_def demo_reader_def demo_authorization_def
        mapping_applies_def)
qed

text \<open>
  An authorization is returned only for the requested capability, granted together with its
  pipeline by the policy resolved for the caller's own tenant, and exactly one row recording it as
  allowed has been added to the audit, under the hash of the subject.
\<close>

theorem authorization_on_record:
  assumes "service_authorize postgres_policies (audit_decision hash) rid cid a diag db = (Inr d, db')"
  shows "\<exists>c row. access_allowed d \<and> access_capability d = Some c \<and> cap_capability_id c = cid \<and>
    cid \<in> set (policy_capability_ids (access_policy d)) \<and>
    cap_pipeline_name c \<in> set (policy_pipeline_names (access_policy d)) \<and>
    (diag \<longrightarrow> cap_diagnostics_available c) \<and>
    policy_tenant_id (access_policy d) = strip (auth_tenant_id a) \<and>
    pdb_decisions db' = pdb_decisions db @ [row] \<and> drow_allowed row \<and> drow_capability_id row = cid \<and>
    drow_tenant row = auth_tenant_id a \<and> drow_subject_hash row = hash (auth_subject a)"
  by (rule postgres.authorize_returns [OF assms])

lemma demo_authorized:
  "is_ok (fst (service_authorize postgres_policies (audit_decision (\<lambda>s. ''h'')) ''r1'' ''ask'' demo_reader False
     (replace_policy demo_bundle None empty_policy_db)))"
  by code_simp

lemma authorization_on_record_witness:
  "\<exists>row. pdb_decisions (snd (service_authorize postgres_policies (audit_decision (\<lambda>s. ''h'')) ''r1'' ''ask''
     demo_reader False (replace_policy demo_bundle None empty_policy_db))) = [row] \<and> drow_allowed row"
proof -
  let ?run = "service_authorize postgres_policies (audit_decision (\<lambda>s. ''h'')) ''r1'' ''ask''
     demo_reader False (replace_policy demo_bundle None empty_policy_db)"
  from demo_authorized obtain d db' where run: "?run = (Inr d, db')"
    by (cases "?run") (auto simp: is_ok_iff)
  have "pdb_decisions (replace_policy demo_bundle None empty_policy_db) = []"
    by (simp add: replace_policy_def empty_policy_db_def Let_def)
  with authorization_on_record [OF run] run show ?thesis by auto
qed


text \<open>
  Publishing a bundle changes nothing of what subjects of other tenants resolve.
\<close>

theorem publish_tenant_isolation:
  assumes "auth_tenant_id a \<noteq> bundle_tenant_id b" "repo_publish b expected db = (r, db')"
  shows "fst (repo_resolve a db') = fst (repo_resolve a db)"
  using assms(2) resolve_other_tenant [OF assms(1)]
  by (auto simp: repo_publish_def repo_resolve_def Let_def split: if_splits)

lemma publish_tenant_isolation_witness:
  "fst (repo_resolve (demo_reader\<lparr>auth_tenant_id := ''other''\<rparr>)
     (snd (repo_publish demo_bundle None empty_policy_db))) =
   fst (repo_resolve (demo_reader\<lparr>auth_tenant_id := ''other''\<rparr>) empty_policy_db)"
proof -
  have "auth_tenant_id (demo_reader\<lparr>auth_tenant_id := ''other''\<rparr>) \<noteq> bundle_tenant_id demo_bundle"
    by (simp add: demo_bundle_def)
  from publish_tenant_isolation [OF this surjective_pairing] show ?thesis .
qed

end
