(* ===== verification/Document_Store.thy ===== *)
theory Document_Store
  imports Ingestion_Data
begin

text \<open>
  The tables of migrations 002, 003 and 005 that the ingestion repository writes and the graph
  traversal reads, as lists of rows, with the joins both use. \<open>ddb_up\<close> says whether the server
  answers. \<open>ddb_jsonb\<close> is what a JSONB column gives back for a mapping written through
  \<open>json.dumps\<close>, \<open>None\<close> when it is refused; \<open>ddb_uuid\<close> is what the server reads a text as a UUID to, again as a text.
  Timestamps, which no method reads back, are left out.
\<close>

section \<open>Rows\<close>

record source_key =
  key_tenant :: string
  key_domain :: string
  key_source :: string

record version_row =
  vrow_key :: source_key
  vrow_version :: string
  vrow_uri :: "string option"
  vrow_payload_hash :: string
  vrow_metadata :: mapping

record chunk_row =
  krow_key :: source_key
  krow_version :: string
  krow_chunk_id :: string
  krow_position :: nat
  krow_uri :: "string option"
  krow_text :: string
  krow_metadata :: mapping
  krow_acl_labels :: "string list"
  krow_clearance_label :: "string option"
  krow_classification_labels :: "string list"

record relationship_row =
  rrow_owner :: source_key
  rrow_version :: string
  rrow_from_source :: string
  rrow_from_chunk :: string
  rrow_to_source :: string
  rrow_to_chunk :: string
  rrow_type :: string
  rrow_metadata :: mapping

record job_row =
  jrow_id :: string
  jrow_key :: source_key
  jrow_version :: string
  jrow_idempotency_key :: string
  jrow_payload_hash :: string
  jrow_status :: ingestion_job_status
  jrow_attempts :: int
  jrow_error_code :: "string option"
  jrow_error_message :: "string option"

record source_row =
  srow_key :: source_key
  srow_version :: string
  srow_job_id :: string

record document_db =
  ddb_versions :: "version_row list"
  ddb_chunks :: "chunk_row list"
  ddb_relationships :: "relationship_row list"
  ddb_jobs :: "job_row list"
  ddb_sources :: "source_row list"
  ddb_imports :: "dataset_import_run list"
  ddb_up :: bool
  ddb_jsonb :: "mapping \<Rightarrow> mapping option"
  ddb_uuid :: "string \<Rightarrow> string option"

type_synonym 'a document_prog = "(document_db, py_exn, 'a) prog"

definition source_key_of :: "string \<Rightarrow> string \<Rightarrow> string \<Rightarrow> source_key" where
  "source_key_of tenant domain source =
     \<lparr>key_tenant = tenant, key_domain = domain, key_source = source\<rparr>"

lemma source_key_eq [simp]:
  "source_key_of t d s = source_key_of t' d' s' \<longleftrightarrow> t = t' \<and> d = d' \<and> s = s'"
  "key_tenant (source_key_of t d s) = t" "key_domain (source_key_of t d s) = d"
  "key_source (source_key_of t d s) = s"
  by (auto simp: source_key_of_def)

lemma source_key_surj: "source_key_of (key_tenant k) (key_domain k) (key_source k) = k"
  by (simp add: source_key_of_def)

section \<open>Current versions\<close>

definition current_source :: "document_db \<Rightarrow> source_key \<Rightarrow> source_row option" where
  "current_source db k = find (\<lambda>r. srow_key r = k) (ddb_sources db)"

text \<open>\<open>JOIN sf.sources ... ON ... current_version = ...\<close>.\<close>

definition is_current :: "document_db \<Rightarrow> source_key \<Rightarrow> string \<Rightarrow> bool" where
  "is_current db k version \<longleftrightarrow>
     list_ex (\<lambda>r. srow_key r = k \<and> srow_version r = version) (ddb_sources db)"

definition current_chunks :: "document_db \<Rightarrow> string \<Rightarrow> string \<Rightarrow> chunk_row list" where
  "current_chunks db tenant domain =
     filter (\<lambda>c. key_tenant (krow_key c) = tenant \<and> key_domain (krow_key c) = domain \<and>
       is_current db (krow_key c) (krow_version c)) (ddb_chunks db)"

definition current_relationships :: "document_db \<Rightarrow> string \<Rightarrow> string \<Rightarrow> relationship_row list" where
  "current_relationships db tenant domain =
     filter (\<lambda>r. key_tenant (rrow_owner r) = tenant \<and> key_domain (rrow_owner r) = domain \<and>
       is_current db (rrow_owner r) (rrow_version r)) (ddb_relationships db)"

text \<open>The endpoints and type of a relationship, in the order of its primary key.\<close>

definition relationship_order ::
    "relationship_row \<Rightarrow> string \<times> string \<times> string \<times> string \<times> string" where
  "relationship_order r = (rrow_from_source r, rrow_from_chunk r, rrow_to_source r, rrow_to_chunk r, rrow_type r)"

section \<open>Reading a chunk back\<close>

text \<open>The \<open>DocumentChunk\<close> both readers build from a row of \<open>sf.chunks\<close>.\<close>

definition chunk_of_row :: "string \<Rightarrow> string \<Rightarrow> string \<Rightarrow> chunk_row \<Rightarrow> document_chunk result" where
  "chunk_of_row tenant domain source c =
     rbind (document_security_post_init
       \<lparr>doc_clearance_label = krow_clearance_label c,
        doc_classification_labels = krow_classification_labels c\<rparr>) (\<lambda>sec.
       document_chunk_post_init
         \<lparr>chunk_id = krow_chunk_id c, chunk_domain = domain, chunk_tenant_id = tenant,
          chunk_source_id = source, chunk_text = krow_text c, chunk_source_uri = krow_uri c,
          chunk_metadata = krow_metadata c, chunk_acl_labels = krow_acl_labels c,
          chunk_security = sec\<rparr>)"

section \<open>Well-formed rows\<close>

text \<open>What the constructors of the commands that were staged leave in a row.\<close>

definition chunk_row_ok :: "chunk_row \<Rightarrow> bool" where
  "chunk_row_ok c \<longleftrightarrow> trimmed (key_tenant (krow_key c)) \<and> trimmed (key_domain (krow_key c)) \<and>
     trimmed (key_source (krow_key c)) \<and> trimmed (krow_chunk_id c) \<and> trimmed (krow_text c) \<and>
     label_tuple (krow_acl_labels c) \<and> trimmed_opt (krow_clearance_label c) \<and>
     label_tuple (krow_classification_labels c)"

definition row_chunk :: "chunk_row \<Rightarrow> document_chunk" where
  "row_chunk c =
     \<lparr>chunk_id = krow_chunk_id c, chunk_domain = key_domain (krow_key c),
      chunk_tenant_id = key_tenant (krow_key c), chunk_source_id = key_source (krow_key c),
      chunk_text = krow_text c, chunk_source_uri = krow_uri c, chunk_metadata = krow_metadata c,
      chunk_acl_labels = krow_acl_labels c,
      chunk_security = \<lparr>doc_clearance_label = krow_clearance_label c,
        doc_classification_labels = krow_classification_labels c\<rparr>\<rparr>"

lemma chunk_of_row_ok:
  assumes "chunk_row_ok c"
  shows "chunk_of_row (key_tenant (krow_key c)) (key_domain (krow_key c)) (key_source (krow_key c)) c =
    Inr (row_chunk c)"
  using assms
  by (simp add: chunk_of_row_def chunk_row_ok_def row_chunk_def document_security_post_init_idem
      document_security_ok_def document_chunk_post_init_idem document_chunk_ok_def)

definition relationship_row_ok :: "relationship_row \<Rightarrow> bool" where
  "relationship_row_ok r \<longleftrightarrow> trimmed (rrow_from_source r) \<and> trimmed (rrow_from_chunk r) \<and>
     trimmed (rrow_to_source r) \<and> trimmed (rrow_to_chunk r) \<and> trimmed (rrow_type r) \<and>
     rrow_from_source r = key_source (rrow_owner r)"

end
