(* ===== verification/Graph_Traversal.thy ===== *)
theory Graph_Traversal
  imports Document_Store Action_Support
begin

text \<open>
  \<open>infrastructure/graph.py\<close>: the breadth-first expansion of retrieved chunks along the relationships
  of current source versions. A frontier is a dictionary from nodes to the score of the seed and
  the relationship types of the path; a query of the database is a filter over its tables.
\<close>

section \<open>Keys and filters\<close>

type_synonym path_state = "rat \<times> string list"
type_synonym frontier = "(graph_node_ref \<times> path_state) list"

definition node_separator :: string where
  "node_separator = [CHR 0x1F]"

definition node_key :: "graph_node_ref \<Rightarrow> string" where
  "node_key n = node_source_id n @ node_separator @ node_chunk_id n"

definition make_node :: "string \<Rightarrow> string \<Rightarrow> graph_node_ref result" where
  "make_node s c = graph_node_ref_post_init (node_ref s c)"

text \<open>\<open>_security_filter\<close>: the SQL clause as the test it is on a row.\<close>

definition security_filter :: "graph_traversal_request \<Rightarrow> (chunk_row \<Rightarrow> bool) result" where
  "security_filter request =
     (let model = trav_security_model request; subject = trav_subject_security request
      in case model_kind model of
        NO_MODEL \<Rightarrow> Inr (\<lambda>_. True)
      | CLEARANCE_LEVEL \<Rightarrow>
          (case (model_clearance_level model, subj_clearance_label subject) of
             (Some clearance, Some label) \<Rightarrow>
               rbind (allowed_document_labels clearance label) (\<lambda>labels.
                 Inr (\<lambda>c. case krow_clearance_label c of None \<Rightarrow> False | Some l \<Rightarrow> l \<in> set labels))
           | _ \<Rightarrow> Inr (\<lambda>_. False))
      | CLASSIFICATION_LABELS \<Rightarrow>
          (case model_classification_labels model of
             None \<Rightarrow> Inr (\<lambda>_. False)
           | Some labels_model \<Rightarrow>
               rbind (validate_labels labels_model (subj_classification_labels subject)
                        ''GraphTraversalRequest.subject_security.classification_labels'') (\<lambda>labels.
                 Inr (\<lambda>c. list_all (\<lambda>l. l \<in> set labels) (krow_classification_labels c)))))"

definition acl_filter :: "graph_traversal_request \<Rightarrow> chunk_row \<Rightarrow> bool" where
  "acl_filter request c \<longleftrightarrow> krow_acl_labels c = [] \<or>
     list_ex (\<lambda>l. l \<in> set (trav_allowed_acl_labels request)) (krow_acl_labels c)"

section \<open>Proposals\<close>

definition outgoing_edges :: "graph_traversal_request \<Rightarrow> bool" where
  "outgoing_edges request \<longleftrightarrow> trav_direction request \<in> {OUTGOING, BOTH}"

definition incoming_edges :: "graph_traversal_request \<Rightarrow> bool" where
  "incoming_edges request \<longleftrightarrow> trav_direction request \<in> {INCOMING, BOTH}"

definition relationship_rows ::
    "document_db \<Rightarrow> graph_traversal_request \<Rightarrow> frontier \<Rightarrow> relationship_row list" where
  "relationship_rows db request frontier =
     (let keys = map (\<lambda>(n, st). node_key n) frontier;
          key = (\<lambda>s c. s @ node_separator @ c)
      in sort_key (\<lambda>r. (rrow_type r, rrow_from_source r, rrow_from_chunk r, rrow_to_source r, rrow_to_chunk r))
        (filter (\<lambda>r. (trav_relationship_types request = [] \<or>
              rrow_type r \<in> set (trav_relationship_types request)) \<and>
            (outgoing_edges request \<and> key (rrow_from_source r) (rrow_from_chunk r) \<in> set keys \<or>
             incoming_edges request \<and> key (rrow_to_source r) (rrow_to_chunk r) \<in> set keys))
          (current_relationships db (trav_tenant_id request) (trav_domain request))))"

definition better_state :: "path_state \<Rightarrow> path_state \<Rightarrow> bool" where
  "better_state candidate existing \<longleftrightarrow>
     (- fst candidate, snd candidate) < (- fst existing, snd existing)"

definition select_proposal ::
    "graph_node_ref \<Rightarrow> path_state \<Rightarrow> string \<Rightarrow> graph_node_ref list \<Rightarrow> frontier \<Rightarrow> frontier" where
  "select_proposal node parent type visited proposals =
     (if node \<in> set visited then proposals
      else
        (let candidate = (fst parent, snd parent @ [type])
         in case map_of proposals node of
              None \<Rightarrow> dict_set node candidate proposals
            | Some existing \<Rightarrow>
                if better_state candidate existing then dict_set node candidate proposals
                else proposals))"

definition propose_edge ::
    "bool \<Rightarrow> frontier \<Rightarrow> graph_node_ref list \<Rightarrow> graph_node_ref \<Rightarrow> string \<Rightarrow> graph_node_ref \<Rightarrow>
     frontier \<Rightarrow> frontier" where
  "propose_edge followed frontier visited m type n proposals =
     (case map_of frontier m of
        Some parent \<Rightarrow> if followed then select_proposal n parent type visited proposals else proposals
      | None \<Rightarrow> proposals)"

definition propose_row ::
    "graph_traversal_request \<Rightarrow> frontier \<Rightarrow> graph_node_ref list \<Rightarrow> relationship_row \<Rightarrow> frontier \<Rightarrow>
     frontier result" where
  "propose_row request frontier visited r proposals =
     rbind (make_node (rrow_from_source r) (rrow_from_chunk r)) (\<lambda>from_node.
     rbind (make_node (rrow_to_source r) (rrow_to_chunk r)) (\<lambda>to_node.
       Inr (propose_edge (incoming_edges request) frontier visited to_node (rrow_type r) from_node
             (propose_edge (outgoing_edges request) frontier visited from_node (rrow_type r) to_node
               proposals))))"

definition proposals_of ::
    "document_db \<Rightarrow> graph_traversal_request \<Rightarrow> frontier \<Rightarrow> graph_node_ref list \<Rightarrow> frontier result" where
  "proposals_of db request frontier visited =
     rfold (propose_row request frontier visited) (relationship_rows db request frontier) []"

section \<open>Chunks\<close>

definition chunk_rows ::
    "document_db \<Rightarrow> graph_traversal_request \<Rightarrow> (chunk_row \<Rightarrow> bool) \<Rightarrow> graph_node_ref list \<Rightarrow>
     chunk_row list" where
  "chunk_rows db request visible nodes =
     sort_key (\<lambda>c. (key_source (krow_key c), krow_chunk_id c))
       (filter (\<lambda>c. node_key (node_ref (key_source (krow_key c)) (krow_chunk_id c)) \<in> set (map node_key nodes) \<and>
            acl_filter request c \<and> visible c)
         (current_chunks db (trav_tenant_id request) (trav_domain request)))"

definition load_chunk ::
    "graph_traversal_request \<Rightarrow> chunk_row \<Rightarrow> (graph_node_ref \<times> document_chunk) result" where
  "load_chunk request c =
     rbind (make_node (key_source (krow_key c)) (krow_chunk_id c)) (\<lambda>node.
     rbind (chunk_of_row (trav_tenant_id request) (trav_domain request) (node_source_id node)
              (c\<lparr>krow_chunk_id := node_chunk_id node\<rparr>)) (\<lambda>chunk.
       Inr (node, chunk)))"

definition load_chunks ::
    "document_db \<Rightarrow> graph_traversal_request \<Rightarrow> graph_node_ref list \<Rightarrow>
     (graph_node_ref \<times> document_chunk) list result" where
  "load_chunks db request nodes =
     rbind (security_filter request) (\<lambda>visible.
     rbind (rmap (load_chunk request) (chunk_rows db request visible nodes)) (\<lambda>items.
       Inr (dict_of items)))"

section \<open>The expansion\<close>

definition graph_hit :: "int \<Rightarrow> document_chunk \<Rightarrow> path_state \<Rightarrow> search_hit result" where
  "graph_hit depth chunk st =
     rbind (document_chunk_post_init (chunk\<lparr>chunk_metadata :=
         dict_update (chunk_metadata chunk)
           [(''graph_depth'', PInt depth), (''graph_path'', PList (map PStr (snd st)))]\<rparr>)) (\<lambda>c.
       search_hit_post_init \<lparr>hit_chunk = c, hit_score = fst st / of_int (depth + 1),
         hit_score_type = ''graph''\<rparr>)"

text \<open>
  One level: the sorted proposals whose chunk was loaded become hits, until \<open>max_nodes\<close> is reached.
  The result is the hits, the visited nodes, the next frontier and whether the limit was hit.
\<close>

fun take_level ::
    "graph_traversal_request \<Rightarrow> int \<Rightarrow> (graph_node_ref \<times> document_chunk) list \<Rightarrow> frontier \<Rightarrow>
     search_hit list \<Rightarrow> graph_node_ref list \<Rightarrow> frontier \<Rightarrow>
     (search_hit list \<times> graph_node_ref list \<times> frontier \<times> bool) result" where
  "take_level request depth chunks [] expanded visited next = Inr (expanded, visited, next, False)"
| "take_level request depth chunks ((node, st) # items) expanded visited next =
     (case map_of chunks node of
        None \<Rightarrow> take_level request depth chunks items expanded visited next
      | Some chunk \<Rightarrow>
          rbind (graph_hit depth chunk st) (\<lambda>hit.
            if int (length (expanded @ [hit])) = trav_max_nodes request
            then Inr (expanded @ [hit], node # visited, dict_set node st next, True)
            else take_level request depth chunks items (expanded @ [hit]) (node # visited)
                   (dict_set node st next)))"

definition proposal_order :: "graph_node_ref \<times> path_state \<Rightarrow> rat \<times> string \<times> string \<times> string list" where
  "proposal_order item = (- fst (snd item), node_source_id (fst item), node_chunk_id (fst item), snd (snd item))"

definition expand_level ::
    "document_db \<Rightarrow> graph_traversal_request \<Rightarrow> int \<Rightarrow> frontier \<Rightarrow> graph_node_ref list \<Rightarrow>
     search_hit list \<Rightarrow> (search_hit list \<times> graph_node_ref list \<times> frontier \<times> bool) result" where
  "expand_level db request depth frontier visited expanded =
     rbind (proposals_of db request frontier visited) (\<lambda>proposals.
       if proposals = [] then Inr (expanded, visited, [], True)
       else
         rbind (load_chunks db request (map fst proposals)) (\<lambda>chunks.
         rbind (take_level request depth chunks (sort_key proposal_order proposals) expanded visited [])
           (\<lambda>(expanded', visited', next, full).
             Inr (expanded', visited', next, full \<or> next = []))))"

text \<open>\<open>for depth in range(1, max_depth + 1)\<close>, the number of remaining rounds as the argument.\<close>

fun expand_rounds ::
    "document_db \<Rightarrow> graph_traversal_request \<Rightarrow> nat \<Rightarrow> int \<Rightarrow> frontier \<Rightarrow> graph_node_ref list \<Rightarrow>
     search_hit list \<Rightarrow> search_hit list result" where
  "expand_rounds db request 0 depth frontier visited expanded = Inr expanded"
| "expand_rounds db request (Suc rounds) depth frontier visited expanded =
     rbind (expand_level db request depth frontier visited expanded)
       (\<lambda>(expanded', visited', next, stop).
         if stop then Inr expanded'
         else expand_rounds db request rounds (depth + 1) next visited' expanded')"

definition seed_state :: "search_hit \<Rightarrow> (graph_node_ref \<times> path_state) result" where
  "seed_state h =
     rbind (make_node (chunk_source_id (hit_chunk h)) (chunk_id (hit_chunk h))) (\<lambda>n.
       Inr (n, (hit_score h, [])))"

definition graph_expand :: "document_db \<Rightarrow> graph_traversal_request \<Rightarrow> search_hit list result" where
  "graph_expand db request =
     rbind (rmap seed_state (trav_seeds request)) (\<lambda>items.
       let seeds = dict_of items
       in or_unavailable (\<lambda>e. is_class DependencyUnavailableError e \<or> is_class IngestionError e)
            ''PostgreSQL graph traversal failed''
            (if \<not> ddb_up db then Inl (OtherError ''OperationalError'')
             else expand_rounds db request (nat (trav_max_depth request)) 1 seeds (map fst seeds) []))"

definition graph_port :: "graph_traversal_request \<Rightarrow> search_hit list document_prog" where
  "graph_port request db = (graph_expand db request, db)"

definition graph_check :: "unit document_prog" where
  "graph_check db =
     (if ddb_up db then Inr ()
      else Inl (Known DependencyUnavailableError ''PostgreSQL graph health check failed''), db)"

end
