(* ===== verification/Graph_Search.thy ===== *)
theory Graph_Search
  imports Graph_Traversal Actions_Retrieval "HOL-Library.Sublist"
begin

text \<open>
  What the expansion of \<open>Graph_Traversal\<close> finds: the readable chunks within reach of the seeds, each
  once and at its least depth, all of them unless \<open>max_nodes\<close> is reached; and that the filters of its
  queries agree with the boundary check of the actions.
\<close>

section \<open>What the traversal may find\<close>

text \<open>The specification: edges of current relationships, and the chunks a query may read.\<close>

definition edge ::
    "document_db \<Rightarrow> graph_traversal_request \<Rightarrow> graph_node_ref \<Rightarrow> string \<Rightarrow> graph_node_ref \<Rightarrow> bool" where
  "edge db request m type n \<longleftrightarrow>
     (\<exists>r\<in>set (current_relationships db (trav_tenant_id request) (trav_domain request)).
        rrow_type r = type \<and> (trav_relationship_types request = [] \<or> type \<in> set (trav_relationship_types request)) \<and>
        (\<exists>f t. make_node (rrow_from_source r) (rrow_from_chunk r) = Inr f \<and>
           make_node (rrow_to_source r) (rrow_to_chunk r) = Inr t \<and>
           (outgoing_edges request \<and> m = f \<and> n = t \<or> incoming_edges request \<and> m = t \<and> n = f)))"

definition readable ::
    "document_db \<Rightarrow> graph_traversal_request \<Rightarrow> graph_node_ref \<Rightarrow> document_chunk \<Rightarrow> bool" where
  "readable db request n chunk \<longleftrightarrow>
     (\<exists>visible c. security_filter request = Inr visible \<and>
        c \<in> set (current_chunks db (trav_tenant_id request) (trav_domain request)) \<and>
        acl_filter request c \<and> visible c \<and> load_chunk request c = Inr (n, chunk))"

inductive found ::
    "document_db \<Rightarrow> graph_traversal_request \<Rightarrow> frontier \<Rightarrow> graph_node_ref \<Rightarrow> path_state \<Rightarrow> nat \<Rightarrow> bool"
  for db request seeds where
  found_seed: "map_of seeds n = Some st \<Longrightarrow> found db request seeds n st 0"
| found_edge: "found db request seeds m st d \<Longrightarrow> edge db request m type n \<Longrightarrow>
    readable db request n chunk \<Longrightarrow> found db request seeds n (fst st, snd st @ [type]) (Suc d)"

section \<open>Proposals follow edges\<close>

lemma select_proposal_keys:
  "distinct (map fst ps) \<Longrightarrow> distinct (map fst (select_proposal n p ty vis ps))"
  by (auto simp: select_proposal_def Let_def distinct_dict_set split: option.splits)

lemma select_proposal_mem:
  assumes "(x, st) \<in> set (select_proposal n p ty vis ps)"
  shows "(x, st) \<in> set ps \<or> x = n \<and> n \<notin> set vis \<and> st = (fst p, snd p @ [ty])"
  using assms set_dict_set [of n "(fst p, snd p @ [ty])" ps]
  by (auto simp: select_proposal_def Let_def split: if_splits option.splits)

lemma select_proposal_old: "x \<in> fst ` set ps \<Longrightarrow> x \<in> fst ` set (select_proposal n p ty vis ps)"
  using keys_dict_set [of n "(fst p, snd p @ [ty])" ps]
  by (auto simp: select_proposal_def Let_def split: option.splits)

lemma select_proposal_new: "n \<notin> set vis \<Longrightarrow> n \<in> fst ` set (select_proposal n p ty vis ps)"
  using keys_dict_set [of n "(fst p, snd p @ [ty])" ps]
  by (auto simp: select_proposal_def Let_def dest: map_of_SomeD split: option.splits)
    (metis fst_conv image_eqI map_of_SomeD)

definition follows ::
    "document_db \<Rightarrow> graph_traversal_request \<Rightarrow> frontier \<Rightarrow> graph_node_ref list \<Rightarrow> frontier \<Rightarrow> bool" where
  "follows db request frontier visited ps \<longleftrightarrow> distinct (map fst ps) \<and>
     (\<forall>(n, st)\<in>set ps. n \<notin> set visited \<and>
       (\<exists>m pst ty. map_of frontier m = Some pst \<and> edge db request m ty n \<and> st = (fst pst, snd pst @ [ty])))"

lemma follows_select:
  assumes "follows db request frontier visited ps" "map_of frontier m = Some pst" "edge db request m ty n"
  shows "follows db request frontier visited (select_proposal n pst ty visited ps)"
  using assms select_proposal_keys [of ps n pst ty visited]
  unfolding follows_def by (fast dest: select_proposal_mem)

lemma follows_edge:
  assumes "follows db request frontier visited ps" "followed \<Longrightarrow> edge db request m ty n"
  shows "follows db request frontier visited (propose_edge followed frontier visited m ty n ps)"
  using assms by (auto simp: propose_edge_def intro: follows_select split: option.splits)

lemma propose_edge_old:
  "x \<in> fst ` set ps \<Longrightarrow> x \<in> fst ` set (propose_edge followed frontier visited m ty n ps)"
  unfolding propose_edge_def by (simp add: select_proposal_old split: option.split)

lemma propose_edge_new:
  "map_of frontier m = Some pst \<Longrightarrow> n \<notin> set visited \<Longrightarrow>
   n \<in> fst ` set (propose_edge True frontier visited m ty n ps)"
  unfolding propose_edge_def by (simp add: select_proposal_new)

lemma relationship_rows_set:
  "set (relationship_rows db request frontier) \<subseteq>
     {r \<in> set (current_relationships db (trav_tenant_id request) (trav_domain request)).
        trav_relationship_types request = [] \<or> rrow_type r \<in> set (trav_relationship_types request)}"
  by (auto simp: relationship_rows_def Let_def)

lemma propose_row_follows:
  assumes "follows db request frontier visited ps" "r \<in> set (relationship_rows db request frontier)"
    "propose_row request frontier visited r ps = Inr ps'"
  shows "follows db request frontier visited ps'"
proof -
  from assms(3) obtain f t where ft: "make_node (rrow_from_source r) (rrow_from_chunk r) = Inr f"
    "make_node (rrow_to_source r) (rrow_to_chunk r) = Inr t"
    by (auto simp: propose_row_def rbind_eq_Inr)
  from assms(2) relationship_rows_set have r:
    "r \<in> set (current_relationships db (trav_tenant_id request) (trav_domain request))"
    "trav_relationship_types request = [] \<or> rrow_type r \<in> set (trav_relationship_types request)" by blast+
  have out: "edge db request f (rrow_type r) t" if "outgoing_edges request"
    using that r ft unfolding edge_def by blast
  have inc: "edge db request t (rrow_type r) f" if "incoming_edges request"
    using that r ft unfolding edge_def by blast
  from assms(3) ft have "ps' = propose_edge (incoming_edges request) frontier visited t (rrow_type r) f
      (propose_edge (outgoing_edges request) frontier visited f (rrow_type r) t ps)"
    by (simp add: propose_row_def)
  with assms(1) out inc show ?thesis by (simp add: follows_edge)
qed

lemma follows_Nil: "follows db request frontier visited []"
  by (simp add: follows_def)

lemma proposals_follow:
  assumes "proposals_of db request frontier visited = Inr ps"
  shows "follows db request frontier visited ps"
  by (rule rfold_invariant [where P = "follows db request frontier visited",
        OF assms [unfolded proposals_of_def] follows_Nil])
    (rule propose_row_follows)

text \<open>Every edge out of the frontier is proposed, when the stored identifiers are trimmed.\<close>

definition rows_ok :: "document_db \<Rightarrow> bool" where
  "rows_ok db \<longleftrightarrow> list_all relationship_row_ok (ddb_relationships db) \<and> list_all chunk_row_ok (ddb_chunks db)"

lemma make_node_trimmed: "trimmed s \<Longrightarrow> trimmed c \<Longrightarrow> make_node s c = Inr (node_ref s c)"
  by (simp add: make_node_def graph_node_ref_post_init_def node_ref_def)

lemma make_node_Inr: "make_node s c = Inr n \<longleftrightarrow> n = node_ref (strip s) (strip c) \<and> strip s \<noteq> [] \<and> strip c \<noteq> []"
  by (auto simp: make_node_def graph_node_ref_post_init_def node_ref_def rbind_eq_Inr required_Inr)

lemma make_node_key: "trimmed s \<Longrightarrow> trimmed c \<Longrightarrow> make_node s c = Inr n \<Longrightarrow> node_key n = s @ node_separator @ c"
  by (auto simp: make_node_Inr node_ref_def node_key_def trimmed_def)

lemma rfold_once:
  assumes "rfold f xs s = Inr s'" "x \<in> set xs"
    and "\<And>s s'. f x s = Inr s' \<Longrightarrow> P s'"
    and "\<And>y s s'. f y s = Inr s' \<Longrightarrow> P s \<Longrightarrow> P s'"
  shows "P s'"
  using assms(1,2)
proof (induction xs arbitrary: s)
  case (Cons y ys)
  from Cons.prems(1) obtain t where t: "f y s = Inr t" "rfold f ys t = Inr s'" by (auto simp: rbind_eq_Inr)
  show ?case
  proof (cases "x = y")
    case True
    with t(1) assms(3) have "P t" by blast
    then show ?thesis by (rule rfold_invariant [where P = P, OF t(2)]) (rule assms(4))
  next
    case False
    with Cons t(2) show ?thesis by simp
  qed
qed simp

lemma propose_row_old:
  "propose_row request frontier visited r ps = Inr ps' \<Longrightarrow> x \<in> fst ` set ps \<Longrightarrow> x \<in> fst ` set ps'"
  by (simp add: propose_row_def rbind_eq_Inr propose_edge_old) (metis propose_edge_old)

lemma propose_row_new:
  assumes "propose_row request frontier visited r ps = Inr ps'"
    "make_node (rrow_from_source r) (rrow_from_chunk r) = Inr f"
    "make_node (rrow_to_source r) (rrow_to_chunk r) = Inr t"
    "outgoing_edges request \<and> m = f \<and> n = t \<or> incoming_edges request \<and> m = t \<and> n = f"
    "map_of frontier m = Some pst" "n \<notin> set visited"
  shows "n \<in> fst ` set ps'"
proof -
  from assms(1-3) have ps': "ps' = propose_edge (incoming_edges request) frontier visited t (rrow_type r) f
      (propose_edge (outgoing_edges request) frontier visited f (rrow_type r) t ps)"
    by (simp add: propose_row_def)
  from assms(4) show ?thesis
  proof
    assume "outgoing_edges request \<and> m = f \<and> n = t"
    with assms(5,6) show ?thesis unfolding ps' by (simp add: propose_edge_new propose_edge_old)
  next
    assume "incoming_edges request \<and> m = t \<and> n = f"
    with assms(5,6) show ?thesis unfolding ps' by (simp add: propose_edge_new)
  qed
qed

lemma proposals_complete:
  assumes "proposals_of db request frontier visited = Inr ps" "rows_ok db"
    "map_of frontier m = Some pst" "edge db request m ty n" "n \<notin> set visited"
  shows "n \<in> fst ` set ps"
proof -
  from assms(4) obtain r f t where
    r: "r \<in> set (current_relationships db (trav_tenant_id request) (trav_domain request))"
      "trav_relationship_types request = [] \<or> rrow_type r \<in> set (trav_relationship_types request)"
    and ft: "make_node (rrow_from_source r) (rrow_from_chunk r) = Inr f"
      "make_node (rrow_to_source r) (rrow_to_chunk r) = Inr t"
    and e: "outgoing_edges request \<and> m = f \<and> n = t \<or> incoming_edges request \<and> m = t \<and> n = f"
    unfolding edge_def by blast
  from r(1) have "r \<in> set (ddb_relationships db)" by (auto simp: current_relationships_def)
  with assms(2) have ok: "relationship_row_ok r" by (auto simp: rows_ok_def list_all_iff)
  have keys: "node_key f = rrow_from_source r @ node_separator @ rrow_from_chunk r"
    "node_key t = rrow_to_source r @ node_separator @ rrow_to_chunk r"
    using ok ft by (auto simp: relationship_row_ok_def intro!: make_node_key)
  have "node_key m \<in> set (map (\<lambda>(n, st). node_key n) frontier)"
    using map_of_SomeD [OF assms(3)] by force
  with e keys have "outgoing_edges request \<and>
      rrow_from_source r @ node_separator @ rrow_from_chunk r \<in> set (map (\<lambda>(n, st). node_key n) frontier) \<or>
      incoming_edges request \<and>
      rrow_to_source r @ node_separator @ rrow_to_chunk r \<in> set (map (\<lambda>(n, st). node_key n) frontier)"
    by metis
  with r have row: "r \<in> set (relationship_rows db request frontier)"
    by (simp add: relationship_rows_def Let_def)
  show ?thesis
    by (rule rfold_once [OF assms(1) [unfolded proposals_of_def] row])
      (auto intro: propose_row_new [OF _ ft e assms(3,5)] propose_row_old)
qed

section \<open>Loading\<close>

lemma load_chunks_readable:
  assumes "load_chunks db request nodes = Inr chunks" "map_of chunks n = Some chunk"
  shows "readable db request n chunk"
proof -
  from assms(1) obtain visible items where v: "security_filter request = Inr visible"
    and items: "rmap (load_chunk request) (chunk_rows db request visible nodes) = Inr items"
    and chunks: "chunks = dict_of items" by (auto simp: load_chunks_def rbind_eq_Inr)
  from assms(2) chunks have "(n, chunk) \<in> set items"
    using map_of_SomeD set_dict_of by fastforce
  from rmap_Inr_set [OF items this] obtain c where "c \<in> set (chunk_rows db request visible nodes)"
    "load_chunk request c = Inr (n, chunk)" by blast
  with v show ?thesis unfolding readable_def by (auto simp: chunk_rows_def)
qed

lemma load_chunk_node:
  assumes "load_chunk request c = Inr (n, chunk)"
  shows "n = node_ref (strip (key_source (krow_key c))) (strip (krow_chunk_id c)) \<and>
    chunk_node chunk = n \<and> chunk_domain chunk = strip (trav_domain request) \<and>
    chunk_tenant_id chunk = strip (trav_tenant_id request)"
  using assms
  by (auto simp: load_chunk_def chunk_of_row_def rbind_eq_Inr make_node_Inr document_chunk_post_init_def
      required_Inr chunk_node_def node_ref_def)

lemma load_chunks_complete:
  assumes "load_chunks db request nodes = Inr chunks" "rows_ok db" "n \<in> set nodes"
    "readable db request n chunk"
  shows "map_of chunks n \<noteq> None"
proof -
  from assms(1) obtain visible items where v: "security_filter request = Inr visible"
    and items: "rmap (load_chunk request) (chunk_rows db request visible nodes) = Inr items"
    and chunks: "chunks = dict_of items" by (auto simp: load_chunks_def rbind_eq_Inr)
  from assms(4) v obtain c where
    c: "c \<in> set (current_chunks db (trav_tenant_id request) (trav_domain request))"
      "acl_filter request c" "visible c" "load_chunk request c = Inr (n, chunk)"
    by (auto simp: readable_def)
  from c(1) have "c \<in> set (ddb_chunks db)" by (simp add: current_chunks_def)
  with assms(2) have "chunk_row_ok c" by (auto simp: rows_ok_def list_all_iff)
  with load_chunk_node [OF c(4)] have "n = node_ref (key_source (krow_key c)) (krow_chunk_id c)"
    by (auto simp: chunk_row_ok_def trimmed_def)
  with c assms(3) have "c \<in> set (chunk_rows db request visible nodes)"
    by (auto simp: chunk_rows_def)
  from rmap_Inr_mem [OF items this c(4)] have "(n, chunk) \<in> set items" .
  then show ?thesis unfolding chunks map_of_dict_of map_of_eq_None_iff by force
qed

section \<open>One level\<close>

definition hit_node :: "search_hit \<Rightarrow> graph_node_ref" where
  "hit_node h = chunk_node (hit_chunk h)"

lemma graph_hit_node:
  assumes "graph_hit depth chunk st = Inr h" "load_chunk request c = Inr (n, chunk)"
  shows "hit_node h = n"
  using assms(1) load_chunk_node [OF assms(2)]
  by (auto simp: graph_hit_def rbind_eq_Inr hit_node_def chunk_node_def node_ref_def
      document_chunk_post_init_def search_hit_post_init_def required_Inr)

lemma readable_hit_node:
  "readable db request n chunk \<Longrightarrow> graph_hit depth chunk st = Inr h \<Longrightarrow> hit_node h = n"
  unfolding readable_def using graph_hit_node by blast

lemma take_level_spec:
  assumes "take_level request depth chunks items hits visited nxt = Inr (hits', visited', next', full)"
  shows "\<exists>taken new. prefix taken (filter (\<lambda>(n, st). map_of chunks n \<noteq> None) items) \<and>
    hits' = hits @ new \<and>
    list_all2 (\<lambda>(n, st) h. \<exists>chunk. map_of chunks n = Some chunk \<and> graph_hit depth chunk st = Inr h) taken new \<and>
    visited' = rev (map fst taken) @ visited \<and> next' = dict_update nxt taken \<and>
    (if full then int (length hits') = trav_max_nodes request
     else taken = filter (\<lambda>(n, st). map_of chunks n \<noteq> None) items \<and>
       (int (length hits) < trav_max_nodes request \<longrightarrow> int (length hits') < trav_max_nodes request))"
  using assms
proof (induction request depth chunks items hits visited nxt rule: take_level.induct)
  case (1 request depth chunks hits visited nxt)
  then show ?case by (intro exI [of _ "[]"]) auto
next
  case (2 request depth chunks node st items hits visited nxt)
  show ?case
  proof (cases "map_of chunks node")
    case None
    from "2.prems" None have rest: "take_level request depth chunks items hits visited nxt =
        Inr (hits', visited', next', full)" by simp
    have same: "filter (\<lambda>(n, st). map_of chunks n \<noteq> None) ((node, st) # items) =
        filter (\<lambda>(n, st). map_of chunks n \<noteq> None) items" using None by simp
    show ?thesis unfolding same by (rule "2.IH"(1) [OF None rest])
  next
    case (Some chunk)
    from "2.prems" Some obtain h where h: "graph_hit depth chunk st = Inr h"
      by (auto simp: rbind_eq_Inr)
    show ?thesis
    proof (cases "int (length (hits @ [h])) = trav_max_nodes request")
      case True
      with "2.prems" Some h have "hits' = hits @ [h]" "visited' = node # visited"
        "next' = dict_set node st nxt" "full" by simp_all
      with True Some h show ?thesis
        by (intro exI [of _ "[(node, st)]"] exI [of _ "[h]"]) simp
    next
      case False
      with "2.prems" Some h have "take_level request depth chunks items (hits @ [h]) (node # visited)
          (dict_set node st nxt) = Inr (hits', visited', next', full)" by simp
      from "2.IH"(2) [OF Some False this] obtain taken new where
        tn: "prefix taken (filter (\<lambda>(n, st). map_of chunks n \<noteq> None) items)"
          "hits' = (hits @ [h]) @ new"
          "list_all2 (\<lambda>(n, st) h. \<exists>chunk. map_of chunks n = Some chunk \<and> graph_hit depth chunk st = Inr h) taken new"
          "visited' = rev (map fst taken) @ node # visited" "next' = dict_update (dict_set node st nxt) taken"
          "if full then int (length hits') = trav_max_nodes request
           else taken = filter (\<lambda>(n, st). map_of chunks n \<noteq> None) items \<and>
             (int (length (hits @ [h])) < trav_max_nodes request \<longrightarrow> int (length hits') < trav_max_nodes request)"
        by blast
      from tn False Some h show ?thesis
        by (intro exI [of _ "(node, st) # taken"] exI [of _ "h # new"]) (auto split: if_splits)
    qed
  qed
qed

section \<open>Levels\<close>

text \<open>
  A hit at depth \<open>d\<close> is a readable chunk found along \<open>d\<close> edges, through readable chunks only, and
  not found along fewer.
\<close>

definition found_hit ::
    "document_db \<Rightarrow> graph_traversal_request \<Rightarrow> frontier \<Rightarrow> nat \<Rightarrow> search_hit \<Rightarrow> bool" where
  "found_hit db request seeds D h \<longleftrightarrow>
     (\<exists>n st d chunk. found db request seeds n st d \<and> readable db request n chunk \<and> hit_node h = n \<and>
        graph_hit (int d) chunk st = Inr h \<and> 1 \<le> d \<and> d \<le> D \<and>
        (\<forall>st' k. found db request seeds n st' k \<longrightarrow> d \<le> k))"

lemma found_hitI:
  "found db request seeds n st d \<Longrightarrow> readable db request n chunk \<Longrightarrow> hit_node h = n \<Longrightarrow>
   graph_hit (int d) chunk st = Inr h \<Longrightarrow> 1 \<le> d \<Longrightarrow> d \<le> D \<Longrightarrow>
   (\<And>st' k. found db request seeds n st' k \<Longrightarrow> d \<le> k) \<Longrightarrow> found_hit db request seeds D h"
  unfolding found_hit_def by blast

lemma found_hit_mono: "found_hit db request seeds D h \<Longrightarrow> D \<le> D' \<Longrightarrow> found_hit db request seeds D' h"
  unfolding found_hit_def by (elim exE conjE) (intro exI conjI; (assumption | simp))

definition closed_at ::
    "document_db \<Rightarrow> graph_traversal_request \<Rightarrow> graph_node_ref list \<Rightarrow> graph_node_ref \<Rightarrow> bool" where
  "closed_at db request visited m \<longleftrightarrow>
     (\<forall>ty n chunk. edge db request m ty n \<and> readable db request n chunk \<longrightarrow> n \<in> set visited)"

definition level_sound ::
    "document_db \<Rightarrow> graph_traversal_request \<Rightarrow> frontier \<Rightarrow> nat \<Rightarrow> graph_node_ref list \<Rightarrow> search_hit list \<Rightarrow> bool"
  where
  "level_sound db request seeds d visited hits \<longleftrightarrow>
     set visited = fst ` set seeds \<union> hit_node ` set hits \<and>
     distinct (map hit_node hits) \<and> fst ` set seeds \<inter> hit_node ` set hits = {} \<and>
     (\<forall>h\<in>set hits. found_hit db request seeds d h) \<and> int (length hits) \<le> trav_max_nodes request"

definition level_inv ::
    "document_db \<Rightarrow> graph_traversal_request \<Rightarrow> frontier \<Rightarrow> nat \<Rightarrow> frontier \<Rightarrow> graph_node_ref list \<Rightarrow>
     search_hit list \<Rightarrow> bool" where
  "level_inv db request seeds d frontier visited hits \<longleftrightarrow>
     level_sound db request seeds d visited hits \<and> int (length hits) < trav_max_nodes request \<and>
     (\<forall>n st. map_of frontier n = Some st \<longrightarrow> found db request seeds n st d) \<and>
     fst ` set frontier \<subseteq> set visited \<and>
     (\<forall>m\<in>set visited. m \<notin> fst ` set frontier \<longrightarrow> closed_at db request visited m) \<and>
     (\<forall>n st k. found db request seeds n st k \<longrightarrow> k \<le> d \<longrightarrow> n \<in> set visited)"

text \<open>A level that proposes nothing new, or loads nothing, leaves a closed set.\<close>

definition all_visited ::
    "document_db \<Rightarrow> graph_traversal_request \<Rightarrow> frontier \<Rightarrow> graph_node_ref list \<Rightarrow> bool" where
  "all_visited db request seeds visited \<longleftrightarrow>
     (\<forall>n st k. found db request seeds n st k \<longrightarrow> n \<in> set visited)"

lemma closed_all_visited:
  assumes "\<forall>m\<in>set visited. closed_at db request visited m" "fst ` set seeds \<subseteq> set visited"
  shows "all_visited db request seeds visited"
  unfolding all_visited_def
proof (intro allI impI)
  fix n st k assume "found db request seeds n st k"
  then show "n \<in> set visited"
  proof induction
    case (found_seed n st)
    with assms(2) show ?case by (metis fst_conv image_eqI map_of_SomeD subsetD)
  next
    case (found_edge m st d ty n chunk)
    with assms(1) show ?case unfolding closed_at_def by blast
  qed
qed

lemma set_dict_update_values:
  "map_of (dict_update d xs) k = Some v \<Longrightarrow> map_of d k = Some v \<or> (k, v) \<in> set xs"
  unfolding map_of_dict_update by (auto simp: map_add_def dest: map_of_SomeD split: option.splits)

lemma keys_dict_update: "fst ` set (dict_update d xs) = fst ` set d \<union> fst ` set xs"
proof (induction d xs rule: dict_update.induct)
  case (2 d k v xs)
  then show ?case using keys_dict_set [of k v d] by auto
qed simp

lemma list_all2_left: "list_all2 P xs ys \<Longrightarrow> y \<in> set ys \<Longrightarrow> \<exists>x\<in>set xs. P x y"
  by (metis in_set_conv_nth list_all2_conv_all_nth)

lemma list_all2_map_eq: "list_all2 (\<lambda>x y. f x = g y) xs ys \<Longrightarrow> map f xs = map g ys"
  by (induction rule: list_all2_induct) auto

lemma level_step:
  assumes inv: "level_inv db request seeds d frontier visited hits" and ok: "rows_ok db"
    and props: "proposals_of db request frontier visited = Inr ps"
    and chunks: "load_chunks db request (map fst ps) = Inr chunks"
    and take: "take_level request (int (Suc d)) chunks (sort_key proposal_order ps) hits visited [] =
      Inr (hits', visited', next', full)"
  shows "level_sound db request seeds (Suc d) visited' hits' \<and>
    (if full then int (length hits') = trav_max_nodes request
     else level_inv db request seeds (Suc d) next' visited' hits')"
proof -
  let ?items = "sort_key proposal_order ps"
  let ?loaded = "filter (\<lambda>(n, st). map_of chunks n \<noteq> None) ?items"
  let ?hit = "\<lambda>(n, st) h. \<exists>chunk. map_of chunks n = Some chunk \<and> graph_hit (int (Suc d)) chunk st = Inr h"
  from take_level_spec [OF take] obtain taken new where
    tn: "prefix taken ?loaded" "hits' = hits @ new" "list_all2 ?hit taken new"
      "visited' = rev (map fst taken) @ visited" "next' = dict_update [] taken"
    and lim: "if full then int (length hits') = trav_max_nodes request
      else taken = ?loaded \<and>
        (int (length hits) < trav_max_nodes request \<longrightarrow> int (length hits') < trav_max_nodes request)"
    by blast
  from inv have sound: "level_sound db request seeds d visited hits"
    and fr: "\<And>n st. map_of frontier n = Some st \<Longrightarrow> found db request seeds n st d"
    and frv: "fst ` set frontier \<subseteq> set visited"
    and closed: "\<And>m. m \<in> set visited \<Longrightarrow> m \<notin> fst ` set frontier \<Longrightarrow> closed_at db request visited m"
    and near: "\<And>n st k. found db request seeds n st k \<Longrightarrow> k \<le> d \<Longrightarrow> n \<in> set visited"
    and few: "int (length hits) < trav_max_nodes request"
    by (auto simp: level_inv_def)
  note follow = proposals_follow [OF props]
  have loaded: "set taken \<subseteq> set ?loaded" by (rule set_mono_prefix [OF tn(1)])
  then have taken_sub: "set taken \<subseteq> set ps" by auto
  have "distinct (map fst ?items)" using follow by (simp add: follows_def distinct_map)
  then have "distinct (map fst ?loaded)" by (rule distinct_map_filter)
  with tn(1) have dist: "distinct (map fst taken)" by (auto simp: prefix_def)
  have load: "readable db request n chunk" if "map_of chunks n = Some chunk" for n chunk
    by (rule load_chunks_readable [OF chunks that])
  have step: "n \<notin> set visited \<and> found db request seeds n st (Suc d)"
    if "(n, st) \<in> set taken" for n st
  proof -
    from that taken_sub have "(n, st) \<in> set ps" by blast
    with follow obtain m pst ty where m: "n \<notin> set visited" "map_of frontier m = Some pst"
      "edge db request m ty n" "st = (fst pst, snd pst @ [ty])"
      unfolding follows_def by blast
    from that loaded obtain chunk where "map_of chunks n = Some chunk" by fastforce
    then obtain chunk where "readable db request n chunk" using load by blast
    from found_edge [OF fr [OF m(2)] m(3) this] m show ?thesis by simp
  qed
  have hit: "hit_node h = n \<and> found_hit db request seeds (Suc d) h"
    if t: "(n, st) \<in> set taken" and c: "map_of chunks n = Some chunk"
      and g: "graph_hit (int (Suc d)) chunk st = Inr h" for n st chunk h
  proof -
    note node = readable_hit_node [OF load [OF c] g]
    have least: "Suc d \<le> k" if "found db request seeds n st' k" for st' k
    proof (rule ccontr)
      assume "\<not> Suc d \<le> k"
      with near [OF that] step [OF t] show False by simp
    qed
    from step [OF t] have "found db request seeds n st (Suc d)" by simp
    from found_hitI [OF this load [OF c] node g _ _ least] node show ?thesis by simp
  qed
  have zipped: "list_all2 (\<lambda>x h. fst x = hit_node h \<and> found_hit db request seeds (Suc d) h) taken new"
    by (rule list.rel_mono_strong [OF tn(3)]) (use hit in fastforce)
  then have nodes: "map fst taken = map hit_node new"
    by (intro list_all2_map_eq) (auto elim: list_all2_mono)
  have found_new: "\<forall>h\<in>set new. found_hit db request seeds (Suc d) h"
    using list_all2_left [OF zipped] by blast
  have found_old: "\<forall>h\<in>set hits. found_hit db request seeds (Suc d) h"
  proof
    fix h assume "h \<in> set hits"
    with sound have "found_hit db request seeds d h" unfolding level_sound_def by blast
    then show "found_hit db request seeds (Suc d) h" by (rule found_hit_mono) simp
  qed
  have fresh: "set (map hit_node new) \<inter> set visited = {}"
    using step unfolding nodes [symmetric] by auto
  have visited': "set visited' = set visited \<union> hit_node ` set new"
    using arg_cong [where f = set, OF nodes] by (simp add: tn(4) Un_commute)
  have count: "int (length hits') \<le> trav_max_nodes request" using lim few by (auto split: if_splits)
  have sound': "level_sound db request seeds (Suc d) visited' hits'"
    unfolding level_sound_def
  proof (intro conjI)
    from sound have v: "set visited = fst ` set seeds \<union> hit_node ` set hits"
      "distinct (map hit_node hits)" "fst ` set seeds \<inter> hit_node ` set hits = {}"
      by (simp_all add: level_sound_def)
    show "set visited' = fst ` set seeds \<union> hit_node ` set hits'"
      unfolding visited' v(1) tn(2) by (simp add: image_Un Un_assoc)
    show "distinct (map hit_node hits')"
      using v fresh dist nodes by (simp add: tn(2)) blast
    show "fst ` set seeds \<inter> hit_node ` set hits' = {}"
      using v fresh by (simp add: tn(2) image_Un) blast
    show "\<forall>h\<in>set hits'. found_hit db request seeds (Suc d) h"
      using found_new found_old by (simp add: tn(2)) blast
  qed (rule count)
  show ?thesis
  proof (cases full)
    case True
    with sound' lim show ?thesis by simp
  next
    case False
    with lim few have taken: "taken = ?loaded" and count': "int (length hits') < trav_max_nodes request"
      by simp_all
    have keys: "fst ` set next' = hit_node ` set new"
      using nodes by (simp add: tn(5) keys_dict_update) (metis list.set_map)
    have next_found: "found db request seeds n st (Suc d)" if "map_of next' n = Some st" for n st
      using set_dict_update_values [of "[]" taken n st] that step by (simp add: tn(5))
    have extended: "closed_at db request visited' m" if m: "m \<in> set visited" for m
      unfolding closed_at_def
    proof (intro allI impI)
      fix ty n chunk assume e: "edge db request m ty n \<and> readable db request n chunk"
      show "n \<in> set visited'"
      proof (cases "n \<in> set visited")
        case True
        then show ?thesis by (simp add: visited')
      next
        case unseen: False
        with e closed [OF m] have "m \<in> fst ` set frontier" unfolding closed_at_def by blast
        then obtain pst where "map_of frontier m = Some pst"
          by (metis map_of_eq_None_iff not_None_eq list.set_map)
        from proposals_complete [OF props ok this _ unseen] e have n: "n \<in> fst ` set ps" by blast
        with load_chunks_complete [OF chunks ok _, of n chunk] e have "map_of chunks n \<noteq> None" by auto
        with n have "n \<in> fst ` set taken" unfolding taken by force
        then show ?thesis using nodes visited' by (metis UnCI list.set_map)
      qed
    qed
    have near': "n \<in> set visited'" if f: "found db request seeds n st k" and k: "k \<le> Suc d" for n st k
    proof (cases "k \<le> d")
      case True
      with near f show ?thesis by (simp add: visited')
    next
      case False
      with k have "k = Suc d" by simp
      with f obtain m pst ty chunk where "found db request seeds m pst d" "edge db request m ty n"
        "readable db request n chunk" by (cases rule: found.cases) auto
      with extended [OF near] show ?thesis unfolding closed_at_def by blast
    qed
    have "closed_at db request visited' m" if "m \<in> set visited'" "m \<notin> fst ` set next'" for m
    proof (rule extended)
      from that show "m \<in> set visited" unfolding keys visited' by simp
    qed
    moreover have "fst ` set next' \<subseteq> set visited'" unfolding keys visited' by simp
    ultimately have "level_inv db request seeds (Suc d) next' visited' hits'"
      unfolding level_inv_def using sound' count' next_found near' by blast
    with False sound' show ?thesis by simp
  qed
qed

section \<open>The whole expansion\<close>

lemma level_quiet:
  assumes "level_inv db request seeds d frontier visited hits" "rows_ok db"
    "proposals_of db request frontier visited = Inr []"
  shows "all_visited db request seeds visited"
proof (rule closed_all_visited)
  show "\<forall>m\<in>set visited. closed_at db request visited m"
  proof
    fix m assume m: "m \<in> set visited"
    show "closed_at db request visited m"
    proof (cases "m \<in> fst ` set frontier")
      case False
      with assms(1) m show ?thesis by (simp add: level_inv_def)
    next
      case True
      then obtain pst where "map_of frontier m = Some pst"
        by (metis map_of_eq_None_iff not_None_eq list.set_map)
      from proposals_complete [OF assms(3,2) this] show ?thesis
        unfolding closed_at_def by auto
    qed
  qed
  from assms(1) show "fst ` set seeds \<subseteq> set visited" by (simp add: level_inv_def level_sound_def)
qed

lemma expand_level_inv:
  assumes inv: "level_inv db request seeds d frontier visited hits" and ok: "rows_ok db"
    and run: "expand_level db request (int (Suc d)) frontier visited hits = Inr (hits', visited', next', stop)"
  shows "level_sound db request seeds (Suc d) visited' hits' \<and>
    (if stop then int (length hits') = trav_max_nodes request \<or> all_visited db request seeds visited'
     else level_inv db request seeds (Suc d) next' visited' hits')"
proof -
  from run obtain ps where ps: "proposals_of db request frontier visited = Inr ps"
    by (auto simp: expand_level_def rbind_eq_Inr)
  show ?thesis
  proof (cases "ps = []")
    case True
    with run ps have "hits' = hits" "visited' = visited" "stop" by (simp_all add: expand_level_def)
    moreover have "level_sound db request seeds (Suc d) visited hits"
      using inv unfolding level_inv_def level_sound_def
      by (meson found_hit_mono le_SucI le_refl)
    ultimately show ?thesis using level_quiet [OF inv ok ps [unfolded True]] by simp
  next
    case False
    with run ps obtain chunks full where c: "load_chunks db request (map fst ps) = Inr chunks"
      "take_level request (int (Suc d)) chunks (sort_key proposal_order ps) hits visited [] =
        Inr (hits', visited', next', full)" "stop \<longleftrightarrow> full \<or> next' = []"
      by (auto simp: expand_level_def rbind_eq_Inr simp del: of_nat_Suc)
    note step = level_step [OF inv ok ps c(1,2)]
    show ?thesis
    proof (cases full)
      case True
      with step c(3) show ?thesis by simp
    next
      case False
      with step have inv': "level_inv db request seeds (Suc d) next' visited' hits'" by simp
      have "all_visited db request seeds visited'" if "next' = []"
        using inv' that by (intro closed_all_visited) (auto simp: level_inv_def level_sound_def)
      with step False inv' c(3) show ?thesis by simp
    qed
  qed
qed

definition expansion_ok ::
    "document_db \<Rightarrow> graph_traversal_request \<Rightarrow> frontier \<Rightarrow> nat \<Rightarrow> search_hit list \<Rightarrow> bool" where
  "expansion_ok db request seeds D hits \<longleftrightarrow>
     distinct (map hit_node hits) \<and> fst ` set seeds \<inter> hit_node ` set hits = {} \<and>
     (\<forall>h\<in>set hits. found_hit db request seeds D h) \<and> int (length hits) \<le> trav_max_nodes request \<and>
     (int (length hits) < trav_max_nodes request \<longrightarrow>
        (\<forall>n st k. found db request seeds n st k \<longrightarrow> k \<le> D \<longrightarrow> n \<in> fst ` set seeds \<union> hit_node ` set hits))"

lemma level_sound_expansion:
  assumes "level_sound db request seeds d visited hits" "d \<le> D"
    "int (length hits) < trav_max_nodes request \<Longrightarrow>
      \<forall>n st k. found db request seeds n st k \<longrightarrow> k \<le> D \<longrightarrow> n \<in> set visited"
  shows "expansion_ok db request seeds D hits"
  using assms unfolding expansion_ok_def level_sound_def by (metis found_hit_mono)

lemma expand_rounds_ok:
  assumes "expand_rounds db request rounds (int (Suc d)) frontier visited hits = Inr hs"
    "level_inv db request seeds d frontier visited hits" "rows_ok db"
  shows "expansion_ok db request seeds (d + rounds) hs"
  using assms
proof (induction rounds arbitrary: d frontier visited hits)
  case 0
  then show ?case
    by (auto intro!: level_sound_expansion [where d = d and visited = visited] simp: level_inv_def)
next
  case (Suc rounds)
  from Suc.prems(1) obtain hits' visited' next' stop where
    level: "expand_level db request (int (Suc d)) frontier visited hits = Inr (hits', visited', next', stop)"
    and rest: "if stop then hs = hits'
      else expand_rounds db request rounds (int (Suc d) + 1) next' visited' hits' = Inr hs"
    by (auto simp: rbind_eq_Inr split: if_splits)
  note inv = expand_level_inv [OF Suc.prems(2,3) level]
  show ?case
  proof (cases stop)
    case True
    with inv rest show ?thesis
      by (auto intro!: level_sound_expansion [where d = "Suc d" and visited = visited']
          simp: all_visited_def)
  next
    case False
    with rest have "expand_rounds db request rounds (int (Suc (Suc d))) next' visited' hits' = Inr hs"
      by (simp add: add.commute)
    from Suc.IH [OF this _ Suc.prems(3)] inv False show ?thesis by simp
  qed
qed

lemma graph_expand_Inr:
  assumes "graph_expand db request = Inr hits"
  obtains items where "rmap seed_state (trav_seeds request) = Inr items" "ddb_up db"
    "expand_rounds db request (nat (trav_max_depth request)) 1 (dict_of items)
       (map fst (dict_of items)) [] = Inr hits"
  using assms by (auto simp: graph_expand_def rbind_eq_Inr Let_def split: if_splits)

lemma expand_exact:
  assumes "graph_expand db request = Inr hits" "rows_ok db" "1 \<le> trav_max_nodes request"
    "rmap seed_state (trav_seeds request) = Inr items"
  shows "expansion_ok db request (dict_of items) (nat (trav_max_depth request)) hits"
proof -
  let ?seeds = "dict_of items"
  have run: "expand_rounds db request (nat (trav_max_depth request)) (int (Suc 0)) ?seeds
      (map fst ?seeds) [] = Inr hits"
    using assms(1) by (rule graph_expand_Inr) (use assms(4) in simp)
  have near: "n \<in> fst ` set ?seeds" if "found db request ?seeds n st 0" for n st
    using that by (cases rule: found.cases) (force dest: map_of_SomeD)
  have "level_inv db request ?seeds 0 ?seeds (map fst ?seeds) []"
    using assms(3) near by (auto simp: level_inv_def level_sound_def intro: found_seed)
  from expand_rounds_ok [OF run this assms(2)] show ?thesis by simp
qed

section \<open>The filter agrees with the boundary check\<close>

lemma sorted_unique_strip:
  assumes "\<forall>x\<in>set xs. trimmed x"
  shows "normalized_values xs f = Inr (sorted_unique xs)"
proof -
  have "rmap (\<lambda>v. required v (f @ ''[]'')) xs = Inr xs"
    using assms by (intro rmap_id_ok) auto
  then show ?thesis by (simp add: normalized_values_def)
qed

lemma security_filter_visible:
  assumes ok: "security_model_ok (trav_security_model request)"
    and filter: "security_filter request = Inr visible" "visible c"
    and sec: "document_security_post_init \<lparr>doc_clearance_label = krow_clearance_label c,
      doc_classification_labels = krow_classification_labels c\<rparr> = Inr sec"
  shows "granted (document_visible_to_subject (trav_security_model request) sec (trav_subject_security request))"
  using ok
proof (cases rule: security_model_ok_cases)
  case none
  from none(1) show ?thesis by (rule visible_none)
next
  case (clearance lv)
  from filter clearance(1,2) obtain label labels l where
    l: "subj_clearance_label (trav_subject_security request) = Some label"
      "allowed_document_labels lv label = Inr labels" "krow_clearance_label c = Some l" "l \<in> set labels"
    by (auto simp: security_filter_def Let_def rbind_eq_Inr split: option.splits)
  from l(2) obtain sv where sv: "clearance_value lv label ''SubjectSecurity.clearance_label'' = Inr sv"
    by (auto simp: allowed_document_labels_def rbind_eq_Inr)
  from allowed_document_labels_iff [OF clearance(3) l(2) sv] l(4) obtain v where
    v: "map_of (levels lv) l = Some v" "v \<le> sv" by blast
  with clearance(3) have "trimmed l" by (auto simp: clearance_level_model_ok_def dest!: map_of_SomeD)
  with sec l(3) have "doc_clearance_label sec = Some l"
    by (auto simp: document_security_post_init_def rbind_eq_Inr required_opt_def)
  with v \<open>trimmed l\<close> l(1) sv show ?thesis
    unfolding visible_clearance [OF clearance(1,2)] by (auto simp: clearance_value_Inr trimmed_def)
next
  case (labels m)
  from filter labels(1,3) obtain ls where
    ls: "validate_labels m (subj_classification_labels (trav_subject_security request))
        ''GraphTraversalRequest.subject_security.classification_labels'' = Inr ls"
      "set (krow_classification_labels c) \<subseteq> set ls"
    by (auto simp: security_filter_def Let_def rbind_eq_Inr list_all_iff)
  from ls(1) have sub: "label_tuple ls" "set ls \<subseteq> set (labels_universe_subset m)"
    by (auto simp: validate_labels_Inr dest: normalized_values_label_tuple)
  let ?d = "sorted_unique (krow_classification_labels c)"
  have trimmed: "\<forall>x\<in>set (krow_classification_labels c). trimmed x"
    using sub(1) ls(2) by (auto simp: label_tuple_def)
  with sec have d: "doc_classification_labels sec = ?d"
    by (auto simp: document_security_post_init_def rbind_eq_Inr sorted_unique_strip)
  have "validate_labels m ?d f = Inr ?d" for f
    using sorted_unique_trimmed [OF trimmed] ls(2) sub(2) by (auto simp: validate_labels_Inr)
  moreover have "validate_labels m (subj_classification_labels (trav_subject_security request)) f = Inr ls" for f
    using ls(1) by (rule validate_labels_field)
  ultimately show ?thesis unfolding visible_labels [OF labels(1,3)] d using ls(2) by auto
qed

definition traversal_for ::
    "domain_profile \<Rightarrow> authorization_context \<Rightarrow> graph_traversal_request \<Rightarrow> bool" where
  "traversal_for domain a request \<longleftrightarrow>
     trav_domain request = domain_name domain \<and> trimmed (domain_name domain) \<and>
     trav_tenant_id request = auth_tenant_id a \<and> trimmed (auth_tenant_id a) \<and>
     trav_allowed_acl_labels request = auth_acl_labels a \<and> label_tuple (auth_acl_labels a) \<and>
     trav_security_model request = domain_security_model domain \<and>
     security_model_ok (domain_security_model domain) \<and>
     trav_subject_security request = auth_security a"

lemma readable_authorized:
  assumes "readable db request n chunk" "traversal_for domain a request"
    "graph_hit depth chunk st = Inr h"
  shows "hit_authorized domain a h"
proof -
  from assms(1) obtain visible c where v: "security_filter request = Inr visible" "acl_filter request c"
    "visible c" "load_chunk request c = Inr (n, chunk)" by (auto simp: readable_def)
  from v(4) obtain sec where sec: "document_security_post_init \<lparr>doc_clearance_label = krow_clearance_label c,
      doc_classification_labels = krow_classification_labels c\<rparr> = Inr sec" "chunk_security chunk = sec"
    "normalized_values (krow_acl_labels c) ''DocumentChunk.acl_labels'' = Inr (chunk_acl_labels chunk)"
    by (auto simp: load_chunk_def chunk_of_row_def rbind_eq_Inr document_chunk_post_init_def)
  from assms(3) have h: "chunk_security (hit_chunk h) = chunk_security chunk"
    "chunk_domain (hit_chunk h) = strip (chunk_domain chunk)"
    "chunk_tenant_id (hit_chunk h) = strip (chunk_tenant_id chunk)"
    "normalized_values (chunk_acl_labels chunk) ''DocumentChunk.acl_labels'' = Inr (chunk_acl_labels (hit_chunk h))"
    by (auto simp: graph_hit_def rbind_eq_Inr document_chunk_post_init_def search_hit_post_init_def required_Inr)
  have tuple: "label_tuple (chunk_acl_labels chunk)" using sec(3) by (rule normalized_values_label_tuple)
  with h(4) have acl: "chunk_acl_labels (hit_chunk h) = chunk_acl_labels chunk" by simp
  have set_acl: "set (chunk_acl_labels chunk) = strip ` set (krow_acl_labels c)"
    using sec(3) by (rule normalized_values_set)
  have "chunk_acl_labels chunk = [] \<or> set (chunk_acl_labels chunk) \<inter> set (auth_acl_labels a) \<noteq> {}"
  proof (cases "krow_acl_labels c = []")
    case True
    with set_acl show ?thesis by simp
  next
    case False
    with v(2) assms(2) obtain l where l: "l \<in> set (krow_acl_labels c)" "l \<in> set (auth_acl_labels a)"
      by (auto simp: acl_filter_def list_ex_iff traversal_for_def)
    with assms(2) have "strip l = l" by (auto simp: traversal_for_def label_tuple_def trimmed_def)
    with l set_acl show ?thesis by force
  qed
  with security_filter_visible [OF _ v(1,3) sec(1)] assms(2) load_chunk_node [OF v(4)] h acl sec(2)
  show ?thesis by (simp add: hit_authorized_def traversal_for_def trimmed_def)
qed

lemma expand_authorized:
  assumes "graph_expand db request = Inr hits" "rows_ok db" "1 \<le> trav_max_nodes request"
    "traversal_for domain a request"
  shows "\<forall>h\<in>set hits. hit_authorized domain a h"
proof
  fix h assume "h \<in> set hits"
  obtain items where "rmap seed_state (trav_seeds request) = Inr items"
    using assms(1) by (rule graph_expand_Inr)
  from expand_exact [OF assms(1-3) this] \<open>h \<in> set hits\<close>
  have "found_hit db request (dict_of items) (nat (trav_max_depth request)) h"
    by (simp add: expansion_ok_def)
  with readable_authorized [OF _ assms(4)] show "hit_authorized domain a h"
    unfolding found_hit_def by blast
qed

section \<open>When the expansion returns\<close>

lemma proposals_ok:
  assumes "rows_ok db"
  shows "is_ok (proposals_of db request frontier visited)"
  unfolding proposals_of_def
proof (rule rfold_ok)
  fix r s assume "r \<in> set (relationship_rows db request frontier)"
  with relationship_rows_set have "r \<in> set (ddb_relationships db)" by (force simp: current_relationships_def)
  with assms have "relationship_row_ok r" by (auto simp: rows_ok_def list_all_iff)
  then show "is_ok (propose_row request frontier visited r s)"
    unfolding relationship_row_ok_def
    by (elim conjE) (simp only: propose_row_def make_node_trimmed rbind_simps is_ok_simps)
qed

lemma load_chunk_ok:
  assumes "chunk_row_ok c" "key_tenant (krow_key c) = trav_tenant_id request"
    "key_domain (krow_key c) = trav_domain request"
  shows "load_chunk request c = Inr (node_ref (key_source (krow_key c)) (krow_chunk_id c), row_chunk c)"
proof -
  have "load_chunk request c = rbind (chunk_of_row (trav_tenant_id request) (trav_domain request)
      (key_source (krow_key c)) c) (\<lambda>chunk. Inr (node_ref (key_source (krow_key c)) (krow_chunk_id c), chunk))"
    using assms(1) by (simp add: load_chunk_def make_node_trimmed chunk_row_ok_def node_ref_def)
  with chunk_of_row_ok [OF assms(1)] assms(2,3) show ?thesis by simp
qed

lemma load_chunks_ok:
  assumes "rows_ok db" "is_ok (security_filter request)"
  shows "is_ok (load_chunks db request nodes)"
proof -
  from assms(2) obtain visible where v: "security_filter request = Inr visible" by (auto simp: is_ok_iff)
  have "is_ok (rmap (load_chunk request) (chunk_rows db request visible nodes))"
  proof (rule rmap_ok)
    fix c assume "c \<in> set (chunk_rows db request visible nodes)"
    with assms(1) have "chunk_row_ok c" "key_tenant (krow_key c) = trav_tenant_id request"
      "key_domain (krow_key c) = trav_domain request"
      by (auto simp: chunk_rows_def current_chunks_def rows_ok_def list_all_iff)
    then show "is_ok (load_chunk request c)" by (simp add: load_chunk_ok)
  qed
  then show ?thesis by (auto simp: load_chunks_def v is_ok_iff)
qed

lemma graph_hit_ok:
  assumes "load_chunk request c = Inr (n, chunk)"
  shows "is_ok (graph_hit depth chunk st)"
proof -
  from assms have "document_chunk_ok chunk"
    by (auto simp: load_chunk_def chunk_of_row_def rbind_eq_Inr dest: document_chunk_post_init_ok)
  then have "document_chunk_ok (chunk\<lparr>chunk_metadata := m\<rparr>)" for m by (simp add: document_chunk_ok_def)
  then show ?thesis
    by (simp add: graph_hit_def document_chunk_post_init_idem search_hit_post_init_def required_def
        strip_nonspace py_isspace_def)
qed

lemma take_level_ok:
  assumes "\<forall>n chunk. map_of chunks n = Some chunk \<longrightarrow> readable db request n chunk"
  shows "is_ok (take_level request depth chunks items hits visited nxt)"
  using assms
proof (induction request depth chunks items hits visited nxt rule: take_level.induct)
  case (2 request depth chunks node st items hits visited nxt)
  show ?case
  proof (cases "map_of chunks node")
    case None
    with "2.IH"(1) "2.prems" show ?thesis by simp
  next
    case (Some chunk)
    with "2.prems" have "readable db request node chunk" by blast
    then have "is_ok (graph_hit depth chunk st)" unfolding readable_def using graph_hit_ok by blast
    then obtain h where "graph_hit depth chunk st = Inr h" by (auto simp: is_ok_iff)
    with "2.IH"(2) [OF Some] "2.prems" Some show ?thesis by simp
  qed
qed simp

lemma expand_level_ok:
  assumes "rows_ok db" "is_ok (security_filter request)"
  shows "is_ok (expand_level db request depth frontier visited hits)"
proof -
  obtain ps where ps: "proposals_of db request frontier visited = Inr ps"
    by (rule is_okE [OF proposals_ok [OF assms(1)]])
  obtain chunks where c: "load_chunks db request (map fst ps) = Inr chunks"
    by (rule is_okE [OF load_chunks_ok [OF assms]])
  have "is_ok (take_level request depth chunks (sort_key proposal_order ps) hits visited [])"
    using load_chunks_readable [OF c] by (intro take_level_ok) blast
  then obtain level where "take_level request depth chunks (sort_key proposal_order ps) hits visited [] = Inr level"
    by (rule is_okE)
  with ps c show ?thesis by (simp add: expand_level_def split: prod.split)
qed

lemma expand_rounds_returns:
  assumes "rows_ok db" "is_ok (security_filter request)"
  shows "is_ok (expand_rounds db request rounds depth frontier visited hits)"
proof (induction rounds arbitrary: depth frontier visited hits)
  case (Suc rounds)
  obtain level where "expand_level db request depth frontier visited hits = Inr level"
    by (rule is_okE [OF expand_level_ok [OF assms]])
  with Suc.IH show ?case by (cases level) simp
qed simp

lemma graph_expand_returns:
  assumes "rows_ok db" "is_ok (security_filter request)" "ddb_up db"
    "is_ok (rmap seed_state (trav_seeds request))"
  shows "is_ok (graph_expand db request)"
proof -
  obtain items where items: "rmap seed_state (trav_seeds request) = Inr items" by (rule is_okE [OF assms(4)])
  obtain hits where "expand_rounds db request (nat (trav_max_depth request)) 1 (dict_of items)
      (map fst (dict_of items)) [] = Inr hits" by (rule is_okE [OF expand_rounds_returns [OF assms(1,2)]])
  with items assms(3) show ?thesis by (simp add: graph_expand_def Let_def)
qed

lemma graph_expand_fails:
  assumes "graph_expand db request = Inl e" "is_ok (rmap seed_state (trav_seeds request))"
  shows "is_class DependencyUnavailableError e \<or> is_class IngestionError e"
  using assms by (auto simp: graph_expand_def is_ok_iff Let_def or_unavailable_def split: sum.splits if_splits)

end
