(* ===== verification/Query_Service.thy ===== *)
theory Query_Service
  imports Pipeline_Safety
begin

text \<open>
  \<open>application/query_service.py\<close>: the service of one domain narrows the caller's rights to those of
  the domain, checks the command against the domain profile and runs the domain's pipeline.
\<close>

record 'w query_service =
  qs_domain :: domain_profile
  qs_retrieval :: "search_request \<Rightarrow> ('w, py_exn, search_hit list) prog"
  qs_graph :: "graph_traversal_request \<Rightarrow> ('w, py_exn, search_hit list) prog"
  qs_model_servers :: "(string \<times> 'w model_server_runtime) list"
  qs_prompts :: "string \<Rightarrow> ('w, py_exn, string) prog"
  qs_pipeline :: pipeline_definition
  qs_engine :: "'w engine"
  qs_conversation_history :: "'w conversation_service option"

definition make_query_service :: "'w query_service \<Rightarrow> 'w query_service result" where
  "make_query_service q =
     (if qs_model_servers q = []
      then Inl (Known PolicyViolationError ''At least one model server must be configured'')
      else Inr q)"

section \<open>The rights of the caller in the domain\<close>

definition effective_authorization ::
    "domain_profile \<Rightarrow> authorization_context \<Rightarrow> authorization_context result" where
  "effective_authorization domain a =
     (if auth_tenant_id a \<noteq> domain_tenant_id domain
      then Inl (Known PolicyViolationError ''The authenticated tenant cannot access this domain'')
      else authorization_context_post_init (a\<lparr>
        auth_acl_labels := sorted_unique (filter (\<lambda>l. l \<in> set (domain_allowed_acl_labels domain)) (auth_acl_labels a)),
        auth_allow_external_model := auth_allow_external_model a \<and> domain_allow_external_model domain\<rparr>))"

section \<open>execute\<close>

definition forbidden_filters :: "domain_profile \<Rightarrow> query_command \<Rightarrow> string list" where
  "forbidden_filters domain command =
     list_diff (map fst (command_filters command)) (retrieval_allowed_filter_fields (domain_retrieval domain))"

text \<open>The checks, up to the command the pipeline runs with.\<close>

definition admitted_command :: "domain_profile \<Rightarrow> query_command \<Rightarrow> query_command result" where
  "admitted_command domain command =
     (if command_domain command \<noteq> domain_name domain
      then Inl (Known PolicyViolationError
             (''Query domain '' @ quoted (command_domain command) @ '' does not match service domain''))
      else rbind (effective_authorization domain (command_authorization command)) (\<lambda>a.
        if forbidden_filters domain command \<noteq> []
        then Inl (Known PolicyViolationError
               (''Query contains filters that are not allowed by the domain profile: '' @
                py_join '', '' (sorted_unique (forbidden_filters domain command))))
        else if command_diagnostics_requested command \<and> \<not> auth_diagnostic_access a
        then Inl (Known PolicyViolationError ''The authenticated user cannot access query diagnostics'')
        else query_command_post_init (command\<lparr>command_authorization := a\<rparr>)))"

definition query_context :: "'w query_service \<Rightarrow> query_command \<Rightarrow> 'w pipeline_context" where
  "query_context q command =
     new_context command (qs_domain q) (qs_retrieval q) (qs_graph q)
       (rt_gateway (snd (hd (qs_model_servers q)))) (qs_prompts q) (qs_conversation_history q)
       (qs_model_servers q)"

definition query_start :: "'w query_service \<Rightarrow> query_command \<Rightarrow> 'w \<Rightarrow> 'w run_state" where
  "query_start q command w = \<lparr>rs_world = w, rs_ctx = query_context q command\<rparr>"

definition query_execute ::
    "'w query_service \<Rightarrow> 'w runtime_env \<Rightarrow> query_command \<Rightarrow> ('w, py_exn, query_result) prog" where
  "query_execute q env command w =
     (case admitted_command (qs_domain q) command of
        Inl e \<Rightarrow> (Inl e, w)
      | Inr command' \<Rightarrow>
          (case engine_execute (qs_engine q) env (qs_pipeline q) (query_start q command' w) of
             (r, s) \<Rightarrow> (r, rs_world s)))"

section \<open>What is admitted\<close>

definition narrowed :: "domain_profile \<Rightarrow> authorization_context \<Rightarrow> authorization_context" where
  "narrowed domain a = a\<lparr>
     auth_acl_labels := sorted_unique (filter (\<lambda>l. l \<in> set (domain_allowed_acl_labels domain)) (auth_acl_labels a)),
     auth_allow_external_model := auth_allow_external_model a \<and> domain_allow_external_model domain\<rparr>"

lemma narrowed_ok: "authorization_context_ok a \<Longrightarrow> authorization_context_ok (narrowed domain a)"
  by (auto simp: authorization_context_ok_def narrowed_def label_tuple_def intro!: sorted_unique_trimmed [unfolded label_tuple_def])

lemma effective_authorization_Inr:
  assumes "authorization_context_ok a"
  shows "effective_authorization domain a = Inr a' \<longleftrightarrow>
    auth_tenant_id a = domain_tenant_id domain \<and> a' = narrowed domain a"
  using authorization_context_post_init_idem [OF narrowed_ok [OF assms, of domain]]
  by (auto simp: effective_authorization_def narrowed_def)

lemma admitted_command_Inr:
  assumes "query_command_ok command" "authorization_context_ok (command_authorization command)"
  shows "admitted_command domain command = Inr command' \<longleftrightarrow>
    command_domain command = domain_name domain \<and>
    auth_tenant_id (command_authorization command) = domain_tenant_id domain \<and>
    fst ` set (command_filters command) \<subseteq> set (retrieval_allowed_filter_fields (domain_retrieval domain)) \<and>
    (command_diagnostics_requested command \<longrightarrow> auth_diagnostic_access (command_authorization command)) \<and>
    command' = command\<lparr>command_authorization := narrowed domain (command_authorization command)\<rparr>"
proof -
  let ?a = "command_authorization command"
  have ok: "query_command_ok (command\<lparr>command_authorization := a\<rparr>)" for a
    using assms(1) by (simp add: query_command_ok_def)
  have access: "auth_diagnostic_access (narrowed domain ?a) = auth_diagnostic_access ?a"
    by (simp add: narrowed_def)
  have forbidden: "forbidden_filters domain command = [] \<longleftrightarrow>
      fst ` set (command_filters command) \<subseteq> set (retrieval_allowed_filter_fields (domain_retrieval domain))"
    by (simp add: forbidden_filters_def list_diff_Nil_iff)
  show ?thesis
    using query_command_post_init_idem [OF ok, of "narrowed domain ?a"]
    by (auto simp: admitted_command_def rbind_eq_Inr effective_authorization_Inr [OF assms(2)] access forbidden)
qed

section \<open>What a result reports\<close>

lemma body_result:
  assumes "engine_body eng env p rid s = (Inr result, s')"
  shows "\<exists>d. diagnostics env (rs_ctx s') = Inr d \<and> result = query_result_of (rs_ctx s') d"
  using assms
  by (auto simp: engine_body_def run_simps Let_def)

lemma handler_raises: "engine_handler eng rid e s \<noteq> (Inr x, s')"
  by (auto simp: engine_handler_def engine_failed_def scatch_def run_simps
      split: sum.splits prod.splits if_splits)

lemma execute_result:
  assumes "engine_execute eng env p s = (Inr result, s')"
  shows "\<exists>d. diagnostics env (rs_ctx s') = Inr d \<and> result = query_result_of (rs_ctx s') d"
proof -
  from assms obtain rid s1 where "scatch (engine_body eng env p rid) (engine_handler eng rid) s1 = (Inr result, s')"
    by (auto simp: engine_execute_def run_simps)
  then have "engine_body eng env p rid s1 = (Inr result, s')"
    by (auto simp: scatch_def handler_raises split: sum.splits prod.splits)
  then show ?thesis by (rule body_result)
qed

lemma diagnostics_chunks:
  assumes "diagnostics env c = Inr d"
  shows "map rd_chunk_id (qd_retrieval d) = map hit_key (ctx_hits c) \<and>
    qd_model_transmission d = context_transmission c \<and>
    qd_allowed_acl_labels d = auth_acl_labels (command_authorization (ctx_command c))"
proof -
  from assms obtain rs where rs: "rmap (hit_diagnostic (hit_origins (ctx_seed_hits c) (ctx_graph_hits c)))
      (enumerate_from_1 (ctx_hits c)) = Inr rs" "qd_retrieval d = rs"
      "qd_model_transmission d = context_transmission c"
      "qd_allowed_acl_labels d = auth_acl_labels (command_authorization (ctx_command c))"
    by (auto simp: diagnostics_def Let_def rbind_eq_Inr)
  have "list_all2 (\<lambda>x y. hit_key (snd x) = rd_chunk_id y) (enumerate_from_1 (ctx_hits c)) rs"
    using rs(1) unfolding rmap_eq_Inr
    by (rule list_all2_mono) (auto simp: hit_diagnostic_def Let_def rbind_eq_Inr hit_key_def)
  then have "map (hit_key \<circ> snd) (enumerate_from_1 (ctx_hits c)) = map rd_chunk_id rs"
    by (induction rule: list_all2_induct) auto
  moreover have "map snd (enumerate_from_1 xs) = xs" for xs :: "search_hit list"
    by (simp add: enumerate_from_1_def del: upt_Suc)
  ultimately show ?thesis using rs by (metis map_map)
qed

lemma query_start_fresh:
  "retrieval_safe (rs_ctx (query_start q command w))"
  "transmission_inv (rs_ctx (query_start q command w))"
  "ctx_command (rs_ctx (query_start q command w)) = command"
  "ctx_domain (rs_ctx (query_start q command w)) = qs_domain q"
  "ctx_model_servers (rs_ctx (query_start q command w)) = qs_model_servers q"
  by (simp_all add: query_start_def query_context_def new_context_def retrieval_safe_defs transmission_inv_def)

lemma query_result_context:
  assumes "query_execute q env command w = (Inr result, w')"
    "validate (default_registry env) (qs_pipeline q) = Inr ()"
    "engine_registry (qs_engine q) = default_registry env"
  shows "\<exists>command' c d. admitted_command (qs_domain q) command = Inr command' \<and>
    diagnostics env c = Inr d \<and> result = query_result_of c d \<and>
    ctx_command c = command' \<and> ctx_domain c = qs_domain q \<and> ctx_model_servers c = qs_model_servers q \<and>
    list_all (hit_authorized (qs_domain q) (command_authorization command')) (ctx_hits c) \<and>
    transmission_inv c"
proof -
  from assms(1) obtain command' where ad: "admitted_command (qs_domain q) command = Inr command'"
    by (auto simp: query_execute_def split: sum.splits)
  with assms(1) obtain s' where run: "engine_execute (qs_engine q) env (qs_pipeline q) (query_start q command' w) =
      (Inr result, s')" by (auto simp: query_execute_def split: prod.splits)
  let ?c0 = "rs_ctx (query_start q command' w)"
  have "same_request ?c0 (rs_ctx s')"
    by (rule request_run.validated_execute [OF assms(2,3) _ run]) (simp add: same_request_def)
  moreover have "hits_authorized (rs_ctx s')"
    by (rule retrieval_run.validated_execute [OF assms(2,3) query_start_fresh(1) run])
  moreover have "transmission_inv (rs_ctx s')"
    by (rule transmission_run.validated_execute [OF assms(2,3) query_start_fresh(2) run])
  ultimately show ?thesis
    using execute_result [OF run] ad
    by (intro exI [of _ command'] exI [of _ "rs_ctx s'"])
      (auto simp: same_request_def query_start_fresh hits_authorized_def list_all_iff)
qed

text \<open>
  What a result may report to the caller \<open>a\<close> of the service: chunks it may read with its narrowed rights, and
  a model only if a configured server was allowed and satisfies the requirement.
\<close>

definition transmission_cleared ::
    "'w query_service \<Rightarrow> authorization_context \<Rightarrow> model_transmission_diagnostic \<Rightarrow> bool" where
  "transmission_cleared q a t \<longleftrightarrow> (mt_checked t \<and> mt_allowed t \<longrightarrow>
     (\<exists>sid rt. map_of (qs_model_servers q) sid = Some rt \<and>
       mt_final_model_server_id t = Some (server_id (rt_definition rt)) \<and>
       granted (model_server_satisfies_requirement (domain_security_model (qs_domain q)) (rt_definition rt)
         (mt_context_security_requirement t)) \<and>
       (server_trust_boundary (rt_definition rt) = EXTERNAL \<longrightarrow>
         auth_allow_external_model a \<and> domain_allow_external_model (qs_domain q))))"

definition answer_cleared :: "'w query_service \<Rightarrow> authorization_context \<Rightarrow> query_result \<Rightarrow> bool" where
  "answer_cleared q a result \<longleftrightarrow> (\<exists>d hits. result_diagnostics result = Some d \<and>
     map rd_chunk_id (qd_retrieval d) = map hit_key hits \<and>
     list_all (hit_authorized (qs_domain q) (narrowed (qs_domain q) a)) hits \<and>
     transmission_cleared q a (qd_model_transmission d))"

lemma context_transmission_cleared:
  assumes "transmission_inv c" "ctx_model_servers c = qs_model_servers q" "ctx_domain c = qs_domain q"
    "command_authorization (ctx_command c) = narrowed (qs_domain q) a"
  shows "transmission_cleared q a (context_transmission c)"
  using assms unfolding transmission_cleared_def transmission_inv_def context_transmission_def server_may_receive_def
  by (auto simp: narrowed_def)

lemma query_result_cleared:
  assumes "query_execute q env command w = (Inr result, w')"
    "validate (default_registry env) (qs_pipeline q) = Inr ()"
    "engine_registry (qs_engine q) = default_registry env"
    "authorization_context_ok (command_authorization command)"
  shows "answer_cleared q (command_authorization command) result"
proof -
  let ?a = "command_authorization command"
  obtain command' c d where r: "admitted_command (qs_domain q) command = Inr command'"
    "diagnostics env c = Inr d" "result = query_result_of c d" "ctx_command c = command'"
    "ctx_domain c = qs_domain q" "ctx_model_servers c = qs_model_servers q"
    "list_all (hit_authorized (qs_domain q) (command_authorization command')) (ctx_hits c)" "transmission_inv c"
    using query_result_context [OF assms(1-3)] by blast
  from r(1) have a: "command_authorization command' = narrowed (qs_domain q) ?a"
    using effective_authorization_Inr [OF assms(4)]
    by (auto simp: admitted_command_def rbind_eq_Inr query_command_post_init_def split: if_splits)
  have "transmission_cleared q ?a (context_transmission c)"
    using r(4-6,8) a by (intro context_transmission_cleared) simp_all
  with diagnostics_chunks [OF r(2)] r(3,7) a show ?thesis
    unfolding answer_cleared_def by (intro exI [of _ d] exI [of _ "ctx_hits c"]) (simp add: query_result_of_def)
qed

lemma query_refused: "query_execute q env command w = (Inl e, w') \<Longrightarrow>
    \<not> is_ok (admitted_command (qs_domain q) command) \<Longrightarrow> w' = w"
  by (auto simp: query_execute_def split: sum.splits)

end
