(* ===== verification/Service_Properties.thy ===== *)
theory Service_Properties
  imports Graph_Search Query_Service Pipeline_Properties
begin

text \<open>
  The properties of the graph traversal and of the query service, with witnesses on a graph of three
  documents.
\<close>

section \<open>A graph\<close>

definition demo_key :: "string \<Rightarrow> source_key" where
  "demo_key s = source_key_of ''acme'' ''docs'' s"

definition demo_chunk_row :: "string \<Rightarrow> string \<Rightarrow> string \<Rightarrow> chunk_row" where
  "demo_chunk_row s c label = \<lparr>krow_key = demo_key s, krow_version = ''1'', krow_chunk_id = c,
     krow_position = 0, krow_uri = None, krow_text = ''text'', krow_metadata = [],
     krow_acl_labels = [], krow_clearance_label = Some label, krow_classification_labels = []\<rparr>"

definition demo_link :: "string \<times> string \<Rightarrow> string \<times> string \<Rightarrow> relationship_row" where
  "demo_link f t = \<lparr>rrow_owner = demo_key (fst f), rrow_version = ''1'', rrow_from_source = fst f,
     rrow_from_chunk = snd f, rrow_to_source = fst t, rrow_to_chunk = snd t, rrow_type = ''cites'',
     rrow_metadata = []\<rparr>"

definition demo_documents :: document_db where
  "demo_documents = \<lparr>ddb_versions = [],
     ddb_chunks = [demo_chunk_row ''src'' ''c1'' ''public'', demo_chunk_row ''s2'' ''c2'' ''public'',
       demo_chunk_row ''s3'' ''c3'' ''secret''],
     ddb_relationships = [demo_link (''src'', ''c1'') (''s2'', ''c2''), demo_link (''s2'', ''c2'') (''s3'', ''c3''),
       demo_link (''s3'', ''c3'') (''src'', ''c1'')],
     ddb_jobs = [],
     ddb_sources = map (\<lambda>s. \<lparr>srow_key = demo_key s, srow_version = ''1'', srow_job_id = ''j''\<rparr>)
       [''src'', ''s2'', ''s3''],
     ddb_imports = [], ddb_up = True, ddb_jsonb = Some, ddb_uuid = Some\<rparr>"

definition demo_traversal :: "string \<Rightarrow> graph_traversal_request" where
  "demo_traversal label = \<lparr>trav_seeds = [demo_hit ''c1'' ''public''], trav_domain = ''docs'',
     trav_tenant_id = ''acme'', trav_max_depth = 2, trav_max_nodes = 3, trav_direction = OUTGOING,
     trav_relationship_types = [], trav_allowed_acl_labels = [], trav_security_model = demo_model,
     trav_subject_security = \<lparr>subj_clearance_label = Some label, subj_classification_labels = []\<rparr>\<rparr>"

lemma demo_documents_ok: "rows_ok demo_documents" "ddb_up demo_documents"
  by code_simp+

lemma demo_expansion:
  "rmap seed_state (trav_seeds (demo_traversal l)) = Inr [(node_ref ''src'' ''c1'', (1, []))]"
  "case graph_expand demo_documents (demo_traversal ''secret'') of
     Inr hits \<Rightarrow> map hit_key hits = [''c2'', ''c3''] | Inl e \<Rightarrow> False"
  "case graph_expand demo_documents (demo_traversal ''public'') of
     Inr hits \<Rightarrow> map hit_key hits = [''c2''] | Inl e \<Rightarrow> False"
  by (simp add: demo_traversal_def) code_simp+

lemma dict_of_single: "dict_of [x] = [x]"
  by (simp add: dict_of_distinct)

section \<open>Graph traversal\<close>



text \<open>
  With a reachable database of well-formed rows and a subject whose labels are known to the
  security model, the expansion returns: no row it reads makes it fail.
\<close>

theorem graph_expansion_returns:
  assumes "rows_ok db" "ddb_up db" "is_ok (security_filter request)"
    "is_ok (rmap seed_state (trav_seeds request))"
  shows "\<exists>hits. graph_port request db = (Inr hits, db)"
  using graph_expand_returns [OF assms(1,3,2,4)] by (simp add: graph_port_def is_ok_iff)

lemma graph_expansion_returns_witness:
  "\<exists>hits. graph_port (demo_traversal ''public'') demo_documents = (Inr hits, demo_documents)"
proof (rule graph_expansion_returns [OF demo_documents_ok])
  show "is_ok (security_filter (demo_traversal ''public''))" by code_simp
  show "is_ok (rmap seed_state (trav_seeds (demo_traversal ''public'')))" by (simp add: demo_expansion)
qed

text \<open>
  The request the action builds is one of the authenticated subject, so what the traversal returns
  passes the boundary check of the action.
\<close>

lemma traversal_request_for:
  assumes "traversal_request config c = Inr request" "domain_profile_ok (ctx_domain c)"
    "security_model_ok (domain_security_model (ctx_domain c))"
    "authorization_context_ok (command_authorization (ctx_command c))"
  shows "traversal_for (ctx_domain c) (command_authorization (ctx_command c)) request \<and>
    1 \<le> trav_max_nodes request \<and> trav_seeds request = ctx_hits c"
  using assms
  by (auto simp: traversal_request_def Let_def graph_traversal_request_post_init_def rbind_eq_Inr
      traversal_for_def domain_profile_ok_def authorization_context_ok_def trimmed_def
      split: if_splits)


text \<open>
  Over the document store, the action \<open>expand_graph\<close> never refuses what the traversal returned: the
  boundary check agrees with the filters of the queries. The action records the expanded chunks
  and merges them behind the seeds; a failure of the traversal is its only failure.
\<close>

theorem expand_graph_over_store:
  assumes "rs_ctx s = c" "ctx_graph c = graph_port" "rows_ok (rs_world s)"
    "expand_graph_config step = Inr config" "eg_enabled config" "ctx_hits c \<noteq> []"
    "traversal_request config c = Inr request" "domain_profile_ok (ctx_domain c)"
    "security_model_ok (domain_security_model (ctx_domain c))"
    "authorization_context_ok (command_authorization (ctx_command c))"
  shows "expand_graph_execute step s =
    (case graph_expand (rs_world s) request of
       Inl e \<Rightarrow> (Inl e, s)
     | Inr hits \<Rightarrow> (Inr None, s\<lparr>rs_ctx := c\<lparr>ctx_graph_hits := hits,
         ctx_hits := merge_hits (ctx_seed_hits c) hits\<rparr>\<rparr>))"
proof (cases "graph_expand (rs_world s) request")
  case (Inl e)
  with assms show ?thesis by (simp add: expand_graph_execute_def run_simps graph_port_def)
next
  case (Inr hits)
  from traversal_request_for [OF assms(7,8,9,10)]
  have "traversal_for (ctx_domain c) (command_authorization (ctx_command c)) request"
    "1 \<le> trav_max_nodes request" by blast+
  from expand_authorized [OF Inr assms(3) this(2,1)]
  have "verify_retrieval_boundary (ctx_domain c) (command_authorization (ctx_command c)) hits = Inr ()"
    by (simp add: verify_retrieval_boundary_iff)
  with Inr assms show ?thesis by (simp add: expand_graph_execute_def run_simps graph_port_def)
qed

definition demo_graph_step :: pipeline_step_definition where
  "demo_graph_step = demo_step ''expand_graph'' ''1.0'' None
     [(''enabled'', PBool True), (''max_depth'', PInt 2), (''max_nodes'', PInt 3), (''direction'', PStr ''outgoing''),
      (''relationship_types'', PTuple [])]"

definition demo_graph_settings :: expand_graph_settings where
  "demo_graph_settings = \<lparr>eg_enabled = True, eg_max_depth = 2, eg_max_nodes = 3, eg_direction = OUTGOING,
     eg_relationship_types = []\<rparr>"

definition demo_graph_context :: "document_db pipeline_context" where
  "demo_graph_context = (new_context demo_command demo_domain (\<lambda>request w. (Inr [], w)) graph_port
     \<lparr>gw_name = ''internal'', gw_model_id = ''m'', gw_generate = (\<lambda>system_prompt user_prompt parameters w.
       (Inl (OtherError ''down''), w))\<rparr> (\<lambda>key w. (Inr [], w)) None [])
     \<lparr>ctx_hits := [demo_hit ''c1'' ''public''], ctx_seed_hits := [demo_hit ''c1'' ''public'']\<rparr>"

lemma demo_graph_facts:
  "expand_graph_config demo_graph_step = Inr demo_graph_settings"
  "traversal_request demo_graph_settings demo_graph_context = Inr (demo_traversal ''secret'')"
  by code_simp+

lemma expand_graph_over_store_witness:
  "\<exists>c. expand_graph_execute demo_graph_step \<lparr>rs_world = demo_documents, rs_ctx = demo_graph_context\<rparr> =
       (Inr None, \<lparr>rs_world = demo_documents, rs_ctx = c\<rparr>) \<and>
     map hit_key (ctx_hits c) = [''c1'', ''c2'', ''c3'']"
proof -
  obtain hits where hits: "graph_expand demo_documents (demo_traversal ''secret'') = Inr hits"
    "map hit_key hits = [''c2'', ''c3'']"
    using demo_expansion(2) by (auto split: sum.splits)
  let ?s = "\<lparr>rs_world = demo_documents, rs_ctx = demo_graph_context\<rparr>"
  have ok: "domain_profile_ok (ctx_domain demo_graph_context)"
    "security_model_ok (domain_security_model (ctx_domain demo_graph_context))"
    "authorization_context_ok (command_authorization (ctx_command demo_graph_context))"
    by code_simp+
  have "rs_ctx ?s = demo_graph_context" "ctx_graph demo_graph_context = graph_port"
    "rows_ok (rs_world ?s)" "eg_enabled demo_graph_settings" "ctx_hits demo_graph_context \<noteq> []"
    by (simp_all add: demo_graph_context_def demo_graph_settings_def new_context_def demo_documents_ok)
  note run = expand_graph_over_store [OF this(1-3) demo_graph_facts(1) this(4,5) demo_graph_facts(2) ok]
  from hits(2) obtain h2 h3 where h: "hits = [h2, h3]" "hit_key h2 = ''c2''" "hit_key h3 = ''c3''" by auto
  have key: "hit_key (demo_hit a b) = a" for a b by (simp add: hit_key_def demo_hit_def)
  have "map hit_key (merge_hits (ctx_seed_hits demo_graph_context) hits) = [''c1'', ''c2'', ''c3'']"
    by (simp add: h merge_hits_def demo_graph_context_def new_context_def dict_of_single key has_key_def)
  with run hits(1) show ?thesis by simp
qed

section \<open>The query service\<close>

text \<open>
  C36: A query is admitted exactly when it names the service's domain, its caller is of the domain's
  tenant, its filters are allowed and diagnostics are requested only by a caller who may see them;
  it then runs with the caller's ACL labels cut down to the domain's and with external models only
  if both allow them.
\<close>

theorem query_admission_exact:
  assumes "query_command_ok command" "authorization_context_ok (command_authorization command)"
  shows "admitted_command domain command = Inr command' \<longleftrightarrow>
    command_domain command = domain_name domain \<and>
    auth_tenant_id (command_authorization command) = domain_tenant_id domain \<and>
    fst ` set (command_filters command) \<subseteq> set (retrieval_allowed_filter_fields (domain_retrieval domain)) \<and>
    (command_diagnostics_requested command \<longrightarrow> auth_diagnostic_access (command_authorization command)) \<and>
    command' = command\<lparr>command_authorization := (command_authorization command)\<lparr>
      auth_acl_labels := sorted_unique (filter (\<lambda>l. l \<in> set (domain_allowed_acl_labels domain))
        (auth_acl_labels (command_authorization command))),
      auth_allow_external_model := auth_allow_external_model (command_authorization command) \<and>
        domain_allow_external_model domain\<rparr>\<rparr>"
  using admitted_command_Inr [OF assms] by (simp only: narrowed_def)

lemma query_admission_exact_witness:
  "admitted_command demo_domain (demo_command\<lparr>command_authorization :=
       demo_authorization\<lparr>auth_acl_labels := [''staff'']\<rparr>\<rparr>) = Inr demo_command \<and>
   \<not> is_ok (admitted_command demo_domain (demo_command\<lparr>command_filters := [(''team'', PStr ''a'')]\<rparr>))"
proof -
  let ?c1 = "demo_command\<lparr>command_authorization := demo_authorization\<lparr>auth_acl_labels := [''staff'']\<rparr>\<rparr>"
  let ?c2 = "demo_command\<lparr>command_filters := [(''team'', PStr ''a'')]\<rparr>"
  have ok: "query_command_ok ?c1" "authorization_context_ok (command_authorization ?c1)"
    "query_command_ok ?c2" "authorization_context_ok (command_authorization ?c2)" by code_simp+
  have "admitted_command demo_domain ?c1 = Inr demo_command"
    unfolding query_admission_exact [OF ok(1,2)]
    by (simp add: demo_command_def demo_domain_def demo_authorization_def sorted_unique_def)
  moreover have "admitted_command demo_domain ?c2 \<noteq> Inr c" for c
    unfolding query_admission_exact [OF ok(3,4)] by (simp add: demo_domain_def)
  ultimately show ?thesis by (auto simp: is_ok_iff)
qed



definition demo_service :: "string list query_service" where
  "demo_service = \<lparr>qs_domain = demo_domain,
     qs_retrieval = (\<lambda>request w. (Inr [demo_hit ''c1'' ''secret''], w @ [''search''])),
     qs_graph = (\<lambda>request w. (Inr [], w @ [''expand''])),
     qs_model_servers = [(''default-model'', demo_server)],
     qs_prompts = (\<lambda>key w. (Inr ''You answer.'', w @ [''prompt''])), qs_pipeline = direct_pipeline,
     qs_engine = demo_engine, qs_conversation_history = None\<rparr>"

lemma demo_parts_ok: "authorization_context_ok demo_authorization"
  by code_simp

lemma demo_admitted: "admitted_command demo_domain demo_command = Inr demo_command"
  by code_simp

definition demo_body_start :: "string list run_state" where
  "demo_body_start = \<lparr>rs_world = [''start''], rs_ctx = query_context demo_service demo_command\<rparr>"

lemma demo_body:
  "case engine_body demo_engine demo_env direct_pipeline ''run-1'' demo_body_start of
     (Inr result, s) \<Rightarrow> result_answer result = ''answer'' \<and>
       (case result_diagnostics result of None \<Rightarrow> False | Some d \<Rightarrow>
          map rd_chunk_id (qd_retrieval d) = [''c1''] \<and> mt_checked (qd_model_transmission d) \<and>
          mt_allowed (qd_model_transmission d))
   | (Inl e, s) \<Rightarrow> False"
  by code_simp

lemma demo_run:
  "\<exists>run. pipeline_run_post_init
     \<lparr>run_run_id = ''run-1'', run_request_id = command_request_id (ctx_command (query_context demo_service demo_command)),
      run_session_id = command_session_id (ctx_command (query_context demo_service demo_command)),
      run_domain = domain_name (ctx_domain (query_context demo_service demo_command)),
      run_tenant_id = auth_tenant_id (command_authorization (ctx_command (query_context demo_service demo_command))),
      run_pipeline_name = pipeline_name direct_pipeline,
      run_pipeline_version = pipeline_behavior_version direct_pipeline,
      run_pipeline_checksum = pipeline_checksum direct_pipeline,
      run_query = command_query (ctx_command (query_context demo_service demo_command))\<rparr> = Inr run"
  unfolding is_ok_iff [symmetric] by code_simp

lemma demo_service_answers:
  "\<exists>result w d. query_execute demo_service demo_env demo_command [] = (Inr result, w) \<and>
     result_diagnostics result = Some d \<and> map rd_chunk_id (qd_retrieval d) = [''c1''] \<and>
     mt_checked (qd_model_transmission d) \<and> mt_allowed (qd_model_transmission d)"
proof -
  obtain result s d where body: "engine_body demo_engine demo_env direct_pipeline ''run-1'' demo_body_start = (Inr result, s)"
    and d: "result_diagnostics result = Some d" "map rd_chunk_id (qd_retrieval d) = [''c1'']"
      "mt_checked (qd_model_transmission d)" "mt_allowed (qd_model_transmission d)"
    using demo_body by (auto split: prod.splits sum.splits option.splits)
  have ports: "engine_run_id_factory demo_engine w = (Inr ''run-1'', w)"
    "audit_start (engine_audit demo_engine) run w = (Inr (), w @ [''start''])" for run w
    by (simp_all add: demo_engine_def demo_audit_def)
  have "engine_execute demo_engine demo_env direct_pipeline (query_start demo_service demo_command []) = (Inr result, s)"
    using body demo_run
    by (simp add: engine_execute_def run_simps scatch_def query_start_def ports demo_body_start_def)
  then have "query_execute demo_service demo_env demo_command [] = (Inr result, rs_world s)"
    using demo_admitted by (simp add: query_execute_def demo_service_def)
  with d show ?thesis by (intro exI conjI)
qed


end
