(* ===== verification/Conversation_Repository.thy ===== *)
theory Conversation_Repository
  imports Conversations
begin

text \<open>
  \<open>infrastructure/conversations.py\<close> over the tables of migration 004, rows in insertion order. Each
  method is one transaction: its statement either fails and leaves the tables alone (the
  \<open>except Exception\<close> branch) or commits, and only then is the row turned into a value, so a
  constructor that raises does so after the commit. Parameters of the database are the server's
  reading of UUIDs and timestamps, its clock and \<open>json\<close>. The record is extensible: what else
  the process holds (a source of ids, for one) is its \<open>more\<close> part.
\<close>

section \<open>Tables\<close>

record conversation_row =
  cvrow_id :: string
  cvrow_tenant :: string
  cvrow_subject_hash :: string
  cvrow_session_id :: string
  cvrow_domain :: string
  cvrow_title :: string
  cvrow_status :: conversation_status
  cvrow_created_at :: nat
  cvrow_updated_at :: nat
  cvrow_deleted_at :: "nat option"

record turn_row =
  trow_id :: string
  trow_conversation_id :: string
  trow_request_id :: string
  trow_sequence :: int
  trow_question :: string
  trow_answer :: "string option"
  trow_status :: conversation_turn_status
  trow_error :: "string option"
  trow_created_at :: nat
  trow_finalized_at :: "nat option"
  trow_metadata :: mapping

record conversation_db =
  cdb_conversations :: "conversation_row list"
  cdb_turns :: "turn_row list"
  cdb_up :: bool
  cdb_now :: nat
  cdb_uuid :: "string \<Rightarrow> string option"
  cdb_instant :: "string \<Rightarrow> nat option"
  cdb_iso :: "nat \<Rightarrow> string"
  cdb_dumps :: "mapping \<Rightarrow> string option"
  cdb_jsonb :: "string \<Rightarrow> mapping option"

type_synonym ('x, 'a) conversation_prog = "('x conversation_db_scheme, py_exn, 'a) prog"

text \<open>A LIMIT is a non-negative bigint.\<close>

definition sql_limit :: "int \<Rightarrow> nat option" where
  "sql_limit n = (if 0 \<le> n \<and> n < 2 ^ 63 then Some (nat n) else None)"

definition subject_hash_check :: "string \<Rightarrow> bool" where
  "subject_hash_check h \<longleftrightarrow> length h = 64 \<and> list_all (\<lambda>c. c \<in> set ''abcdef0123456789'') h"

section \<open>Statements\<close>

text \<open>
  \<open>_fetchone_or_none\<close> and \<open>_fetchall\<close>: \<open>None\<close> is an error of the driver or the server.
\<close>

definition conversation_unavailable :: "string \<Rightarrow> py_exn" where
  "conversation_unavailable message = Known DependencyUnavailableError message"

definition sql ::
    "string \<Rightarrow> ('x conversation_db_scheme \<Rightarrow> ('a \<times> 'x conversation_db_scheme) option) \<Rightarrow>
     ('x, 'a) conversation_prog" where
  "sql message statement db =
     (case (if cdb_up db then statement db else None) of
        None \<Rightarrow> (Inl (conversation_unavailable message), db)
      | Some (x, db') \<Rightarrow> (Inr x, db'))"

text \<open>A query leaves the tables alone.\<close>

definition sql_select ::
    "string \<Rightarrow> ('x conversation_db_scheme \<Rightarrow> 'a option) \<Rightarrow> ('x, 'a) conversation_prog" where
  "sql_select message query = sql message (\<lambda>db. map_option (\<lambda>x. (x, db)) (query db))"

definition fetchone :: "string \<Rightarrow> ('x, 'a option) conversation_prog \<Rightarrow> ('x, 'a) conversation_prog" where
  "fetchone message m = sbind m (\<lambda>row.
     case row of None \<Rightarrow> sraise (conversation_unavailable message) | Some r \<Rightarrow> sreturn r)"

section \<open>Rows as values\<close>

definition conversation_from_row :: "(nat \<Rightarrow> string) \<Rightarrow> conversation_row \<Rightarrow> conversation result" where
  "conversation_from_row render row = conversation_post_init
     \<lparr>conv_conversation_id = cvrow_id row, conv_tenant_id = cvrow_tenant row,
      conv_subject_hash = cvrow_subject_hash row, conv_session_id = cvrow_session_id row,
      conv_domain = cvrow_domain row, conv_title = cvrow_title row, conv_status = cvrow_status row,
      conv_created_at = render (cvrow_created_at row), conv_updated_at = render (cvrow_updated_at row),
      conv_deleted_at = map_option render (cvrow_deleted_at row)\<rparr>"

definition turn_from_row :: "(nat \<Rightarrow> string) \<Rightarrow> turn_row \<Rightarrow> conversation_turn result" where
  "turn_from_row render row = conversation_turn_post_init
     \<lparr>turn_turn_id = trow_id row, turn_conversation_id = trow_conversation_id row,
      turn_request_id = trow_request_id row, turn_sequence_number = trow_sequence row,
      turn_question_text = trow_question row, turn_status = trow_status row,
      turn_created_at = render (trow_created_at row), turn_answer_text = trow_answer row,
      turn_finalized_at = map_option render (trow_finalized_at row), turn_error_code = trow_error row,
      turn_metadata = trow_metadata row\<rparr>"

definition with_render ::
    "((nat \<Rightarrow> string) \<Rightarrow> 'a result) \<Rightarrow> ('x, 'a) conversation_prog" where
  "with_render f db = (f (cdb_iso db), db)"

definition optional_row ::
    "((nat \<Rightarrow> string) \<Rightarrow> 'r \<Rightarrow> 'a result) \<Rightarrow> 'r option \<Rightarrow> ('x, 'a option) conversation_prog" where
  "optional_row from_row row = with_render (\<lambda>render.
     case row of None \<Rightarrow> Inr None | Some r \<Rightarrow> rbind (from_row render r) (\<lambda>v. Inr (Some v)))"

section \<open>Conversations\<close>

definition conversation_insert ::
    "conversation \<Rightarrow> 'x conversation_db_scheme \<Rightarrow>
     (conversation_row option \<times> 'x conversation_db_scheme) option" where
  "conversation_insert c db =
     (case (cdb_uuid db (conv_conversation_id c), cdb_instant db (conv_created_at c),
            cdb_instant db (conv_updated_at c), map_option (cdb_instant db) (conv_deleted_at c)) of
        (Some u, Some created, Some updated, deleted) \<Rightarrow>
          if deleted = Some None \<or> u \<in> set (map cvrow_id (cdb_conversations db)) \<or>
             (conv_status c = CONV_DELETED) \<noteq> (conv_deleted_at c \<noteq> None) \<or>
             \<not> subject_hash_check (conv_subject_hash c) \<or>
             \<not> storable [conv_tenant_id c, conv_session_id c, conv_domain c, conv_title c]
          then None
          else
            (let row = \<lparr>cvrow_id = u, cvrow_tenant = conv_tenant_id c,
               cvrow_subject_hash = conv_subject_hash c, cvrow_session_id = conv_session_id c,
               cvrow_domain = conv_domain c, cvrow_title = conv_title c, cvrow_status = conv_status c,
               cvrow_created_at = created, cvrow_updated_at = updated,
               cvrow_deleted_at = Option.bind deleted id\<rparr>
             in Some (Some row, db\<lparr>cdb_conversations := cdb_conversations db @ [row]\<rparr>))
      | _ \<Rightarrow> None)"

definition create_conversation :: "conversation \<Rightarrow> ('x, conversation) conversation_prog" where
  "create_conversation c =
     sbind (fetchone ''PostgreSQL conversation create failed''
       (sql ''PostgreSQL conversation create failed'' (conversation_insert c))) (\<lambda>row.
     with_render (\<lambda>render. conversation_from_row render row))"

text \<open>\<open>ORDER BY updated_at DESC, created_at DESC\<close>; rows that tie keep their order of insertion.\<close>

definition listed_rows :: "'x conversation_db_scheme \<Rightarrow> string \<Rightarrow> string \<Rightarrow> conversation_row list" where
  "listed_rows db tenant hash =
     sort_key (\<lambda>r. (- int (cvrow_updated_at r), - int (cvrow_created_at r)))
       (filter (\<lambda>r. cvrow_tenant r = tenant \<and> cvrow_subject_hash r = hash \<and> cvrow_status r = CONV_ACTIVE)
         (cdb_conversations db))"

definition list_conversations :: "string \<Rightarrow> string \<Rightarrow> int \<Rightarrow> ('x, conversation list) conversation_prog" where
  "list_conversations tenant hash limit =
     sbind (sql_select ''PostgreSQL conversation list failed'' (\<lambda>db.
       if storable [tenant, hash]
       then map_option (\<lambda>n. take n (listed_rows db tenant hash)) (sql_limit limit) else None)) (\<lambda>rows.
     with_render (\<lambda>render. rmap (conversation_from_row render) rows))"

text \<open>The rows the \<open>WHERE\<close> clause of one conversation selects.\<close>

definition owned_row :: "string \<Rightarrow> string \<Rightarrow> string \<Rightarrow> conversation_row \<Rightarrow> bool" where
  "owned_row u tenant hash r \<longleftrightarrow> cvrow_id r = u \<and> cvrow_tenant r = tenant \<and>
     cvrow_subject_hash r = hash \<and> cvrow_status r = CONV_ACTIVE"

definition get_conversation ::
    "string \<Rightarrow> string \<Rightarrow> string \<Rightarrow> ('x, conversation option) conversation_prog" where
  "get_conversation cid tenant hash =
     sbind (sql_select ''PostgreSQL conversation read failed'' (\<lambda>db.
       if storable [tenant, hash]
       then map_option (\<lambda>u. find (owned_row u tenant hash) (cdb_conversations db)) (cdb_uuid db cid)
       else None))
     (optional_row conversation_from_row)"

definition update_conversation ::
    "(conversation_row \<Rightarrow> conversation_row) \<Rightarrow> string \<Rightarrow> string \<Rightarrow> string \<Rightarrow> 'x conversation_db_scheme \<Rightarrow>
     (conversation_row option \<times> 'x conversation_db_scheme) option" where
  "update_conversation f cid tenant hash db =
     (case cdb_uuid db cid of
        None \<Rightarrow> None
      | Some u \<Rightarrow>
          if storable [tenant, hash]
          then Some (map_option f (find (owned_row u tenant hash) (cdb_conversations db)),
            db\<lparr>cdb_conversations := map (\<lambda>r. if owned_row u tenant hash r then f r else r)
                 (cdb_conversations db)\<rparr>)
          else None)"

definition renamed_row :: "string \<Rightarrow> nat \<Rightarrow> conversation_row \<Rightarrow> conversation_row" where
  "renamed_row title now r = r\<lparr>cvrow_title := title, cvrow_updated_at := now\<rparr>"

definition deleted_row :: "nat \<Rightarrow> conversation_row \<Rightarrow> conversation_row" where
  "deleted_row now r = r\<lparr>cvrow_status := CONV_DELETED, cvrow_deleted_at := Some now, cvrow_updated_at := now\<rparr>"

definition rename_conversation ::
    "string \<Rightarrow> string \<Rightarrow> string \<Rightarrow> string \<Rightarrow> ('x, conversation option) conversation_prog" where
  "rename_conversation cid tenant hash title =
     sbind (sql ''PostgreSQL conversation rename failed'' (\<lambda>db.
       if storable [title]
       then update_conversation (renamed_row title (cdb_now db)) cid tenant hash db else None))
     (optional_row conversation_from_row)"

definition delete_conversation :: "string \<Rightarrow> string \<Rightarrow> string \<Rightarrow> ('x, bool) conversation_prog" where
  "delete_conversation cid tenant hash =
     sbind (sql ''PostgreSQL conversation delete failed'' (\<lambda>db.
       update_conversation (deleted_row (cdb_now db)) cid tenant hash db))
     (\<lambda>row. sreturn (row \<noteq> None))"

section \<open>Turns\<close>

definition turns_of :: "'x conversation_db_scheme \<Rightarrow> string \<Rightarrow> turn_row list" where
  "turns_of db u = filter (\<lambda>t. trow_conversation_id t = u) (cdb_turns db)"

text \<open>\<open>COALESCE(MAX(sequence_number), 0) + 1\<close>, an INTEGER.\<close>

definition next_sequence :: "'x conversation_db_scheme \<Rightarrow> string \<Rightarrow> int option" where
  "next_sequence db u =
     (let n = foldr max (map trow_sequence (turns_of db u)) 0 + 1 in if n < 2 ^ 31 then Some n else None)"

text \<open>
  The \<open>INSERT\<close>: a row with the same request is returned as it is; otherwise the keys and the
  reference to the conversation are checked.
\<close>

definition insert_turn ::
    "conversation_turn \<Rightarrow> string \<Rightarrow> string \<Rightarrow> nat \<Rightarrow> int \<Rightarrow> 'x conversation_db_scheme \<Rightarrow>
     (turn_row \<times> 'x conversation_db_scheme) option" where
  "insert_turn t tid u created n db =
     (case find (\<lambda>r. trow_request_id r = turn_request_id t) (turns_of db u) of
        Some row \<Rightarrow> Some (row, db)
      | None \<Rightarrow>
          if tid \<in> set (map trow_id (cdb_turns db)) \<or> u \<notin> set (map cvrow_id (cdb_conversations db))
          then None
          else
            (let row = \<lparr>trow_id = tid, trow_conversation_id = u, trow_request_id = turn_request_id t,
               trow_sequence = n, trow_question = turn_question_text t, trow_answer = None,
               trow_status = TURN_STARTED, trow_error = None, trow_created_at = created,
               trow_finalized_at = None, trow_metadata = []\<rparr>
             in Some (row, db\<lparr>cdb_turns := cdb_turns db @ [row]\<rparr>)))"

definition turn_upsert ::
    "conversation_turn \<Rightarrow> 'x conversation_db_scheme \<Rightarrow> (turn_row \<times> 'x conversation_db_scheme) option" where
  "turn_upsert t db =
     (case cdb_uuid db (turn_conversation_id t) of
        None \<Rightarrow> None
      | Some u \<Rightarrow>
          (case (next_sequence db u, cdb_uuid db (turn_turn_id t), cdb_instant db (turn_created_at t)) of
             (Some n, Some tid, Some created) \<Rightarrow>
               if storable [turn_request_id t, turn_question_text t]
               then insert_turn t tid u created n db else None
           | _ \<Rightarrow> None))"

definition start_turn :: "conversation_turn \<Rightarrow> ('x, conversation_turn) conversation_prog" where
  "start_turn t =
     sbind (sql ''PostgreSQL conversation turn start failed'' (turn_upsert t)) (\<lambda>row.
     with_render (\<lambda>render. turn_from_row render row))"

text \<open>The rows the joined \<open>UPDATE\<close> of a turn selects.\<close>

definition open_turn ::
    "'x conversation_db_scheme \<Rightarrow> string \<Rightarrow> string \<Rightarrow> string \<Rightarrow> string \<Rightarrow> turn_row \<Rightarrow> bool" where
  "open_turn db u tid tenant hash t \<longleftrightarrow> trow_conversation_id t = u \<and> trow_id t = tid \<and>
     trow_status t = TURN_STARTED \<and> list_ex (owned_row u tenant hash) (cdb_conversations db)"

definition update_turn ::
    "(mapping \<Rightarrow> turn_row \<Rightarrow> turn_row) \<Rightarrow> string \<Rightarrow> string \<Rightarrow> string \<Rightarrow> string \<Rightarrow> string \<Rightarrow>
     'x conversation_db_scheme \<Rightarrow> (turn_row option \<times> 'x conversation_db_scheme) option" where
  "update_turn f json cid tid tenant hash db =
     (case (cdb_uuid db cid, cdb_uuid db tid, cdb_jsonb db json) of
        (Some u, Some v, Some metadata) \<Rightarrow>
          if storable [tenant, hash]
          then Some (map_option (f metadata) (find (open_turn db u v tenant hash) (cdb_turns db)),
            db\<lparr>cdb_turns := map (\<lambda>t. if open_turn db u v tenant hash t then f metadata t else t)
                 (cdb_turns db)\<rparr>)
          else None
      | _ \<Rightarrow> None)"

definition finalized_row :: "string \<Rightarrow> nat \<Rightarrow> mapping \<Rightarrow> turn_row \<Rightarrow> turn_row" where
  "finalized_row answer now metadata t = t\<lparr>trow_status := TURN_FINALIZED, trow_answer := Some answer,
     trow_finalized_at := Some now, trow_metadata := metadata\<rparr>"

definition failed_row :: "string \<Rightarrow> nat \<Rightarrow> mapping \<Rightarrow> turn_row \<Rightarrow> turn_row" where
  "failed_row error_code now metadata t = t\<lparr>trow_status := TURN_FAILED, trow_error := Some error_code,
     trow_finalized_at := Some now, trow_metadata := metadata\<rparr>"

text \<open>\<open>json.dumps\<close> runs before the connection is made: its \<open>TypeError\<close> is not caught.\<close>

definition dump_metadata :: "mapping \<Rightarrow> ('x, string) conversation_prog" where
  "dump_metadata m db = (case cdb_dumps db m of None \<Rightarrow> Inl (OtherError ''TypeError'') | Some s \<Rightarrow> Inr s, db)"

definition finalize_turn ::
    "string \<Rightarrow> string \<Rightarrow> string \<Rightarrow> string \<Rightarrow> string \<Rightarrow> mapping \<Rightarrow> ('x, conversation_turn option) conversation_prog"
  where
  "finalize_turn cid tid tenant hash answer metadata =
     sbind (dump_metadata metadata) (\<lambda>json.
     sbind (sql ''PostgreSQL conversation turn finalize failed'' (\<lambda>db.
       if storable [answer]
       then update_turn (finalized_row answer (cdb_now db)) json cid tid tenant hash db else None))
     (optional_row turn_from_row))"

definition fail_turn ::
    "string \<Rightarrow> string \<Rightarrow> string \<Rightarrow> string \<Rightarrow> string \<Rightarrow> mapping \<Rightarrow> ('x, conversation_turn option) conversation_prog"
  where
  "fail_turn cid tid tenant hash error_code metadata =
     sbind (dump_metadata metadata) (\<lambda>json.
     sbind (sql ''PostgreSQL conversation turn fail failed'' (\<lambda>db.
       if storable [take 100 error_code]
       then update_turn (failed_row (take 100 error_code) (cdb_now db)) json cid tid tenant hash db else None))
     (optional_row turn_from_row))"

text \<open>\<open>_turn_rows\<close>: the last \<open>limit\<close> rows by sequence number, in ascending order.\<close>

definition turn_rows ::
    "'x conversation_db_scheme \<Rightarrow> string \<Rightarrow> string \<Rightarrow> string \<Rightarrow> nat \<Rightarrow> bool \<Rightarrow> turn_row list" where
  "turn_rows db u tenant hash n finalized_only =
     rev (take n (sort_key (\<lambda>t. - trow_sequence t)
       (filter (\<lambda>t. list_ex (owned_row u tenant hash) (cdb_conversations db) \<and>
          (\<not> finalized_only \<or> trow_status t = TURN_FINALIZED)) (turns_of db u))))"

definition select_turn_rows ::
    "string \<Rightarrow> string \<Rightarrow> string \<Rightarrow> int \<Rightarrow> bool \<Rightarrow> ('x, turn_row list) conversation_prog" where
  "select_turn_rows cid tenant hash limit finalized_only =
     sql_select ''PostgreSQL conversation turn list failed'' (\<lambda>db.
       case (cdb_uuid db cid, sql_limit limit) of
         (Some u, Some n) \<Rightarrow> if storable [tenant, hash] then Some (turn_rows db u tenant hash n finalized_only)
           else None
       | _ \<Rightarrow> None)"

definition list_turns ::
    "string \<Rightarrow> string \<Rightarrow> string \<Rightarrow> int \<Rightarrow> ('x, conversation_turn list) conversation_prog" where
  "list_turns cid tenant hash limit =
     sbind (select_turn_rows cid tenant hash limit False) (\<lambda>rows.
     with_render (\<lambda>render. rmap (turn_from_row render) rows))"

definition recent_finalized_turns ::
    "string \<Rightarrow> string \<Rightarrow> string \<Rightarrow> int \<Rightarrow> ('x, conversation_turn list) conversation_prog" where
  "recent_finalized_turns cid tenant hash limit =
     sbind (select_turn_rows cid tenant hash limit True) (\<lambda>rows.
     with_render (\<lambda>render. rmap (turn_from_row render) rows))"

definition conversation_check :: "('x, unit) conversation_prog" where
  "conversation_check = sbind (sql_select ''PostgreSQL conversation health failed'' (\<lambda>db. Some ()))
     (\<lambda>_. sreturn ())"

end
