(* ===== verification/Conversation_Store.thy ===== *)
theory Conversation_Store
  imports Conversation_Repository "HOL-Library.Multiset"
begin

text \<open>
  The tables of the conversation history as a state machine: what a method may change, what stays
  true of the tables whatever methods run, and how rows evolve.
\<close>

section \<open>Changes\<close>

text \<open>
  The changes of the tables, without parameters and messages: a conversation is added or edited by
  its owner, a turn is added or closed.
\<close>

definition conversation_row_ok :: "conversation_row \<Rightarrow> bool" where
  "conversation_row_ok r \<longleftrightarrow> subject_hash_check (cvrow_subject_hash r) \<and>
     (cvrow_status r = CONV_DELETED \<longleftrightarrow> cvrow_deleted_at r \<noteq> None)"

definition conversation_evolves :: "conversation_row \<Rightarrow> conversation_row \<Rightarrow> bool" where
  "conversation_evolves r r' \<longleftrightarrow> cvrow_id r' = cvrow_id r \<and> cvrow_tenant r' = cvrow_tenant r \<and>
     cvrow_subject_hash r' = cvrow_subject_hash r \<and> cvrow_session_id r' = cvrow_session_id r \<and>
     cvrow_domain r' = cvrow_domain r \<and> cvrow_created_at r' = cvrow_created_at r \<and>
     (cvrow_status r = CONV_DELETED \<longrightarrow> r' = r)"

definition turn_evolves :: "turn_row \<Rightarrow> turn_row \<Rightarrow> bool" where
  "turn_evolves t t' \<longleftrightarrow> trow_id t' = trow_id t \<and> trow_conversation_id t' = trow_conversation_id t \<and>
     trow_request_id t' = trow_request_id t \<and> trow_sequence t' = trow_sequence t \<and>
     trow_question t' = trow_question t \<and> trow_created_at t' = trow_created_at t \<and>
     (trow_status t \<noteq> TURN_STARTED \<longrightarrow> t' = t)"

definition turn_row_ok :: "turn_row \<Rightarrow> bool" where
  "turn_row_ok t \<longleftrightarrow> trow_status t \<noteq> TURN_DISCARDED \<and>
     (trow_answer t \<noteq> None \<longleftrightarrow> trow_status t = TURN_FINALIZED) \<and>
     (trow_error t \<noteq> None \<longleftrightarrow> trow_status t = TURN_FAILED) \<and>
     (trow_finalized_at t \<noteq> None \<longleftrightarrow> trow_status t \<noteq> TURN_STARTED)"

inductive table_step ::
    "string \<Rightarrow> string \<Rightarrow> 'x conversation_db_scheme \<Rightarrow> 'x conversation_db_scheme \<Rightarrow> bool"
  for tenant hash where
  add_conversation: "cvrow_id r \<notin> set (map cvrow_id (cdb_conversations db)) \<Longrightarrow> conversation_row_ok r \<Longrightarrow>
    cvrow_tenant r = tenant \<Longrightarrow> cvrow_subject_hash r = hash \<Longrightarrow>
    table_step tenant hash db (db\<lparr>cdb_conversations := cdb_conversations db @ [r]\<rparr>)"
| edit_conversation: "(\<And>r. owned_row u tenant hash r \<Longrightarrow>
      conversation_evolves r (f r) \<and> (conversation_row_ok r \<longrightarrow> conversation_row_ok (f r))) \<Longrightarrow>
    table_step tenant hash db (db\<lparr>cdb_conversations :=
      map (\<lambda>r. if owned_row u tenant hash r then f r else r) (cdb_conversations db)\<rparr>)"
| close_turn: "(\<And>t. open_turn db u tid tenant hash t \<Longrightarrow>
      turn_evolves t (f t) \<and> (turn_row_ok t \<longrightarrow> turn_row_ok (f t))) \<Longrightarrow>
    table_step tenant hash db (db\<lparr>cdb_turns :=
      map (\<lambda>t. if open_turn db u tid tenant hash t then f t else t) (cdb_turns db)\<rparr>)"

definition add_turn_row :: "turn_row \<Rightarrow> 'x conversation_db_scheme \<Rightarrow> 'x conversation_db_scheme" where
  "add_turn_row row db = db\<lparr>cdb_turns := cdb_turns db @ [row]\<rparr>"

definition new_turn_row :: "'x conversation_db_scheme \<Rightarrow> turn_row \<Rightarrow> bool" where
  "new_turn_row db row \<longleftrightarrow> trow_id row \<notin> set (map trow_id (cdb_turns db)) \<and>
     trow_conversation_id row \<in> set (map cvrow_id (cdb_conversations db)) \<and>
     trow_request_id row \<notin> set (map trow_request_id (turns_of db (trow_conversation_id row))) \<and>
     next_sequence db (trow_conversation_id row) = Some (trow_sequence row) \<and>
     trow_status row = TURN_STARTED \<and> turn_row_ok row"

section \<open>The methods make no other change\<close>

lemma sql_cases:
  assumes "sbind (sql msg f) k db = (r, db')" "\<And>x s. snd (k x s) = s"
  obtains "db' = db" "r = Inl (conversation_unavailable msg)"
  | x where "f db = Some (x, db')" "cdb_up db" "k x db' = (r, db')"
  using assms(1) assms(2) [of "fst (the (f db))" "snd (the (f db))"]
  by (auto simp: sbind_def sql_def split: option.splits if_splits)

lemma quiet_continuations [simp]:
  "snd (with_render g s) = s" "snd (optional_row h row s) = s" "snd (sreturn x s) = s" "snd (sraise e s) = s"
  by (simp_all add: with_render_def optional_row_def sreturn_def sraise_def)

lemma sql_select_quiet:
  assumes "sbind (sql_select msg q) k db = (r, db')" "\<And>x s. snd (k x s) = s"
  shows "db' = db"
  using assms(1) unfolding sql_select_def by (rule sql_cases [OF _ assms(2)]) auto

lemma queries_quiet:
  "get_conversation cid tenant hash db = (r, db') \<Longrightarrow> db' = db"
  "list_conversations tenant hash limit db = (r2, db') \<Longrightarrow> db' = db"
  "list_turns cid tenant hash limit db = (r3, db') \<Longrightarrow> db' = db"
  "recent_finalized_turns cid tenant hash limit db = (r3, db') \<Longrightarrow> db' = db"
  unfolding get_conversation_def list_conversations_def list_turns_def recent_finalized_turns_def
    select_turn_rows_def
  by (erule sql_select_quiet; simp)+

lemma create_step:
  assumes "create_conversation c db = (r, db')"
  shows "db' = db \<or> table_step (conv_tenant_id c) (conv_subject_hash c) db db'"
proof -
  from assms have "sbind (sql ''PostgreSQL conversation create failed'' (conversation_insert c))
      (\<lambda>row. sbind (case row of None \<Rightarrow> sraise (conversation_unavailable ''PostgreSQL conversation create failed'')
          | Some r \<Rightarrow> sreturn r)
        (\<lambda>row. with_render (\<lambda>render. conversation_from_row render row))) db = (r, db')"
    unfolding create_conversation_def fetchone_def sbind_assoc .
  then show ?thesis
  proof (rule sql_cases)
    fix row assume "conversation_insert c db = Some (row, db')"
    then show ?thesis
      by (auto simp: conversation_insert_def Let_def conversation_row_ok_def
          intro!: add_conversation split: option.splits prod.splits if_splits)
  qed (auto simp: sbind_def sraise_def sreturn_def with_render_def split: option.splits)
qed

lemma update_conversation_step:
  assumes "update_conversation f cid tenant hash db = Some (row, db')"
    and "\<And>u r. owned_row u tenant hash r \<Longrightarrow>
      conversation_evolves r (f r) \<and> (conversation_row_ok r \<longrightarrow> conversation_row_ok (f r))"
  shows "table_step tenant hash db db'"
  using assms by (auto simp: update_conversation_def intro!: edit_conversation split: option.splits if_splits)

lemma edited_rows_evolve:
  "owned_row u tenant hash r \<Longrightarrow> conversation_evolves r (renamed_row title now r) \<and>
     (conversation_row_ok r \<longrightarrow> conversation_row_ok (renamed_row title now r))"
  "owned_row u tenant hash r \<Longrightarrow> conversation_evolves r (deleted_row now r) \<and>
     (conversation_row_ok r \<longrightarrow> conversation_row_ok (deleted_row now r))"
  by (simp_all add: owned_row_def renamed_row_def deleted_row_def conversation_evolves_def conversation_row_ok_def)

lemma rename_step:
  assumes "rename_conversation cid tenant hash title db = (r, db')"
  shows "db' = db \<or> table_step tenant hash db db'"
  using assms unfolding rename_conversation_def
  by (rule sql_cases) (auto split: if_splits dest!: update_conversation_step [OF _ edited_rows_evolve(1)])

lemma delete_step:
  assumes "delete_conversation cid tenant hash db = (r, db')"
  shows "db' = db \<or> table_step tenant hash db db'"
  using assms unfolding delete_conversation_def
  by (rule sql_cases) (auto dest!: update_conversation_step [OF _ edited_rows_evolve(2)])

lemma insert_turn_cases:
  assumes "insert_turn t tid u created n db = Some (row, db')" "next_sequence db u = Some n"
  shows "db' = db \<and> row \<in> set (turns_of db u) \<and> trow_request_id row = turn_request_id t \<or>
    new_turn_row db row \<and> db' = add_turn_row row db \<and> trow_conversation_id row = u \<and>
    trow_request_id row = turn_request_id t \<and> trow_question row = turn_question_text t"
proof (cases "find (\<lambda>r. trow_request_id r = turn_request_id t) (turns_of db u)")
  case None
  then have "turn_request_id t \<notin> set (map trow_request_id (turns_of db u))" by (auto simp: find_None_iff)
  with None assms show ?thesis
    by (auto simp: insert_turn_def Let_def new_turn_row_def add_turn_row_def turn_row_ok_def split: if_splits)
next
  case (Some r)
  with assms(1) show ?thesis by (auto simp: insert_turn_def find_Some_iff)
qed

lemma turn_upsert_cases:
  assumes "turn_upsert t db = Some (row, db')"
  obtains u where "cdb_uuid db (turn_conversation_id t) = Some u" "db' = db" "row \<in> set (turns_of db u)"
    "trow_request_id row = turn_request_id t"
  | "new_turn_row db row" "db' = add_turn_row row db"
    "cdb_uuid db (turn_conversation_id t) = Some (trow_conversation_id row)"
    "trow_request_id row = turn_request_id t" "trow_question row = turn_question_text t"
proof -
  from assms obtain u tid created n where "cdb_uuid db (turn_conversation_id t) = Some u"
    "next_sequence db u = Some n" "insert_turn t tid u created n db = Some (row, db')"
    by (auto simp: turn_upsert_def split: option.splits if_splits)
  with insert_turn_cases [OF this(3,2)] that show ?thesis by blast
qed

lemma start_step:
  assumes "start_turn t db = (r, db')"
  shows "db' = db \<or> (\<exists>row. new_turn_row db row \<and> db' = add_turn_row row db \<and>
    cdb_uuid db (turn_conversation_id t) = Some (trow_conversation_id row))"
  using assms unfolding start_turn_def
  by (rule sql_cases) (auto elim: turn_upsert_cases)

lemma update_turn_step:
  assumes "update_turn f json cid tid tenant hash db = Some (row, db')"
    and "\<And>u v m t. open_turn db u v tenant hash t \<Longrightarrow>
      turn_evolves t (f m t) \<and> (turn_row_ok t \<longrightarrow> turn_row_ok (f m t))"
  shows "table_step tenant hash db db'"
  using assms by (auto simp: update_turn_def intro!: close_turn split: option.splits if_splits)

lemma dump_cases:
  assumes "sbind (dump_metadata m) k db = (r, db')"
  obtains "db' = db" | json where "k json db = (r, db')"
  using assms by (auto simp: sbind_def dump_metadata_def split: option.splits)

lemma closed_rows_evolve:
  "open_turn db u v tenant hash t \<Longrightarrow> turn_evolves t (finalized_row answer now m t) \<and>
     (turn_row_ok t \<longrightarrow> turn_row_ok (finalized_row answer now m t))"
  "open_turn db u v tenant hash t \<Longrightarrow> turn_evolves t (failed_row code now m t) \<and>
     (turn_row_ok t \<longrightarrow> turn_row_ok (failed_row code now m t))"
  by (simp_all add: open_turn_def finalized_row_def failed_row_def turn_evolves_def turn_row_ok_def)

lemma finalize_step:
  assumes "finalize_turn cid tid tenant hash answer m db = (r, db')"
  shows "db' = db \<or> table_step tenant hash db db'"
  using assms unfolding finalize_turn_def
  by (auto elim!: dump_cases sql_cases split: if_splits
      dest!: update_turn_step [OF _ closed_rows_evolve(1)])

lemma fail_step:
  assumes "fail_turn cid tid tenant hash code m db = (r, db')"
  shows "db' = db \<or> table_step tenant hash db db'"
  using assms unfolding fail_turn_def
  by (auto elim!: dump_cases sql_cases split: if_splits
      dest!: update_turn_step [OF _ closed_rows_evolve(2)])

section \<open>The tables stay well formed\<close>

text \<open>
  Identifiers are unique, turns belong to a conversation, the turns of a conversation are numbered
  \<open>1, 2, ...\<close> in order of insertion without a gap and answer distinct requests, and the columns of a
  row agree with its status.
\<close>

definition conversations_ok :: "'x conversation_db_scheme \<Rightarrow> bool" where
  "conversations_ok db \<longleftrightarrow> distinct (map cvrow_id (cdb_conversations db)) \<and>
     distinct (map trow_id (cdb_turns db)) \<and>
     list_all conversation_row_ok (cdb_conversations db) \<and> list_all turn_row_ok (cdb_turns db) \<and>
     set (map trow_conversation_id (cdb_turns db)) \<subseteq> set (map cvrow_id (cdb_conversations db)) \<and>
     (\<forall>u. map trow_sequence (turns_of db u) = [1..int (length (turns_of db u))] \<and>
        distinct (map trow_request_id (turns_of db u)))"

lemma conversations_okD:
  assumes "conversations_ok db"
  shows "distinct (map cvrow_id (cdb_conversations db))" "distinct (map trow_id (cdb_turns db))"
    "list_all conversation_row_ok (cdb_conversations db)" "list_all turn_row_ok (cdb_turns db)"
    "set (map trow_conversation_id (cdb_turns db)) \<subseteq> set (map cvrow_id (cdb_conversations db))"
    "map trow_sequence (turns_of db u) = [1..int (length (turns_of db u))]"
    "distinct (map trow_request_id (turns_of db u))"
  using assms by (simp_all add: conversations_ok_def)

lemma max_upto: "0 \<le> n \<Longrightarrow> foldr max [1..n] (0::int) = n"
proof (induction n rule: int_ge_induct)
  case (step n)
  have mono: "foldr max xs b = max (foldr max xs 0) b" if "0 \<le> b" for xs and b :: int
    using that by (induction xs) auto
  from step show ?case by (simp add: upto_rec2 mono [of "n + 1"])
qed simp

lemma next_sequence_ok:
  assumes "conversations_ok db" "next_sequence db u = Some n"
  shows "n = int (length (turns_of db u)) + 1"
  using assms(2) conversations_okD(6) [OF assms(1)]
  by (auto simp: next_sequence_def Let_def max_upto split: if_splits)

lemma turns_of_add: "turns_of (add_turn_row row db) u =
    turns_of db u @ (if trow_conversation_id row = u then [row] else [])"
  by (simp add: turns_of_def add_turn_row_def)

lemma add_turn_ok:
  assumes "conversations_ok db" "new_turn_row db row"
  shows "conversations_ok (add_turn_row row db)"
proof -
  note ok = conversations_okD [OF assms(1)]
  have seq: "trow_sequence row = int (length (turns_of db (trow_conversation_id row))) + 1"
    using assms by (intro next_sequence_ok) (auto simp: new_turn_row_def)
  have "map trow_sequence (turns_of (add_turn_row row db) u) =
      [1..int (length (turns_of (add_turn_row row db) u))]" for u
    using ok(6) [of u] seq by (simp add: turns_of_add upto_rec2 add.commute)
  moreover have "distinct (map trow_request_id (turns_of (add_turn_row row db) u))" for u
    using ok(7) [of u] assms(2) by (auto simp: turns_of_add new_turn_row_def)
  ultimately show ?thesis
    using ok(1-5) assms(2) by (auto simp: conversations_ok_def add_turn_row_def new_turn_row_def)
qed

lemma close_turn_ok:
  assumes "conversations_ok db"
    and f: "\<And>t. P t \<Longrightarrow> turn_evolves t (f t) \<and> (turn_row_ok t \<longrightarrow> turn_row_ok (f t))"
  shows "conversations_ok (db\<lparr>cdb_turns := map (\<lambda>t. if P t then f t else t) (cdb_turns db)\<rparr>)"
proof -
  note ok = conversations_okD [OF assms(1)]
  let ?g = "\<lambda>t. if P t then f t else t"
  let ?db = "db\<lparr>cdb_turns := map ?g (cdb_turns db)\<rparr>"
  have same: "trow_id (f t) = trow_id t" "trow_conversation_id (f t) = trow_conversation_id t"
    "trow_request_id (f t) = trow_request_id t" "trow_sequence (f t) = trow_sequence t" if "P t" for t
    using f [OF that] by (simp_all add: turn_evolves_def)
  have conv: "trow_conversation_id (?g t) = trow_conversation_id t" for t using same by simp
  have turns: "turns_of ?db u = map ?g (turns_of db u)" for u
    by (simp add: turns_of_def filter_map o_def conv)
  have "list_all turn_row_ok (map ?g (cdb_turns db))" using ok(4) f by (intro list_all_map_if) auto
  moreover have "map trow_id (map ?g (cdb_turns db)) = map trow_id (cdb_turns db)"
    "map trow_conversation_id (map ?g (cdb_turns db)) = map trow_conversation_id (cdb_turns db)"
    using same by (intro map_if_same; simp)+
  moreover have "map trow_sequence (map ?g (turns_of db u)) = map trow_sequence (turns_of db u)"
    "map trow_request_id (map ?g (turns_of db u)) = map trow_request_id (turns_of db u)" for u
    using same by (intro map_if_same; simp)+
  ultimately show ?thesis
    unfolding conversations_ok_def turns using ok by (simp del: map_map)
qed

lemma table_step_ok:
  assumes "table_step tenant hash db db'" "conversations_ok db"
  shows "conversations_ok db'"
  using assms
proof cases
  case (add_conversation r)
  then show ?thesis using assms(2) by (auto simp: conversations_ok_def turns_of_def)
next
  case (edit_conversation u f)
  let ?g = "\<lambda>r. if owned_row u tenant hash r then f r else r"
  have "map cvrow_id (map ?g (cdb_conversations db)) = map cvrow_id (cdb_conversations db)"
    using edit_conversation(2) by (intro map_if_same) (simp add: conversation_evolves_def)
  moreover have "list_all conversation_row_ok (map ?g (cdb_conversations db))"
    using conversations_okD(3) [OF assms(2)] edit_conversation(2) by (intro list_all_map_if) auto
  ultimately show ?thesis
    using assms(2) edit_conversation(1) by (simp add: conversations_ok_def turns_of_def del: map_map)
next
  case (close_turn u tid f)
  then show ?thesis using close_turn_ok [OF assms(2), of "open_turn db u tid tenant hash" f] by simp
qed

section \<open>Runs\<close>

datatype conversation_call =
    Create conversation
  | Rename string string string string
  | Delete string string string
  | Start conversation_turn
  | Finalize string string string string string mapping
  | Fail string string string string string mapping

fun after_call :: "conversation_call \<Rightarrow> 'x conversation_db_scheme \<Rightarrow> 'x conversation_db_scheme" where
  "after_call (Create c) db = snd (create_conversation c db)"
| "after_call (Rename cid tenant hash title) db = snd (rename_conversation cid tenant hash title db)"
| "after_call (Delete cid tenant hash) db = snd (delete_conversation cid tenant hash db)"
| "after_call (Start t) db = snd (start_turn t db)"
| "after_call (Finalize cid tid tenant hash answer m) db = snd (finalize_turn cid tid tenant hash answer m db)"
| "after_call (Fail cid tid tenant hash code m) db = snd (fail_turn cid tid tenant hash code m db)"

text \<open>
  Between calls the clock goes on, the server goes up and down, and the rest of the process does
  what it likes, but nobody else writes the tables.
\<close>

definition outside_step :: "'x conversation_db_scheme \<Rightarrow> 'x conversation_db_scheme \<Rightarrow> bool" where
  "outside_step db db' \<longleftrightarrow> cdb_conversations db' = cdb_conversations db \<and> cdb_turns db' = cdb_turns db \<and>
     cdb_uuid db' = cdb_uuid db \<and> cdb_instant db' = cdb_instant db \<and> cdb_iso db' = cdb_iso db \<and>
     cdb_now db \<le> cdb_now db'"

inductive conversation_reaches ::
    "'x conversation_db_scheme \<Rightarrow> 'x conversation_db_scheme \<Rightarrow> bool" for db0 where
  history_start: "conversation_reaches db0 db0"
| history_call: "conversation_reaches db0 db \<Longrightarrow> conversation_reaches db0 (after_call c db)"
| history_outside: "conversation_reaches db0 db \<Longrightarrow> outside_step db db' \<Longrightarrow> conversation_reaches db0 db'"

text \<open>What a call does to the tables.\<close>

lemma after_call_step:
  "after_call c db = db \<or> (\<exists>tenant hash. table_step tenant hash db (after_call c db)) \<or>
   (\<exists>row. new_turn_row db row \<and> after_call c db = add_turn_row row db)"
proof (cases c)
  case (Create x)
  then show ?thesis using create_step [OF surjective_pairing, of x db] by auto
next
  case (Rename cid tenant hash title)
  then show ?thesis using rename_step [OF surjective_pairing, of cid tenant hash title db] by auto
next
  case (Delete cid tenant hash)
  then show ?thesis using delete_step [OF surjective_pairing, of cid tenant hash db] by auto
next
  case (Start t)
  then show ?thesis using start_step [OF surjective_pairing, of t db] by auto
next
  case (Finalize cid tid tenant hash answer m)
  then show ?thesis using finalize_step [OF surjective_pairing, of cid tid tenant hash answer m db] by auto
next
  case (Fail cid tid tenant hash code m)
  then show ?thesis using fail_step [OF surjective_pairing, of cid tid tenant hash code m db] by auto
qed

lemma outside_ok: "outside_step db db' \<Longrightarrow> conversations_ok db \<Longrightarrow> conversations_ok db'"
  by (simp add: outside_step_def conversations_ok_def turns_of_def)

lemma reaches_ok: "conversation_reaches db0 db \<Longrightarrow> conversations_ok db0 \<Longrightarrow> conversations_ok db"
proof (induction rule: conversation_reaches.induct)
  case (history_call db c)
  with after_call_step [of c db] table_step_ok [of _ _ db] add_turn_ok [of db] show ?case by fastforce
qed (blast intro: outside_ok)+

text \<open>Rows are never lost and only evolve: a closed turn and a deleted conversation never change again.\<close>

definition history_grows :: "'x conversation_db_scheme \<Rightarrow> 'x conversation_db_scheme \<Rightarrow> bool" where
  "history_grows db db' \<longleftrightarrow> grown turn_evolves (cdb_turns db) (cdb_turns db') \<and>
     grown conversation_evolves (cdb_conversations db) (cdb_conversations db') \<and>
     cdb_uuid db' = cdb_uuid db \<and> cdb_instant db' = cdb_instant db \<and> cdb_iso db' = cdb_iso db"

lemma turn_evolves_refl [simp]: "turn_evolves t t"
  by (simp add: turn_evolves_def)

lemma conversation_evolves_refl [simp]: "conversation_evolves r r"
  by (simp add: conversation_evolves_def)

lemma turn_evolves_trans: "turn_evolves x y \<Longrightarrow> turn_evolves y z \<Longrightarrow> turn_evolves x z"
  by (auto simp: turn_evolves_def)

lemma conversation_evolves_trans:
  "conversation_evolves x y \<Longrightarrow> conversation_evolves y z \<Longrightarrow> conversation_evolves x z"
  by (auto simp: conversation_evolves_def)

lemma history_grows_refl: "history_grows db db"
  by (simp add: history_grows_def grown_refl)

lemma history_grows_trans:
  assumes "history_grows x y" "history_grows y z"
  shows "history_grows x z"
  using assms unfolding history_grows_def
  by (auto elim: grown_trans [OF _ _ turn_evolves_trans] grown_trans [OF _ _ conversation_evolves_trans])

lemma table_step_grows:
  assumes "table_step tenant hash db db'"
  shows "history_grows db db'"
  using assms by cases (auto simp: history_grows_def grown_refl grown_append intro!: grown_map)

lemma reaches_grows: "conversation_reaches db0 db \<Longrightarrow> history_grows db0 db"
proof (induction rule: conversation_reaches.induct)
  case (history_call db c)
  from after_call_step [of c db] have "history_grows db (after_call c db)"
    by (auto simp: history_grows_refl table_step_grows) (simp add: history_grows_def add_turn_row_def grown_refl grown_append)
  with history_call show ?case by (blast intro: history_grows_trans)
next
  case (history_outside db db')
  then have "history_grows db db'" by (simp add: outside_step_def history_grows_def grown_refl)
  with history_outside show ?case by (blast intro: history_grows_trans)
qed (rule history_grows_refl)

section \<open>Starting the same turn again\<close>

lemma turns_of_mem: "t \<in> set (turns_of db u) \<longleftrightarrow> t \<in> set (cdb_turns db) \<and> trow_conversation_id t = u"
  by (auto simp: turns_of_def)

lemma start_turn_Inr:
  assumes "start_turn t db = (Inr v, db')"
  obtains row u where "cdb_uuid db (turn_conversation_id t) = Some u" "row \<in> set (turns_of db' u)"
    "trow_request_id row = turn_request_id t" "turn_from_row (cdb_iso db') row = Inr v"
    "turn_upsert t db = Some (row, db')"
proof -
  from assms obtain row where up: "turn_upsert t db = Some (row, db')" "turn_from_row (cdb_iso db') row = Inr v"
    unfolding start_turn_def by (elim sql_cases) (auto simp: with_render_def)
  from up(1) show ?thesis
  proof (cases rule: turn_upsert_cases)
    case (1 u)
    with up that show ?thesis by blast
  next
    case 2
    then have "row \<in> set (turns_of db' (trow_conversation_id row))" by (simp add: turns_of_add)
    with 2 up that show ?thesis by blast
  qed
qed

lemma start_turn_again:
  assumes ok: "conversations_ok db2"
    and row: "row \<in> set (turns_of db2 u)" "trow_request_id row = turn_request_id t"
    and start: "start_turn t db2 = (Inr v, db3)" "cdb_uuid db2 (turn_conversation_id t) = Some u"
  shows "db3 = db2 \<and> turn_from_row (cdb_iso db2) row = Inr v"
proof -
  from start obtain row' where r: "row' \<in> set (turns_of db3 u)" "trow_request_id row' = turn_request_id t"
    "turn_from_row (cdb_iso db3) row' = Inr v" "turn_upsert t db2 = Some (row', db3)"
    by (auto elim: start_turn_Inr)
  have "db3 = db2"
  proof (rule turn_upsert_cases [OF r(4)])
    assume "new_turn_row db2 row'" "cdb_uuid db2 (turn_conversation_id t) = Some (trow_conversation_id row')"
    moreover from row have "turn_request_id t \<in> set (map trow_request_id (turns_of db2 u))" by force
    ultimately have False using r(2) start(2) by (simp add: new_turn_row_def)
    then show ?thesis ..
  qed
  with r(1) have "row' \<in> set (turns_of db2 u)" by simp
  with r(2) row conversations_okD(7) [OF ok, of u] have "row' = row"
    by (simp add: distinct_map inj_on_def)
  with \<open>db3 = db2\<close> r(3) show ?thesis by simp
qed

section \<open>Which turns are read back\<close>

lemma sort_descending:
  fixes f :: "'a \<Rightarrow> int"
  assumes "sorted (map f xs)" "distinct (map f xs)"
  shows "sort_key (\<lambda>x. - f x) xs = rev xs"
proof (rule sort_key_inj_key_eq)
  from assms(2) show "inj_on (\<lambda>x. - f x) (set xs)" by (simp add: distinct_map inj_on_def)
  from assms(1) show "sorted (map (\<lambda>x. - f x) (rev xs))" by (simp add: rev_map sorted_wrt_rev sorted_wrt_map)
qed simp

text \<open>The last turns in order of insertion, the order of their numbers.\<close>

lemma turn_rows_last:
  assumes "conversations_ok db"
  shows "turn_rows db u tenant hash n fin =
    (if list_ex (owned_row u tenant hash) (cdb_conversations db)
     then let ts = filter (\<lambda>t. \<not> fin \<or> trow_status t = TURN_FINALIZED) (turns_of db u)
       in drop (length ts - n) ts
     else [])"
proof -
  let ?ts = "filter (\<lambda>t. \<not> fin \<or> trow_status t = TURN_FINALIZED) (turns_of db u)"
  have "sorted (map trow_sequence (turns_of db u))" "distinct (map trow_sequence (turns_of db u))"
    unfolding conversations_okD(6) [OF assms] by simp_all
  then have "sorted (map trow_sequence ?ts)" "distinct (map trow_sequence ?ts)"
    by (simp_all add: sorted_filter distinct_map_filter)
  from sort_descending [OF this] show ?thesis
    by (auto simp: turn_rows_def Let_def take_rev)
qed

section \<open>A blank title\<close>

lemma blank_title_row:
  assumes "strip (cvrow_title r) = []"
  shows "\<not> is_ok (conversation_from_row render r)"
  using assms by (auto simp: conversation_from_row_def conversation_post_init_def is_ok_iff rbind_eq_Inr required_Inr)

lemma rmap_not_ok: "x \<in> set xs \<Longrightarrow> \<not> is_ok (f x) \<Longrightarrow> \<not> is_ok (rmap f xs)"
proof (induction xs)
  case (Cons a xs)
  then show ?case by (cases "f a") (auto simp: is_ok_iff rbind_eq_Inr)
qed simp

lemma rename_blank:
  assumes "cdb_up db" "cdb_uuid db cid = Some u" "find (owned_row u tenant hash) (cdb_conversations db) = Some r"
    "storable [tenant, hash]" "storable [title]" "strip title = []"
    "rename_conversation cid tenant hash title db = (res, db')"
  shows "\<not> is_ok res \<and> renamed_row title (cdb_now db) r \<in> set (cdb_conversations db') \<and>
    (int (length (cdb_conversations db)) < 2 ^ 63 \<longrightarrow>
       \<not> is_ok (fst (list_conversations tenant hash (int (length (cdb_conversations db))) db'))) \<and>
    \<not> is_ok (fst (get_conversation cid tenant hash db'))"
proof -
  let ?r = "renamed_row title (cdb_now db) r"
  let ?db = "db\<lparr>cdb_conversations := map (\<lambda>r. if owned_row u tenant hash r then renamed_row title (cdb_now db) r else r)
    (cdb_conversations db)\<rparr>"
  from assms have run: "db' = ?db" "res = rbind (conversation_from_row (cdb_iso db) ?r) (\<lambda>v. Inr (Some v))"
    by (auto simp: rename_conversation_def sql_def sbind_def update_conversation_def optional_row_def with_render_def)
  have owned: "owned_row u tenant hash r" "r \<in> set (cdb_conversations db)"
    using assms(3) by (auto simp: find_Some_iff)
  then have mem: "?r \<in> set (cdb_conversations db')" by (force simp: run(1))
  have row: "owned_row u tenant hash ?r" "strip (cvrow_title ?r) = []"
    using owned(1) assms(6) by (simp_all add: renamed_row_def owned_row_def)
  have bad: "\<not> is_ok res" using blank_title_row [OF row(2)] by (auto simp: run(2) is_ok_iff rbind_eq_Inr)
  have keep: "cdb_up db'" "cdb_uuid db' cid = Some u" "length (cdb_conversations db') = length (cdb_conversations db)"
    by (simp_all add: run(1) assms)
  have blank: "strip (cvrow_title x) = []" if "x \<in> set (cdb_conversations db')" "owned_row u tenant hash x" for x
    using that assms(6) by (auto simp: run(1) renamed_row_def split: if_splits)
  have "find (owned_row u tenant hash) (cdb_conversations db') \<noteq> None"
    using mem row(1) by (auto simp: find_None_iff)
  then obtain x where x: "find (owned_row u tenant hash) (cdb_conversations db') = Some x" by blast
  then have "\<not> is_ok (conversation_from_row (cdb_iso db') x)"
    by (intro blank_title_row blank) (auto simp: find_Some_iff)
  then have get: "\<not> is_ok (fst (get_conversation cid tenant hash db'))"
    using keep assms(4) x
    by (auto simp: get_conversation_def sql_select_def sql_def sbind_def optional_row_def with_render_def
        is_ok_iff rbind_eq_Inr)
  have listed: "?r \<in> set (listed_rows db' tenant hash)"
    using mem row(1) by (auto simp: listed_rows_def owned_row_def)
  have all: "take (length (cdb_conversations db)) (listed_rows db' tenant hash) = listed_rows db' tenant hash"
    by (simp add: listed_rows_def flip: keep(3))
  have "\<not> is_ok (fst (list_conversations tenant hash (int (length (cdb_conversations db))) db'))"
    if "int (length (cdb_conversations db)) < 2 ^ 63"
    using rmap_not_ok [where f = "conversation_from_row (cdb_iso db')", OF listed blank_title_row [OF row(2)]] keep assms(4) that all
    by (simp add: list_conversations_def sql_select_def sql_def sbind_def with_render_def sql_limit_def)
  with bad mem get show ?thesis by blast
qed

end
