(* ===== verification/Ownership.thy ===== *)
theory Ownership
  imports Errors
begin

text \<open>
  Programs that change the data of one owner only: a pair of texts, such as tenant and subject hash of a
  conversation, or tenant and domain of a source.
\<close>

section \<open>Programs that leave others alone\<close>

text \<open>
  \<open>good\<close> is kept, and what \<open>view\<close> shows of the data of other owners does not change, whether the
  program returns or raises.
\<close>

definition only_owner ::
    "('w \<Rightarrow> bool) \<Rightarrow> ('w \<Rightarrow> string \<Rightarrow> string \<Rightarrow> 'v) \<Rightarrow> string \<Rightarrow> string \<Rightarrow> ('w, py_exn, 'a) prog \<Rightarrow> bool" where
  "only_owner good view tenant hash m \<longleftrightarrow>
     (\<forall>w r w'. good w \<longrightarrow> m w = (r, w') \<longrightarrow>
        good w' \<and> (\<forall>t h. (t, h) \<noteq> (tenant, hash) \<longrightarrow> view w' t h = view w t h))"

named_theorems only_owner_rules

lemma only_ownerD:
  "only_owner good view tenant hash m \<Longrightarrow> good w \<Longrightarrow> m w = (r, w') \<Longrightarrow>
   good w' \<and> (\<forall>t h. (t, h) \<noteq> (tenant, hash) \<longrightarrow> view w' t h = view w t h)"
  by (simp add: only_owner_def)

lemma only_owner_basic [only_owner_rules]:
  "only_owner good view tenant hash (slift r)" "only_owner good view tenant hash (sreturn x)"
  "only_owner good view tenant hash (sraise e)"
  by (auto simp: only_owner_def slift_def sreturn_def sraise_def)

lemma only_owner_bind [only_owner_rules]:
  assumes m: "only_owner good view tenant hash m" and f: "\<And>x. only_owner good view tenant hash (f x)"
  shows "only_owner good view tenant hash (sbind m f)"
  unfolding only_owner_def
proof (intro allI impI)
  fix w r w' assume w: "good w" "sbind m f w = (r, w')"
  obtain r1 w1 where run: "m w = (r1, w1)" by (cases "m w")
  from only_ownerD [OF m w(1) run] have 1: "good w1" "\<forall>t h. (t, h) \<noteq> (tenant, hash) \<longrightarrow> view w1 t h = view w t h"
    by blast+
  show "good w' \<and> (\<forall>t h. (t, h) \<noteq> (tenant, hash) \<longrightarrow> view w' t h = view w t h)"
  proof (cases r1)
    case (Inl e)
    with w(2) run 1 show ?thesis by simp
  next
    case (Inr x)
    with w(2) run have "f x w1 = (r, w')" by simp
    from only_ownerD [OF f 1(1) this] 1(2) show ?thesis by simp
  qed
qed

lemma only_owner_then [only_owner_rules]:
  "only_owner good view tenant hash m \<Longrightarrow> only_owner good view tenant hash n \<Longrightarrow>
   only_owner good view tenant hash (sthen m n)"
  by (simp add: sthen_def only_owner_bind)

lemma only_owner_if [only_owner_rules]:
  "only_owner good view tenant hash m \<Longrightarrow> only_owner good view tenant hash n \<Longrightarrow>
   only_owner good view tenant hash (if b then m else n)"
  by simp

lemma only_owner_catch [only_owner_rules]:
  assumes m: "only_owner good view tenant hash m" and h: "\<And>e. only_owner good view tenant hash (h e)"
  shows "only_owner good view tenant hash (scatch m h)"
  unfolding only_owner_def
proof (intro allI impI)
  fix w r w' assume w: "good w" "scatch m h w = (r, w')"
  obtain r1 w1 where run: "m w = (r1, w1)" by (cases "m w")
  from only_ownerD [OF m w(1) run] have 1: "good w1" "\<forall>t h. (t, h) \<noteq> (tenant, hash) \<longrightarrow> view w1 t h = view w t h"
    by blast+
  show "good w' \<and> (\<forall>t h. (t, h) \<noteq> (tenant, hash) \<longrightarrow> view w' t h = view w t h)"
  proof (cases r1)
    case (Inl e)
    with w(2) run have "h e w1 = (r, w')" by (simp add: scatch_def)
    from only_ownerD [OF h 1(1) this] 1(2) show ?thesis by simp
  next
    case (Inr x)
    with w(2) run 1 show ?thesis by (auto simp: scatch_def)
  qed
qed

end
