(* ===== verification/Conversation_Service.thy ===== *)
theory Conversation_Service
  imports Conversation_Store Actions_Conversation Ownership
begin

text \<open>
  \<open>application/conversations.py\<close>: the service over its repository port. What it relies on is the
  locale \<open>conversation_history_laws\<close>, interpreted on the PostgreSQL repository; what it offers to the
  actions is the record \<open>conversation_service\<close> of \<open>Context\<close>.
\<close>

record 'w conversation_port =
  cr_create :: "conversation \<Rightarrow> ('w, py_exn, conversation) prog"
  cr_list :: "string \<Rightarrow> string \<Rightarrow> int \<Rightarrow> ('w, py_exn, conversation list) prog"
  cr_get :: "string \<Rightarrow> string \<Rightarrow> string \<Rightarrow> ('w, py_exn, conversation option) prog"
  cr_rename :: "string \<Rightarrow> string \<Rightarrow> string \<Rightarrow> string \<Rightarrow> ('w, py_exn, conversation option) prog"
  cr_delete :: "string \<Rightarrow> string \<Rightarrow> string \<Rightarrow> ('w, py_exn, bool) prog"
  cr_start_turn :: "conversation_turn \<Rightarrow> ('w, py_exn, conversation_turn) prog"
  cr_finalize_turn :: "string \<Rightarrow> string \<Rightarrow> string \<Rightarrow> string \<Rightarrow> string \<Rightarrow> mapping \<Rightarrow>
    ('w, py_exn, conversation_turn option) prog"
  cr_fail_turn :: "string \<Rightarrow> string \<Rightarrow> string \<Rightarrow> string \<Rightarrow> string \<Rightarrow> mapping \<Rightarrow>
    ('w, py_exn, conversation_turn option) prog"
  cr_list_turns :: "string \<Rightarrow> string \<Rightarrow> string \<Rightarrow> int \<Rightarrow> ('w, py_exn, conversation_turn list) prog"
  cr_recent_finalized_turns :: "string \<Rightarrow> string \<Rightarrow> string \<Rightarrow> int \<Rightarrow>
    ('w, py_exn, conversation_turn list) prog"

record 'w history_ports =
  chs_repository :: "'w conversation_port"
  chs_id_factory :: "('w, py_exn, string) prog"
  chs_now :: "('w, py_exn, string) prog"
  chs_sha256 :: "string \<Rightarrow> string"

definition subject_hash :: "'w history_ports \<Rightarrow> authorization_context \<Rightarrow> string" where
  "subject_hash svc a = chs_sha256 svc (auth_subject a)"

definition positive_limit :: "int \<Rightarrow> string \<Rightarrow> ('w, py_exn, unit) prog" where
  "positive_limit n name = slift (if n < 1 then Inl (Known ValidationError (name @ '' must be a positive integer''))
     else Inr ())"

definition found_or :: "string \<Rightarrow> 'a option \<Rightarrow> ('w, py_exn, 'a) prog" where
  "found_or message v = (case v of None \<Rightarrow> sraise (Known DomainNotFoundError message) | Some x \<Rightarrow> sreturn x)"

section \<open>The operations\<close>

definition history_create ::
    "'w history_ports \<Rightarrow> authorization_context \<Rightarrow> string \<Rightarrow> string \<Rightarrow> string \<Rightarrow>
     ('w, py_exn, conversation) prog" where
  "history_create svc a session domain title =
     sbind (chs_id_factory svc) (\<lambda>cid.
     sbind (chs_now svc) (\<lambda>created.
     sbind (chs_now svc) (\<lambda>updated.
     sbind (slift (conversation_post_init
       \<lparr>conv_conversation_id = cid, conv_tenant_id = auth_tenant_id a,
        conv_subject_hash = subject_hash svc a, conv_session_id = session, conv_domain = domain,
        conv_title = title, conv_status = CONV_ACTIVE, conv_created_at = created,
        conv_updated_at = updated, conv_deleted_at = None\<rparr>))
       (cr_create (chs_repository svc)))))"

definition history_list ::
    "'w history_ports \<Rightarrow> authorization_context \<Rightarrow> int \<Rightarrow> ('w, py_exn, conversation list) prog" where
  "history_list svc a limit =
     sthen (positive_limit limit ''limit'')
       (cr_list (chs_repository svc) (auth_tenant_id a) (subject_hash svc a) limit)"

definition require_conversation ::
    "'w history_ports \<Rightarrow> authorization_context \<Rightarrow> string \<Rightarrow> ('w, py_exn, conversation) prog" where
  "require_conversation svc a cid =
     sbind (cr_get (chs_repository svc) cid (auth_tenant_id a) (subject_hash svc a))
       (found_or ''Conversation was not found'')"

definition history_get ::
    "'w history_ports \<Rightarrow> authorization_context \<Rightarrow> string \<Rightarrow> int \<Rightarrow>
     ('w, py_exn, conversation_history) prog" where
  "history_get svc a cid turn_limit =
     sthen (positive_limit turn_limit ''turn_limit'')
     (sbind (require_conversation svc a cid) (\<lambda>c.
      sbind (cr_list_turns (chs_repository svc) (conv_conversation_id c) (auth_tenant_id a)
               (subject_hash svc a) turn_limit) (\<lambda>turns.
      sreturn \<lparr>history_conversation = c, history_turns = turns\<rparr>)))"

definition history_rename ::
    "'w history_ports \<Rightarrow> authorization_context \<Rightarrow> string \<Rightarrow> string \<Rightarrow>
     ('w, py_exn, conversation) prog" where
  "history_rename svc a cid title =
     sbind (cr_rename (chs_repository svc) cid (auth_tenant_id a) (subject_hash svc a) title)
       (found_or ''Conversation was not found'')"

definition history_delete ::
    "'w history_ports \<Rightarrow> authorization_context \<Rightarrow> string \<Rightarrow> ('w, py_exn, unit) prog" where
  "history_delete svc a cid =
     sbind (cr_delete (chs_repository svc) cid (auth_tenant_id a) (subject_hash svc a)) (\<lambda>deleted.
       if deleted then sreturn () else sraise (Known DomainNotFoundError ''Conversation was not found''))"

definition history_start_turn ::
    "'w history_ports \<Rightarrow> authorization_context \<Rightarrow> string \<Rightarrow> string \<Rightarrow> string \<Rightarrow>
     ('w, py_exn, conversation_turn) prog" where
  "history_start_turn svc a cid request_id question =
     sthen (require_conversation svc a cid)
     (sbind (chs_id_factory svc) (\<lambda>tid.
      sbind (chs_now svc) (\<lambda>created.
      sbind (slift (conversation_turn_post_init
        \<lparr>turn_turn_id = tid, turn_conversation_id = cid, turn_request_id = request_id,
         turn_sequence_number = 1, turn_question_text = question, turn_status = TURN_STARTED,
         turn_created_at = created, turn_answer_text = None, turn_finalized_at = None,
         turn_error_code = None, turn_metadata = []\<rparr>))
        (cr_start_turn (chs_repository svc)))))"

definition history_finalize_turn ::
    "'w history_ports \<Rightarrow> authorization_context \<Rightarrow> string \<Rightarrow> string \<Rightarrow> string \<Rightarrow> mapping \<Rightarrow>
     ('w, py_exn, conversation_turn) prog" where
  "history_finalize_turn svc a cid tid answer metadata =
     sbind (cr_finalize_turn (chs_repository svc) cid tid (auth_tenant_id a) (subject_hash svc a) answer metadata)
       (found_or ''Conversation turn was not found'')"

definition history_fail_turn ::
    "'w history_ports \<Rightarrow> authorization_context \<Rightarrow> string \<Rightarrow> string \<Rightarrow> string \<Rightarrow> mapping \<Rightarrow>
     ('w, py_exn, conversation_turn) prog" where
  "history_fail_turn svc a cid tid error_code metadata =
     sbind (cr_fail_turn (chs_repository svc) cid tid (auth_tenant_id a) (subject_hash svc a) error_code metadata)
       (found_or ''Conversation turn was not found'')"

definition history_recent_finalized_turns ::
    "'w history_ports \<Rightarrow> authorization_context \<Rightarrow> string \<Rightarrow> int \<Rightarrow>
     ('w, py_exn, conversation_turn list) prog" where
  "history_recent_finalized_turns svc a cid limit =
     sthen (positive_limit limit ''limit'')
       (cr_recent_finalized_turns (chs_repository svc) cid (auth_tenant_id a) (subject_hash svc a) limit)"

text \<open>The service as the actions see it.\<close>

definition history_service :: "'w history_ports \<Rightarrow> 'w conversation_service" where
  "history_service svc = \<lparr>cs_get = history_get svc, cs_create = history_create svc,
     cs_start_turn = history_start_turn svc, cs_finalize_turn = history_finalize_turn svc,
     cs_fail_turn = history_fail_turn svc,
     cs_recent_finalized_turns = history_recent_finalized_turns svc\<rparr>"

section \<open>What the service relies on\<close>

text \<open>The source of identifiers and the clock do not write the tables.\<close>

definition leaves_alone ::
    "('w \<Rightarrow> bool) \<Rightarrow> ('w \<Rightarrow> string \<Rightarrow> string \<Rightarrow> 'v) \<Rightarrow> ('w \<Rightarrow> string \<Rightarrow> string \<Rightarrow> string \<Rightarrow> bool) \<Rightarrow>
     ('w, py_exn, 'a) prog \<Rightarrow> bool" where
  "leaves_alone good view owned m \<longleftrightarrow> (\<forall>w r w'. good w \<longrightarrow> m w = (r, w') \<longrightarrow>
     good w' \<and> view w' = view w \<and> owned w' = owned w)"

lemma leaves_alone_only_owner: "leaves_alone good view owned m \<Longrightarrow> only_owner good view tenant hash m"
  unfolding leaves_alone_def only_owner_def by metis

lemma only_owner_history [only_owner_rules]:
  "only_owner good view tenant hash (positive_limit n name)" "only_owner good view tenant hash (found_or msg v)"
  by (auto simp: only_owner_def positive_limit_def found_or_def slift_def sreturn_def sraise_def
      split: option.splits)

locale conversation_history_laws =
  fixes repo :: "'w conversation_port"
    and good :: "'w \<Rightarrow> bool"
    and view :: "'w \<Rightarrow> string \<Rightarrow> string \<Rightarrow> 'v"
    and owned :: "'w \<Rightarrow> string \<Rightarrow> string \<Rightarrow> string \<Rightarrow> bool"
  assumes owned_strip: "good w \<Longrightarrow> owned w tenant hash cid \<Longrightarrow> owned w tenant hash (strip cid)"
    and get: "good w \<Longrightarrow> cr_get repo cid tenant hash w = (r2, w') \<Longrightarrow> w' = w"
    and get_owned: "good w \<Longrightarrow> cr_get repo cid tenant hash w = (Inr (Some c), w') \<Longrightarrow>
      owned w tenant hash cid"
    and lists:
      "only_owner good view tenant hash (cr_list repo tenant hash n)"
      "only_owner good view tenant hash (cr_list_turns repo cid tenant hash n)"
      "only_owner good view tenant hash (cr_recent_finalized_turns repo cid tenant hash n)"
    and writes:
      "only_owner good view (conv_tenant_id c) (conv_subject_hash c) (cr_create repo c)"
      "only_owner good view tenant hash (cr_rename repo cid tenant hash title)"
      "only_owner good view tenant hash (cr_delete repo cid tenant hash)"
      "only_owner good view tenant hash (cr_finalize_turn repo cid tid tenant hash answer m)"
      "only_owner good view tenant hash (cr_fail_turn repo cid tid tenant hash code m)"
    and start: "good w \<Longrightarrow> owned w tenant hash (turn_conversation_id t) \<Longrightarrow>
      cr_start_turn repo t w = (r3, w') \<Longrightarrow>
      good w' \<and> (\<forall>t' h'. (t', h') \<noteq> (tenant, hash) \<longrightarrow> view w' t' h' = view w t' h')"
begin

lemma only_owner_get [only_owner_rules]: "only_owner good view tenant hash (cr_get repo cid tenant hash)"
  unfolding only_owner_def using get by blast

lemmas only_owner_repository = lists writes

text \<open>Every operation of the service changes only what its caller owns.\<close>

lemma create_own:
  assumes repo: "chs_repository svc = repo" and a: "authorization_context_ok a"
    and hash: "trimmed (subject_hash svc a)"
    and quiet: "leaves_alone good view owned (chs_id_factory svc)" "leaves_alone good view owned (chs_now svc)"
  shows "only_owner good view (auth_tenant_id a) (subject_hash svc a) (history_create svc a session domain title)"
  unfolding history_create_def repo
proof (rule only_owner_bind [OF leaves_alone_only_owner [OF quiet(1)]],
    rule only_owner_bind [OF leaves_alone_only_owner [OF quiet(2)]],
    rule only_owner_bind [OF leaves_alone_only_owner [OF quiet(2)]])
  fix cid created updated
  let ?c = "\<lparr>conv_conversation_id = cid, conv_tenant_id = auth_tenant_id a,
    conv_subject_hash = subject_hash svc a, conv_session_id = session, conv_domain = domain,
    conv_title = title, conv_status = CONV_ACTIVE, conv_created_at = created,
    conv_updated_at = updated, conv_deleted_at = None\<rparr>"
  show "only_owner good view (auth_tenant_id a) (subject_hash svc a)
    (sbind (slift (conversation_post_init ?c)) (cr_create repo))"
  proof (cases "conversation_post_init ?c")
    case (Inr c)
    then have "conv_tenant_id c = strip (auth_tenant_id a)" "conv_subject_hash c = strip (subject_hash svc a)"
      by (auto simp: conversation_post_init_def rbind_eq_Inr required_Inr split: if_splits)
    then have "conv_tenant_id c = auth_tenant_id a" "conv_subject_hash c = subject_hash svc a"
      using a hash by (simp_all add: authorization_context_ok_def trimmed_def)
    moreover have "sbind (slift (Inr c)) (cr_create repo) = cr_create repo c" by (simp add: sbind_def slift_def fun_eq_iff)
    ultimately show ?thesis using writes(1) [of c] Inr by simp
  qed (simp add: only_owner_def sbind_def slift_def)
qed

lemma queries_own:
  assumes repo: "chs_repository svc = repo"
  shows
  "only_owner good view (auth_tenant_id a) (subject_hash svc a) (history_list svc a limit)"
  "only_owner good view (auth_tenant_id a) (subject_hash svc a) (history_get svc a cid limit)"
  "only_owner good view (auth_tenant_id a) (subject_hash svc a) (history_recent_finalized_turns svc a cid limit)"
  unfolding history_list_def history_get_def require_conversation_def history_recent_finalized_turns_def repo
  by (intro only_owner_rules only_owner_repository)+

lemma updates_own:
  assumes repo: "chs_repository svc = repo"
  shows
  "only_owner good view (auth_tenant_id a) (subject_hash svc a) (history_rename svc a cid title)"
  "only_owner good view (auth_tenant_id a) (subject_hash svc a) (history_delete svc a cid)"
  "only_owner good view (auth_tenant_id a) (subject_hash svc a) (history_finalize_turn svc a cid tid answer m)"
  "only_owner good view (auth_tenant_id a) (subject_hash svc a) (history_fail_turn svc a cid tid code m)"
  unfolding history_rename_def history_delete_def history_finalize_turn_def history_fail_turn_def repo
  by (intro only_owner_rules only_owner_repository)+

lemma require_owned:
  assumes repo: "chs_repository svc = repo" and "good w" "require_conversation svc a cid w = (Inr c, w')"
  shows "w' = w \<and> owned w (auth_tenant_id a) (subject_hash svc a) cid"
proof -
  from assms obtain v where "cr_get repo cid (auth_tenant_id a) (subject_hash svc a) w = (Inr (Some v), w')"
    by (auto simp: require_conversation_def sbind_eq_Inr found_or_def sraise_def sreturn_def split: option.splits)
  with get get_owned assms(2) show ?thesis by blast
qed

text \<open>A program that starts by looking up the conversation may rely on its being the caller's.\<close>

lemma only_owner_required:
  assumes repo: "chs_repository svc = repo"
    and rest: "\<And>w r w'. good w \<Longrightarrow> owned w (auth_tenant_id a) (subject_hash svc a) cid \<Longrightarrow> m w = (r, w') \<Longrightarrow>
      good w' \<and> (\<forall>t h. (t, h) \<noteq> (auth_tenant_id a, subject_hash svc a) \<longrightarrow> view w' t h = view w t h)"
  shows "only_owner good view (auth_tenant_id a) (subject_hash svc a) (sthen (require_conversation svc a cid) m)"
  unfolding only_owner_def
proof (intro allI impI)
  fix w r w' assume w: "good w" "sthen (require_conversation svc a cid) m w = (r, w')"
  obtain r1 w1 where run: "require_conversation svc a cid w = (r1, w1)" by (cases "require_conversation svc a cid w")
  have "only_owner good view (auth_tenant_id a) (subject_hash svc a) (require_conversation svc a cid)"
    unfolding require_conversation_def repo by (intro only_owner_rules)
  from only_ownerD [OF this w(1) run]
  have 1: "good w1" "\<forall>t h. (t, h) \<noteq> (auth_tenant_id a, subject_hash svc a) \<longrightarrow> view w1 t h = view w t h" by blast+
  show "good w' \<and> (\<forall>t h. (t, h) \<noteq> (auth_tenant_id a, subject_hash svc a) \<longrightarrow> view w' t h = view w t h)"
  proof (cases r1)
    case (Inl e)
    with w(2) run 1 show ?thesis by (simp add: sthen_def)
  next
    case (Inr c)
    with w(2) run have "m w1 = (r, w')" by (simp add: sthen_def)
    with require_owned [OF repo w(1) run [unfolded Inr]] w(1) rest [of w r w'] show ?thesis by simp
  qed
qed

lemma start_turn_own:
  assumes repo: "chs_repository svc = repo"
    and quiet: "leaves_alone good view owned (chs_id_factory svc)" "leaves_alone good view owned (chs_now svc)"
  shows "only_owner good view (auth_tenant_id a) (subject_hash svc a) (history_start_turn svc a cid rid question)"
  unfolding history_start_turn_def
proof (rule only_owner_required [OF repo])
  let ?t = "\<lambda>tid created. \<lparr>turn_turn_id = tid, turn_conversation_id = cid, turn_request_id = rid,
     turn_sequence_number = 1, turn_question_text = question, turn_status = TURN_STARTED,
     turn_created_at = created, turn_answer_text = None, turn_finalized_at = None,
     turn_error_code = None, turn_metadata = []\<rparr>"
  fix w r w'
  assume w: "good w" "owned w (auth_tenant_id a) (subject_hash svc a) cid"
    and run: "sbind (chs_id_factory svc) (\<lambda>tid. sbind (chs_now svc) (\<lambda>created.
      sbind (slift (conversation_turn_post_init (?t tid created))) (cr_start_turn (chs_repository svc)))) w = (r, w')"
  obtain r1 w1 where id: "chs_id_factory svc w = (r1, w1)" by (cases "chs_id_factory svc w")
  obtain r2 w2 where now: "chs_now svc w1 = (r2, w2)" by (cases "chs_now svc w1")
  from quiet(1) w(1) id have 1: "good w1" "view w1 = view w" "owned w1 = owned w"
    unfolding leaves_alone_def by blast+
  from quiet(2) 1(1) now have 2: "good w2" "view w2 = view w1" "owned w2 = owned w1"
    unfolding leaves_alone_def by blast+
  show "good w' \<and> (\<forall>t h. (t, h) \<noteq> (auth_tenant_id a, subject_hash svc a) \<longrightarrow> view w' t h = view w t h)"
  proof (cases r1)
    case (Inl e)
    with run id 1 show ?thesis by simp
  next
    case tid: (Inr tid)
    show ?thesis
    proof (cases r2)
      case (Inl e)
      with run id tid now 1 2 show ?thesis by simp
    next
      case created: (Inr created)
      show ?thesis
      proof (cases "conversation_turn_post_init (?t tid created)")
        case (Inl e)
        with run id tid now created 1 2 show ?thesis by (simp add: sbind_def slift_def)
      next
        case (Inr t)
        then have "turn_conversation_id t = strip cid"
          by (auto simp: conversation_turn_post_init_def rbind_eq_Inr required_Inr split: if_splits)
        with owned_strip [OF 2(1)] w(2) 1 2 have
          "owned w2 (auth_tenant_id a) (subject_hash svc a) (turn_conversation_id t)" by simp
        from start [OF 2(1) this] run id tid now created Inr 1 2 show ?thesis
          by (simp add: sbind_def slift_def repo)
      qed
    qed
  qed
qed

end

section \<open>The PostgreSQL repository keeps the laws\<close>

definition postgres_conversations :: "'x conversation_db_scheme conversation_port" where
  "postgres_conversations = \<lparr>cr_create = create_conversation, cr_list = list_conversations,
     cr_get = get_conversation, cr_rename = rename_conversation, cr_delete = delete_conversation,
     cr_start_turn = start_turn, cr_finalize_turn = finalize_turn, cr_fail_turn = fail_turn,
     cr_list_turns = list_turns, cr_recent_finalized_turns = recent_finalized_turns\<rparr>"

definition history_good :: "'x conversation_db_scheme \<Rightarrow> bool" where
  "history_good db \<longleftrightarrow> conversations_ok db \<and> uuid_texts (cdb_uuid db)"

definition owner_view :: "'x conversation_db_scheme \<Rightarrow> string \<Rightarrow> string \<Rightarrow> conversation_row list \<times> turn_row list" where
  "owner_view db tenant hash =
     (let own = filter (\<lambda>r. cvrow_tenant r = tenant \<and> cvrow_subject_hash r = hash) (cdb_conversations db)
      in (own, filter (\<lambda>t. trow_conversation_id t \<in> set (map cvrow_id own)) (cdb_turns db)))"

definition owns_conversation :: "'x conversation_db_scheme \<Rightarrow> string \<Rightarrow> string \<Rightarrow> string \<Rightarrow> bool" where
  "owns_conversation db tenant hash cid \<longleftrightarrow>
     (case cdb_uuid db cid of None \<Rightarrow> False
      | Some u \<Rightarrow> list_ex (owned_row u tenant hash) (cdb_conversations db))"

lemma filter_map_if:
  assumes "\<And>x. Q x \<Longrightarrow> P x = P (f x) \<and> \<not> P x"
  shows "filter P (map (\<lambda>x. if Q x then f x else x) xs) = filter P xs"
  using assms by (induction xs) auto

lemma distinct_id_owner:
  assumes "conversations_ok db" "r \<in> set (cdb_conversations db)" "r' \<in> set (cdb_conversations db)"
    "cvrow_id r = cvrow_id r'"
  shows "r = r'"
  using conversations_okD(1) [OF assms(1)] assms(2-4) by (simp add: distinct_map inj_on_def)

lemma table_step_others:
  assumes "table_step tenant hash db db'" "conversations_ok db" "(t, h) \<noteq> (tenant, hash)"
  shows "owner_view db' t h = owner_view db t h"
  using assms(1)
proof cases
  case (add_conversation r)
  with assms(3) show ?thesis by (auto simp: owner_view_def Let_def)
next
  case (edit_conversation u f)
  have "filter (\<lambda>r. cvrow_tenant r = t \<and> cvrow_subject_hash r = h)
      (map (\<lambda>r. if owned_row u tenant hash r then f r else r) (cdb_conversations db)) =
    filter (\<lambda>r. cvrow_tenant r = t \<and> cvrow_subject_hash r = h) (cdb_conversations db)"
    using edit_conversation(2) assms(3)
    by (intro filter_map_if) (auto simp: owned_row_def conversation_evolves_def)
  with edit_conversation(1) show ?thesis by (simp add: owner_view_def Let_def)
next
  case (close_turn u tid f)
  let ?own = "filter (\<lambda>r. cvrow_tenant r = t \<and> cvrow_subject_hash r = h) (cdb_conversations db)"
  have other: "trow_conversation_id x \<notin> set (map cvrow_id ?own)" if x: "open_turn db u tid tenant hash x" for x
  proof
    assume "trow_conversation_id x \<in> set (map cvrow_id ?own)"
    with x obtain r r' where "r \<in> set (cdb_conversations db)" "r' \<in> set (cdb_conversations db)"
      "cvrow_id r = cvrow_id r'" "cvrow_tenant r = t" "cvrow_subject_hash r = h"
      "cvrow_tenant r' = tenant" "cvrow_subject_hash r' = hash"
      by (auto simp: open_turn_def list_ex_iff owned_row_def)
    with distinct_id_owner [OF assms(2)] assms(3) show False by blast
  qed
  have "filter (\<lambda>t. trow_conversation_id t \<in> set (map cvrow_id ?own))
      (map (\<lambda>t. if open_turn db u tid tenant hash t then f t else t) (cdb_turns db)) =
    filter (\<lambda>t. trow_conversation_id t \<in> set (map cvrow_id ?own)) (cdb_turns db)"
    using close_turn(2) other by (intro filter_map_if) (simp add: turn_evolves_def)
  with close_turn(1) show ?thesis by (simp add: owner_view_def Let_def)
qed

lemma table_step_params: "table_step tenant hash db db' \<Longrightarrow> cdb_uuid db' = cdb_uuid db"
  by (cases rule: table_step.cases) auto

lemma only_owner_step:
  assumes "\<And>db r db'. m db = (r, db') \<Longrightarrow> db' = db \<or> table_step tenant hash db db'"
  shows "only_owner history_good owner_view tenant hash m"
  unfolding only_owner_def history_good_def
  using assms table_step_ok table_step_others table_step_params by metis

lemma only_owner_writes:
  "only_owner history_good owner_view (conv_tenant_id c) (conv_subject_hash c) (create_conversation c)"
  "only_owner history_good owner_view tenant hash (rename_conversation cid tenant hash title)"
  "only_owner history_good owner_view tenant hash (delete_conversation cid tenant hash)"
  "only_owner history_good owner_view tenant hash (finalize_turn cid tid tenant hash answer m)"
  "only_owner history_good owner_view tenant hash (fail_turn cid tid tenant hash code m)"
  by (rule only_owner_step; erule create_step rename_step delete_step finalize_step fail_step)+

lemma quiet_only_owner:
  "(\<And>db r db'. m db = (r, db') \<Longrightarrow> db' = db) \<Longrightarrow> only_owner good view tenant hash m"
  unfolding only_owner_def by metis

lemma add_turn_others:
  assumes "conversations_ok db" "r \<in> set (cdb_conversations db)" "cvrow_id r = trow_conversation_id row"
    "(t, h) \<noteq> (cvrow_tenant r, cvrow_subject_hash r)"
  shows "owner_view (add_turn_row row db) t h = owner_view db t h"
proof -
  let ?own = "filter (\<lambda>r. cvrow_tenant r = t \<and> cvrow_subject_hash r = h) (cdb_conversations db)"
  have "trow_conversation_id row \<notin> set (map cvrow_id ?own)"
  proof
    assume "trow_conversation_id row \<in> set (map cvrow_id ?own)"
    then obtain r' where r': "r' \<in> set (cdb_conversations db)" "cvrow_tenant r' = t" "cvrow_subject_hash r' = h"
      "cvrow_id r' = trow_conversation_id row" by auto
    from distinct_id_owner [OF assms(1) this(1) assms(2)] r'(4) assms(3) have "r' = r" by simp
    with r'(2,3) assms(4) show False by simp
  qed
  then show ?thesis by (simp add: owner_view_def Let_def add_turn_row_def del: set_map)
qed

lemma start_turn_others:
  assumes good: "history_good db" and own: "owns_conversation db tenant hash (turn_conversation_id t)"
    and run: "start_turn t db = (r, db')"
  shows "history_good db' \<and> (\<forall>t' h'. (t', h') \<noteq> (tenant, hash) \<longrightarrow> owner_view db' t' h' = owner_view db t' h')"
proof -
  from start_step [OF run] consider "db' = db"
    | row where "new_turn_row db row" "db' = add_turn_row row db"
      "cdb_uuid db (turn_conversation_id t) = Some (trow_conversation_id row)" by blast
  then show ?thesis
  proof cases
    case (2 row)
    from own 2(3) obtain r where r: "r \<in> set (cdb_conversations db)" "cvrow_id r = trow_conversation_id row"
      "cvrow_tenant r = tenant" "cvrow_subject_hash r = hash"
      by (auto simp: owns_conversation_def list_ex_iff owned_row_def)
    have ok: "conversations_ok db" using good by (simp add: history_good_def)
    have "history_good db'"
      using good add_turn_ok [OF ok 2(1)] by (simp add: history_good_def 2(2)) (simp add: add_turn_row_def)
    with add_turn_others [OF ok r(1,2)] r(3,4) 2(2) show ?thesis by blast
  qed (use good in simp)
qed

lemma get_conversation_owned:
  assumes "get_conversation cid tenant hash db = (Inr (Some c), db')"
  shows "owns_conversation db tenant hash cid"
  using assms
  by (auto simp: get_conversation_def sql_select_def sql_def sbind_def optional_row_def with_render_def
      owns_conversation_def list_ex_iff dest!: find_member split: option.splits if_splits)

interpretation pg: conversation_history_laws postgres_conversations history_good owner_view owns_conversation
proof (unfold_locales, goal_cases)
  case (1 w tenant hash cid)
  then show ?case by (auto simp: history_good_def uuid_texts_def owns_conversation_def trimmed_def split: option.splits)
next
  case 2
  then show ?case by (auto simp: postgres_conversations_def dest: queries_quiet)
next
  case 3
  then show ?case by (auto simp: postgres_conversations_def intro: get_conversation_owned)
qed (auto simp: postgres_conversations_def intro: quiet_only_owner queries_quiet only_owner_writes
    dest: start_turn_others)

text \<open>A program that does not write the tables leaves everybody's data alone.\<close>

lemma leaves_tables_alone:
  assumes "\<And>w r w'. m w = (r, w') \<Longrightarrow> cdb_conversations w' = cdb_conversations w \<and>
    cdb_turns w' = cdb_turns w \<and> cdb_uuid w' = cdb_uuid w"
  shows "leaves_alone history_good owner_view owns_conversation m"
  unfolding leaves_alone_def
proof (intro allI impI)
  fix w r w' assume good: "history_good w" and run: "m w = (r, w')"
  note same = assms [OF run]
  have "history_good w'" using good same by (simp add: history_good_def conversations_ok_def turns_of_def)
  moreover have "owner_view w' = owner_view w" by (intro ext) (simp add: owner_view_def same)
  moreover have "owns_conversation w' = owns_conversation w" by (intro ext) (simp add: owns_conversation_def same split: option.split)
  ultimately show "history_good w' \<and> owner_view w' = owner_view w \<and> owns_conversation w' = owns_conversation w"
    by blast
qed

end
