(* ===== verification/Conversation_Properties.thy ===== *)
theory Conversation_Properties
  imports Conversation_Service Examples
begin

text \<open>
  The properties of the conversation history, with witnesses on a history of one conversation whose
  world holds a supply of identifiers.
\<close>

section \<open>A history\<close>

type_synonym demo_history_db = "string list conversation_db_scheme"

definition demo_hash :: "string \<Rightarrow> string" where
  "demo_hash s = (if s = ''alice'' then replicate 64 (CHR ''a'') else replicate 64 (CHR ''b''))"

definition demo_history :: demo_history_db where
  "demo_history = \<lparr>cdb_conversations = [], cdb_turns = [], cdb_up = True, cdb_now = 7,
     cdb_uuid = (\<lambda>s. if trimmed s then Some s else None), cdb_instant = (\<lambda>s. if s = ''t5'' then Some 5 else None),
     cdb_iso = (\<lambda>n. if n = 5 then ''t5'' else ''t7''), cdb_dumps = (\<lambda>m. Some ''{}''), cdb_jsonb = (\<lambda>s. Some []),
     \<dots> = [''c1'', ''t1'', ''t2'', ''t3'']\<rparr>"

definition demo_next_id :: "(demo_history_db, py_exn, string) prog" where
  "demo_next_id db = (case conversation_db.more db of
     [] \<Rightarrow> (Inl (OtherError ''StopIteration''), db)
   | x # xs \<Rightarrow> (Inr x, conversation_db.more_update (\<lambda>_. xs) db))"

definition demo_history_service :: "demo_history_db history_ports" where
  "demo_history_service = \<lparr>chs_repository = postgres_conversations, chs_id_factory = demo_next_id,
     chs_now = sreturn ''t5'', chs_sha256 = demo_hash\<rparr>"

definition demo_row :: conversation_row where
  "demo_row = \<lparr>cvrow_id = ''c1'', cvrow_tenant = ''acme'', cvrow_subject_hash = replicate 64 (CHR ''a''),
     cvrow_session_id = ''s1'', cvrow_domain = ''docs'', cvrow_title = ''Title'', cvrow_status = CONV_ACTIVE,
     cvrow_created_at = 5, cvrow_updated_at = 5, cvrow_deleted_at = None\<rparr>"

definition demo_turn_row :: turn_row where
  "demo_turn_row = \<lparr>trow_id = ''t1'', trow_conversation_id = ''c1'', trow_request_id = ''r1'',
     trow_sequence = 1, trow_question = ''why'', trow_answer = None, trow_status = TURN_STARTED,
     trow_error = None, trow_created_at = 5, trow_finalized_at = None, trow_metadata = []\<rparr>"

definition demo_talk :: demo_history_db where
  "demo_talk = demo_history\<lparr>cdb_conversations := [demo_row]\<rparr>"

definition demo_asked :: demo_history_db where
  "demo_asked = demo_talk\<lparr>cdb_turns := [demo_turn_row]\<rparr>"

definition demo_answered :: demo_history_db where
  "demo_answered = demo_talk\<lparr>cdb_turns := [finalized_row ''because'' 7 [] demo_turn_row]\<rparr>"

definition demo_new_turn :: "string \<Rightarrow> string \<Rightarrow> conversation_turn" where
  "demo_new_turn tid rid = \<lparr>turn_turn_id = tid, turn_conversation_id = ''c1'', turn_request_id = rid,
     turn_sequence_number = 1, turn_question_text = ''why'', turn_status = TURN_STARTED,
     turn_created_at = ''t5'', turn_answer_text = None, turn_finalized_at = None, turn_error_code = None,
     turn_metadata = []\<rparr>"

lemmas demo_dbs = demo_asked_def demo_answered_def demo_talk_def demo_history_def

lemma demo_uuid: "uuid_texts (cdb_uuid demo_history)"
  by (simp add: uuid_texts_def demo_history_def)

lemma demo_tables_ok: "conversations_ok demo_history" "conversations_ok demo_talk" "conversations_ok demo_asked"
  by (simp_all add: conversations_ok_def demo_dbs turns_of_def demo_row_def demo_turn_row_def
      conversation_row_ok_def subject_hash_check_def turn_row_ok_def list_all_iff)

lemma demo_history_good: "history_good demo_history" "history_good demo_talk" "history_good demo_asked"
  using demo_uuid demo_tables_ok by (simp_all add: history_good_def) (simp_all add: demo_dbs)

lemma demo_quiet:
  "leaves_alone history_good owner_view owns_conversation (chs_id_factory demo_history_service)"
  "leaves_alone history_good owner_view owns_conversation (chs_now demo_history_service)"
  by (rule leaves_tables_alone,
      auto simp: demo_history_service_def demo_next_id_def sreturn_def split: list.splits)+

lemma demo_facts_history:
  "chs_repository demo_history_service = postgres_conversations"
  "authorization_context_ok demo_authorization"
  "trimmed (subject_hash demo_history_service demo_authorization)"
  by (simp add: demo_history_service_def) code_simp+

lemma demo_values:
  "conversation_from_row (cdb_iso demo_history) demo_row = Inr
     \<lparr>conv_conversation_id = ''c1'', conv_tenant_id = ''acme'', conv_subject_hash = replicate 64 (CHR ''a''),
      conv_session_id = ''s1'', conv_domain = ''docs'', conv_title = ''Title'', conv_status = CONV_ACTIVE,
      conv_created_at = ''t5'', conv_updated_at = ''t5'', conv_deleted_at = None\<rparr>"
  "turn_from_row (cdb_iso demo_history) demo_turn_row = Inr (demo_new_turn ''t1'' ''r1'')"
  by code_simp+

lemma demo_trimmed: "trimmed ''c1''" "trimmed ''t1''" "trimmed ''t2''"
  by code_simp+

lemma demo_start: "start_turn (demo_new_turn ''t1'' ''r1'') demo_talk = (Inr (demo_new_turn ''t1'' ''r1''), demo_asked)"
proof -
  have "turn_upsert (demo_new_turn ''t1'' ''r1'') demo_talk = Some (demo_turn_row, demo_asked)"
    by (simp add: turn_upsert_def demo_new_turn_def insert_turn_def demo_dbs next_sequence_def turns_of_def
        storable_def demo_turn_row_def demo_row_def demo_trimmed Let_def)
  moreover have "cdb_up demo_talk" "cdb_iso demo_asked = cdb_iso demo_history" by (simp_all add: demo_dbs)
  ultimately show ?thesis
    using demo_values(2) by (simp add: start_turn_def sql_def sbind_def with_render_def)
qed

section \<open>The tables\<close>

text \<open>
  C23: Whatever methods of the repository run, in any order and with anything between them, identifiers
  stay unique, the turns of a conversation are numbered 1, 2, ... without a gap in order of
  insertion and answer distinct requests, and the columns of every row agree with its status.
\<close>

theorem conversation_tables_ok:
  assumes "conversation_reaches db0 db" "conversations_ok db0"
  shows "conversations_ok db"
  using assms by (rule reaches_ok)

lemma demo_reach: "conversation_reaches demo_talk demo_asked"
  using history_call [OF history_start, of demo_talk "Start (demo_new_turn ''t1'' ''r1'')"] by (simp add: demo_start)

lemma conversation_tables_ok_witness: "conversations_ok demo_asked \<and> map trow_sequence (cdb_turns demo_asked) = [1]"
  using conversation_tables_ok [OF demo_reach demo_tables_ok(2)] by (simp add: demo_asked_def demo_turn_row_def)

text \<open>
  C39: A turn is never lost, its question and its number never change, and once it is finalized or failed
  nothing about it changes any more, whatever happens later to the history.
\<close>

theorem closed_turn_is_final:
  assumes "conversation_reaches db db'" "t \<in> set (cdb_turns db)"
  shows "\<exists>t'\<in>set (cdb_turns db'). trow_id t' = trow_id t \<and> trow_conversation_id t' = trow_conversation_id t \<and>
    trow_sequence t' = trow_sequence t \<and> trow_question t' = trow_question t \<and>
    (trow_status t \<noteq> TURN_STARTED \<longrightarrow> t' = t)"
proof -
  from reaches_grows [OF assms(1)] have "grown turn_evolves (cdb_turns db) (cdb_turns db')"
    by (simp add: history_grows_def)
  from grown_mem [OF this assms(2)] obtain t' where "t' \<in> set (cdb_turns db')" "turn_evolves t t'" by blast
  then show ?thesis unfolding turn_evolves_def by blast
qed

lemma closed_turn_is_final_witness:
  "\<exists>t'\<in>set (cdb_turns (after_call (Fail ''c1'' ''t1'' ''acme'' (demo_hash ''alice'') ''late'' []) demo_answered)).
     trow_answer t' = Some ''because'' \<and> trow_status t' = TURN_FINALIZED"
proof -
  let ?t = "finalized_row ''because'' 7 [] demo_turn_row"
  have "?t \<in> set (cdb_turns demo_answered)" "trow_status ?t \<noteq> TURN_STARTED"
    by (simp_all add: demo_answered_def finalized_row_def)
  with closed_turn_is_final [OF history_call [OF history_start], of ?t demo_answered
      "Fail ''c1'' ''t1'' ''acme'' (demo_hash ''alice'') ''late'' []"]
  have "?t \<in> set (cdb_turns (after_call (Fail ''c1'' ''t1'' ''acme'' (demo_hash ''alice'') ''late'' []) demo_answered))"
    by auto
  then show ?thesis by (intro bexI [of _ ?t]) (simp_all add: finalized_row_def)
qed

section \<open>Turns\<close>

text \<open>
  C35: Starting a turn is idempotent per request: once a turn was started for a request of a
  conversation, starting one for the same request at any later moment adds nothing and gives back the
  turn with the same identifier and number.
\<close>

theorem start_turn_idempotent:
  assumes "start_turn t db = (Inr v, db1)" "conversations_ok db" "conversation_reaches db1 db2"
    "turn_conversation_id t' = turn_conversation_id t" "turn_request_id t' = turn_request_id t"
    "start_turn t' db2 = (Inr v', db3)"
  shows "db3 = db2 \<and> turn_turn_id v' = turn_turn_id v \<and> turn_sequence_number v' = turn_sequence_number v"
proof -
  from assms(1) obtain row u where row: "cdb_uuid db (turn_conversation_id t) = Some u"
    "row \<in> set (turns_of db1 u)" "trow_request_id row = turn_request_id t" "turn_from_row (cdb_iso db1) row = Inr v"
    by (elim start_turn_Inr)
  have db1: "conversation_reaches db db1"
    using history_call [OF history_start, of db "Start t"] assms(1) by simp
  have same: "cdb_uuid db1 = cdb_uuid db" using reaches_grows [OF db1] by (simp add: history_grows_def)
  from reaches_grows [OF assms(3)] have grows: "grown turn_evolves (cdb_turns db1) (cdb_turns db2)"
    "cdb_uuid db2 = cdb_uuid db1" by (simp_all add: history_grows_def)
  from grown_mem [OF grows(1)] row(2) obtain row' where row': "row' \<in> set (cdb_turns db2)" "turn_evolves row row'"
    by (auto simp: turns_of_mem)
  then have "row' \<in> set (turns_of db2 u)" "trow_request_id row' = turn_request_id t'"
    using row(2,3) assms(5) by (auto simp: turns_of_mem turn_evolves_def)
  moreover have "conversations_ok db2" using db1 assms(2,3) by (blast intro: reaches_ok)
  ultimately have "db3 = db2 \<and> turn_from_row (cdb_iso db2) row' = Inr v'"
    using start_turn_again assms(4,6) row(1) same grows(2) by metis
  with row(4) row'(2) show ?thesis
    by (auto simp: turn_from_row_def conversation_turn_post_init_def rbind_eq_Inr required_Inr turn_evolves_def
        split: if_splits)
qed

lemma demo_start_again:
  "start_turn (demo_new_turn ''t2'' ''r1'') demo_asked = (Inr (demo_new_turn ''t1'' ''r1''), demo_asked)"
proof -
  have "turn_upsert (demo_new_turn ''t2'' ''r1'') demo_asked = Some (demo_turn_row, demo_asked)"
    by (simp add: turn_upsert_def demo_new_turn_def insert_turn_def demo_dbs next_sequence_def turns_of_def
        storable_def demo_turn_row_def demo_row_def demo_trimmed Let_def)
  moreover have "cdb_up demo_asked" "cdb_iso demo_asked = cdb_iso demo_history" by (simp_all add: demo_dbs)
  ultimately show ?thesis
    using demo_values(2) by (simp add: start_turn_def sql_def sbind_def with_render_def)
qed

lemma start_turn_idempotent_witness:
  "turn_turn_id (demo_new_turn ''t1'' ''r1'') = ''t1'' \<and>
   fst (start_turn (demo_new_turn ''t2'' ''r1'') demo_asked) = Inr (demo_new_turn ''t1'' ''r1'')"
  using start_turn_idempotent [OF demo_start demo_tables_ok(2) history_start _ _ demo_start_again] demo_start_again
  by (simp add: demo_new_turn_def)

lemma finalize_turn_Inr:
  assumes "finalize_turn cid tid tenant hash answer m db = (Inr (Some v), db')"
  obtains u i json metadata t where "cdb_uuid db cid = Some u" "cdb_uuid db tid = Some i"
    "open_turn db u i tenant hash t" "t \<in> set (cdb_turns db)" "cdb_jsonb db json = Some metadata"
    "finalized_row answer (cdb_now db) metadata t \<in> set (cdb_turns db')"
    "turn_from_row (cdb_iso db) (finalized_row answer (cdb_now db) metadata t) = Inr v"
  using assms
  by (auto simp: finalize_turn_def sbind_eq_Inr dump_metadata_def sql_def update_turn_def optional_row_def
      with_render_def rbind_eq_Inr dest!: find_member split: option.splits if_splits)

lemma closed_not_open:
  assumes "conversations_ok db" "t \<in> set (cdb_turns db)" "trow_status t \<noteq> TURN_STARTED"
    "open_turn db u (trow_id t) tenant hash t'" "t' \<in> set (cdb_turns db)"
  shows False
proof -
  have "t' = t" using conversations_okD(2) [OF assms(1)] assms(2,4,5)
    by (auto simp: distinct_map inj_on_def open_turn_def)
  with assms(3,4) show False by (simp add: open_turn_def)
qed

text \<open>
  A turn is closed at most once: after a turn was finalized, no later call finalizes or fails it, in
  whatever state the history is then.
\<close>

theorem turn_closed_once:
  assumes "finalize_turn cid tid tenant hash answer m db = (Inr (Some v), db1)" "conversations_ok db"
    "conversation_reaches db1 db2"
  shows "fst (finalize_turn cid' tid tenant' hash' answer' m' db2) \<noteq> Inr (Some v') \<and>
    fst (fail_turn cid' tid tenant' hash' code m' db2) \<noteq> Inr (Some v')"
proof -
  obtain u i metadata t where t: "cdb_uuid db tid = Some i" "open_turn db u i tenant hash t"
    "finalized_row answer (cdb_now db) metadata t \<in> set (cdb_turns db1)"
    using assms(1) by (elim finalize_turn_Inr)
  let ?row = "finalized_row answer (cdb_now db) metadata t"
  have db1: "conversation_reaches db db1"
    using history_call [OF history_start, of db "Finalize cid tid tenant hash answer m"] assms(1) by simp
  have same: "cdb_uuid db1 = cdb_uuid db" using reaches_grows [OF db1] by (simp add: history_grows_def)
  from reaches_grows [OF assms(3)] have grows: "grown turn_evolves (cdb_turns db1) (cdb_turns db2)"
    "cdb_uuid db2 = cdb_uuid db1" by (simp_all add: history_grows_def)
  from grown_mem [OF grows(1) t(3)] have row: "?row \<in> set (cdb_turns db2)" "trow_status ?row \<noteq> TURN_STARTED"
    by (auto simp: turn_evolves_def finalized_row_def)
  have ok: "conversations_ok db2" using db1 assms(2,3) by (blast intro: reaches_ok)
  have id: "trow_id ?row = i" using t(2) by (simp add: finalized_row_def open_turn_def)
  have none: "find (open_turn db2 u' i tenant' hash') (cdb_turns db2) = None" for u'
    using closed_not_open [OF ok row] unfolding id find_None_iff by blast
  have "cdb_uuid db2 tid = Some i" using t(1) same grows(2) by simp
  with none show ?thesis
    by (auto simp: finalize_turn_def fail_turn_def sbind_def dump_metadata_def sql_def update_turn_def
        optional_row_def with_render_def split: option.splits if_splits sum.splits)
qed

lemma demo_finalize:
  "\<exists>v. finalize_turn ''c1'' ''t1'' ''acme'' (replicate 64 (CHR ''a'')) ''because'' [] demo_asked = (Inr (Some v), demo_answered)"
proof -
  have "update_turn (finalized_row ''because'' 7) ''{}'' ''c1'' ''t1'' ''acme'' (replicate 64 (CHR ''a'')) demo_asked =
      Some (Some (finalized_row ''because'' 7 [] demo_turn_row), demo_answered)"
    by (simp add: update_turn_def demo_dbs demo_trimmed storable_def open_turn_def demo_turn_row_def demo_row_def
        owned_row_def)
  moreover have "cdb_dumps demo_asked [] = Some ''{}''" "cdb_up demo_asked" "cdb_now demo_asked = 7"
    "cdb_iso demo_answered = cdb_iso demo_history" by (simp_all add: demo_dbs)
  moreover have "is_ok (turn_from_row (cdb_iso demo_history) (finalized_row ''because'' 7 [] demo_turn_row))"
    by code_simp
  ultimately show ?thesis
    by (auto simp: finalize_turn_def sbind_def dump_metadata_def sql_def storable_def optional_row_def
        with_render_def is_ok_iff)
qed

lemma turn_closed_once_witness:
  "\<forall>v. fst (fail_turn ''c1'' ''t1'' ''acme'' (replicate 64 (CHR ''a'')) ''late'' [] demo_answered) \<noteq> Inr (Some v)"
  using demo_finalize turn_closed_once [OF _ demo_tables_ok(3) history_start] by metis

section \<open>Ownership\<close>

text \<open>
  C22: No operation of the service changes what belongs to another tenant or another subject: whatever it
  returns or raises, the conversations and the turns of every other owner stay as they are.
\<close>

theorem history_isolates_owners:
  assumes "chs_repository svc = postgres_conversations" "authorization_context_ok a"
    "trimmed (subject_hash svc a)"
    "leaves_alone history_good owner_view owns_conversation (chs_id_factory svc)"
    "leaves_alone history_good owner_view owns_conversation (chs_now svc)"
  shows "only_owner history_good owner_view (auth_tenant_id a) (subject_hash svc a) (history_create svc a session domain title) \<and>
    only_owner history_good owner_view (auth_tenant_id a) (subject_hash svc a) (history_list svc a limit) \<and>
    only_owner history_good owner_view (auth_tenant_id a) (subject_hash svc a) (history_get svc a cid limit) \<and>
    only_owner history_good owner_view (auth_tenant_id a) (subject_hash svc a) (history_rename svc a cid title) \<and>
    only_owner history_good owner_view (auth_tenant_id a) (subject_hash svc a) (history_delete svc a cid) \<and>
    only_owner history_good owner_view (auth_tenant_id a) (subject_hash svc a) (history_start_turn svc a cid rid question) \<and>
    only_owner history_good owner_view (auth_tenant_id a) (subject_hash svc a) (history_finalize_turn svc a cid tid answer m) \<and>
    only_owner history_good owner_view (auth_tenant_id a) (subject_hash svc a) (history_fail_turn svc a cid tid code m) \<and>
    only_owner history_good owner_view (auth_tenant_id a) (subject_hash svc a) (history_recent_finalized_turns svc a cid limit)"
  by (intro conjI pg.create_own [OF assms] pg.queries_own [OF assms(1)] pg.updates_own [OF assms(1)]
      pg.start_turn_own [OF assms(1,4,5)])

lemma history_isolates_owners_witness:
  "owner_view (snd (history_delete demo_history_service (demo_authorization\<lparr>auth_subject := ''bob''\<rparr>) ''c1'' demo_asked))
     ''acme'' (replicate 64 (CHR ''a'')) = ([demo_row], [demo_turn_row])"
proof -
  let ?bob = "demo_authorization\<lparr>auth_subject := ''bob''\<rparr>"
  have bob: "authorization_context_ok ?bob" "trimmed (subject_hash demo_history_service ?bob)" by code_simp+
  have other: "(''acme'', replicate 64 (CHR ''a'')) \<noteq> (auth_tenant_id ?bob, subject_hash demo_history_service ?bob)"
    by (simp add: subject_hash_def demo_history_service_def demo_hash_def demo_authorization_def)
  have view: "owner_view demo_asked ''acme'' (replicate 64 (CHR ''a'')) = ([demo_row], [demo_turn_row])"
    by (simp add: owner_view_def demo_dbs demo_row_def demo_turn_row_def)
  from history_isolates_owners [OF demo_facts_history(1) bob demo_quiet]
  have "only_owner history_good owner_view (auth_tenant_id ?bob) (subject_hash demo_history_service ?bob)
    (history_delete demo_history_service ?bob ''c1'')" by blast
  from only_ownerD [OF this demo_history_good(3) surjective_pairing] other view show ?thesis by metis
qed

lemma sql_select_Inr:
  assumes "sql_select msg q db = (Inr x, db')"
  shows "db' = db \<and> q db = Some x"
  using assms by (auto simp: sql_select_def sql_def split: option.splits if_splits)

lemma select_turn_rows_Inr:
  assumes "select_turn_rows cid tenant hash n fin db = (Inr rows, db')" "1 \<le> n"
  shows "db' = db \<and> (\<exists>u. cdb_uuid db cid = Some u \<and> rows = turn_rows db u tenant hash (nat n) fin)"
  using sql_select_Inr [OF assms(1) [unfolded select_turn_rows_def]] assms(2)
  by (auto simp: sql_limit_def split: option.splits if_splits)

text \<open>
  A history that the service returns is the caller's own: an active conversation of the caller's tenant
  and subject with the last \<open>turn_limit\<close> of its turns in ascending order, and reading changes nothing.
\<close>

theorem history_get_exact:
  assumes "chs_repository svc = postgres_conversations" "history_good db"
    "history_get svc a cid n db = (Inr h, db')"
  shows "db' = db \<and> (\<exists>r\<in>set (cdb_conversations db). cvrow_tenant r = auth_tenant_id a \<and>
    cvrow_subject_hash r = subject_hash svc a \<and> cvrow_status r = CONV_ACTIVE \<and>
    conversation_from_row (cdb_iso db) r = Inr (history_conversation h) \<and>
    (let ts = turns_of db (cvrow_id r)
     in rmap (turn_from_row (cdb_iso db)) (drop (length ts - nat n) ts) = Inr (history_turns h)))"
proof -
  from assms(3) obtain c where n: "1 \<le> n"
    and get: "get_conversation cid (auth_tenant_id a) (subject_hash svc a) db = (Inr (Some c), db)"
    and turns: "list_turns (conv_conversation_id c) (auth_tenant_id a) (subject_hash svc a) n db = (Inr (history_turns h), db')"
    and h: "history_conversation h = c"
    by (auto simp: history_get_def require_conversation_def positive_limit_def prog_simps found_or_def assms(1)
        postgres_conversations_def dest: queries_quiet split: option.splits if_splits)
  from get obtain u r where u: "cdb_uuid db cid = Some u"
    and r: "find (owned_row u (auth_tenant_id a) (subject_hash svc a)) (cdb_conversations db) = Some r"
      "conversation_from_row (cdb_iso db) r = Inr c"
    by (auto simp: get_conversation_def sql_select_def sql_def sbind_def optional_row_def with_render_def rbind_eq_Inr
        split: option.splits if_splits)
  note r_in = find_member [OF r(1)]
  from assms(2) u have uuid: "trimmed u" "cdb_uuid db u = Some u"
    by (auto simp: history_good_def uuid_texts_def)
  with r(2) r_in have c: "conv_conversation_id c = u"
    by (auto simp: conversation_from_row_def conversation_post_init_def rbind_eq_Inr required_Inr owned_row_def
        trimmed_def split: if_splits)
  from turns obtain rows db1 where rows: "select_turn_rows u (auth_tenant_id a) (subject_hash svc a) n False db = (Inr rows, db1)"
      "rmap (turn_from_row (cdb_iso db1)) rows = Inr (history_turns h)" "db' = db1"
    by (auto simp: list_turns_def sbind_eq_Inr with_render_def c)
  from select_turn_rows_Inr [OF rows(1) n] uuid(2) have "db1 = db"
    "rows = turn_rows db u (auth_tenant_id a) (subject_hash svc a) (nat n) False" by auto
  moreover from r_in have "list_ex (owned_row u (auth_tenant_id a) (subject_hash svc a)) (cdb_conversations db)"
    by (auto simp: list_ex_iff)
  ultimately have "rmap (turn_from_row (cdb_iso db)) (drop (length (turns_of db u) - nat n) (turns_of db u)) =
      Inr (history_turns h)"
    using rows(2) turn_rows_last [of db u _ _ _ False] assms(2) by (simp add: history_good_def Let_def)
  with r_in r(2) h rows(3) \<open>db1 = db\<close> show ?thesis
    by (intro conjI bexI [of _ r]) (auto simp: owned_row_def)
qed

definition demo_conversation :: conversation where
  "demo_conversation = \<lparr>conv_conversation_id = ''c1'', conv_tenant_id = ''acme'',
     conv_subject_hash = replicate 64 (CHR ''a''), conv_session_id = ''s1'', conv_domain = ''docs'',
     conv_title = ''Title'', conv_status = CONV_ACTIVE, conv_created_at = ''t5'', conv_updated_at = ''t5'',
     conv_deleted_at = None\<rparr>"

lemma demo_get:
  "history_get demo_history_service demo_authorization ''c1'' 1 demo_asked =
     (Inr \<lparr>history_conversation = demo_conversation, history_turns = [demo_new_turn ''t1'' ''r1'']\<rparr>, demo_asked)"
proof -
  have who: "auth_tenant_id demo_authorization = ''acme''"
    "subject_hash demo_history_service demo_authorization = replicate 64 (CHR ''a'')"
    by (simp_all add: demo_authorization_def subject_hash_def demo_history_service_def demo_hash_def)
  have db: "cdb_up demo_asked" "cdb_conversations demo_asked = [demo_row]" "cdb_turns demo_asked = [demo_turn_row]"
    "cdb_iso demo_asked = cdb_iso demo_history" "cdb_uuid demo_asked ''c1'' = Some ''c1''"
    by (simp_all add: demo_dbs demo_trimmed)
  have owned: "owned_row ''c1'' ''acme'' (replicate 64 (CHR ''a'')) demo_row"
    "trow_conversation_id demo_turn_row = ''c1''" "storable [''acme'', replicate 64 (CHR ''a'')]"
    "conv_conversation_id demo_conversation = ''c1''"
    by (simp_all add: owned_row_def demo_row_def demo_turn_row_def storable_def demo_conversation_def)
  have get: "get_conversation ''c1'' ''acme'' (replicate 64 (CHR ''a'')) demo_asked = (Inr (Some demo_conversation), demo_asked)"
    using db owned demo_values(1)
    by (simp add: get_conversation_def sql_select_def sql_def sbind_def optional_row_def with_render_def
        demo_conversation_def)
  have turns: "list_turns ''c1'' ''acme'' (replicate 64 (CHR ''a'')) 1 demo_asked =
      (Inr [demo_new_turn ''t1'' ''r1''], demo_asked)"
    using db owned demo_values(2)
    by (simp add: list_turns_def select_turn_rows_def sql_select_def sql_def sbind_def with_render_def
        sql_limit_def turn_rows_def turns_of_def)
  show ?thesis
    by (simp add: history_get_def require_conversation_def positive_limit_def sthen_def slift_def sbind_def
        found_or_def sreturn_def who demo_facts_history(1) postgres_conversations_def get turns owned(4))
qed

lemma history_get_exact_witness:
  "\<exists>r\<in>set (cdb_conversations demo_asked). cvrow_subject_hash r = subject_hash demo_history_service demo_authorization \<and>
     conversation_from_row (cdb_iso demo_asked) r = Inr demo_conversation"
  using history_get_exact [OF demo_facts_history(1) demo_history_good(3) demo_get] by auto

text \<open>
  The turns the pipeline loads as history are the last \<open>limit\<close> finalized turns of a conversation of the
  caller, in ascending order; for a conversation of someone else there are none.
\<close>

theorem recent_turns_exact:
  assumes "chs_repository svc = postgres_conversations" "history_good db"
    "history_recent_finalized_turns svc a cid n db = (Inr vs, db')"
  shows "db' = db \<and> (\<exists>u. cdb_uuid db cid = Some u \<and>
    (if list_ex (owned_row u (auth_tenant_id a) (subject_hash svc a)) (cdb_conversations db)
     then let ts = filter (\<lambda>t. trow_status t = TURN_FINALIZED) (turns_of db u)
       in rmap (turn_from_row (cdb_iso db)) (drop (length ts - nat n) ts) = Inr vs
     else vs = []))"
proof -
  from assms(3) obtain rows db1 where n: "1 \<le> n"
    and rows: "select_turn_rows cid (auth_tenant_id a) (subject_hash svc a) n True db = (Inr rows, db1)"
      "rmap (turn_from_row (cdb_iso db1)) rows = Inr vs" "db' = db1"
    by (auto simp: history_recent_finalized_turns_def positive_limit_def prog_simps assms(1)
        postgres_conversations_def recent_finalized_turns_def with_render_def split: if_splits)
  from select_turn_rows_Inr [OF rows(1) n] obtain u where u: "db1 = db" "cdb_uuid db cid = Some u"
    "rows = turn_rows db u (auth_tenant_id a) (subject_hash svc a) (nat n) True" by blast
  from rows(2) show ?thesis
    unfolding u(3) u(1) rows(3) using turn_rows_last [of db u _ _ _ True] assms(2) u(2)
    by (intro conjI exI [of _ u]) (auto simp: history_good_def Let_def)
qed

lemma recent_turns_exact_witness:
  "\<exists>u. cdb_uuid demo_asked ''c1'' = Some u \<and> filter (\<lambda>t. trow_status t = TURN_FINALIZED) (turns_of demo_asked u) = []"
proof -
  have db: "cdb_up demo_asked" "cdb_conversations demo_asked = [demo_row]" "cdb_turns demo_asked = [demo_turn_row]"
    "cdb_uuid demo_asked ''c1'' = Some ''c1''"
    by (simp_all add: demo_dbs demo_trimmed)
  have "history_recent_finalized_turns demo_history_service (demo_authorization\<lparr>auth_subject := ''bob''\<rparr>) ''c1'' 3 demo_asked =
      (Inr [], demo_asked)"
    using db
    by (simp add: history_recent_finalized_turns_def positive_limit_def sthen_def slift_def sbind_def
        demo_facts_history(1) postgres_conversations_def recent_finalized_turns_def select_turn_rows_def
        sql_select_def sql_def with_render_def sql_limit_def turn_rows_def turns_of_def demo_turn_row_def
        storable_def subject_hash_def demo_history_service_def demo_hash_def demo_authorization_def)
  from recent_turns_exact [OF demo_facts_history(1) demo_history_good(3) this] db(4)
  show ?thesis by (simp add: turns_of_def db demo_turn_row_def)
qed

text \<open>
  C40: Renaming a conversation to a blank title stores the title before the returned value is checked: the
  call raises, and from then on neither the conversation nor the list of the caller's
  conversations can be read.
\<close>

theorem blank_title_bricks_list:
  assumes "cdb_up db" "cdb_uuid db cid = Some u"
    "find (owned_row u tenant hash) (cdb_conversations db) = Some r"
    "storable [tenant, hash]" "storable [title]" "strip title = []"
    "rename_conversation cid tenant hash title db = (res, db')"
    "int (length (cdb_conversations db)) < 2 ^ 63"
  shows "\<not> is_ok res \<and> renamed_row title (cdb_now db) r \<in> set (cdb_conversations db') \<and>
    \<not> is_ok (fst (list_conversations tenant hash (int (length (cdb_conversations db))) db')) \<and>
    \<not> is_ok (fst (get_conversation cid tenant hash db'))"
  using rename_blank [OF assms(1-7)] assms(8) by blast

lemma blank_title_bricks_list_witness:
  "\<not> is_ok (fst (list_conversations ''acme'' (replicate 64 (CHR ''a'')) 1
     (snd (rename_conversation ''c1'' ''acme'' (replicate 64 (CHR ''a'')) '' '' demo_talk))))"
proof -
  have db: "cdb_up demo_talk" "cdb_conversations demo_talk = [demo_row]" "cdb_uuid demo_talk ''c1'' = Some ''c1''"
    by (simp_all add: demo_dbs demo_trimmed)
  have found: "find (owned_row ''c1'' ''acme'' (replicate 64 (CHR ''a''))) (cdb_conversations demo_talk) = Some demo_row"
    "storable [''acme'', replicate 64 (CHR ''a'')]" "storable ['' '']"
    by (simp_all add: db owned_row_def demo_row_def storable_def)
  have "strip '' '' = []" by code_simp
  from blank_title_bricks_list [OF db(1,3) found this surjective_pairing] db(2) show ?thesis by simp
qed

end
