(* ===== verification/Ingestion_Repository.thy ===== *)
theory Ingestion_Repository
  imports Document_Store
begin

text \<open>
  \<open>infrastructure/ingestion.py\<close> over the tables of \<open>Document_Store\<close>. A method is one transaction: its body
  computes the new tables or raises, and a raise leaves the tables as they were. What the source of
  job identifiers returned in a call is an argument of \<open>stage\<close>.
\<close>

section \<open>Transactions\<close>

definition db_error :: py_exn where
  "db_error = OtherError ''DatabaseError''"

definition passed_on :: "py_exn \<Rightarrow> bool" where
  "passed_on e \<longleftrightarrow> is_class ConflictError e \<or> is_class IngestionError e"

definition transaction ::
    "(py_exn \<Rightarrow> bool) \<Rightarrow> string \<Rightarrow> (document_db \<Rightarrow> ('a \<times> document_db) result) \<Rightarrow> 'a document_prog" where
  "transaction keep message body db =
     (case or_unavailable keep message (if ddb_up db then body db else Inl db_error) of
        Inl e \<Rightarrow> (Inl e, db)
      | Inr (x, db') \<Rightarrow> (Inr x, db'))"

definition bound_texts :: "string list \<Rightarrow> unit result" where
  "bound_texts xs = (if storable xs then Inr () else Inl db_error)"

definition option_result :: "'a option \<Rightarrow> 'a result" where
  "option_result v = (case v of None \<Rightarrow> Inl db_error | Some x \<Rightarrow> Inr x)"

definition texts_of :: "string option \<Rightarrow> string list" where
  "texts_of v = (case v of None \<Rightarrow> [] | Some s \<Rightarrow> [s])"

section \<open>Inserting the rows of a version\<close>

definition command_key :: "ingestion_command \<Rightarrow> source_key" where
  "command_key c = source_key_of (ing_tenant_id c) (ing_domain c) (ing_source_id c)"

definition version_of :: "source_key \<Rightarrow> string \<Rightarrow> version_row \<Rightarrow> bool" where
  "version_of k v r \<longleftrightarrow> vrow_key r = k \<and> vrow_version r = v"

definition insert_version ::
    "ingestion_command \<Rightarrow> string \<Rightarrow> document_db \<Rightarrow> document_db result" where
  "insert_version c hash db =
     rbind (bound_texts (texts_of (ing_source_uri c) @ [hash])) (\<lambda>_.
     rbind (option_result (ddb_jsonb db (ing_metadata c))) (\<lambda>metadata.
     rbind (option_result (char64 hash)) (\<lambda>h.
       Inr (db\<lparr>ddb_versions := ddb_versions db @
         [\<lparr>vrow_key = command_key c, vrow_version = ing_source_version c, vrow_uri = ing_source_uri c,
           vrow_payload_hash = h, vrow_metadata = metadata\<rparr>]\<rparr>))))"

definition chunk_key :: "chunk_row \<Rightarrow> source_key \<times> string \<times> string" where
  "chunk_key r = (krow_key r, krow_version r, krow_chunk_id r)"

definition chunk_row_of :: "ingestion_command \<Rightarrow> nat \<Rightarrow> document_chunk \<Rightarrow> mapping \<Rightarrow> chunk_row" where
  "chunk_row_of c position chunk metadata =
     \<lparr>krow_key = command_key c, krow_version = ing_source_version c, krow_chunk_id = chunk_id chunk,
      krow_position = position, krow_uri = chunk_source_uri chunk, krow_text = chunk_text chunk,
      krow_metadata = metadata, krow_acl_labels = chunk_acl_labels chunk,
      krow_clearance_label = doc_clearance_label (chunk_security chunk),
      krow_classification_labels = doc_classification_labels (chunk_security chunk)\<rparr>"

definition insert_chunk ::
    "ingestion_command \<Rightarrow> nat \<times> document_chunk \<Rightarrow> document_db \<Rightarrow> document_db result" where
  "insert_chunk c item db =
     (let (position, chunk) = item; sec = chunk_security chunk
      in rbind (bound_texts (chunk_id chunk # chunk_text chunk # texts_of (chunk_source_uri chunk) @
             chunk_acl_labels chunk @ texts_of (doc_clearance_label sec) @ doc_classification_labels sec)) (\<lambda>_.
         rbind (option_result (ddb_jsonb db (chunk_metadata chunk))) (\<lambda>metadata.
         let row = chunk_row_of c position chunk metadata
         in if chunk_key row \<in> set (map chunk_key (ddb_chunks db)) \<or> \<not> sql_nonblank (chunk_text chunk) \<or>
              \<not> sql_integer (int position) \<or>
              \<not> list_ex (version_of (command_key c) (ing_source_version c)) (ddb_versions db)
            then Inl db_error
            else Inr (db\<lparr>ddb_chunks := ddb_chunks db @ [row]\<rparr>))))"

text \<open>\<open>_target_exists\<close>: the target is a chunk of the current version of its source.\<close>

definition target_exists :: "ingestion_command \<Rightarrow> graph_relationship \<Rightarrow> document_db \<Rightarrow> bool" where
  "target_exists c r db \<longleftrightarrow>
     list_ex (\<lambda>k. key_source (krow_key k) = node_source_id (rel_to_node r) \<and>
         krow_chunk_id k = node_chunk_id (rel_to_node r))
       (current_chunks db (ing_tenant_id c) (ing_domain c))"

definition relationship_of_command :: "ingestion_command \<Rightarrow> graph_relationship \<Rightarrow> mapping \<Rightarrow> relationship_row" where
  "relationship_of_command c r metadata =
     \<lparr>rrow_owner = command_key c, rrow_version = ing_source_version c,
      rrow_from_source = node_source_id (rel_from_node r), rrow_from_chunk = node_chunk_id (rel_from_node r),
      rrow_to_source = node_source_id (rel_to_node r), rrow_to_chunk = node_chunk_id (rel_to_node r),
      rrow_type = rel_type r, rrow_metadata = metadata\<rparr>"

definition owned_relationship :: "relationship_row \<Rightarrow> source_key \<times> string \<times> relationship_key_tuple" where
  "owned_relationship r = (rrow_owner r, rrow_version r, relationship_order r)"

definition insert_relationship ::
    "ingestion_command \<Rightarrow> graph_relationship \<Rightarrow> document_db \<Rightarrow> document_db result" where
  "insert_relationship c r db =
     rbind (bound_texts [node_source_id (rel_from_node r), node_chunk_id (rel_from_node r),
       node_source_id (rel_to_node r), node_chunk_id (rel_to_node r), rel_type r]) (\<lambda>_.
     rbind (option_result (ddb_jsonb db (rel_metadata r))) (\<lambda>metadata.
       let row = relationship_of_command c r metadata
       in if owned_relationship row \<in> set (map owned_relationship (ddb_relationships db)) \<or>
            \<not> sql_nonblank (rel_type r) \<or> rrow_from_source row \<noteq> key_source (rrow_owner row) \<or>
            (rrow_owner row, rrow_version row, rrow_from_chunk row) \<notin> set (map chunk_key (ddb_chunks db))
          then Inl db_error
          else Inr (db\<lparr>ddb_relationships := ddb_relationships db @ [row]\<rparr>)))"

definition target_conflict :: "'a result" where
  "target_conflict = Inl (Known ConflictError ''Relationship target does not exist in the current graph'')"

definition stage_relationship ::
    "ingestion_command \<Rightarrow> graph_relationship \<Rightarrow> document_db \<Rightarrow> document_db result" where
  "stage_relationship c r db =
     (if node_source_id (rel_to_node r) = ing_source_id c then insert_relationship c r db
      else rbind (bound_texts [node_source_id (rel_to_node r), node_chunk_id (rel_to_node r)]) (\<lambda>_.
        if target_exists c r db then insert_relationship c r db else target_conflict))"

definition insert_content :: "ingestion_command \<Rightarrow> string \<Rightarrow> document_db \<Rightarrow> document_db result" where
  "insert_content c hash db =
     rbind (insert_version c hash db) (\<lambda>db.
     rbind (rfold (insert_chunk c) (enumerate 0 (ing_chunks c)) db) (\<lambda>db.
       rfold (stage_relationship c) (ing_relationships c) db))"

section \<open>Jobs\<close>

definition request_job :: "ingestion_command \<Rightarrow> job_row \<Rightarrow> bool" where
  "request_job c j \<longleftrightarrow> key_tenant (jrow_key j) = ing_tenant_id c \<and> key_domain (jrow_key j) = ing_domain c \<and>
     jrow_idempotency_key j = ing_idempotency_key c"

definition insert_job :: "string \<Rightarrow> ingestion_command \<Rightarrow> string \<Rightarrow> document_db \<Rightarrow> document_db result" where
  "insert_job job_id c hash db =
     rbind (option_result (ddb_uuid db job_id)) (\<lambda>u.
     rbind (bound_texts [hash]) (\<lambda>_.
     rbind (option_result (char64 hash)) (\<lambda>h.
       if u \<in> set (map jrow_id (ddb_jobs db)) \<or> list_ex (request_job c) (ddb_jobs db) \<or>
          \<not> list_ex (version_of (command_key c) (ing_source_version c)) (ddb_versions db)
       then Inl db_error
       else Inr (db\<lparr>ddb_jobs := ddb_jobs db @
         [\<lparr>jrow_id = u, jrow_key = command_key c, jrow_version = ing_source_version c,
           jrow_idempotency_key = ing_idempotency_key c, jrow_payload_hash = h,
           jrow_status = JOB_STAGED, jrow_attempts = 0, jrow_error_code = None,
           jrow_error_message = None\<rparr>]\<rparr>))))"

text \<open>\<open>_load_with_cursor\<close>: the job with the command its version was staged with.\<close>

definition relationship_of_row :: "relationship_row \<Rightarrow> graph_relationship result" where
  "relationship_of_row r =
     rbind (graph_node_ref_post_init (node_ref (rrow_from_source r) (rrow_from_chunk r))) (\<lambda>f.
     rbind (graph_node_ref_post_init (node_ref (rrow_to_source r) (rrow_to_chunk r))) (\<lambda>t.
       graph_relationship_post_init
         \<lparr>rel_from_node = f, rel_to_node = t, rel_type = rrow_type r, rel_metadata = rrow_metadata r\<rparr>))"

definition version_chunks :: "document_db \<Rightarrow> source_key \<Rightarrow> string \<Rightarrow> chunk_row list" where
  "version_chunks db k v =
     sort_key krow_position (filter (\<lambda>r. krow_key r = k \<and> krow_version r = v) (ddb_chunks db))"

definition version_relationships :: "document_db \<Rightarrow> source_key \<Rightarrow> string \<Rightarrow> relationship_row list" where
  "version_relationships db k v =
     sort_key relationship_order (filter (\<lambda>r. rrow_owner r = k \<and> rrow_version r = v) (ddb_relationships db))"

definition job_of_rows :: "document_db \<Rightarrow> job_row \<Rightarrow> version_row \<Rightarrow> ingestion_job result" where
  "job_of_rows db j v =
     (let k = jrow_key j
      in rbind (rmap (chunk_of_row (key_tenant k) (key_domain k) (key_source k))
             (version_chunks db k (jrow_version j))) (\<lambda>chunks.
         rbind (rmap relationship_of_row (version_relationships db k (jrow_version j))) (\<lambda>relationships.
         rbind (ingestion_command_post_init
           \<lparr>ing_idempotency_key = jrow_idempotency_key j, ing_domain = key_domain k,
            ing_tenant_id = key_tenant k, ing_source_id = key_source k,
            ing_source_version = jrow_version j, ing_chunks = chunks, ing_relationships = relationships,
            ing_source_uri = vrow_uri v, ing_metadata = vrow_metadata v\<rparr>) (\<lambda>command.
         ingestion_job_post_init
           \<lparr>job_job_id = jrow_id j, job_payload_hash = jrow_payload_hash j,
            job_status = jrow_status j, job_command = command, job_attempts = jrow_attempts j\<rparr>))))"

definition load_with_cursor :: "string \<Rightarrow> string option \<Rightarrow> document_db \<Rightarrow> ingestion_job result" where
  "load_with_cursor job_id tenant db =
     rbind (option_result (ddb_uuid db job_id)) (\<lambda>u.
     rbind (bound_texts (texts_of tenant)) (\<lambda>_.
       case find (\<lambda>j. jrow_id j = u \<and> (tenant = None \<or> tenant = Some (key_tenant (jrow_key j)))) (ddb_jobs db) of
         None \<Rightarrow> Inl (Known IngestionError (''Ingestion job does not exist: '' @ job_id))
       | Some j \<Rightarrow>
           (case find (version_of (jrow_key j) (jrow_version j)) (ddb_versions db) of
              None \<Rightarrow> Inl (Known IngestionError (''Ingestion job does not exist: '' @ job_id))
            | Some v \<Rightarrow> job_of_rows db j v)))"

section \<open>stage\<close>

text \<open>
  The transaction returns the existing job, or the identifier of the new one. The advisory lock makes
  the transactions of one source run one after the other.
\<close>

definition stage_body ::
    "string result \<Rightarrow> ingestion_command \<Rightarrow> string \<Rightarrow> document_db \<Rightarrow>
     ((ingestion_job + string) \<times> document_db) result" where
  "stage_body job_id c hash db =
     rbind (bound_texts [ing_tenant_id c, ing_domain c, ing_source_id c]) (\<lambda>_.
     rbind (bound_texts [ing_idempotency_key c]) (\<lambda>_.
       case find (request_job c) (ddb_jobs db) of
         Some j \<Rightarrow>
           if jrow_payload_hash j \<noteq> hash
           then Inl (Known ConflictError ''Idempotency key was already used for a different payload'')
           else rbind (load_with_cursor (jrow_id j) None db) (\<lambda>job. Inr (Inl job, db))
       | None \<Rightarrow>
           rbind (bound_texts [ing_source_version c]) (\<lambda>_.
           let existing = find (version_of (command_key c) (ing_source_version c)) (ddb_versions db)
           in if (case existing of None \<Rightarrow> False | Some v \<Rightarrow> vrow_payload_hash v \<noteq> hash)
              then Inl (Known ConflictError ''Source version already exists with different content'')
              else
                rbind job_id (\<lambda>jid.
                rbind (if existing = None then insert_content c hash db else Inr db) (\<lambda>db.
                rbind (insert_job jid c hash db) (\<lambda>db. Inr (Inr jid, db)))))))"

definition stage :: "string result \<Rightarrow> ingestion_command \<Rightarrow> string \<Rightarrow> ingestion_job document_prog" where
  "stage job_id c hash =
     sbind (transaction passed_on ''PostgreSQL ingestion stage failed'' (stage_body job_id c hash)) (\<lambda>outcome.
       case outcome of
         Inl job \<Rightarrow> sreturn job
       | Inr jid \<Rightarrow> slift (ingestion_job_post_init
           \<lparr>job_job_id = jid, job_payload_hash = hash, job_status = JOB_STAGED, job_command = c,
            job_attempts = 0\<rparr>))"

section \<open>load\<close>

definition load_job :: "string \<Rightarrow> string option \<Rightarrow> ingestion_job document_prog" where
  "load_job job_id tenant =
     transaction (is_class IngestionError) ''PostgreSQL ingestion read failed''
       (\<lambda>db. rbind (load_with_cursor job_id tenant db) (\<lambda>job. Inr (job, db)))"

definition repo_load :: "string \<Rightarrow> ingestion_job document_prog" where
  "repo_load job_id = load_job job_id None"

definition load_for_tenant :: "string \<Rightarrow> string \<Rightarrow> ingestion_job document_prog" where
  "load_for_tenant job_id tenant = load_job job_id (Some tenant)"

section \<open>Transitions\<close>

text \<open>\<open>_transition\<close>: an \<open>UPDATE\<close> that must touch exactly one row.\<close>

definition transition ::
    "string \<Rightarrow> (document_db \<Rightarrow> (nat \<times> document_db) result) \<Rightarrow> unit document_prog" where
  "transition message update =
     transaction (is_class IngestionError) ''PostgreSQL ingestion transition failed'' (\<lambda>db.
       rbind (update db) (\<lambda>(n, db').
         if n \<noteq> 1 then Inl (Known IngestionError message) else Inr ((), db')))"

definition update_jobs ::
    "(job_row \<Rightarrow> bool) \<Rightarrow> (job_row \<Rightarrow> job_row) \<Rightarrow> document_db \<Rightarrow> nat \<times> document_db" where
  "update_jobs P f db =
     (length (filter P (ddb_jobs db)), db\<lparr>ddb_jobs := map (\<lambda>j. if P j then f j else j) (ddb_jobs db)\<rparr>)"

definition job_in :: "string \<Rightarrow> ingestion_job_status list \<Rightarrow> job_row \<Rightarrow> bool" where
  "job_in u statuses j \<longleftrightarrow> jrow_id j = u \<and> jrow_status j \<in> set statuses"

definition indexing_row :: "job_row \<Rightarrow> job_row" where
  "indexing_row j = j\<lparr>jrow_status := JOB_INDEXING, jrow_attempts := jrow_attempts j + 1,
     jrow_error_code := None, jrow_error_message := None\<rparr>"

definition mark_indexing :: "string \<Rightarrow> unit document_prog" where
  "mark_indexing job_id = transition ''Ingestion job cannot enter indexing state'' (\<lambda>db.
     rbind (option_result (ddb_uuid db job_id)) (\<lambda>u.
       let P = job_in u [JOB_STAGED, JOB_INDEXING, JOB_FAILED]
       in if list_all (\<lambda>j. P j \<longrightarrow> sql_integer (jrow_attempts j + 1)) (ddb_jobs db)
          then Inr (update_jobs P indexing_row db) else Inl db_error))"

definition failed_job_row :: "string \<Rightarrow> string \<Rightarrow> job_row \<Rightarrow> job_row" where
  "failed_job_row code message j = j\<lparr>jrow_status := JOB_FAILED, jrow_error_code := Some (take 100 code),
     jrow_error_message := Some (take 2000 message)\<rparr>"

definition mark_failed :: "string \<Rightarrow> string \<Rightarrow> string \<Rightarrow> unit document_prog" where
  "mark_failed job_id code message = transition ''Ingestion job cannot enter failed state'' (\<lambda>db.
     rbind (bound_texts [take 100 code, take 2000 message]) (\<lambda>_.
     rbind (option_result (ddb_uuid db job_id)) (\<lambda>u.
       Inr (update_jobs (job_in u [JOB_INDEXING]) (failed_job_row code message) db))))"

text \<open>The \<open>INSERT ... ON CONFLICT DO UPDATE\<close> of \<open>sf.sources\<close>.\<close>

definition put_source :: "source_row \<Rightarrow> source_row list \<Rightarrow> source_row list" where
  "put_source row rows =
     (if list_ex (\<lambda>r. srow_key r = srow_key row) rows
      then map (\<lambda>r. if srow_key r = srow_key row then row else r) rows
      else rows @ [row])"

definition mark_indexed :: "string \<Rightarrow> unit document_prog" where
  "mark_indexed job_id =
     transaction (is_class IngestionError) ''PostgreSQL ingestion completion failed'' (\<lambda>db.
       rbind (option_result (ddb_uuid db job_id)) (\<lambda>u.
         case find (job_in u [JOB_INDEXING]) (ddb_jobs db) of
           None \<Rightarrow> Inl (Known IngestionError ''Ingestion job cannot enter indexed state'')
         | Some j \<Rightarrow>
             Inr ((), db\<lparr>ddb_jobs := map (\<lambda>x. if job_in u [JOB_INDEXING] x then x\<lparr>jrow_status := JOB_INDEXED\<rparr> else x)
                          (ddb_jobs db),
                        ddb_sources := put_source
                          \<lparr>srow_key = jrow_key j, srow_version = jrow_version j, srow_job_id = u\<rparr>
                          (ddb_sources db)\<rparr>)))"

section \<open>Relationships and sources\<close>

definition publish_relationship ::
    "ingestion_command \<Rightarrow> graph_relationship \<Rightarrow> document_db \<Rightarrow> document_db result" where
  "publish_relationship c r db =
     rbind (bound_texts [node_source_id (rel_to_node r), node_chunk_id (rel_to_node r)]) (\<lambda>_.
       if target_exists c r db then insert_relationship c r db else target_conflict)"

definition replace_relationships :: "ingestion_command \<Rightarrow> unit document_prog" where
  "replace_relationships c =
     transaction passed_on ''PostgreSQL relationship publication failed'' (\<lambda>db.
       rbind (bound_texts [ing_tenant_id c, ing_domain c, ing_source_id c]) (\<lambda>_.
         if (case current_source db (command_key c) of None \<Rightarrow> True
             | Some r \<Rightarrow> srow_version r \<noteq> ing_source_version c)
         then Inl (Known ConflictError ''Relationships can only be published for the active source version'')
         else
           rbind (rfold (publish_relationship c) (ing_relationships c)
             (db\<lparr>ddb_relationships := filter (\<lambda>r. \<not> (rrow_owner r = command_key c \<and>
                rrow_version r = ing_source_version c)) (ddb_relationships db)\<rparr>)) (\<lambda>db. Inr ((), db))))"

definition delete_source :: "string \<Rightarrow> string \<Rightarrow> string \<Rightarrow> unit document_prog" where
  "delete_source domain tenant source =
     transaction (\<lambda>e. False) ''PostgreSQL source deletion failed'' (\<lambda>db.
       rbind (bound_texts [tenant, domain, source]) (\<lambda>_.
         Inr ((), db\<lparr>ddb_relationships := filter (\<lambda>r. \<not> (key_tenant (rrow_owner r) = tenant \<and>
                       key_domain (rrow_owner r) = domain \<and>
                       (rrow_from_source r = source \<or> rrow_to_source r = source))) (ddb_relationships db),
                     ddb_sources := filter (\<lambda>r. srow_key r \<noteq> source_key_of tenant domain source)
                       (ddb_sources db)\<rparr>)))"

section \<open>Import runs\<close>

definition new_import_run :: "dataset_import_request \<Rightarrow> string \<Rightarrow> dataset_import_run" where
  "new_import_run r hash =
     \<lparr>irun_import_id = ireq_import_id r, irun_domain = ireq_domain r, irun_tenant_id = ireq_tenant_id r,
      irun_dataset_hash = hash, irun_status = IMPORT_STAGING, irun_source_count = ireq_source_count r,
      irun_chunk_count = ireq_chunk_count r, irun_relationship_count = ireq_relationship_count r,
      irun_deletion_count = ireq_deletion_count r, irun_indexed_sources = 0,
      irun_published_relationships = 0, irun_deleted_sources = 0, irun_error_code = None,
      irun_error_message = None\<rparr>"

definition import_row_ok :: "dataset_import_run \<Rightarrow> bool" where
  "import_row_ok r \<longleftrightarrow> 0 < irun_source_count r \<and> 0 < irun_chunk_count r \<and>
     0 \<le> irun_relationship_count r \<and> 0 \<le> irun_deletion_count r \<and> 0 \<le> irun_indexed_sources r \<and>
     0 \<le> irun_published_relationships r \<and> 0 \<le> irun_deleted_sources r \<and>
     list_all sql_integer [irun_source_count r, irun_chunk_count r, irun_relationship_count r,
       irun_deletion_count r, irun_indexed_sources r, irun_published_relationships r, irun_deleted_sources r]"

definition start_import :: "dataset_import_request \<Rightarrow> dataset_import_run document_prog" where
  "start_import q =
     sbind (transaction passed_on ''PostgreSQL import start failed'' (\<lambda>db.
       rbind (bound_texts [ireq_import_id q]) (\<lambda>_.
         case find (\<lambda>r. irun_import_id r = ireq_import_id q) (ddb_imports db) of
           Some row \<Rightarrow>
             rbind (dataset_import_run_post_init row) (\<lambda>run.
               if irun_domain run \<noteq> ireq_domain q \<or> irun_tenant_id run \<noteq> ireq_tenant_id q \<or>
                  irun_dataset_hash run \<noteq> ireq_dataset_hash q
               then Inl (Known ConflictError ''Import identifier was already used for a different dataset'')
               else Inr (Some run, db))
         | None \<Rightarrow>
             rbind (bound_texts [ireq_tenant_id q, ireq_domain q, ireq_dataset_hash q]) (\<lambda>_.
             rbind (option_result (char64 (ireq_dataset_hash q))) (\<lambda>h.
               let row = new_import_run q h
               in if import_row_ok row then Inr (None, db\<lparr>ddb_imports := ddb_imports db @ [row]\<rparr>)
                  else Inl db_error))))) (\<lambda>existing.
     case existing of
       Some run \<Rightarrow> sreturn run
     | None \<Rightarrow> slift (dataset_import_run_post_init (new_import_run q (ireq_dataset_hash q))))"

definition load_import :: "string \<Rightarrow> string \<Rightarrow> dataset_import_run document_prog" where
  "load_import import_id tenant =
     transaction (is_class IngestionError) ''PostgreSQL import read failed'' (\<lambda>db.
       rbind (bound_texts [import_id, tenant]) (\<lambda>_.
         case find (\<lambda>r. irun_import_id r = import_id \<and> irun_tenant_id r = tenant) (ddb_imports db) of
           None \<Rightarrow> Inl (Known IngestionError (''Dataset import does not exist: '' @ import_id))
         | Some row \<Rightarrow> rbind (dataset_import_run_post_init row) (\<lambda>run. Inr (run, db))))"

definition update_imports ::
    "string \<Rightarrow> (dataset_import_run \<Rightarrow> dataset_import_run) \<Rightarrow> document_db \<Rightarrow> (nat \<times> document_db) result" where
  "update_imports import_id f db =
     (let P = \<lambda>r. irun_import_id r = import_id;
          rows = map (\<lambda>r. if P r then f r else r) (ddb_imports db)
      in if list_all import_row_ok (map f (filter P (ddb_imports db)))
         then Inr (length (filter P (ddb_imports db)), db\<lparr>ddb_imports := rows\<rparr>)
         else Inl db_error)"

definition update_import ::
    "string \<Rightarrow> dataset_import_status \<Rightarrow> int \<Rightarrow> int \<Rightarrow> int \<Rightarrow> unit document_prog" where
  "update_import import_id status indexed published deleted =
     transition ''Dataset import state cannot be updated'' (\<lambda>db.
       rbind (bound_texts [import_id]) (\<lambda>_.
         update_imports import_id (\<lambda>r. r\<lparr>irun_status := status, irun_indexed_sources := indexed,
           irun_published_relationships := published, irun_deleted_sources := deleted,
           irun_error_code := None, irun_error_message := None\<rparr>) db))"

definition fail_import :: "string \<Rightarrow> string \<Rightarrow> string \<Rightarrow> unit document_prog" where
  "fail_import import_id code message =
     transition ''Dataset import cannot enter failed state'' (\<lambda>db.
       rbind (bound_texts [import_id, take 100 code, take 2000 message]) (\<lambda>_.
         update_imports import_id (\<lambda>r. r\<lparr>irun_status := IMPORT_FAILED,
           irun_error_code := Some (take 100 code), irun_error_message := Some (take 2000 message)\<rparr>) db))"

record consistency_row =
  active_sources :: int
  active_chunks :: int
  active_relationships :: int

definition consistency_counts :: "string \<Rightarrow> string \<Rightarrow> consistency_row document_prog" where
  "consistency_counts domain tenant =
     transaction (is_class IngestionError) ''PostgreSQL consistency check failed'' (\<lambda>db.
       rbind (bound_texts [tenant, domain]) (\<lambda>_.
         Inr (\<lparr>active_sources = int (length (filter (\<lambda>r. key_tenant (srow_key r) = tenant \<and>
                 key_domain (srow_key r) = domain) (ddb_sources db))),
               active_chunks = int (length (current_chunks db tenant domain)),
               active_relationships = int (length (current_relationships db tenant domain))\<rparr>, db)))"

definition ingestion_check :: "unit document_prog" where
  "ingestion_check = transaction (\<lambda>e. False) ''PostgreSQL ingestion health check failed'' (\<lambda>db. Inr ((), db))"

end
