(* ===== verification/Ingestion_Store.thy ===== *)
theory Ingestion_Store
  imports Ingestion_Repository
begin

text \<open>
  The document tables as a state machine: the integrity of keys and references, the life of a job, and
  the content of a version, which never changes once it is staged.
\<close>

section \<open>Integrity\<close>

definition version_key :: "version_row \<Rightarrow> source_key \<times> string" where
  "version_key r = (vrow_key r, vrow_version r)"

definition job_request :: "job_row \<Rightarrow> string \<times> string \<times> string" where
  "job_request j = (key_tenant (jrow_key j), key_domain (jrow_key j), jrow_idempotency_key j)"

text \<open>A source is at a version that a finished job of that source indexed.\<close>

definition source_indexed :: "job_row list \<Rightarrow> source_row \<Rightarrow> bool" where
  "source_indexed jobs r \<longleftrightarrow> list_ex (\<lambda>j. jrow_id j = srow_job_id r \<and> jrow_key j = srow_key r \<and>
     jrow_version j = srow_version r \<and> jrow_status j = JOB_INDEXED) jobs"

definition relationship_anchored :: "chunk_row list \<Rightarrow> relationship_row \<Rightarrow> bool" where
  "relationship_anchored chunks r \<longleftrightarrow> rrow_from_source r = key_source (rrow_owner r) \<and>
     (rrow_owner r, rrow_version r, rrow_from_chunk r) \<in> set (map chunk_key chunks)"

definition documents_ok :: "document_db \<Rightarrow> bool" where
  "documents_ok db \<longleftrightarrow> distinct (map version_key (ddb_versions db)) \<and>
     distinct (map chunk_key (ddb_chunks db)) \<and> distinct (map owned_relationship (ddb_relationships db)) \<and>
     distinct (map jrow_id (ddb_jobs db)) \<and> distinct (map job_request (ddb_jobs db)) \<and>
     distinct (map srow_key (ddb_sources db)) \<and>
     (\<forall>r\<in>set (ddb_chunks db). (krow_key r, krow_version r) \<in> set (map version_key (ddb_versions db))) \<and>
     (\<forall>r\<in>set (ddb_relationships db). relationship_anchored (ddb_chunks db) r) \<and>
     (\<forall>j\<in>set (ddb_jobs db). (jrow_key j, jrow_version j) \<in> set (map version_key (ddb_versions db))) \<and>
     (\<forall>r\<in>set (ddb_sources db). source_indexed (ddb_jobs db) r)"

lemma documents_okD:
  assumes "documents_ok db"
  shows "distinct (map version_key (ddb_versions db))" "distinct (map chunk_key (ddb_chunks db))"
    "distinct (map owned_relationship (ddb_relationships db))" "distinct (map jrow_id (ddb_jobs db))"
    "distinct (map job_request (ddb_jobs db))" "distinct (map srow_key (ddb_sources db))"
    "r \<in> set (ddb_chunks db) \<Longrightarrow> (krow_key r, krow_version r) \<in> set (map version_key (ddb_versions db))"
    "q \<in> set (ddb_relationships db) \<Longrightarrow> relationship_anchored (ddb_chunks db) q"
    "j \<in> set (ddb_jobs db) \<Longrightarrow> (jrow_key j, jrow_version j) \<in> set (map version_key (ddb_versions db))"
    "s \<in> set (ddb_sources db) \<Longrightarrow> source_indexed (ddb_jobs db) s"
  using assms by (simp_all add: documents_ok_def)

lemma list_ex_version_of:
  "list_ex (version_of k v) vs \<longleftrightarrow> (k, v) \<in> set (map version_key vs)"
  by (auto simp: list_ex_iff version_of_def version_key_def)

lemma find_None_list_ex: "find P xs = None \<longleftrightarrow> \<not> list_ex P xs"
  by (auto simp: find_None_iff list_ex_iff)

lemma anchored_mono: "relationship_anchored ks r \<Longrightarrow> set (map chunk_key ks) \<subseteq> set (map chunk_key ks') \<Longrightarrow>
    relationship_anchored ks' r"
  by (auto simp: relationship_anchored_def)

lemma source_indexed_append: "source_indexed js r \<Longrightarrow> source_indexed (js @ js') r"
  by (simp add: source_indexed_def)

section \<open>What the insertions do\<close>

lemma bound_texts_Inr [simp]: "bound_texts xs = Inr u \<longleftrightarrow> storable xs"
  by (simp add: bound_texts_def)

lemma option_result_Inr [simp]: "option_result v = Inr x \<longleftrightarrow> v = Some x"
  by (auto simp: option_result_def split: option.splits)

definition same_parameters :: "document_db \<Rightarrow> document_db \<Rightarrow> bool" where
  "same_parameters db db' \<longleftrightarrow> ddb_up db' = ddb_up db \<and> ddb_jsonb db' = ddb_jsonb db \<and> ddb_uuid db' = ddb_uuid db"

lemma insert_version_Inr:
  assumes "insert_version c hash db = Inr db'"
  obtains m h where "ddb_jsonb db (ing_metadata c) = Some m" "char64 hash = Some h"
    "db' = db\<lparr>ddb_versions := ddb_versions db @
         [\<lparr>vrow_key = command_key c, vrow_version = ing_source_version c, vrow_uri = ing_source_uri c,
           vrow_payload_hash = h, vrow_metadata = m\<rparr>]\<rparr>"
  using assms by (auto simp: insert_version_def rbind_eq_Inr)

lemma insert_chunk_Inr:
  assumes "insert_chunk c (i, chunk) db = Inr db'"
  obtains m where "ddb_jsonb db (chunk_metadata chunk) = Some m"
    "db' = db\<lparr>ddb_chunks := ddb_chunks db @ [chunk_row_of c i chunk m]\<rparr>"
    "chunk_key (chunk_row_of c i chunk m) \<notin> set (map chunk_key (ddb_chunks db))"
    "(command_key c, ing_source_version c) \<in> set (map version_key (ddb_versions db))"
  using assms by (auto simp: insert_chunk_def Let_def rbind_eq_Inr list_ex_version_of split: if_splits)

lemma insert_relationship_Inr:
  assumes "insert_relationship c r db = Inr db'"
  obtains m where "ddb_jsonb db (rel_metadata r) = Some m"
    "db' = db\<lparr>ddb_relationships := ddb_relationships db @ [relationship_of_command c r m]\<rparr>"
    "owned_relationship (relationship_of_command c r m) \<notin> set (map owned_relationship (ddb_relationships db))"
    "relationship_anchored (ddb_chunks db) (relationship_of_command c r m)"
  using assms
  by (auto simp: insert_relationship_def Let_def rbind_eq_Inr relationship_anchored_def split: if_splits)

lemma stage_relationship_Inr: "stage_relationship c r db = Inr db' \<Longrightarrow> insert_relationship c r db = Inr db'"
  by (auto simp: stage_relationship_def target_conflict_def rbind_eq_Inr split: if_splits)

lemma publish_relationship_Inr: "publish_relationship c r db = Inr db' \<Longrightarrow> insert_relationship c r db = Inr db'"
  by (auto simp: publish_relationship_def target_conflict_def rbind_eq_Inr split: if_splits)

lemma insert_job_Inr:
  assumes "insert_job jid c hash db = Inr db'"
  obtains u h where "ddb_uuid db jid = Some u" "char64 hash = Some h"
    "u \<notin> set (map jrow_id (ddb_jobs db))" "find (request_job c) (ddb_jobs db) = None"
    "(command_key c, ing_source_version c) \<in> set (map version_key (ddb_versions db))"
    "db' = db\<lparr>ddb_jobs := ddb_jobs db @
         [\<lparr>jrow_id = u, jrow_key = command_key c, jrow_version = ing_source_version c,
           jrow_idempotency_key = ing_idempotency_key c, jrow_payload_hash = h,
           jrow_status = JOB_STAGED, jrow_attempts = 0, jrow_error_code = None,
           jrow_error_message = None\<rparr>]\<rparr>"
  using assms
  by (auto simp: insert_job_def rbind_eq_Inr list_ex_version_of find_None_list_ex split: if_splits)

text \<open>The rows of a list of chunks and of a list of relationships.\<close>

definition chunk_rows_of ::
    "(mapping \<Rightarrow> mapping option) \<Rightarrow> ingestion_command \<Rightarrow> (nat \<times> document_chunk) list \<Rightarrow> chunk_row list \<Rightarrow> bool" where
  "chunk_rows_of jsonb c = list_all2 (\<lambda>(i, chunk) r. \<exists>m. jsonb (chunk_metadata chunk) = Some m \<and>
     r = chunk_row_of c i chunk m)"

definition relationship_rows_of ::
    "(mapping \<Rightarrow> mapping option) \<Rightarrow> ingestion_command \<Rightarrow> graph_relationship list \<Rightarrow> relationship_row list \<Rightarrow> bool" where
  "relationship_rows_of jsonb c = list_all2 (\<lambda>r row. \<exists>m. jsonb (rel_metadata r) = Some m \<and>
     row = relationship_of_command c r m)"

lemma insert_chunks_Inr:
  assumes "rfold (insert_chunk c) items db = Inr db'"
  obtains rows where "db' = db\<lparr>ddb_chunks := ddb_chunks db @ rows\<rparr>" "chunk_rows_of (ddb_jsonb db) c items rows"
  using assms
proof (induction items arbitrary: db thesis)
  case Nil
  then show ?case by (force simp: chunk_rows_of_def)
next
  case (Cons item items)
  obtain i chunk where item: "item = (i, chunk)" by (cases item)
  from Cons.prems(2) item obtain db1 where 1: "insert_chunk c (i, chunk) db = Inr db1"
    and 2: "rfold (insert_chunk c) items db1 = Inr db'" by (auto simp: rbind_eq_Inr)
  from 1 obtain m where m: "ddb_jsonb db (chunk_metadata chunk) = Some m"
    "db1 = db\<lparr>ddb_chunks := ddb_chunks db @ [chunk_row_of c i chunk m]\<rparr>" by (elim insert_chunk_Inr)
  from Cons.IH [OF _ 2] obtain rows where rows: "db' = db1\<lparr>ddb_chunks := ddb_chunks db1 @ rows\<rparr>"
    "chunk_rows_of (ddb_jsonb db1) c items rows" by blast
  show ?case
    by (rule Cons.prems(1) [of "chunk_row_of c i chunk m # rows"])
      (use rows m item in \<open>simp_all add: chunk_rows_of_def\<close>)
qed

lemma insert_relationships_Inr:
  assumes "rfold f rs db = Inr db'" "\<And>r db db'. f r db = Inr db' \<Longrightarrow> insert_relationship c r db = Inr db'"
  obtains rows where "db' = db\<lparr>ddb_relationships := ddb_relationships db @ rows\<rparr>"
    "relationship_rows_of (ddb_jsonb db) c rs rows"
  using assms(1)
proof (induction rs arbitrary: db thesis)
  case Nil
  then show ?case by (force simp: relationship_rows_of_def)
next
  case (Cons r rs)
  from Cons.prems(2) obtain db1 where 1: "f r db = Inr db1" and 2: "rfold f rs db1 = Inr db'"
    by (auto simp: rbind_eq_Inr)
  from assms(2) [OF 1] obtain m where m: "ddb_jsonb db (rel_metadata r) = Some m"
    "db1 = db\<lparr>ddb_relationships := ddb_relationships db @ [relationship_of_command c r m]\<rparr>"
    by (elim insert_relationship_Inr)
  from Cons.IH [OF _ 2] obtain rows where rows: "db' = db1\<lparr>ddb_relationships := ddb_relationships db1 @ rows\<rparr>"
    "relationship_rows_of (ddb_jsonb db1) c rs rows" by blast
  show ?case
    by (rule Cons.prems(1) [of "relationship_of_command c r m # rows"])
      (use rows m in \<open>simp_all add: relationship_rows_of_def\<close>)
qed

lemma insert_content_Inr:
  assumes "insert_content c hash db = Inr db'"
  obtains m h ks rs where "ddb_jsonb db (ing_metadata c) = Some m" "char64 hash = Some h"
    "chunk_rows_of (ddb_jsonb db) c (enumerate 0 (ing_chunks c)) ks"
    "relationship_rows_of (ddb_jsonb db) c (ing_relationships c) rs"
    "db' = db\<lparr>ddb_versions := ddb_versions db @
         [\<lparr>vrow_key = command_key c, vrow_version = ing_source_version c, vrow_uri = ing_source_uri c,
           vrow_payload_hash = h, vrow_metadata = m\<rparr>],
       ddb_chunks := ddb_chunks db @ ks, ddb_relationships := ddb_relationships db @ rs\<rparr>"
proof -
  from assms obtain db1 db2 where 1: "insert_version c hash db = Inr db1"
    and 2: "rfold (insert_chunk c) (enumerate 0 (ing_chunks c)) db1 = Inr db2"
    and 3: "rfold (stage_relationship c) (ing_relationships c) db2 = Inr db'"
    by (auto simp: insert_content_def rbind_eq_Inr)
  from 1 obtain m h where v: "ddb_jsonb db (ing_metadata c) = Some m" "char64 hash = Some h"
    "db1 = db\<lparr>ddb_versions := ddb_versions db @
         [\<lparr>vrow_key = command_key c, vrow_version = ing_source_version c, vrow_uri = ing_source_uri c,
           vrow_payload_hash = h, vrow_metadata = m\<rparr>]\<rparr>" by (elim insert_version_Inr)
  from 2 obtain ks where k: "db2 = db1\<lparr>ddb_chunks := ddb_chunks db1 @ ks\<rparr>"
    "chunk_rows_of (ddb_jsonb db1) c (enumerate 0 (ing_chunks c)) ks" by (rule insert_chunks_Inr)
  from 3 obtain rs where r: "db' = db2\<lparr>ddb_relationships := ddb_relationships db2 @ rs\<rparr>"
    "relationship_rows_of (ddb_jsonb db2) c (ing_relationships c) rs"
    by (rule insert_relationships_Inr) (rule stage_relationship_Inr)
  show ?thesis by (rule that [OF v(1,2), of ks rs]) (use v(3) k r in simp_all)
qed

section \<open>The insertions keep the integrity\<close>

lemma insert_version_ok:
  assumes "insert_version c hash db = Inr db'" "documents_ok db"
    "find (version_of (command_key c) (ing_source_version c)) (ddb_versions db) = None"
  shows "documents_ok db'"
proof -
  from assms(3) have "(command_key c, ing_source_version c) \<notin> set (map version_key (ddb_versions db))"
    by (auto simp: find_None_iff version_of_def version_key_def)
  with assms(1,2) show ?thesis
    by (auto elim!: insert_version_Inr simp: documents_ok_def version_key_def)
qed

lemma insert_chunk_ok:
  assumes "insert_chunk c item db = Inr db'" "documents_ok db"
  shows "documents_ok db'"
proof -
  obtain i chunk where "item = (i, chunk)" by (cases item)
  with assms(1) obtain m where m: "db' = db\<lparr>ddb_chunks := ddb_chunks db @ [chunk_row_of c i chunk m]\<rparr>"
    "chunk_key (chunk_row_of c i chunk m) \<notin> set (map chunk_key (ddb_chunks db))"
    "(command_key c, ing_source_version c) \<in> set (map version_key (ddb_versions db))"
    by (auto elim: insert_chunk_Inr)
  then show ?thesis
    using assms(2) anchored_mono [of "ddb_chunks db" _ "ddb_chunks db @ [chunk_row_of c i chunk m]"]
    by (auto simp: documents_ok_def chunk_row_of_def)
qed

lemma insert_relationship_ok:
  assumes "insert_relationship c r db = Inr db'" "documents_ok db"
  shows "documents_ok db'"
  using assms by (auto elim!: insert_relationship_Inr simp: documents_ok_def)

lemma insert_content_ok:
  assumes "insert_content c hash db = Inr db'" "documents_ok db"
    "find (version_of (command_key c) (ing_source_version c)) (ddb_versions db) = None"
  shows "documents_ok db'"
proof -
  from assms(1) obtain db1 db2 where 1: "insert_version c hash db = Inr db1"
    and 2: "rfold (insert_chunk c) (enumerate 0 (ing_chunks c)) db1 = Inr db2"
    and 3: "rfold (stage_relationship c) (ing_relationships c) db2 = Inr db'"
    by (auto simp: insert_content_def rbind_eq_Inr)
  from 1 assms(2,3) have "documents_ok db1" by (rule insert_version_ok)
  then have "documents_ok db2"
    by (rule rfold_invariant [where P = documents_ok, OF 2]) (rule insert_chunk_ok)
  then show ?thesis
    by (rule rfold_invariant [where P = documents_ok, OF 3])
      (blast intro: insert_relationship_ok dest: stage_relationship_Inr)
qed

lemma insert_job_ok:
  assumes "insert_job jid c hash db = Inr db'" "documents_ok db"
  shows "documents_ok db'"
proof -
  from assms(1) obtain u h where j: "u \<notin> set (map jrow_id (ddb_jobs db))" "find (request_job c) (ddb_jobs db) = None"
    "(command_key c, ing_source_version c) \<in> set (map version_key (ddb_versions db))"
    "db' = db\<lparr>ddb_jobs := ddb_jobs db @
         [\<lparr>jrow_id = u, jrow_key = command_key c, jrow_version = ing_source_version c,
           jrow_idempotency_key = ing_idempotency_key c, jrow_payload_hash = h,
           jrow_status = JOB_STAGED, jrow_attempts = 0, jrow_error_code = None,
           jrow_error_message = None\<rparr>]\<rparr>" by (elim insert_job_Inr)
  have fresh: "(ing_tenant_id c, ing_domain c, ing_idempotency_key c) \<notin> set (map job_request (ddb_jobs db))"
    using j(2) by (auto simp: find_None_iff request_job_def job_request_def)
  show ?thesis
    using assms(2) j fresh
    by (auto simp: documents_ok_def job_request_def command_key_def intro: source_indexed_append)
qed

section \<open>Transactions\<close>

lemma transaction_cases:
  assumes "transaction keep msg body db = (r, db')"
  obtains e where "r = Inl e" "db' = db" | x where "r = Inr x" "ddb_up db" "body db = Inr (x, db')"
  using assms by (auto simp: transaction_def or_unavailable_def split: sum.splits if_splits)

lemma transaction_Inr: "transaction keep msg body db = (Inr x, db') \<longleftrightarrow> ddb_up db \<and> body db = Inr (x, db')"
  by (auto simp: transaction_def or_unavailable_def split: sum.splits if_splits)

lemma transaction_Inl: "transaction keep msg body db = (Inl e, db') \<Longrightarrow> db' = db"
  by (auto simp: transaction_def or_unavailable_def split: sum.splits if_splits)

lemma transaction_then_cases:
  assumes "sbind (transaction keep msg body) k db = (r, db')" "\<And>x s. snd (k x s) = s"
  obtains "db' = db" | x where "body db = Inr (x, db')"
proof (cases "transaction keep msg body db")
  case (Pair out db1)
  from Pair show ?thesis
  proof (rule transaction_cases)
    fix x assume "out = Inr x" "body db = Inr (x, db1)"
    moreover from this(1) Pair assms(1) have "k x db1 = (r, db')" by simp
    with assms(2) [of x db1] have "db1 = db'" by simp
    ultimately show ?thesis using that(2) by blast
  qed (use Pair assms(1) that(1) in simp)
qed

lemma stage_cases:
  assumes "stage jid c hash db = (r, db')"
  obtains "db' = db"
  | db1 j where "find (request_job c) (ddb_jobs db) = None" "jid = Inr j"
      "find (version_of (command_key c) (ing_source_version c)) (ddb_versions db) = None"
      "insert_content c hash db = Inr db1" "insert_job j c hash db1 = Inr db'"
  | v j where "find (request_job c) (ddb_jobs db) = None" "jid = Inr j"
      "find (version_of (command_key c) (ing_source_version c)) (ddb_versions db) = Some v"
      "vrow_payload_hash v = hash" "insert_job j c hash db = Inr db'"
  using assms unfolding stage_def
proof (rule transaction_then_cases)
  fix x assume "stage_body jid c hash db = Inr (x, db')"
  with that show ?thesis
    by (auto simp: stage_body_def rbind_eq_Inr Let_def split: option.splits if_splits)
qed (auto simp: sreturn_def slift_def split: sum.split)

section \<open>Runs\<close>

datatype document_call =
    Stage "string result" ingestion_command string
  | Mark_Indexing string
  | Mark_Indexed string
  | Mark_Failed string string string
  | Replace_Relationships ingestion_command
  | Delete_Source string string string
  | Start_Import dataset_import_request
  | Update_Import string dataset_import_status int int int
  | Fail_Import string string string

fun after_document_call :: "document_call \<Rightarrow> document_db \<Rightarrow> document_db" where
  "after_document_call (Stage jid c hash) db = snd (stage jid c hash db)"
| "after_document_call (Mark_Indexing jid) db = snd (mark_indexing jid db)"
| "after_document_call (Mark_Indexed jid) db = snd (mark_indexed jid db)"
| "after_document_call (Mark_Failed jid code message) db = snd (mark_failed jid code message db)"
| "after_document_call (Replace_Relationships c) db = snd (replace_relationships c db)"
| "after_document_call (Delete_Source d t s) db = snd (delete_source d t s db)"
| "after_document_call (Start_Import q) db = snd (start_import q db)"
| "after_document_call (Update_Import i st x y z) db = snd (update_import i st x y z db)"
| "after_document_call (Fail_Import i code message) db = snd (fail_import i code message db)"

inductive documents_reach :: "document_db \<Rightarrow> document_db \<Rightarrow> bool" for db0 where
  documents_start: "documents_reach db0 db0"
| documents_call: "documents_reach db0 db \<Longrightarrow> documents_reach db0 (after_document_call c db)"
| documents_outage: "documents_reach db0 db \<Longrightarrow> documents_reach db0 (db\<lparr>ddb_up := up\<rparr>)"

text \<open>What a call does to the tables: every method but \<open>stage\<close> touches two tables at most.\<close>

definition job_evolves :: "job_row \<Rightarrow> job_row \<Rightarrow> bool" where
  "job_evolves j j' \<longleftrightarrow> jrow_id j' = jrow_id j \<and> jrow_key j' = jrow_key j \<and> jrow_version j' = jrow_version j \<and>
     jrow_idempotency_key j' = jrow_idempotency_key j \<and> jrow_payload_hash j' = jrow_payload_hash j \<and>
     jrow_attempts j \<le> jrow_attempts j' \<and> (jrow_status j = JOB_INDEXED \<longrightarrow> j' = j)"

inductive document_step :: "document_db \<Rightarrow> document_db \<Rightarrow> bool" where
  step_none: "document_step db db"
| step_version: "find (request_job c) (ddb_jobs db) = None \<Longrightarrow>
    find (version_of (command_key c) (ing_source_version c)) (ddb_versions db) = None \<Longrightarrow>
    insert_content c hash db = Inr db1 \<Longrightarrow> insert_job j c hash db1 = Inr db' \<Longrightarrow> document_step db db'"
| step_job: "insert_job j c hash db = Inr db' \<Longrightarrow> document_step db db'"
| step_jobs: "(\<And>j. P j \<Longrightarrow> jrow_status j \<noteq> JOB_INDEXED \<and> jrow_status (f j) \<noteq> JOB_INDEXED \<and> job_evolves j (f j)) \<Longrightarrow>
    document_step db (db\<lparr>ddb_jobs := map (\<lambda>j. if P j then f j else j) (ddb_jobs db)\<rparr>)"
| step_indexed: "find (job_in u [JOB_INDEXING]) (ddb_jobs db) = Some j \<Longrightarrow>
    document_step db (db\<lparr>ddb_jobs := map (\<lambda>x. if job_in u [JOB_INDEXING] x then x\<lparr>jrow_status := JOB_INDEXED\<rparr> else x)
        (ddb_jobs db),
      ddb_sources := put_source \<lparr>srow_key = jrow_key j, srow_version = jrow_version j, srow_job_id = u\<rparr>
        (ddb_sources db)\<rparr>)"
| step_relationships: "db1 = db\<lparr>ddb_relationships := filter Q (ddb_relationships db)\<rparr> \<Longrightarrow>
    rfold (publish_relationship c) rs db1 = Inr db' \<Longrightarrow> document_step db db'"
| step_delete: "document_step db (db\<lparr>ddb_relationships := filter Q (ddb_relationships db),
    ddb_sources := filter R (ddb_sources db)\<rparr>)"
| step_imports: "document_step db (db\<lparr>ddb_imports := rows\<rparr>)"

lemma transition_cases:
  assumes "transition msg update db = (r, db')"
  obtains "db' = db" | n where "update db = Inr (n, db')"
  using assms unfolding transition_def
  by (rule transaction_cases) (auto simp: rbind_eq_Inr split: if_splits)

lemma stage_step: "stage jid c hash db = (r, db') \<Longrightarrow> document_step db db'"
  by (erule stage_cases) (blast intro: document_step.intros)+

lemma indexing_step: "mark_indexing jid db = (r, db') \<Longrightarrow> document_step db db'"
  unfolding mark_indexing_def
  by (erule transition_cases)
    (auto simp: rbind_eq_Inr Let_def update_jobs_def job_in_def indexing_row_def job_evolves_def
      intro!: step_none step_jobs split: if_splits)

lemma failed_step: "mark_failed jid code message db = (r, db') \<Longrightarrow> document_step db db'"
  unfolding mark_failed_def
  by (erule transition_cases)
    (auto simp: rbind_eq_Inr Let_def update_jobs_def job_in_def failed_job_row_def job_evolves_def
      intro!: step_none step_jobs split: if_splits)

lemma indexed_step: "mark_indexed jid db = (r, db') \<Longrightarrow> document_step db db'"
  unfolding mark_indexed_def
  by (erule transaction_cases)
    (auto simp: rbind_eq_Inr intro: step_none step_indexed split: option.splits)

lemma replace_step: "replace_relationships c db = (r, db') \<Longrightarrow> document_step db db'"
  unfolding replace_relationships_def
  by (erule transaction_cases)
    (auto simp: rbind_eq_Inr intro: step_none step_relationships [OF refl] split: if_splits)

lemma source_deletion_step: "delete_source d t s db = (r, db') \<Longrightarrow> document_step db db'"
  unfolding delete_source_def
  by (erule transaction_cases) (auto simp: rbind_eq_Inr intro: step_none step_delete)

lemma import_steps:
  "update_import i st x y z db = (r, db') \<Longrightarrow> document_step db db'"
  "fail_import i code message db = (r, db') \<Longrightarrow> document_step db db'"
  unfolding update_import_def fail_import_def
  by (erule transition_cases;
      auto simp: rbind_eq_Inr update_imports_def Let_def intro: step_none step_imports split: if_splits)+

lemma start_import_step: "start_import q db = (r, db') \<Longrightarrow> document_step db db'"
  unfolding start_import_def
  by (erule transaction_then_cases)
    (auto simp: sreturn_def slift_def rbind_eq_Inr Let_def intro: step_none step_imports
      split: option.splits if_splits)

lemma document_call_step: "document_step db (after_document_call c db)"
proof (cases c)
  case (Stage jid c hash)
  then show ?thesis using stage_step [OF surjective_pairing] by simp
next
  case (Mark_Indexing jid)
  then show ?thesis using indexing_step [OF surjective_pairing] by simp
next
  case (Mark_Indexed jid)
  then show ?thesis using indexed_step [OF surjective_pairing] by simp
next
  case (Mark_Failed jid code message)
  then show ?thesis using failed_step [OF surjective_pairing] by simp
next
  case (Replace_Relationships c)
  then show ?thesis using replace_step [OF surjective_pairing] by simp
next
  case (Delete_Source d t s)
  then show ?thesis using source_deletion_step [OF surjective_pairing] by simp
next
  case (Start_Import q)
  then show ?thesis using start_import_step [OF surjective_pairing] by simp
next
  case (Update_Import i st x y z)
  then show ?thesis using import_steps(1) [OF surjective_pairing] by simp
next
  case (Fail_Import i code message)
  then show ?thesis using import_steps(2) [OF surjective_pairing] by simp
qed

section \<open>The tables keep their integrity\<close>

lemma jobs_mapped_ok:
  assumes "documents_ok db"
    and f: "\<And>j. j \<in> set (ddb_jobs db) \<Longrightarrow> P j \<Longrightarrow> jrow_id (f j) = jrow_id j \<and> jrow_key (f j) = jrow_key j \<and>
      jrow_version (f j) = jrow_version j \<and> jrow_idempotency_key (f j) = jrow_idempotency_key j \<and>
      jrow_status j \<noteq> JOB_INDEXED"
  shows "documents_ok (db\<lparr>ddb_jobs := map (\<lambda>j. if P j then f j else j) (ddb_jobs db)\<rparr>)"
proof -
  let ?g = "\<lambda>j. if P j then f j else j"
  have same: "map h (map ?g (ddb_jobs db)) = map h (ddb_jobs db)"
    if "\<And>j. j \<in> set (ddb_jobs db) \<Longrightarrow> P j \<Longrightarrow> h (f j) = h j" for h :: "job_row \<Rightarrow> 'b"
    using that by simp
  have "map jrow_id (map ?g (ddb_jobs db)) = map jrow_id (ddb_jobs db)"
    "map job_request (map ?g (ddb_jobs db)) = map job_request (ddb_jobs db)"
    "map (\<lambda>j. (jrow_key j, jrow_version j)) (map ?g (ddb_jobs db)) = map (\<lambda>j. (jrow_key j, jrow_version j)) (ddb_jobs db)"
    using f by (intro same; simp add: job_request_def)+
  moreover have "source_indexed (map ?g (ddb_jobs db)) r" if "source_indexed (ddb_jobs db) r" for r
  proof -
    from that obtain j where j: "j \<in> set (ddb_jobs db)" "jrow_id j = srow_job_id r" "jrow_key j = srow_key r"
      "jrow_version j = srow_version r" "jrow_status j = JOB_INDEXED" by (auto simp: source_indexed_def list_ex_iff)
    with f have "?g j = j" by auto
    have "?g j \<in> set (map ?g (ddb_jobs db))" using j(1) by simp
    then have "j \<in> set (map ?g (ddb_jobs db))" by (simp only: \<open>?g j = j\<close>)
    with j(2-5) show ?thesis unfolding source_indexed_def list_ex_iff by blast
  qed
  moreover have "(jrow_key j, jrow_version j) \<in> set (map version_key (ddb_versions db))"
    if "j \<in> set (map ?g (ddb_jobs db))" for j
    using that f documents_okD(9) [OF assms(1)] by (auto split: if_splits)
  ultimately show ?thesis
    using assms(1) unfolding documents_ok_def by (simp del: map_map set_map)
qed

lemma put_source_keys: "distinct (map srow_key rows) \<Longrightarrow> distinct (map srow_key (put_source row rows))"
proof -
  assume d: "distinct (map srow_key rows)"
  have "map srow_key (map (\<lambda>r. if srow_key r = srow_key row then row else r) rows) = map srow_key rows"
    by (simp add: map_if_same)
  with d show ?thesis by (auto simp: put_source_def list_ex_iff simp del: map_map)
qed

lemma put_source_mem: "r \<in> set (put_source row rows) \<Longrightarrow> r = row \<or> r \<in> set rows"
  by (auto simp: put_source_def split: if_splits)

lemma indexed_ok:
  assumes ok: "documents_ok db" and j: "find (job_in u [JOB_INDEXING]) (ddb_jobs db) = Some j"
  shows "documents_ok (db\<lparr>ddb_jobs := map (\<lambda>x. if job_in u [JOB_INDEXING] x then x\<lparr>jrow_status := JOB_INDEXED\<rparr> else x)
        (ddb_jobs db),
      ddb_sources := put_source \<lparr>srow_key = jrow_key j, srow_version = jrow_version j, srow_job_id = u\<rparr>
        (ddb_sources db)\<rparr>)"
proof -
  let ?jobs = "map (\<lambda>x. if job_in u [JOB_INDEXING] x then x\<lparr>jrow_status := JOB_INDEXED\<rparr> else x) (ddb_jobs db)"
  let ?row = "\<lparr>srow_key = jrow_key j, srow_version = jrow_version j, srow_job_id = u\<rparr>"
  have ok1: "documents_ok (db\<lparr>ddb_jobs := ?jobs\<rparr>)"
    by (rule jobs_mapped_ok [OF ok]) (simp add: job_in_def)
  from find_member [OF j] have "j\<lparr>jrow_status := JOB_INDEXED\<rparr> \<in> set ?jobs" "jrow_id j = u"
    by (auto simp: job_in_def intro!: image_eqI [of _ _ j])
  then have row: "source_indexed ?jobs ?row"
    unfolding source_indexed_def list_ex_iff by (intro bexI [of _ "j\<lparr>jrow_status := JOB_INDEXED\<rparr>"]) simp_all
  have "source_indexed ?jobs r" if "r \<in> set (ddb_sources db)" for r
    using documents_okD(10) [OF ok1, of r] that by simp
  with row have "\<forall>r\<in>set (put_source ?row (ddb_sources db)). source_indexed ?jobs r"
    using put_source_mem [of _ ?row "ddb_sources db"] by blast
  moreover have "distinct (map srow_key (put_source ?row (ddb_sources db)))"
    by (rule put_source_keys [OF documents_okD(6) [OF ok]])
  ultimately show ?thesis using ok1 unfolding documents_ok_def by (simp del: map_map set_map)
qed

lemma publish_ok:
  assumes "documents_ok db" "rfold (publish_relationship c) rs db = Inr db'"
  shows "documents_ok db'"
  by (rule rfold_invariant [where P = documents_ok, OF assms(2,1)])
    (blast intro: insert_relationship_ok dest: publish_relationship_Inr)

lemma filtered_ok:
  "documents_ok db \<Longrightarrow> documents_ok (db\<lparr>ddb_relationships := filter Q (ddb_relationships db)\<rparr>)"
  "documents_ok db \<Longrightarrow> documents_ok (db\<lparr>ddb_relationships := filter Q (ddb_relationships db),
     ddb_sources := filter R (ddb_sources db)\<rparr>)"
  by (auto simp: documents_ok_def distinct_map_filter)

lemma document_step_ok:
  assumes "document_step db db'" "documents_ok db"
  shows "documents_ok db'"
  using assms
proof cases
  case (step_version c hash db1 j)
  with assms(2) show ?thesis by (blast intro: insert_content_ok insert_job_ok)
next
  case (step_job j c hash)
  with assms(2) show ?thesis by (blast intro: insert_job_ok)
next
  case (step_jobs P f)
  show ?thesis unfolding step_jobs(1)
    by (rule jobs_mapped_ok [OF assms(2)]) (use step_jobs(2) in \<open>auto simp: job_evolves_def\<close>)
next
  case (step_indexed u j)
  with assms(2) show ?thesis by (simp add: indexed_ok)
next
  case (step_relationships db1 Q c rs)
  with assms(2) show ?thesis using publish_ok filtered_ok(1) by blast
next
  case (step_delete Q R)
  with assms(2) show ?thesis by (simp add: filtered_ok)
next
  case (step_imports rows)
  with assms(2) show ?thesis by (simp add: documents_ok_def)
qed simp

lemma documents_reach_ok: "documents_reach db0 db \<Longrightarrow> documents_ok db0 \<Longrightarrow> documents_ok db"
proof (induction rule: documents_reach.induct)
  case (documents_call db c)
  then show ?case using document_step_ok [OF document_call_step] by blast
next
  case (documents_outage db up)
  then show ?case by (simp add: documents_ok_def)
qed

section \<open>What is staged stays\<close>

text \<open>Versions and chunks are only added, and the chunks of a version with the version.\<close>

definition content_kept :: "document_db \<Rightarrow> document_db \<Rightarrow> bool" where
  "content_kept db db' \<longleftrightarrow>
     (\<exists>vs ks. ddb_versions db' = ddb_versions db @ vs \<and> ddb_chunks db' = ddb_chunks db @ ks \<and>
        (\<forall>r\<in>set ks. (krow_key r, krow_version r) \<notin> set (map version_key (ddb_versions db)))) \<and>
     grown job_evolves (ddb_jobs db) (ddb_jobs db') \<and>
     ddb_jsonb db' = ddb_jsonb db \<and> ddb_uuid db' = ddb_uuid db"

lemma job_evolves_refl [simp]: "job_evolves j j"
  by (simp add: job_evolves_def)

lemma job_evolves_trans: "job_evolves x y \<Longrightarrow> job_evolves y z \<Longrightarrow> job_evolves x z"
  by (auto simp: job_evolves_def)

lemma content_kept_same:
  "ddb_versions db' = ddb_versions db \<Longrightarrow> ddb_chunks db' = ddb_chunks db \<Longrightarrow> ddb_jsonb db' = ddb_jsonb db \<Longrightarrow>
   ddb_uuid db' = ddb_uuid db \<Longrightarrow> grown job_evolves (ddb_jobs db) (ddb_jobs db') \<Longrightarrow> content_kept db db'"
  by (simp add: content_kept_def)

lemma content_kept_refl: "content_kept db db"
  by (simp add: content_kept_same grown_refl)

lemma content_kept_trans:
  assumes "content_kept x y" "content_kept y z"
  shows "content_kept x z"
proof -
  obtain vs ks where y: "ddb_versions y = ddb_versions x @ vs" "ddb_chunks y = ddb_chunks x @ ks"
    "\<forall>r\<in>set ks. (krow_key r, krow_version r) \<notin> set (map version_key (ddb_versions x))"
    using assms(1) by (auto simp: content_kept_def)
  obtain vs' ks' where z: "ddb_versions z = ddb_versions y @ vs'" "ddb_chunks z = ddb_chunks y @ ks'"
    "\<forall>r\<in>set ks'. (krow_key r, krow_version r) \<notin> set (map version_key (ddb_versions y))"
    using assms(2) by (auto simp: content_kept_def)
  have "\<forall>r\<in>set (ks @ ks'). (krow_key r, krow_version r) \<notin> set (map version_key (ddb_versions x))"
    using y z(3) by auto
  then have "\<exists>vs ks. ddb_versions z = ddb_versions x @ vs \<and> ddb_chunks z = ddb_chunks x @ ks \<and>
      (\<forall>r\<in>set ks. (krow_key r, krow_version r) \<notin> set (map version_key (ddb_versions x)))"
    using y z by (intro exI [of _ "vs @ vs'"] exI [of _ "ks @ ks'"]) simp
  moreover have "grown job_evolves (ddb_jobs x) (ddb_jobs z)"
    using assms by (auto simp: content_kept_def elim: grown_trans [OF _ _ job_evolves_trans])
  ultimately show ?thesis using assms by (simp add: content_kept_def)
qed

lemma chunk_rows_key:
  assumes "chunk_rows_of jsonb c items ks" "r \<in> set ks"
  shows "krow_key r = command_key c \<and> krow_version r = ing_source_version c"
  using assms unfolding chunk_rows_of_def
  by (induction rule: list_all2_induct) (auto simp: chunk_row_of_def)

lemma insert_content_kept:
  assumes "insert_content c hash db = Inr db'"
    "find (version_of (command_key c) (ing_source_version c)) (ddb_versions db) = None"
  shows "content_kept db db'"
proof -
  from assms(2) have fresh: "(command_key c, ing_source_version c) \<notin> set (map version_key (ddb_versions db))"
    by (simp add: find_None_list_ex list_ex_version_of)
  from assms(1) obtain m h ks rs where "chunk_rows_of (ddb_jsonb db) c (enumerate 0 (ing_chunks c)) ks"
    "db' = db\<lparr>ddb_versions := ddb_versions db @
         [\<lparr>vrow_key = command_key c, vrow_version = ing_source_version c, vrow_uri = ing_source_uri c,
           vrow_payload_hash = h, vrow_metadata = m\<rparr>],
       ddb_chunks := ddb_chunks db @ ks, ddb_relationships := ddb_relationships db @ rs\<rparr>"
    by (elim insert_content_Inr)
  with fresh show ?thesis by (auto simp: content_kept_def grown_refl dest: chunk_rows_key)
qed

lemma insert_job_kept: "insert_job j c hash db = Inr db' \<Longrightarrow> content_kept db db'"
  by (elim insert_job_Inr) (simp add: content_kept_same grown_append)

lemma document_step_kept:
  assumes "document_step db db'"
  shows "content_kept db db'"
  using assms
proof cases
  case (step_version c hash db1 j)
  then show ?thesis by (blast intro: content_kept_trans insert_content_kept insert_job_kept)
next
  case (step_job j c hash)
  then show ?thesis by (blast intro: insert_job_kept)
next
  case (step_jobs P f)
  then show ?thesis by (auto intro!: content_kept_same grown_map)
next
  case (step_indexed u j)
  then show ?thesis by (auto intro!: content_kept_same grown_map simp: job_in_def job_evolves_def)
next
  case (step_relationships db1 Q c rs)
  from step_relationships(2) obtain rows where "db' = db1\<lparr>ddb_relationships := ddb_relationships db1 @ rows\<rparr>"
    by (rule insert_relationships_Inr) (rule publish_relationship_Inr)
  with step_relationships(1) show ?thesis by (simp add: content_kept_same grown_refl)
qed (simp_all add: content_kept_same grown_refl)

lemma documents_reach_kept: "documents_reach db0 db \<Longrightarrow> content_kept db0 db"
proof (induction rule: documents_reach.induct)
  case documents_start
  show ?case by (rule content_kept_refl)
next
  case (documents_call db c)
  then show ?case using document_step_kept [OF document_call_step] by (blast intro: content_kept_trans)
next
  case (documents_outage db up)
  then show ?case by (simp add: content_kept_def)
qed

text \<open>So the content of a staged version never changes.\<close>

lemma content_kept_version:
  assumes "content_kept db db'" "documents_ok db" "(k, v) \<in> set (map version_key (ddb_versions db))"
  shows "version_chunks db' k v = version_chunks db k v \<and>
    find (version_of k v) (ddb_versions db') = find (version_of k v) (ddb_versions db)"
proof -
  from assms(1) obtain vs ks where e: "ddb_versions db' = ddb_versions db @ vs" "ddb_chunks db' = ddb_chunks db @ ks"
    "\<forall>r\<in>set ks. (krow_key r, krow_version r) \<notin> set (map version_key (ddb_versions db))"
    by (auto simp: content_kept_def)
  from e(3) assms(3) have "filter (\<lambda>r. krow_key r = k \<and> krow_version r = v) ks = []"
    by (auto simp: filter_empty_conv)
  moreover have "find P (xs @ ys) = (case find P xs of None \<Rightarrow> find P ys | Some x \<Rightarrow> Some x)"
    for P and xs ys :: "version_row list" by (induction xs) auto
  moreover have "find (version_of k v) (ddb_versions db) \<noteq> None"
    using assms(3) by (simp add: find_None_list_ex list_ex_version_of del: set_map)
  ultimately show ?thesis by (auto simp: version_chunks_def e(1,2))
qed

end
