(* ===== verification/Json.thy ===== *)
theory Json
  imports Values "HOL-Library.Multiset"
begin

text \<open>
  \<open>json.dumps(value, ensure_ascii=False, allow_nan=False, sort_keys=True, separators=...)\<close> of the values of
  the model. The text of a \<open>float\<close> is a parameter; a value outside JSON gives \<open>None\<close>, where the code
  sees \<open>TypeError\<close>.
\<close>

definition hex_digit :: "nat \<Rightarrow> char" where
  "hex_digit n = (if n < 10 then char_of (48 + n) else char_of (87 + n))"

definition json_char :: "char \<Rightarrow> string" where
  "json_char c =
     (if c = CHR 0x22 then [CHR 0x5C, CHR 0x22]
      else if c = CHR 0x5C then [CHR 0x5C, CHR 0x5C]
      else if c = CHR 0x08 then [CHR 0x5C, CHR 0x62]
      else if c = CHR 0x0C then [CHR 0x5C, CHR 0x66]
      else if c = CHR 0x0A then [CHR 0x5C, CHR 0x6E]
      else if c = CHR 0x0D then [CHR 0x5C, CHR 0x72]
      else if c = CHR 0x09 then [CHR 0x5C, CHR 0x74]
      else if of_char c < (32::nat)
      then [CHR 0x5C, CHR 0x75, CHR 0x30, CHR 0x30, hex_digit (of_char c div 16), hex_digit (of_char c mod 16)]
      else [c])"

definition json_string :: "string \<Rightarrow> string" where
  "json_string s = CHR 0x22 # concat (map json_char s) @ [CHR 0x22]"

text \<open>The separators between items and after a key, and the text of a float.\<close>

record json_format =
  item_separator :: string
  key_separator :: string
  float_text :: "rat \<Rightarrow> string"

definition json_member :: "json_format \<Rightarrow> string \<times> string \<Rightarrow> string" where
  "json_member fmt kv = json_string (fst kv) @ key_separator fmt @ snd kv"

text \<open>\<open>sort_keys\<close> orders the members of every object by their keys.\<close>

fun json_text :: "json_format \<Rightarrow> py \<Rightarrow> string option"
  and json_items :: "json_format \<Rightarrow> py list \<Rightarrow> string list option"
  and json_members :: "json_format \<Rightarrow> mapping \<Rightarrow> (string \<times> string) list option" where
  "json_text fmt PNone = Some ''null''"
| "json_text fmt (PBool b) = Some (if b then ''true'' else ''false'')"
| "json_text fmt (PInt i) = Some (str_int i)"
| "json_text fmt (PFloat q) = Some (float_text fmt q)"
| "json_text fmt (PStr s) = Some (json_string s)"
| "json_text fmt (PTuple xs) = map_option (\<lambda>ts. ''['' @ py_join (item_separator fmt) ts @ '']'') (json_items fmt xs)"
| "json_text fmt (PList xs) = map_option (\<lambda>ts. ''['' @ py_join (item_separator fmt) ts @ '']'') (json_items fmt xs)"
| "json_text fmt (PDict kvs) =
     map_option (\<lambda>ms. ''{'' @ py_join (item_separator fmt) (map (json_member fmt) (sort_key fst ms)) @ ''}'') (json_members fmt kvs)"
| "json_text fmt (POther s) = None"
| "json_items fmt [] = Some []"
| "json_items fmt (x # xs) =
     (case json_text fmt x of None \<Rightarrow> None | Some t \<Rightarrow> map_option ((#) t) (json_items fmt xs))"
| "json_members fmt [] = Some []"
| "json_members fmt ((k, v) # kvs) =
     (case json_text fmt v of None \<Rightarrow> None | Some t \<Rightarrow> map_option ((#) (k, t)) (json_members fmt kvs))"

text \<open>The canonical text that is hashed, and the text with the separators \<open>json\<close> uses by default.\<close>

definition canonical_json :: "(rat \<Rightarrow> string) \<Rightarrow> py \<Rightarrow> string option" where
  "canonical_json fl = json_text \<lparr>item_separator = '','', key_separator = '':'', float_text = fl\<rparr>"

definition default_json :: "(rat \<Rightarrow> string) \<Rightarrow> py \<Rightarrow> string option" where
  "default_json fl = json_text \<lparr>item_separator = '', '', key_separator = '': '', float_text = fl\<rparr>"

lemma json_members_Some:
  "json_members fmt kvs = Some ms \<longleftrightarrow> list_all2 (\<lambda>kv m. fst m = fst kv \<and> json_text fmt (snd kv) = Some (snd m)) kvs ms"
  by (induction kvs arbitrary: ms)
    (auto simp: list_all2_Cons1 split: option.splits)

lemma json_members_None: "json_members fmt kvs = None \<longleftrightarrow> (\<exists>kv\<in>set kvs. json_text fmt (snd kv) = None)"
  by (induction kvs) (auto split: option.splits)

lemma json_members_eq:
  "(\<forall>kv\<in>set kvs. json_text fmt (snd kv) \<noteq> None) \<Longrightarrow>
   json_members fmt kvs = Some (map (\<lambda>kv. (fst kv, the (json_text fmt (snd kv)))) kvs)"
  by (induction kvs) auto

lemma sort_key_unique:
  assumes "mset xs = mset ys" "distinct (map f xs)"
  shows "sort_key f xs = sort_key f ys"
proof -
  have "inj_on f (set xs)" using assms(2) by (simp add: distinct_map)
  with assms(1) show ?thesis by (intro sort_key_inj_key_eq) simp_all
qed

text \<open>The order of the keys of an object does not show in its text.\<close>

lemma json_text_order:
  assumes "mset kvs = mset kvs'" "distinct (map fst kvs)"
  shows "json_text fmt (PDict kvs) = json_text fmt (PDict kvs')"
proof (cases "json_members fmt kvs")
  case None
  moreover from this have "json_members fmt kvs' = None" by (simp only: json_members_None mset_eq_setD [OF assms(1)])
  ultimately show ?thesis by simp
next
  case (Some ms)
  let ?g = "map (\<lambda>kv. (fst kv, the (json_text fmt (snd kv))))"
  from Some have all: "\<forall>kv\<in>set kvs. json_text fmt (snd kv) \<noteq> None" using json_members_None by force
  with mset_eq_setD [OF assms(1)] have "\<forall>kv\<in>set kvs'. json_text fmt (snd kv) \<noteq> None" by blast
  from json_members_eq [OF all] json_members_eq [OF this]
  have m: "json_members fmt kvs = Some (?g kvs)" "json_members fmt kvs' = Some (?g kvs')" .
  have "map fst (?g kvs) = map fst kvs" by simp
  then have "sort_key fst (?g kvs) = sort_key fst (?g kvs')"
    using assms by (intro sort_key_unique) (simp_all del: map_map)
  with m show ?thesis by simp
qed

end
