(* ===== verification/Ingestion_Service.thy ===== *)
theory Ingestion_Service
  imports Ingestion_Store Json
begin

text \<open>
  \<open>application/ingestion.py\<close>: a document is staged in the repository, written to the vector index and
  only then made current. What the service relies on is the locale \<open>ingestion_laws\<close>, interpreted on
  the PostgreSQL repository; the vector index is any program that does not write the tables.
\<close>

record 'w ingestion_port =
  ir_stage :: "ingestion_command \<Rightarrow> string \<Rightarrow> ('w, py_exn, ingestion_job) prog"
  ir_load :: "string \<Rightarrow> ('w, py_exn, ingestion_job) prog"
  ir_load_for_tenant :: "string \<Rightarrow> string \<Rightarrow> ('w, py_exn, ingestion_job) prog"
  ir_mark_indexing :: "string \<Rightarrow> ('w, py_exn, unit) prog"
  ir_mark_indexed :: "string \<Rightarrow> ('w, py_exn, unit) prog"
  ir_mark_failed :: "string \<Rightarrow> string \<Rightarrow> string \<Rightarrow> ('w, py_exn, unit) prog"
  ir_replace_relationships :: "ingestion_command \<Rightarrow> ('w, py_exn, unit) prog"
  ir_delete_source :: "string \<Rightarrow> string \<Rightarrow> string \<Rightarrow> ('w, py_exn, unit) prog"
  ir_start_import :: "dataset_import_request \<Rightarrow> ('w, py_exn, dataset_import_run) prog"
  ir_load_import :: "string \<Rightarrow> string \<Rightarrow> ('w, py_exn, dataset_import_run) prog"
  ir_update_import :: "string \<Rightarrow> dataset_import_status \<Rightarrow> int \<Rightarrow> int \<Rightarrow> int \<Rightarrow> ('w, py_exn, unit) prog"
  ir_fail_import :: "string \<Rightarrow> string \<Rightarrow> string \<Rightarrow> ('w, py_exn, unit) prog"
  ir_consistency_counts :: "string \<Rightarrow> string \<Rightarrow> ('w, py_exn, consistency_row) prog"

text \<open>\<open>VectorIndexPort\<close>: the arguments of \<open>delete_source\<close> and \<open>count\<close> in the order of their keywords.\<close>

record 'w vector_index_port =
  vx_replace_source :: "ingestion_job \<Rightarrow> string \<Rightarrow> ('w, py_exn, unit) prog"
  vx_delete_source :: "string \<Rightarrow> string \<Rightarrow> string \<Rightarrow> string \<Rightarrow> ('w, py_exn, unit) prog"
  vx_count :: "string \<Rightarrow> string \<Rightarrow> string \<Rightarrow> ('w, py_exn, int) prog"

text \<open>\<open>hashlib.sha256(...).hexdigest()\<close> and the text \<open>json\<close> gives to a \<open>float\<close> are parameters.\<close>

record 'w document_ingestion_service =
  is_domain :: domain_profile
  is_repository :: "'w ingestion_port"
  is_vector_index :: "'w vector_index_port"
  is_sha256 :: "string \<Rightarrow> string"
  is_float_text :: "rat \<Rightarrow> string"

section \<open>The boundary of the domain\<close>

definition validation_as_violation :: "string \<Rightarrow> 'a result \<Rightarrow> 'a result" where
  "validation_as_violation message r =
     (case r of Inr x \<Rightarrow> Inr x
      | Inl e \<Rightarrow> if is_class ValidationError e then Inl (Known PolicyViolationError message) else Inl e)"

definition validate_document_security :: "security_model \<Rightarrow> document_security \<Rightarrow> unit result" where
  "validate_document_security model sec =
     (case model_kind model of
        NO_MODEL \<Rightarrow>
          if doc_clearance_label sec \<noteq> None \<or> doc_classification_labels sec \<noteq> []
          then Inl (Known PolicyViolationError ''Ingestion contains security metadata for disabled model'')
          else Inr ()
      | CLEARANCE_LEVEL \<Rightarrow>
          (case (model_clearance_level model, doc_clearance_label sec) of
             (Some m, Some label) \<Rightarrow>
               rbind (validation_as_violation ''Ingestion contains a forbidden clearance label''
                 (clearance_value m label ''chunk.security.clearance_label'')) (\<lambda>_.
                 if doc_classification_labels sec \<noteq> []
                 then Inl (Known PolicyViolationError ''Ingestion mixed security model metadata'')
                 else Inr ())
           | _ \<Rightarrow> Inl (Known PolicyViolationError ''Ingestion contains incomplete clearance metadata''))
      | CLASSIFICATION_LABELS \<Rightarrow>
          (case model_classification_labels model of
             None \<Rightarrow> Inl (Known PolicyViolationError ''Ingestion contains incomplete classification label model'')
           | Some m \<Rightarrow>
               rbind (validation_as_violation ''Ingestion contains a forbidden classification label''
                 (validate_labels m (doc_classification_labels sec) ''chunk.security.classification_labels'')) (\<lambda>_.
                 if doc_clearance_label sec \<noteq> None
                 then Inl (Known PolicyViolationError ''Ingestion mixed security model metadata'')
                 else Inr ())))"

fun verify_chunks :: "domain_profile \<Rightarrow> document_chunk list \<Rightarrow> unit result" where
  "verify_chunks domain [] = Inr ()"
| "verify_chunks domain (chunk # chunks) =
     (if \<not> set (chunk_acl_labels chunk) \<subseteq> set (domain_allowed_acl_labels domain)
      then Inl (Known PolicyViolationError ''Ingestion contains a forbidden ACL label'')
      else rbind (validate_document_security (domain_security_model domain) (chunk_security chunk))
             (\<lambda>_. verify_chunks domain chunks))"

definition verify_boundary :: "domain_profile \<Rightarrow> ingestion_command \<Rightarrow> unit result" where
  "verify_boundary domain c =
     (if ing_domain c \<noteq> domain_name domain \<or> ing_tenant_id c \<noteq> domain_tenant_id domain
      then Inl (Known PolicyViolationError ''Ingestion crossed a domain or tenant boundary'')
      else verify_chunks domain (ing_chunks c))"

section \<open>The hash of the payload\<close>

definition opt_py :: "string option \<Rightarrow> py" where
  "opt_py v = (case v of None \<Rightarrow> PNone | Some s \<Rightarrow> PStr s)"

definition security_payload :: "document_security \<Rightarrow> py" where
  "security_payload sec = PDict [(''clearance_label'', opt_py (doc_clearance_label sec)),
     (''classification_labels'', PList (map PStr (doc_classification_labels sec)))]"

definition chunk_payload :: "document_chunk \<Rightarrow> py" where
  "chunk_payload c = PDict [(''chunk_id'', PStr (chunk_id c)), (''text'', PStr (chunk_text c)),
     (''source_uri'', opt_py (chunk_source_uri c)), (''metadata'', PDict (chunk_metadata c)),
     (''acl_labels'', PList (map PStr (chunk_acl_labels c))),
     (''security'', security_payload (chunk_security c))]"

definition relationship_payload :: "graph_relationship \<Rightarrow> py" where
  "relationship_payload r = PDict [(''from_source_id'', PStr (node_source_id (rel_from_node r))),
     (''from_chunk_id'', PStr (node_chunk_id (rel_from_node r))),
     (''to_source_id'', PStr (node_source_id (rel_to_node r))),
     (''to_chunk_id'', PStr (node_chunk_id (rel_to_node r))),
     (''relationship_type'', PStr (rel_type r)), (''metadata'', PDict (rel_metadata r))]"

definition payload_of :: "ingestion_command \<Rightarrow> py" where
  "payload_of c = PDict [(''domain'', PStr (ing_domain c)), (''tenant_id'', PStr (ing_tenant_id c)),
     (''source_id'', PStr (ing_source_id c)), (''source_version'', PStr (ing_source_version c)),
     (''source_uri'', opt_py (ing_source_uri c)), (''metadata'', PDict (ing_metadata c)),
     (''chunks'', PList (map chunk_payload (sort_key chunk_id (ing_chunks c)))),
     (''relationships'', PList (map relationship_payload (sort_key relationship_key (ing_relationships c))))]"

definition payload_hash :: "'w document_ingestion_service \<Rightarrow> ingestion_command \<Rightarrow> string result" where
  "payload_hash svc c =
     (case canonical_json (is_float_text svc) (payload_of c) of
        None \<Rightarrow> Inl (Known ValidationError ''Ingestion metadata must be valid JSON'')
      | Some canonical \<Rightarrow> Inr (is_sha256 svc canonical))"

section \<open>The operations\<close>

definition indexed_result :: "ingestion_job \<Rightarrow> ingestion_result" where
  "indexed_result job =
     (let c = job_command job
      in \<lparr>ires_job_id = job_job_id job, ires_domain = ing_domain c, ires_tenant_id = ing_tenant_id c,
         ires_source_id = ing_source_id c, ires_source_version = ing_source_version c,
         ires_status = JOB_INDEXED, ires_chunk_count = int (length (ing_chunks c))\<rparr>)"

definition ingestion_result_of :: "ingestion_job \<Rightarrow> ingestion_result result" where
  "ingestion_result_of job = ingestion_result_post_init (indexed_result job)"

definition index_job :: "'w document_ingestion_service \<Rightarrow> ingestion_job \<Rightarrow> ('w, py_exn, unit) prog" where
  "index_job svc job =
     scatch (sthen (vx_replace_source (is_vector_index svc) job (domain_collection (is_domain svc)))
               (ir_mark_indexed (is_repository svc) (job_job_id job)))
       (\<lambda>e. sthen (ir_mark_failed (is_repository svc) (job_job_id job) (exn_code e)
                     (exn_message ''Unhandled vector indexing failure'' e))
                  (sraise e))"

definition process_job ::
    "'w document_ingestion_service \<Rightarrow> ingestion_job \<Rightarrow> ('w, py_exn, ingestion_result) prog" where
  "process_job svc job =
     (if job_status job = JOB_INDEXED then slift (ingestion_result_of job)
      else sthen (ir_mark_indexing (is_repository svc) (job_job_id job))
             (sthen (index_job svc job) (slift (ingestion_result_of job))))"

definition ingest ::
    "'w document_ingestion_service \<Rightarrow> ingestion_command \<Rightarrow> ('w, py_exn, ingestion_result) prog" where
  "ingest svc c =
     sthen (slift (verify_boundary (is_domain svc) c))
     (sbind (slift (payload_hash svc c)) (\<lambda>h.
      sbind (ir_stage (is_repository svc) c h) (process_job svc)))"

definition retry_ingestion ::
    "'w document_ingestion_service \<Rightarrow> string \<Rightarrow> ('w, py_exn, ingestion_result) prog" where
  "retry_ingestion svc job_id =
     sbind (ir_load (is_repository svc) job_id) (\<lambda>job.
     sthen (slift (verify_boundary (is_domain svc) (job_command job))) (process_job svc job))"

section \<open>What the service relies on\<close>

text \<open>
  \<open>find_job w i\<close> is the row of the job with the identifier \<open>i\<close>, and \<open>catalogue w\<close> the published
  version of every source. A method that raises changes neither; one that returns does what its name says.
\<close>

text \<open>The job object the service holds agrees with the row of the repository.\<close>

definition job_matches :: "job_row \<Rightarrow> ingestion_job \<Rightarrow> bool" where
  "job_matches row job \<longleftrightarrow> jrow_key row = command_key (job_command job) \<and>
     jrow_version row = ing_source_version (job_command job) \<and> jrow_status row = job_status job \<and>
     command_ok (job_command job) \<and> trimmed (job_job_id job)"

text \<open>An outcome that published the version it reports, or nothing.\<close>

definition publishes ::
    "('w \<Rightarrow> string \<Rightarrow> job_row option) \<Rightarrow> ('w \<Rightarrow> source_key \<Rightarrow> string option) \<Rightarrow> domain_profile \<Rightarrow>
     'w \<Rightarrow> ingestion_result result \<Rightarrow> 'w \<Rightarrow> bool" where
  "publishes find_job catalogue domain w r w' \<longleftrightarrow> (case r of
      Inr res \<Rightarrow> ires_domain res = domain_name domain \<and> ires_tenant_id res = domain_tenant_id domain \<and>
        (\<exists>row. find_job w' (ires_job_id res) = Some row \<and> jrow_status row = JOB_INDEXED \<and>
           jrow_key row = source_key_of (ires_tenant_id res) (ires_domain res) (ires_source_id res) \<and>
           jrow_version row = ires_source_version res \<and>
           catalogue w' \<in> {catalogue w, (catalogue w)(jrow_key row \<mapsto> jrow_version row)})
    | Inl e \<Rightarrow> catalogue w' = catalogue w)"

lemma publishes_Inl: "publishes find_job catalogue domain w (Inl e) w' \<longleftrightarrow> catalogue w' = catalogue w"
  by (simp add: publishes_def)

lemma ingestion_result_of_job: "job_matches row job \<Longrightarrow> ingestion_result_of job = Inr (indexed_result job)"
  by (auto simp: ingestion_result_of_def ingestion_result_post_init_def indexed_result_def Let_def job_matches_def
      command_ok_def int_one_le_iff_zero_less Suc_le_eq split: if_splits)

locale ingestion_laws =
  fixes repo :: "'w ingestion_port"
    and good :: "'w \<Rightarrow> bool"
    and find_job :: "'w \<Rightarrow> string \<Rightarrow> job_row option"
    and catalogue :: "'w \<Rightarrow> source_key \<Rightarrow> string option"
  assumes stage: "good w \<Longrightarrow> command_ok c \<Longrightarrow> ir_stage repo c h w = (r1, w') \<Longrightarrow>
      good w' \<and> catalogue w' = catalogue w \<and>
      (\<forall>job. r1 = Inr job \<longrightarrow> ing_tenant_id (job_command job) = ing_tenant_id c \<and>
         ing_domain (job_command job) = ing_domain c \<and>
         (\<exists>row. find_job w' (job_job_id job) = Some row \<and> job_matches row job))"
    and load: "good w \<Longrightarrow> ir_load repo i w = (Inr job, w') \<Longrightarrow>
      w' = w \<and> (\<exists>row. find_job w (job_job_id job) = Some row \<and> job_matches row job)"
    and load_failed: "good w \<Longrightarrow> ir_load repo i w = (Inl e, w') \<Longrightarrow> w' = w"
    and indexing: "good w \<Longrightarrow> ir_mark_indexing repo i w = (Inr (), w') \<Longrightarrow>
      good w' \<and> catalogue w' = catalogue w \<and>
      (\<exists>row. find_job w i = Some row \<and> find_job w' i = Some (indexing_row row))"
    and indexing_failed: "good w \<Longrightarrow> ir_mark_indexing repo i w = (Inl e, w') \<Longrightarrow> w' = w"
    and indexed: "good w \<Longrightarrow> ir_mark_indexed repo i w = (Inr (), w') \<Longrightarrow>
      good w' \<and> (\<exists>row. find_job w i = Some row \<and> find_job w' i = Some (row\<lparr>jrow_status := JOB_INDEXED\<rparr>) \<and>
        catalogue w' = (catalogue w)(jrow_key row \<mapsto> jrow_version row))"
    and indexed_failed: "good w \<Longrightarrow> ir_mark_indexed repo i w = (Inl e, w') \<Longrightarrow> w' = w"
    and failed: "good w \<Longrightarrow> ir_mark_failed repo i code msg w = (Inr (), w') \<Longrightarrow>
      good w' \<and> catalogue w' = catalogue w \<and>
      (\<exists>row. find_job w i = Some row \<and> find_job w' i = Some (failed_job_row code msg row))"
    and failed_failed: "good w \<Longrightarrow> ir_mark_failed repo i code msg w = (Inl e, w') \<Longrightarrow> w' = w"
begin

text \<open>The vector index keeps what the repository holds.\<close>

definition index_quiet :: "'w vector_index_port \<Rightarrow> bool" where
  "index_quiet vx \<longleftrightarrow> (\<forall>job coll w r w'. good w \<longrightarrow> vx_replace_source vx job coll w = (r, w') \<longrightarrow>
     good w' \<and> find_job w' = find_job w \<and> catalogue w' = catalogue w)"

lemma index_quietD:
  "index_quiet vx \<Longrightarrow> good w \<Longrightarrow> vx_replace_source vx job coll w = (r, w') \<Longrightarrow>
   good w' \<and> find_job w' = find_job w \<and> catalogue w' = catalogue w"
  unfolding index_quiet_def by blast

text \<open>Indexing publishes the version of the job, or records the failure and publishes nothing.\<close>

lemma index_job_result:
  assumes svc: "is_repository svc = repo" "index_quiet (is_vector_index svc)"
    and w: "good w" "find_job w (job_job_id job) = Some row" "index_job svc job w = (r, w')"
  shows "good w' \<and> (case r of
      Inr u \<Rightarrow> find_job w' (job_job_id job) = Some (row\<lparr>jrow_status := JOB_INDEXED\<rparr>) \<and>
        catalogue w' = (catalogue w)(jrow_key row \<mapsto> jrow_version row)
    | Inl e \<Rightarrow> catalogue w' = catalogue w \<and>
        find_job w' (job_job_id job) \<in> {Some row,
          Some (failed_job_row (exn_code e) (exn_message ''Unhandled vector indexing failure'' e) row)})"
proof -
  let ?i = "job_job_id job"
  obtain r1 w1 where vx: "vx_replace_source (is_vector_index svc) job (domain_collection (is_domain svc)) w = (r1, w1)"
    by (cases "vx_replace_source (is_vector_index svc) job (domain_collection (is_domain svc)) w")
  from index_quietD [OF svc(2) w(1) vx] have 1: "good w1" "find_job w1 = find_job w" "catalogue w1 = catalogue w"
    by blast+
  have fail: ?thesis if run: "sthen (ir_mark_failed repo ?i (exn_code e)
      (exn_message ''Unhandled vector indexing failure'' e)) (sraise e) w1 = (r, w')" for e
  proof (cases "ir_mark_failed repo ?i (exn_code e) (exn_message ''Unhandled vector indexing failure'' e) w1")
    case (Pair r2 w2)
    show ?thesis
    proof (cases r2)
      case (Inl e')
      with failed_failed [OF 1(1)] Pair have "w2 = w1" by blast
      with Inl Pair run 1 w(2) show ?thesis by (auto simp: sthen_def)
    next
      case (Inr u)
      with failed [OF 1(1)] Pair have "good w2" "catalogue w2 = catalogue w1"
        "\<exists>row. find_job w1 ?i = Some row \<and> find_job w2 ?i =
           Some (failed_job_row (exn_code e) (exn_message ''Unhandled vector indexing failure'' e) row)" by auto
      with Inr Pair run 1 w(2) show ?thesis by (auto simp: sthen_def sraise_def)
    qed
  qed
  show ?thesis
  proof (cases r1)
    case (Inl e)
    with w(3) vx svc(1) have "sthen (ir_mark_failed repo ?i (exn_code e)
      (exn_message ''Unhandled vector indexing failure'' e)) (sraise e) w1 = (r, w')"
      by (simp add: index_job_def scatch_def sthen_def)
    then show ?thesis by (rule fail)
  next
    case r1: (Inr u)
    obtain r2 w2 where mark: "ir_mark_indexed repo ?i w1 = (r2, w2)" by (cases "ir_mark_indexed repo ?i w1")
    show ?thesis
    proof (cases r2)
      case (Inl e)
      with mark indexed_failed [OF 1(1)] have "w2 = w1" by blast
      with w(3) vx svc(1) r1 Inl mark have "sthen (ir_mark_failed repo ?i (exn_code e)
        (exn_message ''Unhandled vector indexing failure'' e)) (sraise e) w1 = (r, w')"
        by (simp add: index_job_def scatch_def sthen_def sbind_def)
      then show ?thesis by (rule fail)
    next
      case (Inr v)
      with mark indexed [OF 1(1)] have "good w2" "\<exists>row. find_job w1 ?i = Some row \<and>
        find_job w2 ?i = Some (row\<lparr>jrow_status := JOB_INDEXED\<rparr>) \<and>
        catalogue w2 = (catalogue w1)(jrow_key row \<mapsto> jrow_version row)" by auto
      moreover from w(3) vx svc(1) r1 Inr mark have "r = Inr v" "w' = w2"
        by (simp_all add: index_job_def scatch_def sthen_def sbind_def)
      ultimately show ?thesis using 1 w(2) by auto
    qed
  qed
qed

text \<open>A finished job is answered again; any other is indexed, or fails with nothing published.\<close>

lemma process_result:
  assumes svc: "is_repository svc = repo" "index_quiet (is_vector_index svc)"
    and w: "good w" "find_job w (job_job_id job) = Some row" "job_matches row job"
    and run: "process_job svc job w = (r, w')"
  shows "good w' \<and> (case r of
      Inr res \<Rightarrow> res = indexed_result job \<and>
        (if job_status job = JOB_INDEXED then w' = w
         else find_job w' (job_job_id job) = Some ((indexing_row row)\<lparr>jrow_status := JOB_INDEXED\<rparr>) \<and>
           catalogue w' = (catalogue w)(jrow_key row \<mapsto> jrow_version row))
    | Inl e \<Rightarrow> catalogue w' = catalogue w \<and> job_status job \<noteq> JOB_INDEXED \<and>
        find_job w' (job_job_id job) \<in> {Some row, Some (indexing_row row),
          Some (failed_job_row (exn_code e) (exn_message ''Unhandled vector indexing failure'' e)
            (indexing_row row))})"
proof (cases "job_status job = JOB_INDEXED")
  case True
  with run ingestion_result_of_job [OF w(3)] have "r = Inr (indexed_result job)" "w' = w"
    by (simp_all add: process_job_def slift_def)
  with w True show ?thesis by simp
next
  case False
  obtain r1 w1 where mark: "ir_mark_indexing repo (job_job_id job) w = (r1, w1)"
    by (cases "ir_mark_indexing repo (job_job_id job) w")
  show ?thesis
  proof (cases r1)
    case (Inl e)
    with mark indexing_failed [OF w(1)] have "w1 = w" by blast
    with run False mark Inl svc(1) w show ?thesis by (auto simp: process_job_def sthen_def)
  next
    case (Inr u)
    with mark have "ir_mark_indexing repo (job_job_id job) w = (Inr (), w1)" by simp
    from indexing [OF w(1) this] w(2) have 1: "good w1" "catalogue w1 = catalogue w"
      "find_job w1 (job_job_id job) = Some (indexing_row row)" by auto
    obtain r2 w2 where go: "index_job svc job w1 = (r2, w2)" by (cases "index_job svc job w1")
    from run False mark Inr svc(1) go have "w' = w2"
      "r = (case r2 of Inl e \<Rightarrow> Inl e | Inr u \<Rightarrow> Inr (indexed_result job))"
      using ingestion_result_of_job [OF w(3)]
      by (auto simp: process_job_def sthen_def sbind_def slift_def split: sum.splits)
    with index_job_result [OF svc 1(1,3) go] 1(2) False show ?thesis
      by (auto simp: indexing_row_def split: sum.splits)
  qed
qed

text \<open>
  Ingesting or retrying publishes exactly one version, the one whose job it reports, or it raises and
  publishes nothing.
\<close>

lemma ingest_result:
  assumes svc: "is_repository svc = repo" "index_quiet (is_vector_index svc)"
    and w: "good w" "command_ok c" and run: "ingest svc c w = (r, w')"
  shows "good w' \<and> publishes find_job catalogue (is_domain svc) w r w'"
proof (cases "verify_boundary (is_domain svc) c")
  case (Inl e)
  with run w show ?thesis by (auto simp: ingest_def sthen_def sbind_def slift_def publishes_Inl)
next
  case ok: (Inr u)
  show ?thesis
  proof (cases "payload_hash svc c")
    case (Inl e)
    with run w ok show ?thesis by (auto simp: ingest_def sthen_def sbind_def slift_def publishes_Inl)
  next
    case h: (Inr h)
    obtain r1 w1 where st: "ir_stage repo c h w = (r1, w1)" by (cases "ir_stage repo c h w")
    note staged = stage [OF w st]
    show ?thesis
    proof (cases r1)
      case (Inl e)
      with run st ok h svc(1) staged show ?thesis
        by (auto simp: ingest_def sthen_def sbind_def slift_def publishes_Inl)
    next
      case (Inr job)
      with staged obtain row where 1: "good w1" "catalogue w1 = catalogue w"
        "find_job w1 (job_job_id job) = Some row" "job_matches row job"
        "ing_tenant_id (job_command job) = ing_tenant_id c" "ing_domain (job_command job) = ing_domain c" by blast
      from run st ok h svc(1) Inr have "process_job svc job w1 = (r, w')"
        by (simp add: ingest_def sthen_def sbind_def slift_def)
      from process_result [OF svc 1(1,3,4) this] 1 ok show ?thesis
        by (auto simp: publishes_def verify_boundary_def indexed_result_def job_matches_def command_key_def
            indexing_row_def Let_def split: sum.splits if_splits)
    qed
  qed
qed

lemma retry_result:
  assumes svc: "is_repository svc = repo" "index_quiet (is_vector_index svc)"
    and w: "good w" and run: "retry_ingestion svc i w = (r, w')"
  shows "good w' \<and> publishes find_job catalogue (is_domain svc) w r w'"
proof -
  obtain r1 w1 where ld: "ir_load repo i w = (r1, w1)" by (cases "ir_load repo i w")
  show ?thesis
  proof (cases r1)
    case (Inl e)
    with ld load_failed [OF w] have "w1 = w" by blast
    with run ld Inl svc(1) w show ?thesis by (auto simp: retry_ingestion_def sbind_def publishes_Inl)
  next
    case (Inr job)
    with load [OF w] ld obtain row where 1: "w1 = w" "find_job w (job_job_id job) = Some row" "job_matches row job"
      by blast
    show ?thesis
    proof (cases "verify_boundary (is_domain svc) (job_command job)")
      case (Inl e)
      with run ld Inr svc(1) 1(1) w show ?thesis by (auto simp: retry_ingestion_def sbind_def sthen_def slift_def publishes_Inl)
    next
      case ok: (Inr u)
      with run ld Inr svc(1) 1(1) have "process_job svc job w = (r, w')"
        by (simp add: retry_ingestion_def sbind_def sthen_def slift_def)
      from process_result [OF svc w 1(2,3) this] 1 ok show ?thesis
        by (auto simp: publishes_def verify_boundary_def indexed_result_def job_matches_def command_key_def
            indexing_row_def Let_def split: sum.splits if_splits)
    qed
  qed
qed

end

end
