(* ===== verification/Ingestion_World.thy ===== *)
theory Ingestion_World
  imports Ingestion_Service
begin

text \<open>
  The PostgreSQL ingestion repository behind the port of the services: a world is the document tables,
  what the source of job identifiers returns at each \<open>stage\<close>, and the state of the vector index, which
  only the index's own methods read and write. The repository keeps \<open>ingestion_laws\<close>.
\<close>

section \<open>The repository as a port\<close>

record 'i ingestion_world =
  iw_db :: document_db
  iw_ids :: "nat \<Rightarrow> string result"
  iw_staged :: nat
  iw_index :: 'i

definition on_db :: "'a document_prog \<Rightarrow> ('i ingestion_world, py_exn, 'a) prog" where
  "on_db m w = (let (r, db) = m (iw_db w) in (r, w\<lparr>iw_db := db\<rparr>))"

definition on_index :: "('i, py_exn, 'a) prog \<Rightarrow> ('i ingestion_world, py_exn, 'a) prog" where
  "on_index m w = (let (r, i) = m (iw_index w) in (r, w\<lparr>iw_index := i\<rparr>))"

definition world_stage :: "ingestion_command \<Rightarrow> string \<Rightarrow> ('i ingestion_world, py_exn, ingestion_job) prog" where
  "world_stage c h w = on_db (stage (iw_ids w (iw_staged w)) c h) (w\<lparr>iw_staged := iw_staged w + 1\<rparr>)"

definition postgres_ingestion :: "'i ingestion_world ingestion_port" where
  "postgres_ingestion = \<lparr>ir_stage = world_stage, ir_load = (\<lambda>i. on_db (repo_load i)),
     ir_load_for_tenant = (\<lambda>i t. on_db (load_for_tenant i t)),
     ir_mark_indexing = (\<lambda>i. on_db (mark_indexing i)), ir_mark_indexed = (\<lambda>i. on_db (mark_indexed i)),
     ir_mark_failed = (\<lambda>i code msg. on_db (mark_failed i code msg)),
     ir_replace_relationships = (\<lambda>c. on_db (replace_relationships c)),
     ir_delete_source = (\<lambda>d t s. on_db (delete_source d t s)),
     ir_start_import = (\<lambda>q. on_db (start_import q)), ir_load_import = (\<lambda>i t. on_db (load_import i t)),
     ir_update_import = (\<lambda>i st x y z. on_db (update_import i st x y z)),
     ir_fail_import = (\<lambda>i code msg. on_db (fail_import i code msg)),
     ir_consistency_counts = (\<lambda>d t. on_db (consistency_counts d t))\<rparr>"

definition world_index :: "'i vector_index_port \<Rightarrow> 'i ingestion_world vector_index_port" where
  "world_index vx = \<lparr>vx_replace_source = (\<lambda>job coll. on_index (vx_replace_source vx job coll)),
     vx_delete_source = (\<lambda>coll d t s. on_index (vx_delete_source vx coll d t s)),
     vx_count = (\<lambda>coll d t. on_index (vx_count vx coll d t))\<rparr>"

lemma on_db_cases:
  assumes "on_db m w = (r, w')"
  obtains db' where "m (iw_db w) = (r, db')" "w' = w\<lparr>iw_db := db'\<rparr>"
  using assms by (auto simp: on_db_def split: prod.splits)

section \<open>What the tables hold\<close>

definition stored_job :: "document_db \<Rightarrow> string \<Rightarrow> job_row option" where
  "stored_job db i = (case ddb_uuid db i of None \<Rightarrow> None | Some u \<Rightarrow> find (\<lambda>j. jrow_id j = u) (ddb_jobs db))"

text \<open>The abstract state readers see: the published version of every source.\<close>

definition published :: "document_db \<Rightarrow> source_key \<Rightarrow> string option" where
  "published db k = map_option srow_version (current_source db k)"

definition job_row_ok :: "(string \<Rightarrow> string option) \<Rightarrow> job_row \<Rightarrow> bool" where
  "job_row_ok uuid j \<longleftrightarrow> uuid (jrow_id j) = Some (jrow_id j) \<and> trimmed (key_tenant (jrow_key j)) \<and>
     trimmed (key_domain (jrow_key j)) \<and> trimmed (key_source (jrow_key j)) \<and> trimmed (jrow_version j)"

definition documents_good :: "document_db \<Rightarrow> bool" where
  "documents_good db \<longleftrightarrow> documents_ok db \<and> uuid_texts (ddb_uuid db) \<and>
     list_all (job_row_ok (ddb_uuid db)) (ddb_jobs db) \<and> distinct (map irun_import_id (ddb_imports db))"

lemma documents_goodD:
  assumes "documents_good db"
  shows "documents_ok db" "uuid_texts (ddb_uuid db)" "j \<in> set (ddb_jobs db) \<Longrightarrow> job_row_ok (ddb_uuid db) j"
    "distinct (map irun_import_id (ddb_imports db))"
  using assms by (auto simp: documents_good_def list_all_iff)

lemma find_id_unique:
  "distinct (map jrow_id js) \<Longrightarrow> j \<in> set js \<Longrightarrow> find (\<lambda>x. jrow_id x = jrow_id j) js = Some j"
  by (induction js) auto

lemma find_id_map:
  "(\<And>j. P j \<Longrightarrow> jrow_id (f j) = jrow_id j) \<Longrightarrow>
   find (\<lambda>j. jrow_id j = u) (map (\<lambda>j. if P j then f j else j) js) =
   map_option (\<lambda>j. if P j then f j else j) (find (\<lambda>j. jrow_id j = u) js)"
  by (induction js) auto

lemma stored_job_mem:
  "documents_good db \<Longrightarrow> j \<in> set (ddb_jobs db) \<Longrightarrow> stored_job db (jrow_id j) = Some j"
  using documents_goodD [of db] documents_okD(4) [of db] find_id_unique [of "ddb_jobs db" j]
  by (simp add: stored_job_def job_row_ok_def)

lemma job_rows_evolve:
  assumes "list_all (job_row_ok g) js" "\<And>j. P j \<Longrightarrow> job_evolves j (f j)"
  shows "list_all (job_row_ok g) (map (\<lambda>j. if P j then f j else j) js)"
  using assms by (auto simp: list_all_iff job_row_ok_def job_evolves_def)

text \<open>An update of the job named by an identifier.\<close>

lemma update_job:
  assumes good: "documents_ok db" and i: "ddb_uuid db i = Some u"
    and P: "\<And>j. P j \<Longrightarrow> jrow_id j = u \<and> jrow_id (f j) = jrow_id j"
    and j: "j \<in> set (ddb_jobs db)" "P j"
  shows "stored_job db i = Some j"
    "ddb_uuid db' = ddb_uuid db \<Longrightarrow> ddb_jobs db' = map (\<lambda>j. if P j then f j else j) (ddb_jobs db) \<Longrightarrow>
     stored_job db' i = Some (f j)"
proof -
  from find_id_unique [OF documents_okD(4) [OF good] j(1)] P [OF j(2)] i
  show s: "stored_job db i = Some j" by (simp add: stored_job_def)
  assume e: "ddb_uuid db' = ddb_uuid db" "ddb_jobs db' = map (\<lambda>j. if P j then f j else j) (ddb_jobs db)"
  from s i e j(2) find_id_map [of P f u "ddb_jobs db"] P show "stored_job db' i = Some (f j)"
    by (simp add: stored_job_def)
qed

lemma published_put:
  "published (db\<lparr>ddb_sources := put_source row (ddb_sources db)\<rparr>) = (published db)(srow_key row \<mapsto> srow_version row)"
proof -
  have e: "find (\<lambda>r. srow_key r = k) (map (\<lambda>r. if srow_key r = srow_key row then row else r) rows) =
    (if k = srow_key row then if list_ex (\<lambda>r. srow_key r = k) rows then Some row else None
     else find (\<lambda>r. srow_key r = k) rows)" for k and rows :: "source_row list"
    by (induction rows) auto
  have a: "find P (xs @ ys) = (case find P xs of None \<Rightarrow> find P ys | Some x \<Rightarrow> Some x)"
    for P and xs ys :: "source_row list" by (induction xs) auto
  show ?thesis
    by (rule ext) (auto simp: published_def current_source_def put_source_def e a find_None_iff list_ex_iff
        dest: find_member split: option.splits)
qed

lemma published_same: "ddb_sources db' = ddb_sources db \<Longrightarrow> published db' = published db"
  by (rule ext) (simp add: published_def current_source_def)

lemma published_removed:
  "ddb_sources db' = filter (\<lambda>r. srow_key r \<noteq> k) (ddb_sources db) \<Longrightarrow> published db' = (published db)(k := None)"
proof -
  have "find (\<lambda>r. srow_key r = k') (filter (\<lambda>r. srow_key r \<noteq> k) rows) =
    (if k' = k then None else find (\<lambda>r. srow_key r = k') rows)" for k' and rows :: "source_row list"
    by (induction rows) auto
  then show "ddb_sources db' = filter (\<lambda>r. srow_key r \<noteq> k) (ddb_sources db) \<Longrightarrow> ?thesis"
    by (auto simp: published_def current_source_def fun_eq_iff)
qed

section \<open>What the methods do\<close>

lemma good_id_trimmed: "documents_good db \<Longrightarrow> j \<in> set (ddb_jobs db) \<Longrightarrow> trimmed (jrow_id j)"
  using documents_goodD [of db] by (auto simp: job_row_ok_def uuid_texts_def)

lemma job_of_rows_matches:
  assumes "documents_good db" "j \<in> set (ddb_jobs db)" "job_of_rows db j v = Inr job"
  shows "job_matches j job \<and> job_job_id job = jrow_id j"
proof -
  from assms(3) obtain c where c: "command_ok c" "command_key c = source_key_of (strip (key_tenant (jrow_key j)))
      (strip (key_domain (jrow_key j))) (strip (key_source (jrow_key j)))"
    "ing_source_version c = strip (jrow_version j)" "job_command job = c" "job_status job = jrow_status j"
    "job_job_id job = strip (jrow_id j)"
    by (auto simp: job_of_rows_def Let_def rbind_eq_Inr ingestion_command_post_init_iff ingestion_job_post_init_def
        required_Inr command_key_def split: if_splits)
  with documents_goodD(3) [OF assms(1,2)] good_id_trimmed [OF assms(1,2)] show ?thesis
    by (simp add: job_matches_def job_row_ok_def trimmed_def source_key_surj)
qed

lemma load_with_cursor_Inr:
  assumes "documents_good db" "load_with_cursor i t db = Inr job"
  shows "\<exists>j. stored_job db i = Some j \<and> stored_job db (job_job_id job) = Some j \<and> job_matches j job \<and>
    job_job_id job = jrow_id j \<and> (\<forall>tenant. t = Some tenant \<longrightarrow> key_tenant (jrow_key j) = tenant)"
proof -
  from assms(2) obtain u j v where j: "ddb_uuid db i = Some u"
    "find (\<lambda>j. jrow_id j = u \<and> (t = None \<or> t = Some (key_tenant (jrow_key j)))) (ddb_jobs db) = Some j"
    "job_of_rows db j v = Inr job"
    unfolding load_with_cursor_def rbind_eq_Inr option_result_Inr by (fastforce split: option.split_asm)
  from find_member [OF j(2)] have m: "j \<in> set (ddb_jobs db)" "jrow_id j = u"
    "t = None \<or> t = Some (key_tenant (jrow_key j))" by auto
  from find_id_unique [OF documents_okD(4) [OF documents_goodD(1) [OF assms(1)]] m(1)] m(2) j(1)
  have "stored_job db i = Some j" by (simp add: stored_job_def)
  with job_of_rows_matches [OF assms(1) m(1) j(3)] stored_job_mem [OF assms(1) m(1)] m(3) show ?thesis by auto
qed

lemma load_job_Inr:
  assumes "documents_good db" "load_job i t db = (Inr job, db')"
  shows "db' = db \<and> (\<exists>j. stored_job db i = Some j \<and> stored_job db (job_job_id job) = Some j \<and> job_matches j job)"
  using assms load_with_cursor_Inr [OF assms(1)] by (fastforce simp: load_job_def transaction_Inr rbind_eq_Inr)

lemma insert_job_good:
  assumes "insert_job jid c h db = Inr db'" "documents_good db" "command_ok c"
  shows "documents_good db'"
proof -
  from assms(1) obtain u h' where u: "ddb_uuid db jid = Some u" "db' = db\<lparr>ddb_jobs := ddb_jobs db @
         [\<lparr>jrow_id = u, jrow_key = command_key c, jrow_version = ing_source_version c,
           jrow_idempotency_key = ing_idempotency_key c, jrow_payload_hash = h',
           jrow_status = JOB_STAGED, jrow_attempts = 0, jrow_error_code = None,
           jrow_error_message = None\<rparr>]\<rparr>" by (elim insert_job_Inr)
  moreover have "ddb_uuid db u = Some u" using u(1) documents_goodD(2) [OF assms(2)] by (auto simp: uuid_texts_def)
  ultimately show ?thesis
    using assms(2,3) insert_job_ok [OF assms(1) documents_goodD(1) [OF assms(2)]]
    by (auto simp: documents_good_def job_row_ok_def command_ok_def command_key_def)
qed

lemma insert_content_good:
  assumes "insert_content c h db = Inr db'" "documents_good db"
    "find (version_of (command_key c) (ing_source_version c)) (ddb_versions db) = None"
  shows "documents_good db'"
proof -
  have "ddb_jobs db' = ddb_jobs db" "ddb_uuid db' = ddb_uuid db" "ddb_imports db' = ddb_imports db"
    using assms(1) by (auto elim!: insert_content_Inr)
  with assms insert_content_ok [OF assms(1) _ assms(3)] show ?thesis by (simp add: documents_good_def)
qed

lemma insert_content_sources: "insert_content c h db = Inr db' \<Longrightarrow> ddb_sources db' = ddb_sources db"
  by (elim insert_content_Inr) simp

lemma insert_job_sources: "insert_job j c h db = Inr db' \<Longrightarrow> ddb_sources db' = ddb_sources db"
  by (elim insert_job_Inr) simp

lemma stage_good:
  assumes "documents_good db" "command_ok c" "stage jid c h db = (r, db')"
  shows "documents_good db' \<and> published db' = published db"
  using assms(3)
proof (rule stage_cases)
  fix db1 j
  assume "find (version_of (command_key c) (ing_source_version c)) (ddb_versions db) = None"
    "insert_content c h db = Inr db1" "insert_job j c h db1 = Inr db'"
  with assms(1,2) show ?thesis
    using insert_content_good insert_job_good published_same insert_content_sources insert_job_sources by metis
next
  fix j v assume "insert_job j c h db = Inr db'"
  with assms(1,2) show ?thesis using insert_job_good published_same insert_job_sources by metis
qed (use assms(1) in simp)

text \<open>The job a new stage returns is the row it inserted.\<close>

lemma inserted_job:
  assumes "insert_job jid c h db = Inr db'" "documents_good db'"
    "ingestion_job_post_init \<lparr>job_job_id = jid, job_payload_hash = h, job_status = JOB_STAGED, job_command = c,
       job_attempts = 0\<rparr> = Inr job" "command_ok c"
  shows "job_command job = c \<and> (\<exists>row. stored_job db' (job_job_id job) = Some row \<and> job_matches row job)"
proof -
  from assms(1) obtain u h' where u: "ddb_uuid db jid = Some u" "db' = db\<lparr>ddb_jobs := ddb_jobs db @
         [\<lparr>jrow_id = u, jrow_key = command_key c, jrow_version = ing_source_version c,
           jrow_idempotency_key = ing_idempotency_key c, jrow_payload_hash = h',
           jrow_status = JOB_STAGED, jrow_attempts = 0, jrow_error_code = None,
           jrow_error_message = None\<rparr>]\<rparr>" (is "_ = db\<lparr>ddb_jobs := _ @ [?row]\<rparr>") by (elim insert_job_Inr)
  have t: "trimmed jid" using u documents_goodD(2) [OF assms(2)] by (auto simp: uuid_texts_def)
  with assms(3) have j: "job_command job = c" "job_job_id job = jid" "job_status job = JOB_STAGED"
    by (auto simp: ingestion_job_post_init_def rbind_eq_Inr required_Inr trimmed_def split: if_splits)
  have "find (\<lambda>x. jrow_id x = jrow_id ?row) (ddb_jobs db') = Some ?row"
    by (rule find_id_unique) (use documents_okD(4) [OF documents_goodD(1) [OF assms(2)]] u(2) in simp_all)
  with u have "stored_job db' jid = Some ?row" by (simp add: stored_job_def)
  with j t assms(4) show ?thesis by (simp add: job_matches_def)
qed

lemma stage_InrE:
  assumes "stage jid c h db = (Inr job, db')"
  obtains out where "ddb_up db" "stage_body jid c h db = Inr (out, db')"
    "case out of Inl j \<Rightarrow> job = j | Inr i \<Rightarrow> ingestion_job_post_init
       \<lparr>job_job_id = i, job_payload_hash = h, job_status = JOB_STAGED, job_command = c, job_attempts = 0\<rparr> = Inr job"
  using assms unfolding stage_def sbind_eq_Inr transaction_Inr
  by (fastforce simp: sreturn_eq slift_eq split: sum.split_asm)

lemma stage_Inr:
  assumes "documents_good db" "command_ok c" "stage jid c h db = (Inr job, db')"
  shows "ing_tenant_id (job_command job) = ing_tenant_id c \<and> ing_domain (job_command job) = ing_domain c \<and>
    (\<exists>row. stored_job db' (job_job_id job) = Some row \<and> job_matches row job)"
proof -
  have good: "documents_good db'" using stage_good [OF assms] by blast
  from assms(3) obtain out where b: "stage_body jid c h db = Inr (out, db')"
    "case out of Inl j \<Rightarrow> job = j | Inr i \<Rightarrow> ingestion_job_post_init
       \<lparr>job_job_id = i, job_payload_hash = h, job_status = JOB_STAGED, job_command = c, job_attempts = 0\<rparr> = Inr job"
    by (rule stage_InrE)
  show ?thesis
  proof (cases "find (request_job c) (ddb_jobs db)")
    case (Some j)
    with b have d: "db' = db" "load_with_cursor (jrow_id j) None db = Inr job"
      by (auto simp: stage_body_def rbind_eq_Inr split: if_splits)
    from find_member [OF Some] have j: "j \<in> set (ddb_jobs db)" "request_job c j" by auto
    from load_with_cursor_Inr [OF assms(1) d(2)] stored_job_mem [OF assms(1) j(1)]
    have "stored_job db (job_job_id job) = Some j" "job_matches j job" by auto
    with j(2) d(1) show ?thesis by (auto simp: request_job_def job_matches_def command_key_def)
  next
    case None
    with b(1) obtain i db1 where "out = Inr i" "insert_job i c h db1 = Inr db'"
      by (auto simp: stage_body_def rbind_eq_Inr Let_def split: if_splits)
    with inserted_job [OF _ good _ assms(2)] b(2) show ?thesis by auto
  qed
qed

lemma transition_Inl: "transition msg update db = (Inl e, db') \<Longrightarrow> db' = db"
  unfolding transition_def by (rule transaction_Inl)

lemma transition_Inr:
  "transition msg update db = (Inr (), db') \<longleftrightarrow> ddb_up db \<and> update db = Inr (1, db')"
  by (auto simp: transition_def transaction_Inr rbind_eq_Inr split: if_splits)

lemma jobs_updated_good:
  assumes "documents_good db" "\<And>j. P j \<Longrightarrow> jrow_status j \<noteq> JOB_INDEXED \<and> job_evolves j (f j)"
  shows "documents_good (db\<lparr>ddb_jobs := map (\<lambda>j. if P j then f j else j) (ddb_jobs db)\<rparr>)"
proof -
  have "documents_ok (db\<lparr>ddb_jobs := map (\<lambda>j. if P j then f j else j) (ddb_jobs db)\<rparr>)"
    by (rule jobs_mapped_ok [OF documents_goodD(1) [OF assms(1)]]) (use assms(2) in \<open>auto simp: job_evolves_def\<close>)
  moreover have "list_all (job_row_ok (ddb_uuid db)) (map (\<lambda>j. if P j then f j else j) (ddb_jobs db))"
    by (rule job_rows_evolve) (use assms in \<open>auto simp: documents_good_def\<close>)
  ultimately show ?thesis using assms(1) by (simp add: documents_good_def)
qed

lemma update_jobs_Inr:
  assumes "documents_good db" "ddb_uuid db i = Some u" "update_jobs (job_in u sts) f db = (1, db')"
    "\<And>j. job_in u sts j \<Longrightarrow> jrow_status j \<noteq> JOB_INDEXED \<and> job_evolves j (f j)"
  shows "documents_good db' \<and> published db' = published db \<and>
    (\<exists>row. stored_job db i = Some row \<and> jrow_status row \<in> set sts \<and> stored_job db' i = Some (f row))"
proof -
  from assms(3) have e: "length (filter (job_in u sts) (ddb_jobs db)) = 1"
    "db' = db\<lparr>ddb_jobs := map (\<lambda>j. if job_in u sts j then f j else j) (ddb_jobs db)\<rparr>" by (auto simp: update_jobs_def)
  from e(1) obtain j where "filter (job_in u sts) (ddb_jobs db) = [j]" by (auto simp: length_Suc_conv)
  then have j: "j \<in> set (ddb_jobs db)" "job_in u sts j" by (auto simp: filter_eq_Cons_iff)
  have P: "jrow_id j = u \<and> jrow_id (f j) = jrow_id j" if "job_in u sts j" for j
    using assms(4) [OF that] that by (auto simp: job_in_def job_evolves_def)
  have "stored_job db i = Some j"
    by (rule update_job(1) [where P = "job_in u sts" and f = f, OF documents_goodD(1) [OF assms(1)] assms(2) P j])
  moreover have "stored_job db' i = Some (f j)"
    by (rule update_job(2) [where P = "job_in u sts" and f = f, OF documents_goodD(1) [OF assms(1)] assms(2) P j]) (simp_all add: e(2))
  moreover have "documents_good db'" unfolding e(2) by (rule jobs_updated_good [OF assms(1) assms(4)])
  moreover have "published db' = published db" by (rule published_same) (simp add: e(2))
  ultimately show ?thesis using j(2) by (simp add: job_in_def)
qed

lemma mark_indexing_Inr:
  assumes "documents_good db" "mark_indexing i db = (Inr (), db')"
  shows "documents_good db' \<and> published db' = published db \<and>
    (\<exists>row. stored_job db i = Some row \<and> jrow_status row \<noteq> JOB_INDEXED \<and> stored_job db' i = Some (indexing_row row))"
proof -
  from assms(2) obtain u where u: "ddb_uuid db i = Some u"
    "update_jobs (job_in u [JOB_STAGED, JOB_INDEXING, JOB_FAILED]) indexing_row db = (1, db')"
    by (auto simp: mark_indexing_def transition_Inr rbind_eq_Inr Let_def split: if_splits)
  have "jrow_status j \<noteq> JOB_INDEXED \<and> job_evolves j (indexing_row j)"
    if "job_in u [JOB_STAGED, JOB_INDEXING, JOB_FAILED] j" for j
    using that by (auto simp: job_in_def job_evolves_def indexing_row_def)
  from update_jobs_Inr [OF assms(1) u this] show ?thesis by auto
qed

lemma mark_failed_Inr:
  assumes "documents_good db" "mark_failed i code msg db = (Inr (), db')"
  shows "documents_good db' \<and> published db' = published db \<and>
    (\<exists>row. stored_job db i = Some row \<and> jrow_status row = JOB_INDEXING \<and>
       stored_job db' i = Some (failed_job_row code msg row))"
proof -
  from assms(2) obtain u where u: "ddb_uuid db i = Some u"
    "update_jobs (job_in u [JOB_INDEXING]) (failed_job_row code msg) db = (1, db')"
    by (auto simp: mark_failed_def transition_Inr rbind_eq_Inr)
  have "jrow_status j \<noteq> JOB_INDEXED \<and> job_evolves j (failed_job_row code msg j)" if "job_in u [JOB_INDEXING] j" for j
    using that by (auto simp: job_in_def job_evolves_def failed_job_row_def)
  from update_jobs_Inr [OF assms(1) u this] show ?thesis by auto
qed

lemma mark_indexed_cases:
  assumes "documents_ok db" "mark_indexed i db = (Inr v, db')"
  obtains u j where "ddb_uuid db i = Some u" "j \<in> set (ddb_jobs db)" "jrow_id j = u" "jrow_status j = JOB_INDEXING"
    "find (job_in u [JOB_INDEXING]) (ddb_jobs db) = Some j"
    "db' = db\<lparr>ddb_jobs := map (\<lambda>x. if job_in u [JOB_INDEXING] x then x\<lparr>jrow_status := JOB_INDEXED\<rparr> else x) (ddb_jobs db),
       ddb_sources := put_source \<lparr>srow_key = jrow_key j, srow_version = jrow_version j, srow_job_id = u\<rparr>
         (ddb_sources db)\<rparr>"
    "stored_job db i = Some j" "stored_job db' i = Some (j\<lparr>jrow_status := JOB_INDEXED\<rparr>)"
    "published db' = (published db)(jrow_key j \<mapsto> jrow_version j)"
proof -
  from assms(2) obtain u j where j: "ddb_uuid db i = Some u" "find (job_in u [JOB_INDEXING]) (ddb_jobs db) = Some j"
    "db' = db\<lparr>ddb_jobs := map (\<lambda>x. if job_in u [JOB_INDEXING] x then x\<lparr>jrow_status := JOB_INDEXED\<rparr> else x) (ddb_jobs db),
       ddb_sources := put_source \<lparr>srow_key = jrow_key j, srow_version = jrow_version j, srow_job_id = u\<rparr>
         (ddb_sources db)\<rparr>"
    unfolding mark_indexed_def transaction_Inr rbind_eq_Inr option_result_Inr by (fastforce split: option.split_asm)
  from find_member [OF j(2)] have m: "j \<in> set (ddb_jobs db)" "job_in u [JOB_INDEXING] j" by auto
  have "published db' = (published db)(jrow_key j \<mapsto> jrow_version j)"
    using published_put [where db = "db\<lparr>ddb_jobs := ddb_jobs db'\<rparr>" and row = "\<lparr>srow_key = jrow_key j, srow_version = jrow_version j, srow_job_id = u\<rparr>"]
      published_same [of "db\<lparr>ddb_jobs := ddb_jobs db'\<rparr>" db] by (simp add: j(3))
  moreover have "stored_job db i = Some j"
    by (rule update_job(1) [where P = "job_in u [JOB_INDEXING]" and f = "\<lambda>x. x\<lparr>jrow_status := JOB_INDEXED\<rparr>",
          OF assms(1) j(1) _ m]) (simp add: job_in_def)
  moreover have "stored_job db' i = Some (j\<lparr>jrow_status := JOB_INDEXED\<rparr>)"
    by (rule update_job(2) [where P = "job_in u [JOB_INDEXING]" and f = "\<lambda>x. x\<lparr>jrow_status := JOB_INDEXED\<rparr>",
          OF assms(1) j(1) _ m]) (simp_all add: job_in_def j(3))
  ultimately show ?thesis using m j that by (simp add: job_in_def)
qed

lemma mark_indexed_Inr:
  assumes "documents_good db" "mark_indexed i db = (Inr (), db')"
  shows "documents_good db' \<and> (\<exists>row. stored_job db i = Some row \<and> jrow_status row = JOB_INDEXING \<and>
      stored_job db' i = Some (row\<lparr>jrow_status := JOB_INDEXED\<rparr>) \<and>
      published db' = (published db)(jrow_key row \<mapsto> jrow_version row))"
  using documents_goodD(1) [OF assms(1)] assms(2)
proof (rule mark_indexed_cases)
  fix u j assume j: "find (job_in u [JOB_INDEXING]) (ddb_jobs db) = Some j" "jrow_status j = JOB_INDEXING"
    "db' = db\<lparr>ddb_jobs := map (\<lambda>x. if job_in u [JOB_INDEXING] x then x\<lparr>jrow_status := JOB_INDEXED\<rparr> else x) (ddb_jobs db),
       ddb_sources := put_source \<lparr>srow_key = jrow_key j, srow_version = jrow_version j, srow_job_id = u\<rparr>
         (ddb_sources db)\<rparr>"
    "stored_job db i = Some j" "stored_job db' i = Some (j\<lparr>jrow_status := JOB_INDEXED\<rparr>)"
    "published db' = (published db)(jrow_key j \<mapsto> jrow_version j)"
  have "documents_ok db'" using indexed_ok [OF documents_goodD(1) [OF assms(1)] j(1)] j(3) by simp
  moreover have "list_all (job_row_ok (ddb_uuid db)) (ddb_jobs db')"
    using job_rows_evolve [of "ddb_uuid db" "ddb_jobs db" "job_in u [JOB_INDEXING]" "\<lambda>x. x\<lparr>jrow_status := JOB_INDEXED\<rparr>"]
      assms(1) j(3) by (auto simp: documents_good_def job_in_def job_evolves_def)
  ultimately show ?thesis using j(2,4-6) assms(1) by (auto simp: documents_good_def j(3))
qed

section \<open>The repository keeps the laws\<close>

definition world_good :: "'i ingestion_world \<Rightarrow> bool" where
  "world_good w \<longleftrightarrow> documents_good (iw_db w)"

lemma postgres_selectors [simp]:
  "ir_stage postgres_ingestion = world_stage" "ir_load postgres_ingestion i = on_db (repo_load i)"
  "ir_mark_indexing postgres_ingestion i = on_db (mark_indexing i)"
  "ir_mark_indexed postgres_ingestion i = on_db (mark_indexed i)"
  "ir_mark_failed postgres_ingestion i code msg = on_db (mark_failed i code msg)"
  by (simp_all add: postgres_ingestion_def)

interpretation pgi: ingestion_laws postgres_ingestion world_good
  "\<lambda>w. stored_job (iw_db w)" "\<lambda>w. published (iw_db w)"
proof (unfold_locales, goal_cases)
  case (1 w c h r w')
  from 1(3) obtain db' where st: "stage (iw_ids w (iw_staged w)) c h (iw_db w) = (r, db')" "iw_db w' = db'"
    by (auto simp: world_stage_def elim!: on_db_cases)
  from 1(1) have g: "documents_good (iw_db w)" by (simp add: world_good_def)
  from stage_good [OF g 1(2) st(1)] stage_Inr [OF g 1(2), of _ h _ db'] st show ?case by (auto simp: world_good_def)
next
  case (2 w i job w')
  from 2(2) obtain db' where "repo_load i (iw_db w) = (Inr job, db')" "w' = w\<lparr>iw_db := db'\<rparr>"
    by (auto elim: on_db_cases)
  with 2(1) show ?case using load_job_Inr [of "iw_db w" i None job db'] by (auto simp: repo_load_def world_good_def)
next
  case (3 w i e w')
  then show ?case by (auto simp: repo_load_def load_job_def elim!: on_db_cases dest: transaction_Inl)
next
  case (4 w i w')
  from 4(2) obtain db' where run: "mark_indexing i (iw_db w) = (Inr (), db')" "w' = w\<lparr>iw_db := db'\<rparr>"
    by (auto elim: on_db_cases)
  from mark_indexing_Inr [OF 4(1) [unfolded world_good_def] run(1)] run(2) show ?case by (auto simp: world_good_def)
next
  case (5 w i e w')
  then show ?case by (auto simp: mark_indexing_def elim!: on_db_cases dest: transition_Inl)
next
  case (6 w i w')
  from 6(2) obtain db' where run: "mark_indexed i (iw_db w) = (Inr (), db')" "w' = w\<lparr>iw_db := db'\<rparr>"
    by (auto elim: on_db_cases)
  from mark_indexed_Inr [OF 6(1) [unfolded world_good_def] run(1)] run(2) show ?case by (auto simp: world_good_def)
next
  case (7 w i e w')
  then show ?case by (auto simp: mark_indexed_def elim!: on_db_cases dest: transaction_Inl)
next
  case (8 w i code msg w')
  from 8(2) obtain db' where run: "mark_failed i code msg (iw_db w) = (Inr (), db')" "w' = w\<lparr>iw_db := db'\<rparr>"
    by (auto elim: on_db_cases)
  from mark_failed_Inr [OF 8(1) [unfolded world_good_def] run(1)] run(2) show ?case by (auto simp: world_good_def)
next
  case (9 w i code msg e w')
  then show ?case by (auto simp: mark_failed_def elim!: on_db_cases dest: transition_Inl)
qed

lemma world_index_quiet: "pgi.index_quiet (world_index vx)"
  unfolding pgi.index_quiet_def
  by (auto simp: world_index_def on_index_def world_good_def Let_def split: prod.splits)

section \<open>When the methods return\<close>

text \<open>The transitions of a job that exists, while the server answers.\<close>

lemma one_job:
  assumes "documents_ok db" "j \<in> set (ddb_jobs db)" "P j" "\<And>x. P x \<Longrightarrow> jrow_id x = jrow_id j"
  shows "filter P (ddb_jobs db) = [j]"
proof -
  have "jrow_id x \<noteq> jrow_id j \<Longrightarrow> \<not> P x" for x using assms(4) by blast
  then have "distinct (map jrow_id js) \<Longrightarrow> j \<in> set js \<Longrightarrow> filter P js = [j]" for js
    using assms(3) by (induction js) (auto simp: filter_empty_conv image_iff)
  then show ?thesis using documents_okD(4) [OF assms(1)] assms(2) by blast
qed

lemma update_jobs_once:
  assumes "documents_ok db" "ddb_uuid db i = Some u" "stored_job db i = Some row" "jrow_status row \<in> set sts"
  shows "fst (update_jobs (job_in u sts) f db) = 1"
proof -
  from assms(2,3) have "find (\<lambda>j. jrow_id j = u) (ddb_jobs db) = Some row" by (simp add: stored_job_def)
  from find_member [OF this] have "row \<in> set (ddb_jobs db)" "jrow_id row = u" by auto
  with one_job [OF assms(1), of row "job_in u sts"] assms(4) show ?thesis by (simp add: update_jobs_def job_in_def)
qed

lemma stored_uuid: "stored_job db i = Some row \<Longrightarrow> \<exists>u. ddb_uuid db i = Some u"
  by (auto simp: stored_job_def split: option.splits)

lemma mark_indexing_returns:
  assumes "documents_good db" "ddb_up db" "stored_job db i = Some row" "jrow_status row \<noteq> JOB_INDEXED"
    "\<forall>j\<in>set (ddb_jobs db). sql_integer (jrow_attempts j + 1)"
  obtains db' where "mark_indexing i db = (Inr (), db')" "ddb_up db'" "ddb_uuid db' = ddb_uuid db"
proof -
  let ?sts = "[JOB_STAGED, JOB_INDEXING, JOB_FAILED]"
  from stored_uuid [OF assms(3)] obtain u where u: "ddb_uuid db i = Some u" by blast
  have "jrow_status row \<in> set ?sts" using assms(4) by (cases "jrow_status row") auto
  from update_jobs_once [OF documents_goodD(1) [OF assms(1)] u assms(3) this, of indexing_row]
  obtain db' where e: "update_jobs (job_in u ?sts) indexing_row db = (1, db')" by (metis fst_conv surj_pair)
  then have "mark_indexing i db = (Inr (), db')"
    using u assms(2,5) by (simp add: mark_indexing_def transition_Inr option_result_def Let_def list_all_iff)
  moreover have "ddb_up db'" "ddb_uuid db' = ddb_uuid db" using e assms(2) by (auto simp: update_jobs_def)
  ultimately show ?thesis by (rule that)
qed

lemma mark_failed_returns:
  assumes "documents_good db" "ddb_up db" "stored_job db i = Some row" "jrow_status row = JOB_INDEXING"
    "storable [code, msg]"
  obtains db' where "mark_failed i code msg db = (Inr (), db')"
proof -
  from stored_uuid [OF assms(3)] obtain u where u: "ddb_uuid db i = Some u" by blast
  have "storable [take 100 code, take 2000 msg]" using assms(5) by (auto simp: storable_def dest: in_set_takeD)
  moreover obtain db' where "update_jobs (job_in u [JOB_INDEXING]) (failed_job_row code msg) db = (1, db')"
    using update_jobs_once [OF documents_goodD(1) [OF assms(1)] u assms(3), of "[JOB_INDEXING]" "failed_job_row code msg"]
      assms(4) by (metis fst_conv surj_pair list.set_intros(1))
  ultimately have "mark_failed i code msg db = (Inr (), db')"
    using u assms(2) by (simp add: mark_failed_def transition_Inr option_result_def bound_texts_def)
  then show ?thesis by (rule that)
qed

lemma mark_indexed_returns:
  assumes "documents_good db" "ddb_up db" "stored_job db i = Some row" "jrow_status row = JOB_INDEXING"
  obtains db' where "mark_indexed i db = (Inr (), db')"
proof -
  from assms(3) obtain u where u: "ddb_uuid db i = Some u" "find (\<lambda>j. jrow_id j = u) (ddb_jobs db) = Some row"
    by (auto simp: stored_job_def split: option.splits)
  from find_member [OF u(2)] have "row \<in> set (ddb_jobs db)" "jrow_id row = u" by auto
  then have "find (job_in u [JOB_INDEXING]) (ddb_jobs db) \<noteq> None"
    using assms(4) by (auto simp: find_None_iff job_in_def)
  then show ?thesis using u(1) assms(2) that
    by (auto simp: mark_indexed_def transaction_Inr option_result_def)
qed

lemma exn_code_storable: "storable [exn_code e]"
proof (cases e)
  case (Known c m)
  then show ?thesis by (cases c) (simp_all add: storable_def)
qed (simp add: storable_def)

end
