(* ===== verification/Dataset_Import.thy ===== *)
theory Dataset_Import
  imports Ingestion_World Ownership
begin

text \<open>
  \<open>application/dataset_import.py\<close>: the import of a prepared dataset in its three phases, over the locale
  \<open>dataset_import_laws\<close>, which extends \<open>ingestion_laws\<close> by what the repository promises of import runs,
  relationships and deletions. The reader is a parameter: what its methods yield, item by item, where
  an item that raises is \<open>Inl\<close> and ends the iteration.
\<close>

record dataset_reader =
  rd_prepare :: "string \<Rightarrow> string \<Rightarrow> dataset_import_request result"
  rd_source_commands :: "ingestion_command result list"
  rd_relationship_commands :: "ingestion_command result list"
  rd_deletions :: "string result list"

text \<open>The service holds the parts of the ingestion service it constructs.\<close>

type_synonym 'w dataset_import_service = "'w document_ingestion_service"

definition verify_import_boundary :: "domain_profile \<Rightarrow> ingestion_command \<Rightarrow> unit result" where
  "verify_import_boundary domain c =
     (if ing_domain c \<noteq> domain_name domain \<or> ing_tenant_id c \<noteq> domain_tenant_id domain
      then Inl (Known PolicyViolationError ''Dataset import crossed a domain or tenant boundary'')
      else Inr ())"

section \<open>The phases\<close>

fun import_sources ::
    "'w dataset_import_service \<Rightarrow> string \<Rightarrow> ingestion_command result list \<Rightarrow> int \<Rightarrow> ('w, py_exn, int) prog" where
  "import_sources svc i [] n = sreturn n"
| "import_sources svc i (item # items) n =
     sbind (slift item) (\<lambda>c.
     sthen (slift (verify_import_boundary (is_domain svc) c))
     (sbind (slift (ingestion_command_post_init (c\<lparr>ing_relationships := []\<rparr>))) (\<lambda>plain.
      sthen (ingest svc plain)
      (sthen (ir_update_import (is_repository svc) i IMPORT_STAGING (n + 1) 0 0)
        (import_sources svc i items (n + 1))))))"

fun import_relationships ::
    "'w dataset_import_service \<Rightarrow> string \<Rightarrow> int \<Rightarrow> ingestion_command result list \<Rightarrow> int \<Rightarrow>
     ('w, py_exn, int) prog" where
  "import_relationships svc i n [] m = sreturn m"
| "import_relationships svc i n (item # items) m =
     sbind (slift item) (\<lambda>c.
     sthen (slift (verify_import_boundary (is_domain svc) c))
     (sthen (ir_replace_relationships (is_repository svc) c)
     (let m' = m + int (length (ing_relationships c))
      in sthen (ir_update_import (is_repository svc) i IMPORT_RELATING n m' 0)
           (import_relationships svc i n items m'))))"

fun import_deletions ::
    "'w dataset_import_service \<Rightarrow> string \<Rightarrow> int \<Rightarrow> int \<Rightarrow> string result list \<Rightarrow> int \<Rightarrow> ('w, py_exn, int) prog" where
  "import_deletions svc i n m [] k = sreturn k"
| "import_deletions svc i n m (item # items) k =
     sbind (slift item) (\<lambda>source.
     let domain = is_domain svc
     in sthen (vx_delete_source (is_vector_index svc) (domain_collection domain) (domain_name domain)
                 (domain_tenant_id domain) source)
        (sthen (ir_delete_source (is_repository svc) (domain_name domain) (domain_tenant_id domain) source)
        (sthen (ir_update_import (is_repository svc) i IMPORT_DELETING n m (k + 1))
          (import_deletions svc i n m items (k + 1)))))"

definition import_body ::
    "'w dataset_import_service \<Rightarrow> dataset_reader \<Rightarrow> string \<Rightarrow> ('w, py_exn, unit) prog" where
  "import_body svc reader i =
     sbind (import_sources svc i (rd_source_commands reader) 0) (\<lambda>n.
     sthen (ir_update_import (is_repository svc) i IMPORT_RELATING n 0 0)
     (sbind (import_relationships svc i n (rd_relationship_commands reader) 0) (\<lambda>m.
      sthen (ir_update_import (is_repository svc) i IMPORT_DELETING n m 0)
      (sbind (import_deletions svc i n m (rd_deletions reader) 0) (\<lambda>k.
       ir_update_import (is_repository svc) i IMPORT_COMPLETED n m k)))))"

section \<open>The operations\<close>

definition import_failure :: "'w dataset_import_service \<Rightarrow> string \<Rightarrow> py_exn \<Rightarrow> ('w, py_exn, unit) prog" where
  "import_failure svc i e =
     sthen (ir_fail_import (is_repository svc) i (exn_code e)
              (exn_message ''Unhandled dataset import failure'' e))
           (sraise e)"

definition execute_import ::
    "'w dataset_import_service \<Rightarrow> dataset_reader \<Rightarrow> ('w, py_exn, dataset_import_run) prog" where
  "execute_import svc reader =
     sbind (slift (rd_prepare reader (domain_name (is_domain svc)) (domain_tenant_id (is_domain svc)))) (\<lambda>request.
     sbind (ir_start_import (is_repository svc) request) (\<lambda>run.
       if irun_status run = IMPORT_COMPLETED then sreturn run
       else
         sthen (scatch (import_body svc reader (ireq_import_id request))
                  (import_failure svc (ireq_import_id request)))
           (ir_load_import (is_repository svc) (ireq_import_id request) (ireq_tenant_id request))))"

definition import_status ::
    "'w dataset_import_service \<Rightarrow> string \<Rightarrow> ('w, py_exn, dataset_import_run) prog" where
  "import_status svc i = ir_load_import (is_repository svc) i (domain_tenant_id (is_domain svc))"

definition import_consistency ::
    "'w dataset_import_service \<Rightarrow> ('w, py_exn, dataset_consistency_report) prog" where
  "import_consistency svc =
     (let domain = is_domain svc
      in sbind (ir_consistency_counts (is_repository svc) (domain_name domain) (domain_tenant_id domain)) (\<lambda>counts.
         sbind (vx_count (is_vector_index svc) (domain_collection domain) (domain_name domain)
                  (domain_tenant_id domain)) (\<lambda>indexed.
           slift (dataset_consistency_report_post_init
             \<lparr>report_domain = domain_name domain, report_tenant_id = domain_tenant_id domain,
              report_active_sources = active_sources counts, report_active_chunks = active_chunks counts,
              report_indexed_chunks = indexed, report_active_relationships = active_relationships counts\<rparr>))))"

section \<open>What the import relies on\<close>

text \<open>What readers see of the sources of one tenant and domain.\<close>

definition sources_view :: "('w \<Rightarrow> source_key \<Rightarrow> string option) \<Rightarrow> 'w \<Rightarrow> string \<Rightarrow> string \<Rightarrow> string \<Rightarrow> string option" where
  "sources_view catalogue w tenant domain source = catalogue w (source_key_of tenant domain source)"

definition updated_run ::
    "dataset_import_status \<Rightarrow> int \<Rightarrow> int \<Rightarrow> int \<Rightarrow> dataset_import_run \<Rightarrow> dataset_import_run" where
  "updated_run st n m k r = r\<lparr>irun_status := st, irun_indexed_sources := n, irun_published_relationships := m,
     irun_deleted_sources := k, irun_error_code := None, irun_error_message := None\<rparr>"

definition failed_run :: "string \<Rightarrow> string \<Rightarrow> dataset_import_run \<Rightarrow> dataset_import_run" where
  "failed_run code msg r = r\<lparr>irun_status := IMPORT_FAILED, irun_error_code := Some (take 100 code),
     irun_error_message := Some (take 2000 msg)\<rparr>"

locale dataset_import_laws = ingestion_laws repo good find_job catalogue
  for repo :: "'w ingestion_port" and good :: "'w \<Rightarrow> bool"
    and find_job :: "'w \<Rightarrow> string \<Rightarrow> job_row option" and catalogue :: "'w \<Rightarrow> source_key \<Rightarrow> string option" +
  fixes find_run :: "'w \<Rightarrow> string \<Rightarrow> dataset_import_run option"
  assumes runs_apart:
      "good w \<Longrightarrow> ir_stage repo c h w = (r1, w') \<Longrightarrow> find_run w' = find_run w"
      "good w \<Longrightarrow> ir_mark_indexing repo i w = (r2, w') \<Longrightarrow> find_run w' = find_run w"
      "good w \<Longrightarrow> ir_mark_indexed repo i w = (r2, w') \<Longrightarrow> find_run w' = find_run w"
      "good w \<Longrightarrow> ir_mark_failed repo i code msg w = (r2, w') \<Longrightarrow> find_run w' = find_run w"
    and relationships: "good w \<Longrightarrow> ir_replace_relationships repo c w = (r2, w') \<Longrightarrow>
      good w' \<and> catalogue w' = catalogue w \<and> find_run w' = find_run w \<and>
      (r2 = Inr () \<longrightarrow> catalogue w (command_key c) = Some (ing_source_version c))"
    and deletion: "good w \<Longrightarrow> ir_delete_source repo d t s w = (r2, w') \<Longrightarrow>
      good w' \<and> find_run w' = find_run w \<and>
      catalogue w' = (if r2 = Inr () then (catalogue w)(source_key_of t d s := None) else catalogue w)"
    and starting: "good w \<Longrightarrow> ir_start_import repo q w = (r3, w') \<Longrightarrow> good w' \<and> catalogue w' = catalogue w"
    and loading: "good w \<Longrightarrow> ir_load_import repo i t w = (r3, w') \<Longrightarrow>
      w' = w \<and> (\<forall>run. r3 = Inr run \<longrightarrow> find_run w i = Some run \<and> irun_tenant_id run = t)"
    and updating: "good w \<Longrightarrow> ir_update_import repo i st n m k w = (r2, w') \<Longrightarrow>
      good w' \<and> catalogue w' = catalogue w \<and>
      (r2 = Inr () \<longrightarrow> find_run w' i = map_option (updated_run st n m k) (find_run w i) \<and> find_run w i \<noteq> None)"
    and failing: "good w \<Longrightarrow> ir_fail_import repo i code msg w = (r2, w') \<Longrightarrow>
      good w' \<and> catalogue w' = catalogue w \<and>
      (r2 = Inr () \<longrightarrow> find_run w' i = map_option (failed_run code msg) (find_run w i) \<and> find_run w i \<noteq> None)"
begin

lemma view_same: "catalogue w' = catalogue w \<Longrightarrow> sources_view catalogue w' t d = sources_view catalogue w t d"
  by (rule ext) (simp add: sources_view_def)

lemma quiet_own:
  assumes "\<And>w r w'. good w \<Longrightarrow> m w = (r, w') \<Longrightarrow> good w' \<and> catalogue w' = catalogue w"
  shows "only_owner good (sources_view catalogue) t d m"
  unfolding only_owner_def using assms view_same by metis

lemma repository_own [only_owner_rules]:
  "only_owner good (sources_view catalogue) t d (ir_replace_relationships repo c)"
  "only_owner good (sources_view catalogue) t d (ir_start_import repo q)"
  "only_owner good (sources_view catalogue) t d (ir_load_import repo i tenant)"
  "only_owner good (sources_view catalogue) t d (ir_update_import repo i st n m k)"
  "only_owner good (sources_view catalogue) t d (ir_fail_import repo i code msg)"
  by (rule quiet_own, ((frule (1) relationships | frule (1) starting | frule (1) loading | frule (1) updating |
    frule (1) failing), simp))+

lemma deletion_own [only_owner_rules]:
  "only_owner good (sources_view catalogue) t d (ir_delete_source repo d t s)"
  unfolding only_owner_def using deletion by (fastforce simp: sources_view_def fun_eq_iff)

lemma ingest_own:
  assumes svc: "is_repository svc = repo" "index_quiet (is_vector_index svc)" and c: "command_ok c"
  shows "only_owner good (sources_view catalogue) (domain_tenant_id (is_domain svc)) (domain_name (is_domain svc)) (ingest svc c)"
  unfolding only_owner_def
proof (intro allI impI)
  fix w r w' assume w: "good w" "ingest svc c w = (r, w')"
  from ingest_result [OF svc w(1) c w(2)]
  show "good w' \<and> (\<forall>t h. (t, h) \<noteq> (domain_tenant_id (is_domain svc), domain_name (is_domain svc)) \<longrightarrow>
      sources_view catalogue w' t h = sources_view catalogue w t h)"
    by (auto simp: publishes_def sources_view_def fun_eq_iff split: sum.splits)
qed

lemma import_sources_own:
  assumes svc: "is_repository svc = repo" "index_quiet (is_vector_index svc)"
  shows "only_owner good (sources_view catalogue) (domain_tenant_id (is_domain svc)) (domain_name (is_domain svc))
    (import_sources svc i items n)"
proof (induction items arbitrary: n)
  case (Cons item items)
  have "only_owner good (sources_view catalogue) (domain_tenant_id (is_domain svc)) (domain_name (is_domain svc))
    (sbind (slift (ingestion_command_post_init c)) (\<lambda>plain. sthen (ingest svc plain) (M plain)))"
    if "\<And>plain. only_owner good (sources_view catalogue) (domain_tenant_id (is_domain svc))
      (domain_name (is_domain svc)) (M plain)" for c and M :: "ingestion_command \<Rightarrow> ('w, py_exn, int) prog"
  proof (cases "ingestion_command_post_init c")
    case (Inl e)
    then show ?thesis by (simp add: only_owner_def sbind_def slift_def)
  next
    case (Inr plain)
    then have "sbind (slift (ingestion_command_post_init c)) (\<lambda>plain. sthen (ingest svc plain) (M plain)) =
      sthen (ingest svc plain) (M plain)" by (simp add: sbind_def slift_def fun_eq_iff)
    with ingest_own [OF svc ingestion_command_post_init_ok [OF Inr]] that show ?thesis
      by (simp add: only_owner_then)
  qed
  note ingested = this
  show ?case unfolding import_sources.simps svc(1)
    by (rule only_owner_bind [OF only_owner_basic(1)], rule only_owner_then [OF only_owner_basic(1)], rule ingested,
        rule only_owner_then [OF repository_own(4) Cons.IH])
qed (simp add: only_owner_rules)

lemma import_relationships_own:
  assumes svc: "is_repository svc = repo"
  shows "only_owner good (sources_view catalogue) t d (import_relationships svc i n items m)"
proof (induction items arbitrary: m)
  case (Cons item items)
  then show ?case unfolding import_relationships.simps svc Let_def
    by (intro only_owner_bind only_owner_then only_owner_basic repository_own)
qed (simp add: only_owner_rules)

definition deletion_quiet :: "'w vector_index_port \<Rightarrow> bool" where
  "deletion_quiet vx \<longleftrightarrow> (\<forall>coll d t s w r w'. good w \<longrightarrow> vx_delete_source vx coll d t s w = (r, w') \<longrightarrow>
     good w' \<and> find_run w' = find_run w \<and> catalogue w' = catalogue w)"

lemma deletion_quiet_own: "deletion_quiet vx \<Longrightarrow> only_owner good (sources_view catalogue) t d (vx_delete_source vx coll d' t' s)"
  by (rule quiet_own) (auto simp: deletion_quiet_def)

lemma import_deletions_own:
  assumes svc: "is_repository svc = repo" "deletion_quiet (is_vector_index svc)"
  shows "only_owner good (sources_view catalogue) (domain_tenant_id (is_domain svc)) (domain_name (is_domain svc))
    (import_deletions svc i n m items k)"
proof (induction items arbitrary: k)
  case (Cons item items)
  then show ?case unfolding import_deletions.simps svc(1) Let_def
    by (intro only_owner_bind only_owner_then only_owner_basic repository_own deletion_own deletion_quiet_own [OF svc(2)])
qed (simp add: only_owner_rules)

text \<open>An import, however it ends, changes nothing outside its tenant and domain.\<close>

lemma execute_own:
  assumes svc: "is_repository svc = repo" "index_quiet (is_vector_index svc)" "deletion_quiet (is_vector_index svc)"
  shows "only_owner good (sources_view catalogue) (domain_tenant_id (is_domain svc)) (domain_name (is_domain svc))
    (execute_import svc reader)"
  unfolding execute_import_def import_body_def import_failure_def svc(1)
  by (intro only_owner_bind only_owner_then only_owner_basic only_owner_if only_owner_catch repository_own
      import_sources_own [OF svc(1,2)] import_relationships_own [OF svc(1)] import_deletions_own [OF svc(1,3)])

subsection \<open>What a returned import has done\<close>

lemma import_sources_count:
  "import_sources svc i items n w = (Inr n', w') \<Longrightarrow> n' = n + int (length items) \<and> list_all is_ok items"
proof (induction items arbitrary: n w)
  case (Cons item items)
  then show ?case by (fastforce simp: prog_simps)
qed (simp add: sreturn_def)

lemma good_step: "only_owner good view t d m \<Longrightarrow> good w \<Longrightarrow> m w = (r, w') \<Longrightarrow> good w'"
  by (blast dest: only_ownerD)

definition published_commands :: "'w \<Rightarrow> ingestion_command result list \<Rightarrow> bool" where
  "published_commands w items \<longleftrightarrow>
     (\<forall>c. Inr c \<in> set items \<longrightarrow> catalogue w (command_key c) = Some (ing_source_version c))"

lemma import_relationships_result:
  assumes "is_repository svc = repo" "good w" "import_relationships svc i n items m w = (Inr m', w')"
  shows "good w' \<and> catalogue w' = catalogue w \<and> published_commands w' items \<and> list_all is_ok items \<and>
    m' = m + sum_list (map (\<lambda>item. int (length (ing_relationships (projr item)))) items)"
  using assms(2,3)
proof (induction items arbitrary: m w)
  case (Cons item items)
  from Cons.prems(2) obtain c w1 w2 where c: "item = Inr c"
    "ir_replace_relationships repo c w = (Inr (), w1)"
    "ir_update_import repo i IMPORT_RELATING n (m + int (length (ing_relationships c))) 0 w1 = (Inr (), w2)"
    "import_relationships svc i n items (m + int (length (ing_relationships c))) w2 = (Inr m', w')"
    by (auto simp: prog_simps assms(1) Let_def)
  from relationships [OF Cons.prems(1) c(2)] have 1: "good w1" "catalogue w1 = catalogue w"
    "catalogue w (command_key c) = Some (ing_source_version c)" by auto
  from updating [OF 1(1) c(3)] have 2: "good w2" "catalogue w2 = catalogue w1" by auto
  from Cons.IH [OF 2(1) c(4)] 1 2 c(1) show ?case by (auto simp: published_commands_def)
qed (simp add: sreturn_def published_commands_def)

lemma import_deletions_result:
  assumes "is_repository svc = repo" "deletion_quiet (is_vector_index svc)" "good w"
    "import_deletions svc i n m items k w = (Inr k', w')"
  shows "good w' \<and> list_all is_ok items \<and> k' = k + int (length items) \<and>
    catalogue w' = (\<lambda>key. if \<exists>s. Inr s \<in> set items \<and>
      key = source_key_of (domain_tenant_id (is_domain svc)) (domain_name (is_domain svc)) s then None else catalogue w key)"
  using assms(3,4)
proof (induction items arbitrary: k w)
  case (Cons item items)
  let ?d = "is_domain svc"
  from Cons.prems(2) obtain s w1 w2 w3 where s: "item = Inr s"
    "vx_delete_source (is_vector_index svc) (domain_collection ?d) (domain_name ?d) (domain_tenant_id ?d) s w = (Inr (), w1)"
    "ir_delete_source repo (domain_name ?d) (domain_tenant_id ?d) s w1 = (Inr (), w2)"
    "ir_update_import repo i IMPORT_DELETING n m (k + 1) w2 = (Inr (), w3)"
    "import_deletions svc i n m items (k + 1) w3 = (Inr k', w')"
    by (auto simp: prog_simps assms(1) Let_def)
  from assms(2) Cons.prems(1) s(2) have 1: "good w1" "catalogue w1 = catalogue w" by (auto simp: deletion_quiet_def)
  from deletion [OF 1(1) s(3)] have 2: "good w2"
    "catalogue w2 = (catalogue w1)(source_key_of (domain_tenant_id ?d) (domain_name ?d) s := None)" by auto
  from updating [OF 2(1) s(4)] have 3: "good w3" "catalogue w3 = catalogue w2" by auto
  from Cons.IH [OF 3(1) s(5)] 1 2 3 s(1) show ?case by (auto simp: fun_eq_iff)
qed (simp add: sreturn_def)

text \<open>
  A returned import is completed. Unless it was completed before, everything the reader yields was
  processed and counted, the sources to delete are not published, and every other source with a
  relationship command is published at the version of that command.
\<close>

lemma execute_import_result:
  assumes svc: "is_repository svc = repo" "index_quiet (is_vector_index svc)" "deletion_quiet (is_vector_index svc)"
    and w: "good w" "execute_import svc reader w = (Inr run, w')"
  obtains (before) request where "ir_start_import repo request w = (Inr run, w')" "irun_status run = IMPORT_COMPLETED"
  | (now) "irun_status run = IMPORT_COMPLETED"
      "list_all is_ok (rd_source_commands reader)" "list_all is_ok (rd_relationship_commands reader)"
      "list_all is_ok (rd_deletions reader)"
      "irun_indexed_sources run = int (length (rd_source_commands reader))"
      "irun_published_relationships run =
         sum_list (map (\<lambda>item. int (length (ing_relationships (projr item)))) (rd_relationship_commands reader))"
      "irun_deleted_sources run = int (length (rd_deletions reader))"
      "\<And>s. Inr s \<in> set (rd_deletions reader) \<Longrightarrow>
         catalogue w' (source_key_of (domain_tenant_id (is_domain svc)) (domain_name (is_domain svc)) s) = None"
      "\<And>c. Inr c \<in> set (rd_relationship_commands reader) \<Longrightarrow>
         (\<forall>s. Inr s \<in> set (rd_deletions reader) \<longrightarrow>
            command_key c \<noteq> source_key_of (domain_tenant_id (is_domain svc)) (domain_name (is_domain svc)) s) \<Longrightarrow>
         catalogue w' (command_key c) = Some (ing_source_version c)"
proof -
  from w(2) obtain request started w1 where
    st: "rd_prepare reader (domain_name (is_domain svc)) (domain_tenant_id (is_domain svc)) = Inr request"
      "ir_start_import repo request w = (Inr started, w1)"
    and rest: "(if irun_status started = IMPORT_COMPLETED then sreturn started
       else sthen (scatch (import_body svc reader (ireq_import_id request)) (import_failure svc (ireq_import_id request)))
         (ir_load_import repo (ireq_import_id request) (ireq_tenant_id request))) w1 = (Inr run, w')"
    unfolding execute_import_def svc(1) by (auto simp: sbind_eq_Inr slift_eq)
  show ?thesis
  proof (cases "irun_status started = IMPORT_COMPLETED")
    case True
    with rest st(2) before show ?thesis by (simp add: sreturn_def)
  next
    case False
    let ?i = "ireq_import_id request" and ?d = "is_domain svc"
    obtain w2 where body: "scatch (import_body svc reader ?i) (import_failure svc ?i) w1 = (Inr (), w2)"
      and ld: "ir_load_import repo ?i (ireq_tenant_id request) w2 = (Inr run, w')"
      using rest False by (auto simp: prog_simps)
    have "import_body svc reader ?i w1 = (Inr (), w2)"
      using body by (auto simp: scatch_def import_failure_def sthen_def sbind_def sraise_def split: sum.splits prod.splits)
    then obtain n m k wa wb wc wd we where
      src: "import_sources svc ?i (rd_source_commands reader) 0 w1 = (Inr n, wa)"
      and u1: "ir_update_import repo ?i IMPORT_RELATING n 0 0 wa = (Inr (), wb)"
      and rel: "import_relationships svc ?i n (rd_relationship_commands reader) 0 wb = (Inr m, wc)"
      and u2: "ir_update_import repo ?i IMPORT_DELETING n m 0 wc = (Inr (), wd)"
      and del: "import_deletions svc ?i n m (rd_deletions reader) 0 wd = (Inr k, we)"
      and u3: "ir_update_import repo ?i IMPORT_COMPLETED n m k we = (Inr (), w2)"
      by (auto simp: import_body_def prog_simps svc(1))
    have "good w1" using starting [OF w(1) st(2)] by blast
    then have "good wa" using good_step [OF import_sources_own [OF svc(1,2)] _ src] by blast
    with updating [OF _ u1] have wb: "good wb" by blast
    from import_relationships_result [OF svc(1) wb rel] have wc: "good wc" "published_commands wc (rd_relationship_commands reader)"
      "list_all is_ok (rd_relationship_commands reader)"
      "m = sum_list (map (\<lambda>item. int (length (ing_relationships (projr item)))) (rd_relationship_commands reader))" by auto
    from updating [OF wc(1) u2] have wd: "good wd" "catalogue wd = catalogue wc" by auto
    note gone = import_deletions_result [OF svc(1,3) wd(1) del]
    from updating [OF _ u3] gone have up: "good w2" "catalogue w2 = catalogue we" "find_run we ?i \<noteq> None"
      "find_run w2 ?i = map_option (updated_run IMPORT_COMPLETED n m k) (find_run we ?i)" by auto
    from loading [OF up(1) ld] up(3,4) have run: "w' = w2" "irun_status run = IMPORT_COMPLETED"
      "irun_indexed_sources run = n" "irun_published_relationships run = m" "irun_deleted_sources run = k"
      by (auto simp: updated_run_def)
    from import_sources_count [OF src] run wc gone up(2) wd(2) show ?thesis
      by (intro now) (auto simp: published_commands_def)
  qed
qed

text \<open>An import that raises after it started is on record as failed with the code of the exception.\<close>

lemma import_failure_result:
  assumes "is_repository svc = repo" "good w" "import_failure svc i e w = (r, w')"
  shows "good w' \<and> catalogue w' = catalogue w \<and> (\<exists>e'. r = Inl e' \<and>
    (e' = e \<and> find_run w' i = map_option (failed_run (exn_code e)
        (exn_message ''Unhandled dataset import failure'' e)) (find_run w i) \<and> find_run w i \<noteq> None \<or>
     ir_fail_import repo i (exn_code e) (exn_message ''Unhandled dataset import failure'' e) w = (Inl e', w')))"
proof -
  obtain r1 w1 where f: "ir_fail_import repo i (exn_code e) (exn_message ''Unhandled dataset import failure'' e) w = (r1, w1)"
    by (cases "ir_fail_import repo i (exn_code e) (exn_message ''Unhandled dataset import failure'' e) w")
  from failing [OF assms(2) f] have 1: "good w1" "catalogue w1 = catalogue w" "r1 = Inr () \<Longrightarrow>
    find_run w1 i = map_option (failed_run (exn_code e)
      (exn_message ''Unhandled dataset import failure'' e)) (find_run w i) \<and> find_run w i \<noteq> None" by blast+
  show ?thesis
  proof (cases r1)
    case (Inl e')
    with assms(1,3) f 1 show ?thesis by (auto simp: import_failure_def sthen_def sbind_def)
  next
    case (Inr u)
    with assms(1,3) f 1 show ?thesis by (auto simp: import_failure_def sthen_def sbind_def sraise_def)
  qed
qed

end

end
