(* ===== verification/Import_World.thy ===== *)
theory Import_World
  imports Dataset_Import
begin

text \<open>
  The PostgreSQL ingestion repository keeps the laws of the dataset import: import runs are apart from
  jobs and sources, publishing relationships needs the published version, and a deletion unpublishes.
\<close>

definition stored_run :: "document_db \<Rightarrow> string \<Rightarrow> dataset_import_run option" where
  "stored_run db i = find (\<lambda>r. irun_import_id r = i) (ddb_imports db)"

section \<open>Runs and sources are kept apart\<close>

text \<open>Calls that leave the jobs alone keep the store good when the runs stay distinct.\<close>

lemma good_frame:
  assumes "documents_good db" "documents_ok db'" "ddb_jobs db' = ddb_jobs db" "ddb_uuid db' = ddb_uuid db"
    "distinct (map irun_import_id (ddb_imports db'))"
  shows "documents_good db'"
  using assms by (simp add: documents_good_def)

lemma stage_imports: "stage jid c h db = (r, db') \<Longrightarrow> ddb_imports db' = ddb_imports db"
  by (erule stage_cases) (auto elim!: insert_content_Inr insert_job_Inr)

lemma mark_imports:
  "mark_indexing i db = (r, db') \<Longrightarrow> ddb_imports db' = ddb_imports db"
  "mark_failed i code msg db = (r, db') \<Longrightarrow> ddb_imports db' = ddb_imports db"
  "mark_indexed i db = (r, db') \<Longrightarrow> ddb_imports db' = ddb_imports db"
  unfolding mark_indexing_def mark_failed_def mark_indexed_def
    by (erule transition_cases transaction_cases;
      auto simp: rbind_eq_Inr Let_def update_jobs_def split: if_splits option.splits)+

lemma replaced_relationships:
  assumes "replace_relationships c db = (r, db')"
  obtains "db' = db" "r \<noteq> Inr ()"
  | rows where "db' = db\<lparr>ddb_relationships := rows\<rparr>" "published db (command_key c) = Some (ing_source_version c)"
proof -
  from assms show ?thesis unfolding replace_relationships_def
  proof (rule transaction_cases)
    fix x assume b: "r = Inr x" "rbind (bound_texts [ing_tenant_id c, ing_domain c, ing_source_id c]) (\<lambda>_.
         if (case current_source db (command_key c) of None \<Rightarrow> True
             | Some r \<Rightarrow> srow_version r \<noteq> ing_source_version c)
         then Inl (Known ConflictError ''Relationships can only be published for the active source version'')
         else
           rbind (rfold (publish_relationship c) (ing_relationships c)
             (db\<lparr>ddb_relationships := filter (\<lambda>r. \<not> (rrow_owner r = command_key c \<and>
                rrow_version r = ing_source_version c)) (ddb_relationships db)\<rparr>)) (\<lambda>db. Inr ((), db))) = Inr (x, db')"
    then obtain s where s: "current_source db (command_key c) = Some s" "srow_version s = ing_source_version c"
      "rfold (publish_relationship c) (ing_relationships c)
             (db\<lparr>ddb_relationships := filter (\<lambda>r. \<not> (rrow_owner r = command_key c \<and>
                rrow_version r = ing_source_version c)) (ddb_relationships db)\<rparr>) = Inr db'"
      by (auto simp: rbind_eq_Inr split: if_splits option.splits)
    from s(3) obtain rows where "db' = db\<lparr>ddb_relationships := rows\<rparr>"
      by (rule insert_relationships_Inr) (auto intro: publish_relationship_Inr)
    then show ?thesis using that(2) s(1,2) by (simp add: published_def)
  qed (use that(1) in auto)
qed

lemma replace_good:
  assumes "documents_good db" "replace_relationships c db = (r, db')"
  shows "documents_good db' \<and> published db' = published db \<and> stored_run db' = stored_run db \<and>
    (r = Inr () \<longrightarrow> published db (command_key c) = Some (ing_source_version c))"
proof -
  have "documents_ok db'" using document_step_ok [OF replace_step [OF assms(2)] documents_goodD(1) [OF assms(1)]] .
  from assms(2) show ?thesis
  proof (rule replaced_relationships)
    fix rows assume e: "db' = db\<lparr>ddb_relationships := rows\<rparr>" "published db (command_key c) = Some (ing_source_version c)"
    have "documents_good db'"
      by (rule good_frame [OF assms(1) \<open>documents_ok db'\<close>]) (simp_all add: e(1) documents_goodD(4) [OF assms(1)])
    moreover have "published db' = published db" by (rule published_same) (simp add: e(1))
    ultimately show ?thesis using e by (simp add: stored_run_def fun_eq_iff)
  qed (use assms(1) in simp)
qed

lemma delete_good:
  assumes "documents_good db" "delete_source d t s db = (r, db')"
  shows "documents_good db' \<and> stored_run db' = stored_run db \<and>
    published db' = (if r = Inr () then (published db)(source_key_of t d s := None) else published db)"
proof -
  have "documents_ok db'" using document_step_ok [OF source_deletion_step [OF assms(2)] documents_goodD(1) [OF assms(1)]] .
  from assms(2) show ?thesis unfolding delete_source_def
  proof (rule transaction_cases)
    fix x assume x: "r = Inr x" "rbind (bound_texts [t, d, s]) (\<lambda>_.
         Inr ((), db\<lparr>ddb_relationships := filter (\<lambda>r. \<not> (key_tenant (rrow_owner r) = t \<and>
                       key_domain (rrow_owner r) = d \<and>
                       (rrow_from_source r = s \<or> rrow_to_source r = s))) (ddb_relationships db),
                     ddb_sources := filter (\<lambda>r. srow_key r \<noteq> source_key_of t d s)
                       (ddb_sources db)\<rparr>)) = Inr (x, db')"
    then have e: "ddb_sources db' = filter (\<lambda>r. srow_key r \<noteq> source_key_of t d s) (ddb_sources db)"
      "ddb_jobs db' = ddb_jobs db" "ddb_uuid db' = ddb_uuid db" "ddb_imports db' = ddb_imports db"
      by (auto simp: rbind_eq_Inr)
    have "documents_good db'"
      by (rule good_frame [OF assms(1) \<open>documents_ok db'\<close>]) (simp_all add: e documents_goodD(4) [OF assms(1)])
    with published_removed [OF e(1)] x(1) e(4) show ?thesis by (simp add: stored_run_def fun_eq_iff)
  qed (use assms(1) in auto)
qed

section \<open>Import runs\<close>

lemma runs_frame:
  assumes "documents_good db" "db' = db\<lparr>ddb_imports := rows\<rparr>" "distinct (map irun_import_id rows)"
  shows "documents_good db' \<and> published db' = published db"
  using assms by (auto simp: documents_good_def documents_ok_def published_def current_source_def fun_eq_iff)

lemma dataset_import_run_post_init_id: "dataset_import_run_post_init r = Inr r' \<Longrightarrow> r' = r"
  by (auto simp: dataset_import_run_post_init_def rbind_eq_Inr split: if_splits)

lemma start_import_good:
  assumes "documents_good db" "start_import q db = (r, db')"
  shows "documents_good db' \<and> published db' = published db"
  using assms(2) unfolding start_import_def
proof (rule transaction_then_cases)
  fix x assume b: "rbind (bound_texts [ireq_import_id q]) (\<lambda>_.
         case find (\<lambda>r. irun_import_id r = ireq_import_id q) (ddb_imports db) of
           Some row \<Rightarrow>
             rbind (dataset_import_run_post_init row) (\<lambda>run.
               if irun_domain run \<noteq> ireq_domain q \<or> irun_tenant_id run \<noteq> ireq_tenant_id q \<or>
                  irun_dataset_hash run \<noteq> ireq_dataset_hash q
               then Inl (Known ConflictError ''Import identifier was already used for a different dataset'')
               else Inr (Some run, db))
         | None \<Rightarrow>
             rbind (bound_texts [ireq_tenant_id q, ireq_domain q, ireq_dataset_hash q]) (\<lambda>_.
             rbind (option_result (char64 (ireq_dataset_hash q))) (\<lambda>h.
               let row = new_import_run q h
               in if import_row_ok row then Inr (None, db\<lparr>ddb_imports := ddb_imports db @ [row]\<rparr>)
                  else Inl db_error))) = Inr (x, db')"
  show ?thesis
  proof (cases "find (\<lambda>r. irun_import_id r = ireq_import_id q) (ddb_imports db)")
    case (Some row)
    with b have "db' = db" by (auto simp: rbind_eq_Inr split: if_splits)
    with assms(1) show ?thesis by simp
  next
    case None
    with b obtain h where e: "db' = db\<lparr>ddb_imports := ddb_imports db @ [new_import_run q h]\<rparr>"
      by (auto simp: rbind_eq_Inr Let_def split: if_splits)
    from None have "ireq_import_id q \<notin> set (map irun_import_id (ddb_imports db))" by (auto simp: find_None_iff)
    with documents_goodD(4) [OF assms(1)] show ?thesis
      by (intro runs_frame [OF assms(1) e]) (simp add: new_import_run_def)
  qed
qed (use assms(1) in \<open>auto simp: sreturn_def slift_def split: option.splits\<close>)

text \<open>A run that was not stored before starts in the first phase.\<close>

lemma start_import_fresh:
  assumes "start_import q db = (Inr run, db')" "list_all (\<lambda>r. irun_status r \<noteq> IMPORT_COMPLETED) (ddb_imports db)"
  shows "irun_status run \<noteq> IMPORT_COMPLETED"
proof (cases "find (\<lambda>r. irun_import_id r = ireq_import_id q) (ddb_imports db)")
  case (Some row)
  with assms(1) have "run = row"
    by (auto simp: start_import_def sbind_eq_Inr transaction_Inr rbind_eq_Inr sreturn_def dest: dataset_import_run_post_init_id
        split: if_splits)
  with find_member [OF Some] assms(2) show ?thesis by (auto simp: list_all_iff)
next
  case None
  with assms(1) have "dataset_import_run_post_init (new_import_run q (ireq_dataset_hash q)) = Inr run"
    by (auto simp: start_import_def sbind_eq_Inr transaction_Inr rbind_eq_Inr slift_def Let_def split: if_splits)
  from dataset_import_run_post_init_id [OF this] show ?thesis by (simp add: new_import_run_def)
qed

lemma load_import_good:
  assumes "documents_good db" "load_import i t db = (r, db')"
  shows "db' = db \<and> (\<forall>run. r = Inr run \<longrightarrow> stored_run db i = Some run \<and> irun_tenant_id run = t)"
  using assms(2) unfolding load_import_def
proof (rule transaction_cases)
  fix run assume b: "r = Inr run" "rbind (bound_texts [i, t]) (\<lambda>_.
         case find (\<lambda>r. irun_import_id r = i \<and> irun_tenant_id r = t) (ddb_imports db) of
           None \<Rightarrow> Inl (Known IngestionError (''Dataset import does not exist: '' @ i))
         | Some row \<Rightarrow> rbind (dataset_import_run_post_init row) (\<lambda>run. Inr (run, db))) = Inr (run, db')"
  then obtain row where row: "find (\<lambda>r. irun_import_id r = i \<and> irun_tenant_id r = t) (ddb_imports db) = Some row"
    "dataset_import_run_post_init row = Inr run" "db' = db" by (auto simp: rbind_eq_Inr split: option.splits)
  from find_member [OF row(1)] dataset_import_run_post_init_id [OF row(2)]
  have m: "run \<in> set (ddb_imports db)" "irun_import_id run = i" "irun_tenant_id run = t" by auto
  have "distinct (map irun_import_id rs) \<Longrightarrow> run \<in> set rs \<Longrightarrow> find (\<lambda>r. irun_import_id r = i) rs = Some run" for rs
    using m(2) by (induction rs) auto
  with documents_goodD(4) [OF assms(1)] m b(1) row(3) show ?thesis by (simp add: stored_run_def)
qed simp

lemma update_imports_good:
  assumes "documents_good db" "update_imports i f db = Inr (n, db')" "\<And>r. irun_import_id (f r) = irun_import_id r"
  shows "documents_good db' \<and> published db' = published db \<and>
    (n = 1 \<longrightarrow> stored_run db' i = map_option f (stored_run db i) \<and> stored_run db i \<noteq> None)"
proof -
  let ?g = "\<lambda>r. if irun_import_id r = i then f r else r"
  from assms(2) have e: "db' = db\<lparr>ddb_imports := map ?g (ddb_imports db)\<rparr>"
    "n = length (filter (\<lambda>r. irun_import_id r = i) (ddb_imports db))"
    by (auto simp: update_imports_def Let_def split: if_splits)
  have ids: "map irun_import_id (map ?g (ddb_imports db)) = map irun_import_id (ddb_imports db)" using assms(3) by simp
  have "distinct (map irun_import_id (map ?g (ddb_imports db)))" unfolding ids by (rule documents_goodD(4) [OF assms(1)])
  note frame = runs_frame [OF assms(1) e(1) this]
  have "find (\<lambda>r. irun_import_id r = i) (map ?g rs) = map_option f (find (\<lambda>r. irun_import_id r = i) rs)" for rs
    using assms(3) by (induction rs) auto
  moreover have "find (\<lambda>r. irun_import_id r = i) (ddb_imports db) \<noteq> None" if "n = 1"
  proof
    assume "find (\<lambda>r. irun_import_id r = i) (ddb_imports db) = None"
    then have "filter (\<lambda>r. irun_import_id r = i) (ddb_imports db) = []" by (auto simp: find_None_iff filter_empty_conv)
    with that e(2) show False by simp
  qed
  ultimately show ?thesis using frame by (simp add: stored_run_def e(1))
qed

lemma update_import_good:
  assumes "documents_good db" "update_import i st n m k db = (r, db')"
  shows "documents_good db' \<and> published db' = published db \<and>
    (r = Inr () \<longrightarrow> stored_run db' i = map_option (updated_run st n m k) (stored_run db i) \<and> stored_run db i \<noteq> None)"
proof (cases r)
  case (Inl e)
  with assms show ?thesis by (auto simp: update_import_def dest: transition_Inl)
next
  case (Inr u)
  with assms(2) have "update_imports i (updated_run st n m k) db = Inr (1, db')"
    by (auto simp: update_import_def transition_Inr rbind_eq_Inr updated_run_def [abs_def])
  from update_imports_good [OF assms(1) this] Inr show ?thesis by (simp add: updated_run_def)
qed

lemma fail_import_good:
  assumes "documents_good db" "fail_import i code msg db = (r, db')"
  shows "documents_good db' \<and> published db' = published db \<and>
    (r = Inr () \<longrightarrow> stored_run db' i = map_option (failed_run code msg) (stored_run db i) \<and> stored_run db i \<noteq> None)"
proof (cases r)
  case (Inl e)
  with assms show ?thesis by (auto simp: fail_import_def dest: transition_Inl)
next
  case (Inr u)
  with assms(2) have "update_imports i (failed_run code msg) db = Inr (1, db')"
    by (auto simp: fail_import_def transition_Inr rbind_eq_Inr failed_run_def [abs_def])
  from update_imports_good [OF assms(1) this] Inr show ?thesis by (simp add: failed_run_def)
qed

section \<open>The laws\<close>

lemma postgres_import_selectors [simp]:
  "ir_replace_relationships postgres_ingestion c = on_db (replace_relationships c)"
  "ir_delete_source postgres_ingestion d t s = on_db (delete_source d t s)"
  "ir_start_import postgres_ingestion q = on_db (start_import q)"
  "ir_load_import postgres_ingestion i t = on_db (load_import i t)"
  "ir_update_import postgres_ingestion i st n m k = on_db (update_import i st n m k)"
  "ir_fail_import postgres_ingestion i code msg = on_db (fail_import i code msg)"
  by (simp_all add: postgres_ingestion_def)

lemma stored_run_same: "ddb_imports db' = ddb_imports db \<Longrightarrow> stored_run db' = stored_run db"
  by (simp add: stored_run_def fun_eq_iff)

interpretation pgd: dataset_import_laws postgres_ingestion world_good
  "\<lambda>w. stored_job (iw_db w)" "\<lambda>w. published (iw_db w)" "\<lambda>w. stored_run (iw_db w)"
proof (unfold_locales, goal_cases)
  case (1 w c h r w')
  then show ?case by (auto simp: world_stage_def elim!: on_db_cases intro!: stored_run_same dest: stage_imports)
next
  case (2 w i r w')
  then show ?case by (auto elim!: on_db_cases intro!: stored_run_same dest: mark_imports)
next
  case (3 w i r w')
  then show ?case by (auto elim!: on_db_cases intro!: stored_run_same dest: mark_imports)
next
  case (4 w i code msg r w')
  then show ?case by (auto elim!: on_db_cases intro!: stored_run_same dest: mark_imports)
next
  case (5 w c r w')
  then show ?case using replace_good by (auto simp: world_good_def elim!: on_db_cases)
next
  case (6 w d t s r w')
  from 6(2) obtain db' where "delete_source d t s (iw_db w) = (r, db')" "w' = w\<lparr>iw_db := db'\<rparr>"
    by (auto elim: on_db_cases)
  with delete_good [of "iw_db w" d t s r db'] 6(1) show ?case by (simp add: world_good_def)
next
  case (7 w q r w')
  from 7(2) obtain db' where "start_import q (iw_db w) = (r, db')" "w' = w\<lparr>iw_db := db'\<rparr>"
    by (auto elim: on_db_cases)
  with start_import_good [of "iw_db w" q r db'] 7(1) show ?case by (simp add: world_good_def)
next
  case (8 w i t r w')
  from 8(2) obtain db' where "load_import i t (iw_db w) = (r, db')" "w' = w\<lparr>iw_db := db'\<rparr>"
    by (auto elim: on_db_cases)
  with load_import_good [of "iw_db w" i t r db'] 8(1) show ?case by (simp add: world_good_def)
next
  case (9 w i st n m k r w')
  from 9(2) obtain db' where "update_import i st n m k (iw_db w) = (r, db')" "w' = w\<lparr>iw_db := db'\<rparr>"
    by (auto elim: on_db_cases)
  with update_import_good [of "iw_db w" i st n m k r db'] 9(1) show ?case by (simp add: world_good_def)
next
  case (10 w i code msg r w')
  from 10(2) obtain db' where "fail_import i code msg (iw_db w) = (r, db')" "w' = w\<lparr>iw_db := db'\<rparr>"
    by (auto elim: on_db_cases)
  with fail_import_good [of "iw_db w" i code msg r db'] 10(1) show ?case by (simp add: world_good_def)
qed

lemma world_deletion_quiet: "pgd.deletion_quiet (world_index vx)"
  unfolding pgd.deletion_quiet_def
  by (auto simp: world_index_def on_index_def world_good_def Let_def split: prod.splits)

end
