(* ===== verification/Ingestion_Roundtrip.thy ===== *)
theory Ingestion_Roundtrip
  imports Ingestion_World
begin

text \<open>
  Loading a job gives back the command it was staged with: the chunks in their order, the relationships
  in the order of their key, and every piece of metadata as a JSONB column returns it.
\<close>

section \<open>The command as it comes back\<close>

definition node_ok :: "graph_node_ref \<Rightarrow> bool" where
  "node_ok n \<longleftrightarrow> trimmed (node_source_id n) \<and> trimmed (node_chunk_id n)"

definition relationship_ok :: "graph_relationship \<Rightarrow> bool" where
  "relationship_ok r \<longleftrightarrow> node_ok (rel_from_node r) \<and> node_ok (rel_to_node r) \<and> trimmed (rel_type r)"

text \<open>A command whose parts went through their constructors.\<close>

definition command_parts_ok :: "ingestion_command \<Rightarrow> bool" where
  "command_parts_ok c \<longleftrightarrow> command_ok c \<and>
     (\<forall>x\<in>set (ing_chunks c). document_chunk_ok x \<and> document_security_ok (chunk_security x)) \<and>
     (\<forall>r\<in>set (ing_relationships c). relationship_ok r)"

definition stored_chunk :: "(mapping \<Rightarrow> mapping option) \<Rightarrow> document_chunk \<Rightarrow> document_chunk" where
  "stored_chunk jsonb x = x\<lparr>chunk_metadata := the (jsonb (chunk_metadata x))\<rparr>"

definition stored_relationship :: "(mapping \<Rightarrow> mapping option) \<Rightarrow> graph_relationship \<Rightarrow> graph_relationship" where
  "stored_relationship jsonb r = r\<lparr>rel_metadata := the (jsonb (rel_metadata r))\<rparr>"

definition stored_command :: "(mapping \<Rightarrow> mapping option) \<Rightarrow> ingestion_command \<Rightarrow> ingestion_command" where
  "stored_command jsonb c = c\<lparr>ing_metadata := the (jsonb (ing_metadata c)),
     ing_chunks := map (stored_chunk jsonb) (ing_chunks c),
     ing_relationships := map (stored_relationship jsonb) (sort_key relationship_key (ing_relationships c))\<rparr>"

lemma stored_keys [simp]:
  "relationship_key (stored_relationship jsonb r) = relationship_key r"
  "chunk_id (stored_chunk jsonb x) = chunk_id x" "chunk_domain (stored_chunk jsonb x) = chunk_domain x"
  "chunk_tenant_id (stored_chunk jsonb x) = chunk_tenant_id x"
  "chunk_source_id (stored_chunk jsonb x) = chunk_source_id x"
  "rel_from_node (stored_relationship jsonb r) = rel_from_node r"
  "rel_to_node (stored_relationship jsonb r) = rel_to_node r"
  by (simp_all add: stored_chunk_def stored_relationship_def relationship_key_def)

lemma distinct_sort_key: "distinct (map f (sort_key f xs)) \<longleftrightarrow> distinct (map f xs)"
  by (simp add: distinct_map)

lemma stored_command_ok: "command_ok c \<Longrightarrow> command_ok (stored_command jsonb c)"
  unfolding command_ok_def stored_command_def by (simp add: o_def distinct_sort_key)

lemma stored_command_record:
  "\<lparr>ing_idempotency_key = ing_idempotency_key c, ing_domain = ing_domain c, ing_tenant_id = ing_tenant_id c,
    ing_source_id = ing_source_id c, ing_source_version = ing_source_version c,
    ing_chunks = map (stored_chunk jsonb) (ing_chunks c),
    ing_relationships = map (stored_relationship jsonb) (sort_key relationship_key (ing_relationships c)),
    ing_source_uri = ing_source_uri c, ing_metadata = the (jsonb (ing_metadata c))\<rparr> = stored_command jsonb c"
  by (cases c) (simp add: stored_command_def)

section \<open>The rows of a staged version\<close>

lemma sort_key_map: "sort_key f (map g xs) = map g (sort_key (f \<circ> g) xs)"
proof -
  have "insort_key f (g x) (map g ys) = map g (insort_key (f \<circ> g) x ys)" for x ys
    by (induction ys) auto
  then show ?thesis by (induction xs) simp_all
qed

lemma chunk_rows_map:
  "chunk_rows_of jsonb c items ks \<Longrightarrow> ks = map (\<lambda>(i, x). chunk_row_of c i x (the (jsonb (chunk_metadata x)))) items"
  unfolding chunk_rows_of_def by (induction rule: list_all2_induct) auto

lemma relationship_rows_map:
  "relationship_rows_of jsonb c rs rows \<Longrightarrow>
   rows = map (\<lambda>r. relationship_of_command c r (the (jsonb (rel_metadata r)))) rs"
  unfolding relationship_rows_of_def by (induction rule: list_all2_induct) auto

lemma sorted_positions: "sort_key krow_position
    (map (\<lambda>(i, x). chunk_row_of c i x (g x)) (enumerate n xs)) = map (\<lambda>(i, x). chunk_row_of c i x (g x)) (enumerate n xs)"
proof (rule sort_key_id_if_sorted)
  have "map krow_position (map (\<lambda>(i, x). chunk_row_of c i x (g x)) (enumerate n xs)) = map fst (enumerate n xs)"
    unfolding map_map by (rule map_cong) (auto simp: chunk_row_of_def)
  then show "sorted (map krow_position (map (\<lambda>(i, x). chunk_row_of c i x (g x)) (enumerate n xs)))" by simp
qed

lemma chunk_back:
  assumes "document_chunk_ok x" "document_security_ok (chunk_security x)"
    "chunk_domain x = ing_domain c" "chunk_tenant_id x = ing_tenant_id c" "chunk_source_id x = ing_source_id c"
  shows "chunk_of_row (ing_tenant_id c) (ing_domain c) (ing_source_id c) (chunk_row_of c i x m) =
    Inr (x\<lparr>chunk_metadata := m\<rparr>)"
proof -
  have "chunk_row_ok (chunk_row_of c i x m)"
    using assms by (auto simp: chunk_row_ok_def chunk_row_of_def command_key_def document_chunk_ok_def
        document_security_ok_def)
  from chunk_of_row_ok [OF this] assms(3-5) show ?thesis
    by (simp add: chunk_row_of_def command_key_def row_chunk_def)
qed

lemma chunks_back:
  assumes "\<forall>x\<in>set xs. document_chunk_ok x \<and> document_security_ok (chunk_security x) \<and>
      chunk_domain x = ing_domain c \<and> chunk_tenant_id x = ing_tenant_id c \<and> chunk_source_id x = ing_source_id c"
  shows "rmap (chunk_of_row (ing_tenant_id c) (ing_domain c) (ing_source_id c))
      (map (\<lambda>(i, x). chunk_row_of c i x (the (jsonb (chunk_metadata x)))) (enumerate n xs)) =
    Inr (map (stored_chunk jsonb) xs)"
  using assms by (induction xs arbitrary: n) (simp_all add: chunk_back stored_chunk_def)

lemma relationship_back:
  "relationship_ok r \<Longrightarrow> relationship_of_row (relationship_of_command c r m) = Inr (r\<lparr>rel_metadata := m\<rparr>)"
  by (simp add: relationship_of_row_def relationship_of_command_def relationship_ok_def node_ok_def
      graph_node_ref_post_init_def graph_relationship_post_init_def node_ref_def)

lemma relationships_back:
  "\<forall>r\<in>set rs. relationship_ok r \<Longrightarrow>
   rmap relationship_of_row (map (\<lambda>r. relationship_of_command c r (the (jsonb (rel_metadata r)))) rs) =
   Inr (map (stored_relationship jsonb) rs)"
  by (induction rs) (simp_all add: relationship_back stored_relationship_def)

text \<open>Nothing of a version is in the tables before it is staged.\<close>

lemma fresh_version_empty:
  assumes "documents_ok db" "(k, v) \<notin> set (map version_key (ddb_versions db))"
  shows "filter (\<lambda>r. krow_key r = k \<and> krow_version r = v) (ddb_chunks db) = []"
    "filter (\<lambda>r. rrow_owner r = k \<and> rrow_version r = v) (ddb_relationships db) = []"
proof -
  show "filter (\<lambda>r. krow_key r = k \<and> krow_version r = v) (ddb_chunks db) = []"
    using documents_okD(7) [OF assms(1)] assms(2) by (auto simp: filter_empty_conv)
  show "filter (\<lambda>r. rrow_owner r = k \<and> rrow_version r = v) (ddb_relationships db) = []"
    using documents_okD(7,8) [OF assms(1)] assms(2)
    by (fastforce simp: filter_empty_conv relationship_anchored_def chunk_key_def)
qed

lemma inserted_content:
  assumes ok: "documents_ok db" and ins: "insert_content c h db = Inr db'"
    and fresh: "find (version_of (command_key c) (ing_source_version c)) (ddb_versions db) = None"
  shows "version_chunks db' (command_key c) (ing_source_version c) =
      map (\<lambda>(i, x). chunk_row_of c i x (the (ddb_jsonb db (chunk_metadata x)))) (enumerate 0 (ing_chunks c))"
    "version_relationships db' (command_key c) (ing_source_version c) =
      map (\<lambda>r. relationship_of_command c r (the (ddb_jsonb db (rel_metadata r))))
        (sort_key relationship_key (ing_relationships c))"
    "\<exists>v. find (version_of (command_key c) (ing_source_version c)) (ddb_versions db') = Some v \<and>
       vrow_uri v = ing_source_uri c \<and> vrow_metadata v = the (ddb_jsonb db (ing_metadata c))"
proof -
  from fresh have new: "(command_key c, ing_source_version c) \<notin> set (map version_key (ddb_versions db))"
    by (simp add: find_None_list_ex list_ex_version_of)
  from ins obtain m h' ks rs where m: "ddb_jsonb db (ing_metadata c) = Some m"
    and rows: "chunk_rows_of (ddb_jsonb db) c (enumerate 0 (ing_chunks c)) ks"
      "relationship_rows_of (ddb_jsonb db) c (ing_relationships c) rs"
    and db': "db' = db\<lparr>ddb_versions := ddb_versions db @
         [\<lparr>vrow_key = command_key c, vrow_version = ing_source_version c, vrow_uri = ing_source_uri c,
           vrow_payload_hash = h', vrow_metadata = m\<rparr>],
       ddb_chunks := ddb_chunks db @ ks, ddb_relationships := ddb_relationships db @ rs\<rparr>"
    by (elim insert_content_Inr)
  note ks = chunk_rows_map [OF rows(1)] and rs = relationship_rows_map [OF rows(2)]
  note empty = fresh_version_empty [OF ok new]
  have "filter (\<lambda>r. krow_key r = command_key c \<and> krow_version r = ing_source_version c) ks = ks"
    unfolding ks by (auto simp: filter_id_conv chunk_row_of_def)
  with empty(1) sorted_positions [of c "\<lambda>x. the (ddb_jsonb db (chunk_metadata x))" 0 "ing_chunks c"]
  show "version_chunks db' (command_key c) (ing_source_version c) =
      map (\<lambda>(i, x). chunk_row_of c i x (the (ddb_jsonb db (chunk_metadata x)))) (enumerate 0 (ing_chunks c))"
    by (simp add: version_chunks_def db' ks)
  have "filter (\<lambda>r. rrow_owner r = command_key c \<and> rrow_version r = ing_source_version c) rs = rs"
    unfolding rs by (auto simp: filter_id_conv relationship_of_command_def)
  moreover have "relationship_order \<circ> (\<lambda>r. relationship_of_command c r (the (ddb_jsonb db (rel_metadata r)))) =
      relationship_key"
    by (rule ext) (simp add: relationship_order_def relationship_of_command_def relationship_key_def)
  ultimately show "version_relationships db' (command_key c) (ing_source_version c) =
      map (\<lambda>r. relationship_of_command c r (the (ddb_jsonb db (rel_metadata r))))
        (sort_key relationship_key (ing_relationships c))"
    using empty(2) by (simp add: version_relationships_def db' rs sort_key_map)
  have "find P (xs @ ys) = (case find P xs of None \<Rightarrow> find P ys | Some x \<Rightarrow> Some x)"
    for P and xs ys :: "version_row list" by (induction xs) auto
  with fresh m show "\<exists>v. find (version_of (command_key c) (ing_source_version c)) (ddb_versions db') = Some v \<and>
       vrow_uri v = ing_source_uri c \<and> vrow_metadata v = the (ddb_jsonb db (ing_metadata c))"
    by (simp add: db' version_of_def)
qed

section \<open>Loading\<close>

lemma loaded_job:
  assumes good: "documents_good db'" and row: "stored_job db' i = Some row" and up: "ddb_up db'"
    and parts: "command_parts_ok c" and key: "jrow_key row = command_key c" "jrow_version row = ing_source_version c"
      "jrow_idempotency_key row = ing_idempotency_key c" "trimmed (jrow_payload_hash row)" "0 \<le> jrow_attempts row"
    and content: "version_chunks db' (command_key c) (ing_source_version c) =
        map (\<lambda>(i, x). chunk_row_of c i x (the (jsonb (chunk_metadata x)))) (enumerate 0 (ing_chunks c))"
      "version_relationships db' (command_key c) (ing_source_version c) =
        map (\<lambda>r. relationship_of_command c r (the (jsonb (rel_metadata r))))
          (sort_key relationship_key (ing_relationships c))"
      "\<exists>v. find (version_of (command_key c) (ing_source_version c)) (ddb_versions db') = Some v \<and>
         vrow_uri v = ing_source_uri c \<and> vrow_metadata v = the (jsonb (ing_metadata c))"
  shows "repo_load i db' = (Inr \<lparr>job_job_id = jrow_id row, job_payload_hash = jrow_payload_hash row,
    job_status = jrow_status row, job_command = stored_command jsonb c, job_attempts = jrow_attempts row\<rparr>, db')"
proof -
  from row obtain u where u: "ddb_uuid db' i = Some u" "find (\<lambda>j. jrow_id j = u) (ddb_jobs db') = Some row"
    by (auto simp: stored_job_def split: option.splits)
  from content(3) obtain v where v: "find (version_of (command_key c) (ing_source_version c)) (ddb_versions db') = Some v"
    "vrow_uri v = ing_source_uri c" "vrow_metadata v = the (jsonb (ing_metadata c))" by blast
  have "row \<in> set (ddb_jobs db')" using find_member [OF u(2)] by blast
  then have id: "trimmed (jrow_id row)" by (rule good_id_trimmed [OF good])
  have c: "command_ok c" using parts by (simp add: command_parts_ok_def)
  have "\<forall>x\<in>set (ing_chunks c). document_chunk_ok x \<and> document_security_ok (chunk_security x) \<and>
      chunk_domain x = ing_domain c \<and> chunk_tenant_id x = ing_tenant_id c \<and> chunk_source_id x = ing_source_id c"
    using parts c by (simp add: command_parts_ok_def command_ok_def)
  note chunks = chunks_back [OF this, of jsonb 0]
  have "\<forall>r\<in>set (sort_key relationship_key (ing_relationships c)). relationship_ok r"
    using parts by (simp add: command_parts_ok_def)
  note rels = relationships_back [OF this, of c jsonb]
  note raw = ingestion_command_post_init_idem [OF stored_command_ok [OF c], of jsonb]
  have "job_of_rows db' row v = Inr \<lparr>job_job_id = jrow_id row, job_payload_hash = jrow_payload_hash row,
    job_status = jrow_status row, job_command = stored_command jsonb c, job_attempts = jrow_attempts row\<rparr>"
    using key id chunks rels raw v(2,3) content(1,2)
    by (simp add: job_of_rows_def command_key_def stored_command_record ingestion_job_post_init_def)
  then have "load_with_cursor i None db' = Inr \<lparr>job_job_id = jrow_id row, job_payload_hash = jrow_payload_hash row,
    job_status = jrow_status row, job_command = stored_command jsonb c, job_attempts = jrow_attempts row\<rparr>"
    using u v(1) key(1,2) by (simp add: load_with_cursor_def option_result_def bound_texts_def texts_of_def storable_def)
  with up show ?thesis by (simp add: repo_load_def load_job_def transaction_def or_unavailable_def)
qed

end
