(* ===== verification/Ingestion_Properties.thy ===== *)
theory Ingestion_Properties
  imports Ingestion_Roundtrip Examples
begin

text \<open>
  The properties of document ingestion over PostgreSQL, with witnesses on a store that is given one
  command of one chunk.
\<close>

section \<open>A store and a command\<close>

definition demo_uuid_reader :: "string \<Rightarrow> string option" where
  "demo_uuid_reader s = (if trimmed s then Some s else None)"

definition empty_documents :: document_db where
  "empty_documents = \<lparr>ddb_versions = [], ddb_chunks = [], ddb_relationships = [], ddb_jobs = [], ddb_sources = [],
     ddb_imports = [], ddb_up = True, ddb_jsonb = Some, ddb_uuid = demo_uuid_reader\<rparr>"

definition demo_sum :: string where
  "demo_sum = replicate 64 (CHR ''a'')"

definition demo_page :: "string \<Rightarrow> document_chunk" where
  "demo_page i = \<lparr>chunk_id = i, chunk_domain = ''docs'', chunk_tenant_id = ''acme'', chunk_source_id = ''s1'',
     chunk_text = ''text'', chunk_source_uri = None, chunk_metadata = [(''k'', PInt 1)], chunk_acl_labels = [],
     chunk_security = \<lparr>doc_clearance_label = None, doc_classification_labels = []\<rparr>\<rparr>"

definition demo_page_link :: "string \<Rightarrow> string \<Rightarrow> graph_relationship" where
  "demo_page_link i j = \<lparr>rel_from_node = node_ref ''s1'' i, rel_to_node = node_ref ''s1'' j, rel_type = ''next'',
     rel_metadata = []\<rparr>"

definition demo_ingestion :: ingestion_command where
  "demo_ingestion = \<lparr>ing_idempotency_key = ''k1'', ing_domain = ''docs'', ing_tenant_id = ''acme'',
     ing_source_id = ''s1'', ing_source_version = ''v1'', ing_chunks = [demo_page ''p2'', demo_page ''p1''],
     ing_relationships = [demo_page_link ''p2'' ''p1'', demo_page_link ''p1'' ''p2''], ing_source_uri = None, ing_metadata = []\<rparr>"

lemma demo_uuid_texts: "uuid_texts demo_uuid_reader"
  by (simp add: uuid_texts_def demo_uuid_reader_def)

lemma empty_documents_good: "documents_good empty_documents"
  by (simp add: documents_good_def documents_ok_def empty_documents_def demo_uuid_texts)

lemma demo_ingestion_ok: "command_parts_ok demo_ingestion" "command_ok demo_ingestion"
  by code_simp+

section \<open>The tables\<close>

text \<open>
  C27: Whatever methods of the ingestion repository run, in any order and with the server going away in
  between, keys stay unique, every chunk and job belongs to a staged version, every relationship
  starts at a staged chunk of its owner, and every published source points to a finished job of it.
\<close>

theorem document_tables_ok:
  assumes "documents_reach db0 db" "documents_ok db0"
  shows "documents_ok db"
  using assms by (rule documents_reach_ok)

definition demo_staged :: document_db where
  "demo_staged = after_document_call (Stage (Inr ''j1'') demo_ingestion demo_sum) empty_documents"

lemma demo_staged_reach: "documents_reach empty_documents demo_staged"
  unfolding demo_staged_def by (rule documents_call [OF documents_start])

lemma document_tables_ok_witness:
  "documents_ok demo_staged \<and> map krow_chunk_id (ddb_chunks demo_staged) = [''p2'', ''p1''] \<and>
   map jrow_id (ddb_jobs demo_staged) = [''j1'']"
proof -
  have "documents_ok demo_staged"
    by (rule document_tables_ok [OF demo_staged_reach]) (use empty_documents_good in \<open>simp add: documents_good_def\<close>)
  moreover have "map krow_chunk_id (ddb_chunks demo_staged) = [''p2'', ''p1''] \<and>
   map jrow_id (ddb_jobs demo_staged) = [''j1'']" by code_simp
  ultimately show ?thesis by blast
qed

text \<open>
  The content of a staged version never changes: at any later moment its chunks, in their order, and
  its row are the same.
\<close>

theorem staged_content_immutable:
  assumes "documents_reach db db'" "documents_ok db" "(k, v) \<in> set (map version_key (ddb_versions db))"
  shows "version_chunks db' k v = version_chunks db k v \<and>
    find (version_of k v) (ddb_versions db') = find (version_of k v) (ddb_versions db)"
  using content_kept_version [OF documents_reach_kept] assms by blast

lemma staged_content_immutable_witness:
  "map krow_chunk_id (version_chunks (after_document_call (Delete_Source ''docs'' ''acme'' ''s1'') demo_staged)
     (source_key_of ''acme'' ''docs'' ''s1'') ''v1'') = [''p2'', ''p1'']"
proof -
  have "documents_ok demo_staged"
    using documents_reach_ok [OF demo_staged_reach] empty_documents_good by (simp add: documents_good_def)
  moreover have "(source_key_of ''acme'' ''docs'' ''s1'', ''v1'') \<in> set (map version_key (ddb_versions demo_staged))"
    "map krow_chunk_id (version_chunks demo_staged (source_key_of ''acme'' ''docs'' ''s1'') ''v1'') = [''p2'', ''p1'']"
    by code_simp+
  ultimately show ?thesis
    using staged_content_immutable [OF documents_call [OF documents_start], of demo_staged _ _
      "Delete_Source ''docs'' ''acme'' ''s1''"] by simp
qed

text \<open>
  C28: A job is never lost, keeps its source, version, request and payload hash, its attempts only grow,
  and once it is indexed nothing about it changes any more.
\<close>

theorem job_life:
  assumes "documents_reach db db'" "j \<in> set (ddb_jobs db)"
  shows "\<exists>j'\<in>set (ddb_jobs db'). jrow_id j' = jrow_id j \<and> jrow_key j' = jrow_key j \<and>
    jrow_version j' = jrow_version j \<and> jrow_idempotency_key j' = jrow_idempotency_key j \<and>
    jrow_payload_hash j' = jrow_payload_hash j \<and> jrow_attempts j \<le> jrow_attempts j' \<and>
    (jrow_status j = JOB_INDEXED \<longrightarrow> j' = j)"
proof -
  from documents_reach_kept [OF assms(1)] have "grown job_evolves (ddb_jobs db) (ddb_jobs db')"
    by (simp add: content_kept_def)
  from grown_mem [OF this assms(2)] obtain j' where "j' \<in> set (ddb_jobs db')" "job_evolves j j'" by blast
  then show ?thesis unfolding job_evolves_def by blast
qed

definition demo_job_row :: job_row where
  "demo_job_row = \<lparr>jrow_id = ''j1'', jrow_key = source_key_of ''acme'' ''docs'' ''s1'', jrow_version = ''v1'',
     jrow_idempotency_key = ''k1'', jrow_payload_hash = demo_sum, jrow_status = JOB_STAGED, jrow_attempts = 0,
     jrow_error_code = None, jrow_error_message = None\<rparr>"

lemma demo_staged_jobs: "ddb_jobs demo_staged = [demo_job_row]"
  by code_simp

lemma job_life_witness:
  "\<exists>j'\<in>set (ddb_jobs (after_document_call (Mark_Indexing ''j1'') demo_staged)).
     jrow_id j' = ''j1'' \<and> jrow_payload_hash j' = demo_sum"
  using job_life [OF documents_call [OF documents_start], of demo_job_row demo_staged "Mark_Indexing ''j1''"]
    demo_staged_jobs by (auto simp: demo_job_row_def)

section \<open>What is staged can be loaded\<close>

text \<open>The job a first \<open>stage\<close> of a version inserts.\<close>

lemma fresh_stage:
  assumes fresh: "find (request_job c) (ddb_jobs db) = None"
      "find (version_of (command_key c) (ing_source_version c)) (ddb_versions db) = None"
    and run: "stage (Inr i) c h db = (Inr job, db')"
  obtains db1 where "insert_content c h db = Inr db1" "insert_job i c h db1 = Inr db'"
    "ingestion_job_post_init \<lparr>job_job_id = i, job_payload_hash = h, job_status = JOB_STAGED, job_command = c,
       job_attempts = 0\<rparr> = Inr job" "ddb_up db"
proof -
  from run obtain out where "ddb_up db" "stage_body (Inr i) c h db = Inr (out, db')"
    "case out of Inl j \<Rightarrow> job = j | Inr i \<Rightarrow> ingestion_job_post_init
       \<lparr>job_job_id = i, job_payload_hash = h, job_status = JOB_STAGED, job_command = c, job_attempts = 0\<rparr> = Inr job"
    by (rule stage_InrE)
  with fresh that show ?thesis by (auto simp: stage_body_def rbind_eq_Inr Let_def)
qed

text \<open>
  C14: Staging and loading is a round trip: the job loaded under the identifier a fresh stage returned is
  that job with the command it was given, its chunks in their order, its relationships in the
  order of their keys and its metadata as the JSONB columns return it.
\<close>

theorem stage_load_roundtrip:
  assumes "documents_good db" "command_parts_ok c" "length h = 64" "trimmed h"
    "find (request_job c) (ddb_jobs db) = None"
    "find (version_of (command_key c) (ing_source_version c)) (ddb_versions db) = None"
    "stage (Inr i) c h db = (Inr job, db')"
  shows "\<exists>u. ddb_uuid db i = Some u \<and> repo_load (job_job_id job) db' =
    (Inr \<lparr>job_job_id = u, job_payload_hash = h, job_status = JOB_STAGED,
       job_command = stored_command (ddb_jsonb db) c, job_attempts = 0\<rparr>, db')"
proof -
  have c: "command_ok c" using assms(2) by (simp add: command_parts_ok_def)
  from assms(5-7) obtain db1 where st: "insert_content c h db = Inr db1" "insert_job i c h db1 = Inr db'"
    "ingestion_job_post_init \<lparr>job_job_id = i, job_payload_hash = h, job_status = JOB_STAGED, job_command = c,
       job_attempts = 0\<rparr> = Inr job" "ddb_up db" by (rule fresh_stage)
  have good: "documents_good db'" using stage_good [OF assms(1) c assms(7)] by blast
  from st(2) obtain u where u: "ddb_uuid db1 i = Some u" "db' = db1\<lparr>ddb_jobs := ddb_jobs db1 @
         [\<lparr>jrow_id = u, jrow_key = command_key c, jrow_version = ing_source_version c,
           jrow_idempotency_key = ing_idempotency_key c, jrow_payload_hash = h,
           jrow_status = JOB_STAGED, jrow_attempts = 0, jrow_error_code = None, jrow_error_message = None\<rparr>]\<rparr>"
    (is "_ = db1\<lparr>ddb_jobs := _ @ [?row]\<rparr>") using char64_exact [OF assms(3)] by (auto elim!: insert_job_Inr)
  have same: "ddb_uuid db1 = ddb_uuid db" "ddb_up db1 = ddb_up db" using st(1) by (auto elim!: insert_content_Inr)
  have id: "job_job_id job = i" using st(3) u same documents_goodD(2) [OF assms(1)]
    by (auto simp: ingestion_job_post_init_def rbind_eq_Inr required_Inr uuid_texts_def trimmed_def split: if_splits)
  have "?row \<in> set (ddb_jobs db')" using u(2) by simp
  from stored_job_mem [OF good this] have "stored_job db' u = Some ?row" by simp
  then have row: "stored_job db' i = Some ?row"
    using u documents_goodD(2) [OF good] by (simp add: stored_job_def uuid_texts_def)
  note content = inserted_content [OF documents_goodD(1) [OF assms(1)] st(1) assms(6)]
  have "repo_load i db' = (Inr \<lparr>job_job_id = jrow_id ?row, job_payload_hash = jrow_payload_hash ?row,
    job_status = jrow_status ?row, job_command = stored_command (ddb_jsonb db) c,
    job_attempts = jrow_attempts ?row\<rparr>, db')"
    by (rule loaded_job [OF good row _ assms(2)])
      (use content st(4) same(2) assms(4) in \<open>simp_all add: u(2) version_chunks_def version_relationships_def\<close>)
  with id u(1) same(1) show ?thesis by simp
qed

lemma demo_trimmed_sum: "trimmed demo_sum" "length demo_sum = 64"
  by code_simp+

lemma stage_load_roundtrip_witness:
  "fst (repo_load ''j1'' demo_staged) = Inr \<lparr>job_job_id = ''j1'', job_payload_hash = demo_sum, job_status = JOB_STAGED,
     job_command = demo_ingestion\<lparr>ing_relationships := [demo_page_link ''p1'' ''p2'', demo_page_link ''p2'' ''p1'']\<rparr>,
     job_attempts = 0\<rparr>"
proof -
  let ?job = "\<lparr>job_job_id = ''j1'', job_payload_hash = demo_sum, job_status = JOB_STAGED, job_command = demo_ingestion,
    job_attempts = 0\<rparr>"
  have "fst (stage (Inr ''j1'') demo_ingestion demo_sum empty_documents) = Inr ?job" by code_simp
  then have run: "stage (Inr ''j1'') demo_ingestion demo_sum empty_documents = (Inr ?job, demo_staged)"
    by (simp add: demo_staged_def prod_eq_iff)
  have jsonb: "ddb_jsonb empty_documents = Some" "ddb_jobs empty_documents = []" "ddb_versions empty_documents = []"
    "ddb_uuid empty_documents = demo_uuid_reader" by (simp_all add: empty_documents_def)
  have "stored_command Some demo_ingestion =
    demo_ingestion\<lparr>ing_relationships := [demo_page_link ''p1'' ''p2'', demo_page_link ''p2'' ''p1'']\<rparr>" by code_simp
  then show ?thesis
    using stage_load_roundtrip [OF empty_documents_good demo_ingestion_ok(1) demo_trimmed_sum(2,1) _ _ run]
    by (simp add: jsonb demo_uuid_reader_def split: if_splits)
qed

section \<open>The published versions\<close>

text \<open>What readers see of a store is a map from sources to versions; the methods are its updates.\<close>

datatype catalogue_event = Published source_key string | Removed source_key | Unchanged

fun apply_event :: "catalogue_event \<Rightarrow> (source_key \<Rightarrow> string option) \<Rightarrow> source_key \<Rightarrow> string option" where
  "apply_event (Published k v) m = m(k \<mapsto> v)"
| "apply_event (Removed k) m = m(k := None)"
| "apply_event Unchanged m = m"

definition call_event :: "document_call \<Rightarrow> document_db \<Rightarrow> catalogue_event" where
  "call_event call db = (case call of
     Mark_Indexed i \<Rightarrow>
       (case (fst (mark_indexed i db), stored_job db i) of
          (Inr _, Some j) \<Rightarrow> Published (jrow_key j) (jrow_version j)
        | _ \<Rightarrow> Unchanged)
   | Delete_Source d t s \<Rightarrow>
       (case fst (delete_source d t s db) of Inr _ \<Rightarrow> Removed (source_key_of t d s) | Inl _ \<Rightarrow> Unchanged)
   | _ \<Rightarrow> Unchanged)"

lemma sources_kept:
  assumes "\<And>i. call \<noteq> Mark_Indexed i" "\<And>d t s. call \<noteq> Delete_Source d t s"
  shows "ddb_sources (after_document_call call db) = ddb_sources db"
proof (cases call)
  case (Stage i c h)
  obtain r db' where run: "stage i c h db = (r, db')" by (cases "stage i c h db")
  then have "ddb_sources db' = ddb_sources db"
    by (rule stage_cases) (auto simp: insert_content_sources insert_job_sources)
  with Stage run show ?thesis by simp
next
  case (Mark_Indexing i)
  obtain r db' where run: "mark_indexing i db = (r, db')" by (cases "mark_indexing i db")
  then have "ddb_sources db' = ddb_sources db" unfolding mark_indexing_def
    by (rule transition_cases) (auto simp: rbind_eq_Inr Let_def update_jobs_def split: if_splits)
  with Mark_Indexing run show ?thesis by simp
next
  case (Mark_Failed i code msg)
  obtain r db' where run: "mark_failed i code msg db = (r, db')" by (cases "mark_failed i code msg db")
  then have "ddb_sources db' = ddb_sources db" unfolding mark_failed_def
    by (rule transition_cases) (auto simp: rbind_eq_Inr update_jobs_def)
  with Mark_Failed run show ?thesis by simp
next
  case (Replace_Relationships c)
  obtain r db' where run: "replace_relationships c db = (r, db')" by (cases "replace_relationships c db")
  then have "ddb_sources db' = ddb_sources db" unfolding replace_relationships_def
  proof (rule transaction_cases)
    fix x assume "rbind (bound_texts [ing_tenant_id c, ing_domain c, ing_source_id c]) (\<lambda>_.
         if (case current_source db (command_key c) of None \<Rightarrow> True
             | Some r \<Rightarrow> srow_version r \<noteq> ing_source_version c)
         then Inl (Known ConflictError ''Relationships can only be published for the active source version'')
         else
           rbind (rfold (publish_relationship c) (ing_relationships c)
             (db\<lparr>ddb_relationships := filter (\<lambda>r. \<not> (rrow_owner r = command_key c \<and>
                rrow_version r = ing_source_version c)) (ddb_relationships db)\<rparr>)) (\<lambda>db. Inr ((), db))) = Inr (x, db')"
    then show "ddb_sources db' = ddb_sources db"
      by (auto simp: rbind_eq_Inr split: if_splits elim!: insert_relationships_Inr
          intro: publish_relationship_Inr)
  qed simp
  with Replace_Relationships run show ?thesis by simp
next
  case (Start_Import q)
  obtain r db' where run: "start_import q db = (r, db')" by (cases "start_import q db")
  then have "ddb_sources db' = ddb_sources db" unfolding start_import_def
    by (rule transaction_then_cases)
      (auto simp: sreturn_def slift_def rbind_eq_Inr Let_def split: option.splits if_splits)
  with Start_Import run show ?thesis by simp
next
  case (Update_Import i st x y z)
  obtain r db' where run: "update_import i st x y z db = (r, db')" by (cases "update_import i st x y z db")
  then have "ddb_sources db' = ddb_sources db" unfolding update_import_def
    by (rule transition_cases) (auto simp: rbind_eq_Inr update_imports_def Let_def split: if_splits)
  with Update_Import run show ?thesis by simp
next
  case (Fail_Import i code msg)
  obtain r db' where run: "fail_import i code msg db = (r, db')" by (cases "fail_import i code msg db")
  then have "ddb_sources db' = ddb_sources db" unfolding fail_import_def
    by (rule transition_cases) (auto simp: rbind_eq_Inr update_imports_def Let_def split: if_splits)
  with Fail_Import run show ?thesis by simp
qed (use assms in auto)

lemma call_refines:
  assumes "documents_ok db"
  shows "published (after_document_call call db) = apply_event (call_event call db) (published db)"
proof (cases call)
  case (Mark_Indexed i)
  show ?thesis
  proof (cases "mark_indexed i db")
    case (Pair r db')
    show ?thesis
    proof (cases r)
      case (Inl e)
      with Pair have "db' = db" unfolding mark_indexed_def by (auto dest: transaction_Inl)
      with Pair Inl Mark_Indexed show ?thesis by (simp add: call_event_def)
    next
      case (Inr u)
      with Pair have "mark_indexed i db = (Inr u, db')" by simp
      with assms show ?thesis
        by (rule mark_indexed_cases) (use Mark_Indexed Pair Inr in \<open>simp add: call_event_def\<close>)
    qed
  qed
next
  case (Delete_Source d t s)
  obtain r db' where run: "delete_source d t s db = (r, db')" by (cases "delete_source d t s db")
  then have "published db' = (case r of Inl e \<Rightarrow> published db | Inr u \<Rightarrow> (published db)(source_key_of t d s := None))"
    unfolding delete_source_def
    by (rule transaction_cases)
      (auto simp: rbind_eq_Inr intro!: published_removed)
  with run Delete_Source show ?thesis by (simp add: call_event_def split: sum.split)
qed (use sources_kept [of call db] in \<open>auto simp: call_event_def intro!: published_same\<close>)

text \<open>The chunks readers join are those of the published versions.\<close>

lemma is_current_published: "documents_ok db \<Longrightarrow> is_current db k v \<longleftrightarrow> published db k = Some v"
proof -
  have "distinct (map srow_key rows) \<Longrightarrow> list_ex (\<lambda>r. srow_key r = k \<and> srow_version r = v) rows \<longleftrightarrow>
      map_option srow_version (find (\<lambda>r. srow_key r = k) rows) = Some v" for rows
  proof (induction rows)
    case (Cons r rows)
    moreover have "\<not> list_ex (\<lambda>r. srow_key r = k \<and> srow_version r = v) rows" if "srow_key r = k"
      using Cons.prems that by (auto simp: list_ex_iff image_iff)
    ultimately show ?case by auto
  qed simp
  from this [OF documents_okD(6)] show "documents_ok db \<Longrightarrow> ?thesis"
    by (simp add: is_current_def published_def current_source_def)
qed

fun run_calls :: "document_call list \<Rightarrow> document_db \<Rightarrow> document_db" where
  "run_calls [] db = db"
| "run_calls (call # calls) db = run_calls calls (after_document_call call db)"

fun run_events :: "document_call list \<Rightarrow> document_db \<Rightarrow> catalogue_event list" where
  "run_events [] db = []"
| "run_events (call # calls) db = call_event call db # run_events calls (after_document_call call db)"

text \<open>
  C11: The tables implement a catalogue: along any sequence of method calls the map from sources to
  published versions changes exactly by the publications and removals the calls report, and the
  chunks joined for a domain are exactly those of the versions the catalogue holds.
\<close>

theorem catalogue_refinement:
  assumes "documents_ok db"
  shows "published (run_calls calls db) = fold apply_event (run_events calls db) (published db) \<and>
    current_chunks (run_calls calls db) t d = filter (\<lambda>c. key_tenant (krow_key c) = t \<and> key_domain (krow_key c) = d \<and>
      fold apply_event (run_events calls db) (published db) (krow_key c) = Some (krow_version c))
      (ddb_chunks (run_calls calls db))"
  using assms
proof (induction calls arbitrary: db)
  case Nil
  then show ?case by (simp add: current_chunks_def is_current_published)
next
  case (Cons call calls)
  have "documents_ok (after_document_call call db)"
    using document_step_ok [OF document_call_step] Cons.prems by blast
  from Cons.IH [OF this] call_refines [OF Cons.prems, of call] show ?case by simp
qed

lemma catalogue_refinement_witness:
  "map krow_chunk_id (current_chunks (run_calls [Stage (Inr ''j1'') demo_ingestion demo_sum, Mark_Indexing ''j1'',
     Mark_Indexed ''j1''] empty_documents) ''acme'' ''docs'') = [''p2'', ''p1'']"
proof -
  let ?calls = "[Stage (Inr ''j1'') demo_ingestion demo_sum, Mark_Indexing ''j1'', Mark_Indexed ''j1'']"
  have "run_events ?calls empty_documents =
    [Unchanged, Unchanged, Published (source_key_of ''acme'' ''docs'' ''s1'') ''v1'']"
    "map (\<lambda>c. (krow_key c, krow_version c, krow_chunk_id c)) (ddb_chunks (run_calls ?calls empty_documents)) =
      [(source_key_of ''acme'' ''docs'' ''s1'', ''v1'', ''p2''), (source_key_of ''acme'' ''docs'' ''s1'', ''v1'', ''p1'')]"
    by code_simp+
  with catalogue_refinement [of empty_documents ?calls "''acme''" "''docs''"] empty_documents_good show ?thesis
    by (auto simp: documents_good_def map_eq_Cons_conv)
qed

section \<open>Ingesting a document\<close>

text \<open>
  C10: An ingestion that returns reports a finished job of the service's own domain and tenant and has
  published at most the version of that job; one that raises, at whatever point, has published nothing.
\<close>

theorem ingest_publishes:
  assumes "is_repository svc = postgres_ingestion" "is_vector_index svc = world_index vx"
    "documents_good (iw_db w)" "command_ok c" "ingest svc c w = (r, w')"
  shows "documents_good (iw_db w') \<and> (case r of
      Inr res \<Rightarrow> ires_domain res = domain_name (is_domain svc) \<and> ires_tenant_id res = domain_tenant_id (is_domain svc) \<and>
        (\<exists>row. stored_job (iw_db w') (ires_job_id res) = Some row \<and> jrow_status row = JOB_INDEXED \<and>
           jrow_key row = source_key_of (ires_tenant_id res) (ires_domain res) (ires_source_id res) \<and>
           jrow_version row = ires_source_version res \<and>
           published (iw_db w') \<in> {published (iw_db w), (published (iw_db w))(jrow_key row \<mapsto> jrow_version row)})
    | Inl e \<Rightarrow> published (iw_db w') = published (iw_db w))"
  using pgi.ingest_result [OF assms(1) _ _ assms(4,5)] world_index_quiet [of vx] assms(2,3)
  by (simp add: world_good_def publishes_def)

definition demo_plain_domain :: domain_profile where
  "demo_plain_domain = demo_domain\<lparr>domain_security_model := security_model_none\<rparr>"

text \<open>An index that remembers the sources written to it, and one whose embedding service is away.\<close>

definition demo_index :: "string list vector_index_port" where
  "demo_index = \<lparr>vx_replace_source = (\<lambda>job coll i. (Inr (), ing_source_id (job_command job) # i)),
     vx_delete_source = (\<lambda>coll d t s i. (Inr (), removeAll s i)), vx_count = (\<lambda>coll d t i. (Inr (int (length i)), i))\<rparr>"

definition broken_index :: "string list vector_index_port" where
  "broken_index = demo_index\<lparr>vx_replace_source :=
     (\<lambda>job coll i. (Inl (Known DependencyUnavailableError ''Embedding service is unavailable''), i))\<rparr>"

definition demo_ingestion_service ::
    "string list vector_index_port \<Rightarrow> string list ingestion_world document_ingestion_service" where
  "demo_ingestion_service vx = \<lparr>is_domain = demo_plain_domain, is_repository = postgres_ingestion,
     is_vector_index = world_index vx, is_sha256 = (\<lambda>s. demo_sum), is_float_text = (\<lambda>q. ''1.5'')\<rparr>"

definition demo_ingestion_world :: "string list ingestion_world" where
  "demo_ingestion_world = \<lparr>iw_db = empty_documents, iw_ids = (\<lambda>n. Inr (if n = 0 then ''j1'' else ''j2'')),
     iw_staged = 0, iw_index = []\<rparr>"

definition demo_ingested :: "string list ingestion_world" where
  "demo_ingested = snd (ingest (demo_ingestion_service demo_index) demo_ingestion demo_ingestion_world)"

definition world_view ::
    "string list ingestion_world \<Rightarrow> string list \<times> bool \<times> job_row list \<times> source_row list" where
  "world_view w = (iw_index w, ddb_up (iw_db w), ddb_jobs (iw_db w), ddb_sources (iw_db w))"

definition demo_result :: ingestion_result where
  "demo_result = \<lparr>ires_job_id = ''j1'', ires_domain = ''docs'', ires_tenant_id = ''acme'', ires_source_id = ''s1'',
    ires_source_version = ''v1'', ires_status = JOB_INDEXED, ires_chunk_count = 2\<rparr>"

lemma demo_ingest:
  "map_prod id world_view (ingest (demo_ingestion_service demo_index) demo_ingestion demo_ingestion_world) =
   (Inr demo_result, [''s1''], True, [demo_job_row\<lparr>jrow_status := JOB_INDEXED, jrow_attempts := 1\<rparr>],
    [\<lparr>srow_key = source_key_of ''acme'' ''docs'' ''s1'', srow_version = ''v1'', srow_job_id = ''j1''\<rparr>])"
  by code_simp

lemma demo_ingested_view:
  "iw_index demo_ingested = [''s1'']" "ddb_up (iw_db demo_ingested)"
  "ddb_jobs (iw_db demo_ingested) = [demo_job_row\<lparr>jrow_status := JOB_INDEXED, jrow_attempts := 1\<rparr>]"
  "ddb_sources (iw_db demo_ingested) =
     [\<lparr>srow_key = source_key_of ''acme'' ''docs'' ''s1'', srow_version = ''v1'', srow_job_id = ''j1''\<rparr>]"
  using demo_ingest by (simp_all add: demo_ingested_def world_view_def prod_eq_iff)

lemma ingest_publishes_witness:
  "documents_good (iw_db demo_ingested) \<and> iw_index demo_ingested = [''s1''] \<and>
   published (iw_db demo_ingested) (source_key_of ''acme'' ''docs'' ''s1'') = Some ''v1''"
proof -
  have "documents_good (iw_db demo_ingested)"
    using ingest_publishes [of "demo_ingestion_service demo_index" demo_index demo_ingestion_world demo_ingestion
      "fst (ingest (demo_ingestion_service demo_index) demo_ingestion demo_ingestion_world)" demo_ingested]
      empty_documents_good demo_ingestion_ok(2)
    by (simp add: demo_ingestion_service_def demo_ingestion_world_def demo_ingested_def prod_eq_iff)
  moreover have "iw_index demo_ingested = [''s1''] \<and>
    published (iw_db demo_ingested) (source_key_of ''acme'' ''docs'' ''s1'') = Some ''v1''"
    by (simp add: demo_ingested_view published_def current_source_def)
  ultimately show ?thesis by blast
qed

text \<open>
  C24: The outcome of processing a job of a reachable database is decided by the vector index: if the index
  raises, the same exception leaves the service, the job is failed with its code and message and nothing
  is published; if it returns, the job is indexed and its version published. The number of
  attempts is counted in both cases.
\<close>

theorem process_outcome:
  assumes svc: "is_repository svc = postgres_ingestion" "is_vector_index svc = world_index vx"
    and w: "documents_good (iw_db w)" "ddb_up (iw_db w)" "stored_job (iw_db w) (job_job_id job) = Some row"
      "job_matches row job" "job_status job \<noteq> JOB_INDEXED"
      "\<forall>j\<in>set (ddb_jobs (iw_db w)). sql_integer (jrow_attempts j + 1)"
    and vx: "vx_replace_source vx job (domain_collection (is_domain svc)) (iw_index w) = (out, ix)"
      "\<And>e. out = Inl e \<Longrightarrow> storable [exn_message ''Unhandled vector indexing failure'' e]"
  shows "\<exists>w'. process_job svc job w =
        ((case out of Inl e \<Rightarrow> Inl e | Inr _ \<Rightarrow> Inr (indexed_result job)), w') \<and> iw_index w' = ix \<and>
    stored_job (iw_db w') (job_job_id job) = Some (case out of
       Inl e \<Rightarrow> failed_job_row (exn_code e) (exn_message ''Unhandled vector indexing failure'' e) (indexing_row row)
     | Inr _ \<Rightarrow> (indexing_row row)\<lparr>jrow_status := JOB_INDEXED\<rparr>) \<and>
    published (iw_db w') = (case out of Inl e \<Rightarrow> published (iw_db w)
       | Inr _ \<Rightarrow> (published (iw_db w))(jrow_key row \<mapsto> jrow_version row))"
proof -
  let ?i = "job_job_id job" and ?fallback = "''Unhandled vector indexing failure''"
  have "jrow_status row \<noteq> JOB_INDEXED" using w(4,5) by (simp add: job_matches_def)
  from mark_indexing_returns [OF w(1-3) this w(6)] obtain db1 where
    1: "mark_indexing ?i (iw_db w) = (Inr (), db1)" "ddb_up db1" by metis
  from mark_indexing_Inr [OF w(1) 1(1)] w(3) have
    row1: "documents_good db1" "published db1 = published (iw_db w)" "stored_job db1 ?i = Some (indexing_row row)"
    by auto
  let ?w1 = "w\<lparr>iw_db := db1, iw_index := ix\<rparr>"
  have start: "ir_mark_indexing postgres_ingestion ?i w = (Inr (), w\<lparr>iw_db := db1\<rparr>)"
    using 1(1) by (simp add: on_db_def)
  have index: "vx_replace_source (world_index vx) job (domain_collection (is_domain svc)) (w\<lparr>iw_db := db1\<rparr>) = (out, ?w1)"
    using vx(1) by (simp add: world_index_def on_index_def)
  have st: "jrow_status (indexing_row row) = JOB_INDEXING" by (simp add: indexing_row_def)
  show ?thesis
  proof (cases out)
    case (Inl e)
    have "storable [exn_code e, exn_message ?fallback e]"
      using exn_code_storable [of e] vx(2) [OF Inl] by (simp add: storable_def)
    from mark_failed_returns [OF row1(1) 1(2) row1(3) st this] obtain db2 where
      2: "mark_failed ?i (exn_code e) (exn_message ?fallback e) db1 = (Inr (), db2)" by metis
    have "process_job svc job w = (Inl e, ?w1\<lparr>iw_db := db2\<rparr>)"
      using w(5) start index Inl 2 by (simp add: process_job_def index_job_def svc sthen_def sbind_def scatch_def
          on_db_def sraise_def)
    moreover have "stored_job db2 ?i = Some (failed_job_row (exn_code e) (exn_message ?fallback e) (indexing_row row))"
      "published db2 = published (iw_db w)"
      using mark_failed_Inr [OF row1(1) 2] row1(2,3) by auto
    ultimately show ?thesis using Inl by (intro exI [of _ "?w1\<lparr>iw_db := db2\<rparr>"]) simp
  next
    case (Inr u)
    from mark_indexed_returns [OF row1(1) 1(2) row1(3) st] obtain db2 where
      2: "mark_indexed ?i db1 = (Inr (), db2)" by metis
    have "process_job svc job w = (Inr (indexed_result job), ?w1\<lparr>iw_db := db2\<rparr>)"
      using w(5) start index Inr 2 ingestion_result_of_job [OF w(4)]
      by (simp add: process_job_def index_job_def svc sthen_def sbind_def scatch_def on_db_def slift_def)
    moreover have "stored_job db2 ?i = Some ((indexing_row row)\<lparr>jrow_status := JOB_INDEXED\<rparr>)"
      "published db2 = (published (iw_db w))(jrow_key row \<mapsto> jrow_version row)"
      using mark_indexed_Inr [OF row1(1) 2] row1(2,3) by (auto simp: indexing_row_def)
    ultimately show ?thesis using Inr by (intro exI [of _ "?w1\<lparr>iw_db := db2\<rparr>"]) simp
  qed
qed

definition demo_staged_world :: "string list ingestion_world" where
  "demo_staged_world = demo_ingestion_world\<lparr>iw_db := demo_staged\<rparr>"

definition demo_job :: ingestion_job where
  "demo_job = \<lparr>job_job_id = ''j1'', job_payload_hash = demo_sum, job_status = JOB_STAGED, job_command = demo_ingestion,
     job_attempts = 0\<rparr>"

lemma process_outcome_witness:
  "\<exists>w'. process_job (demo_ingestion_service broken_index) demo_job demo_staged_world =
      (Inl (Known DependencyUnavailableError ''Embedding service is unavailable''), w') \<and>
    map_option (\<lambda>j. (jrow_status j, jrow_attempts j, jrow_error_code j)) (stored_job (iw_db w') ''j1'') =
      Some (JOB_FAILED, 1, Some ''dependency_unavailable'')"
proof -
  have "documents_good demo_staged"
    using stage_good [OF empty_documents_good demo_ingestion_ok(2) surjective_pairing] by (simp add: demo_staged_def)
  moreover have "ddb_up demo_staged" "stored_job demo_staged ''j1'' = Some demo_job_row" "job_matches demo_job_row demo_job"
    by code_simp+
  ultimately obtain w' where
    "process_job (demo_ingestion_service broken_index) demo_job demo_staged_world =
      (Inl (Known DependencyUnavailableError ''Embedding service is unavailable''), w')"
    "stored_job (iw_db w') ''j1'' = Some (failed_job_row ''dependency_unavailable'' ''Embedding service is unavailable''
       (indexing_row demo_job_row))"
    using process_outcome [of "demo_ingestion_service broken_index" broken_index demo_staged_world demo_job demo_job_row
        "Inl (Known DependencyUnavailableError ''Embedding service is unavailable'')" "[]"]
    by (simp add: demo_ingestion_service_def demo_staged_world_def demo_job_def demo_staged_jobs broken_index_def
        demo_ingestion_world_def demo_job_row_def sql_integer_def storable_def del: fun_upd_apply) metis
  then show ?thesis by (simp add: failed_job_row_def indexing_row_def demo_job_row_def)
qed

text \<open>
  C25: Repeating a request whose job is indexed never touches the tables nor the vector index, and so cannot
  publish its version again: what it returns is the result of the indexed job, even when the source
  was deleted or moved to another version in between.
\<close>

theorem replay_changes_nothing:
  assumes "is_repository svc = postgres_ingestion" "documents_good (iw_db w)"
    "j \<in> set (ddb_jobs (iw_db w))" "request_job c j" "jrow_status j = JOB_INDEXED"
    "ingest svc c w = (Inr res, w')"
  shows "iw_db w' = iw_db w \<and> iw_index w' = iw_index w \<and> ires_job_id res = jrow_id j"
proof -
  obtain h where run: "sbind (world_stage c h) (process_job svc) w = (Inr res, w')"
    using assms(6) by (auto simp: ingest_def assms(1) sthen_def sbind_eq_Inr slift_eq)
  then obtain job w1 where st: "world_stage c h w = (Inr job, w1)" and go: "process_job svc job w1 = (Inr res, w')"
    by (auto simp: sbind_eq_Inr)
  from st obtain db' where s: "stage (iw_ids w (iw_staged w)) c h (iw_db w) = (Inr job, db')"
    "w1 = w\<lparr>iw_staged := iw_staged w + 1, iw_db := db'\<rparr>" by (auto simp: world_stage_def elim!: on_db_cases)
  have same: "j' = j" if "j' \<in> set (ddb_jobs (iw_db w))" "request_job c j'" for j'
    using documents_okD(5) [OF documents_goodD(1) [OF assms(2)]] assms(3,4) that
    by (auto simp: distinct_map inj_on_def job_request_def request_job_def)
  have "find (request_job c) (ddb_jobs (iw_db w)) \<noteq> None" using assms(3,4) by (auto simp: find_None_iff)
  then have found: "find (request_job c) (ddb_jobs (iw_db w)) = Some j" using same by (auto dest: find_member)
  from s(1) obtain out where b: "stage_body (iw_ids w (iw_staged w)) c h (iw_db w) = Inr (out, db')"
    "case out of Inl j \<Rightarrow> job = j | Inr i \<Rightarrow> ingestion_job_post_init
       \<lparr>job_job_id = i, job_payload_hash = h, job_status = JOB_STAGED, job_command = c, job_attempts = 0\<rparr> = Inr job"
    by (rule stage_InrE)
  from b found have e: "db' = iw_db w" "load_with_cursor (jrow_id j) None (iw_db w) = Inr job"
    by (auto simp: stage_body_def rbind_eq_Inr split: if_splits)
  from load_with_cursor_Inr [OF assms(2) e(2)] stored_job_mem [OF assms(2,3)]
  have m: "job_matches j job" "job_job_id job = jrow_id j" by auto
  moreover have "w' = w1" "res = indexed_result job"
    using go m(1) assms(5) ingestion_result_of_job [OF m(1)]
    by (auto simp: process_job_def job_matches_def slift_eq)
  ultimately show ?thesis using s(2) e(1) by (simp add: indexed_result_def Let_def)
qed

lemma demo_service_parts:
  "is_repository (demo_ingestion_service vx) = postgres_ingestion"
  "is_vector_index (demo_ingestion_service vx) = world_index vx" "iw_db demo_ingestion_world = empty_documents"
  by (simp_all add: demo_ingestion_service_def demo_ingestion_world_def)

lemma demo_ingested_good: "documents_good (iw_db demo_ingested)"
proof -
  have "world_good demo_ingested"
    unfolding demo_ingested_def
    by (rule pgi.ingest_result [THEN conjunct1, OF demo_service_parts(1) _ _ demo_ingestion_ok(2) surjective_pairing])
      (simp_all add: demo_service_parts world_index_quiet world_good_def empty_documents_good)
  then show ?thesis by (simp add: world_good_def)
qed

text \<open>A source that was ingested, deleted and ingested again stays deleted.\<close>

definition demo_deleted :: "string list ingestion_world" where
  "demo_deleted = snd (on_db (delete_source ''docs'' ''acme'' ''s1'') demo_ingested)"

lemma demo_deleted_db: "iw_db demo_deleted = (iw_db demo_ingested)\<lparr>ddb_relationships := filter (\<lambda>r. \<not> (key_tenant (rrow_owner r) = ''acme'' \<and>
    key_domain (rrow_owner r) = ''docs'' \<and> (rrow_from_source r = ''s1'' \<or> rrow_to_source r = ''s1'')))
    (ddb_relationships (iw_db demo_ingested)), ddb_sources := []\<rparr>"
  by (simp add: demo_deleted_def on_db_def delete_source_def transaction_def or_unavailable_def
      bound_texts_def storable_def demo_ingested_view)

lemma replay_changes_nothing_witness:
  "fst (ingest (demo_ingestion_service demo_index) demo_ingestion demo_deleted) = Inr demo_result \<and>
   published (iw_db (snd (ingest (demo_ingestion_service demo_index) demo_ingestion demo_deleted)))
     (source_key_of ''acme'' ''docs'' ''s1'') = None"
proof -
  let ?out = "ingest (demo_ingestion_service demo_index) demo_ingestion demo_deleted"
  have "iw_db demo_deleted = after_document_call (Delete_Source ''docs'' ''acme'' ''s1'') (iw_db demo_ingested)"
    by (simp add: demo_deleted_def on_db_def split: prod.split)
  then have "documents_ok (iw_db demo_deleted)"
    by (simp only:) (rule document_step_ok [OF document_call_step documents_goodD(1) [OF demo_ingested_good]])
  then have good: "documents_good (iw_db demo_deleted)"
    using demo_ingested_good by (simp add: documents_good_def demo_deleted_db)
  let ?j = "demo_job_row\<lparr>jrow_status := JOB_INDEXED, jrow_attempts := 1\<rparr>"
  have j: "?j \<in> set (ddb_jobs (iw_db demo_deleted))" "request_job demo_ingestion ?j" "jrow_status ?j = JOB_INDEXED"
    by (simp_all add: demo_deleted_db demo_ingested_view request_job_def demo_ingestion_def demo_job_row_def)
  have out: "fst ?out = Inr demo_result" by code_simp
  from replay_changes_nothing [OF demo_service_parts(1) good j, of demo_index demo_result "snd ?out"] out
  show ?thesis by (simp add: prod_eq_iff demo_deleted_db published_def current_source_def)
qed

section \<open>The hash and the boundary\<close>

lemma payload_of_order:
  assumes "command_ok c" "mset (ing_chunks c') = mset (ing_chunks c)"
    "mset (ing_relationships c') = mset (ing_relationships c)"
    "c' = c\<lparr>ing_idempotency_key := k, ing_chunks := ing_chunks c', ing_relationships := ing_relationships c',
       ing_metadata := ing_metadata c'\<rparr>"
  shows "payload_of c' = PDict [(''domain'', PStr (ing_domain c)), (''tenant_id'', PStr (ing_tenant_id c)),
     (''source_id'', PStr (ing_source_id c)), (''source_version'', PStr (ing_source_version c)),
     (''source_uri'', opt_py (ing_source_uri c)), (''metadata'', PDict (ing_metadata c')),
     (''chunks'', PList (map chunk_payload (sort_key chunk_id (ing_chunks c)))),
     (''relationships'', PList (map relationship_payload (sort_key relationship_key (ing_relationships c))))]"
proof -
  have d: "distinct (map chunk_id (ing_chunks c))" "distinct (map relationship_key (ing_relationships c))"
    using assms(1) by (simp_all add: command_ok_def)
  have "sort_key chunk_id (ing_chunks c') = sort_key chunk_id (ing_chunks c)"
    "sort_key relationship_key (ing_relationships c') = sort_key relationship_key (ing_relationships c)"
    using sort_key_unique [OF assms(2) [symmetric] d(1)] sort_key_unique [OF assms(3) [symmetric] d(2)] by simp_all
  moreover have "ing_domain c' = ing_domain c" "ing_tenant_id c' = ing_tenant_id c" "ing_source_id c' = ing_source_id c"
    "ing_source_version c' = ing_source_version c" "ing_source_uri c' = ing_source_uri c"
    by (subst assms(4), simp)+
  ultimately show ?thesis by (simp add: payload_of_def)
qed

text \<open>
  The payload hash does not depend on the idempotency key, nor on the order of the chunks, of the
  relationships and of the members of the metadata: such a request is a repetition of the same content.
\<close>

theorem payload_hash_order:
  assumes "command_ok c" "mset (ing_chunks c') = mset (ing_chunks c)"
    "mset (ing_relationships c') = mset (ing_relationships c)"
    "mset (ing_metadata c') = mset (ing_metadata c)" "distinct (map fst (ing_metadata c))"
    "c' = c\<lparr>ing_idempotency_key := k, ing_chunks := ing_chunks c', ing_relationships := ing_relationships c',
       ing_metadata := ing_metadata c'\<rparr>"
  shows "payload_hash svc c' = payload_hash svc c"
proof -
  have "c = c\<lparr>ing_idempotency_key := ing_idempotency_key c, ing_chunks := ing_chunks c,
    ing_relationships := ing_relationships c, ing_metadata := ing_metadata c\<rparr>" by simp
  note p = payload_of_order [OF assms(1-3,6)] payload_of_order [OF assms(1) refl refl this]
  have "json_text f (PDict (ing_metadata c')) = json_text f (PDict (ing_metadata c))" for f
    using json_text_order [OF assms(4) [symmetric] assms(5)] by simp
  then have "json_text f (payload_of c') = json_text f (payload_of c)" for f
    unfolding p by (simp only: json_text.simps(8) json_members.simps)
  then show ?thesis by (simp add: payload_hash_def canonical_json_def)
qed

lemma payload_hash_order_witness:
  "payload_hash (demo_ingestion_service demo_index) (demo_ingestion\<lparr>ing_idempotency_key := ''k2'',
     ing_chunks := [demo_page ''p1'', demo_page ''p2'']\<rparr>) =
   payload_hash (demo_ingestion_service demo_index) demo_ingestion"
  by (rule payload_hash_order [OF demo_ingestion_ok(2)]) (simp_all add: demo_ingestion_def)

text \<open>
  C34: The boundary check of the ingestion service accepts exactly the commands of the service's domain and
  tenant whose chunks carry allowed ACL labels and exactly the security metadata of the domain's model.
\<close>

theorem verify_boundary_exact:
  assumes "security_model_ok (domain_security_model d)"
    "\<forall>x\<in>set (ing_chunks c). document_security_ok (chunk_security x)"
  shows "verify_boundary d c = Inr () \<longleftrightarrow> ing_domain c = domain_name d \<and> ing_tenant_id c = domain_tenant_id d \<and>
    (\<forall>x\<in>set (ing_chunks c). set (chunk_acl_labels x) \<subseteq> set (domain_allowed_acl_labels d) \<and>
       (case model_kind (domain_security_model d) of
          NO_MODEL \<Rightarrow> doc_clearance_label (chunk_security x) = None \<and> doc_classification_labels (chunk_security x) = []
        | CLEARANCE_LEVEL \<Rightarrow> doc_classification_labels (chunk_security x) = [] \<and>
            (\<exists>m l. model_clearance_level (domain_security_model d) = Some m \<and>
               doc_clearance_label (chunk_security x) = Some l \<and> l \<in> set (map fst (levels m)))
        | CLASSIFICATION_LABELS \<Rightarrow> doc_clearance_label (chunk_security x) = None \<and>
            (\<exists>m. model_classification_labels (domain_security_model d) = Some m \<and>
               set (doc_classification_labels (chunk_security x)) \<subseteq> set (labels_universe_subset m))))"
proof -
  let ?model = "domain_security_model d"
  have chunks: "verify_chunks d xs = Inr () \<longleftrightarrow> (\<forall>x\<in>set xs. set (chunk_acl_labels x) \<subseteq> set (domain_allowed_acl_labels d) \<and>
      validate_document_security ?model (chunk_security x) = Inr ())" for xs
    by (induction xs) (auto simp: rbind_eq_Inr)
  have sec: "validate_document_security ?model s = Inr () \<longleftrightarrow> (case model_kind ?model of
          NO_MODEL \<Rightarrow> doc_clearance_label s = None \<and> doc_classification_labels s = []
        | CLEARANCE_LEVEL \<Rightarrow> doc_classification_labels s = [] \<and>
            (\<exists>m l. model_clearance_level ?model = Some m \<and> doc_clearance_label s = Some l \<and> l \<in> set (map fst (levels m)))
        | CLASSIFICATION_LABELS \<Rightarrow> doc_clearance_label s = None \<and>
            (\<exists>m. model_classification_labels ?model = Some m \<and>
               set (doc_classification_labels s) \<subseteq> set (labels_universe_subset m)))"
    if "document_security_ok s" for s
  proof -
    have v: "validation_as_violation msg r = Inr x \<longleftrightarrow> r = Inr x" for msg r and x :: 'x
      by (cases r) (auto simp: validation_as_violation_def)
    from assms(1) show ?thesis
    proof (cases rule: security_model_ok_cases)
      case none
      then show ?thesis by (simp add: validate_document_security_def)
    next
      case (clearance m)
      show ?thesis
      proof (cases "doc_clearance_label s")
        case None
        with clearance show ?thesis by (simp add: validate_document_security_def)
      next
        case (Some l)
        with that have "trimmed l" by (simp add: document_security_ok_def trimmed_opt_def)
        then have "(\<exists>v. clearance_value m l f = Inr v) \<longleftrightarrow> l \<in> set (map fst (levels m))" for f
          by (auto simp: clearance_value_def map_of_eq_None_iff split: option.split) (metis map_of_eq_None_iff option.simps(3))
        with Some clearance show ?thesis by (auto simp: validate_document_security_def rbind_eq_Inr v)
      qed
    next
      case (labels m)
      with that show ?thesis
        by (auto simp: validate_document_security_def rbind_eq_Inr v validate_labels_def Let_def
            document_security_ok_def list_diff_def filter_empty_conv split: if_splits)
    qed
  qed
  show ?thesis using assms(2) by (auto simp: verify_boundary_def chunks sec)
qed

lemma verify_boundary_exact_witness:
  "verify_boundary demo_plain_domain demo_ingestion = Inr () \<and>
   verify_boundary demo_plain_domain (demo_ingestion\<lparr>ing_tenant_id := ''other''\<rparr>) \<noteq> Inr ()"
proof -
  have s: "security_model_ok (domain_security_model demo_plain_domain)"
    "\<forall>x\<in>set (ing_chunks demo_ingestion). document_security_ok (chunk_security x)" by code_simp+
  moreover have "ing_domain demo_ingestion = domain_name demo_plain_domain"
    "ing_tenant_id demo_ingestion = domain_tenant_id demo_plain_domain"
    "domain_tenant_id demo_plain_domain \<noteq> ''other''"
    "model_kind (domain_security_model demo_plain_domain) = NO_MODEL"
    "\<forall>x\<in>set (ing_chunks demo_ingestion). chunk_acl_labels x = [] \<and> doc_clearance_label (chunk_security x) = None \<and>
       doc_classification_labels (chunk_security x) = []" by code_simp+
  ultimately show ?thesis
    using verify_boundary_exact [OF s] verify_boundary_exact [of demo_plain_domain "demo_ingestion\<lparr>ing_tenant_id := ''other''\<rparr>"]
    by simp
qed

end
