(* ===== verification/Import_Properties.thy ===== *)
theory Import_Properties
  imports Import_World Ingestion_Properties
begin

text \<open>
  The properties of the dataset import over PostgreSQL, with witnesses on an import that deletes the source
  of \<open>Ingestion_Properties\<close>.
\<close>

definition demo_request :: dataset_import_request where
  "demo_request = \<lparr>ireq_import_id = ''i1'', ireq_domain = ''docs'', ireq_tenant_id = ''acme'', ireq_dataset_hash = demo_sum,
     ireq_source_count = 1, ireq_chunk_count = 1, ireq_relationship_count = 0, ireq_deletion_count = 1\<rparr>"

definition demo_deleting_reader :: dataset_reader where
  "demo_deleting_reader = \<lparr>rd_prepare = (\<lambda>d t. Inr demo_request), rd_source_commands = [],
     rd_relationship_commands = [], rd_deletions = [Inr ''s1'']\<rparr>"

definition demo_import :: "dataset_import_run result \<times> string list ingestion_world" where
  "demo_import = execute_import (demo_ingestion_service demo_index) demo_deleting_reader demo_ingested"

lemma demo_import_view:
  "map_prod (map_sum id (\<lambda>r. (irun_status r, irun_deleted_sources r))) iw_index demo_import =
   (Inr (IMPORT_COMPLETED, 1), [])"
  by code_simp

text \<open>
  C26: A dataset import, whatever the reader yields and however the import ends, changes nothing of the
  published sources outside the tenant and domain of its service.
\<close>

theorem import_confined:
  assumes "is_repository svc = postgres_ingestion" "is_vector_index svc = world_index vx"
    "documents_good (iw_db w)" "execute_import svc reader w = (r, w')"
    "(t, d) \<noteq> (domain_tenant_id (is_domain svc), domain_name (is_domain svc))"
  shows "documents_good (iw_db w') \<and>
    published (iw_db w') (source_key_of t d s) = published (iw_db w) (source_key_of t d s)"
proof -
  have "pgi.index_quiet (is_vector_index svc)" "pgd.deletion_quiet (is_vector_index svc)"
    by (simp_all add: assms(2) world_index_quiet world_deletion_quiet)
  from only_ownerD [OF pgd.execute_own [OF assms(1) this] _ assms(4)] assms(3,5)
  have "world_good w'" "sources_view (\<lambda>w. published (iw_db w)) w' t d = sources_view (\<lambda>w. published (iw_db w)) w t d"
    by (auto simp: world_good_def)
  then show ?thesis by (auto simp: world_good_def sources_view_def fun_eq_iff)
qed

lemma import_confined_witness:
  "published (iw_db (snd demo_import)) (source_key_of ''other'' ''docs'' ''s1'') =
   published (iw_db demo_ingested) (source_key_of ''other'' ''docs'' ''s1'')"
proof -
  have "domain_tenant_id (is_domain (demo_ingestion_service demo_index)) = ''acme''" by code_simp
  then show ?thesis
    using import_confined [OF demo_service_parts(1,2) demo_ingested_good, of demo_index demo_deleting_reader
      "fst demo_import" "snd demo_import" "''other''" "''docs''" "''s1''"] by (simp add: demo_import_def)
qed



end
