(* ===== verification/Vector_Index.thy ===== *)
theory Vector_Index
  imports Ingestion_Service
begin

text \<open>
  \<open>infrastructure/weaviate.py\<close>: what is written to a collection of the vector index, the filter a search
  request is translated to, and the hits read back. The Weaviate client and the embedding service are
  parameters: records of the calls the code makes, over an abstract type of filters.
\<close>

section \<open>The client\<close>

text \<open>\<open>Filter.by_property(p).equal(v)\<close>, \<open>.contains_any(vs)\<close>, \<open>&\<close>, \<open>|\<close> and \<open>~\<close>; \<open>all_of\<close> is the conjunction.\<close>

record 'f filter_factory =
  filter_equal :: "string \<Rightarrow> py \<Rightarrow> 'f"
  filter_contains_any :: "string \<Rightarrow> string list \<Rightarrow> 'f"
  filter_and :: "'f \<Rightarrow> 'f \<Rightarrow> 'f"
  filter_or :: "'f \<Rightarrow> 'f \<Rightarrow> 'f"
  filter_not :: "'f \<Rightarrow> 'f"
  filter_all_of :: "'f list \<Rightarrow> 'f"

text \<open>
  The properties of a returned object by the types of the schema. A text is \<open>None\<close> when the property is
  absent and \<open>Some None\<close> when it is null.
\<close>

record weaviate_object =
  wo_chunk_id :: "string option option"
  wo_domain :: "string option option"
  wo_tenant_id :: "string option option"
  wo_source_id :: "string option option"
  wo_text :: "string option option"
  wo_source_uri :: "string option"
  wo_metadata_json :: "string option"
  wo_acl_labels :: "string list"
  wo_clearance_label :: "string option"
  wo_classification_labels :: "string list"
  wo_distance :: "rat option"
  wo_score :: "rat option"

text \<open>A property of a collection's configuration: its data type is one value or a list of values.\<close>

datatype data_type_value = One_Type string | Type_List "string list"

record schema_property =
  sp_name :: string
  sp_data_type :: data_type_value
  sp_tokenization :: "string option"

text \<open>
  The client, with the collection first. \<open>wc_installed\<close> says whether its modules can be imported, and
  \<open>wc_uuid5\<close> is \<open>weaviate.util.generate_uuid5\<close>.
\<close>

record ('w, 'f) weaviate_client =
  wc_installed :: bool
  wc_filters :: "'f filter_factory"
  wc_uuid5 :: "string \<Rightarrow> string"
  wc_is_ready :: "('w, py_exn, bool) prog"
  wc_exists :: "string \<Rightarrow> ('w, py_exn, bool) prog"
  wc_create :: "string \<Rightarrow> (string \<times> string \<times> string option) list \<Rightarrow> ('w, py_exn, unit) prog"
  wc_config :: "string \<Rightarrow> ('w, py_exn, schema_property list) prog"
  wc_delete_many :: "string \<Rightarrow> 'f \<Rightarrow> ('w, py_exn, unit) prog"
  wc_insert :: "string \<Rightarrow> string \<Rightarrow> mapping \<Rightarrow> rat list \<Rightarrow> ('w, py_exn, unit) prog"
  wc_total_count :: "string \<Rightarrow> 'f \<Rightarrow> ('w, py_exn, int) prog"
  wc_bm25 :: "string \<Rightarrow> string \<Rightarrow> int \<Rightarrow> 'f \<Rightarrow> ('w, py_exn, weaviate_object list) prog"
  wc_near_vector :: "string \<Rightarrow> rat list \<Rightarrow> int \<Rightarrow> 'f \<Rightarrow> ('w, py_exn, weaviate_object list) prog"
  wc_hybrid :: "string \<Rightarrow> string \<Rightarrow> rat list \<Rightarrow> int \<Rightarrow> 'f \<Rightarrow> ('w, py_exn, weaviate_object list) prog"

record 'w embedding_gateway =
  eg_embed_query :: "string \<Rightarrow> ('w, py_exn, rat list) prog"
  eg_embed_documents :: "string list \<Rightarrow> ('w, py_exn, rat list list) prog"
  eg_healthcheck :: "('w, py_exn, unit) prog"

text \<open>The adapter with \<open>json.loads\<close> and the text \<open>json\<close> gives to a \<open>float\<close>.\<close>

record ('w, 'f) vector_index =
  vi_client :: "('w, 'f) weaviate_client"
  vi_embeddings :: "'w embedding_gateway"
  vi_json_loads :: "string \<Rightarrow> py option"
  vi_float_text :: "rat \<Rightarrow> string"

definition not_installed :: py_exn where
  "not_installed = Known DependencyUnavailableError ''weaviate-client is not installed''"

definition import_client :: "('w, 'f) vector_index \<Rightarrow> ('w, py_exn, unit) prog" where
  "import_client vi = sguard (wc_installed (vi_client vi)) not_installed"

text \<open>\<open>except (DependencyUnavailableError, ProviderProtocolError): raise\<close>, any other becomes unavailable.\<close>

definition protocol_errors :: "py_exn \<Rightarrow> bool" where
  "protocol_errors e \<longleftrightarrow> is_class DependencyUnavailableError e \<or> is_class ProviderProtocolError e"

definition unavailable_unless ::
    "(py_exn \<Rightarrow> bool) \<Rightarrow> string \<Rightarrow> ('w, py_exn, 'a) prog \<Rightarrow> ('w, py_exn, 'a) prog" where
  "unavailable_unless keep message m =
     scatch m (\<lambda>e. sraise (if keep e then e else Known DependencyUnavailableError message))"

section \<open>The collection\<close>

definition collection_properties :: "(string \<times> string \<times> string option) list" where
  "collection_properties =
     [(''chunk_id'', ''text'', Some ''field''), (''domain'', ''text'', Some ''field''),
      (''tenant_id'', ''text'', Some ''field''), (''source_id'', ''text'', Some ''field''),
      (''source_version'', ''text'', Some ''field''), (''source_uri'', ''text'', Some ''field''),
      (''text'', ''text'', Some ''word''), (''metadata_json'', ''text'', Some ''word''),
      (''acl_labels'', ''text[]'', Some ''field''), (''acl_public'', ''bool'', None),
      (''clearance_label'', ''text'', Some ''field''), (''classification_labels'', ''text[]'', Some ''field'')]"

definition data_type_name :: "data_type_value \<Rightarrow> string" where
  "data_type_name value =
     (let name = (\<lambda>v. let normalized = py_lower v
                      in dict_get_or [(''text'', ''text''), (''text[]'', ''text[]''), (''text_array'', ''text[]''),
                           (''int'', ''int''), (''integer'', ''int''), (''boolean'', ''bool''), (''bool'', ''bool'')]
                           normalized normalized)
      in case value of One_Type v \<Rightarrow> name v | Type_List [v] \<Rightarrow> name v | Type_List _ \<Rightarrow> ''invalid'')"

definition tokenization_name :: "string option \<Rightarrow> string option" where
  "tokenization_name = map_option py_lower"

definition actual_properties :: "schema_property list \<Rightarrow> (string \<times> string \<times> string option) list" where
  "actual_properties ps =
     dict_of (map (\<lambda>p. (sp_name p, data_type_name (sp_data_type p), tokenization_name (sp_tokenization p))) ps)"

definition ensure_collection :: "('w, 'f) vector_index \<Rightarrow> string \<Rightarrow> ('w, py_exn, unit) prog" where
  "ensure_collection vi collection =
     (let client = vi_client vi
      in sthen (import_client vi)
         (sbind (unavailable_unless (\<lambda>e. False) ''Weaviate collection migration failed''
            (sbind (wc_exists client collection) (\<lambda>found.
             if \<not> found then sthen (wc_create client collection collection_properties) (sreturn None)
             else sbind (wc_config client collection) (\<lambda>ps. sreturn (Some (actual_properties ps))))))
           (\<lambda>actual. sguard (case actual of None \<Rightarrow> True | Some ps \<Rightarrow> set ps = set collection_properties)
              (Known DependencyUnavailableError (''Weaviate collection schema mismatch: '' @ collection)))))"

section \<open>Writing a source\<close>

definition source_filter :: "'f filter_factory \<Rightarrow> string \<Rightarrow> string \<Rightarrow> string \<Rightarrow> 'f" where
  "source_filter ff domain tenant source = filter_all_of ff
     [filter_equal ff ''domain'' (PStr domain), filter_equal ff ''tenant_id'' (PStr tenant),
      filter_equal ff ''source_id'' (PStr source)]"

definition object_name :: "ingestion_command \<Rightarrow> document_chunk \<Rightarrow> string" where
  "object_name c chunk =
     ing_tenant_id c @ '':'' @ ing_domain c @ '':'' @ ing_source_id c @ '':'' @ chunk_id chunk"

definition object_properties :: "string \<Rightarrow> string \<Rightarrow> document_chunk \<Rightarrow> mapping" where
  "object_properties version metadata_json chunk =
     [(''chunk_id'', PStr (chunk_id chunk)), (''domain'', PStr (chunk_domain chunk)),
      (''tenant_id'', PStr (chunk_tenant_id chunk)), (''source_id'', PStr (chunk_source_id chunk)),
      (''source_version'', PStr version), (''source_uri'', opt_py (chunk_source_uri chunk)),
      (''text'', PStr (chunk_text chunk)), (''metadata_json'', PStr metadata_json),
      (''acl_labels'', PList (map PStr (chunk_acl_labels chunk))),
      (''acl_public'', PBool (chunk_acl_labels chunk = [])),
      (''clearance_label'', opt_py (doc_clearance_label (chunk_security chunk))),
      (''classification_labels'', PList (map PStr (doc_classification_labels (chunk_security chunk))))]"

definition insert_object ::
    "('w, 'f) vector_index \<Rightarrow> ingestion_command \<Rightarrow> string \<Rightarrow> document_chunk \<times> rat list \<Rightarrow>
     ('w, py_exn, unit) prog" where
  "insert_object vi c collection item =
     (let (chunk, vector) = item
      in case default_json (vi_float_text vi) (PDict (chunk_metadata chunk)) of
           None \<Rightarrow> sraise (OtherError ''TypeError'')
         | Some metadata_json \<Rightarrow>
             wc_insert (vi_client vi) collection (wc_uuid5 (vi_client vi) (object_name c chunk))
               (object_properties (ing_source_version c) metadata_json chunk) vector)"

definition index_replace_source ::
    "('w, 'f) vector_index \<Rightarrow> ingestion_job \<Rightarrow> string \<Rightarrow> ('w, py_exn, unit) prog" where
  "index_replace_source vi job collection =
     (let c = job_command job; client = vi_client vi
      in sthen (import_client vi)
         (sbind (eg_embed_documents (vi_embeddings vi) (map chunk_text (ing_chunks c))) (\<lambda>vectors.
          if length vectors \<noteq> length (ing_chunks c)
          then sraise (Known ProviderProtocolError ''Embedding count does not match ingestion chunks'')
          else unavailable_unless protocol_errors ''Weaviate source replacement failed''
            (sthen (wc_delete_many client collection
                (source_filter (wc_filters client) (ing_domain c) (ing_tenant_id c) (ing_source_id c)))
              (sfor (zip (ing_chunks c) vectors) (insert_object vi c collection))))))"

definition index_delete_source ::
    "('w, 'f) vector_index \<Rightarrow> string \<Rightarrow> string \<Rightarrow> string \<Rightarrow> string \<Rightarrow> ('w, py_exn, unit) prog" where
  "index_delete_source vi collection domain tenant source =
     sthen (import_client vi)
       (unavailable_unless (\<lambda>e. False) ''Weaviate source deletion failed''
         (wc_delete_many (vi_client vi) collection (source_filter (wc_filters (vi_client vi)) domain tenant source)))"

definition index_count ::
    "('w, 'f) vector_index \<Rightarrow> string \<Rightarrow> string \<Rightarrow> string \<Rightarrow> ('w, py_exn, int) prog" where
  "index_count vi collection domain tenant =
     (let ff = wc_filters (vi_client vi)
      in sthen (import_client vi)
         (unavailable_unless (\<lambda>e. False) ''Weaviate consistency count failed''
           (wc_total_count (vi_client vi) collection
             (filter_all_of ff [filter_equal ff ''domain'' (PStr domain), filter_equal ff ''tenant_id'' (PStr tenant)]))))"

definition weaviate_index :: "('w, 'f) vector_index \<Rightarrow> 'w vector_index_port" where
  "weaviate_index vi = \<lparr>vx_replace_source = index_replace_source vi, vx_delete_source = index_delete_source vi,
     vx_count = index_count vi\<rparr>"

section \<open>The filter of a search\<close>

definition never :: "'f filter_factory \<Rightarrow> 'f" where
  "never ff = filter_equal ff ''domain'' (PStr ''__never__'')"

definition index_security_filter :: "'f filter_factory \<Rightarrow> search_request \<Rightarrow> 'f result" where
  "index_security_filter ff r =
     (let model = search_security_model r; subject = search_subject_security r
      in case model_kind model of
           NO_MODEL \<Rightarrow> Inr (filter_equal ff ''domain'' (PStr (search_domain r)))
         | CLEARANCE_LEVEL \<Rightarrow>
             (case (model_clearance_level model, subj_clearance_label subject) of
                (Some m, Some label) \<Rightarrow>
                  rbind (allowed_document_labels m label) (\<lambda>ls.
                    Inr (filter_contains_any ff ''clearance_label'' ls))
              | _ \<Rightarrow> Inr (never ff))
         | CLASSIFICATION_LABELS \<Rightarrow>
             (case model_classification_labels model of
                None \<Rightarrow> Inr (never ff)
              | Some m \<Rightarrow>
                  rbind (validate_labels m (subj_classification_labels subject)
                    ''SearchRequest.subject_security.classification_labels'') (\<lambda>ls.
                    let forbidden = filter (\<lambda>l. l \<notin> set ls) (labels_universe_subset m)
                    in Inr (if forbidden = [] then filter_equal ff ''domain'' (PStr (search_domain r))
                            else filter_not ff (filter_contains_any ff ''classification_labels'' forbidden)))))"

definition index_acl_filter :: "'f filter_factory \<Rightarrow> search_request \<Rightarrow> 'f" where
  "index_acl_filter ff r =
     (let public = filter_equal ff ''acl_public'' (PBool True)
      in if search_allowed_acl_labels r = [] then public
         else filter_or ff public (filter_contains_any ff ''acl_labels'' (search_allowed_acl_labels r)))"

definition build_index_filter :: "'f filter_factory \<Rightarrow> search_request \<Rightarrow> 'f result" where
  "build_index_filter ff r =
     (let boundary = filter_and ff (filter_equal ff ''domain'' (PStr (search_domain r)))
                       (filter_equal ff ''tenant_id'' (PStr (search_tenant_id r)))
      in rbind (index_security_filter ff r) (\<lambda>sec.
           Inr (foldl (\<lambda>f kv. filter_and ff f (filter_equal ff (fst kv) (snd kv)))
             (filter_and ff (filter_and ff boundary sec) (index_acl_filter ff r))
             (search_filters r))))"

section \<open>Searching\<close>

definition invalid_object :: py_exn where
  "invalid_object = Known ProviderProtocolError ''Weaviate returned an invalid object''"

definition present :: "'a option \<Rightarrow> 'a result" where
  "present v = (case v of None \<Rightarrow> Inl invalid_object | Some x \<Rightarrow> Inr x)"

text \<open>\<open>str(properties[key])\<close>.\<close>

definition text_property :: "string option option \<Rightarrow> string result" where
  "text_property v = rbind (present v) (\<lambda>t. Inr (case t of None \<Rightarrow> ''None'' | Some s \<Rightarrow> s))"

definition object_metadata :: "(string \<Rightarrow> py option) \<Rightarrow> weaviate_object \<Rightarrow> mapping result" where
  "object_metadata loads item =
     (let raw = or_empty (wo_metadata_json item)
      in case loads (if raw = [] then ''{}'' else raw) of
           Some (PDict m) \<Rightarrow> Inr m
         | _ \<Rightarrow> Inl invalid_object)"

definition object_score :: "search_mode \<Rightarrow> weaviate_object \<Rightarrow> (rat \<times> string) result" where
  "object_score mode item =
     (case mode of
        SEMANTIC \<Rightarrow> rbind (present (wo_distance item)) (\<lambda>distance. Inr (1 - distance, ''certainty''))
      | BM25 \<Rightarrow> rbind (present (wo_score item)) (\<lambda>score. Inr (score, ''bm25''))
      | HYBRID \<Rightarrow> rbind (present (wo_score item)) (\<lambda>score. Inr (score, ''hybrid'')))"

definition object_hit :: "(string \<Rightarrow> py option) \<Rightarrow> search_mode \<Rightarrow> weaviate_object \<Rightarrow> search_hit result" where
  "object_hit loads mode item =
     rbind (object_metadata loads item) (\<lambda>metadata.
     rbind (text_property (wo_chunk_id item)) (\<lambda>cid.
     rbind (text_property (wo_domain item)) (\<lambda>domain.
     rbind (text_property (wo_tenant_id item)) (\<lambda>tenant.
     rbind (text_property (wo_source_id item)) (\<lambda>source.
     rbind (text_property (wo_text item)) (\<lambda>txt.
     rbind (document_security_post_init
       \<lparr>doc_clearance_label = wo_clearance_label item,
        doc_classification_labels = wo_classification_labels item\<rparr>) (\<lambda>sec.
     rbind (document_chunk_post_init
       \<lparr>chunk_id = cid, chunk_domain = domain, chunk_tenant_id = tenant, chunk_source_id = source,
        chunk_text = txt, chunk_source_uri = wo_source_uri item, chunk_metadata = metadata,
        chunk_acl_labels = wo_acl_labels item, chunk_security = sec\<rparr>) (\<lambda>chunk.
     rbind (object_score mode item) (\<lambda>(score, score_type).
       search_hit_post_init \<lparr>hit_chunk = chunk, hit_score = score, hit_score_type = score_type\<rparr>)))))))))"

definition index_query ::
    "('w, 'f) vector_index \<Rightarrow> string \<Rightarrow> search_request \<Rightarrow> 'f \<Rightarrow> ('w, py_exn, weaviate_object list) prog" where
  "index_query vi collection r f =
     (let client = vi_client vi
      in case search_request_mode r of
           BM25 \<Rightarrow> wc_bm25 client collection (search_query r) (search_top_k r) f
         | SEMANTIC \<Rightarrow>
             sbind (eg_embed_query (vi_embeddings vi) (search_query r)) (\<lambda>vector.
               wc_near_vector client collection vector (search_top_k r) f)
         | HYBRID \<Rightarrow>
             sbind (eg_embed_query (vi_embeddings vi) (search_query r)) (\<lambda>vector.
               wc_hybrid client collection (search_query r) vector (search_top_k r) f))"

definition index_search ::
    "('w, 'f) vector_index \<Rightarrow> string \<Rightarrow> search_request \<Rightarrow> ('w, py_exn, search_hit list) prog" where
  "index_search vi collection r =
     sthen (import_client vi)
     (sbind (slift (build_index_filter (wc_filters (vi_client vi)) r)) (\<lambda>f.
      sbind (unavailable_unless protocol_errors ''Weaviate query failed'' (index_query vi collection r f)) (\<lambda>objects.
      slift (rmap (object_hit (vi_json_loads vi) (search_request_mode r)) objects))))"

section \<open>Health\<close>

definition index_check :: "('w, 'f) vector_index \<Rightarrow> ('w, py_exn, unit) prog" where
  "index_check vi =
     sbind (unavailable_unless (\<lambda>e. False) ''Weaviate is unavailable'' (wc_is_ready (vi_client vi))) (\<lambda>ready.
       sguard ready (Known DependencyUnavailableError ''Weaviate is not ready''))"

definition index_healthcheck :: "('w, 'f) vector_index \<Rightarrow> string \<Rightarrow> ('w, py_exn, unit) prog" where
  "index_healthcheck vi collection =
     sthen (index_check vi)
     (sbind (wc_exists (vi_client vi) collection) (\<lambda>found.
       sguard found (Known DependencyUnavailableError (''Weaviate collection does not exist: '' @ collection))))"

end
