(* ===== verification/Index_Properties.thy ===== *)
theory Index_Properties
  imports Vector_Index Examples
begin

text \<open>
  What a search of the vector index may return: under the documented meaning of the client's filters, the
  filter of a request matches exactly the chunks the domain model lets its subject read. The locale
  \<open>filter_semantics\<close> states that meaning; the filters as expressions keep it.
\<close>

section \<open>The meaning of filters\<close>

locale filter_semantics =
  fixes ff :: "'f filter_factory"
    and matches :: "'f \<Rightarrow> mapping \<Rightarrow> bool"
  assumes equal: "matches (filter_equal ff p v) props \<longleftrightarrow> map_of props p = Some v"
    and contains_any: "matches (filter_contains_any ff p vs) props \<longleftrightarrow>
      (\<exists>v\<in>set vs. map_of props p = Some (PStr v) \<or> (\<exists>xs. map_of props p = Some (PList xs) \<and> PStr v \<in> set xs))"
    and conj: "matches (filter_and ff f g) props \<longleftrightarrow> matches f props \<and> matches g props"
    and disj: "matches (filter_or ff f g) props \<longleftrightarrow> matches f props \<or> matches g props"
    and neg: "matches (filter_not ff f) props \<longleftrightarrow> \<not> matches f props"
    and all_of: "matches (filter_all_of ff fs) props \<longleftrightarrow> (\<forall>f\<in>set fs. matches f props)"
begin

lemmas meaning = equal contains_any conj disj neg all_of

lemma object_values:
  "map_of (object_properties ver mj c) ''domain'' = Some (PStr (chunk_domain c))"
  "map_of (object_properties ver mj c) ''tenant_id'' = Some (PStr (chunk_tenant_id c))"
  "map_of (object_properties ver mj c) ''source_id'' = Some (PStr (chunk_source_id c))"
  "map_of (object_properties ver mj c) ''acl_public'' = Some (PBool (chunk_acl_labels c = []))"
  "map_of (object_properties ver mj c) ''acl_labels'' = Some (PList (map PStr (chunk_acl_labels c)))"
  "map_of (object_properties ver mj c) ''clearance_label'' = Some (opt_py (doc_clearance_label (chunk_security c)))"
  "map_of (object_properties ver mj c) ''classification_labels'' =
     Some (PList (map PStr (doc_classification_labels (chunk_security c))))"
  by (simp_all add: object_properties_def)

lemma acl_filter_matches:
  assumes "label_tuple (chunk_acl_labels c)" "label_tuple (search_allowed_acl_labels r)"
  shows "matches (index_acl_filter ff r) (object_properties ver mj c) \<longleftrightarrow>
    granted (acl_visible_to_subject (chunk_acl_labels c) (search_allowed_acl_labels r))"
  by (auto simp: index_acl_filter_def Let_def meaning object_values acl_visible_iff [OF assms])

text \<open>A document whose security metadata the ingestion boundary of the model accepted.\<close>

lemma security_filter_matches:
  assumes model: "security_model_ok (search_security_model r)"
    and doc: "document_security_ok (chunk_security c)"
      "validate_document_security (search_security_model r) (chunk_security c) = Inr ()"
    and subj: "subject_security_ok (search_subject_security r)"
    and f: "index_security_filter ff r = Inr f" and d: "chunk_domain c = search_domain r" "search_domain r \<noteq> ''__never__''"
  shows "matches f (object_properties ver mj c) \<longleftrightarrow>
    granted (document_visible_to_subject (search_security_model r) (chunk_security c) (search_subject_security r))"
  using model
proof (cases rule: security_model_ok_cases)
  case none
  with f d show ?thesis by (auto simp: index_security_filter_def Let_def meaning object_values visible_none)
next
  case (clearance m)
  show ?thesis
  proof (cases "subj_clearance_label (search_subject_security r)")
    case None
    with f clearance d show ?thesis
      by (auto simp: index_security_filter_def Let_def never_def meaning object_values visible_clearance)
  next
    case (Some sl)
    from Some f clearance obtain ls where ls: "allowed_document_labels m sl = Inr ls"
      "f = filter_contains_any ff ''clearance_label'' ls"
      by (auto simp: index_security_filter_def Let_def rbind_eq_Inr)
    from ls(1) obtain sv where sv: "clearance_value m sl ''SubjectSecurity.clearance_label'' = Inr sv"
      by (auto simp: allowed_document_labels_def rbind_eq_Inr)
    from doc(2) clearance obtain dl dv where dl: "doc_clearance_label (chunk_security c) = Some dl"
      "clearance_value m dl ''chunk.security.clearance_label'' = Inr dv"
      by (auto simp: validate_document_security_def validation_as_violation_def rbind_eq_Inr split: option.splits sum.splits if_splits)
    have t: "strip dl = dl" using doc(1) dl(1) by (simp add: document_security_ok_def trimmed_opt_def trimmed_def)
    have "matches f (object_properties ver mj c) \<longleftrightarrow> dl \<in> set ls" by (auto simp: ls(2) meaning object_values dl(1) opt_py_def)
    also have "\<dots> \<longleftrightarrow> dv \<le> sv"
      using allowed_document_labels_iff [OF clearance(3) ls(1) sv, of dl] dl(2) t by (auto simp: clearance_value_Inr)
    also have "\<dots> \<longleftrightarrow> granted (document_visible_to_subject (search_security_model r) (chunk_security c)
        (search_subject_security r))"
      using dl sv Some by (auto simp: visible_clearance [OF clearance(1,2)] clearance_value_Inr)
    finally show ?thesis .
  qed
next
  case (labels m)
  from f labels obtain ls where ls: "validate_labels m (subj_classification_labels (search_subject_security r))
      ''SearchRequest.subject_security.classification_labels'' = Inr ls"
    "f = (let forbidden = filter (\<lambda>l. l \<notin> set ls) (labels_universe_subset m)
          in if forbidden = [] then filter_equal ff ''domain'' (PStr (search_domain r))
             else filter_not ff (filter_contains_any ff ''classification_labels'' forbidden))"
    by (auto simp: index_security_filter_def Let_def rbind_eq_Inr)
  let ?dls = "doc_classification_labels (chunk_security c)"
  from doc(2) labels obtain xs where xs: "validate_labels m ?dls ''chunk.security.classification_labels'' = Inr xs"
    by (auto simp: validate_document_security_def validation_as_violation_def rbind_eq_Inr split: sum.splits if_splits)
  have dt: "label_tuple ?dls" using doc(1) by (simp add: document_security_ok_def)
  have st: "label_tuple (subj_classification_labels (search_subject_security r))"
    using subj by (simp add: subject_security_ok_def)
  have u: "set ?dls \<subseteq> set (labels_universe_subset m)"
    using validate_labels_set [OF dt xs] xs by (auto simp: validate_labels_Inr)
  have "matches f (object_properties ver mj c) \<longleftrightarrow> set ?dls \<subseteq> set ls"
    using u d by (auto simp: ls(2) Let_def meaning object_values filter_empty_conv)
  also have "\<dots> \<longleftrightarrow> granted (document_visible_to_subject (search_security_model r) (chunk_security c)
      (search_subject_security r))"
    using xs ls(1) dt st by (auto simp: visible_labels [OF labels(1,3)] validate_labels_Inr)
  finally show ?thesis .
qed

lemma filters_match:
  "matches (foldl (\<lambda>f kv. filter_and ff f (filter_equal ff (fst kv) (snd kv))) f kvs) props \<longleftrightarrow>
   matches f props \<and> (\<forall>kv\<in>set kvs. map_of props (fst kv) = Some (snd kv))"
  by (induction kvs arbitrary: f) (auto simp: meaning)

lemma index_filter_exact:
  assumes "security_model_ok (search_security_model r)" "subject_security_ok (search_subject_security r)"
    "label_tuple (search_allowed_acl_labels r)" "search_domain r \<noteq> ''__never__''"
    "document_chunk_ok c" "document_security_ok (chunk_security c)"
    "validate_document_security (search_security_model r) (chunk_security c) = Inr ()"
    "build_index_filter ff r = Inr f"
  shows "matches f (object_properties ver mj c) \<longleftrightarrow>
    chunk_domain c = search_domain r \<and> chunk_tenant_id c = search_tenant_id r \<and>
    granted (document_visible_to_subject (search_security_model r) (chunk_security c) (search_subject_security r)) \<and>
    granted (acl_visible_to_subject (chunk_acl_labels c) (search_allowed_acl_labels r)) \<and>
    (\<forall>kv\<in>set (search_filters r). map_of (object_properties ver mj c) (fst kv) = Some (snd kv))"
proof -
  from assms(8) obtain sec where sec: "index_security_filter ff r = Inr sec"
    "f = foldl (\<lambda>f kv. filter_and ff f (filter_equal ff (fst kv) (snd kv)))
       (filter_and ff (filter_and ff (filter_and ff (filter_equal ff ''domain'' (PStr (search_domain r)))
         (filter_equal ff ''tenant_id'' (PStr (search_tenant_id r)))) sec) (index_acl_filter ff r)) (search_filters r)"
    by (auto simp: build_index_filter_def rbind_eq_Inr Let_def)
  have "label_tuple (chunk_acl_labels c)" using assms(5) by (simp add: document_chunk_ok_def)
  note acl = acl_filter_matches [OF this assms(3), of ver mj]
  note security = security_filter_matches [OF assms(1,6,7,2) sec(1) _ assms(4), of ver mj]
  show ?thesis by (auto simp: sec(2) filters_match conj equal object_values acl security)
qed

end

section \<open>Filters as expressions\<close>

datatype filter_expression =
    Equal string py
  | Contains_Any string "string list"
  | Both_Of filter_expression filter_expression
  | Either_Of filter_expression filter_expression
  | Negated filter_expression
  | All_Of "filter_expression list"

definition holds_any :: "string list \<Rightarrow> py option \<Rightarrow> bool" where
  "holds_any vs value = (case value of
     Some (PStr v) \<Rightarrow> v \<in> set vs
   | Some (PList xs) \<Rightarrow> list_ex (\<lambda>v. PStr v \<in> set xs) vs
   | _ \<Rightarrow> False)"

fun holds :: "filter_expression \<Rightarrow> mapping \<Rightarrow> bool" where
  "holds (Equal p v) props = (map_of props p = Some v)"
| "holds (Contains_Any p vs) props = holds_any vs (map_of props p)"
| "holds (Both_Of f g) props = (holds f props \<and> holds g props)"
| "holds (Either_Of f g) props = (holds f props \<or> holds g props)"
| "holds (Negated f) props = (\<not> holds f props)"
| "holds (All_Of fs) props = list_all (\<lambda>f. holds f props) fs"

definition expression_factory :: "filter_expression filter_factory" where
  "expression_factory = \<lparr>filter_equal = Equal, filter_contains_any = Contains_Any, filter_and = Both_Of,
     filter_or = Either_Of, filter_not = Negated, filter_all_of = All_Of\<rparr>"

interpretation filters: filter_semantics expression_factory holds
proof (unfold_locales, goal_cases)
  case (2 p vs props)
  show ?case
    by (cases "map_of props p"; cases "the (map_of props p)")
      (auto simp: expression_factory_def holds_any_def list_ex_iff)
qed (simp_all add: expression_factory_def list_all_iff)

section \<open>The filter of a search is exact\<close>


definition demo_search :: "string \<Rightarrow> search_request" where
  "demo_search label = \<lparr>search_query = ''what is new'', search_domain = ''docs'', search_tenant_id = ''acme'',
     search_top_k = 3, search_request_mode = SEMANTIC, search_filters = [(''source_id'', PStr ''src'')],
     search_allowed_acl_labels = [], search_security_model = demo_model,
     search_subject_security = \<lparr>subj_clearance_label = Some label, subj_classification_labels = []\<rparr>\<rparr>"

definition demo_filter :: "string list \<Rightarrow> filter_expression" where
  "demo_filter ls =
     Both_Of (Both_Of (Both_Of (Both_Of (Equal ''domain'' (PStr ''docs'')) (Equal ''tenant_id'' (PStr ''acme'')))
       (Contains_Any ''clearance_label'' ls)) (Equal ''acl_public'' (PBool True))) (Equal ''source_id'' (PStr ''src''))"

lemma demo_search_filter:
  "build_index_filter expression_factory (demo_search ''public'') = Inr (demo_filter [''public''])"
  "build_index_filter expression_factory (demo_search ''secret'') = Inr (demo_filter [''public'', ''secret''])"
  by code_simp+

lemma demo_search_hypotheses:
  "security_model_ok demo_model" "document_chunk_ok (hit_chunk (demo_hit ''p1'' ''secret''))"
  "validate_document_security demo_model (chunk_security (hit_chunk (demo_hit ''p1'' ''secret''))) = Inr ()"
  "\<not> granted (document_visible_to_subject demo_model (chunk_security (hit_chunk (demo_hit ''p1'' ''secret'')))
     (search_subject_security (demo_search ''public'')))"
  "granted (document_visible_to_subject demo_model (chunk_security (hit_chunk (demo_hit ''p1'' ''secret'')))
     (search_subject_security (demo_search ''secret'')))"
  by code_simp+

lemma demo_search_fields:
  "search_security_model (demo_search l) = demo_model" "search_allowed_acl_labels (demo_search l) = []"
  "search_domain (demo_search l) = ''docs''" "search_tenant_id (demo_search l) = ''acme''"
  "search_filters (demo_search l) = [(''source_id'', PStr ''src'')]"
  "search_subject_security (demo_search l) = \<lparr>subj_clearance_label = Some l, subj_classification_labels = []\<rparr>"
  by (simp_all add: demo_search_def)


section \<open>Objects are read back as they were written\<close>

text \<open>The object the index returns for the properties it was given, with the values of its query.\<close>

definition text_value :: "mapping \<Rightarrow> string \<Rightarrow> string option" where
  "text_value props p = (case map_of props p of Some (PStr s) \<Rightarrow> Some s | _ \<Rightarrow> None)"

definition text_values :: "mapping \<Rightarrow> string \<Rightarrow> string list" where
  "text_values props p =
     (case map_of props p of Some (PList vs) \<Rightarrow> map (\<lambda>v. case v of PStr s \<Rightarrow> s | _ \<Rightarrow> []) vs | _ \<Rightarrow> [])"

definition returned_object :: "mapping \<Rightarrow> rat \<Rightarrow> weaviate_object" where
  "returned_object props value =
     (let text = (\<lambda>p. if has_key props p then Some (text_value props p) else None)
      in \<lparr>wo_chunk_id = text ''chunk_id'', wo_domain = text ''domain'', wo_tenant_id = text ''tenant_id'',
          wo_source_id = text ''source_id'', wo_text = text ''text'', wo_source_uri = text_value props ''source_uri'',
          wo_metadata_json = text_value props ''metadata_json'', wo_acl_labels = text_values props ''acl_labels'',
          wo_clearance_label = text_value props ''clearance_label'',
          wo_classification_labels = text_values props ''classification_labels'',
          wo_distance = Some value, wo_score = Some value\<rparr>)"

lemma returned_properties:
  "returned_object (object_properties version metadata_json c) value =
     \<lparr>wo_chunk_id = Some (Some (chunk_id c)), wo_domain = Some (Some (chunk_domain c)),
      wo_tenant_id = Some (Some (chunk_tenant_id c)), wo_source_id = Some (Some (chunk_source_id c)),
      wo_text = Some (Some (chunk_text c)), wo_source_uri = chunk_source_uri c, wo_metadata_json = Some metadata_json,
      wo_acl_labels = chunk_acl_labels c, wo_clearance_label = doc_clearance_label (chunk_security c),
      wo_classification_labels = doc_classification_labels (chunk_security c),
      wo_distance = Some value, wo_score = Some value\<rparr>"
  by (simp add: returned_object_def text_value_def text_values_def object_properties_def has_key_def comp_def
      opt_py_def split: option.split)

lemma default_json_nonempty: "default_json fl (PDict m) = Some t \<Longrightarrow> t \<noteq> []"
  by (auto simp: default_json_def)

text \<open>
  C30: A chunk that was written to the index comes back from a search as the same chunk, with the metadata
  its JSON text decodes to and the score of the mode: the distance of a semantic search is turned into a
  certainty, the score of the other modes is passed on.
\<close>

theorem indexed_chunk_roundtrip:
  assumes "document_chunk_ok c" "document_security_ok (chunk_security c)"
    "default_json fl (PDict (chunk_metadata c)) = Some metadata_json" "loads metadata_json = Some (PDict metadata)"
  shows "object_hit loads mode (returned_object (object_properties version metadata_json c) value) =
    Inr \<lparr>hit_chunk = c\<lparr>chunk_metadata := metadata\<rparr>,
         hit_score = (if mode = SEMANTIC then 1 - value else value),
         hit_score_type = (case mode of SEMANTIC \<Rightarrow> ''certainty'' | BM25 \<Rightarrow> ''bm25'' | HYBRID \<Rightarrow> ''hybrid'')\<rparr>"
proof -
  have "object_metadata loads (returned_object (object_properties version metadata_json c) value) = Inr metadata"
    using default_json_nonempty [OF assms(3)] assms(4)
    by (simp add: object_metadata_def returned_properties or_empty_def)
  moreover have "document_security_post_init \<lparr>doc_clearance_label = doc_clearance_label (chunk_security c),
      doc_classification_labels = doc_classification_labels (chunk_security c)\<rparr> = Inr (chunk_security c)"
    using document_security_post_init_idem [OF assms(2)] by (cases "chunk_security c") simp
  moreover have "trimmed ''certainty''" "trimmed ''bm25''" "trimmed ''hybrid''" by code_simp+
  ultimately show ?thesis using assms(1)
    by (cases c; cases mode) (simp_all add: object_hit_def text_property_def present_def returned_properties
      document_chunk_ok_def document_chunk_post_init_def object_score_def search_hit_post_init_def)
qed

lemma indexed_chunk_roundtrip_witness:
  "object_hit (\<lambda>s. Some (PDict [])) SEMANTIC
     (returned_object (object_properties ''1'' ''{}'' (hit_chunk (demo_hit ''p1'' ''public''))) (1/4)) =
   Inr \<lparr>hit_chunk = hit_chunk (demo_hit ''p1'' ''public''), hit_score = 3/4, hit_score_type = ''certainty''\<rparr>"
proof -
  let ?c = "hit_chunk (demo_hit ''p1'' ''public'')"
  have "document_chunk_ok ?c" "document_security_ok (chunk_security ?c)"
    "default_json (\<lambda>q. ''1.5'') (PDict (chunk_metadata ?c)) = Some ''{}''" "?c\<lparr>chunk_metadata := []\<rparr> = ?c"
    by code_simp+
  with indexed_chunk_roundtrip [of ?c "\<lambda>q. ''1.5''" "''{}''" "\<lambda>s. Some (PDict [])" "[]" SEMANTIC "''1''" "1/4"]
  show ?thesis by simp
qed

end
