(* ===== verification/Raises.thy ===== *)
theory Raises
  imports Values
begin

text \<open>
  Which exceptions a computation can end with: \<open>raises_only P r\<close> says that \<open>r\<close> raises nothing but
  exceptions in \<open>P\<close>. The collection \<open>raising\<close> holds the rules for the constructs of the model, so a
  function of the loaders is done with one \<open>intro\<close>.
\<close>

named_theorems raising \<open>introduction rules for raises_only\<close>

definition raises_only :: "(py_exn \<Rightarrow> bool) \<Rightarrow> 'a result \<Rightarrow> bool" where
  "raises_only P r \<longleftrightarrow> (\<forall>e. r = Inl e \<longrightarrow> P e)"

lemma raises_only_Inl [simp]: "raises_only P (Inl e) \<longleftrightarrow> P e"
  by (simp add: raises_only_def)

lemma raises_only_Inr [simp, raising]: "raises_only P (Inr x)"
  by (simp add: raises_only_def)

lemma raises_onlyD: "raises_only P r \<Longrightarrow> r = Inl e \<Longrightarrow> P e"
  by (simp add: raises_only_def)

lemma raises_only_mono: "raises_only P r \<Longrightarrow> (\<And>e. P e \<Longrightarrow> Q e) \<Longrightarrow> raises_only Q r"
  by (simp add: raises_only_def)

lemma raises_only_rbind [raising]:
  "raises_only P r \<Longrightarrow> (\<And>x. r = Inr x \<Longrightarrow> raises_only P (f x)) \<Longrightarrow> raises_only P (rbind r f)"
  by (cases r) simp_all

lemma raises_only_if [raising]:
  "(b \<Longrightarrow> raises_only P r) \<Longrightarrow> (\<not> b \<Longrightarrow> raises_only P s) \<Longrightarrow> raises_only P (if b then r else s)"
  by simp

lemma raises_only_rmap [raising]:
  "(\<And>x. x \<in> set xs \<Longrightarrow> raises_only P (f x)) \<Longrightarrow> raises_only P (rmap f xs)"
  by (induction xs) (auto intro!: raising)

lemma raises_only_known [raising]: "is_class c (Known c m)"
  by simp

lemma raises_only_required [raising]: "raises_only (is_class ValidationError) (required v f)"
  by (simp add: required_def Let_def)

lemma raises_only_required_opt [raising]: "raises_only (is_class ValidationError) (required_opt v f)"
  by (cases v) (auto simp: required_opt_def intro!: raising)

lemma raises_only_normalized_values [raising]: "raises_only (is_class ValidationError) (normalized_values vs f)"
  unfolding normalized_values_def by (intro raising)

lemma raises_only_freeze:
  "raises_only (is_class ValidationError) (freeze_config_value v f)"
  "raises_only (is_class ValidationError) (freeze_items d f)"
  by (induction v f and d f rule: freeze_config_value_freeze_items.induct) (auto intro!: raising)

lemma raises_only_freeze_step_config [raising]: "raises_only (is_class ValidationError) (freeze_step_config c)"
  unfolding freeze_step_config_def by (intro raising) (auto intro!: raising raises_only_freeze)

end
