(* ===== verification/Pipeline_Files.thy ===== *)
theory Pipeline_Files
  imports Raises Pipelines Json
begin

text \<open>
  \<open>infrastructure/pipelines.py\<close> and \<open>infrastructure/prompts.py\<close>: pipelines and prompts read from the
  directories of the configuration. The file system and the YAML reader are parameters; paths are the
  lists of their components.
\<close>

section \<open>Files\<close>

type_synonym path = "string list"

text \<open>
  \<open>Path.resolve\<close>, \<open>is_file\<close>, \<open>is_dir\<close>, \<open>read_text\<close> and \<open>yaml.safe_load\<close>, where \<open>None\<close> is a
  \<open>YAMLError\<close>.
\<close>

record file_system =
  fs_resolve :: "path \<Rightarrow> path"
  fs_is_file :: "path \<Rightarrow> bool"
  fs_is_dir :: "path \<Rightarrow> bool"
  fs_read_text :: "path \<Rightarrow> string result"
  fs_yaml :: "string \<Rightarrow> py option"

fun split_on :: "char \<Rightarrow> string \<Rightarrow> string \<Rightarrow> string list" where
  "split_on c part [] = [part]"
| "split_on c part (x # xs) = (if x = c then part # split_on c [] xs else split_on c (part @ [x]) xs)"

definition path_parts :: "string \<Rightarrow> path" where
  "path_parts text = filter (\<lambda>p. p \<noteq> [] \<and> p \<noteq> ''.'') (split_on (CHR 0x2F) [] text)"

text \<open>\<open>base / text\<close>: an absolute path replaces the base.\<close>

definition is_absolute :: "string \<Rightarrow> bool" where
  "is_absolute text \<longleftrightarrow> startswith text [CHR 0x2F]"

definition join_path :: "path \<Rightarrow> string \<Rightarrow> path" where
  "join_path base text = (if is_absolute text then path_parts text else base @ path_parts text)"

text \<open>\<open>base in path.parents\<close>.\<close>

definition inside :: "path \<Rightarrow> path \<Rightarrow> bool" where
  "inside base path \<longleftrightarrow> length base < length path \<and> take (length base) path = base"

definition pipeline_error :: "string \<Rightarrow> py_exn" where
  "pipeline_error m = Known PipelineDefinitionError m"

section \<open>Prompts\<close>

definition load_prompt :: "file_system \<Rightarrow> path \<Rightarrow> string \<Rightarrow> string result" where
  "load_prompt fs base name =
     (let path = fs_resolve fs (join_path base (name @ ''.txt''))
      in if \<not> inside base path
         then Inl (Known ConfigurationError ''Prompt path escapes the configured prompt directory'')
         else if \<not> fs_is_file fs path
         then Inl (Known ConfigurationError (''Prompt does not exist: '' @ name))
         else rbind (fs_read_text fs path) (\<lambda>text.
           let content = strip text
           in if content = [] then Inl (Known ConfigurationError (''Prompt is empty: '' @ name)) else Inr content))"

section \<open>Pipelines\<close>

text \<open>\<open>_required_string\<close>.\<close>

definition required_string :: "py option \<Rightarrow> string \<Rightarrow> string result" where
  "required_string value field_name =
     (case value of
        Some (PStr s) \<Rightarrow>
          if strip s = [] then Inl (pipeline_error (field_name @ '' must be a non-empty string'')) else Inr (strip s)
      | _ \<Rightarrow> Inl (pipeline_error (field_name @ '' must be a non-empty string'')))"

text \<open>\<open>except ValidationError as exc: raise PipelineDefinitionError(str(exc)) from exc\<close>.\<close>

definition as_definition_error :: "'a result \<Rightarrow> 'a result" where
  "as_definition_error r = (case r of Inl (Known ValidationError m) \<Rightarrow> Inl (pipeline_error m) | _ \<Rightarrow> r)"

definition step_next :: "mapping \<Rightarrow> string option result" where
  "step_next raw =
     (case map_of raw ''next'' of
        None \<Rightarrow> Inr None
      | Some PNone \<Rightarrow> Inr None
      | Some (PStr s) \<Rightarrow> Inr (Some s)
      | _ \<Rightarrow> Inl (pipeline_error ''Pipeline step next must be a string''))"

definition step_routes_of :: "mapping \<Rightarrow> (string \<times> string) list result" where
  "step_routes_of raw =
     (let bad = pipeline_error ''Pipeline step routes must map strings to strings''
      in case map_of raw ''routes'' of
           None \<Rightarrow> Inr []
         | Some (PDict d) \<Rightarrow>
             rmap (\<lambda>(k, v). case v of PStr s \<Rightarrow> Inr (k, s) | _ \<Rightarrow> Inl bad) d
         | _ \<Rightarrow> Inl bad)"

definition reserved_fields :: "string list" where
  "reserved_fields = [''id'', ''action'', ''action_version'', ''next'', ''routes'', ''end'']"

definition step_end :: "mapping \<Rightarrow> bool result" where
  "step_end raw =
     (case map_of raw ''end'' of
        None \<Rightarrow> Inr False
      | Some (PBool b) \<Rightarrow> Inr b
      | _ \<Rightarrow> Inl (pipeline_error ''Pipeline step end must be boolean''))"

definition parse_step :: "py \<Rightarrow> pipeline_step_definition result" where
  "parse_step value =
     (case value of
        PDict raw \<Rightarrow>
          (let missing = filter (\<lambda>f. \<not> has_key raw f) [''action'', ''action_version'', ''id'']
           in if missing \<noteq> [] then Inl (pipeline_error (''Missing pipeline step fields: '' @ py_join '', '' missing))
              else rbind (step_end raw) (\<lambda>terminal.
                   rbind (step_next raw) (\<lambda>next_step.
                   rbind (step_routes_of raw) (\<lambda>routes.
                   rbind (required_string (map_of raw ''id'') ''pipeline.steps[].id'') (\<lambda>sid.
                   rbind (required_string (map_of raw ''action'') ''pipeline.steps[].action'') (\<lambda>action.
                   rbind (required_string (map_of raw ''action_version'') ''pipeline.steps[].action_version'') (\<lambda>version.
                     as_definition_error (pipeline_step_definition_post_init
                       \<lparr>step_id = sid, step_action = action, step_action_version = version,
                        step_next_step_id = next_step, step_routes = routes, step_terminal = terminal,
                        step_config = filter (\<lambda>(k, v). k \<notin> set reserved_fields) raw\<rparr>)))))))) 
      | _ \<Rightarrow> Inl (pipeline_error ''Each pipeline step must be a mapping''))"

text \<open>The fields of a pipeline, sorted as in the message.\<close>

definition pipeline_fields :: "string list" where
  "pipeline_fields = [''behavior_version'', ''entry_step'', ''max_steps'', ''name'', ''steps'']"

definition raw_steps :: "mapping \<Rightarrow> py list result" where
  "raw_steps p =
     (case map_of p ''steps'' of
        Some (PList items) \<Rightarrow> Inr items
      | _ \<Rightarrow> Inl (pipeline_error ''pipeline.steps must be a list''))"

definition canonical_fields :: "(rat \<Rightarrow> string) \<Rightarrow> mapping \<Rightarrow> string result" where
  "canonical_fields fl p =
     (case canonical_json fl (PDict p) of None \<Rightarrow> Inl (OtherError ''TypeError'') | Some text \<Rightarrow> Inr text)"

definition max_steps_of :: "mapping \<Rightarrow> int result" where
  "max_steps_of p =
     (case map_of p ''max_steps'' of
        Some (PInt n) \<Rightarrow> Inr n
      | _ \<Rightarrow> Inl (pipeline_error ''pipeline.max_steps must be an integer''))"

definition parse_fields :: "(string \<Rightarrow> string) \<Rightarrow> (rat \<Rightarrow> string) \<Rightarrow> mapping \<Rightarrow> pipeline_definition result" where
  "parse_fields sha256 fl p =
     rbind (raw_steps p) (\<lambda>items.
     rbind (rmap parse_step items) (\<lambda>steps.
     rbind (canonical_fields fl p) (\<lambda>canonical.
     rbind (max_steps_of p) (\<lambda>max_steps.
     rbind (required_string (map_of p ''name'') ''pipeline.name'') (\<lambda>name.
     rbind (required_string (map_of p ''behavior_version'') ''pipeline.behavior_version'') (\<lambda>version.
     rbind (required_string (map_of p ''entry_step'') ''pipeline.entry_step'') (\<lambda>entry.
       as_definition_error (pipeline_definition_post_init
         \<lparr>pipeline_name = name, pipeline_behavior_version = version, pipeline_entry_step_id = entry,
          pipeline_max_steps = max_steps, pipeline_steps = steps, pipeline_checksum = sha256 canonical\<rparr>))))))))"

definition parse_pipeline :: "(string \<Rightarrow> string) \<Rightarrow> (rat \<Rightarrow> string) \<Rightarrow> py \<Rightarrow> pipeline_definition result" where
  "parse_pipeline sha256 fl raw =
     (case raw of
        PDict [(k, value)] \<Rightarrow>
          if k \<noteq> ''pipeline''
          then Inl (pipeline_error ''Pipeline YAML must contain only the 'pipeline' root'')
          else (case value of
             PDict p \<Rightarrow>
               if set (map fst p) \<noteq> set pipeline_fields
               then Inl (pipeline_error (''pipeline fields must be exactly: '' @ py_join '', '' pipeline_fields))
               else parse_fields sha256 fl p
           | _ \<Rightarrow> Inl (pipeline_error ''pipeline must be a mapping''))
      | _ \<Rightarrow> Inl (pipeline_error ''Pipeline YAML must contain only the 'pipeline' root''))"

definition load_pipeline ::
    "file_system \<Rightarrow> (string \<Rightarrow> string) \<Rightarrow> (rat \<Rightarrow> string) \<Rightarrow> path \<Rightarrow> string \<Rightarrow> pipeline_definition result" where
  "load_pipeline fs sha256 fl base name =
     (let path = fs_resolve fs (join_path base (name @ ''.yaml'')); unreadable = pipeline_error (''Cannot read pipeline: '' @ name)
      in if \<not> inside base path then Inl (pipeline_error ''Pipeline path escapes the configured directory'')
         else if \<not> fs_is_file fs path then Inl (pipeline_error (''Pipeline does not exist: '' @ name))
         else (case fs_read_text fs path of
                 Inl e \<Rightarrow> Inl (if e = OtherError ''OSError'' then unreadable else e)
               | Inr text \<Rightarrow>
                   (case fs_yaml fs text of
                      None \<Rightarrow> Inl unreadable
                    | Some raw \<Rightarrow> parse_pipeline sha256 fl raw)))"

section \<open>Errors\<close>

definition definition_errors :: "py_exn \<Rightarrow> bool" where
  "definition_errors = is_class PipelineDefinitionError"

lemma pipeline_error_class [simp, raising]: "definition_errors (pipeline_error m)"
  by (simp add: definition_errors_def pipeline_error_def)

lemma as_definition_error_raises [raising]:
  "raises_only (is_class ValidationError) r \<Longrightarrow> raises_only definition_errors (as_definition_error r)"
  by (cases r; cases "projl r")
    (auto simp: as_definition_error_def raises_only_def definition_errors_def pipeline_error_def split: error_class.splits)

lemma as_definition_error_Inr: "as_definition_error r = Inr x \<longleftrightarrow> r = Inr x"
  by (auto simp: as_definition_error_def split: sum.splits py_exn.splits error_class.splits)

lemma required_string_raises [raising]: "raises_only definition_errors (required_string v f)"
  by (auto simp: required_string_def split: option.split py.split)

lemma step_post_init_raises [raising]:
  "raises_only (is_class ValidationError) (pipeline_step_definition_post_init s)"
proof -
  have "raises_only (is_class ValidationError) (normalized_routes r)" for r
    unfolding normalized_routes_def by (intro raising) (auto intro!: raising)
  then show ?thesis
    unfolding pipeline_step_definition_post_init_def by (intro raising) auto
qed

lemma definition_post_init_raises [raising]:
  "raises_only (is_class ValidationError) (pipeline_definition_post_init p)"
  unfolding pipeline_definition_post_init_def by (intro raising) auto

lemma parse_step_raises [raising]: "raises_only definition_errors (parse_step v)"
proof -
  have "raises_only definition_errors (step_next r)" "raises_only definition_errors (step_routes_of r)"
    "raises_only definition_errors (step_end r)" for r
    by (auto simp: step_next_def step_routes_of_def step_end_def Let_def intro!: raising split: option.split py.split)
  then show ?thesis
    by (auto simp: parse_step_def Let_def intro!: raising split: py.split)
qed

lemma parse_fields_raises:
  assumes "canonical_json fl (PDict p) \<noteq> None"
  shows "raises_only definition_errors (parse_fields sha256 fl p)"
proof -
  have "raises_only definition_errors (raw_steps p)" "raises_only definition_errors (max_steps_of p)"
    "raises_only definition_errors (canonical_fields fl p)"
    using assms by (auto simp: raw_steps_def max_steps_of_def canonical_fields_def split: option.split py.split)
  then show ?thesis unfolding parse_fields_def by (intro raising) auto
qed

section \<open>What is loaded\<close>

definition definition_ok :: "pipeline_definition \<Rightarrow> bool" where
  "definition_ok p \<longleftrightarrow> trimmed (pipeline_name p) \<and> trimmed (pipeline_behavior_version p) \<and>
     trimmed (pipeline_entry_step_id p) \<and> trimmed (pipeline_checksum p) \<and> 0 < pipeline_max_steps p \<and>
     pipeline_steps p \<noteq> [] \<and> (\<forall>s\<in>set (pipeline_steps p). step_ok s)"

lemma parse_step_ok: "parse_step v = Inr s \<Longrightarrow> step_ok s"
  by (auto simp: parse_step_def Let_def rbind_eq_Inr as_definition_error_Inr dest: step_post_init_ok
      split: py.splits if_splits)

lemma parse_fields_ok:
  assumes "parse_fields sha256 fl d = Inr p"
  shows "definition_ok p"
proof -
  from assms obtain items steps q where parts: "rmap parse_step items = Inr steps"
    "pipeline_definition_post_init q = Inr p" "pipeline_steps q = steps"
    by (force simp: parse_fields_def rbind_eq_Inr as_definition_error_Inr)
  then have "\<forall>s\<in>set steps. step_ok s" by (auto dest!: rmap_Inr_ball dest: parse_step_ok)
  with parts(2,3) show ?thesis
    by (auto simp: definition_ok_def pipeline_definition_post_init_def rbind_eq_Inr required_Inr split: if_splits)
qed

section \<open>Pipelines written as files\<close>

text \<open>Configuration is kept with tuples for the lists of the file; a document has lists.\<close>

fun thawed :: "py \<Rightarrow> py" and thawed_items :: "mapping \<Rightarrow> mapping" where
  "thawed (PDict d) = PDict (thawed_items d)"
| "thawed (PTuple xs) = PList (map thawed xs)"
| "thawed v = v"
| "thawed_items [] = []"
| "thawed_items ((k, v) # d) = (k, thawed v) # thawed_items d"

lemma thawed_items_keys [simp]: "map fst (thawed_items d) = map fst d"
  by (induction d) auto

lemma thawed_items_map: "thawed_items d = map (\<lambda>(k, v). (k, thawed v)) d"
  by (induction d) auto

lemma freeze_thawed:
  "frozen v \<Longrightarrow> freeze_config_value (thawed v) f = Inr v"
  "frozen_items d \<Longrightarrow> freeze_items (thawed_items d) f = Inr d"
proof (induction v and d arbitrary: f and f rule: thawed_thawed_items.induct)
  case (2 xs)
  then have "rmap (\<lambda>x. freeze_config_value x (f @ ''[]'')) (map thawed xs) = Inr xs"
    by (auto simp: rmap_eq_Inr list_all2_map1 list_all_iff intro: list.rel_refl_strong)
  then show ?case by simp
qed (auto simp: dict_of_distinct)

lemma freeze_step_config_thawed:
  assumes "frozen (PDict c)"
  shows "freeze_step_config (thawed_items c) = Inr c"
proof -
  from assms have "\<And>k v. (k, v) \<in> set c \<Longrightarrow> trimmed k \<and> frozen v" by (auto simp: frozen_items_iff)
  then have "rmap (\<lambda>(k, v).
       rbind (required k ''PipelineStepDefinition.config key'') (\<lambda>k'.
       rbind (freeze_config_value v (''PipelineStepDefinition.config['' @ quoted k @ '']'')) (\<lambda>v'.
         Inr (k', v')))) (thawed_items c) = Inr c"
    by (auto simp: rmap_eq_Inr thawed_items_map list_all2_map1 freeze_thawed intro!: list.rel_refl_strong)
  with assms show ?thesis by (simp add: freeze_step_config_def dict_of_distinct)
qed

definition step_document :: "pipeline_step_definition \<Rightarrow> py" where
  "step_document s = PDict
     ([(''id'', PStr (step_id s)), (''action'', PStr (step_action s)), (''action_version'', PStr (step_action_version s))] @
      (case step_next_step_id s of None \<Rightarrow> [] | Some n \<Rightarrow> [(''next'', PStr n)]) @
      [(''routes'', PDict (map (\<lambda>(k, v). (k, PStr v)) (step_routes s))), (''end'', PBool (step_terminal s))] @
      thawed_items (step_config s))"

definition pipeline_document :: "pipeline_definition \<Rightarrow> mapping" where
  "pipeline_document p =
     [(''name'', PStr (pipeline_name p)), (''entry_step'', PStr (pipeline_entry_step_id p)),
      (''behavior_version'', PStr (pipeline_behavior_version p)), (''max_steps'', PInt (pipeline_max_steps p)),
      (''steps'', PList (map step_document (pipeline_steps p)))]"

text \<open>No configuration key of a step is the name of a step field.\<close>

definition writable :: "pipeline_step_definition \<Rightarrow> bool" where
  "writable s \<longleftrightarrow> step_ok s \<and> set (map fst (step_config s)) \<inter> set reserved_fields = {}"

lemma parse_step_document:
  assumes "writable s"
  shows "parse_step (step_document s) = Inr s"
proof -
  let ?raw = "[(''id'', PStr (step_id s)), (''action'', PStr (step_action s)), (''action_version'', PStr (step_action_version s))] @
      (case step_next_step_id s of None \<Rightarrow> [] | Some n \<Rightarrow> [(''next'', PStr n)]) @
      [(''routes'', PDict (map (\<lambda>(k, v). (k, PStr v)) (step_routes s))), (''end'', PBool (step_terminal s))] @
      thawed_items (step_config s)"
  have ok: "step_ok s" and keys: "\<forall>kv\<in>set (thawed_items (step_config s)). fst kv \<notin> set reserved_fields"
    using assms thawed_items_keys [of "step_config s"] by (auto simp: writable_def thawed_items_map)
  from keys have config: "filter (\<lambda>(k, v). k \<notin> set reserved_fields) ?raw = thawed_items (step_config s)"
    by (auto simp: reserved_fields_def filter_id_conv split: option.split)
  have none: "map_of (thawed_items (step_config s)) ''next'' = None"
    using keys by (force simp: map_of_eq_None_iff reserved_fields_def)
  have routes: "rmap (\<lambda>(k, v). case v of PStr s \<Rightarrow> Inr (k, s)
      | _ \<Rightarrow> Inl (pipeline_error ''Pipeline step routes must map strings to strings''))
      (map (\<lambda>(k, v). (k, PStr v)) (step_routes s)) = Inr (step_routes s)"
    by (auto simp: rmap_eq_Inr list_all2_map1 intro!: list.rel_refl_strong)
  have fields: "step_end ?raw = Inr (step_terminal s)" "step_next ?raw = Inr (step_next_step_id s)"
    "step_routes_of ?raw = Inr (step_routes s)"
    using none routes by (simp_all add: step_end_def step_next_def step_routes_of_def split: option.split)
  have "required_string (map_of ?raw ''id'') f = Inr (step_id s)"
    "required_string (map_of ?raw ''action'') f = Inr (step_action s)"
    "required_string (map_of ?raw ''action_version'') f = Inr (step_action_version s)" for f
    using ok by (auto simp: required_string_def step_ok_def trimmed_def)
  moreover have "pipeline_step_definition_post_init (s\<lparr>step_config := thawed_items (step_config s)\<rparr>) = Inr s"
  proof -
    have "frozen (PDict (step_config s))" using ok by (simp add: step_ok_def)
    from freeze_step_config_thawed [OF this] ok show ?thesis
      by (cases s; cases "step_next_step_id s")
        (auto simp: pipeline_step_definition_post_init_def step_ok_def normalized_routes_idem simp del: frozen.simps)
  qed
  ultimately show ?thesis
    unfolding step_document_def parse_step_def using fields config
    by (cases s) (simp add: has_key_def as_definition_error_def)
qed

end
