(* ===== verification/Conversions.thy ===== *)
theory Conversions
  imports Raises Engine Pipeline_Files
begin

text \<open>
  The conversions the loaders and interfaces apply to foreign data: \<open>str\<close>, \<open>str(value or "")\<close>, \<open>int\<close>
  and \<open>float\<close>. The text of floats and of compound values, and the reading of a float from text, are
  parameters.
\<close>

record conversions =
  cv_repr :: "py \<Rightarrow> string"
  cv_parse_float :: "string \<Rightarrow> rat option"

definition py_str :: "conversions \<Rightarrow> py \<Rightarrow> string" where
  "py_str cv v =
     (case v of
        PStr s \<Rightarrow> s
      | PNone \<Rightarrow> ''None''
      | PBool b \<Rightarrow> (if b then ''True'' else ''False'')
      | PInt i \<Rightarrow> str_int i
      | _ \<Rightarrow> cv_repr cv v)"

text \<open>\<open>str(mapping.get(key) or "")\<close>.\<close>

definition text_or_empty :: "conversions \<Rightarrow> py option \<Rightarrow> string" where
  "text_or_empty cv value =
     (case value of None \<Rightarrow> [] | Some v \<Rightarrow> if py_truthy v then py_str cv v else [])"

definition py_float :: "conversions \<Rightarrow> py \<Rightarrow> rat result" where
  "py_float cv v =
     (case v of
        PInt i \<Rightarrow> Inr (of_int i)
      | PBool b \<Rightarrow> Inr (if b then 1 else 0)
      | PFloat q \<Rightarrow> Inr q
      | PStr s \<Rightarrow> (case cv_parse_float cv s of None \<Rightarrow> Inl (OtherError ''ValueError'') | Some q \<Rightarrow> Inr q)
      | _ \<Rightarrow> Inl (OtherError ''TypeError''))"

text \<open>\<open>value\<close> of a missing key is \<open>None\<close>.\<close>

definition or_none :: "py option \<Rightarrow> py" where
  "or_none v = (case v of None \<Rightarrow> PNone | Some x \<Rightarrow> x)"

text \<open>\<open>except (TypeError, ValueError) as exc: raise error from exc\<close>.\<close>

definition conversion_failed :: "py_exn \<Rightarrow> bool" where
  "conversion_failed e \<longleftrightarrow> e = OtherError ''TypeError'' \<or> e = OtherError ''ValueError''"

definition converted_or :: "py_exn \<Rightarrow> 'a result \<Rightarrow> 'a result" where
  "converted_or error r = (case r of Inl e \<Rightarrow> Inl (if conversion_failed e then error else e) | Inr x \<Rightarrow> Inr x)"

lemma converted_or_Inr [simp]: "converted_or error r = Inr x \<longleftrightarrow> r = Inr x"
  by (cases r) (simp_all add: converted_or_def)

lemma py_int_raises: "raises_only conversion_failed (py_int v)"
  by (auto simp: py_int_def int_of_string_def Let_def conversion_failed_def split: py.split option.split prod.split)

lemma py_float_raises: "raises_only conversion_failed (py_float cv v)"
  by (auto simp: py_float_def conversion_failed_def split: py.split option.split)

lemma converted_or_raises [raising]:
  "raises_only conversion_failed r \<Longrightarrow> P error \<Longrightarrow> raises_only P (converted_or error r)"
  by (cases r) (auto simp: converted_or_def)

end
