(* ===== verification/Configuration.thy ===== *)
theory Configuration
  imports Conversions Model_Servers Documents
begin

text \<open>
  \<open>bootstrap/config.py\<close>: the settings of an installation, read from a YAML file, the domain profiles it
  names and the environment. The file system, \<open>os.getenv\<close>, \<open>expanduser\<close> and \<open>urlsplit\<close> are parameters.
\<close>

section \<open>Settings\<close>

record server_settings =
  srv_host :: string
  srv_port :: int
  srv_threads :: int

record postgresql_settings =
  pg_connection_url :: string
  pg_timeout_seconds :: int

record weaviate_settings =
  wv_host :: string
  wv_http_port :: int
  wv_grpc_port :: int
  wv_secure :: bool
  wv_api_key :: string

record embedding_settings =
  emb_name :: string
  emb_base_url :: string
  emb_model :: string
  emb_api_key :: string
  emb_timeout_seconds :: rat

record model_server_settings =
  ms_server_id :: string
  ms_trust_boundary :: trust_boundary
  ms_base_url :: string
  ms_model :: string
  ms_api_key :: string
  ms_timeout_seconds :: rat
  ms_input_cost_per_million :: rat
  ms_output_cost_per_million :: rat
  ms_definition :: model_server_definition

record identity_provider_settings =
  idp_issuer :: string
  idp_audience :: string
  idp_jwks_url :: string
  idp_algorithms :: "string list"
  idp_timeout_seconds :: rat
  idp_cache_ttl_seconds :: int
  idp_tenant_claim :: string
  idp_roles_claim :: string
  idp_groups_claim :: string
  idp_acl_claim :: string
  idp_clearance_claim :: string
  idp_classification_labels_claim :: string
  idp_external_model_claim :: string
  idp_diagnostic_claim :: string

record web_client_settings =
  web_client_id :: string
  web_authorization_url :: string
  web_token_url :: string
  web_logout_url :: string

record flow_settings =
  set_config_path :: path
  set_server :: server_settings
  set_postgresql :: postgresql_settings
  set_weaviate :: weaviate_settings
  set_embeddings :: embedding_settings
  set_model_servers :: "model_server_settings list"
  set_admin_api_key :: string
  set_identity_provider :: identity_provider_settings
  set_prompts_root :: path
  set_pipelines_root :: path
  set_domains :: "domain_profile list"
  set_web_client :: "web_client_settings option"

record host_system = conversions +
  host_files :: file_system
  host_cwd :: path
  host_getenv :: "string \<Rightarrow> string option"
  host_expanduser :: "string \<Rightarrow> string"
  host_urlsplit :: "string \<Rightarrow> (string \<times> string) result"

section \<open>Fields\<close>

definition configuration_error :: "string \<Rightarrow> py_exn" where
  "configuration_error m = Known ConfigurationError m"

definition config_mapping :: "mapping \<Rightarrow> string \<Rightarrow> mapping result" where
  "config_mapping raw key =
     (case map_of raw key of
        Some (PDict d) \<Rightarrow> Inr d
      | _ \<Rightarrow> Inl (configuration_error (key @ '' must be a mapping'')))"

definition config_list :: "mapping \<Rightarrow> string \<Rightarrow> string \<Rightarrow> py list result" where
  "config_list raw key message =
     (case map_of raw key of Some (PList xs) \<Rightarrow> Inr xs | _ \<Rightarrow> Inl (configuration_error message))"

definition config_nonempty_list :: "mapping \<Rightarrow> string \<Rightarrow> string \<Rightarrow> py list result" where
  "config_nonempty_list raw key message =
     rbind (config_list raw key message) (\<lambda>xs.
       if xs = [] then Inl (configuration_error message) else Inr xs)"

definition config_required :: "host_system \<Rightarrow> py option \<Rightarrow> string \<Rightarrow> string result" where
  "config_required h value field_name =
     (let normalized = strip (text_or_empty (conversions.truncate h) value)
      in if normalized = [] then Inl (configuration_error (field_name @ '' is required'')) else Inr normalized)"

definition absolute_http_url :: "host_system \<Rightarrow> py option \<Rightarrow> string \<Rightarrow> string result" where
  "absolute_http_url h value field_name =
     rbind (config_required h value field_name) (\<lambda>url.
     rbind (host_urlsplit h url) (\<lambda>(scheme, netloc).
       if scheme \<notin> {''http'', ''https''} \<or> netloc = []
       then Inl (configuration_error (field_name @ '' must be an absolute HTTP URL''))
       else Inr url))"

definition required_bool :: "py option \<Rightarrow> string \<Rightarrow> bool result" where
  "required_bool value field_name =
     (case value of
        Some (PBool b) \<Rightarrow> Inr b
      | _ \<Rightarrow> Inl (configuration_error (field_name @ '' must be boolean'')))"

definition config_int :: "py option \<Rightarrow> string \<Rightarrow> int result" where
  "config_int value field_name =
     converted_or (configuration_error (field_name @ '' must be an integer'')) (py_int (or_none value))"

definition positive_int :: "py option \<Rightarrow> string \<Rightarrow> int result" where
  "positive_int value field_name =
     rbind (config_int value field_name) (\<lambda>i.
       if i \<le> 0 then Inl (configuration_error (field_name @ '' must be greater than zero'')) else Inr i)"

definition non_negative_int :: "py option \<Rightarrow> string \<Rightarrow> int result" where
  "non_negative_int value field_name =
     rbind (config_int value field_name) (\<lambda>i.
       if i < 0 then Inl (configuration_error (field_name @ '' must be non-negative'')) else Inr i)"

definition config_float :: "host_system \<Rightarrow> py option \<Rightarrow> string \<Rightarrow> rat result" where
  "config_float h value field_name =
     converted_or (configuration_error (field_name @ '' must be numeric'')) (py_float (conversions.truncate h) (or_none value))"

definition positive_float :: "host_system \<Rightarrow> py option \<Rightarrow> string \<Rightarrow> rat result" where
  "positive_float h value field_name =
     rbind (config_float h value field_name) (\<lambda>q.
       if q \<le> 0 then Inl (configuration_error (field_name @ '' must be greater than zero'')) else Inr q)"

definition non_negative_float :: "host_system \<Rightarrow> py option \<Rightarrow> string \<Rightarrow> rat result" where
  "non_negative_float h value field_name =
     rbind (config_float h value field_name) (\<lambda>q.
       if q < 0 then Inl (configuration_error (field_name @ '' cannot be negative'')) else Inr q)"

definition config_secret :: "host_system \<Rightarrow> py option \<Rightarrow> string result" where
  "config_secret h environment_name =
     rbind (config_required h environment_name ''secret environment variable'') (\<lambda>name.
       let value = strip (or_empty (host_getenv h name))
       in if value = [] then Inl (configuration_error (''Required environment variable is empty: '' @ name)) else Inr value)"

definition optional_secret :: "host_system \<Rightarrow> py option \<Rightarrow> string result" where
  "optional_secret h environment_name =
     (let name = strip (text_or_empty (conversions.truncate h) environment_name)
      in if name = [] then Inr [] else config_secret h (Some (PStr name)))"

section \<open>Files\<close>

definition path_text :: "path \<Rightarrow> string" where
  "path_text path = CHR 0x2F # py_join [CHR 0x2F] path"

definition resolve_path :: "host_system \<Rightarrow> path \<Rightarrow> string \<Rightarrow> path" where
  "resolve_path h base value = fs_resolve (host_files h) (join_path base (host_expanduser h value))"

definition resolve_existing_file :: "host_system \<Rightarrow> path \<Rightarrow> string \<Rightarrow> string \<Rightarrow> path result" where
  "resolve_existing_file h base value field_name =
     (let path = resolve_path h base value
      in if fs_is_file (host_files h) path then Inr path
         else Inl (configuration_error (field_name @ '' does not exist: '' @ path_text path)))"

definition resolve_existing_directory :: "host_system \<Rightarrow> path \<Rightarrow> string \<Rightarrow> string \<Rightarrow> path result" where
  "resolve_existing_directory h base value field_name =
     (let path = resolve_path h base value
      in if fs_is_dir (host_files h) path then Inr path
         else Inl (configuration_error (field_name @ '' does not exist: '' @ path_text path)))"

definition read_yaml :: "host_system \<Rightarrow> path \<Rightarrow> mapping result" where
  "read_yaml h path =
     (let fs = host_files h; unreadable = configuration_error (''Cannot read YAML file: '' @ path_text path)
      in if \<not> fs_is_file fs path
         then Inl (configuration_error (''Configuration file does not exist: '' @ path_text path))
         else (case fs_read_text fs path of
                 Inl e \<Rightarrow> Inl (if e = OtherError ''OSError'' then unreadable else e)
               | Inr text \<Rightarrow>
                   (case fs_yaml fs text of
                      None \<Rightarrow> Inl unreadable
                    | Some (PDict raw) \<Rightarrow> Inr raw
                    | _ \<Rightarrow> Inl (configuration_error (''YAML root must be a mapping: '' @ path_text path)))))"

section \<open>Enumerations\<close>

text \<open>\<open>TrustBoundary(raw)\<close> and \<open>SecurityModelKind(raw)\<close>: \<open>None\<close> is the \<open>ValueError\<close>.\<close>

definition trust_boundary_of :: "string \<Rightarrow> trust_boundary option" where
  "trust_boundary_of raw =
     (if raw = ''internal'' then Some INTERNAL else if raw = ''external'' then Some EXTERNAL else None)"

definition security_model_kind_of :: "string \<Rightarrow> security_model_kind option" where
  "security_model_kind_of raw =
     (if raw = ''none'' then Some NO_MODEL else if raw = ''clearance_level'' then Some CLEARANCE_LEVEL
      else if raw = ''classification_labels'' then Some CLASSIFICATION_LABELS else None)"

definition config_enum ::
    "host_system \<Rightarrow> (string \<Rightarrow> 'a option) \<Rightarrow> py option \<Rightarrow> string \<Rightarrow> string \<Rightarrow> 'a result" where
  "config_enum h member value field_name message =
     rbind (config_required h value field_name) (\<lambda>raw.
       case member (py_lower raw) of None \<Rightarrow> Inl (configuration_error message) | Some x \<Rightarrow> Inr x)"

section \<open>Model servers\<close>

definition config_security_profile :: "host_system \<Rightarrow> mapping \<Rightarrow> model_server_security_profile result" where
  "config_security_profile h raw =
     rbind (config_enum h security_model_kind_of (map_of raw ''kind'') ''security_profile.kind''
       ''security_profile.kind must be none, clearance_level or classification_labels'') (\<lambda>kind.
       case kind of
         NO_MODEL \<Rightarrow> model_server_security_profile_post_init
           \<lparr>server_model_kind = kind, server_clearance_label = None, server_classification_labels = []\<rparr>
       | CLEARANCE_LEVEL \<Rightarrow>
           rbind (config_required h (map_of raw ''clearance_label'') ''security_profile.clearance_label'') (\<lambda>label.
             model_server_security_profile_post_init
               \<lparr>server_model_kind = kind, server_clearance_label = Some label, server_classification_labels = []\<rparr>)
       | CLASSIFICATION_LABELS \<Rightarrow>
           rbind (config_list raw ''classification_labels'' ''security_profile.classification_labels must be a list'')
             (\<lambda>labels. model_server_security_profile_post_init
               \<lparr>server_model_kind = kind, server_clearance_label = None,
                server_classification_labels = map (py_str (conversions.truncate h)) labels\<rparr>))"

definition config_reroute :: "host_system \<Rightarrow> mapping \<Rightarrow> string option result" where
  "config_reroute h raw =
     (case or_none (map_of raw ''security_reroute_server_id'') of
        PNone \<Rightarrow> Inr None
      | v \<Rightarrow> rbind (config_required h (Some v) ''security_reroute_server_id'') (\<lambda>sid. Inr (Some sid)))"

definition config_model_server :: "host_system \<Rightarrow> py \<Rightarrow> model_server_settings result" where
  "config_model_server h value =
     (case value of
        PDict raw \<Rightarrow>
          rbind (config_enum h trust_boundary_of (map_of raw ''trust_boundary'') ''model_servers[].trust_boundary''
            ''model_servers[].trust_boundary must be internal or external'') (\<lambda>boundary.
          rbind (config_required h (map_of raw ''id'') ''model_servers[].id'') (\<lambda>sid.
          rbind (config_mapping raw ''security_profile'') (\<lambda>profile_raw.
          rbind (config_security_profile h profile_raw) (\<lambda>profile.
          rbind (config_reroute h raw) (\<lambda>reroute.
          rbind (model_server_definition_post_init
            \<lparr>server_id = sid, server_trust_boundary = boundary, server_security_profile = profile,
             server_security_reroute_server_id = reroute\<rparr>) (\<lambda>server.
          rbind (config_required h (map_of raw ''base_url'') ''model_servers[].base_url'') (\<lambda>base_url.
          rbind (config_required h (map_of raw ''model'') ''model_servers[].model'') (\<lambda>model.
          rbind (optional_secret h (map_of raw ''api_key_env'')) (\<lambda>api_key.
          rbind (positive_float h (map_of raw ''timeout_seconds'') ''model_servers[].timeout_seconds'') (\<lambda>timeout.
          rbind (non_negative_float h (map_of raw ''input_cost_per_million'')
            ''model_servers[].input_cost_per_million'') (\<lambda>input_cost.
          rbind (non_negative_float h (map_of raw ''output_cost_per_million'')
            ''model_servers[].output_cost_per_million'') (\<lambda>output_cost.
            Inr \<lparr>ms_server_id = sid, ms_trust_boundary = boundary, ms_base_url = base_url, ms_model = model,
                 ms_api_key = api_key, ms_timeout_seconds = timeout, ms_input_cost_per_million = input_cost,
                 ms_output_cost_per_million = output_cost, ms_definition = server\<rparr>))))))))))))
      | _ \<Rightarrow> Inl (configuration_error ''Each model server must be a mapping''))"

definition validate_model_servers :: "model_server_settings list \<Rightarrow> unit result" where
  "validate_model_servers servers =
     (if \<not> distinct (map ms_server_id servers) then Inl (configuration_error ''model server ids must be unique'')
      else rfold (\<lambda>server _.
        case server_security_reroute_server_id (ms_definition server) of
          None \<Rightarrow> Inr ()
        | Some sid \<Rightarrow>
            if sid \<notin> set (map ms_server_id servers)
            then Inl (configuration_error (''security_reroute_server_id does not exist: '' @ sid))
            else Inr ()) servers ())"

section \<open>Identity provider and web client\<close>

definition config_identity_provider :: "host_system \<Rightarrow> mapping \<Rightarrow> identity_provider_settings result" where
  "config_identity_provider h raw =
     (let field = (\<lambda>name. config_required h (map_of raw name) (''identity_provider.'' @ name))
      in rbind (config_nonempty_list raw ''algorithms'' ''identity_provider.algorithms must be a non-empty list'') (\<lambda>listed.
         rbind (field ''issuer'') (\<lambda>issuer.
         rbind (field ''audience'') (\<lambda>audience.
         rbind (field ''jwks_url'') (\<lambda>jwks_url.
         rbind (rmap (\<lambda>v. config_required h (Some v) ''identity_provider.algorithms[]'') listed) (\<lambda>algorithms.
         rbind (positive_float h (map_of raw ''timeout_seconds'') ''identity_provider.timeout_seconds'') (\<lambda>timeout.
         rbind (positive_int (map_of raw ''cache_ttl_seconds'') ''identity_provider.cache_ttl_seconds'') (\<lambda>ttl.
         rbind (field ''tenant_claim'') (\<lambda>tenant.
         rbind (field ''roles_claim'') (\<lambda>roles.
         rbind (field ''groups_claim'') (\<lambda>groups.
         rbind (field ''acl_claim'') (\<lambda>acl.
         rbind (field ''clearance_claim'') (\<lambda>clearance.
         rbind (field ''classification_labels_claim'') (\<lambda>labels.
         rbind (field ''external_model_claim'') (\<lambda>ext.
         rbind (field ''diagnostic_claim'') (\<lambda>diagnostic.
           Inr \<lparr>idp_issuer = issuer, idp_audience = audience, idp_jwks_url = jwks_url, idp_algorithms = algorithms,
                idp_timeout_seconds = timeout, idp_cache_ttl_seconds = ttl, idp_tenant_claim = tenant,
                idp_roles_claim = roles, idp_groups_claim = groups, idp_acl_claim = acl,
                idp_clearance_claim = clearance, idp_classification_labels_claim = labels,
                idp_external_model_claim = ext, idp_diagnostic_claim = diagnostic\<rparr>))))))))))))))))"

definition config_web_client :: "host_system \<Rightarrow> mapping \<Rightarrow> web_client_settings result" where
  "config_web_client h raw =
     rbind (config_required h (map_of raw ''client_id'') ''web_client.client_id'') (\<lambda>client.
     rbind (absolute_http_url h (map_of raw ''authorization_url'') ''web_client.authorization_url'') (\<lambda>auth_url.
     rbind (absolute_http_url h (map_of raw ''token_url'') ''web_client.token_url'') (\<lambda>token_url.
     rbind (absolute_http_url h (map_of raw ''logout_url'') ''web_client.logout_url'') (\<lambda>logout_url.
       Inr \<lparr>web_client_id = client, web_authorization_url = auth_url, web_token_url = token_url,
            web_logout_url = logout_url\<rparr>))))"

section \<open>Domain profiles\<close>

text \<open>The levels of a clearance model: the comprehension \<open>{str(label): _non_negative_int(value)}\<close>.\<close>

definition config_levels :: "mapping \<Rightarrow> mapping result" where
  "config_levels raw =
     (let levels = (case map_of raw ''clearance_level'' of
                      Some (PDict d) \<Rightarrow> map_of d ''levels''
                    | _ \<Rightarrow> map_of raw ''levels'')
      in case levels of
           Some (PDict items) \<Rightarrow>
             rmap (\<lambda>(label, value).
               rbind (non_negative_int (Some value) ''security.security_model.levels[]'') (\<lambda>i. Inr (label, PInt i))) items
         | _ \<Rightarrow> Inl (configuration_error ''security.security_model.clearance_level.levels must be a mapping''))"

definition config_security_model :: "host_system \<Rightarrow> mapping \<Rightarrow> security_model result" where
  "config_security_model h raw =
     rbind (config_enum h security_model_kind_of (map_of raw ''kind'') ''security.security_model.kind''
       ''security.security_model.kind must be none, clearance_level or classification_labels'') (\<lambda>kind.
       case kind of
         NO_MODEL \<Rightarrow> Inr security_model_none
       | CLEARANCE_LEVEL \<Rightarrow>
           rbind (config_levels raw) (\<lambda>items.
           rbind (clearance_level_model_post_init items) (\<lambda>levels.
             security_model_post_init \<lparr>model_kind = kind, model_clearance_level = Some levels,
               model_classification_labels = None\<rparr>))
       | CLASSIFICATION_LABELS \<Rightarrow>
           rbind (config_list raw ''labels_universe_subset''
             ''security.security_model.labels_universe_subset must be a list'') (\<lambda>labels.
           rbind (classification_labels_model_post_init
             \<lparr>labels_universe_subset = map (py_str (conversions.truncate h)) labels\<rparr>) (\<lambda>universe.
             security_model_post_init \<lparr>model_kind = kind, model_clearance_level = None,
               model_classification_labels = Some universe\<rparr>)))"

definition config_retrieval ::
    "host_system \<Rightarrow> mapping \<Rightarrow> search_mode \<Rightarrow> mapping \<Rightarrow> py list \<Rightarrow> retrieval_profile result" where
  "config_retrieval h retrieval mode filters filter_fields =
     rbind (positive_int (map_of retrieval ''top_k'') ''retrieval.top_k'') (\<lambda>top_k.
     rbind (positive_int (map_of retrieval ''max_context_characters'') ''retrieval.max_context_characters'') (\<lambda>limit.
       retrieval_profile_post_init
         \<lparr>retrieval_mode = mode, retrieval_top_k = top_k, retrieval_max_context_characters = limit,
          retrieval_filters = filters,
          retrieval_allowed_filter_fields = map (py_str (conversions.truncate h)) filter_fields\<rparr>))"

definition config_graph ::
    "host_system \<Rightarrow> mapping \<Rightarrow> graph_direction \<Rightarrow> py list \<Rightarrow> graph_traversal_profile result" where
  "config_graph h graph direction types =
     rbind (required_bool (map_of graph ''enabled'') ''graph.enabled'') (\<lambda>enabled.
     rbind (positive_int (map_of graph ''max_depth'') ''graph.max_depth'') (\<lambda>depth.
     rbind (positive_int (map_of graph ''max_nodes'') ''graph.max_nodes'') (\<lambda>nodes.
       graph_traversal_profile_post_init
         \<lparr>profile_enabled = enabled, profile_max_depth = depth, profile_max_nodes = nodes,
          profile_direction = direction, profile_relationship_types = map (py_str (conversions.truncate h)) types\<rparr>)))"

definition allowed_pipelines_of :: "mapping \<Rightarrow> py list result" where
  "allowed_pipelines_of raw =
     (case map_of raw ''allowed_pipeline_names'' of
        None \<Rightarrow> Inr []
      | Some (PList xs) \<Rightarrow> Inr xs
      | _ \<Rightarrow> Inl (configuration_error ''allowed_pipeline_names must be a list''))"

definition config_filters :: "mapping \<Rightarrow> mapping result" where
  "config_filters retrieval =
     (case map_of retrieval ''filters'' of
        Some (PDict d) \<Rightarrow> Inr d
      | _ \<Rightarrow> Inl (configuration_error ''retrieval.filters must be a mapping''))"

definition load_domain :: "host_system \<Rightarrow> path \<Rightarrow> domain_profile result" where
  "load_domain h path =
     rbind (read_yaml h path) (\<lambda>raw.
     rbind (config_mapping raw ''retrieval'') (\<lambda>retrieval.
     rbind (config_mapping raw ''graph'') (\<lambda>graph.
     rbind (config_mapping raw ''security'') (\<lambda>security.
     rbind (config_enum h search_mode_of (map_of retrieval ''mode'') ''retrieval.mode''
       ''retrieval.mode must be semantic, bm25 or hybrid'') (\<lambda>mode.
     rbind (config_filters retrieval) (\<lambda>filters.
     rbind (config_list retrieval ''allowed_filter_fields'' ''retrieval.allowed_filter_fields must be a list'') (\<lambda>filter_fields.
     rbind (require_that (\<not> has_key raw ''max_classification_level'')
       (configuration_error ''max_classification_level is no longer supported'')) (\<lambda>_.
     rbind (config_mapping security ''acl'') (\<lambda>acl.
     rbind (config_list acl ''allowed_labels'' ''security.acl.allowed_labels must be a list'') (\<lambda>labels.
     rbind (allowed_pipelines_of raw) (\<lambda>pipelines.
     rbind (config_list graph ''relationship_types'' ''graph.relationship_types must be a list'') (\<lambda>types.
     rbind (config_enum h graph_direction_of (map_of graph ''direction'') ''graph.direction''
       ''graph.direction must be outgoing, incoming or both'') (\<lambda>direction.
     rbind (config_required h (map_of raw ''name'') ''name'') (\<lambda>name.
     rbind (config_required h (map_of raw ''collection'') ''collection'') (\<lambda>collection.
     rbind (config_required h (map_of raw ''tenant_id'') ''tenant_id'') (\<lambda>tenant.
     rbind (config_required h (map_of raw ''prompt_name'') ''prompt_name'') (\<lambda>prompt.
     rbind (config_required h (map_of raw ''pipeline_name'') ''pipeline_name'') (\<lambda>pipeline.
     rbind (required_bool (map_of raw ''allow_external_model'') ''allow_external_model'') (\<lambda>ext.
     rbind (config_mapping security ''security_model'') (\<lambda>model_raw.
     rbind (config_security_model h model_raw) (\<lambda>model.
     rbind (required_bool (map_of security ''require_travel_permission'') ''security.require_travel_permission'') (\<lambda>travel.
     rbind (config_retrieval h retrieval mode filters filter_fields) (\<lambda>retrieval_profile.
     rbind (config_graph h graph direction types) (\<lambda>graph_profile.
       domain_profile_post_init
         \<lparr>domain_name = name,
          domain_description = strip (text_or_empty (conversions.truncate h) (map_of raw ''description'')),
          domain_collection = collection, domain_tenant_id = tenant, domain_prompt_name = prompt,
          domain_allow_external_model = ext, domain_retrieval = retrieval_profile, domain_graph = graph_profile,
          domain_pipeline_name = pipeline,
          domain_allowed_pipeline_names = map (py_str (conversions.truncate h)) pipelines,
          domain_disclaimer = strip (text_or_empty (conversions.truncate h) (map_of raw ''disclaimer'')),
          domain_allowed_acl_labels = map (py_str (conversions.truncate h)) labels,
          domain_security_model = model, domain_require_travel_permission = travel\<rparr>))))))))))))))))))))))))"

section \<open>Loading\<close>

definition config_web_clients :: "host_system \<Rightarrow> mapping option \<Rightarrow> web_client_settings option result" where
  "config_web_clients h raw =
     (case raw of None \<Rightarrow> Inr None | Some d \<Rightarrow> rbind (config_web_client h d) (\<lambda>client. Inr (Some client)))"

definition web_client_mapping :: "mapping \<Rightarrow> mapping option result" where
  "web_client_mapping raw =
     (case or_none (map_of raw ''web_client'') of
        PNone \<Rightarrow> Inr None
      | PDict d \<Rightarrow> Inr (Some d)
      | _ \<Rightarrow> Inl (configuration_error ''web_client must be a mapping''))"

definition load_domains :: "host_system \<Rightarrow> path \<Rightarrow> mapping \<Rightarrow> domain_profile list result" where
  "load_domains h directory raw =
     rbind (config_nonempty_list raw ''domains'' ''domains must be a non-empty list'') (\<lambda>listed.
     rbind (rmap (\<lambda>v.
       rbind (config_required h (Some v) ''domains[]'') (\<lambda>name.
       rbind (resolve_existing_file h directory name ''domain profile'') (load_domain h))) listed) (\<lambda>domains.
       if \<not> distinct (map domain_name domains) then Inl (configuration_error ''domain names must be unique'')
       else Inr domains))"

definition load_root :: "host_system \<Rightarrow> path \<Rightarrow> mapping \<Rightarrow> string \<Rightarrow> path result" where
  "load_root h directory raw key =
     rbind (config_required h (map_of raw key) key) (\<lambda>name. resolve_existing_directory h directory name key)"

definition config_server :: "host_system \<Rightarrow> mapping \<Rightarrow> server_settings result" where
  "config_server h server =
     rbind (config_required h (map_of server ''host'') ''server.host'') (\<lambda>host.
     rbind (positive_int (map_of server ''port'') ''server.port'') (\<lambda>port.
     rbind (positive_int (map_of server ''threads'') ''server.threads'') (\<lambda>threads.
       Inr \<lparr>srv_host = host, srv_port = port, srv_threads = threads\<rparr>)))"

definition config_postgresql :: "host_system \<Rightarrow> mapping \<Rightarrow> postgresql_settings result" where
  "config_postgresql h postgresql =
     rbind (config_secret h (map_of postgresql ''connection_url_env'')) (\<lambda>url.
     rbind (positive_int (map_of postgresql ''timeout_seconds'') ''postgresql.timeout_seconds'') (\<lambda>timeout.
       Inr \<lparr>pg_connection_url = url, pg_timeout_seconds = timeout\<rparr>))"

definition config_weaviate :: "host_system \<Rightarrow> mapping \<Rightarrow> weaviate_settings result" where
  "config_weaviate h weaviate =
     rbind (config_required h (map_of weaviate ''host'') ''weaviate.host'') (\<lambda>host.
     rbind (positive_int (map_of weaviate ''http_port'') ''weaviate.http_port'') (\<lambda>http_port.
     rbind (positive_int (map_of weaviate ''grpc_port'') ''weaviate.grpc_port'') (\<lambda>grpc_port.
     rbind (required_bool (map_of weaviate ''secure'') ''weaviate.secure'') (\<lambda>secure.
     rbind (config_secret h (map_of weaviate ''api_key_env'')) (\<lambda>api_key.
       Inr \<lparr>wv_host = host, wv_http_port = http_port, wv_grpc_port = grpc_port, wv_secure = secure,
            wv_api_key = api_key\<rparr>)))))"

definition config_embeddings :: "host_system \<Rightarrow> mapping \<Rightarrow> embedding_settings result" where
  "config_embeddings h embeddings =
     rbind (config_required h (map_of embeddings ''name'') ''embeddings.name'') (\<lambda>name.
     rbind (config_required h (map_of embeddings ''base_url'') ''embeddings.base_url'') (\<lambda>base_url.
     rbind (config_required h (map_of embeddings ''model'') ''embeddings.model'') (\<lambda>model.
     rbind (optional_secret h (map_of embeddings ''api_key_env'')) (\<lambda>api_key.
     rbind (positive_float h (map_of embeddings ''timeout_seconds'') ''embeddings.timeout_seconds'') (\<lambda>timeout.
       Inr \<lparr>emb_name = name, emb_base_url = base_url, emb_model = model, emb_api_key = api_key,
            emb_timeout_seconds = timeout\<rparr>)))))"

definition load_settings :: "host_system \<Rightarrow> string \<Rightarrow> flow_settings result" where
  "load_settings h file =
     (let config_path = resolve_path h (host_cwd h) file; directory = butlast config_path
      in rbind (read_yaml h config_path) (\<lambda>raw.
     rbind (config_mapping raw ''server'') (\<lambda>server.
     rbind (config_mapping raw ''postgresql'') (\<lambda>postgresql.
     rbind (config_mapping raw ''weaviate'') (\<lambda>weaviate.
     rbind (config_mapping raw ''embeddings'') (\<lambda>embeddings.
     rbind (config_mapping raw ''admin'') (\<lambda>admin.
     rbind (config_mapping raw ''identity_provider'') (\<lambda>identity.
     rbind (web_client_mapping raw) (\<lambda>web_raw.
     rbind (config_nonempty_list raw ''model_servers'' ''model_servers must be a non-empty list'') (\<lambda>listed.
     rbind (rmap (config_model_server h) listed) (\<lambda>model_servers.
     rbind (validate_model_servers model_servers) (\<lambda>_.
     rbind (load_root h directory raw ''prompts_root'') (\<lambda>prompts_root.
     rbind (load_root h directory raw ''pipelines_root'') (\<lambda>pipelines_root.
     rbind (load_domains h directory raw) (\<lambda>domains.
     rbind (config_server h server) (\<lambda>server_settings.
     rbind (config_postgresql h postgresql) (\<lambda>postgresql_settings.
     rbind (config_weaviate h weaviate) (\<lambda>weaviate_settings.
     rbind (config_embeddings h embeddings) (\<lambda>embedding_settings.
     rbind (config_secret h (map_of admin ''api_key_env'')) (\<lambda>admin_key.
     rbind (config_identity_provider h identity) (\<lambda>identity_settings.
     rbind (config_web_clients h web_raw) (\<lambda>web_settings.
       Inr \<lparr>set_config_path = config_path, set_server = server_settings, set_postgresql = postgresql_settings,
            set_weaviate = weaviate_settings, set_embeddings = embedding_settings, set_model_servers = model_servers,
            set_admin_api_key = admin_key, set_identity_provider = identity_settings,
            set_prompts_root = prompts_root, set_pipelines_root = pipelines_root, set_domains = domains,
            set_web_client = web_settings\<rparr>))))))))))))))))))))))"

section \<open>What loaded settings satisfy\<close>

definition model_server_settings_ok :: "model_server_settings \<Rightarrow> bool" where
  "model_server_settings_ok m \<longleftrightarrow> trimmed (ms_server_id m) \<and> server_id (ms_definition m) = ms_server_id m \<and>
     server_trust_boundary (ms_definition m) = ms_trust_boundary m \<and> 0 < ms_timeout_seconds m \<and>
     0 \<le> ms_input_cost_per_million m \<and> 0 \<le> ms_output_cost_per_million m"

definition configured_domain_ok :: "domain_profile \<Rightarrow> bool" where
  "configured_domain_ok d \<longleftrightarrow> domain_profile_ok d \<and> security_model_ok (domain_security_model d) \<and>
     0 < retrieval_top_k (domain_retrieval d) \<and> 0 < retrieval_max_context_characters (domain_retrieval d) \<and>
     0 < profile_max_depth (domain_graph d) \<and> 0 < profile_max_nodes (domain_graph d)"

definition settings_ok :: "flow_settings \<Rightarrow> bool" where
  "settings_ok s \<longleftrightarrow>
     set_model_servers s \<noteq> [] \<and> distinct (map ms_server_id (set_model_servers s)) \<and>
     (\<forall>m\<in>set (set_model_servers s). model_server_settings_ok m \<and>
        (\<forall>sid. server_security_reroute_server_id (ms_definition m) = Some sid \<longrightarrow>
          sid \<in> set (map ms_server_id (set_model_servers s)))) \<and>
     set_domains s \<noteq> [] \<and> distinct (map domain_name (set_domains s)) \<and>
     (\<forall>d\<in>set (set_domains s). configured_domain_ok d) \<and> set_admin_api_key s \<noteq> []"

lemma config_required_Inr: "config_required h v f = Inr t \<Longrightarrow> trimmed t"
  by (auto simp: config_required_def Let_def trimmed_def split: if_splits)

lemma config_secret_Inr: "config_secret h v = Inr t \<Longrightarrow> t \<noteq> []"
  by (auto simp: config_secret_def rbind_eq_Inr Let_def split: if_splits)

lemma number_fields:
  "positive_int v f = Inr i \<Longrightarrow> 0 < i"
  "positive_float h v f = Inr q \<Longrightarrow> 0 < q"
  "non_negative_float h v f = Inr q \<Longrightarrow> 0 \<le> q"
  by (auto simp: positive_int_def positive_float_def non_negative_float_def rbind_eq_Inr split: if_splits)

lemma rbindE: "rbind m f = Inr y \<Longrightarrow> (\<And>x. m = Inr x \<Longrightarrow> f x = Inr y \<Longrightarrow> P) \<Longrightarrow> P"
  by (auto simp: rbind_eq_Inr)

lemma config_security_model_ok:
  assumes "config_security_model h raw = Inr m"
  shows "security_model_ok m"
proof -
  from assms obtain kind where kind: "(case kind of NO_MODEL \<Rightarrow> Inr security_model_none
      | CLEARANCE_LEVEL \<Rightarrow> rbind (config_levels raw) (\<lambda>items.
          rbind (clearance_level_model_post_init items) (\<lambda>levels.
            security_model_post_init \<lparr>model_kind = kind, model_clearance_level = Some levels,
              model_classification_labels = None\<rparr>))
      | CLASSIFICATION_LABELS \<Rightarrow> rbind (config_list raw ''labels_universe_subset''
            ''security.security_model.labels_universe_subset must be a list'') (\<lambda>labels.
          rbind (classification_labels_model_post_init
            \<lparr>labels_universe_subset = map (py_str (conversions.truncate h)) labels\<rparr>) (\<lambda>universe.
            security_model_post_init \<lparr>model_kind = kind, model_clearance_level = None,
              model_classification_labels = Some universe\<rparr>))) = Inr m"
    unfolding config_security_model_def by (elim rbindE)
  then show ?thesis
    by (cases kind) (auto simp: rbind_eq_Inr security_model_ok_def security_model_none_def
      security_model_post_init_def clearance_level_model_post_init_ok dest: classification_labels_model_post_init_ok)
qed

lemma config_model_server_ok:
  assumes "config_model_server h v = Inr m"
  shows "model_server_settings_ok m"
  using assms unfolding config_model_server_def
  by (cases v) (auto simp: rbind_eq_Inr model_server_settings_ok_def model_server_definition_post_init_def
      number_fields config_required_Inr)

lemma config_retrieval_ok:
  "config_retrieval h raw mode d xs = Inr r \<Longrightarrow> 0 < retrieval_top_k r \<and> 0 < retrieval_max_context_characters r"
  by (auto simp: config_retrieval_def rbind_eq_Inr retrieval_profile_post_init_def split: if_splits)

lemma config_graph_ok:
  "config_graph h raw direction xs = Inr g \<Longrightarrow> 0 < profile_max_depth g \<and> 0 < profile_max_nodes g"
  by (auto simp: config_graph_def rbind_eq_Inr graph_traversal_profile_post_init_def split: if_splits)

lemma domain_profile_post_init_keeps:
  "domain_profile_post_init p = Inr p' \<Longrightarrow> domain_security_model p' = domain_security_model p \<and>
     domain_retrieval p' = domain_retrieval p \<and> domain_graph p' = domain_graph p"
  by (auto simp: domain_profile_post_init_def rbind_eq_Inr)

lemma load_domain_ok:
  assumes "load_domain h path = Inr d"
  shows "configured_domain_ok d"
proof -
  from assms obtain raw model retrieval graph p where parts: "config_security_model h raw = Inr model"
    "domain_profile_post_init p = Inr d" "domain_security_model p = model"
    "domain_retrieval p = retrieval" "domain_graph p = graph"
    "\<exists>r m fs xs. config_retrieval h r m fs xs = Inr retrieval" "\<exists>g dir ts. config_graph h g dir ts = Inr graph"
    unfolding load_domain_def
    by (elim rbindE) (rule that, assumption, assumption, simp, rule refl, rule refl, (simp, blast)+)
  from domain_profile_post_init_ok [OF parts(2)] domain_profile_post_init_keeps [OF parts(2)]
    config_security_model_ok [OF parts(1)] parts(3-7)
  show ?thesis by (auto simp: configured_domain_ok_def dest: config_retrieval_ok config_graph_ok)
qed

lemma load_domains_ok:
  assumes "load_domains h directory raw = Inr ds"
  shows "ds \<noteq> [] \<and> distinct (map domain_name ds) \<and> (\<forall>d\<in>set ds. configured_domain_ok d)"
proof -
  from assms obtain listed where listed: "listed \<noteq> []" "distinct (map domain_name ds)" "rmap (\<lambda>v.
       rbind (config_required h (Some v) ''domains[]'') (\<lambda>name.
       rbind (resolve_existing_file h directory name ''domain profile'') (load_domain h))) listed = Inr ds"
    by (auto simp: load_domains_def config_nonempty_list_def rbind_eq_Inr split: if_splits)
  from rmap_Inr_ball [OF listed(3)] have "\<forall>d\<in>set ds. \<exists>path. load_domain h path = Inr d"
    by (auto simp: rbind_eq_Inr)
  with length_rmap [OF listed(3)] listed(1,2) show ?thesis by (auto intro: load_domain_ok)
qed

lemma rfold_unit_Inr: "rfold (\<lambda>x _. f x) xs () = Inr () \<longleftrightarrow> (\<forall>x\<in>set xs. f x = Inr ())"
  by (induction xs) (auto simp: rbind_eq_Inr)

lemma validate_model_servers_ok:
  assumes "validate_model_servers ms = Inr ()"
  shows "distinct (map ms_server_id ms) \<and>
    (\<forall>m\<in>set ms. \<forall>sid. server_security_reroute_server_id (ms_definition m) = Some sid \<longrightarrow> sid \<in> set (map ms_server_id ms))"
  using assms by (auto simp: validate_model_servers_def rfold_unit_Inr split: if_splits option.splits)

lemma load_settings_ok:
  assumes "load_settings h file = Inr s"
  shows "settings_ok s"
proof -
  from assms obtain raw directory servers domains listed key admin where parts:
    "config_nonempty_list raw ''model_servers'' ''model_servers must be a non-empty list'' = Inr listed"
    "rmap (config_model_server h) listed = Inr servers" "validate_model_servers servers = Inr ()"
    "load_domains h directory raw = Inr domains" "config_secret h admin = Inr key"
    "set_model_servers s = servers" "set_domains s = domains" "set_admin_api_key s = key"
    unfolding load_settings_def Let_def
    by (elim rbindE) (rule that, assumption, assumption, simp, assumption, assumption, auto)
  have "servers \<noteq> []"
    using parts(1) length_rmap [OF parts(2)] by (auto simp: config_nonempty_list_def rbind_eq_Inr split: if_splits)
  moreover have "\<forall>m\<in>set servers. model_server_settings_ok m"
    using rmap_Inr_ball [OF parts(2)] by (auto intro: config_model_server_ok)
  ultimately show ?thesis
    using validate_model_servers_ok [OF parts(3)] load_domains_ok [OF parts(4)] config_secret_Inr [OF parts(5)]
    unfolding settings_ok_def parts(6-8) by blast
qed

end
