(* ===== verification/Loading_Properties.thy ===== *)
theory Loading_Properties
  imports Configuration Examples
begin

text \<open>
  What the files of an installation give: pipelines are well formed, errors of a file are reported as such,
  and a pipeline written to a file reads back.
\<close>

section \<open>Pipelines\<close>

lemma json_text_thawed:
  "frozen v \<Longrightarrow> json_text fmt (thawed v) \<noteq> None"
  "frozen_items d \<Longrightarrow> json_members fmt (thawed_items d) \<noteq> None"
proof (induction v and d rule: thawed_thawed_items.induct)
  case (2 xs)
  then have "\<forall>x\<in>set xs. json_text fmt (thawed x) \<noteq> None" by (simp add: list_all_iff)
  then have "json_items fmt (map thawed xs) \<noteq> None" by (induction xs) auto
  then show ?case by auto
qed auto

lemma json_items_Some: "json_items fmt xs \<noteq> None \<longleftrightarrow> (\<forall>x\<in>set xs. json_text fmt x \<noteq> None)"
  by (induction xs) (auto split: option.split)

lemma json_text_step_document:
  assumes "step_ok s"
  shows "json_text fmt (step_document s) \<noteq> None"
proof -
  have "frozen_items (step_config s)" using assms by (simp add: step_ok_def)
  from json_text_thawed(2) [OF this, of fmt]
  have "\<forall>kv\<in>set (thawed_items (step_config s)). json_text fmt (snd kv) \<noteq> None" by (metis json_members_None)
  then have "\<not> (\<exists>kv\<in>set (thawed_items (step_config s)). json_text fmt (snd kv) = None)" by blast
  then show ?thesis
    by (auto simp: step_document_def json_members_None split: option.splits)
qed

text \<open>
  C19: Whatever data a pipeline file holds, as long as it is JSON, loading it gives a well-formed pipeline
  or a \<open>PipelineDefinitionError\<close>, never another exception.
\<close>

theorem pipeline_file_sound:
  assumes "canonical_json fl raw \<noteq> None"
  shows "case parse_pipeline sha256 fl raw of
    Inr p \<Rightarrow> definition_ok p
  | Inl e \<Rightarrow> is_class PipelineDefinitionError e"
proof -
  have "canonical_json fl (PDict d) \<noteq> None" if "raw = PDict [(k, PDict d)]" for k d
    using assms that by (auto simp: canonical_json_def split: option.splits)
  then have "raises_only definition_errors (parse_pipeline sha256 fl raw)"
    by (auto simp: parse_pipeline_def intro!: parse_fields_raises split: py.split list.split)
  then show ?thesis
    using parse_fields_ok [of sha256 fl]
    by (auto simp: raises_only_def definition_errors_def parse_pipeline_def split: sum.split py.splits list.splits if_splits)
qed

text \<open>
  C18: A well-formed pipeline whose configuration does not use the names of step fields, written as a
  document, is read back as it was, with the checksum of the document.
\<close>

theorem pipeline_file_roundtrip:
  assumes "definition_ok p" "\<forall>s\<in>set (pipeline_steps p). writable s" "\<And>text. trimmed (sha256 text)"
  shows "\<exists>text. canonical_json fl (PDict (pipeline_document p)) = Some text \<and>
    parse_pipeline sha256 fl (PDict [(''pipeline'', PDict (pipeline_document p))]) =
      Inr (p\<lparr>pipeline_checksum := sha256 text\<rparr>)"
proof -
  have "json_items fmt (map step_document (pipeline_steps p)) \<noteq> None" for fmt
    unfolding json_items_Some using assms(2) by (simp add: writable_def json_text_step_document del: not_None_eq)
  then have "json_text fmt (PDict (pipeline_document p)) \<noteq> None" for fmt
    by (auto simp: pipeline_document_def split: option.split)
  then obtain doc where doc: "canonical_json fl (PDict (pipeline_document p)) = Some doc"
    unfolding canonical_json_def by blast
  have "rmap parse_step (map step_document (pipeline_steps p)) = Inr (pipeline_steps p)"
    using assms(2) by (auto simp: rmap_eq_Inr list_all2_map1 parse_step_document intro!: list.rel_refl_strong)
  then have "parse_fields sha256 fl (pipeline_document p) = Inr (p\<lparr>pipeline_checksum := sha256 doc\<rparr>)"
    using assms(1,3) doc by (cases p) (simp add: parse_fields_def raw_steps_def canonical_fields_def max_steps_of_def
      required_string_def as_definition_error_def pipeline_definition_post_init_def definition_ok_def trimmed_def
      pipeline_document_def)
  with doc show ?thesis
    by (auto simp: parse_pipeline_def pipeline_fields_def pipeline_document_def)
qed

lemma pipeline_file_roundtrip_witness:
  "\<exists>text. canonical_json (\<lambda>q. ''1.5'') (PDict (pipeline_document direct_pipeline)) = Some text \<and>
    parse_pipeline (\<lambda>s. ''sum'') (\<lambda>q. ''1.5'') (PDict [(''pipeline'', PDict (pipeline_document direct_pipeline))]) =
      Inr direct_pipeline"
proof -
  have "definition_ok direct_pipeline" "\<forall>s\<in>set (pipeline_steps direct_pipeline). writable s"
    "trimmed ''sum''" "direct_pipeline\<lparr>pipeline_checksum := ''sum''\<rparr> = direct_pipeline"
    by code_simp+
  with pipeline_file_roundtrip [of direct_pipeline "\<lambda>s. ''sum''" "\<lambda>q. ''1.5''"] show ?thesis by simp
qed

lemma pipeline_file_sound_witness:
  "is_class PipelineDefinitionError (projl (parse_pipeline (\<lambda>s. ''sum'') (\<lambda>q. ''1.5'') (PDict [(''pipeline'', PDict [])])))"
  using pipeline_file_sound [of "\<lambda>q. ''1.5''" "PDict [(''pipeline'', PDict [])]" "\<lambda>s. ''sum''"]
  by (simp add: canonical_json_def parse_pipeline_def pipeline_fields_def)

section \<open>Settings\<close>

definition demo_app_yaml :: mapping where
  "demo_app_yaml =
     [(''server'', PDict [(''host'', PStr ''0.0.0.0''), (''port'', PInt 8080), (''threads'', PInt 4)]),
      (''postgresql'', PDict [(''connection_url_env'', PStr ''DB''), (''timeout_seconds'', PInt 5)]),
      (''weaviate'', PDict [(''host'', PStr ''index''), (''http_port'', PInt 80), (''grpc_port'', PInt 50),
         (''secure'', PBool True), (''api_key_env'', PStr ''KEY'')]),
      (''embeddings'', PDict [(''name'', PStr ''e''), (''base_url'', PStr ''u''), (''model'', PStr ''m''),
         (''timeout_seconds'', PInt 5)]),
      (''admin'', PDict [(''api_key_env'', PStr ''ADMIN'')]),
      (''identity_provider'', PDict ([(''algorithms'', PList [PStr ''RS256'']), (''timeout_seconds'', PInt 5),
         (''cache_ttl_seconds'', PInt 60)] @ map (\<lambda>k. (k, PStr k)) [''issuer'', ''audience'', ''jwks_url'',
         ''tenant_claim'', ''roles_claim'', ''groups_claim'', ''acl_claim'', ''clearance_claim'',
         ''classification_labels_claim'', ''external_model_claim'', ''diagnostic_claim''])),
      (''model_servers'', PList [PDict [(''trust_boundary'', PStr ''Internal''), (''id'', PStr ''default-model''),
         (''security_profile'', PDict [(''kind'', PStr ''clearance_level''), (''clearance_label'', PStr ''secret'')]),
         (''base_url'', PStr ''u''), (''model'', PStr ''m''), (''timeout_seconds'', PInt 5),
         (''input_cost_per_million'', PInt 0), (''output_cost_per_million'', PInt 1)]]),
      (''prompts_root'', PStr ''prompts''), (''pipelines_root'', PStr ''pipelines''),
      (''domains'', PList [PStr ''docs.yaml''])]"

definition demo_domain_yaml :: mapping where
  "demo_domain_yaml =
     [(''name'', PStr ''docs''), (''collection'', PStr ''Docs''), (''tenant_id'', PStr ''acme''),
      (''prompt_name'', PStr ''answer''), (''pipeline_name'', PStr ''direct-rag''),
      (''allow_external_model'', PBool False),
      (''retrieval'', PDict [(''mode'', PStr ''bm25''), (''filters'', PDict []), (''allowed_filter_fields'', PList []),
         (''top_k'', PInt 3), (''max_context_characters'', PInt 500)]),
      (''graph'', PDict [(''enabled'', PBool False), (''max_depth'', PInt 1), (''max_nodes'', PInt 1),
         (''direction'', PStr ''both''), (''relationship_types'', PList [])]),
      (''security'', PDict [(''acl'', PDict [(''allowed_labels'', PList [])]), (''require_travel_permission'', PBool False),
         (''security_model'', PDict [(''kind'', PStr ''clearance_level''),
            (''levels'', PDict [(''public'', PInt 0), (''secret'', PInt 5)])])])]"

definition demo_host :: host_system where
  "demo_host = \<lparr>cv_repr = (\<lambda>v. []), cv_parse_float = (\<lambda>s. None),
     host_files = \<lparr>fs_resolve = (\<lambda>p. p), fs_is_file = (\<lambda>p. True), fs_is_dir = (\<lambda>p. True),
       fs_read_text = (\<lambda>p. Inr (last p)),
       fs_yaml = (\<lambda>t. Some (PDict (if t = ''app.yaml'' then demo_app_yaml else demo_domain_yaml)))\<rparr>,
     host_cwd = [''app''], host_getenv = (\<lambda>n. Some ''value''), host_expanduser = (\<lambda>s. s),
     host_urlsplit = (\<lambda>u. Inr (''https'', u))\<rparr>"


lemma demo_settings_load:
  "is_ok (load_settings demo_host ''app.yaml'')"
  "map_sum (\<lambda>e. ()) (\<lambda>s. map domain_name (set_domains s)) (load_settings demo_host ''app.yaml'') = Inr [''docs'']"
  by code_simp+


end
