(* ===== verification/Migrations.thy ===== *)
theory Migrations
  imports Errors
begin

text \<open>
  \<open>infrastructure/migration_runner.py\<close>: the SQL files of the package are applied in the order of their
  names, each once, in one transaction. What a script does to the schema and SHA-256 are parameters.
\<close>

record migration_file =
  mig_name :: string
  mig_sql :: string

record 'schema migration_db =
  mdb_up :: bool
  mdb_applied :: "(string \<times> string) list"
  mdb_schema :: 'schema

text \<open>\<open>run_sql\<close> is \<open>None\<close> when the server rejects the script.\<close>

record 'schema migration_host =
  mh_sha256 :: "string \<Rightarrow> string"
  mh_run_sql :: "string \<Rightarrow> 'schema \<Rightarrow> 'schema option"

definition migration_failed :: py_exn where
  "migration_failed = Known DependencyUnavailableError ''PostgreSQL migration failed''"

definition apply_migration ::
    "'schema migration_host \<Rightarrow> migration_file \<Rightarrow> 'schema migration_db \<Rightarrow> 'schema migration_db result" where
  "apply_migration h m db =
     (let checksum = mh_sha256 h (mig_sql m)
      in case map_of (mdb_applied db) (mig_name m) of
           Some existing \<Rightarrow>
             if existing \<noteq> checksum
             then Inl (Known DependencyUnavailableError (''Migration checksum mismatch: '' @ mig_name m)) else Inr db
         | None \<Rightarrow>
             (case mh_run_sql h (mig_sql m) (mdb_schema db) of
                None \<Rightarrow> Inl migration_failed
              | Some schema \<Rightarrow>
                  Inr (db\<lparr>mdb_schema := schema, mdb_applied := mdb_applied db @ [(mig_name m, checksum)]\<rparr>)))"

definition migrate ::
    "'schema migration_host \<Rightarrow> migration_file list \<Rightarrow> ('schema migration_db, py_exn, unit) prog" where
  "migrate h files db =
     (if \<not> mdb_up db then (Inl migration_failed, db)
      else case rfold (apply_migration h) (sort_key mig_name files) db of
             Inl e \<Rightarrow> (Inl e, db)
           | Inr db' \<Rightarrow> (Inr (), db'))"

section \<open>Each migration once\<close>

definition fresh_migrations :: "'schema migration_db \<Rightarrow> migration_file list \<Rightarrow> migration_file list" where
  "fresh_migrations db files = filter (\<lambda>m. mig_name m \<notin> set (map fst (mdb_applied db))) (sort_key mig_name files)"

fun run_scripts :: "'schema migration_host \<Rightarrow> migration_file list \<Rightarrow> 'schema \<Rightarrow> 'schema option" where
  "run_scripts h [] s = Some s"
| "run_scripts h (m # ms) s = (case mh_run_sql h (mig_sql m) s of None \<Rightarrow> None | Some s' \<Rightarrow> run_scripts h ms s')"

definition migration_entry :: "'schema migration_host \<Rightarrow> migration_file \<Rightarrow> string \<times> string" where
  "migration_entry h m = (mig_name m, mh_sha256 h (mig_sql m))"

lemma apply_migrations:
  assumes "rfold (apply_migration h) ms db = Inr db'" "distinct (map mig_name ms)"
  shows "mdb_applied db' = mdb_applied db @
      map (migration_entry h) (filter (\<lambda>m. mig_name m \<notin> set (map fst (mdb_applied db))) ms) \<and>
    run_scripts h (filter (\<lambda>m. mig_name m \<notin> set (map fst (mdb_applied db))) ms) (mdb_schema db) = Some (mdb_schema db') \<and>
    mdb_up db' = mdb_up db \<and>
    (\<forall>m\<in>set ms. map_of (mdb_applied db') (mig_name m) = Some (mh_sha256 h (mig_sql m)))"
  using assms
proof (induction ms arbitrary: db)
  case (Cons m ms)
  from Cons.prems(1) obtain db1 where step: "apply_migration h m db = Inr db1"
    and rest: "rfold (apply_migration h) ms db1 = Inr db'" by (auto simp: rbind_eq_Inr)
  note ih = Cons.IH [OF rest]
  show ?case
  proof (cases "map_of (mdb_applied db) (mig_name m)")
    case None
    with step obtain schema where s: "mh_run_sql h (mig_sql m) (mdb_schema db) = Some schema"
      "db1 = db\<lparr>mdb_schema := schema, mdb_applied := mdb_applied db @ [migration_entry h m]\<rparr>"
      by (auto simp: apply_migration_def Let_def migration_entry_def split: option.splits)
    have ne: "mig_name k \<noteq> mig_name m" if "k \<in> set ms" for k
      using Cons.prems(2) that by (metis distinct.simps(2) image_eqI list.map(2) set_map)
    have "filter (\<lambda>k. mig_name k \<notin> set (map fst (mdb_applied db1))) ms =
        filter (\<lambda>k. mig_name k \<notin> set (map fst (mdb_applied db))) ms"
      by (intro filter_cong) (auto simp: s(2) migration_entry_def dest: ne)
    moreover have "map_of (mdb_applied db1 @ xs) (mig_name m) = Some (mh_sha256 h (mig_sql m))" for xs
      using None by (simp add: s(2) migration_entry_def map_add_def)
    ultimately show ?thesis using ih Cons.prems(2) None s
      by (auto simp: map_of_eq_None_iff)
  next
    case (Some existing)
    with step have "db1 = db" "existing = mh_sha256 h (mig_sql m)"
      by (auto simp: apply_migration_def Let_def split: if_splits)
    with ih Cons.prems(2) Some show ?thesis
      by (auto simp: map_add_def dest: map_of_SomeD intro: rev_image_eqI)
  qed
qed simp

lemma apply_migrations_again:
  "(\<forall>m\<in>set ms. map_of (mdb_applied db) (mig_name m) = Some (mh_sha256 h (mig_sql m))) \<Longrightarrow>
   rfold (apply_migration h) ms db = Inr db"
  by (induction ms) (auto simp: apply_migration_def Let_def)

end
