(* ===== verification/Execution_Audit.thy ===== *)
theory Execution_Audit
  imports Engine Ingestion_Service
begin

text \<open>
  \<open>infrastructure/audit.py\<close> over the tables of migrations 001 and 004, rows in insertion order: a method
  is one statement that fails and leaves the tables alone, or commits. The clock, the reading of UUIDs,
  the rounding of a NUMERIC(20,10) and the rendering of a timestamp are parameters of the database.
  A UUID is its text and a \<open>Decimal\<close> its number.
\<close>

section \<open>Tables\<close>

record run_row =
  arow_run_id :: string
  arow_request_id :: string
  arow_session_id :: string
  arow_domain :: string
  arow_tenant_id :: string
  arow_pipeline_name :: string
  arow_pipeline_version :: string
  arow_pipeline_checksum :: string
  arow_status :: pipeline_run_status
  arow_query :: string
  arow_answer :: "string option"
  arow_citation_count :: int
  arow_error_code :: "string option"
  arow_error_message :: "string option"
  arow_started_at :: rat
  arow_completed_at :: "rat option"
  arow_prompt_tokens :: int
  arow_completion_tokens :: int
  arow_estimated_cost :: rat

record step_row =
  srow_run_id :: string
  srow_sequence :: int
  srow_step_id :: string
  srow_action :: string
  srow_action_version :: string
  srow_duration_ms :: int
  srow_next_step_id :: "string option"
  srow_completed_at :: rat

record audit_db =
  adb_runs :: "run_row list"
  adb_steps :: "step_row list"
  adb_up :: bool
  adb_now :: rat
  adb_uuid :: "string \<Rightarrow> string option"
  adb_numeric :: "rat \<Rightarrow> rat option"
  adb_time :: "rat \<Rightarrow> py"

text \<open>The CHECK constraints.\<close>

definition run_row_ok :: "run_row \<Rightarrow> bool" where
  "run_row_ok r \<longleftrightarrow> 0 \<le> arow_citation_count r \<and> sql_integer (arow_citation_count r) \<and>
     (arow_status r = RUN_RUNNING \<longleftrightarrow> arow_completed_at r = None) \<and>
     0 \<le> arow_prompt_tokens r \<and> sql_integer (arow_prompt_tokens r) \<and>
     0 \<le> arow_completion_tokens r \<and> sql_integer (arow_completion_tokens r) \<and> 0 \<le> arow_estimated_cost r"

definition step_row_ok :: "step_row \<Rightarrow> bool" where
  "step_row_ok s \<longleftrightarrow> 0 < srow_sequence s \<and> sql_integer (srow_sequence s) \<and>
     0 \<le> srow_duration_ms s \<and> sql_integer (srow_duration_ms s)"

definition audit_statement ::
    "string \<Rightarrow> (audit_db \<Rightarrow> ('a \<times> audit_db) option) \<Rightarrow> (audit_db, py_exn, 'a) prog" where
  "audit_statement message statement db =
     (case (if adb_up db then statement db else None) of
        None \<Rightarrow> (Inl (Known DependencyUnavailableError message), db)
      | Some (x, db') \<Rightarrow> (Inr x, db'))"

definition audit_write :: "(audit_db \<Rightarrow> audit_db option) \<Rightarrow> (audit_db, py_exn, unit) prog" where
  "audit_write statement =
     audit_statement ''PostgreSQL audit write failed'' (\<lambda>db. map_option (\<lambda>db'. ((), db')) (statement db))"

section \<open>Writing\<close>

definition run_started :: "pipeline_run \<Rightarrow> audit_db \<Rightarrow> audit_db option" where
  "run_started run db =
     (case (adb_uuid db (run_run_id run), char64 (run_pipeline_checksum run)) of
        (Some rid, Some checksum) \<Rightarrow>
          if rid \<in> set (map arow_run_id (adb_runs db)) \<or>
             \<not> storable [run_request_id run, run_session_id run, run_domain run, run_tenant_id run, run_pipeline_name run,
                run_pipeline_version run, run_pipeline_checksum run, run_query run]
          then None
          else Some (db\<lparr>adb_runs := adb_runs db @
            [\<lparr>arow_run_id = rid, arow_request_id = run_request_id run, arow_session_id = run_session_id run,
              arow_domain = run_domain run, arow_tenant_id = run_tenant_id run,
              arow_pipeline_name = run_pipeline_name run, arow_pipeline_version = run_pipeline_version run,
              arow_pipeline_checksum = checksum, arow_status = RUN_RUNNING, arow_query = run_query run,
              arow_answer = None, arow_citation_count = 0, arow_error_code = None, arow_error_message = None,
              arow_started_at = adb_now db, arow_completed_at = None, arow_prompt_tokens = 0,
              arow_completion_tokens = 0, arow_estimated_cost = 0\<rparr>]\<rparr>)
      | _ \<Rightarrow> None)"

definition pg_audit_start :: "pipeline_run \<Rightarrow> (audit_db, py_exn, unit) prog" where
  "pg_audit_start run = audit_write (run_started run)"

definition step_recorded :: "pipeline_step_audit \<Rightarrow> audit_db \<Rightarrow> audit_db option" where
  "step_recorded step db =
     (case adb_uuid db (audit_run_id step) of
        None \<Rightarrow> None
      | Some rid \<Rightarrow>
          (let row = \<lparr>srow_run_id = rid, srow_sequence = audit_sequence_number step, srow_step_id = audit_step_id step,
                 srow_action = audit_action step, srow_action_version = audit_action_version step,
                 srow_duration_ms = audit_duration_ms step, srow_next_step_id = audit_next_step_id step,
                 srow_completed_at = adb_now db\<rparr>
           in if rid \<in> set (map arow_run_id (adb_runs db)) \<and>
                 (rid, srow_sequence row) \<notin> set (map (\<lambda>s. (srow_run_id s, srow_sequence s)) (adb_steps db)) \<and>
                 step_row_ok row \<and>
                 storable ([srow_step_id row, srow_action row, srow_action_version row] @
                   (case srow_next_step_id row of None \<Rightarrow> [] | Some n \<Rightarrow> [n]))
              then Some (db\<lparr>adb_steps := adb_steps db @ [row]\<rparr>) else None))"

definition pg_audit_record_step :: "pipeline_step_audit \<Rightarrow> (audit_db, py_exn, unit) prog" where
  "pg_audit_record_step step = audit_write (step_recorded step)"

text \<open>\<open>_complete\<close>: the values of the columns that are set.\<close>

record completion =
  co_status :: pipeline_run_status
  co_answer :: "string option"
  co_citation_count :: int
  co_error_code :: "string option"
  co_error_message :: "string option"
  co_prompt_tokens :: int
  co_completion_tokens :: int
  co_estimated_cost :: rat

definition completed_row :: "completion \<Rightarrow> rat \<Rightarrow> rat \<Rightarrow> run_row \<Rightarrow> run_row" where
  "completed_row c cost now r = r\<lparr>arow_status := co_status c, arow_answer := co_answer c,
     arow_citation_count := co_citation_count c, arow_error_code := co_error_code c,
     arow_error_message := co_error_message c, arow_prompt_tokens := co_prompt_tokens c,
     arow_completion_tokens := co_completion_tokens c, arow_estimated_cost := cost,
     arow_completed_at := Some now\<rparr>"

definition run_completed :: "string \<Rightarrow> completion \<Rightarrow> audit_db \<Rightarrow> audit_db option" where
  "run_completed run_id c db =
     (case (adb_uuid db run_id, adb_numeric db (co_estimated_cost c)) of
        (Some rid, Some cost) \<Rightarrow>
          (let hit = (\<lambda>r. arow_run_id r = rid \<and> arow_status r = RUN_RUNNING); f = completed_row c cost (adb_now db)
           in if storable (List.map_filter id [co_answer c, co_error_code c, co_error_message c]) \<and>
                 list_all run_row_ok (map f (filter hit (adb_runs db)))
              then Some (db\<lparr>adb_runs := map (\<lambda>r. if hit r then f r else r) (adb_runs db)\<rparr>) else None)
      | _ \<Rightarrow> None)"

definition pg_audit_succeed ::
    "string \<Rightarrow> string \<Rightarrow> int \<Rightarrow> int \<Rightarrow> int \<Rightarrow> rat \<Rightarrow> (audit_db, py_exn, unit) prog" where
  "pg_audit_succeed run_id answer citation_count prompt_tokens completion_tokens cost =
     audit_write (run_completed run_id \<lparr>co_status = RUN_SUCCEEDED, co_answer = Some answer,
       co_citation_count = citation_count, co_error_code = None, co_error_message = None,
       co_prompt_tokens = prompt_tokens, co_completion_tokens = completion_tokens, co_estimated_cost = cost\<rparr>)"

definition pg_audit_fail :: "string \<Rightarrow> string \<Rightarrow> string \<Rightarrow> (audit_db, py_exn, unit) prog" where
  "pg_audit_fail run_id error_code error_message =
     audit_write (run_completed run_id \<lparr>co_status = RUN_FAILED, co_answer = None, co_citation_count = 0,
       co_error_code = Some (take 100 error_code), co_error_message = Some (take 2000 error_message),
       co_prompt_tokens = 0, co_completion_tokens = 0, co_estimated_cost = 0\<rparr>)"

definition postgres_audit :: "audit_db execution_audit" where
  "postgres_audit = \<lparr>audit_start = pg_audit_start, audit_record_step = pg_audit_record_step,
     audit_succeed = pg_audit_succeed, audit_fail = pg_audit_fail\<rparr>"

section \<open>Reading\<close>

fun run_status_text :: "pipeline_run_status \<Rightarrow> string" where
  "run_status_text RUN_RUNNING = ''running''"
| "run_status_text RUN_SUCCEEDED = ''succeeded''"
| "run_status_text RUN_FAILED = ''failed''"

definition step_payload :: "(rat \<Rightarrow> py) \<Rightarrow> step_row \<Rightarrow> py" where
  "step_payload time s = PDict
     [(''sequence_number'', PInt (srow_sequence s)), (''step_id'', PStr (srow_step_id s)),
      (''action'', PStr (srow_action s)), (''action_version'', PStr (srow_action_version s)),
      (''duration_ms'', PInt (srow_duration_ms s)), (''next_step_id'', opt_py (srow_next_step_id s)),
      (''completed_at'', time (srow_completed_at s))]"

definition run_payload :: "(rat \<Rightarrow> py) \<Rightarrow> run_row \<Rightarrow> step_row list \<Rightarrow> mapping" where
  "run_payload time r steps =
     [(''run_id'', PStr (arow_run_id r)), (''request_id'', PStr (arow_request_id r)),
      (''session_id'', PStr (arow_session_id r)), (''domain'', PStr (arow_domain r)),
      (''tenant_id'', PStr (arow_tenant_id r)), (''pipeline_name'', PStr (arow_pipeline_name r)),
      (''pipeline_version'', PStr (arow_pipeline_version r)),
      (''pipeline_checksum'', PStr (arow_pipeline_checksum r)),
      (''status'', PStr (run_status_text (arow_status r))), (''query'', PStr (arow_query r)),
      (''answer'', opt_py (arow_answer r)), (''citation_count'', PInt (arow_citation_count r)),
      (''error_code'', opt_py (arow_error_code r)), (''error_message'', opt_py (arow_error_message r)),
      (''started_at'', time (arow_started_at r)),
      (''completed_at'', (case arow_completed_at r of None \<Rightarrow> PNone | Some t \<Rightarrow> time t)),
      (''prompt_tokens'', PInt (arow_prompt_tokens r)), (''completion_tokens'', PInt (arow_completion_tokens r)),
      (''estimated_cost'', PFloat (arow_estimated_cost r)),
      (''steps'', PList (map (step_payload time) steps))]"

text \<open>\<open>ORDER BY started_at DESC LIMIT 1\<close>: rows of the same instant come in insertion order.\<close>

definition latest_run :: "string \<Rightarrow> string \<Rightarrow> run_row list \<Rightarrow> run_row option" where
  "latest_run request tenant rows =
     (case sort_key (\<lambda>r. - arow_started_at r)
        (filter (\<lambda>r. arow_request_id r = request \<and> arow_tenant_id r = tenant) rows) of
        [] \<Rightarrow> None | r # _ \<Rightarrow> Some r)"

definition pg_audit_fetch :: "string \<Rightarrow> string \<Rightarrow> (audit_db, py_exn, mapping option) prog" where
  "pg_audit_fetch request tenant =
     audit_statement ''PostgreSQL audit read failed'' (\<lambda>db.
       if \<not> storable [request, tenant] then None
       else Some (case latest_run request tenant (adb_runs db) of
           None \<Rightarrow> None
         | Some r \<Rightarrow> Some (run_payload (adb_time db) r
             (sort_key srow_sequence (filter (\<lambda>s. srow_run_id s = arow_run_id r) (adb_steps db)))), db))"

text \<open>\<open>COALESCE(AVG(...), 0)\<close>.\<close>

definition average :: "rat list \<Rightarrow> rat" where
  "average xs = (if xs = [] then 0 else sum_list xs / of_nat (length xs))"

definition window_runs :: "string \<Rightarrow> int \<Rightarrow> audit_db \<Rightarrow> run_row list" where
  "window_runs tenant hours db =
     filter (\<lambda>r. arow_tenant_id r = tenant \<and> adb_now db - of_int hours * 3600 \<le> arow_started_at r) (adb_runs db)"

definition run_durations :: "run_row list \<Rightarrow> rat list" where
  "run_durations rs =
     List.map_filter (\<lambda>r. map_option (\<lambda>t. (t - arow_started_at r) * 1000) (arow_completed_at r)) rs"

definition action_metrics :: "run_row list \<Rightarrow> step_row list \<Rightarrow> py list" where
  "action_metrics rs steps =
     (let joined = filter (\<lambda>s. srow_run_id s \<in> set (map arow_run_id rs)) steps
      in map (\<lambda>a. let mine = filter (\<lambda>s. srow_action s = a) joined
                 in PDict [(''action'', PStr a), (''executions'', PInt (int (length mine))),
                      (''average_duration_ms'', PFloat (average (map (\<lambda>s. of_int (srow_duration_ms s)) mine)))])
           (sorted_unique (map srow_action joined)))"

definition metrics_of :: "string \<Rightarrow> int \<Rightarrow> run_row list \<Rightarrow> step_row list \<Rightarrow> mapping" where
  "metrics_of tenant hours rs steps =
     (let total = int (length rs);
          succeeded = filter (\<lambda>r. arow_status r = RUN_SUCCEEDED) rs;
          prompt = sum_list (map arow_prompt_tokens rs); completion = sum_list (map arow_completion_tokens rs)
      in [(''tenant_id'', PStr tenant), (''window_hours'', PInt hours), (''executions'', PInt total),
          (''succeeded'', PInt (int (length succeeded))),
          (''failed'', PInt (int (length (filter (\<lambda>r. arow_status r = RUN_FAILED) rs)))),
          (''success_rate'', PFloat (if total = 0 then 0 else of_nat (length succeeded) / of_int total)),
          (''average_duration_ms'', PFloat (average (run_durations rs))),
          (''average_citations'', PFloat (average (map (\<lambda>r. of_int (arow_citation_count r)) succeeded))),
          (''no_evidence_executions'', PInt (int (length (filter (\<lambda>r. arow_citation_count r = 0) succeeded)))),
          (''prompt_tokens'', PInt prompt), (''completion_tokens'', PInt completion),
          (''total_tokens'', PInt (prompt + completion)),
          (''estimated_cost'', PFloat (sum_list (map arow_estimated_cost rs))),
          (''actions'', PList (action_metrics rs steps))])"

definition pg_audit_metrics :: "string \<Rightarrow> int \<Rightarrow> (audit_db, py_exn, mapping) prog" where
  "pg_audit_metrics tenant hours =
     audit_statement ''PostgreSQL metrics read failed'' (\<lambda>db.
       if \<not> storable [tenant] then None
       else Some (metrics_of tenant hours (window_runs tenant hours db) (adb_steps db), db))"

definition pg_audit_check :: "(audit_db, py_exn, unit) prog" where
  "pg_audit_check = audit_statement ''PostgreSQL audit health check failed'' (\<lambda>db. Some ((), db))"

section \<open>What the statements keep\<close>

definition audit_tables_ok :: "audit_db \<Rightarrow> bool" where
  "audit_tables_ok db \<longleftrightarrow> distinct (map arow_run_id (adb_runs db)) \<and> list_all run_row_ok (adb_runs db) \<and>
     distinct (map (\<lambda>s. (srow_run_id s, srow_sequence s)) (adb_steps db)) \<and> list_all step_row_ok (adb_steps db) \<and>
     (\<forall>s\<in>set (adb_steps db). srow_run_id s \<in> set (map arow_run_id (adb_runs db)))"

text \<open>What happened to one run: a running row may be completed, and then it stays.\<close>

definition run_later :: "run_row \<Rightarrow> run_row \<Rightarrow> bool" where
  "run_later r r' \<longleftrightarrow> r' = r \<or> arow_status r = RUN_RUNNING \<and> arow_status r' \<noteq> RUN_RUNNING \<and>
     (\<exists>c cost now. r' = completed_row c cost now r)"

inductive audit_call :: "audit_db \<Rightarrow> audit_db \<Rightarrow> bool" where
  start: "snd (pg_audit_start run db) = db' \<Longrightarrow> audit_call db db'"
| step: "snd (pg_audit_record_step entry db) = db' \<Longrightarrow> audit_call db db'"
| succeed: "snd (pg_audit_succeed rid answer n p c q db) = db' \<Longrightarrow> audit_call db db'"
| fail: "snd (pg_audit_fail rid code message db) = db' \<Longrightarrow> audit_call db db'"

lemma audit_write_state:
  "snd (audit_write statement db) = db \<or> (\<exists>db'. statement db = Some db' \<and> snd (audit_write statement db) = db')"
  by (auto simp: audit_write_def audit_statement_def split: option.splits)

lemma completed_row_ids [simp]:
  "arow_run_id (completed_row c cost now r) = arow_run_id r"
  "arow_tenant_id (completed_row c cost now r) = arow_tenant_id r"
  "arow_status (completed_row c cost now r) = co_status c"
  by (simp_all add: completed_row_def)

lemma run_started_ok:
  assumes "run_started run db = Some db'" "audit_tables_ok db"
  shows "audit_tables_ok db' \<and> grown run_later (adb_runs db) (adb_runs db')"
  using assms
  by (auto simp: run_started_def audit_tables_ok_def run_row_ok_def sql_integer_def grown_def run_later_def
      intro!: list.rel_refl_strong split: option.splits if_splits)

lemma step_recorded_ok:
  assumes "step_recorded entry db = Some db'" "audit_tables_ok db"
  shows "audit_tables_ok db' \<and> grown run_later (adb_runs db) (adb_runs db')"
  using assms
  by (auto simp: step_recorded_def audit_tables_ok_def grown_def run_later_def Let_def
      intro!: list.rel_refl_strong split: option.splits if_splits)

lemma run_completed_ok:
  assumes "run_completed rid c db = Some db'" "audit_tables_ok db" "co_status c \<noteq> RUN_RUNNING"
  shows "audit_tables_ok db' \<and> grown run_later (adb_runs db) (adb_runs db')"
proof -
  from assms(1) obtain u cost where parts: "db' = db\<lparr>adb_runs := map (\<lambda>r. if arow_run_id r = u \<and> arow_status r = RUN_RUNNING
        then completed_row c cost (adb_now db) r else r) (adb_runs db)\<rparr>"
    "list_all run_row_ok (map (completed_row c cost (adb_now db))
       (filter (\<lambda>r. arow_run_id r = u \<and> arow_status r = RUN_RUNNING) (adb_runs db)))"
    by (auto simp: run_completed_def Let_def split: option.splits if_splits)
  let ?g = "\<lambda>r. if arow_run_id r = u \<and> arow_status r = RUN_RUNNING then completed_row c cost (adb_now db) r else r"
  have ids: "map arow_run_id (map ?g (adb_runs db)) = map arow_run_id (adb_runs db)"
    by (rule map_if_same) simp
  have "list_all run_row_ok (map ?g (adb_runs db))"
    using assms(2) parts(2) by (auto simp: audit_tables_ok_def list_all_iff)
  moreover have "grown run_later (adb_runs db) (map ?g (adb_runs db))"
    using assms(3) by (auto simp: grown_def run_later_def list_all2_map2 intro!: list.rel_refl_strong)
  ultimately show ?thesis using assms(2) by (simp add: parts(1) audit_tables_ok_def ids del: map_map set_map list.set_map)
qed

lemma audit_call_ok:
  assumes "audit_call db db'" "audit_tables_ok db"
  shows "audit_tables_ok db' \<and> grown run_later (adb_runs db) (adb_runs db')"
proof -
  have same: "grown run_later (adb_runs db) (adb_runs db)"
    by (auto simp: grown_def run_later_def intro!: list.rel_refl_strong)
  from assms(1) show ?thesis
  proof cases
    case (start run)
    then show ?thesis using audit_write_state [of "run_started run" db] run_started_ok assms(2) same
      by (auto simp: pg_audit_start_def)
  next
    case (step entry)
    then show ?thesis using audit_write_state [of "step_recorded entry" db] step_recorded_ok assms(2) same
      by (auto simp: pg_audit_record_step_def)
  next
    case (succeed rid answer n p c q)
    then show ?thesis using audit_write_state [of _ db] run_completed_ok [OF _ assms(2)] assms(2) same
      unfolding pg_audit_succeed_def by (metis completion.select_convs(1) pipeline_run_status.distinct(1))
  next
    case (fail rid code message)
    then show ?thesis using audit_write_state [of _ db] run_completed_ok [OF _ assms(2)] assms(2) same
      unfolding pg_audit_fail_def by (metis completion.select_convs(1) pipeline_run_status.distinct(3))
  qed
qed

end
