(* ===== verification/Gateways.thy ===== *)
theory Gateways
  imports Conversions Context Vector_Index
begin

text \<open>
  \<open>infrastructure/http_gateways.py\<close>: model and embedding servers that speak the OpenAI protocol. The HTTP
  exchange is a parameter: it takes the method, the URL, the headers, the JSON payload and the timeout.
\<close>

section \<open>Endpoints\<close>

record model_endpoint =
  mep_name :: string
  mep_scope :: string
  mep_base_url :: string
  mep_model :: string
  mep_api_key :: string
  mep_timeout_seconds :: rat
  mep_input_cost_per_million :: rat
  mep_output_cost_per_million :: rat

definition model_endpoint_post_init :: "model_endpoint \<Rightarrow> model_endpoint result" where
  "model_endpoint_post_init e =
     (if mep_scope e \<notin> {''internal'', ''external''}
      then Inl (Known ValidationError (''ModelEndpoint.scope must be 'internal' or 'external'' @ quote))
      else if mep_timeout_seconds e \<le> 0
      then Inl (Known ValidationError ''ModelEndpoint.timeout_seconds must be greater than zero'')
      else if mep_input_cost_per_million e < 0 \<or> mep_output_cost_per_million e < 0
      then Inl (Known ValidationError ''ModelEndpoint token costs cannot be negative'')
      else Inr e)"

record embedding_endpoint =
  eep_name :: string
  eep_base_url :: string
  eep_model :: string
  eep_api_key :: string
  eep_timeout_seconds :: rat

definition embedding_endpoint_post_init :: "embedding_endpoint \<Rightarrow> embedding_endpoint result" where
  "embedding_endpoint_post_init e =
     (if eep_timeout_seconds e \<le> 0
      then Inl (Known ValidationError ''EmbeddingEndpoint.timeout_seconds must be greater than zero'') else Inr e)"

section \<open>JSON over HTTP\<close>

text \<open>The text of the response, an HTTP status of an error, or no answer (\<open>URLError\<close>, \<open>TimeoutError\<close>).\<close>

datatype http_outcome = Http_Text string | Http_Status int | Http_Unreachable

record 'w http_host = conversions +
  http_send :: "string \<Rightarrow> string \<Rightarrow> (string \<times> string) list \<Rightarrow> py option \<Rightarrow> rat \<Rightarrow> ('w, py_exn, http_outcome) prog"
  http_json_loads :: "string \<Rightarrow> py option"

definition protocol_error :: "string \<Rightarrow> py_exn" where
  "protocol_error m = Known ProviderProtocolError m"

definition http_request ::
    "'w http_host \<Rightarrow> string \<Rightarrow> string \<Rightarrow> rat \<Rightarrow> string \<Rightarrow> py option \<Rightarrow> ('w, py_exn, mapping) prog" where
  "http_request h url api_key timeout method payload =
     (let headers = [(''Accept'', ''application/json'')] @
            (if payload = None then [] else [(''Content-Type'', ''application/json'')]) @
            (if api_key = [] then [] else [(''Authorization'', ''Bearer '' @ api_key)])
      in sbind (http_send h method url headers payload timeout) (\<lambda>outcome.
         case outcome of
           Http_Status code \<Rightarrow>
             sraise (Known DependencyUnavailableError (''Provider request failed with HTTP '' @ str_int code))
         | Http_Unreachable \<Rightarrow> sraise (Known DependencyUnavailableError ''Provider endpoint is unavailable'')
         | Http_Text raw \<Rightarrow>
             (case http_json_loads h raw of
                None \<Rightarrow> sraise (protocol_error ''Provider returned invalid JSON'')
              | Some (PDict decoded) \<Rightarrow> sreturn decoded
              | _ \<Rightarrow> sraise (protocol_error ''Provider response must be a JSON object''))))"

definition rstrip_slash :: "string \<Rightarrow> string" where
  "rstrip_slash s = rev (dropWhile (\<lambda>c. c = CHR 0x2F) (rev s))"

text \<open>\<open>value[key]\<close> and \<open>value[0]\<close>.\<close>

definition item_at_key :: "py \<Rightarrow> string \<Rightarrow> py result" where
  "item_at_key v k =
     (case v of
        PDict d \<Rightarrow> (case map_of d k of None \<Rightarrow> Inl (OtherError ''KeyError'') | Some x \<Rightarrow> Inr x)
      | _ \<Rightarrow> Inl (OtherError ''TypeError''))"

definition first_item :: "py \<Rightarrow> py result" where
  "first_item v =
     (case v of
        PList (x # _) \<Rightarrow> Inr x
      | PList [] \<Rightarrow> Inl (OtherError ''IndexError'')
      | PStr (c # _) \<Rightarrow> Inr (PStr [c])
      | PStr [] \<Rightarrow> Inl (OtherError ''IndexError'')
      | PDict _ \<Rightarrow> Inl (OtherError ''KeyError'')
      | _ \<Rightarrow> Inl (OtherError ''TypeError''))"

text \<open>\<open>except (KeyError, IndexError, TypeError, ValueError) as exc: raise ProviderProtocolError(message)\<close>.\<close>

definition schema_failure :: "py_exn \<Rightarrow> bool" where
  "schema_failure e \<longleftrightarrow> e \<in> OtherError ` {''KeyError'', ''IndexError'', ''TypeError'', ''ValueError''}"

definition with_schema :: "string \<Rightarrow> 'a result \<Rightarrow> 'a result" where
  "with_schema message r = (case r of Inl e \<Rightarrow> Inl (if schema_failure e then protocol_error message else e) | Inr x \<Rightarrow> Inr x)"

section \<open>Models\<close>

definition generation_request :: "model_endpoint \<Rightarrow> string \<Rightarrow> string \<Rightarrow> mapping option \<Rightarrow> mapping" where
  "generation_request e system_prompt user_prompt parameters =
     (let payload = [(''model'', PStr (mep_model e)),
            (''messages'', PList [PDict [(''role'', PStr ''system''), (''content'', PStr system_prompt)],
               PDict [(''role'', PStr ''user''), (''content'', PStr user_prompt)]]),
            (''temperature'', PFloat (1 / 10))]
      in case parameters of None \<Rightarrow> payload | Some ps \<Rightarrow> dict_update payload ps)"

definition generation_fields :: "mapping \<Rightarrow> (py \<times> int \<times> int) result" where
  "generation_fields response =
     rbind (item_at_key (PDict response) ''choices'') (\<lambda>choices.
     rbind (first_item choices) (\<lambda>choice.
     rbind (item_at_key choice ''message'') (\<lambda>message.
     rbind (item_at_key message ''content'') (\<lambda>content.
     rbind (item_at_key (PDict response) ''usage'') (\<lambda>usage.
     rbind (item_at_key usage ''prompt_tokens'') (\<lambda>p.
     rbind (py_int p) (\<lambda>prompt_tokens.
     rbind (item_at_key usage ''completion_tokens'') (\<lambda>c.
     rbind (py_int c) (\<lambda>completion_tokens. Inr (content, prompt_tokens, completion_tokens))))))))))"

definition generation_of :: "conversions \<Rightarrow> model_endpoint \<Rightarrow> mapping \<Rightarrow> model_generation result" where
  "generation_of cv e response =
     rbind (with_schema ''Model response has an invalid schema'' (generation_fields response))
       (\<lambda>(content, prompt_tokens, completion_tokens).
       let normalized = strip (text_or_empty cv (Some content))
       in if normalized = [] then Inl (protocol_error ''Model response is empty'')
          else if prompt_tokens < 0 \<or> completion_tokens < 0
          then Inl (protocol_error ''Model token usage cannot be negative'')
          else model_generation_post_init
            \<lparr>gen_text = normalized, gen_prompt_tokens = prompt_tokens, gen_completion_tokens = completion_tokens,
             gen_estimated_cost = (of_int prompt_tokens * mep_input_cost_per_million e +
               of_int completion_tokens * mep_output_cost_per_million e) / 1000000\<rparr>)"

definition openai_generate ::
    "'w http_host \<Rightarrow> model_endpoint \<Rightarrow> string \<Rightarrow> string \<Rightarrow> mapping option \<Rightarrow> ('w, py_exn, model_generation) prog" where
  "openai_generate h e system_prompt user_prompt parameters =
     sbind (http_request h (rstrip_slash (mep_base_url e) @ ''/chat/completions'') (mep_api_key e)
       (mep_timeout_seconds e) ''POST'' (Some (PDict (generation_request e system_prompt user_prompt parameters))))
       (\<lambda>response. slift (generation_of (conversions.truncate h) e response))"

definition openai_model_gateway :: "'w http_host \<Rightarrow> model_endpoint \<Rightarrow> 'w model_gateway" where
  "openai_model_gateway h e =
     \<lparr>gw_name = mep_name e, gw_model_id = mep_model e, 
      gw_generate = (\<lambda>system_prompt user_prompt parameters. openai_generate h e system_prompt user_prompt (Some parameters))\<rparr>"

definition model_healthcheck :: "'w http_host \<Rightarrow> model_endpoint \<Rightarrow> ('w, py_exn, unit) prog" where
  "model_healthcheck h e =
     sthen (http_request h (rstrip_slash (mep_base_url e) @ ''/models'') (mep_api_key e) (mep_timeout_seconds e) ''GET'' None)
       (sreturn ())"

section \<open>Embeddings\<close>

definition embedding_rows :: "nat \<Rightarrow> mapping \<Rightarrow> py list result" where
  "embedding_rows n response =
     rbind (item_at_key (PDict response) ''data'') (\<lambda>rows.
       case rows of
         PList items \<Rightarrow>
           if items = [] then Inl (OtherError ''TypeError'')
           else if length items \<noteq> n then Inl (protocol_error ''Embedding response count does not match input'')
           else Inr items
       | _ \<Rightarrow> Inl (OtherError ''TypeError''))"

definition row_index :: "py \<Rightarrow> int result" where
  "row_index row = rbind (item_at_key row ''index'') py_int"

definition ordered_embeddings :: "nat \<Rightarrow> mapping \<Rightarrow> py list result" where
  "ordered_embeddings n response =
     rbind (embedding_rows n response) (\<lambda>rows.
     rbind (rmap row_index rows) (\<lambda>indexes.
     let ordered = sort_key fst (zip indexes rows)
     in if map fst ordered \<noteq> map int [0..<n] then Inl (OtherError ''ValueError'')
        else rmap (\<lambda>(_, row). item_at_key row ''embedding'') ordered))"

definition nonempty_list :: "py \<Rightarrow> bool" where
  "nonempty_list v = (case v of PList (_ # _) \<Rightarrow> True | _ \<Rightarrow> False)"

definition vector_of :: "conversions \<Rightarrow> py \<Rightarrow> rat list result" where
  "vector_of cv v = (case v of PList vs \<Rightarrow> rmap (py_float cv) vs | _ \<Rightarrow> Inl (OtherError ''TypeError''))"

definition embeddings_of :: "conversions \<Rightarrow> nat \<Rightarrow> mapping \<Rightarrow> rat list list result" where
  "embeddings_of cv n response =
     rbind (with_schema ''Embedding response has an invalid schema'' (ordered_embeddings n response)) (\<lambda>vectors.
       if \<not> list_all nonempty_list vectors then Inl (protocol_error ''Embedding response contains no vector'')
       else rbind (converted_or (protocol_error ''Embedding vector must contain numbers'') (rmap (vector_of cv) vectors))
         (\<lambda>converted.
           if card (set (map length converted)) \<noteq> 1
           then Inl (protocol_error ''Embedding vectors have inconsistent dimensions'') else Inr converted))"

definition embed_documents ::
    "'w http_host \<Rightarrow> embedding_endpoint \<Rightarrow> string list \<Rightarrow> ('w, py_exn, rat list list) prog" where
  "embed_documents h e texts =
     (let normalized = map strip texts
      in if normalized = [] \<or> [] \<in> set normalized
         then sraise (Known ValidationError ''Embedding input must contain non-empty texts'')
         else sbind (http_request h (rstrip_slash (eep_base_url e) @ ''/embeddings'') (eep_api_key e)
           (eep_timeout_seconds e) ''POST''
           (Some (PDict [(''model'', PStr (eep_model e)), (''input'', PList (map PStr normalized))])))
           (\<lambda>response. slift (embeddings_of (conversions.truncate h) (length normalized) response)))"

definition embed_query :: "'w http_host \<Rightarrow> embedding_endpoint \<Rightarrow> string \<Rightarrow> ('w, py_exn, rat list) prog" where
  "embed_query h e text = sbind (embed_documents h e [text]) (\<lambda>vectors.
     case vectors of v # _ \<Rightarrow> sreturn v | [] \<Rightarrow> sraise (OtherError ''IndexError''))"

definition embedding_healthcheck :: "'w http_host \<Rightarrow> embedding_endpoint \<Rightarrow> ('w, py_exn, unit) prog" where
  "embedding_healthcheck h e =
     sthen (http_request h (rstrip_slash (eep_base_url e) @ ''/models'') (eep_api_key e) (eep_timeout_seconds e) ''GET'' None)
       (sreturn ())"

definition openai_embedding_gateway :: "'w http_host \<Rightarrow> embedding_endpoint \<Rightarrow> 'w embedding_gateway" where
  "openai_embedding_gateway h e =
     \<lparr>eg_embed_query = embed_query h e, eg_embed_documents = embed_documents h e,
      eg_healthcheck = embedding_healthcheck h e\<rparr>"

section \<open>Embeddings come back in the order of their texts\<close>

lemma sorted_indexes:
  assumes "map fst (sort_key fst (zip is rows)) = map int [0..<n]" "length is = length rows"
  shows "length rows = n" "\<And>i. i < n \<Longrightarrow> \<exists>j<n. is ! j = int i \<and> snd (sort_key fst (zip is rows) ! i) = rows ! j"
proof -
  have "length (sort_key fst (zip is rows)) = n" using arg_cong [OF assms(1), of length] by simp
  then show n: "length rows = n" using assms(2) by simp
  fix i assume i: "i < n"
  then have "sort_key fst (zip is rows) ! i \<in> set (sort_key fst (zip is rows))"
    using n assms(2) by (intro nth_mem) simp
  then obtain j where j: "j < n" "sort_key fst (zip is rows) ! i = (is ! j, rows ! j)"
    using n assms(2) by (auto simp: set_zip)
  moreover have "fst (sort_key fst (zip is rows) ! i) = int i"
    using arg_cong [OF assms(1), of "\<lambda>xs. xs ! i"] i n assms(2) by simp
  ultimately show "\<exists>j<n. is ! j = int i \<and> snd (sort_key fst (zip is rows) ! i) = rows ! j" by auto
qed

lemma ordered_embeddings_Inr:
  assumes "ordered_embeddings n response = Inr vs"
  shows "length vs = n \<and> (\<exists>rows. map_of response ''data'' = Some (PList rows) \<and> length rows = n \<and>
    (\<forall>i<n. \<exists>row\<in>set rows. row_index row = Inr (int i) \<and> item_at_key row ''embedding'' = Inr (vs ! i)))"
proof -
  from assms obtain rows indexes where parts: "embedding_rows n response = Inr rows" "rmap row_index rows = Inr indexes"
    "map fst (sort_key fst (zip indexes rows)) = map int [0..<n]"
    "rmap (\<lambda>(_, row). item_at_key row ''embedding'') (sort_key fst (zip indexes rows)) = Inr vs"
    by (auto simp: ordered_embeddings_def rbind_eq_Inr Let_def split: if_splits)
  from parts(1) have data: "map_of response ''data'' = Some (PList rows)" "length rows = n"
    by (auto simp: embedding_rows_def item_at_key_def rbind_eq_Inr split: option.splits py.splits if_splits)
  have len: "length indexes = length rows" using parts(2) by (simp add: length_rmap)
  note order = sorted_indexes [OF parts(3) len]
  have n: "length (sort_key fst (zip indexes rows)) = n" using len data by simp
  have "\<exists>row\<in>set rows. row_index row = Inr (int i) \<and> item_at_key row ''embedding'' = Inr (vs ! i)" if "i < n" for i
  proof -
    from order(2) [OF that] obtain j where j: "j < n" "indexes ! j = int i"
      "snd (sort_key fst (zip indexes rows) ! i) = rows ! j" by blast
    have "row_index (rows ! j) = Inr (indexes ! j)"
      using parts(2) j(1) data by (auto simp: rmap_eq_Inr list_all2_conv_all_nth)
    moreover have "item_at_key (rows ! j) ''embedding'' = Inr (vs ! i)"
      using parts(4) j(3) that n len by (auto simp: rmap_eq_Inr list_all2_conv_all_nth case_prod_beta)
    ultimately show ?thesis using j data by (auto intro!: bexI [of _ "rows ! j"])
  qed
  moreover have "length vs = n" using length_rmap [OF parts(4)] n by simp
  ultimately show ?thesis using data by blast
qed

lemma embeddings_of_Inr:
  assumes "embeddings_of cv n response = Inr vectors"
  shows "length vectors = n \<and> (\<exists>d>0. \<forall>v\<in>set vectors. length v = d) \<and>
    (\<exists>rows. map_of response ''data'' = Some (PList rows) \<and> length rows = n \<and>
      (\<forall>i<n. \<exists>row\<in>set rows. row_index row = Inr (int i) \<and>
        (\<exists>xs. item_at_key row ''embedding'' = Inr (PList xs) \<and> rmap (py_float cv) xs = Inr (vectors ! i))))"
proof -
  from assms obtain vs where vs: "ordered_embeddings n response = Inr vs" "list_all nonempty_list vs"
    "rmap (vector_of cv) vs = Inr vectors" "card (set (map length vectors)) = 1"
    by (auto simp: embeddings_of_def rbind_eq_Inr with_schema_def split: sum.splits if_splits)
  note order = ordered_embeddings_Inr [OF vs(1)]
  have len: "length vectors = length vs" using vs(3) by (rule length_rmap)
  have each: "\<exists>xs. xs \<noteq> [] \<and> vs ! i = PList xs \<and> rmap (py_float cv) xs = Inr (vectors ! i)" if "i < length vs" for i
  proof -
    have "nonempty_list (vs ! i)" "vector_of cv (vs ! i) = Inr (vectors ! i)"
      using vs(2,3) that by (simp_all add: list_all_length rmap_eq_Inr list_all2_conv_all_nth)
    then show ?thesis by (cases "vs ! i") (auto simp: nonempty_list_def vector_of_def)
  qed
  from vs(4) obtain d where d: "set (map length vectors) = {d}" by (auto simp: card_1_singleton_iff)
  have "d \<in> set (map length vectors)" unfolding d by simp
  then obtain v where "v \<in> set vectors" "length v = d" by auto
  then obtain i where "i < length vs" "length (vectors ! i) = d" using len by (auto simp: in_set_conv_nth)
  with each [of i] have "0 < d" by (auto dest: length_rmap)
  with d have "\<exists>d>0. \<forall>v\<in>set vectors. length v = d" by auto
  with order len each show ?thesis by metis
qed

end
