(* ===== verification/Infrastructure_Properties.thy ===== *)
theory Infrastructure_Properties
  imports Migrations Execution_Audit Gateways
begin

text \<open>
  Properties of the migration runner, of the execution audit and of the embedding gateway, with witnesses on
  small tables and responses.
\<close>

section \<open>Migrations\<close>

text \<open>
  C33: A migration run either fails and changes nothing, or it has run exactly the scripts that were not
  recorded yet, once each in the order of their names, and recorded them behind the earlier ones. Running it
  again changes nothing.
\<close>

theorem migrate_once:
  assumes "migrate h files db = (r, db')" "distinct (map mig_name files)"
  shows "case r of
      Inl e \<Rightarrow> db' = db
    | Inr _ \<Rightarrow>
        run_scripts h (fresh_migrations db files) (mdb_schema db) = Some (mdb_schema db') \<and>
        mdb_applied db' = mdb_applied db @ map (migration_entry h) (fresh_migrations db files) \<and>
        migrate h files db' = (Inr (), db')"
proof (cases r)
  case (Inr u)
  with assms(1) have up: "mdb_up db" and run: "rfold (apply_migration h) (sort_key mig_name files) db = Inr db'"
    by (auto simp: migrate_def split: if_splits sum.splits)
  have "distinct (map mig_name (sort_key mig_name files))"
    using assms(2) by (metis distinct_map distinct_sort set_sort)
  note applied = apply_migrations [OF run this]
  then have "rfold (apply_migration h) (sort_key mig_name files) db' = Inr db'"
    by (intro apply_migrations_again) blast
  with applied Inr up show ?thesis by (simp add: fresh_migrations_def migrate_def)
qed (use assms(1) in \<open>auto simp: migrate_def split: if_splits sum.splits\<close>)

definition demo_migrations :: "migration_file list" where
  "demo_migrations = [\<lparr>mig_name = ''002.sql'', mig_sql = ''b''\<rparr>, \<lparr>mig_name = ''001.sql'', mig_sql = ''a''\<rparr>]"

definition demo_migration_host :: "string migration_host" where
  "demo_migration_host = \<lparr>mh_sha256 = (\<lambda>s. s), mh_run_sql = (\<lambda>script schema. Some (schema @ script))\<rparr>"

definition demo_migration_db :: "string migration_db" where
  "demo_migration_db = \<lparr>mdb_up = True, mdb_applied = [], mdb_schema = []\<rparr>"

lemma migrate_once_witness:
  "\<exists>db'. migrate demo_migration_host demo_migrations demo_migration_db = (Inr (), db') \<and>
     mdb_schema db' = ''ab'' \<and> migrate demo_migration_host demo_migrations db' = (Inr (), db')"
proof -
  obtain r db' where run: "migrate demo_migration_host demo_migrations demo_migration_db = (r, db')" by fastforce
  have names: "distinct (map mig_name demo_migrations)" by code_simp
  have "fst (migrate demo_migration_host demo_migrations demo_migration_db) = Inr ()"
    "run_scripts demo_migration_host (fresh_migrations demo_migration_db demo_migrations)
       (mdb_schema demo_migration_db) = Some ''ab''" by code_simp+
  with migrate_once [OF run names] run show ?thesis by simp
qed

section \<open>Audit\<close>

text \<open>
  C29: However the methods of the execution audit follow each other, with whatever arguments, the tables keep
  their constraints, no run is lost, and a run that was completed never changes again: its status, answer,
  error, citations, token counts and cost are final.
\<close>

theorem audited_runs_final:
  assumes "audit_call\<^sup>*\<^sup>* db db'" "audit_tables_ok db"
  shows "audit_tables_ok db' \<and> grown run_later (adb_runs db) (adb_runs db')"
  using assms
proof (induction rule: rtranclp_induct)
  case base
  then show ?case by (simp add: grown_refl run_later_def)
next
  case (step db1 db2)
  have "run_later r1 r2 \<Longrightarrow> run_later r2 r3 \<Longrightarrow> run_later r1 r3" for r1 r2 r3
    by (auto simp: run_later_def)
  with step.IH [OF step.prems] audit_call_ok [OF step.hyps(2)] show ?case by (blast intro: grown_trans)
qed

definition demo_audit_db :: audit_db where
  "demo_audit_db = \<lparr>adb_runs = [], adb_steps = [], adb_up = True, adb_now = 0, adb_uuid = Some,
     adb_numeric = Some, adb_time = (\<lambda>t. PFloat t)\<rparr>"

definition demo_pipeline_run :: pipeline_run where
  "demo_pipeline_run = \<lparr>run_run_id = ''1'', run_request_id = ''r'', run_session_id = ''s'', run_domain = ''d'',
     run_tenant_id = ''t'', run_pipeline_name = ''p'', run_pipeline_version = ''1'',
     run_pipeline_checksum = replicate 64 (CHR ''0''), run_query = ''q''\<rparr>"

definition demo_started :: audit_db where
  "demo_started = snd (pg_audit_start demo_pipeline_run demo_audit_db)"

definition demo_succeeded :: audit_db where
  "demo_succeeded = snd (pg_audit_succeed ''1'' ''answer'' 2 5 7 0 demo_started)"

definition demo_audit_calls :: audit_db where
  "demo_audit_calls = snd (pg_audit_fail ''1'' ''late'' ''too late'' demo_succeeded)"

lemma audited_runs_final_witness:
  "audit_tables_ok demo_audit_calls \<and> map arow_status (adb_runs demo_audit_calls) = [RUN_SUCCEEDED]"
proof -
  have "audit_call demo_audit_db demo_started" "audit_call demo_started demo_succeeded"
    "audit_call demo_succeeded demo_audit_calls"
    by (auto simp: demo_started_def demo_succeeded_def demo_audit_calls_def intro: audit_call.intros)
  then have "audit_call\<^sup>*\<^sup>* demo_audit_db demo_audit_calls" by (meson converse_rtranclp_into_rtranclp r_into_rtranclp)
  moreover have "audit_tables_ok demo_audit_db" by (simp add: audit_tables_ok_def demo_audit_db_def)
  moreover have "map arow_status (adb_runs demo_audit_calls) = [RUN_SUCCEEDED]" by code_simp
  ultimately show ?thesis using audited_runs_final [of demo_audit_db demo_audit_calls] by simp
qed

section \<open>Embeddings\<close>

text \<open>
  C32: Embedding a list of texts asks the server once, for the stripped texts in their order; when it
  returns, there is one vector per text, all of the same positive length, and the vector of a text is the one
  the response gives under the index of the text, in whatever order the server sends them.
\<close>

theorem embeddings_in_order:
  assumes "embed_documents h e texts w = (Inr vectors, w')"
  shows "\<exists>response rows d.
    http_request h (rstrip_slash (eep_base_url e) @ ''/embeddings'') (eep_api_key e) (eep_timeout_seconds e) ''POST''
      (Some (PDict [(''model'', PStr (eep_model e)), (''input'', PList (map (PStr \<circ> strip) texts))])) w =
      (Inr response, w') \<and>
    map_of response ''data'' = Some (PList rows) \<and> length rows = length texts \<and> length vectors = length texts \<and>
    0 < d \<and> (\<forall>v\<in>set vectors. length v = d) \<and>
    (\<forall>i<length texts. \<exists>row\<in>set rows. row_index row = Inr (int i) \<and>
       (\<exists>xs. item_at_key row ''embedding'' = Inr (PList xs) \<and>
          rmap (py_float (conversions.truncate h)) xs = Inr (vectors ! i)))"
proof -
  from assms obtain response where r: "http_request h (rstrip_slash (eep_base_url e) @ ''/embeddings'') (eep_api_key e)
      (eep_timeout_seconds e) ''POST''
      (Some (PDict [(''model'', PStr (eep_model e)), (''input'', PList (map (PStr \<circ> strip) texts))])) w = (Inr response, w')"
    "embeddings_of (conversions.truncate h) (length texts) response = Inr vectors"
    by (auto simp: embed_documents_def Let_def prog_simps split: if_splits)
  from r(1) embeddings_of_Inr [OF r(2)] show ?thesis by blast
qed

definition demo_http :: "string list http_host" where
  "demo_http = \<lparr>cv_repr = (\<lambda>v. []), cv_parse_float = (\<lambda>s. None),
     http_send = (\<lambda>method url headers payload timeout w. (Inr (Http_Text ''reply''), w @ [url])),
     http_json_loads = (\<lambda>t. Some (PDict [(''data'', PList
       [PDict [(''index'', PInt 1), (''embedding'', PList [PInt 3, PInt 4])],
        PDict [(''index'', PInt 0), (''embedding'', PList [PInt 1, PInt 2])]])]))\<rparr>"

definition demo_embedder :: embedding_endpoint where
  "demo_embedder = \<lparr>eep_name = ''e'', eep_base_url = ''u'', eep_model = ''m'', eep_api_key = [], eep_timeout_seconds = 5\<rparr>"

lemma demo_embedding: "embed_documents demo_http demo_embedder [''a'', '' b ''] [] = (Inr [[1, 2], [3, 4]], [''u/embeddings''])"
  by code_simp

lemma embeddings_in_order_witness:
  "\<exists>rows d. length rows = (2::nat) \<and> (0::nat) < d \<and> (\<forall>v\<in>set [[1, 2], [3, 4 :: rat]]. length v = d) \<and>
     (\<forall>i<2. \<exists>row\<in>set rows. row_index row = Inr (int i))"
proof -
  have n: "length [''a'', '' b ''] = 2" by simp
  from embeddings_in_order [OF demo_embedding] show ?thesis unfolding n by blast
qed

end
