(* ===== verification/Identity.thy ===== *)
theory Identity
  imports Conversions Access
begin

text \<open>
  \<open>infrastructure/oidc.py\<close>: who the caller is. The signing keys of the identity provider are cached; a
  token is decoded with the key its header names, and the claims become the authorization context.
  The clock, the HTTP request, \<open>json\<close> and the JWT library are parameters.
\<close>

section \<open>Settings and state\<close>

record oidc_settings =
  oidc_issuer :: string
  oidc_audience :: string
  oidc_jwks_url :: string
  oidc_algorithms :: "string list"
  oidc_timeout_seconds :: rat
  oidc_cache_ttl_seconds :: int
  oidc_tenant_claim :: string
  oidc_roles_claim :: string
  oidc_groups_claim :: string
  oidc_acl_claim :: string
  oidc_clearance_claim :: string
  oidc_classification_labels_claim :: string
  oidc_external_model_claim :: string
  oidc_diagnostic_claim :: string

record jwks_cache =
  cache_expires_at :: rat
  cache_keys :: "(string \<times> mapping) list"

definition empty_cache :: jwks_cache where
  "empty_cache = \<lparr>cache_expires_at = 0, cache_keys = []\<rparr>"

text \<open>The memory of the process beside the world its ports work on.\<close>

record 'w web_state =
  web_cache :: jwks_cache
  web_world :: 'w

definition on_world :: "('w, py_exn, 'a) prog \<Rightarrow> ('w web_state, py_exn, 'a) prog" where
  "on_world m s = (case m (web_world s) of (r, w) \<Rightarrow> (r, s\<lparr>web_world := w\<rparr>))"

text \<open>
  \<open>id_get\<close> is the GET request with its body decoded, raising \<open>HTTPError\<close>, \<open>URLError\<close> or
  \<open>TimeoutError\<close>; the JWT library raises \<open>PyJWTError\<close>. Decoding takes the token, the key, and the
  algorithms, audience and issuer to verify, with the required claims fixed by the code.
\<close>

record ('w, 'k) identity_host = conversions +
  id_clock :: "'w \<Rightarrow> rat"
  id_get :: "string \<Rightarrow> rat \<Rightarrow> ('w, py_exn, string) prog"
  id_json_loads :: "string \<Rightarrow> py option"
  id_unverified_header :: "string \<Rightarrow> mapping result"
  id_jwk_key :: "mapping \<Rightarrow> 'k result"
  id_decode :: "string \<Rightarrow> 'k \<Rightarrow> string list \<Rightarrow> string \<Rightarrow> string \<Rightarrow> py result"

definition authentication_error :: "string \<Rightarrow> py_exn" where
  "authentication_error m = Known AuthenticationError m"

definition unavailable :: "string \<Rightarrow> py_exn" where
  "unavailable m = Known DependencyUnavailableError m"

section \<open>Signing keys\<close>

definition load_jwks :: "('w, 'k) identity_host \<Rightarrow> string \<Rightarrow> rat \<Rightarrow> ('w, py_exn, mapping) prog" where
  "load_jwks h url timeout =
     sbind (scatch (id_get h url timeout) (\<lambda>e. sraise
       (if e \<in> {OtherError ''HTTPError'', OtherError ''URLError'', OtherError ''TimeoutError''}
        then unavailable ''Identity Provider JWKS endpoint is unavailable'' else e))) (\<lambda>raw.
       case id_json_loads h raw of
         None \<Rightarrow> sraise (unavailable ''Identity Provider returned invalid JWKS JSON'')
       | Some (PDict payload) \<Rightarrow> sreturn payload
       | _ \<Rightarrow> sraise (unavailable ''Identity Provider returned invalid JWKS''))"

definition jwk_entry :: "conversions \<Rightarrow> py \<Rightarrow> (string \<times> mapping) result" where
  "jwk_entry cv item =
     (case item of
        PDict d \<Rightarrow>
          (let kid = strip (text_or_empty cv (map_of d ''kid''))
           in if kid = [] then Inl (unavailable ''Identity Provider returned a key without kid'') else Inr (kid, d))
      | _ \<Rightarrow> Inl (unavailable ''Identity Provider returned invalid JWKS''))"

definition parse_jwks :: "conversions \<Rightarrow> mapping \<Rightarrow> (string \<times> mapping) list result" where
  "parse_jwks cv payload =
     (case map_of payload ''keys'' of
        Some (PList items) \<Rightarrow>
          rbind (rmap (jwk_entry cv) items) (\<lambda>entries.
            if entries = [] then Inl (unavailable ''Identity Provider returned an empty JWKS'')
            else Inr (dict_of entries))
      | _ \<Rightarrow> Inl (unavailable ''Identity Provider returned invalid JWKS''))"

definition refresh_keys :: "('w, 'k) identity_host \<Rightarrow> oidc_settings \<Rightarrow> rat \<Rightarrow> ('w web_state, py_exn, unit) prog" where
  "refresh_keys h settings now =
     sbind (on_world (load_jwks h (oidc_jwks_url settings) (oidc_timeout_seconds settings))) (\<lambda>payload.
     sbind (slift (parse_jwks (conversions.truncate h) payload)) (\<lambda>keys.
       smodify (\<lambda>s. s\<lparr>web_cache :=
         \<lparr>cache_expires_at = now + of_int (oidc_cache_ttl_seconds settings), cache_keys = keys\<rparr>\<rparr>)))"

definition signing_key ::
    "('w, 'k) identity_host \<Rightarrow> oidc_settings \<Rightarrow> string \<Rightarrow> ('w web_state, py_exn, mapping) prog" where
  "signing_key h settings kid =
     sbind (sget (\<lambda>s. id_clock h (web_world s))) (\<lambda>now.
     sbind (sget (\<lambda>s. cache_expires_at (web_cache s))) (\<lambda>expires.
     sthen (if expires \<le> now then refresh_keys h settings now else sreturn ())
     (sbind (sget (\<lambda>s. map_of (cache_keys (web_cache s)) kid)) (\<lambda>found.
       case found of
         Some key \<Rightarrow> sreturn key
       | None \<Rightarrow>
           sthen (refresh_keys h settings now)
           (sbind (sget (\<lambda>s. map_of (cache_keys (web_cache s)) kid)) (\<lambda>again.
             case again of
               Some key \<Rightarrow> sreturn key
             | None \<Rightarrow> sraise (authentication_error ''Access token signing key is unknown'')))))))"

section \<open>Claims\<close>

fun claim_at :: "py \<Rightarrow> string list \<Rightarrow> py option" where
  "claim_at value [] = Some value"
| "claim_at (PDict d) (segment # path) =
     (case map_of d segment of None \<Rightarrow> None | Some v \<Rightarrow> claim_at v path)"
| "claim_at value (segment # path) = None"

definition claim_value_of :: "mapping \<Rightarrow> string \<Rightarrow> py option" where
  "claim_value_of claims path = claim_at (PDict claims) (split_on (CHR ''.'') [] path)"

definition required_claim :: "conversions \<Rightarrow> mapping \<Rightarrow> string \<Rightarrow> string result" where
  "required_claim cv claims name =
     (let normalized = strip (text_or_empty cv (claim_value_of claims name))
      in if normalized = [] then Inl (authentication_error (''Access token claim is required: '' @ name)) else Inr normalized)"

fun string_list :: "py list \<Rightarrow> string list option" where
  "string_list [] = Some []"
| "string_list (PStr s # vs) = map_option ((#) s) (string_list vs)"
| "string_list (v # vs) = None"

definition string_tuple :: "mapping \<Rightarrow> string \<Rightarrow> string list result" where
  "string_tuple claims name =
     (let bad = authentication_error (''Access token claim must be a string array: '' @ name)
      in case claim_value_of claims name of
           None \<Rightarrow> Inr []
         | Some (PList vs) \<Rightarrow> (case string_list vs of None \<Rightarrow> Inl bad | Some ss \<Rightarrow> Inr ss)
         | _ \<Rightarrow> Inl bad)"

definition optional_string_claim :: "mapping \<Rightarrow> string \<Rightarrow> string option result" where
  "optional_string_claim claims name =
     (let bad = authentication_error (''Access token claim must be a non-empty string: '' @ name)
      in case or_none (claim_value_of claims name) of
           PNone \<Rightarrow> Inr None
         | PStr s \<Rightarrow> if strip s = [] then Inl bad else Inr (Some (strip s))
         | _ \<Rightarrow> Inl bad)"

definition boolean_claim :: "mapping \<Rightarrow> string \<Rightarrow> bool result" where
  "boolean_claim claims name =
     (case claim_value_of claims name of
        None \<Rightarrow> Inr False
      | Some (PBool b) \<Rightarrow> Inr b
      | _ \<Rightarrow> Inl (authentication_error (''Access token claim must be boolean: '' @ name)))"

definition context_of_claims :: "conversions \<Rightarrow> oidc_settings \<Rightarrow> mapping \<Rightarrow> authorization_context result" where
  "context_of_claims cv settings claims =
     rbind (required_claim cv claims ''sub'') (\<lambda>subject.
     rbind (required_claim cv claims (oidc_tenant_claim settings)) (\<lambda>tenant.
     rbind (string_tuple claims (oidc_roles_claim settings)) (\<lambda>roles.
     rbind (string_tuple claims (oidc_groups_claim settings)) (\<lambda>groups.
     rbind (string_tuple claims (oidc_acl_claim settings)) (\<lambda>acl.
     rbind (optional_string_claim claims (oidc_clearance_claim settings)) (\<lambda>clearance.
     rbind (string_tuple claims (oidc_classification_labels_claim settings)) (\<lambda>labels.
     rbind (subject_security_post_init
       \<lparr>subj_clearance_label = clearance, subj_classification_labels = labels\<rparr>) (\<lambda>security.
     rbind (boolean_claim claims (oidc_external_model_claim settings)) (\<lambda>ext.
     rbind (boolean_claim claims (oidc_diagnostic_claim settings)) (\<lambda>diagnostic.
       authorization_context_post_init
         \<lparr>auth_subject = subject, auth_tenant_id = tenant, auth_roles = roles, auth_groups = groups,
          auth_acl_labels = acl, auth_security = security, auth_allow_external_model = ext,
          auth_diagnostic_access = diagnostic\<rparr>))))))))))"

section \<open>Authentication\<close>

text \<open>\<open>except jwt.PyJWTError\<close>; the other exceptions pass.\<close>

definition token_failure :: "py_exn \<Rightarrow> py_exn" where
  "token_failure e =
     (if e = OtherError ''PyJWTError'' then authentication_error ''Access token validation failed'' else e)"

definition verified_claims ::
    "('w, 'k) identity_host \<Rightarrow> oidc_settings \<Rightarrow> string \<Rightarrow> ('w web_state, py_exn, py) prog" where
  "verified_claims h settings token =
     sbind (slift (id_unverified_header h token)) (\<lambda>header.
     (let kid = strip (text_or_empty (conversions.truncate h) (map_of header ''kid''))
      in if kid = [] then sraise (authentication_error ''Access token header does not contain kid'')
         else sbind (signing_key h settings kid) (\<lambda>jwk.
              sbind (slift (id_jwk_key h jwk)) (\<lambda>public_key.
                slift (id_decode h token public_key (oidc_algorithms settings) (oidc_audience settings)
                  (oidc_issuer settings))))))"

definition authenticate ::
    "('w, 'k) identity_host \<Rightarrow> oidc_settings \<Rightarrow> string \<Rightarrow> ('w web_state, py_exn, authorization_context) prog" where
  "authenticate h settings access_token =
     (let token = strip access_token
      in if token = [] then sraise (authentication_error ''Bearer access token is required'')
         else sbind (scatch (verified_claims h settings token) (\<lambda>e. sraise (token_failure e))) (\<lambda>claims.
           case claims of
             PDict d \<Rightarrow> slift (context_of_claims (conversions.truncate h) settings d)
           | _ \<Rightarrow> sraise (authentication_error ''Access token claims are invalid'')))"

end
