(* ===== verification/Dispatcher.thy ===== *)
theory Dispatcher
  imports Query_Service Authorization_Service
begin

text \<open>
  \<open>QueryDispatcher\<close> of \<open>interfaces/http_api.py\<close>: the query service a command goes to. With authorization
  the capability the caller names decides domain and pipeline, and the domain of the command is ignored.
\<close>

datatype service_key = By_Domain string | By_Pipeline string string

record 'w query_dispatcher =
  dsp_services :: "((string \<times> string) \<times> 'w query_service) list"
  dsp_default_pipelines :: "(string \<times> string) list"
  dsp_authorization :: "('w access_policy_port \<times> 'w decision_audit) option"

fun service_pair :: "service_key \<Rightarrow> string \<times> string" where
  "service_pair (By_Domain d) = (d, ''default'')"
| "service_pair (By_Pipeline d p) = (d, p)"

text \<open>\<open>setdefault\<close>: the first pipeline of each domain.\<close>

definition set_default :: "string \<times> string \<Rightarrow> (string \<times> string) list \<Rightarrow> (string \<times> string) list" where
  "set_default kv d = (if has_key d (fst kv) then d else d @ [kv])"

definition make_dispatcher ::
    "(service_key \<times> 'w query_service) list \<Rightarrow> ('w access_policy_port \<times> 'w decision_audit) option \<Rightarrow>
     (string \<times> string) list \<Rightarrow> 'w query_dispatcher" where
  "make_dispatcher services authorization defaults =
     (let pairs = map (\<lambda>(k, q). (service_pair k, q)) services
      in \<lparr>dsp_services = dict_of pairs,
          dsp_default_pipelines = dict_update (fold (\<lambda>(k, q). set_default k) pairs []) defaults,
          dsp_authorization = authorization\<rparr>)"

definition dispatcher_domains :: "'w query_dispatcher \<Rightarrow> string list" where
  "dispatcher_domains d = sort (map fst (dsp_default_pipelines d))"

definition requires_capability :: "'w query_dispatcher \<Rightarrow> bool" where
  "requires_capability d \<longleftrightarrow> dsp_authorization d \<noteq> None"

definition dispatcher_catalog ::
    "'w query_dispatcher \<Rightarrow> authorization_context \<Rightarrow> ('w, py_exn, capability_descriptor list) prog" where
  "dispatcher_catalog d a =
     (case dsp_authorization d of None \<Rightarrow> sreturn [] | Some (policies, _) \<Rightarrow> service_catalog policies a)"

definition run_service ::
    "'w runtime_env \<Rightarrow> 'w query_service option \<Rightarrow> query_command \<Rightarrow> ('w, py_exn, query_result) prog" where
  "run_service env service command =
     (case service of
        None \<Rightarrow> sraise (Known DomainNotFoundError ''The requested capability is not available'')
      | Some q \<Rightarrow> query_execute q env command)"

text \<open>\<open>cast(CapabilityDescriptor, decision.capability)\<close>: reading a field of a missing one is an \<open>AttributeError\<close>.\<close>

definition dispatch ::
    "'w query_dispatcher \<Rightarrow> 'w runtime_env \<Rightarrow> query_command \<Rightarrow> string option \<Rightarrow> ('w, py_exn, query_result) prog" where
  "dispatch d env command capability_id =
     (case dsp_authorization d of
        None \<Rightarrow>
          (let name = (case map_of (dsp_default_pipelines d) (command_domain command) of
                         None \<Rightarrow> ''None'' | Some p \<Rightarrow> p)
           in run_service env (map_of (dsp_services d) (command_domain command, name)) command)
      | Some (policies, audit) \<Rightarrow>
          sbind (service_authorize policies audit (command_request_id command) (or_empty capability_id)
            (command_authorization command) (command_diagnostics_requested command)) (\<lambda>decision.
          case access_capability decision of
            None \<Rightarrow> sraise (OtherError ''AttributeError'')
          | Some capability \<Rightarrow>
              sbind (slift (query_command_post_init (command\<lparr>command_domain := cap_domain capability\<rparr>))) (\<lambda>command'.
                run_service env (map_of (dsp_services d) (cap_domain capability, cap_pipeline_name capability)) command')))"

section \<open>What a dispatched answer comes from\<close>

lemma service_authorize_Inr:
  assumes "service_authorize repo audit rid cid a diag w = (Inr decision, w')"
  shows "\<exists>policy capability w1 w2. ap_resolve repo a w = (Inr policy, w1) \<and>
    ap_capability repo cid policy w1 = (Inr (Some capability), w2) \<and>
    access_capability decision = Some capability \<and> capability_allowed policy (Some capability) diag"
  using assms
  by (auto simp: service_authorize_def prog_simps Let_def pipeline_access_decision_post_init_def rbind_eq_Inr
      capability_allowed_def split: if_splits option.splits)

lemma dispatch_Inr:
  assumes "dispatch d env command capability_id w = (Inr result, w')" "dsp_authorization d = Some (policies, audit)"
  shows "\<exists>policy capability w1 w2 q command' w3.
    ap_resolve policies (command_authorization command) w = (Inr policy, w1) \<and>
    ap_capability policies (or_empty capability_id) policy w1 = (Inr (Some capability), w2) \<and>
    capability_allowed policy (Some capability) (command_diagnostics_requested command) \<and>
    map_of (dsp_services d) (cap_domain capability, cap_pipeline_name capability) = Some q \<and>
    query_command_post_init (command\<lparr>command_domain := cap_domain capability\<rparr>) = Inr command' \<and>
    query_execute q env command' w3 = (Inr result, w')"
proof -
  from assms obtain decision w3 capability command' where parts:
    "service_authorize policies audit (command_request_id command) (or_empty capability_id)
      (command_authorization command) (command_diagnostics_requested command) w = (Inr decision, w3)"
    "access_capability decision = Some capability"
    "query_command_post_init (command\<lparr>command_domain := cap_domain capability\<rparr>) = Inr command'"
    "run_service env (map_of (dsp_services d) (cap_domain capability, cap_pipeline_name capability)) command' w3 = (Inr result, w')"
    by (auto simp: dispatch_def prog_simps split: option.splits)
  from parts(4) obtain q where "map_of (dsp_services d) (cap_domain capability, cap_pipeline_name capability) = Some q"
    "query_execute q env command' w3 = (Inr result, w')"
    by (auto simp: run_service_def prog_simps split: option.splits)
  with service_authorize_Inr [OF parts(1)] parts(2,3) show ?thesis by auto
qed

end
