(* ===== verification/Operations.thy ===== *)
theory Operations
  imports Execution_Audit Ingestion_Service
begin

text \<open>
  \<open>application/operations.py\<close>: the operations of an administrator on the audit and on ingestion jobs, over
  the two ports and the ingestion services of the domains.
\<close>

record 'w operations_service =
  ops_fetch :: "string \<Rightarrow> string \<Rightarrow> ('w, py_exn, mapping option) prog"
  ops_metrics :: "string \<Rightarrow> int \<Rightarrow> ('w, py_exn, mapping) prog"
  ops_load_for_tenant :: "string \<Rightarrow> string \<Rightarrow> ('w, py_exn, ingestion_job) prog"
  ops_ingestion_services :: "(string \<times> 'w document_ingestion_service) list"

definition operations_execution ::
    "'w operations_service \<Rightarrow> string \<Rightarrow> string \<Rightarrow> ('w, py_exn, mapping option) prog" where
  "operations_execution ops request_id tenant =
     sbind (slift (required request_id ''request_id'')) (\<lambda>r.
     sbind (slift (required tenant ''tenant_id'')) (\<lambda>t. ops_fetch ops r t))"

definition operations_metrics :: "'w operations_service \<Rightarrow> string \<Rightarrow> int \<Rightarrow> ('w, py_exn, mapping) prog" where
  "operations_metrics ops tenant hours =
     sbind (slift (required tenant ''tenant_id'')) (\<lambda>t.
       if hours < 1 \<or> 744 < hours
       then sraise (Known ValidationError ''hours must be between 1 and 744'')
       else ops_metrics ops t hours)"

fun job_status_text :: "ingestion_job_status \<Rightarrow> string" where
  "job_status_text JOB_STAGED = ''staged''"
| "job_status_text JOB_INDEXING = ''indexing''"
| "job_status_text JOB_INDEXED = ''indexed''"
| "job_status_text JOB_FAILED = ''failed''"

definition job_payload :: "ingestion_job \<Rightarrow> mapping" where
  "job_payload job =
     (let c = job_command job
      in [(''job_id'', PStr (job_job_id job)), (''domain'', PStr (ing_domain c)),
          (''tenant_id'', PStr (ing_tenant_id c)), (''source_id'', PStr (ing_source_id c)),
          (''source_version'', PStr (ing_source_version c)), (''status'', PStr (job_status_text (job_status job))),
          (''attempts'', PInt (job_attempts job)), (''chunk_count'', PInt (int (length (ing_chunks c)))),
          (''relationship_count'', PInt (int (length (ing_relationships c))))])"

definition operations_load_job ::
    "'w operations_service \<Rightarrow> string \<Rightarrow> string \<Rightarrow> ('w, py_exn, ingestion_job) prog" where
  "operations_load_job ops job_id tenant =
     sbind (slift (required job_id ''job_id'')) (\<lambda>j.
     sbind (slift (required tenant ''tenant_id'')) (\<lambda>t. ops_load_for_tenant ops j t))"

definition operations_ingestion_job ::
    "'w operations_service \<Rightarrow> string \<Rightarrow> string \<Rightarrow> ('w, py_exn, mapping) prog" where
  "operations_ingestion_job ops job_id tenant =
     sbind (operations_load_job ops job_id tenant) (\<lambda>job. sreturn (job_payload job))"

definition ingestion_result_payload :: "ingestion_result \<Rightarrow> mapping" where
  "ingestion_result_payload r =
     [(''job_id'', PStr (ires_job_id r)), (''domain'', PStr (ires_domain r)), (''tenant_id'', PStr (ires_tenant_id r)),
      (''source_id'', PStr (ires_source_id r)), (''source_version'', PStr (ires_source_version r)),
      (''status'', PStr (job_status_text (ires_status r))), (''chunk_count'', PInt (ires_chunk_count r))]"

definition operations_retry ::
    "'w operations_service \<Rightarrow> string \<Rightarrow> string \<Rightarrow> ('w, py_exn, mapping) prog" where
  "operations_retry ops job_id tenant =
     sbind (operations_load_job ops job_id tenant) (\<lambda>job.
       case map_of (ops_ingestion_services ops) (ing_domain (job_command job)) of
         None \<Rightarrow> sraise (Known DomainNotFoundError
           (''No ingestion service exists for domain: '' @ ing_domain (job_command job)))
       | Some svc \<Rightarrow> sbind (retry_ingestion svc (job_job_id job)) (\<lambda>r. sreturn (ingestion_result_payload r)))"

end
