(* ===== verification/Web_Api.thy ===== *)
theory Web_Api
  imports Identity Dispatcher Operations Conversation_Service
begin

text \<open>
  The routes of \<open>interfaces/http_api.py\<close>: a route reads the request, authenticates the caller and calls a
  service; an exception becomes an error response. Flask's parsing and rendering are outside: a request
  gives its headers, arguments and JSON body, a response is a status and a JSON value.
\<close>

section \<open>Requests and the application\<close>

text \<open>\<open>hc_uuid\<close> and \<open>hc_error_uuid\<close> are the values \<open>uuid.uuid4()\<close> returns in the handler and in the error handler.\<close>

record http_call =
  hc_header :: "string \<Rightarrow> string option"
  hc_argument :: "string \<Rightarrow> string option"
  hc_json :: "py option"
  hc_uuid :: string
  hc_error_uuid :: string

record ('w, 'k) web_app =
  wa_identity :: "('w, 'k) identity_host"
  wa_oidc :: oidc_settings
  wa_env :: "'w runtime_env"
  wa_dispatcher :: "'w query_dispatcher"
  wa_probes :: "(string \<times> ('w, py_exn, unit) prog) list"
  wa_operations :: "'w operations_service"
  wa_admin_api_key :: string
  wa_policies :: "'w access_policy_port"
  wa_domain_pipelines :: "(string \<times> string list) list"
  wa_conversations :: "'w history_ports"
  wa_sorted :: "py list \<Rightarrow> py list result"

type_synonym ('w, 'a) web_prog = "('w web_state, py_exn, 'a) prog"

type_synonym http_reply = "int \<times> mapping"

definition web_conversions :: "('w, 'k) web_app \<Rightarrow> conversions" where
  "web_conversions app = conversions.truncate (wa_identity app)"

definition make_web_app :: "('w, 'k) web_app \<Rightarrow> ('w, 'k) web_app result" where
  "make_web_app app =
     (if wa_admin_api_key app = [] then Inl (Known ValidationError ''admin_api_key is required'') else Inr app)"

definition request_id_of :: "http_call \<Rightarrow> string \<Rightarrow> string" where
  "request_id_of call fresh =
     (let given = strip (or_empty (hc_header call ''X-Request-ID'')) in if given = [] then fresh else given)"

section \<open>Authentication\<close>

text \<open>\<open>hmac.compare_digest\<close> on two strings takes ASCII text only.\<close>

definition ascii :: "string \<Rightarrow> bool" where
  "ascii s \<longleftrightarrow> list_all (\<lambda>c. of_char c < (128::nat)) s"

definition authenticate_admin :: "('w, 'k) web_app \<Rightarrow> http_call \<Rightarrow> unit result" where
  "authenticate_admin app call =
     (let supplied = or_empty (hc_header call ''X-SovereignFlow-Admin-Key'')
      in if \<not> ascii supplied \<or> \<not> ascii (wa_admin_api_key app) then Inl (OtherError ''TypeError'')
         else if supplied \<noteq> wa_admin_api_key app
         then Inl (authentication_error ''Administrative authentication failed'') else Inr ())"

definition bearer_token :: "http_call \<Rightarrow> string result" where
  "bearer_token call =
     (let authorization = strip (or_empty (hc_header call ''Authorization''));
          scheme = takeWhile (\<lambda>c. c \<noteq> CHR '' '') authorization;
          rest = dropWhile (\<lambda>c. c \<noteq> CHR '' '') authorization
      in if rest = [] \<or> py_lower scheme \<noteq> ''bearer'' \<or> strip (tl rest) = []
         then Inl (authentication_error ''Bearer access token is required'') else Inr (strip (tl rest)))"

definition authenticate_query :: "('w, 'k) web_app \<Rightarrow> http_call \<Rightarrow> ('w, authorization_context) web_prog" where
  "authenticate_query app call =
     sbind (slift (bearer_token call)) (\<lambda>token. authenticate (wa_identity app) (wa_oidc app) token)"

definition tenant_argument :: "http_call \<Rightarrow> string" where
  "tenant_argument call = strip (or_empty (hc_argument call ''tenant_id''))"

section \<open>Reading the request\<close>

definition json_object :: "http_call \<Rightarrow> mapping result" where
  "json_object call =
     (case hc_json call of
        Some (PDict d) \<Rightarrow> Inr d
      | _ \<Rightarrow> Inl (Known ValidationError ''Request body must be a JSON object''))"

definition reject_fields :: "string list \<Rightarrow> mapping \<Rightarrow> unit result" where
  "reject_fields forbidden payload =
     (let found = sort (filter (has_key payload) forbidden)
      in if found = [] then Inr ()
         else Inl (Known ValidationError
           (''Security context cannot be supplied in request body: '' @ py_join '', '' found)))"

definition query_security_fields :: "string list" where
  "query_security_fields = [''tenant_id'', ''acl_labels'', ''security'', ''clearance_label'', ''classification_labels'',
     ''roles'', ''groups'', ''allow_external_model'', ''diagnostic_access'']"

definition request_filters :: "mapping \<Rightarrow> mapping result" where
  "request_filters payload =
     (case or_none (map_of payload ''filters'') of
        PNone \<Rightarrow> Inr []
      | PDict d \<Rightarrow> Inr d
      | _ \<Rightarrow> Inl (Known ValidationError ''filters must be a JSON object''))"

definition optional_payload_string :: "mapping \<Rightarrow> string \<Rightarrow> string option result" where
  "optional_payload_string payload field =
     (let bad = Known ValidationError (field @ '' must be a non-empty string'')
      in case or_none (map_of payload field) of
           PNone \<Rightarrow> Inr None
         | PStr s \<Rightarrow> if strip s = [] then Inl bad else Inr (Some (strip s))
         | _ \<Rightarrow> Inl bad)"

definition positive_query_integer :: "http_call \<Rightarrow> string \<Rightarrow> int \<Rightarrow> int result" where
  "positive_query_integer call name fallback =
     (case hc_argument call name of
        None \<Rightarrow> Inr fallback
      | Some raw \<Rightarrow>
          (let bad = Known ValidationError (name @ '' must be a positive integer'')
           in rbind (converted_or bad (int_of_string raw)) (\<lambda>i. if i < 1 then Inl bad else Inr i)))"

definition diagnostics_requested :: "http_call \<Rightarrow> bool" where
  "diagnostics_requested call \<longleftrightarrow> py_lower (or_empty (hc_header call ''X-SovereignFlow-Diagnostics'')) = ''true''"

definition payload_text :: "('w, 'k) web_app \<Rightarrow> mapping \<Rightarrow> string \<Rightarrow> string" where
  "payload_text app payload field = text_or_empty (web_conversions app) (map_of payload field)"

section \<open>Serialization\<close>

fun security_kind_text :: "security_model_kind \<Rightarrow> string" where
  "security_kind_text NO_MODEL = ''none''"
| "security_kind_text CLEARANCE_LEVEL = ''clearance_level''"
| "security_kind_text CLASSIFICATION_LABELS = ''classification_labels''"

fun search_mode_text :: "search_mode \<Rightarrow> string" where
  "search_mode_text SEMANTIC = ''semantic''"
| "search_mode_text BM25 = ''bm25''"
| "search_mode_text HYBRID = ''hybrid''"

fun trust_boundary_text :: "trust_boundary \<Rightarrow> string" where
  "trust_boundary_text INTERNAL = ''internal''"
| "trust_boundary_text EXTERNAL = ''external''"

fun transmission_text :: "external_transmission_policy \<Rightarrow> string" where
  "transmission_text ALLOWED = ''allowed''"
| "transmission_text FORBIDDEN = ''forbidden''"

definition texts :: "string list \<Rightarrow> py" where
  "texts xs = PList (map PStr xs)"

definition opt_int :: "int option \<Rightarrow> py" where
  "opt_int v = (case v of None \<Rightarrow> PNone | Some i \<Rightarrow> PInt i)"

definition serialize_citation :: "citation \<Rightarrow> py" where
  "serialize_citation c = PDict
     [(''source_id'', PStr (citation_source_id c)), (''chunk_id'', PStr (citation_chunk_id c)),
      (''source_uri'', opt_py (citation_source_uri c)), (''score'', PFloat (citation_score c)),
      (''score_type'', PStr (citation_score_type c)), (''metadata'', PDict (citation_metadata c))]"

definition serialize_requirement :: "security_requirement \<Rightarrow> py" where
  "serialize_requirement r = PDict
     [(''security_model_kind'', PStr (security_kind_text (req_model_kind r))),
      (''clearance_label'', opt_py (req_clearance_label r)),
      (''classification_labels'', texts (req_classification_labels r))]"

definition serialize_transmission :: "model_transmission_diagnostic \<Rightarrow> py" where
  "serialize_transmission t = PDict
     [(''checked'', PBool (mt_checked t)), (''allowed'', PBool (mt_allowed t)),
      (''reason_code'', PStr (mt_reason_code t)),
      (''selected_model_server_id'', opt_py (mt_selected_model_server_id t)),
      (''final_model_server_id'', opt_py (mt_final_model_server_id t)), (''rerouted'', PBool (mt_rerouted t)),
      (''trust_boundary'', opt_py (map_option trust_boundary_text (mt_trust_boundary t))),
      (''external_transmission'', opt_py (map_option transmission_text (mt_external_transmission t))),
      (''context_security_requirement'', serialize_requirement (mt_context_security_requirement t)),
      (''checked_chunk_ids'', texts (mt_checked_chunk_ids t)),
      (''blocked_chunk_ids'', texts (mt_blocked_chunk_ids t))]"

definition serialize_retrieval :: "retrieval_diagnostic \<Rightarrow> py" where
  "serialize_retrieval i = PDict
     [(''chunk_id'', PStr (rd_chunk_id i)), (''source_id'', PStr (rd_source_id i)), (''score'', PFloat (rd_score i)),
      (''score_type'', PStr (rd_score_type i)), (''rank'', PInt (rd_rank i)), (''origin'', PStr (rd_origin i)),
      (''graph_depth'', opt_int (rd_graph_depth i)), (''graph_path'', PList (rd_graph_path i))]"

definition serialize_diagnostics :: "query_diagnostics \<Rightarrow> py" where
  "serialize_diagnostics d = PDict
     [(''contract_version'', PStr (qd_contract_version d)), (''subject_hash'', PStr (qd_subject_hash d)),
      (''tenant_id'', PStr (qd_tenant_id d)), (''allowed_acl_labels'', texts (qd_allowed_acl_labels d)),
      (''security_model_kind'', PStr (security_kind_text (qd_security_model_kind d))),
      (''search_mode'', PStr (search_mode_text (qd_search_mode d))),
      (''retrieval'', PList (map serialize_retrieval (qd_retrieval d))),
      (''omitted_chunk_ids'', texts (qd_omitted_chunk_ids d)),
      (''context_chunk_ids'', texts (qd_context_chunk_ids d)),
      (''context_characters'', PInt (qd_context_characters d)), (''provider'', PStr (qd_provider d)),
      (''model'', PStr (qd_model d)), (''prompt_key'', PStr (qd_prompt_key d)),
      (''model_transmission'', serialize_transmission (qd_model_transmission d)),
      (''system_prompt_hash'', PStr (qd_system_prompt_hash d)), (''prompt_tokens'', PInt (qd_prompt_tokens d)),
      (''completion_tokens'', PInt (qd_completion_tokens d)), (''model_duration_ms'', PInt (qd_model_duration_ms d)),
      (''pipeline_trace'', texts (qd_pipeline_trace d))]"

definition trace_node :: "retrieval_diagnostic \<Rightarrow> mapping \<Rightarrow> py" where
  "trace_node i metadata = PDict
     [(''chunk_id'', PStr (rd_chunk_id i)), (''source_id'', PStr (rd_source_id i)), (''rank'', PInt (rd_rank i)),
      (''metadata'', PDict metadata)]"

text \<open>\<open>sorted({...})\<close> of the relationship types: strings by code point, other values by the parameter.\<close>

definition relationship_types_of ::
    "(py list \<Rightarrow> py list result) \<Rightarrow> query_diagnostics \<Rightarrow> py list result" where
  "relationship_types_of py_sorted d =
     (let types = concat (map rd_graph_path (qd_retrieval d))
      in if list_all is_str types
         then Inr (map PStr (sorted_unique (List.map_filter as_str types))) else py_sorted types)"

definition serialize_retrieval_trace ::
    "(py list \<Rightarrow> py list result) \<Rightarrow> query_diagnostics \<Rightarrow> py result" where
  "serialize_retrieval_trace py_sorted d =
     rbind (relationship_types_of py_sorted d) (\<lambda>types. Inr (PDict
       [(''contract_version'', PStr (qd_contract_version d)),
        (''seed_nodes'', PList (map (\<lambda>i. trace_node i [(''origin'', PStr (rd_origin i))])
           (filter (\<lambda>i. rd_origin i = ''seed'') (qd_retrieval d)))),
        (''graph_nodes'', PList (map (\<lambda>i. trace_node i [(''origin'', PStr (rd_origin i)),
             (''graph_depth'', opt_int (rd_graph_depth i)), (''graph_path'', PList (rd_graph_path i))])
           (filter (\<lambda>i. rd_origin i = ''graph'') (qd_retrieval d)))),
        (''relationship_types'', PList types)]))"

fun conversation_status_text :: "conversation_status \<Rightarrow> string" where
  "conversation_status_text CONV_ACTIVE = ''active''"
| "conversation_status_text CONV_DELETED = ''deleted''"

fun turn_status_text :: "conversation_turn_status \<Rightarrow> string" where
  "turn_status_text TURN_STARTED = ''started''"
| "turn_status_text TURN_FINALIZED = ''finalized''"
| "turn_status_text TURN_FAILED = ''failed''"
| "turn_status_text TURN_DISCARDED = ''discarded''"

definition serialize_conversation :: "conversation \<Rightarrow> py" where
  "serialize_conversation c = PDict
     [(''conversation_id'', PStr (conv_conversation_id c)), (''session_id'', PStr (conv_session_id c)),
      (''domain'', PStr (conv_domain c)), (''title'', PStr (conv_title c)),
      (''status'', PStr (conversation_status_text (conv_status c))), (''created_at'', PStr (conv_created_at c)),
      (''updated_at'', PStr (conv_updated_at c)), (''deleted_at'', opt_py (conv_deleted_at c))]"

definition serialize_turn :: "conversation_turn \<Rightarrow> py" where
  "serialize_turn t = PDict
     [(''turn_id'', PStr (turn_turn_id t)), (''conversation_id'', PStr (turn_conversation_id t)),
      (''request_id'', PStr (turn_request_id t)), (''sequence_number'', PInt (turn_sequence_number t)),
      (''question'', PStr (turn_question_text t)), (''answer'', opt_py (turn_answer_text t)),
      (''question_text'', PStr (turn_question_text t)), (''answer_text'', opt_py (turn_answer_text t)),
      (''status'', PStr (turn_status_text (turn_status t))), (''created_at'', PStr (turn_created_at t)),
      (''finalized_at'', opt_py (turn_finalized_at t)), (''error_code'', opt_py (turn_error_code t)),
      (''metadata'', PDict (turn_metadata t))]"

section \<open>Queries\<close>

definition query_forbidden_fields :: "('w, 'k) web_app \<Rightarrow> string list" where
  "query_forbidden_fields app = query_security_fields @
     (if requires_capability (wa_dispatcher app) then [''domain'', ''pipeline_id'', ''pipeline_name''] else [])"

definition query_command_of ::
    "('w, 'k) web_app \<Rightarrow> http_call \<Rightarrow> mapping \<Rightarrow> mapping \<Rightarrow> authorization_context \<Rightarrow> query_command result" where
  "query_command_of app call payload filters a =
     rbind (optional_payload_string payload ''conversation_id'') (\<lambda>conversation_id.
       query_command_post_init
         \<lparr>command_request_id = request_id_of call (hc_uuid call), command_query = payload_text app payload ''query'',
          command_domain = (if requires_capability (wa_dispatcher app) then ''pending-authorization''
            else payload_text app payload ''domain''),
          command_session_id = payload_text app payload ''session_id'', command_authorization = a,
          command_filters = filters, command_diagnostics_requested = diagnostics_requested call,
          command_conversation_id = conversation_id\<rparr>)"

definition diagnostics_part ::
    "('w, 'k) web_app \<Rightarrow> http_call \<Rightarrow> query_result \<Rightarrow> mapping result" where
  "diagnostics_part app call r =
     (case result_diagnostics r of
        None \<Rightarrow> Inr []
      | Some d \<Rightarrow>
          if \<not> diagnostics_requested call then Inr []
          else rbind (serialize_retrieval_trace (wa_sorted app) d) (\<lambda>trace. Inr
            [(''diagnostics'', serialize_diagnostics d), (''retrieval_trace'', trace),
             (''usage'', PDict [(''prompt_tokens'', PInt (qd_prompt_tokens d)),
                (''completion_tokens'', PInt (qd_completion_tokens d)),
                (''total_tokens'', PInt (qd_prompt_tokens d + qd_completion_tokens d)), (''cost'', PNone)])]))"

definition query_response :: "('w, 'k) web_app \<Rightarrow> http_call \<Rightarrow> query_result \<Rightarrow> mapping result" where
  "query_response app call r =
     rbind (diagnostics_part app call r) (\<lambda>extra. Inr
       ([(''ok'', PBool True), (''request_id'', PStr (result_request_id r)), (''answer'', PStr (result_answer r)),
         (''domain'', PStr (result_domain r)), (''session_id'', PStr (result_session_id r)),
         (''citations'', PList (map serialize_citation (result_citations r))),
         (''pipeline_trace'', texts (result_pipeline_trace r)),
         (''conversation_id'', opt_py (result_conversation_id r)), (''turn_id'', opt_py (result_turn_id r))] @ extra))"

text \<open>The handler up to the answer of the service, and the whole route.\<close>

definition answered_query :: "('w, 'k) web_app \<Rightarrow> http_call \<Rightarrow> ('w, query_result) web_prog" where
  "answered_query app call =
     sbind (slift (json_object call)) (\<lambda>payload.
     sthen (slift (reject_fields (query_forbidden_fields app) payload))
     (sbind (slift (request_filters payload)) (\<lambda>filters.
      sbind (authenticate_query app call) (\<lambda>a.
      sbind (slift (query_command_of app call payload filters a)) (\<lambda>command.
        on_world (dispatch (wa_dispatcher app) (wa_env app) command
          (if requires_capability (wa_dispatcher app) then Some (payload_text app payload ''capability_id'')
           else None)))))))"

definition route_query :: "('w, 'k) web_app \<Rightarrow> http_call \<Rightarrow> ('w, http_reply) web_prog" where
  "route_query app call =
     sbind (answered_query app call) (\<lambda>r. sbind (slift (query_response app call r)) (\<lambda>body. sreturn (200, body)))"

definition serialize_capability :: "capability_descriptor \<Rightarrow> py" where
  "serialize_capability c = PDict
     [(''capability_id'', PStr (cap_capability_id c)), (''display_name'', PStr (cap_display_name c)),
      (''description'', PStr (cap_description c)), (''domain'', PStr (cap_domain c)),
      (''pipeline_name'', PStr (cap_pipeline_name c)), (''diagnostics_available'', PBool (cap_diagnostics_available c)),
      (''external_model'', PBool (cap_external_model c)), (''policy_version'', PInt (cap_policy_version c))]"

definition route_catalog :: "('w, 'k) web_app \<Rightarrow> http_call \<Rightarrow> ('w, http_reply) web_prog" where
  "route_catalog app call =
     sbind (authenticate_query app call) (\<lambda>a.
     sbind (on_world (dispatcher_catalog (wa_dispatcher app) a)) (\<lambda>cs.
       sreturn (200, [(''ok'', PBool True), (''capabilities'', PList (map serialize_capability cs))])))"

section \<open>Conversations\<close>

definition route_create_conversation :: "('w, 'k) web_app \<Rightarrow> http_call \<Rightarrow> ('w, http_reply) web_prog" where
  "route_create_conversation app call =
     sbind (slift (json_object call)) (\<lambda>payload.
     sthen (slift (reject_fields [''tenant_id'', ''subject'', ''subject_hash'', ''acl_labels'', ''security'', ''roles'',
       ''groups''] payload))
     (sbind (authenticate_query app call) (\<lambda>a.
      sbind (on_world (history_create (wa_conversations app) a (payload_text app payload ''session_id'')
        (payload_text app payload ''domain'') (payload_text app payload ''title''))) (\<lambda>c.
        sreturn (201, [(''ok'', PBool True), (''conversation'', serialize_conversation c)])))))"

definition route_list_conversations :: "('w, 'k) web_app \<Rightarrow> http_call \<Rightarrow> ('w, http_reply) web_prog" where
  "route_list_conversations app call =
     sbind (authenticate_query app call) (\<lambda>a.
     sbind (slift (positive_query_integer call ''limit'' 50)) (\<lambda>limit.
     sbind (on_world (history_list (wa_conversations app) a limit)) (\<lambda>cs.
       sreturn (200, [(''ok'', PBool True), (''conversations'', PList (map serialize_conversation cs))]))))"

definition loaded_history ::
    "('w, 'k) web_app \<Rightarrow> http_call \<Rightarrow> string \<Rightarrow> string \<Rightarrow> ('w, conversation_history) web_prog" where
  "loaded_history app call cid limit_name =
     sbind (authenticate_query app call) (\<lambda>a.
     sbind (slift (positive_query_integer call limit_name 50)) (\<lambda>limit.
       on_world (history_get (wa_conversations app) a cid limit)))"

definition route_get_conversation :: "('w, 'k) web_app \<Rightarrow> http_call \<Rightarrow> string \<Rightarrow> ('w, http_reply) web_prog" where
  "route_get_conversation app call cid =
     sbind (loaded_history app call cid ''turn_limit'') (\<lambda>h.
       sreturn (200, [(''ok'', PBool True), (''conversation'', serialize_conversation (history_conversation h)),
         (''turns'', PList (map serialize_turn (history_turns h)))]))"

definition route_list_turns :: "('w, 'k) web_app \<Rightarrow> http_call \<Rightarrow> string \<Rightarrow> ('w, http_reply) web_prog" where
  "route_list_turns app call cid =
     sbind (loaded_history app call cid ''limit'') (\<lambda>h.
       sreturn (200, [(''ok'', PBool True), (''turns'', PList (map serialize_turn (history_turns h)))]))"

definition route_rename_conversation :: "('w, 'k) web_app \<Rightarrow> http_call \<Rightarrow> string \<Rightarrow> ('w, http_reply) web_prog" where
  "route_rename_conversation app call cid =
     sbind (slift (json_object call)) (\<lambda>payload.
     sbind (authenticate_query app call) (\<lambda>a.
     sbind (on_world (history_rename (wa_conversations app) a cid (payload_text app payload ''title''))) (\<lambda>c.
       sreturn (200, [(''ok'', PBool True), (''conversation'', serialize_conversation c)]))))"

definition route_delete_conversation :: "('w, 'k) web_app \<Rightarrow> http_call \<Rightarrow> string \<Rightarrow> ('w, http_reply) web_prog" where
  "route_delete_conversation app call cid =
     sbind (authenticate_query app call) (\<lambda>a.
     sthen (on_world (history_delete (wa_conversations app) a cid)) (sreturn (200, [(''ok'', PBool True)])))"

section \<open>Access policies\<close>

definition required_positive_integer :: "mapping \<Rightarrow> string \<Rightarrow> int result" where
  "required_positive_integer payload field =
     (let bad = Known ValidationError (field @ '' must be a positive integer'')
      in case map_of payload field of Some (PInt i) \<Rightarrow> if i < 1 then Inl bad else Inr i | _ \<Rightarrow> Inl bad)"

definition required_string_list :: "mapping \<Rightarrow> string \<Rightarrow> string list result" where
  "required_string_list payload field =
     (let bad = Known ValidationError (field @ '' must be a list of strings'')
      in case map_of payload field of
           Some (PList vs) \<Rightarrow> (case string_list vs of None \<Rightarrow> Inl bad | Some ss \<Rightarrow> Inr ss)
         | _ \<Rightarrow> Inl bad)"

fun mapping_list :: "py list \<Rightarrow> mapping list option" where
  "mapping_list [] = Some []"
| "mapping_list (PDict d # vs) = map_option ((#) d) (mapping_list vs)"
| "mapping_list (v # vs) = None"

definition required_object_list :: "mapping \<Rightarrow> string \<Rightarrow> mapping list result" where
  "required_object_list payload field =
     (let bad = Known ValidationError (field @ '' must be a list of objects'')
      in case map_of payload field of
           Some (PList vs) \<Rightarrow> (case mapping_list vs of None \<Rightarrow> Inl bad | Some ds \<Rightarrow> Inr ds)
         | _ \<Rightarrow> Inl bad)"

definition required_boolean :: "mapping \<Rightarrow> string \<Rightarrow> bool result" where
  "required_boolean payload field =
     (case map_of payload field of
        Some (PBool b) \<Rightarrow> Inr b
      | _ \<Rightarrow> Inl (Known ValidationError (field @ '' must be a boolean'')))"

definition expected_version_of :: "mapping \<Rightarrow> int option result" where
  "expected_version_of payload =
     (case or_none (map_of payload ''expected_version'') of
        PNone \<Rightarrow> Inr None
      | PInt i \<Rightarrow> Inr (Some i)
      | _ \<Rightarrow> Inl (Known ValidationError ''expected_version must be an integer or null''))"

definition parsed_mapping :: "('w, 'k) web_app \<Rightarrow> mapping \<Rightarrow> claim_group_mapping result" where
  "parsed_mapping app item = claim_group_mapping_post_init
     \<lparr>claim_name = payload_text app item ''claim_name'', claim_value = payload_text app item ''claim_value'',
      claim_group_id = payload_text app item ''group_id''\<rparr>"

definition parsed_capability :: "('w, 'k) web_app \<Rightarrow> int \<Rightarrow> mapping \<Rightarrow> capability_descriptor result" where
  "parsed_capability app version item =
     rbind (required_boolean item ''diagnostics_available'') (\<lambda>diagnostics.
     rbind (required_boolean item ''external_model'') (\<lambda>ext.
       capability_descriptor_post_init
         \<lparr>cap_capability_id = payload_text app item ''capability_id'',
          cap_display_name = payload_text app item ''display_name'',
          cap_description = payload_text app item ''description'', cap_domain = payload_text app item ''domain'',
          cap_pipeline_name = payload_text app item ''pipeline_name'', cap_diagnostics_available = diagnostics,
          cap_external_model = ext, cap_policy_version = version\<rparr>))"

definition parsed_grant :: "('w, 'k) web_app \<Rightarrow> mapping \<Rightarrow> group_capability_grant result" where
  "parsed_grant app item = group_capability_grant_post_init
     \<lparr>grant_group_id = payload_text app item ''group_id'', grant_capability_id = payload_text app item ''capability_id''\<rparr>"

definition parse_policy_bundle ::
    "('w, 'k) web_app \<Rightarrow> string \<Rightarrow> mapping \<Rightarrow> (access_policy_bundle \<times> int option) result" where
  "parse_policy_bundle app tenant payload =
     rbind (expected_version_of payload) (\<lambda>expected.
     rbind (required_positive_integer payload ''version'') (\<lambda>version.
     rbind (required_string_list payload ''groups'') (\<lambda>groups.
     rbind (required_object_list payload ''claim_mappings'') (\<lambda>mappings.
     rbind (required_object_list payload ''capabilities'') (\<lambda>capabilities.
     rbind (required_object_list payload ''grants'') (\<lambda>grants.
     rbind (rmap (parsed_mapping app) mappings) (\<lambda>ms.
     rbind (rmap (parsed_capability app version) capabilities) (\<lambda>cs.
     rbind (rmap (parsed_grant app) grants) (\<lambda>gs.
     rbind (access_policy_bundle_post_init
       \<lparr>bundle_tenant_id = tenant, bundle_version = version, bundle_group_ids = groups, bundle_claim_mappings = ms,
        bundle_capabilities = cs, bundle_grants = gs\<rparr>) (\<lambda>bundle. Inr (bundle, expected)))))))))))"

definition route_publish_policy :: "('w, 'k) web_app \<Rightarrow> http_call \<Rightarrow> string \<Rightarrow> ('w, http_reply) web_prog" where
  "route_publish_policy app call tenant =
     sthen (slift (authenticate_admin app call))
     (sbind (slift (json_object call)) (\<lambda>payload.
      sbind (slift (parse_policy_bundle app tenant payload)) (\<lambda>(bundle, expected).
      sthen (on_world (service_publish (wa_policies app) (wa_domain_pipelines app) bundle expected))
        (sreturn (200, [(''ok'', PBool True), (''tenant_id'', PStr (bundle_tenant_id bundle)),
           (''policy_version'', PInt (bundle_version bundle))])))))"

section \<open>Administration\<close>

definition route_execution :: "('w, 'k) web_app \<Rightarrow> http_call \<Rightarrow> string \<Rightarrow> ('w, http_reply) web_prog" where
  "route_execution app call request_id =
     sthen (slift (authenticate_admin app call))
     (sbind (on_world (operations_execution (wa_operations app) request_id (tenant_argument call))) (\<lambda>payload.
        sreturn (200, [(''ok'', PBool True),
          (''execution'', (case payload of None \<Rightarrow> PNone | Some d \<Rightarrow> PDict d))])))"

definition route_metrics :: "('w, 'k) web_app \<Rightarrow> http_call \<Rightarrow> ('w, http_reply) web_prog" where
  "route_metrics app call =
     sthen (slift (authenticate_admin app call))
     (sbind (slift (converted_or (Known ValidationError ''hours must be an integer'')
        (case hc_argument call ''hours'' of None \<Rightarrow> Inr 24 | Some raw \<Rightarrow> int_of_string raw))) (\<lambda>hours.
      sbind (on_world (operations_metrics (wa_operations app) (tenant_argument call) hours)) (\<lambda>m.
        sreturn (200, [(''ok'', PBool True), (''metrics'', PDict m)]))))"

definition route_ingestion_job :: "('w, 'k) web_app \<Rightarrow> http_call \<Rightarrow> string \<Rightarrow> ('w, http_reply) web_prog" where
  "route_ingestion_job app call job_id =
     sthen (slift (authenticate_admin app call))
     (sbind (on_world (operations_ingestion_job (wa_operations app) job_id (tenant_argument call))) (\<lambda>job.
        sreturn (200, [(''ok'', PBool True), (''job'', PDict job)])))"

definition route_retry_ingestion :: "('w, 'k) web_app \<Rightarrow> http_call \<Rightarrow> string \<Rightarrow> ('w, http_reply) web_prog" where
  "route_retry_ingestion app call job_id =
     sthen (slift (authenticate_admin app call))
     (sbind (on_world (operations_retry (wa_operations app) job_id (tenant_argument call))) (\<lambda>job.
        sreturn (200, [(''ok'', PBool True), (''job'', PDict job)])))"

section \<open>Health and errors\<close>

text \<open>\<open>components[probe.name] = ...\<close>; an exception outside the hierarchy passes.\<close>

fun check_probes ::
    "(string \<times> ('w, py_exn, unit) prog) list \<Rightarrow> (string \<times> py) list \<Rightarrow> bool \<Rightarrow>
     ('w, py_exn, (string \<times> py) list \<times> bool) prog" where
  "check_probes [] components healthy w = (Inr (components, healthy), w)"
| "check_probes ((name, probe) # probes) components healthy w =
     (case probe w of
        (Inr _, w') \<Rightarrow> check_probes probes (dict_set name (PStr ''ready'') components) healthy w'
      | (Inl e, w') \<Rightarrow>
          if is_sovereignflow_error e
          then check_probes probes (dict_set name (PStr ''unavailable'') components) False w'
          else (Inl e, w'))"

definition route_live :: "('w, http_reply) web_prog" where
  "route_live = sreturn (200, [(''ok'', PBool True)])"

definition route_ready :: "('w, 'k) web_app \<Rightarrow> ('w, http_reply) web_prog" where
  "route_ready app =
     sbind (on_world (check_probes (wa_probes app) [] True)) (\<lambda>(components, healthy).
       sreturn (if healthy then 200 else 503, [(''ok'', PBool healthy), (''components'', PDict components)]))"

definition error_body :: "http_call \<Rightarrow> string \<Rightarrow> string \<Rightarrow> mapping" where
  "error_body call code message =
     [(''ok'', PBool False), (''error'', PDict
        [(''code'', PStr code), (''message'', PStr message),
         (''request_id'', PStr (request_id_of call (hc_error_uuid call)))])]"

definition error_reply :: "http_call \<Rightarrow> py_exn \<Rightarrow> http_reply" where
  "error_reply call e =
     (case e of
        Known c m \<Rightarrow> (http_status_of_class c, error_body call (error_code_of_class c) m)
      | OtherError _ \<Rightarrow> (500, error_body call ''internal_error'' ''The request could not be completed.''))"

text \<open>The handler of the framework's own \<open>HTTPException\<close>, such as an unknown route: name, description, code.\<close>

definition http_exception_reply ::
    "http_call \<Rightarrow> string option \<Rightarrow> string option \<Rightarrow> int option \<Rightarrow> http_reply" where
  "http_exception_reply call name description code =
     (let label = or_empty name; label = (if label = [] then ''http_error'' else label);
          status = (case code of None \<Rightarrow> 0 | Some n \<Rightarrow> n)
      in (if status = 0 then 500 else status,
          error_body call (map (\<lambda>c. if c = CHR '' '' then CHR ''_'' else c) (py_lower label))
            (case description of None \<Rightarrow> ''None'' | Some d \<Rightarrow> d)))"

definition respond :: "http_call \<Rightarrow> ('w, http_reply) web_prog \<Rightarrow> 'w web_state \<Rightarrow> http_reply \<times> 'w web_state" where
  "respond call route s =
     (case route s of (Inr reply, s') \<Rightarrow> (reply, s') | (Inl e, s') \<Rightarrow> (error_reply call e, s'))"

section \<open>The web client\<close>

text \<open>The headers of \<open>_secure_web_response\<close>; \<open>urlsplit\<close> is a parameter.\<close>

definition identity_origins :: "(string \<Rightarrow> string \<times> string) \<Rightarrow> string list \<Rightarrow> string list" where
  "identity_origins urlsplit urls =
     sorted_unique (map (\<lambda>u. case urlsplit u of (scheme, netloc) \<Rightarrow> scheme @ ''://'' @ netloc)
       (filter (\<lambda>u. case urlsplit u of (scheme, netloc) \<Rightarrow> scheme \<in> {''http'', ''https''} \<and> netloc \<noteq> []) urls))"

definition content_security_policy :: "string list \<Rightarrow> string" where
  "content_security_policy origins =
     (let self = quoted ''self''; none = quoted ''none''
      in ''default-src '' @ self @ ''; script-src '' @ self @ ''; style-src '' @ self @ ''; img-src '' @ self @ '' data:; '' @
         ''connect-src '' @ py_join '' '' (self # origins) @ ''; frame-ancestors '' @ none @ ''; base-uri '' @ none @
         ''; form-action '' @ self)"

definition secure_headers :: "(string \<Rightarrow> string \<times> string) \<Rightarrow> string list \<Rightarrow> (string \<times> string) list" where
  "secure_headers urlsplit urls =
     [(''Content-Security-Policy'', content_security_policy (identity_origins urlsplit urls)),
      (''Referrer-Policy'', ''no-referrer''), (''X-Content-Type-Options'', ''nosniff''), (''X-Frame-Options'', ''DENY'')]"

record web_client_configuration =
  client_client_id :: string
  client_authorization_url :: string
  client_token_url :: string
  client_logout_url :: string

definition secure_web_response :: "(string \<Rightarrow> string \<times> string) \<Rightarrow> web_client_configuration \<Rightarrow> (string \<times> string) list" where
  "secure_web_response urlsplit c =
     secure_headers urlsplit [client_authorization_url c, client_token_url c, client_logout_url c]"

text \<open>\<open>/app/config.json\<close>: the reply and the headers that are set on it. The static files are left out.\<close>

definition route_web_configuration ::
    "(string \<Rightarrow> string \<times> string) \<Rightarrow> web_client_configuration \<Rightarrow> ('w, 'k) web_app \<Rightarrow>
     http_reply \<times> (string \<times> string) list" where
  "route_web_configuration urlsplit c app =
     ((200, [(''api_url'', PStr ''/v1/query''), (''client_id'', PStr (client_client_id c)),
        (''authorization_url'', PStr (client_authorization_url c)), (''token_url'', PStr (client_token_url c)),
        (''logout_url'', PStr (client_logout_url c)), (''domains'', texts (dispatcher_domains (wa_dispatcher app)))]),
      (''Cache-Control'', ''no-store'') # secure_web_response urlsplit c)"

end
