(* ===== verification/Bootstrap.thy ===== *)
theory Bootstrap
  imports Configuration Gateways Web_Api Dataset_Import
begin

text \<open>
  \<open>bootstrap/application.py\<close>: an installation is put together from its settings. The parts over PostgreSQL,
  the Weaviate client, the HTTP exchange and the files are the fields of \<open>installation\<close>.
\<close>

section \<open>The parts\<close>

record ('w, 'f, 'k) installation =
  in_env :: "'w runtime_env"
  in_identity :: "('w, 'k) identity_host"
  in_http :: "'w http_host"
  in_files :: file_system
  in_sha256 :: "string \<Rightarrow> string"
  in_float_text :: "rat \<Rightarrow> string"
  in_json_loads :: "string \<Rightarrow> py option"
  in_sorted :: "py list \<Rightarrow> py list result"
  in_run_id_factory :: "('w, py_exn, string) prog"
  in_migrate :: "('w, py_exn, unit) prog"
  in_postgresql_check :: "('w, py_exn, unit) prog"
  in_audit :: "'w execution_audit"
  in_audit_fetch :: "string \<Rightarrow> string \<Rightarrow> ('w, py_exn, mapping option) prog"
  in_audit_metrics :: "string \<Rightarrow> int \<Rightarrow> ('w, py_exn, mapping) prog"
  in_audit_check :: "('w, py_exn, unit) prog"
  in_ingestion :: "'w ingestion_port"
  in_ingestion_load_for_tenant :: "string \<Rightarrow> string \<Rightarrow> ('w, py_exn, ingestion_job) prog"
  in_ingestion_check :: "('w, py_exn, unit) prog"
  in_graph :: "graph_traversal_request \<Rightarrow> ('w, py_exn, search_hit list) prog"
  in_graph_check :: "('w, py_exn, unit) prog"
  in_history :: "'w history_ports"
  in_history_check :: "('w, py_exn, unit) prog"
  in_policies :: "'w access_policy_port"
  in_policies_check :: "('w, py_exn, unit) prog"
  in_decisions :: "'w decision_audit"
  in_weaviate_installed :: bool
  in_weaviate_connect :: "weaviate_settings \<Rightarrow> ('w, py_exn, ('w, 'f) weaviate_client) prog"
  in_weaviate_close :: "('w, py_exn, unit) prog"

definition connect_weaviate ::
    "('w, 'f, 'k) installation \<Rightarrow> flow_settings \<Rightarrow> ('w, py_exn, ('w, 'f) weaviate_client) prog" where
  "connect_weaviate inst settings =
     (if \<not> in_weaviate_installed inst then sraise (unavailable ''weaviate-client is not installed'')
      else scatch (in_weaviate_connect inst (set_weaviate settings))
        (\<lambda>e. sraise (unavailable ''Cannot connect to Weaviate'')))"

definition oidc_settings_of :: "identity_provider_settings \<Rightarrow> oidc_settings" where
  "oidc_settings_of i =
     \<lparr>oidc_issuer = idp_issuer i, oidc_audience = idp_audience i, oidc_jwks_url = idp_jwks_url i,
      oidc_algorithms = idp_algorithms i, oidc_timeout_seconds = idp_timeout_seconds i,
      oidc_cache_ttl_seconds = idp_cache_ttl_seconds i, oidc_tenant_claim = idp_tenant_claim i,
      oidc_roles_claim = idp_roles_claim i, oidc_groups_claim = idp_groups_claim i, oidc_acl_claim = idp_acl_claim i,
      oidc_clearance_claim = idp_clearance_claim i,
      oidc_classification_labels_claim = idp_classification_labels_claim i,
      oidc_external_model_claim = idp_external_model_claim i, oidc_diagnostic_claim = idp_diagnostic_claim i\<rparr>"

definition embedding_endpoint_of :: "embedding_settings \<Rightarrow> embedding_endpoint result" where
  "embedding_endpoint_of e = embedding_endpoint_post_init
     \<lparr>eep_name = emb_name e, eep_base_url = emb_base_url e, eep_model = emb_model e, eep_api_key = emb_api_key e,
      eep_timeout_seconds = emb_timeout_seconds e\<rparr>"

definition model_endpoint_of :: "model_server_settings \<Rightarrow> model_endpoint result" where
  "model_endpoint_of m = model_endpoint_post_init
     \<lparr>mep_name = ms_server_id m, mep_scope = trust_boundary_text (ms_trust_boundary m), mep_base_url = ms_base_url m,
      mep_model = ms_model m, mep_api_key = ms_api_key m, mep_timeout_seconds = ms_timeout_seconds m,
      mep_input_cost_per_million = ms_input_cost_per_million m,
      mep_output_cost_per_million = ms_output_cost_per_million m\<rparr>"

text \<open>The runtimes by server id, each with the endpoint its health probe asks.\<close>

definition model_server_of ::
    "'w http_host \<Rightarrow> model_server_settings \<Rightarrow> (string \<times> 'w model_server_runtime \<times> model_endpoint) result" where
  "model_server_of h m =
     rbind (model_endpoint_of m) (\<lambda>e. Inr (ms_server_id m,
       \<lparr>rt_definition = ms_definition m, rt_gateway = openai_model_gateway h e\<rparr>, e))"

definition model_servers_of ::
    "'w http_host \<Rightarrow> flow_settings \<Rightarrow> (string \<times> 'w model_server_runtime \<times> model_endpoint) list result" where
  "model_servers_of h settings = rbind (rmap (model_server_of h) (set_model_servers settings)) (\<lambda>ms. Inr (dict_of ms))"

section \<open>Domains\<close>

definition vector_index_of ::
    "('w, 'f, 'k) installation \<Rightarrow> ('w, 'f) weaviate_client \<Rightarrow> embedding_endpoint \<Rightarrow> ('w, 'f) vector_index" where
  "vector_index_of inst client e =
     \<lparr>vi_client = client, vi_embeddings = openai_embedding_gateway (in_http inst) e,
      vi_json_loads = in_json_loads inst, vi_float_text = in_float_text inst\<rparr>"

definition engine_of :: "('w, 'f, 'k) installation \<Rightarrow> 'w engine" where
  "engine_of inst = \<lparr>engine_registry = default_registry (in_env inst), engine_audit = in_audit inst,
     engine_run_id_factory = in_run_id_factory inst\<rparr>"

text \<open>The query service of one pipeline of a domain; the pipeline is validated before.\<close>

definition domain_service ::
    "('w, 'f, 'k) installation \<Rightarrow> flow_settings \<Rightarrow> ('w, 'f) vector_index \<Rightarrow> (string \<times> 'w model_server_runtime) list \<Rightarrow>
     domain_profile \<Rightarrow> string \<Rightarrow> 'w query_service result" where
  "domain_service inst settings vi servers domain name =
     rbind (load_pipeline (in_files inst) (in_sha256 inst) (in_float_text inst) (set_pipelines_root settings) name) (\<lambda>p.
     rbind (validate (default_registry (in_env inst)) p) (\<lambda>_.
       make_query_service
         \<lparr>qs_domain = domain, qs_retrieval = index_search vi (domain_collection domain), qs_graph = in_graph inst,
          qs_model_servers = servers,
          qs_prompts = (\<lambda>key. slift (load_prompt (in_files inst) (set_prompts_root settings) key)),
          qs_pipeline = p, qs_engine = engine_of inst,
          qs_conversation_history = Some (history_service (in_history inst))\<rparr>))"

definition open_pipelines ::
    "('w, 'f, 'k) installation \<Rightarrow> flow_settings \<Rightarrow> ('w, 'f) vector_index \<Rightarrow> (string \<times> 'w model_server_runtime) list \<Rightarrow>
     domain_profile \<Rightarrow> ((string \<times> string) \<times> 'w query_service) list \<Rightarrow>
     ((string \<times> string) \<times> 'w query_service) list result" where
  "open_pipelines inst settings vi servers domain services =
     rfold (\<lambda>name d. rbind (domain_service inst settings vi servers domain name)
              (\<lambda>q. Inr (dict_set (domain_name domain, name) q d)))
       (domain_allowed_pipeline_names domain) services"

definition ingestion_service_of ::
    "('w, 'f, 'k) installation \<Rightarrow> ('w, 'f) vector_index \<Rightarrow> domain_profile \<Rightarrow> 'w document_ingestion_service" where
  "ingestion_service_of inst vi domain =
     \<lparr>is_domain = domain, is_repository = in_ingestion inst, is_vector_index = weaviate_index vi,
      is_sha256 = in_sha256 inst, is_float_text = in_float_text inst\<rparr>"

fun open_domains ::
    "('w, 'f, 'k) installation \<Rightarrow> flow_settings \<Rightarrow> ('w, 'f) vector_index \<Rightarrow> (string \<times> 'w model_server_runtime) list \<Rightarrow>
     domain_profile list \<Rightarrow> ((string \<times> string) \<times> 'w query_service) list \<Rightarrow>
     ('w, py_exn, ((string \<times> string) \<times> 'w query_service) list) prog" where
  "open_domains inst settings vi servers [] services = sreturn services"
| "open_domains inst settings vi servers (domain # domains) services =
     sthen (ensure_collection vi (domain_collection domain))
     (sthen (index_healthcheck vi (domain_collection domain))
     (sbind (slift (open_pipelines inst settings vi servers domain services))
       (open_domains inst settings vi servers domains)))"

section \<open>Probes and the application\<close>

definition readiness_probes ::
    "('w, 'f, 'k) installation \<Rightarrow> ('w, 'f) vector_index \<Rightarrow> embedding_endpoint \<Rightarrow> (string \<times> model_endpoint) list \<Rightarrow>
     domain_profile list \<Rightarrow> (string \<times> ('w, py_exn, unit) prog) list" where
  "readiness_probes inst vi e models domains =
     [(''postgresql'', in_postgresql_check inst), (''execution_audit'', in_audit_check inst),
      (''ingestion_repository'', in_ingestion_check inst), (''graph_traversal'', in_graph_check inst),
      (''conversation_history'', in_history_check inst), (''access_policies'', in_policies_check inst),
      (''weaviate'', index_check vi), (''embeddings'', embedding_healthcheck (in_http inst) e)] @
     map (\<lambda>(sid, m). (''model:'' @ sid, model_healthcheck (in_http inst) m)) models @
     map (\<lambda>d. (''retrieval:'' @ domain_name d, index_healthcheck vi (domain_collection d))) domains"

fun run_probes :: "(string \<times> ('w, py_exn, unit) prog) list \<Rightarrow> ('w, py_exn, unit) prog" where
  "run_probes [] = sreturn ()"
| "run_probes (p # ps) = sthen (snd p) (run_probes ps)"

record ('w, 'k) bootstrapped =
  bs_app :: "('w, 'k) web_app"
  bs_ingestion_services :: "(string \<times> 'w document_ingestion_service) list"

definition bootstrap_client ::
    "('w, 'f, 'k) installation \<Rightarrow> flow_settings \<Rightarrow> embedding_endpoint \<Rightarrow>
     (string \<times> 'w model_server_runtime \<times> model_endpoint) list \<Rightarrow> ('w, 'f) weaviate_client \<Rightarrow>
     ('w, py_exn, ('w, 'k) bootstrapped) prog" where
  "bootstrap_client inst settings e models client =
     (let vi = vector_index_of inst client e; domains = set_domains settings;
          probes = readiness_probes inst vi e (map (\<lambda>(sid, rt, m). (sid, m)) models) domains;
          ingestion = dict_of (map (\<lambda>d. (domain_name d, ingestion_service_of inst vi d)) domains)
      in sbind (open_domains inst settings vi (map (\<lambda>(sid, rt, m). (sid, rt)) models) domains []) (\<lambda>services.
         sthen (run_probes probes)
         (sbind (slift (make_web_app
           \<lparr>wa_identity = in_identity inst, wa_oidc = oidc_settings_of (set_identity_provider settings),
            wa_env = in_env inst,
            wa_dispatcher = make_dispatcher (map (\<lambda>((d, p), q). (By_Pipeline d p, q)) services)
              (Some (in_policies inst, in_decisions inst))
              (dict_of (map (\<lambda>d. (domain_name d, domain_pipeline_name d)) domains)),
            wa_probes = probes,
            wa_operations = \<lparr>ops_fetch = in_audit_fetch inst, ops_metrics = in_audit_metrics inst,
              ops_load_for_tenant = in_ingestion_load_for_tenant inst, ops_ingestion_services = ingestion\<rparr>,
            wa_admin_api_key = set_admin_api_key settings, wa_policies = in_policies inst,
            wa_domain_pipelines = dict_of (map (\<lambda>d. (domain_name d, domain_allowed_pipeline_names d)) domains),
            wa_conversations = in_history inst, wa_sorted = in_sorted inst\<rparr>)) (\<lambda>app.
           sreturn \<lparr>bs_app = app, bs_ingestion_services = ingestion\<rparr>))))"

definition bootstrap ::
    "('w, 'f, 'k) installation \<Rightarrow> flow_settings \<Rightarrow> ('w, py_exn, ('w, 'k) bootstrapped) prog" where
  "bootstrap inst settings =
     sbind (slift (embedding_endpoint_of (set_embeddings settings))) (\<lambda>e.
     sbind (slift (model_servers_of (in_http inst) settings)) (\<lambda>models.
     sthen (in_migrate inst)
     (sbind (connect_weaviate inst settings) (\<lambda>client.
        scatch (bootstrap_client inst settings e models client) (\<lambda>e. sthen (in_weaviate_close inst) (sraise e))))))"

section \<open>The import command\<close>

text \<open>\<open>bootstrap/import_application.py\<close>: the parts of one domain.\<close>

definition bootstrap_import ::
    "('w, 'f, 'k) installation \<Rightarrow> flow_settings \<Rightarrow> string \<Rightarrow> ('w, py_exn, 'w dataset_import_service) prog" where
  "bootstrap_import inst settings name =
     (case find (\<lambda>d. domain_name d = name) (set_domains settings) of
        None \<Rightarrow> sraise (Known DomainNotFoundError (''Unknown domain: '' @ name))
      | Some domain \<Rightarrow>
          sthen (in_migrate inst)
          (sbind (slift (embedding_endpoint_of (set_embeddings settings))) (\<lambda>e.
           sbind (connect_weaviate inst settings) (\<lambda>client.
             scatch
              (let vi = vector_index_of inst client e
               in sthen (ensure_collection vi (domain_collection domain)) (sreturn (ingestion_service_of inst vi domain)))
              (\<lambda>e. sthen (in_weaviate_close inst) (sraise e))))))"

section \<open>What is served\<close>

definition service_ready ::
    "('w, 'f, 'k) installation \<Rightarrow> domain_profile list \<Rightarrow> (string \<times> string) \<times> 'w query_service \<Rightarrow> bool" where
  "service_ready inst domains entry \<longleftrightarrow> (case entry of (key, q) \<Rightarrow>
     qs_domain q \<in> set domains \<and> fst key = domain_name (qs_domain q) \<and>
     snd key \<in> set (domain_allowed_pipeline_names (qs_domain q)) \<and> qs_model_servers q \<noteq> [] \<and>
     validate (default_registry (in_env inst)) (qs_pipeline q) = Inr () \<and>
     engine_registry (qs_engine q) = default_registry (in_env inst))"

lemma dict_set_entries: "set (dict_set k v d) \<subseteq> insert (k, v) (set d)"
  by (induction k v d rule: dict_set.induct) auto

lemma domain_service_Inr:
  assumes "domain_service inst settings vi servers domain name = Inr q"
  shows "qs_domain q = domain \<and> qs_model_servers q \<noteq> [] \<and>
    validate (default_registry (in_env inst)) (qs_pipeline q) = Inr () \<and>
    engine_registry (qs_engine q) = default_registry (in_env inst)"
  using assms
  by (auto simp: domain_service_def rbind_eq_Inr make_query_service_def engine_of_def split: if_splits)

lemma open_pipelines_Inr:
  assumes "rfold (\<lambda>name d. rbind (domain_service inst settings vi servers domain name)
      (\<lambda>q. Inr (dict_set (domain_name domain, name) q d))) names services = Inr services'"
    "set names \<subseteq> set (domain_allowed_pipeline_names domain)" "domain \<in> set domains"
    "list_all (service_ready inst domains) services"
  shows "list_all (service_ready inst domains) services' \<and>
    fst ` set services' = fst ` set services \<union> Pair (domain_name domain) ` set names"
  using assms
proof (induction names arbitrary: services)
  case (Cons name names)
  then obtain q where q: "domain_service inst settings vi servers domain name = Inr q"
    and rest: "rfold (\<lambda>name d. rbind (domain_service inst settings vi servers domain name)
      (\<lambda>q. Inr (dict_set (domain_name domain, name) q d))) names
      (dict_set (domain_name domain, name) q services) = Inr services'"
    by (auto simp: rbind_eq_Inr)
  have "list_all (service_ready inst domains) (dict_set (domain_name domain, name) q services)"
    using Cons.prems domain_service_Inr [OF q] dict_set_entries [of "(domain_name domain, name)" q services]
    by (fastforce simp: list_all_iff service_ready_def)
  from Cons.IH [OF rest _ Cons.prems(3) this] Cons.prems(2) show ?case
    using keys_dict_set [of "(domain_name domain, name)" q services] by auto
qed simp

lemma open_domains_Inr:
  assumes "open_domains inst settings vi servers todo services w = (Inr services', w')" "set todo \<subseteq> set domains"
    "list_all (service_ready inst domains) services"
  shows "list_all (service_ready inst domains) services' \<and> fst ` set services' =
    fst ` set services \<union> (\<Union>d\<in>set todo. Pair (domain_name d) ` set (domain_allowed_pipeline_names d))"
  using assms
proof (induction todo arbitrary: services w)
  case (Cons d todo)
  then obtain s1 w1 where s1: "open_pipelines inst settings vi servers d services = Inr s1"
    and rest: "open_domains inst settings vi servers todo s1 w1 = (Inr services', w')"
    by (auto simp: prog_simps)
  from open_pipelines_Inr [OF s1 [unfolded open_pipelines_def] subset_refl _ Cons.prems(3)] Cons.prems(2)
  have s: "list_all (service_ready inst domains) s1"
    "fst ` set s1 = fst ` set services \<union> Pair (domain_name d) ` set (domain_allowed_pipeline_names d)" by auto
  from Cons.IH [OF rest _ s(1)] Cons.prems(2) s(2) show ?case by auto
qed (simp add: prog_simps)

lemma dispatcher_parts:
  "dsp_services (make_dispatcher (map (\<lambda>((d, p), q). (By_Pipeline d p, q)) services) authorization defaults) =
     dict_of services"
  "dsp_authorization (make_dispatcher services' authorization defaults) = authorization"
  by (simp_all add: make_dispatcher_def Let_def case_prod_beta comp_def)

lemma bootstrap_services:
  assumes "bootstrap inst settings w = (Inr b, w')"
  shows "\<exists>services. dsp_services (wa_dispatcher (bs_app b)) = dict_of services \<and>
    list_all (service_ready inst (set_domains settings)) services \<and>
    fst ` set services = (\<Union>d\<in>set (set_domains settings). Pair (domain_name d) ` set (domain_allowed_pipeline_names d)) \<and>
    wa_env (bs_app b) = in_env inst \<and>
    dsp_authorization (wa_dispatcher (bs_app b)) = Some (in_policies inst, in_decisions inst)"
proof -
  from assms obtain e models client w1 where "bootstrap_client inst settings e models client w1 = (Inr b, w')"
    by (auto simp: bootstrap_def prog_simps scatch_eq_Inr)
  then obtain vi servers services w2 app where
    "open_domains inst settings vi servers (set_domains settings) [] w1 = (Inr services, w2)"
    "make_web_app app = Inr (bs_app b)"
    "wa_dispatcher app = make_dispatcher (map (\<lambda>((d, p), q). (By_Pipeline d p, q)) services)
      (Some (in_policies inst, in_decisions inst))
      (dict_of (map (\<lambda>d. (domain_name d, domain_pipeline_name d)) (set_domains settings)))"
    "wa_env app = in_env inst"
    by (auto simp: bootstrap_client_def Let_def prog_simps)
  with open_domains_Inr [OF this(1) subset_refl] show ?thesis
    by (intro exI [of _ services])
      (auto simp: make_web_app_def dispatcher_parts split: if_splits)
qed

end
