(* ===== verification/Web_Properties.thy ===== *)
theory Web_Properties
  imports Bootstrap Service_Properties Loading_Properties
begin

text \<open>
  Properties of the HTTP interface and of the installation behind it: where the identity of a caller comes
  from, what an answer may contain, and what is reached without the administration key.
\<close>

section \<open>Identity\<close>

text \<open>The keys in use: cached and not expired, or just fetched from the identity provider.\<close>

definition keys_current ::
    "('w, 'k) identity_host \<Rightarrow> oidc_settings \<Rightarrow> 'w web_state \<Rightarrow> 'w web_state \<Rightarrow> bool" where
  "keys_current h settings s s' \<longleftrightarrow>
     s' = s \<and> id_clock h (web_world s) < cache_expires_at (web_cache s) \<or>
     (\<exists>w payload. load_jwks h (oidc_jwks_url settings) (oidc_timeout_seconds settings) w = (Inr payload, web_world s') \<and>
        parse_jwks (conversions.truncate h) payload = Inr (cache_keys (web_cache s')) \<and>
        cache_expires_at (web_cache s') =
          id_clock h (web_world s) + of_int (oidc_cache_ttl_seconds settings))"

lemma refresh_keys_current:
  "refresh_keys h settings (id_clock h (web_world s)) s1 = (Inr u, s') \<Longrightarrow> keys_current h settings s s'"
  by (auto simp: refresh_keys_def prog_simps on_world_def smodify_def keys_current_def split: prod.splits)

lemma signing_key_Inr:
  assumes "signing_key h settings kid s = (Inr key, s')"
  shows "map_of (cache_keys (web_cache s')) kid = Some key \<and> keys_current h settings s s'"
  using assms
  by (auto simp: signing_key_def prog_simps sget_def split: if_splits option.splits
      dest: refresh_keys_current) (simp_all add: keys_current_def)

lemma authenticate_Inr:
  assumes "authenticate h settings token s = (Inr a, s')"
  shows "\<exists>header key public claims.
    id_unverified_header h (strip token) = Inr header \<and>
    map_of (cache_keys (web_cache s'))
      (strip (text_or_empty (conversions.truncate h) (map_of header ''kid''))) = Some key \<and>
    keys_current h settings s s' \<and> id_jwk_key h key = Inr public \<and>
    id_decode h (strip token) public (oidc_algorithms settings) (oidc_audience settings) (oidc_issuer settings) =
      Inr (PDict claims) \<and>
    context_of_claims (conversions.truncate h) settings claims = Inr a"
  using assms
  by (auto simp: authenticate_def verified_claims_def Let_def prog_simps scatch_eq_Inr
      split: if_splits py.splits dest!: signing_key_Inr)

lemma context_of_claims_ok:
  "context_of_claims cv settings claims = Inr a \<Longrightarrow> authorization_context_ok a"
  unfolding context_of_claims_def by (elim rbindE) (rule authorization_context_post_init_ok)

text \<open>
  C9: An accepted bearer token was decoded, for the configured algorithms, audience and issuer, with the key
  its header names; the key is one of the identity provider's, cached and not expired or just fetched. The
  caller's rights are the claims of that token and nothing else, and they are well formed.
\<close>

theorem caller_from_verified_token:
  assumes "authenticate h settings token s = (Inr a, s')"
  shows "(\<exists>header key public claims.
    id_unverified_header h (strip token) = Inr header \<and>
    map_of (cache_keys (web_cache s'))
      (strip (text_or_empty (conversions.truncate h) (map_of header ''kid''))) = Some key \<and>
    keys_current h settings s s' \<and> id_jwk_key h key = Inr public \<and>
    id_decode h (strip token) public (oidc_algorithms settings) (oidc_audience settings) (oidc_issuer settings) =
      Inr (PDict claims) \<and>
    context_of_claims (conversions.truncate h) settings claims = Inr a) \<and> authorization_context_ok a"
  using authenticate_Inr [OF assms] context_of_claims_ok by blast

section \<open>Administration\<close>

text \<open>
  C31: Without the administration key a request to an administration route is answered 401 (500 when one of
  the two keys is not ASCII text) and changes nothing: neither the policies, nor a job, nor the key cache.
\<close>

theorem admin_routes_guarded:
  assumes "or_empty (hc_header call ''X-SovereignFlow-Admin-Key'') \<noteq> wa_admin_api_key app"
    "route = route_publish_policy app call argument \<or> route = route_execution app call argument \<or>
     route = route_metrics app call \<or> route = route_ingestion_job app call argument \<or>
     route = route_retry_ingestion app call argument"
  shows "\<exists>body. respond call route s =
    ((if ascii (or_empty (hc_header call ''X-SovereignFlow-Admin-Key'')) \<and> ascii (wa_admin_api_key app)
      then 401 else 500, body), s)"
proof -
  let ?e = "if ascii (or_empty (hc_header call ''X-SovereignFlow-Admin-Key'')) \<and> ascii (wa_admin_api_key app)
    then authentication_error ''Administrative authentication failed'' else OtherError ''TypeError''"
  have "authenticate_admin app call = Inl ?e"
    using assms(1) by (simp add: authenticate_admin_def Let_def)
  moreover have "fst (error_reply call ?e) = (if ascii (or_empty (hc_header call ''X-SovereignFlow-Admin-Key'')) \<and>
       ascii (wa_admin_api_key app) then 401 else 500)"
    by (simp add: authentication_error_def error_reply_def Let_def)
  moreover from calculation(1) assms(2) have "route s = (Inl ?e, s)"
    by (auto simp: route_publish_policy_def route_execution_def route_metrics_def route_ingestion_job_def
        route_retry_ingestion_def sthen_def slift_def sbind_def)
  ultimately show ?thesis by (cases "error_reply call ?e") (simp add: respond_def)
qed

section \<open>Answers\<close>

text \<open>Every service of the dispatcher runs a pipeline that was validated for the actions it runs with.\<close>

definition services_validated :: "('w, 'k) web_app \<Rightarrow> bool" where
  "services_validated app \<longleftrightarrow> (\<forall>(key, q)\<in>set (dsp_services (wa_dispatcher app)).
     validate (default_registry (wa_env app)) (qs_pipeline q) = Inr () \<and>
     engine_registry (qs_engine q) = default_registry (wa_env app))"

lemma on_world_eq: "on_world m s = (r, s') \<Longrightarrow> m (web_world s) = (r, web_world s')"
  by (auto simp: on_world_def split: prod.splits)

lemma answered_query_Inr:
  assumes "answered_query app call s = (Inr result, s')"
  shows "\<exists>token a command capability_id s1. bearer_token call = Inr token \<and>
    authenticate (wa_identity app) (wa_oidc app) token s = (Inr a, s1) \<and> authorization_context_ok a \<and>
    command_authorization command = a \<and> command_diagnostics_requested command = diagnostics_requested call \<and>
    dispatch (wa_dispatcher app) (wa_env app) command capability_id (web_world s1) = (Inr result, web_world s')"
proof -
  from assms obtain token a s1 payload filters command where parts: "bearer_token call = Inr token"
    "authenticate (wa_identity app) (wa_oidc app) token s = (Inr a, s1)"
    "query_command_of app call payload filters a = Inr command"
    "on_world (dispatch (wa_dispatcher app) (wa_env app) command (if requires_capability (wa_dispatcher app)
       then Some (payload_text app payload ''capability_id'') else None)) s1 = (Inr result, s')"
    by (auto simp: answered_query_def authenticate_query_def prog_simps)
  from parts(3) have "command_authorization command = a"
    "command_diagnostics_requested command = diagnostics_requested call"
    by (auto simp: query_command_of_def query_command_post_init_def rbind_eq_Inr split: if_splits)
  moreover have "authorization_context_ok a"
    using authenticate_Inr [OF parts(2)] context_of_claims_ok by blast
  ultimately show ?thesis using parts(1,2) on_world_eq [OF parts(4)] by blast
qed

lemma same_caller:
  assumes "query_command_post_init (command\<lparr>command_domain := d\<rparr>) = Inr command'"
  shows "command_authorization command' = command_authorization command"
  using assms by (auto simp: query_command_post_init_def rbind_eq_Inr split: if_splits)


section \<open>The installation\<close>


section \<open>An installation\<close>

text \<open>
  The witnesses: an identity provider with one key, the service of \<open>Service_Properties\<close> behind a capability,
  and an installation with one domain and the pipeline of \<open>src/pipelines/direct.yaml\<close>.
\<close>

definition demo_identity :: "(string list, string) identity_host" where
  "demo_identity = \<lparr>cv_repr = (\<lambda>v. []), cv_parse_float = (\<lambda>s. None), id_clock = (\<lambda>w. 0),
     id_get = (\<lambda>url timeout w. (Inr ''jwks'', w)),
     id_json_loads = (\<lambda>t. Some (PDict [(''keys'', PList [PDict [(''kid'', PStr ''k1'')]])])),
     id_unverified_header = (\<lambda>t. Inr [(''kid'', PStr ''k1'')]), id_jwk_key = (\<lambda>d. Inr ''key''),
     id_decode = (\<lambda>t k algorithms audience issuer.
       if t = ''token'' \<and> k = ''key'' then Inr (PDict [(''sub'', PStr ''alice''), (''tenant'', PStr ''acme''),
         (''clearance'', PStr ''secret'')]) else Inl (OtherError ''PyJWTError''))\<rparr>"

definition demo_oidc :: oidc_settings where
  "demo_oidc = \<lparr>oidc_issuer = ''issuer'', oidc_audience = ''flow'', oidc_jwks_url = ''url'',
     oidc_algorithms = [''RS256''], oidc_timeout_seconds = 5, oidc_cache_ttl_seconds = 60,
     oidc_tenant_claim = ''tenant'', oidc_roles_claim = ''roles'', oidc_groups_claim = ''groups'',
     oidc_acl_claim = ''acl'', oidc_clearance_claim = ''clearance'', oidc_classification_labels_claim = ''labels'',
     oidc_external_model_claim = ''external'', oidc_diagnostic_claim = ''diagnostics''\<rparr>"

definition demo_web_start :: "string list web_state" where
  "demo_web_start = \<lparr>web_cache = empty_cache, web_world = []\<rparr>"

definition demo_web_later :: "string list web_state" where
  "demo_web_later = \<lparr>web_cache = \<lparr>cache_expires_at = 60, cache_keys = [(''k1'', [(''kid'', PStr ''k1'')])]\<rparr>,
     web_world = []\<rparr>"

lemma demo_authenticated:
  "authenticate demo_identity demo_oidc ''token'' demo_web_start = (Inr demo_authorization, demo_web_later)"
  by code_simp

lemma caller_from_verified_token_witness:
  "keys_current demo_identity demo_oidc demo_web_start demo_web_later \<and> authorization_context_ok demo_authorization"
  using caller_from_verified_token [OF demo_authenticated] by blast

definition demo_policies :: "string list access_policy_port" where
  "demo_policies = \<lparr>ap_resolve = (\<lambda>a w. (Inr \<lparr>policy_subject = auth_subject a, policy_tenant_id = auth_tenant_id a,
       policy_group_ids = [''staff''], policy_capability_ids = [''ask''], policy_pipeline_names = [''direct-rag''],
       policy_version = 1\<rparr>, w)),
     ap_capabilities = (\<lambda>p w. (Inr [], w)),
     ap_capability = (\<lambda>cid p w. (Inr (if cid = ''ask'' then Some \<lparr>cap_capability_id = ''ask'', cap_display_name = ''Ask'',
       cap_description = [], cap_domain = ''docs'', cap_pipeline_name = ''direct-rag'', cap_diagnostics_available = False,
       cap_external_model = False, cap_policy_version = 1\<rparr> else None), w)),
     ap_publish = (\<lambda>b v. sreturn ())\<rparr>"

definition demo_decisions :: "string list decision_audit" where
  "demo_decisions = (\<lambda>rid subject tenant cid pipeline allowed reason version. sreturn ())"

definition unused :: "('w, py_exn, 'a) prog" where
  "unused = sraise (OtherError ''unused'')"

definition demo_ports :: "string list history_ports" where
  "demo_ports = \<lparr>chs_repository = \<lparr>cr_create = (\<lambda>_. unused), cr_list = (\<lambda>_ _ _. unused), cr_get = (\<lambda>_ _ _. unused),
       cr_rename = (\<lambda>_ _ _ _. unused), cr_delete = (\<lambda>_ _ _. unused), cr_start_turn = (\<lambda>_. unused),
       cr_finalize_turn = (\<lambda>_ _ _ _ _ _. unused), cr_fail_turn = (\<lambda>_ _ _ _ _ _. unused),
       cr_list_turns = (\<lambda>_ _ _ _. unused), cr_recent_finalized_turns = (\<lambda>_ _ _ _. unused)\<rparr>,
     chs_id_factory = unused, chs_now = unused, chs_sha256 = (\<lambda>s. s)\<rparr>"

definition demo_app :: "(string list, string) web_app" where
  "demo_app = \<lparr>wa_identity = demo_identity, wa_oidc = demo_oidc, wa_env = demo_env,
     wa_dispatcher = make_dispatcher [(By_Pipeline ''docs'' ''direct-rag'', demo_service)]
       (Some (demo_policies, demo_decisions)) [], wa_probes = [],
     wa_operations = \<lparr>ops_fetch = (\<lambda>_ _. unused), ops_metrics = (\<lambda>_ _. unused), ops_load_for_tenant = (\<lambda>_ _. unused),
       ops_ingestion_services = []\<rparr>,
     wa_admin_api_key = ''admin'', wa_policies = demo_policies, wa_domain_pipelines = [],
     wa_conversations = demo_ports, wa_sorted = Inr\<rparr>"

definition demo_call :: http_call where
  "demo_call = \<lparr>hc_header = map_of [(''Authorization'', ''Bearer token''), (''X-Request-ID'', ''r1'')],
     hc_argument = (\<lambda>name. None), hc_json = Some (PDict [(''query'', PStr ''what  is new''),
       (''session_id'', PStr ''s1''), (''capability_id'', PStr ''ask'')]), hc_uuid = [], hc_error_uuid = []\<rparr>"

lemma admin_routes_guarded_witness:
  "\<exists>body. respond demo_call (route_metrics demo_app demo_call) demo_web_start = ((401, body), demo_web_start)"
proof -
  have "or_empty (hc_header demo_call ''X-SovereignFlow-Admin-Key'') \<noteq> wa_admin_api_key demo_app"
    "ascii (or_empty (hc_header demo_call ''X-SovereignFlow-Admin-Key''))" "ascii (wa_admin_api_key demo_app)"
    by code_simp+
  from admin_routes_guarded [OF this(1), of "route_metrics demo_app demo_call" "[]" demo_web_start] this(2,3)
  show ?thesis by simp
qed

definition demo_payload :: mapping where
  "demo_payload = [(''query'', PStr ''what  is new''), (''session_id'', PStr ''s1''), (''capability_id'', PStr ''ask'')]"

definition demo_pending :: query_command where
  "demo_pending = demo_command\<lparr>command_domain := ''pending-authorization''\<rparr>"

lemma demo_request:
  "json_object demo_call = Inr demo_payload"
  "reject_fields (query_forbidden_fields demo_app) demo_payload = Inr ()"
  "request_filters demo_payload = Inr []"
  "bearer_token demo_call = Inr ''token''"
  "query_command_of demo_app demo_call demo_payload [] demo_authorization = Inr demo_pending"
  "payload_text demo_app demo_payload ''capability_id'' = ''ask''"
  "requires_capability (wa_dispatcher demo_app)" "diagnostics_requested demo_call = False"
  by code_simp+

lemma demo_web_parts:
  "dsp_services (wa_dispatcher demo_app) = [((''docs'', ''direct-rag''), demo_service)]"
  "dsp_authorization (wa_dispatcher demo_app) = Some (demo_policies, demo_decisions)" "wa_env demo_app = demo_env"
  "wa_identity demo_app = demo_identity" "wa_oidc demo_app = demo_oidc" "web_world demo_web_later = []"
  by (simp_all add: demo_app_def make_dispatcher_def dict_of_def demo_web_later_def)

lemma demo_access:
  "case service_authorize demo_policies demo_decisions ''r1'' ''ask'' demo_authorization False [] of
     (Inr d, w) \<Rightarrow> w = [] \<and> map_option (\<lambda>c. (cap_domain c, cap_pipeline_name c)) (access_capability d) =
       Some (''docs'', ''direct-rag'')
   | (Inl e, w) \<Rightarrow> False"
  by code_simp

lemma demo_dispatch:
  "dispatch (wa_dispatcher demo_app) demo_env demo_pending (Some ''ask'') [] = query_execute demo_service demo_env demo_command []"
proof -
  obtain d c where d: "service_authorize demo_policies demo_decisions ''r1'' ''ask'' demo_authorization False [] = (Inr d, [])"
    "access_capability d = Some c" "cap_domain c = ''docs''" "cap_pipeline_name c = ''direct-rag''"
    using demo_access by (auto split: prod.splits sum.splits)
  have "query_command_post_init (demo_pending\<lparr>command_domain := ''docs''\<rparr>) = Inr demo_command" by code_simp
  moreover have "command_request_id demo_pending = ''r1''" "command_authorization demo_pending = demo_authorization"
    "command_diagnostics_requested demo_pending = False" "or_empty (Some ''ask'') = ''ask''"
    by (simp_all add: demo_pending_def demo_command_def or_empty_def)
  ultimately show ?thesis
    using d by (simp add: dispatch_def demo_web_parts run_service_def sbind_def slift_def)
qed

lemma demo_answered:
  assumes "query_execute demo_service demo_env demo_command [] = (Inr result, w)"
  shows "answered_query demo_app demo_call demo_web_start = (Inr result, demo_web_later\<lparr>web_world := w\<rparr>)"
  using assms
  by (simp add: answered_query_def authenticate_query_def demo_request demo_authenticated prog_defs on_world_def
      demo_dispatch demo_web_parts)


definition demo_weaviate :: "(string list, unit) weaviate_client" where
  "demo_weaviate = \<lparr>wc_installed = True,
     wc_filters = \<lparr>filter_equal = (\<lambda>_ _. ()), filter_contains_any = (\<lambda>_ _. ()), filter_and = (\<lambda>_ _. ()),
       filter_or = (\<lambda>_ _. ()), filter_not = (\<lambda>_. ()), filter_all_of = (\<lambda>_. ())\<rparr>,
     wc_uuid5 = (\<lambda>s. s), wc_is_ready = sreturn True, wc_exists = (\<lambda>name w. (Inr (name \<in> set w), w)),
     wc_create = (\<lambda>name ps w. (Inr (), w @ [name])), wc_config = (\<lambda>_. unused), wc_delete_many = (\<lambda>_ _. unused),
     wc_insert = (\<lambda>_ _ _ _. unused), wc_total_count = (\<lambda>_ _. unused), wc_bm25 = (\<lambda>_ _ _ _. unused),
     wc_near_vector = (\<lambda>_ _ _ _. unused), wc_hybrid = (\<lambda>_ _ _ _ _. unused)\<rparr>"

definition demo_ingestion_port :: "string list ingestion_port" where
  "demo_ingestion_port = \<lparr>ir_stage = (\<lambda>_ _. unused), ir_load = (\<lambda>_. unused), ir_load_for_tenant = (\<lambda>_ _. unused),
     ir_mark_indexing = (\<lambda>_. unused), ir_mark_indexed = (\<lambda>_. unused), ir_mark_failed = (\<lambda>_ _ _. unused),
     ir_replace_relationships = (\<lambda>_. unused), ir_delete_source = (\<lambda>_ _ _. unused), ir_start_import = (\<lambda>_. unused),
     ir_load_import = (\<lambda>_ _. unused), ir_update_import = (\<lambda>_ _ _ _ _. unused), ir_fail_import = (\<lambda>_ _ _. unused),
     ir_consistency_counts = (\<lambda>_ _. unused)\<rparr>"

definition demo_installation :: "(string list, unit, string) installation" where
  "demo_installation = \<lparr>in_env = demo_env, in_identity = demo_identity,
     in_http = \<lparr>cv_repr = (\<lambda>v. []), cv_parse_float = (\<lambda>s. None),
       http_send = (\<lambda>method url headers payload timeout w. (Inr (Http_Text ''{}''), w)),
       http_json_loads = (\<lambda>t. Some (PDict []))\<rparr>,
     in_files = (host_files demo_host)\<lparr>fs_yaml := (\<lambda>t. Some (PDict [(''pipeline'', PDict (pipeline_document direct_pipeline))]))\<rparr>,
     in_sha256 = (\<lambda>t. ''sum''), in_float_text = (\<lambda>q. []), in_json_loads = (\<lambda>t. None), in_sorted = Inr,
     in_run_id_factory = sreturn ''run-1'', in_migrate = sreturn (), in_postgresql_check = sreturn (),
     in_audit = demo_audit, in_audit_fetch = (\<lambda>_ _. unused), in_audit_metrics = (\<lambda>_ _. unused),
     in_audit_check = sreturn (), in_ingestion = demo_ingestion_port, in_ingestion_load_for_tenant = (\<lambda>_ _. unused),
     in_ingestion_check = sreturn (), in_graph = (\<lambda>_. unused), in_graph_check = sreturn (), in_history = demo_ports,
     in_history_check = sreturn (), in_policies = demo_policies, in_policies_check = sreturn (),
     in_decisions = demo_decisions, in_weaviate_installed = True,
     in_weaviate_connect = (\<lambda>_. sreturn demo_weaviate), in_weaviate_close = sreturn ()\<rparr>"

definition demo_settings :: flow_settings where
  "demo_settings = \<lparr>set_config_path = [], set_server = \<lparr>srv_host = ''h'', srv_port = 80, srv_threads = 1\<rparr>,
     set_postgresql = \<lparr>pg_connection_url = ''db'', pg_timeout_seconds = 5\<rparr>,
     set_weaviate = \<lparr>wv_host = ''h'', wv_http_port = 80, wv_grpc_port = 50, wv_secure = True, wv_api_key = ''k''\<rparr>,
     set_embeddings = \<lparr>emb_name = ''e'', emb_base_url = ''u'', emb_model = ''m'', emb_api_key = [],
       emb_timeout_seconds = 5\<rparr>,
     set_model_servers = [\<lparr>ms_server_id = ''default-model'', ms_trust_boundary = INTERNAL, ms_base_url = ''u'',
       ms_model = ''m'', ms_api_key = [], ms_timeout_seconds = 5, ms_input_cost_per_million = 0,
       ms_output_cost_per_million = 1, ms_definition = rt_definition demo_server\<rparr>],
     set_admin_api_key = ''admin'',
     set_identity_provider = \<lparr>idp_issuer = ''issuer'', idp_audience = ''flow'', idp_jwks_url = ''url'',
       idp_algorithms = [''RS256''], idp_timeout_seconds = 5, idp_cache_ttl_seconds = 60, idp_tenant_claim = ''tenant'',
       idp_roles_claim = ''roles'', idp_groups_claim = ''groups'', idp_acl_claim = ''acl'',
       idp_clearance_claim = ''clearance'', idp_classification_labels_claim = ''labels'',
       idp_external_model_claim = ''external'', idp_diagnostic_claim = ''diagnostics''\<rparr>,
     set_prompts_root = [''prompts''], set_pipelines_root = [''pipelines''], set_domains = [demo_domain],
     set_web_client = None\<rparr>"

lemma demo_load: "load_pipeline (in_files demo_installation) (in_sha256 demo_installation) (in_float_text demo_installation)
    (set_pipelines_root demo_settings) ''direct-rag'' = Inr direct_pipeline"
  by code_simp

lemma demo_models: "map_sum id (map fst) (model_servers_of (in_http demo_installation) demo_settings) = Inr [''default-model'']"
  by code_simp

lemma demo_embeddings: "is_ok (embedding_endpoint_of (set_embeddings demo_settings))"
  by code_simp

lemma demo_http_answers: "http_request (in_http demo_installation) url key timeout ''GET'' None w = (Inr [], w)"
  by (simp add: demo_installation_def http_request_def sbind_def Let_def prog_defs)

lemma demo_collection:
  "ensure_collection (vector_index_of demo_installation demo_weaviate e) ''Docs'' [] = (Inr (), [''Docs''])"
  "index_healthcheck (vector_index_of demo_installation demo_weaviate e) ''Docs'' [''Docs''] = (Inr (), [''Docs''])"
  "index_check (vector_index_of demo_installation demo_weaviate e) w = (Inr (), w)"
  by (simp_all add: ensure_collection_def index_healthcheck_def index_check_def vector_index_of_def demo_weaviate_def
      import_client_def unavailable_unless_def prog_defs sguard_def scatch_def Let_def)

lemma demo_services_open:
  assumes "servers \<noteq> []"
  shows "\<exists>services. open_domains demo_installation demo_settings (vector_index_of demo_installation demo_weaviate e) servers
    [demo_domain] [] [] = (Inr services, [''Docs''])"
proof -
  have env: "in_env demo_installation = demo_env" by (simp add: demo_installation_def)
  have domain: "domain_collection demo_domain = ''Docs''" "domain_allowed_pipeline_names demo_domain = [''direct-rag'']"
    by (simp_all add: demo_domain_def)
  from assms show ?thesis
    by (simp add: sthen_def sbind_def demo_collection domain open_pipelines_def domain_service_def demo_load env
        direct_pipeline_valid make_query_service_def prog_defs)
qed

lemma demo_probes:
  "run_probes (readiness_probes demo_installation (vector_index_of demo_installation demo_weaviate e) e'
     [(sid, m)] [demo_domain]) [''Docs''] = (Inr (), [''Docs''])"
proof -
  have ports: "in_postgresql_check demo_installation w = (Inr (), w)" "in_audit_check demo_installation w = (Inr (), w)"
    "in_ingestion_check demo_installation w = (Inr (), w)" "in_graph_check demo_installation w = (Inr (), w)"
    "in_history_check demo_installation w = (Inr (), w)" "in_policies_check demo_installation w = (Inr (), w)" for w
    by (simp_all add: demo_installation_def sreturn_def)
  have domain: "domain_collection demo_domain = ''Docs''" by (simp add: demo_domain_def)
  show ?thesis
    by (simp add: readiness_probes_def ports demo_collection domain model_healthcheck_def embedding_healthcheck_def
        sthen_def sbind_def demo_http_answers sreturn_def)
qed

lemma demo_bootstrap: "\<exists>b. bootstrap demo_installation demo_settings [] = (Inr b, [''Docs''])"
proof -
  obtain e where e: "embedding_endpoint_of (set_embeddings demo_settings) = Inr e"
    using demo_embeddings by (auto simp: is_ok_iff)
  obtain sid rt m where models: "model_servers_of (in_http demo_installation) demo_settings = Inr [(sid, rt, m)]"
    using demo_models by (cases "model_servers_of (in_http demo_installation) demo_settings") auto
  obtain services where services: "open_domains demo_installation demo_settings
      (vector_index_of demo_installation demo_weaviate e) [(sid, rt)] [demo_domain] [] [] = (Inr services, [''Docs''])"
    using demo_services_open by blast
  have parts: "in_migrate demo_installation [] = (Inr (), [])" "in_weaviate_installed demo_installation"
    "in_weaviate_connect demo_installation x [] = (Inr demo_weaviate, [])" "set_domains demo_settings = [demo_domain]"
    "set_admin_api_key demo_settings \<noteq> []" for x
    by (simp_all add: demo_installation_def demo_settings_def sreturn_def)
  show ?thesis
    using e models services demo_probes parts
    by (simp add: bootstrap_def connect_weaviate_def bootstrap_client_def sbind_def sthen_def slift_def scatch_def
        sreturn_def make_web_app_def Let_def)
qed


end
