(* ===== verification/Dataset_Reader.thy ===== *)
theory Dataset_Reader
  imports Json Dataset_Import
begin

text \<open>
  \<open>infrastructure/dataset_reader.py\<close>: a dataset is three files of JSON lines. \<open>prepare\<close> checks them into the
  tables of a SQLite workspace, rows in insertion order; the generators read the import commands back from it.
  The bytes of a file, \<open>json.loads\<close> and SHA-256 are parameters; failures of SQLite itself are outside.
\<close>

section \<open>Workspace\<close>

datatype relationship_scope = SCOPE_INTERNAL | SCOPE_COMPLETE

record dataset_host =
  dh_read :: "string \<Rightarrow> string option"
  dh_loads :: "string \<Rightarrow> py option"
  dh_sha256 :: "string \<Rightarrow> string"
  dh_float_text :: "rat \<Rightarrow> string"

record jsonl_reader =
  jr_import_id :: string
  jr_nodes_path :: string
  jr_edges_path :: string
  jr_operations_path :: string
  jr_scope :: relationship_scope

record workspace_source =
  wsv_source_id :: string
  wsv_source_version :: string
  wsv_order :: int
  wsv_domain :: string
  wsv_tenant_id :: string
  wsv_source_uri :: "string option"

record workspace_node =
  wn_chunk_id :: string
  wn_source_id :: string
  wn_source_version :: string
  wn_domain :: string
  wn_tenant_id :: string
  wn_source_uri :: "string option"
  wn_text :: string
  wn_metadata_json :: string
  wn_acl_json :: string
  wn_security_json :: string
  wn_position :: int

record workspace_relationship =
  wr_owner :: "string \<times> string"
  wr_key :: relationship_key_tuple
  wr_metadata_json :: string

record dataset_workspace =
  ws_sources :: "workspace_source list"
  ws_nodes :: "workspace_node list"
  ws_relationships :: "workspace_relationship list"
  ws_current :: "(string \<times> string) list"
  ws_deletions :: "string list"

definition empty_workspace :: dataset_workspace where
  "empty_workspace = \<lparr>ws_sources = [], ws_nodes = [], ws_relationships = [], ws_current = [], ws_deletions = []\<rparr>"

definition make_jsonl_reader :: "jsonl_reader \<Rightarrow> jsonl_reader result" where
  "make_jsonl_reader r = rbind (required (jr_import_id r) ''import_id'') (\<lambda>i. Inr (r\<lparr>jr_import_id := i\<rparr>))"

section \<open>Lines and fields\<close>

definition dataset_error :: "string \<Rightarrow> py_exn" where
  "dataset_error m = Known ValidationError m"

text \<open>Iterating a binary stream: lines end after a newline; \<open>bytes.strip\<close> takes ASCII white space.\<close>

fun byte_lines :: "string \<Rightarrow> string list" where
  "byte_lines [] = []"
| "byte_lines (c # cs) =
     (if c = CHR 0x0A then [c] # byte_lines cs
      else case byte_lines cs of [] \<Rightarrow> [[c]] | l # ls \<Rightarrow> (c # l) # ls)"

definition blank_bytes :: "string \<Rightarrow> bool" where
  "blank_bytes = list_all (\<lambda>c. c \<in> {CHR 0x20, CHR 0x09, CHR 0x0A, CHR 0x0B, CHR 0x0C, CHR 0x0D})"

definition jsonl_item :: "dataset_host \<Rightarrow> string \<Rightarrow> nat \<times> string \<Rightarrow> (mapping \<times> string) result" where
  "jsonl_item h path line =
     (let place = path @ '':'' @ str_int (int (fst line))
      in if blank_bytes (snd line) then Inl (dataset_error (place @ '' contains an empty line''))
         else (case dh_loads h (snd line) of
                 None \<Rightarrow> Inl (dataset_error (place @ '' contains invalid JSON''))
               | Some (PDict d) \<Rightarrow> Inr (d, snd line)
               | _ \<Rightarrow> Inl (dataset_error (place @ '' must contain a JSON object''))))"

definition jsonl :: "dataset_host \<Rightarrow> string \<Rightarrow> (mapping \<times> string) result list" where
  "jsonl h path =
     (case dh_read h path of
        None \<Rightarrow> [Inl (dataset_error (''Dataset file cannot be opened: '' @ path))]
      | Some content \<Rightarrow> map (jsonl_item h path) (List.enumerate 1 (byte_lines content)))"

definition record_string :: "string \<Rightarrow> mapping \<Rightarrow> string \<Rightarrow> string result" where
  "record_string path record field =
     (let bad = dataset_error (path @ '': '' @ field @ '' must be a non-empty string'')
      in case map_of record field of
           Some (PStr s) \<Rightarrow> if strip s = [] then Inl bad else Inr (strip s)
         | _ \<Rightarrow> Inl bad)"

definition record_strings :: "py option \<Rightarrow> string \<Rightarrow> string list result" where
  "record_strings value message =
     (case value of
        None \<Rightarrow> Inr []
      | Some (PList items) \<Rightarrow> if list_all is_str items then Inr (List.map_filter as_str items) else Inl (dataset_error message)
      | _ \<Rightarrow> Inl (dataset_error message))"

definition record_optional :: "py option \<Rightarrow> string \<Rightarrow> string option result" where
  "record_optional value message =
     (case value of
        None \<Rightarrow> Inr None
      | Some PNone \<Rightarrow> Inr None
      | Some (PStr s) \<Rightarrow> Inr (Some s)
      | _ \<Rightarrow> Inl (dataset_error message))"

definition record_mapping :: "py option \<Rightarrow> string \<Rightarrow> mapping result" where
  "record_mapping value message =
     (case value of None \<Rightarrow> Inr [] | Some (PDict d) \<Rightarrow> Inr d | _ \<Rightarrow> Inl (dataset_error message))"

definition security_from_record :: "mapping \<Rightarrow> string \<Rightarrow> document_security result" where
  "security_from_record record path =
     rbind (record_mapping (map_of record ''security'') (path @ '': node security must be a JSON object'')) (\<lambda>security.
     rbind (record_optional (map_of security ''clearance_label'')
       (path @ '': security.clearance_label must be a string or null'')) (\<lambda>clearance.
     rbind (record_strings (map_of security ''classification_labels'')
       (path @ '': security.classification_labels must be a list of strings'')) (\<lambda>labels.
       document_security_post_init \<lparr>doc_clearance_label = clearance, doc_classification_labels = labels\<rparr>)))"

definition chunk_of_record :: "mapping \<Rightarrow> string \<Rightarrow> document_chunk result" where
  "chunk_of_record record path =
     rbind (security_from_record record path) (\<lambda>security.
     rbind (record_mapping (map_of record ''metadata'') (path @ '': node metadata must be a JSON object'')) (\<lambda>metadata.
     rbind (record_strings (map_of record ''acl_labels'') (path @ '': node ACL must be a list of strings'')) (\<lambda>acl.
     rbind (record_optional (map_of record ''source_uri'') (path @ '': source_uri must be a string or null'')) (\<lambda>uri.
     rbind (record_string path record ''chunk_id'') (\<lambda>cid.
     rbind (record_string path record ''domain'') (\<lambda>domain.
     rbind (record_string path record ''tenant_id'') (\<lambda>tenant.
     rbind (record_string path record ''source_id'') (\<lambda>source.
     rbind (record_string path record ''text'') (\<lambda>txt.
       document_chunk_post_init
         \<lparr>chunk_id = cid, chunk_domain = domain, chunk_tenant_id = tenant, chunk_source_id = source, chunk_text = txt,
          chunk_source_uri = uri, chunk_metadata = metadata, chunk_acl_labels = acl, chunk_security = security\<rparr>)))))))))"

section \<open>JSON columns\<close>

definition dataset_json :: "dataset_host \<Rightarrow> py \<Rightarrow> string result" where
  "dataset_json h v =
     (case canonical_json (dh_float_text h) v of
        None \<Rightarrow> Inl (dataset_error ''Dataset metadata must be valid JSON'') | Some t \<Rightarrow> Inr t)"

definition node_security_payload :: "document_security \<Rightarrow> py" where
  "node_security_payload s = PDict
     [(''clearance_label'', (case doc_clearance_label s of None \<Rightarrow> PNone | Some l \<Rightarrow> PStr l)),
      (''classification_labels'', PList (map PStr (doc_classification_labels s)))]"

text \<open>A text that is not JSON raises \<open>JSONDecodeError\<close>.\<close>

definition stored_value :: "dataset_host \<Rightarrow> string \<Rightarrow> py result" where
  "stored_value h t = (case dh_loads h t of None \<Rightarrow> Inl (OtherError ''JSONDecodeError'') | Some v \<Rightarrow> Inr v)"

definition stored_object :: "dataset_host \<Rightarrow> string \<Rightarrow> string \<Rightarrow> mapping result" where
  "stored_object h t place =
     rbind (stored_value h t) (\<lambda>v.
       case v of PDict d \<Rightarrow> Inr d | _ \<Rightarrow> Inl (dataset_error (place @ '' must be a JSON object'')))"

definition stored_array :: "dataset_host \<Rightarrow> string \<Rightarrow> string \<Rightarrow> string list result" where
  "stored_array h t place =
     rbind (stored_value h t) (\<lambda>v.
       case v of
         PList items \<Rightarrow> if list_all is_str items then Inr (List.map_filter as_str items)
                       else Inl (dataset_error (place @ '' must be a list of strings''))
       | _ \<Rightarrow> Inl (dataset_error (place @ '' must be a list of strings'')))"

text \<open>The clearance label in the workspace is the text or \<open>null\<close> that \<open>node_security_payload\<close> wrote.\<close>

definition security_from_json :: "dataset_host \<Rightarrow> string \<Rightarrow> document_security result" where
  "security_from_json h t =
     rbind (stored_object h t ''node security'') (\<lambda>decoded.
     rbind (dataset_json h (case map_of decoded ''classification_labels'' of None \<Rightarrow> PList [] | Some v \<Rightarrow> v)) (\<lambda>labels.
     rbind (stored_array h labels ''node security labels'') (\<lambda>ls.
       document_security_post_init
         \<lparr>doc_clearance_label = (case map_of decoded ''clearance_label'' of Some (PStr l) \<Rightarrow> Some l | _ \<Rightarrow> None),
          doc_classification_labels = ls\<rparr>)))"

section \<open>Loading\<close>

text \<open>What a pass over a file carries along: the tables, the bytes hashed so far and the rows counted.\<close>

record load_progress =
  ld_workspace :: dataset_workspace
  ld_digest :: string
  ld_count :: int

definition hashed :: "char \<Rightarrow> string \<Rightarrow> load_progress \<Rightarrow> load_progress" where
  "hashed mark encoded p = p\<lparr>ld_digest := ld_digest p @ mark # encoded\<rparr>"

text \<open>\<open>version_order\<close>: the versions of a source in the order of their first chunk.\<close>

type_synonym version_order = "((string \<times> string) \<times> int) list"

definition with_version :: "string \<times> string \<Rightarrow> version_order \<Rightarrow> version_order" where
  "with_version key order =
     (if has_key order key then order
      else order @ [(key, int (length (filter (\<lambda>item. fst (fst item) = fst key) order)))])"

definition insert_source :: "workspace_source \<Rightarrow> dataset_workspace \<Rightarrow> dataset_workspace" where
  "insert_source row ws =
     (if (wsv_source_id row, wsv_source_version row) \<in> set (map (\<lambda>r. (wsv_source_id r, wsv_source_version r)) (ws_sources ws))
      then ws else ws\<lparr>ws_sources := ws_sources ws @ [row]\<rparr>)"

definition insert_node :: "workspace_node \<Rightarrow> dataset_workspace \<Rightarrow> dataset_workspace result" where
  "insert_node row ws =
     (if wn_chunk_id row \<in> set (map wn_chunk_id (ws_nodes ws))
      then Inl (dataset_error (''Duplicate dataset node: '' @ wn_chunk_id row))
      else Inr (ws\<lparr>ws_nodes := ws_nodes ws @ [row]\<rparr>))"

definition node_row_of :: "dataset_host \<Rightarrow> document_chunk \<Rightarrow> string \<Rightarrow> int \<Rightarrow> workspace_node result" where
  "node_row_of h chunk version position =
     rbind (dataset_json h (PDict (chunk_metadata chunk))) (\<lambda>metadata.
     rbind (dataset_json h (PList (map PStr (chunk_acl_labels chunk)))) (\<lambda>acl.
     rbind (dataset_json h (node_security_payload (chunk_security chunk))) (\<lambda>security.
       Inr \<lparr>wn_chunk_id = chunk_id chunk, wn_source_id = chunk_source_id chunk, wn_source_version = version,
            wn_domain = chunk_domain chunk, wn_tenant_id = chunk_tenant_id chunk,
            wn_source_uri = chunk_source_uri chunk, wn_text = chunk_text chunk, wn_metadata_json = metadata,
            wn_acl_json = acl, wn_security_json = security, wn_position = position\<rparr>)))"

definition of_tenant :: "mapping \<Rightarrow> string \<Rightarrow> string \<Rightarrow> bool" where
  "of_tenant record domain tenant \<longleftrightarrow>
     map_of record ''domain'' = Some (PStr domain) \<and> map_of record ''tenant_id'' = Some (PStr tenant)"

definition load_node ::
    "dataset_host \<Rightarrow> string \<Rightarrow> string \<Rightarrow> string \<Rightarrow> (mapping \<times> string) result \<Rightarrow> load_progress \<times> version_order \<Rightarrow>
     (load_progress \<times> version_order) result" where
  "load_node h path domain tenant item state =
     rbind item (\<lambda>(record, encoded).
       if \<not> of_tenant record domain tenant then Inr state
       else rbind (chunk_of_record record path) (\<lambda>chunk.
         rbind (record_string path record ''source_version'') (\<lambda>version.
         let (p, order) = state; key = (chunk_source_id chunk, version); order' = with_version key order;
             ws = insert_source
               \<lparr>wsv_source_id = fst key, wsv_source_version = version,
                wsv_order = (case map_of order' key of None \<Rightarrow> 0 | Some n \<Rightarrow> n), wsv_domain = chunk_domain chunk,
                wsv_tenant_id = chunk_tenant_id chunk, wsv_source_uri = chunk_source_uri chunk\<rparr> (ld_workspace p)
         in rbind (node_row_of h chunk version (ld_count p)) (\<lambda>row.
            rbind (insert_node row ws) (\<lambda>ws'.
              Inr (hashed (CHR ''N'') encoded (p\<lparr>ld_workspace := ws', ld_count := ld_count p + 1\<rparr>), order'))))))"

definition set_current :: "string \<Rightarrow> string \<Rightarrow> dataset_workspace \<Rightarrow> dataset_workspace result" where
  "set_current source version ws =
     (if (source, version) \<notin> set (map (\<lambda>r. (wsv_source_id r, wsv_source_version r)) (ws_sources ws))
      then Inl (dataset_error (''Operation references an unknown source version: '' @ source @ ''/'' @ version))
      else Inr (ws\<lparr>ws_current := dict_set source version (ws_current ws)\<rparr>))"

definition load_operation ::
    "string \<Rightarrow> string \<Rightarrow> string \<Rightarrow> (mapping \<times> string) result \<Rightarrow> load_progress \<Rightarrow> load_progress result" where
  "load_operation path domain tenant item p =
     rbind item (\<lambda>(record, encoded).
       if \<not> of_tenant record domain tenant then Inr p
       else rbind (record_string path record ''operation'') (\<lambda>operation.
         rbind (record_string path record ''source_id'') (\<lambda>source.
         rbind
          (if operation = ''add_source''
           then rbind (record_string path record ''source_version'') (\<lambda>v. set_current source v (ld_workspace p))
           else if operation = ''replace_source''
           then rbind (record_string path record ''to_version'') (\<lambda>v. set_current source v (ld_workspace p))
           else if operation = ''delete_source''
           then Inr (let ws = ld_workspace p in if source \<in> set (ws_deletions ws) then ws
             else ws\<lparr>ws_deletions := ws_deletions ws @ [source]\<rparr>)
           else Inl (dataset_error (''Unsupported dataset operation: '' @ operation))) (\<lambda>ws.
           Inr (hashed (CHR ''O'') encoded (p\<lparr>ld_workspace := ws\<rparr>))))))"

definition find_node :: "string \<Rightarrow> dataset_workspace \<Rightarrow> (string \<times> string) option" where
  "find_node cid ws = map_option (\<lambda>r. (wn_source_id r, wn_source_version r)) (find (\<lambda>r. wn_chunk_id r = cid) (ws_nodes ws))"

definition insert_edge :: "workspace_relationship \<Rightarrow> dataset_workspace \<Rightarrow> dataset_workspace result" where
  "insert_edge row ws =
     (if (wr_owner row, wr_key row) \<in> set (map (\<lambda>r. (wr_owner r, wr_key r)) (ws_relationships ws))
      then Inl (dataset_error ''Duplicate dataset relationship'')
      else Inr (ws\<lparr>ws_relationships := ws_relationships ws @ [row]\<rparr>))"

text \<open>An edge whose two ends are in the workspace: the checks and the row.\<close>

definition edge_row ::
    "dataset_host \<Rightarrow> string \<Rightarrow> mapping \<Rightarrow> string \<Rightarrow> string \<Rightarrow> string \<times> string \<Rightarrow> string \<times> string \<Rightarrow>
     workspace_relationship result" where
  "edge_row h path record from_chunk to_chunk owner target =
     rbind (record_string path record ''owner_source_id'') (\<lambda>owner_source.
     rbind (record_string path record ''owner_source_version'') (\<lambda>owner_version.
     rbind (record_string path record ''from_source_id'') (\<lambda>from_source.
     rbind (record_string path record ''to_source_id'') (\<lambda>to_source.
       if owner \<noteq> (owner_source, owner_version)
       then Inl (dataset_error ''Relationship owner does not match its source node'')
       else rbind (record_string path record ''to_source_version'') (\<lambda>to_version.
         if target \<noteq> (to_source, to_version)
         then Inl (dataset_error ''Relationship target does not match its target node'')
         else rbind (record_string path record ''relationship_type'') (\<lambda>rel.
           rbind (record_mapping (map_of record ''metadata'') ''Relationship metadata must be a JSON object'') (\<lambda>m.
           rbind (dataset_json h (PDict m)) (\<lambda>t.
             Inr \<lparr>wr_owner = owner, wr_key = (from_source, from_chunk, to_source, to_chunk, rel),
                  wr_metadata_json = t\<rparr>))))))))"

definition load_edge ::
    "dataset_host \<Rightarrow> jsonl_reader \<Rightarrow> string \<Rightarrow> (mapping \<times> string) result \<Rightarrow> load_progress \<Rightarrow> load_progress result" where
  "load_edge h r tenant item p =
     rbind item (\<lambda>(record, encoded).
       let path = jr_edges_path r; ws = ld_workspace p
       in if map_of record ''tenant_id'' \<noteq> Some (PStr tenant) then Inr p
          else rbind (record_string path record ''from_chunk_id'') (\<lambda>from_chunk.
            case find_node from_chunk ws of
              None \<Rightarrow> Inr p
            | Some owner \<Rightarrow>
                rbind (record_string path record ''to_chunk_id'') (\<lambda>to_chunk.
                case find_node to_chunk ws of
                  None \<Rightarrow>
                    if jr_scope r = SCOPE_COMPLETE
                    then Inl (dataset_error (''Complete relationship scope requires target: '' @ to_chunk)) else Inr p
                | Some target \<Rightarrow>
                    rbind (edge_row h path record from_chunk to_chunk owner target) (\<lambda>row.
                    rbind (insert_edge row ws) (\<lambda>ws'.
                      Inr (hashed (CHR ''E'') encoded (p\<lparr>ld_workspace := ws', ld_count := ld_count p + 1\<rparr>)))))))"

definition load_nodes :: "dataset_host \<Rightarrow> jsonl_reader \<Rightarrow> string \<Rightarrow> string \<Rightarrow> load_progress result" where
  "load_nodes h r domain tenant =
     rbind (rfold (load_node h (jr_nodes_path r) domain tenant) (jsonl h (jr_nodes_path r))
       (\<lparr>ld_workspace = empty_workspace, ld_digest = [], ld_count = 0\<rparr>, [])) (\<lambda>(p, order). Inr p)"

definition load_operations ::
    "dataset_host \<Rightarrow> jsonl_reader \<Rightarrow> string \<Rightarrow> string \<Rightarrow> load_progress \<Rightarrow> load_progress result" where
  "load_operations h r domain tenant =
     rfold (load_operation (jr_operations_path r) domain tenant) (jsonl h (jr_operations_path r))"

definition load_edges :: "dataset_host \<Rightarrow> jsonl_reader \<Rightarrow> string \<Rightarrow> load_progress \<Rightarrow> load_progress result" where
  "load_edges h r tenant p = rfold (load_edge h r tenant) (jsonl h (jr_edges_path r)) (p\<lparr>ld_count := 0\<rparr>)"

text \<open>The body of \<open>prepare\<close> inside the transaction: the final progress and the number of chunks.\<close>

definition load_dataset :: "dataset_host \<Rightarrow> jsonl_reader \<Rightarrow> string \<Rightarrow> string \<Rightarrow> (load_progress \<times> int) result" where
  "load_dataset h r domain tenant =
     rbind (load_nodes h r domain tenant) (\<lambda>nodes.
     rbind (load_operations h r domain tenant nodes) (\<lambda>operations.
     rbind (load_edges h r tenant operations) (\<lambda>edges.
       let ws = ld_workspace edges
       in if ws_sources ws = []
          then Inl (dataset_error ''Dataset does not contain sources for the selected domain and tenant'')
          else if list_ex (\<lambda>row. \<not> has_key (ws_current ws) (wsv_source_id row)) (ws_sources ws)
          then Inl (dataset_error ''Operations do not define the current version for every source'')
          else Inr (edges, ld_count nodes))))"

record reader_state =
  rst_workspace :: dataset_workspace
  rst_prepared :: bool

text \<open>A failing transaction leaves the fresh workspace empty.\<close>

definition prepare_dataset ::
    "dataset_host \<Rightarrow> jsonl_reader \<Rightarrow> string \<Rightarrow> string \<Rightarrow> (reader_state, py_exn, dataset_import_request) prog" where
  "prepare_dataset h r domain tenant =
     sbind (slift (required domain ''domain'')) (\<lambda>d.
     sbind (slift (required tenant ''tenant_id'')) (\<lambda>t.
     sthen (smodify (\<lambda>s. s\<lparr>rst_workspace := empty_workspace\<rparr>))
     (sbind (slift (load_dataset h r d t)) (\<lambda>(p, chunks).
      let ws = ld_workspace p
      in sthen (smodify (\<lambda>s. s\<lparr>rst_workspace := ws, rst_prepared := True\<rparr>))
         (slift (dataset_import_request_post_init
           \<lparr>ireq_import_id = jr_import_id r, ireq_domain = d, ireq_tenant_id = t,
            ireq_dataset_hash = dh_sha256 h (ld_digest p), ireq_source_count = int (length (ws_sources ws)),
            ireq_chunk_count = chunks, ireq_relationship_count = ld_count p,
            ireq_deletion_count = int (length (ws_deletions ws))\<rparr>))))))"

section \<open>Reading the commands\<close>

definition node_chunk :: "dataset_host \<Rightarrow> workspace_source \<Rightarrow> workspace_node \<Rightarrow> document_chunk result" where
  "node_chunk h source row =
     rbind (stored_object h (wn_metadata_json row) ''node metadata'') (\<lambda>metadata.
     rbind (stored_array h (wn_acl_json row) ''node ACL'') (\<lambda>acl.
     rbind (security_from_json h (wn_security_json row)) (\<lambda>security.
       document_chunk_post_init
         \<lparr>chunk_id = wn_chunk_id row, chunk_domain = wsv_domain source, chunk_tenant_id = wsv_tenant_id source,
          chunk_source_id = wsv_source_id source, chunk_text = wn_text row, chunk_source_uri = wn_source_uri row,
          chunk_metadata = metadata, chunk_acl_labels = acl, chunk_security = security\<rparr>)))"

definition edge_relationship :: "dataset_host \<Rightarrow> workspace_relationship \<Rightarrow> graph_relationship result" where
  "edge_relationship h row =
     (case wr_key row of (from_source, from_chunk, to_source, to_chunk, rel) \<Rightarrow>
        rbind (graph_node_ref_post_init (node_ref from_source from_chunk)) (\<lambda>f.
        rbind (graph_node_ref_post_init (node_ref to_source to_chunk)) (\<lambda>t.
        rbind (stored_object h (wr_metadata_json row) ''relationship metadata'') (\<lambda>m.
          graph_relationship_post_init \<lparr>rel_from_node = f, rel_to_node = t, rel_type = rel, rel_metadata = m\<rparr>))))"

definition dataset_command ::
    "dataset_host \<Rightarrow> dataset_workspace \<Rightarrow> bool \<Rightarrow> workspace_source \<Rightarrow> ingestion_command result" where
  "dataset_command h ws include_relationships source =
     (let key = (wsv_source_id source, wsv_source_version source)
      in rbind (rmap (node_chunk h source)
           (sort_key wn_position (filter (\<lambda>r. (wn_source_id r, wn_source_version r) = key) (ws_nodes ws)))) (\<lambda>chunks.
         rbind (if include_relationships
           then rmap (edge_relationship h) (sort_key wr_key (filter (\<lambda>r. wr_owner r = key) (ws_relationships ws)))
           else Inr []) (\<lambda>relationships.
           ingestion_command_post_init
             \<lparr>ing_idempotency_key = ''dataset:'' @ wsv_domain source @ '':'' @ wsv_tenant_id source @ '':'' @
                wsv_source_id source @ '':'' @ wsv_source_version source,
              ing_domain = wsv_domain source, ing_tenant_id = wsv_tenant_id source, ing_source_id = wsv_source_id source,
              ing_source_version = wsv_source_version source, ing_chunks = chunks,
              ing_relationships = relationships, ing_source_uri = wsv_source_uri source, ing_metadata = []\<rparr>)))"

definition when_prepared :: "reader_state \<Rightarrow> (dataset_workspace \<Rightarrow> 'a result list) \<Rightarrow> 'a result list" where
  "when_prepared s items =
     (if rst_prepared s then items (rst_workspace s)
      else [Inl (dataset_error ''Dataset reader must be prepared before reading commands'')])"

definition read_sources :: "dataset_host \<Rightarrow> reader_state \<Rightarrow> ingestion_command result list" where
  "read_sources h s = when_prepared s (\<lambda>ws.
     map (dataset_command h ws False) (sort_key wsv_source_id (sort_key wsv_order (ws_sources ws))))"

definition read_relationships :: "dataset_host \<Rightarrow> reader_state \<Rightarrow> ingestion_command result list" where
  "read_relationships h s = when_prepared s (\<lambda>ws.
     map (dataset_command h ws True) (sort_key wsv_source_id
       (filter (\<lambda>r. map_of (ws_current ws) (wsv_source_id r) = Some (wsv_source_version r)) (ws_sources ws))))"

definition read_deletions :: "reader_state \<Rightarrow> string result list" where
  "read_deletions s = when_prepared s (\<lambda>ws. map Inr (sort (ws_deletions ws)))"

text \<open>The reader the import works with, prepared for the domain and tenant of the service.\<close>

definition jsonl_dataset_reader ::
    "dataset_host \<Rightarrow> jsonl_reader \<Rightarrow> reader_state \<Rightarrow> string \<Rightarrow> string \<Rightarrow> dataset_reader" where
  "jsonl_dataset_reader h r s domain tenant =
     (let s' = snd (prepare_dataset h r domain tenant s)
      in \<lparr>rd_prepare = (\<lambda>d t. fst (prepare_dataset h r d t s)), rd_source_commands = read_sources h s',
          rd_relationship_commands = read_relationships h s', rd_deletions = read_deletions s'\<rparr>)"

end
