(* ===== verification/Dataset_Properties.thy ===== *)
theory Dataset_Properties
  imports Dataset_Reader
begin

text \<open>
  What \<open>prepare\<close> accepts is what the generators give back: one well-formed command per version of a source, with
  the chunks of the file in their order.
\<close>

section \<open>The accepted chunks\<close>

text \<open>The chunks of the domain and tenant in the order of the file, each with the version of its source.\<close>

definition accepted_node ::
    "string \<Rightarrow> mapping \<Rightarrow> (document_chunk \<times> string) result" where
  "accepted_node path record =
     rbind (chunk_of_record record path) (\<lambda>c.
     rbind (record_string path record ''source_version'') (\<lambda>v. Inr (c, v)))"

definition accepted_nodes ::
    "dataset_host \<Rightarrow> jsonl_reader \<Rightarrow> string \<Rightarrow> string \<Rightarrow> (document_chunk \<times> string) list result" where
  "accepted_nodes h r domain tenant =
     rbind (rmap id (jsonl h (jr_nodes_path r))) (\<lambda>items.
       rmap (accepted_node (jr_nodes_path r)) (filter (\<lambda>d. of_tenant d domain tenant) (map fst items)))"

definition node_version :: "document_chunk \<times> string \<Rightarrow> string \<times> string" where
  "node_version cv = (chunk_source_id (fst cv), snd cv)"

text \<open>The elements of a list in the order of their first occurrence.\<close>

definition firsts :: "'a list \<Rightarrow> 'a list" where
  "firsts xs = rev (remdups (rev xs))"

lemma firsts_snoc: "firsts (xs @ [x]) = (if x \<in> set xs then firsts xs else firsts xs @ [x])"
  by (simp add: firsts_def)

lemma set_firsts [simp]: "set (firsts xs) = set xs"
  by (simp add: firsts_def)

lemma distinct_firsts [simp]: "distinct (firsts xs)"
  by (simp add: firsts_def)

section \<open>What loading the nodes builds\<close>

definition node_ok :: "string \<Rightarrow> string \<Rightarrow> document_chunk \<times> string \<Rightarrow> bool" where
  "node_ok domain tenant cv \<longleftrightarrow> document_chunk_ok (fst cv) \<and> document_security_ok (chunk_security (fst cv)) \<and>
     chunk_domain (fst cv) = domain \<and> chunk_tenant_id (fst cv) = tenant \<and> trimmed (snd cv)"

definition node_row :: "dataset_host \<Rightarrow> document_chunk \<times> string \<Rightarrow> workspace_node \<Rightarrow> bool" where
  "node_row h cv row \<longleftrightarrow> (\<exists>i. node_row_of h (fst cv) (snd cv) i = Inr row)"

definition source_key :: "workspace_source \<Rightarrow> string \<times> string" where
  "source_key r = (wsv_source_id r, wsv_source_version r)"

definition nodes_loaded ::
    "dataset_host \<Rightarrow> string \<Rightarrow> string \<Rightarrow> (document_chunk \<times> string) list \<Rightarrow> load_progress \<times> version_order \<Rightarrow> bool" where
  "nodes_loaded h domain tenant acc state \<longleftrightarrow> (case state of (p, order) \<Rightarrow>
     let ws = ld_workspace p
     in ld_count p = int (length acc) \<and> list_all (node_ok domain tenant) acc \<and>
        list_all2 (node_row h) acc (ws_nodes ws) \<and> map wn_position (ws_nodes ws) = map int [0..<length acc] \<and>
        distinct (map wn_chunk_id (ws_nodes ws)) \<and>
        map (\<lambda>r. (source_key r, wsv_order r)) (ws_sources ws) = order \<and>
        map fst order = firsts (map node_version acc) \<and>
        (\<forall>s. sorted (map snd (filter (\<lambda>it. fst (fst it) = s) order))) \<and>
        (\<forall>it\<in>set order. snd it < int (length (filter (\<lambda>it'. fst (fst it') = fst (fst it)) order))) \<and>
        (\<forall>r\<in>set (ws_sources ws). wsv_domain r = domain \<and> wsv_tenant_id r = tenant))"

lemma record_string_trimmed: "record_string path d f = Inr s \<Longrightarrow> trimmed s"
  by (auto simp: record_string_def Let_def trimmed_def split: option.splits py.splits if_splits)

lemma chunk_of_record_Inr:
  assumes "chunk_of_record d path = Inr c" "of_tenant d domain tenant" "trimmed domain" "trimmed tenant"
  shows "document_chunk_ok c \<and> document_security_ok (chunk_security c) \<and> chunk_domain c = domain \<and> chunk_tenant_id c = tenant"
proof -
  have exact: "record_string path d f = Inr s" if "map_of d f = Some (PStr s)" "trimmed s" for f s
    using that by (simp add: record_string_def Let_def trimmed_def)
  from assms(1) obtain security c0 where parts: "security_from_record d path = Inr security"
    "document_chunk_post_init c0 = Inr c" "chunk_security c0 = security"
    "record_string path d ''domain'' = Inr (chunk_domain c0)" "record_string path d ''tenant_id'' = Inr (chunk_tenant_id c0)"
    by (auto simp: chunk_of_record_def rbind_eq_Inr)
  have "document_security_ok security"
    using parts(1) by (auto simp: security_from_record_def rbind_eq_Inr dest: document_security_post_init_ok)
  moreover have "chunk_domain c0 = domain" "chunk_tenant_id c0 = tenant"
    using parts(4,5) assms(2-4) by (auto simp: of_tenant_def exact)
  ultimately show ?thesis
    using document_chunk_post_init_ok [OF parts(2)] parts(2,3) assms(3,4)
    by (auto simp: document_chunk_post_init_def rbind_eq_Inr required_Inr trimmed_def)
qed

lemma node_row_of_fields:
  "node_row_of h c v i = Inr row \<Longrightarrow> wn_chunk_id row = chunk_id c \<and> wn_source_id row = chunk_source_id c \<and>
     wn_source_version row = v \<and> wn_source_uri row = chunk_source_uri c \<and> wn_text row = chunk_text c \<and> wn_position row = i"
  by (auto simp: node_row_of_def rbind_eq_Inr)

text \<open>A version gets the number of versions of its source before it.\<close>

lemma with_version_keeps:
  assumes "\<forall>s. sorted (map snd (filter (\<lambda>it. fst (fst it) = s) order))"
    "\<forall>it\<in>set order. snd it < int (length (filter (\<lambda>it'. fst (fst it') = fst (fst it)) order))"
  shows "(\<forall>s. sorted (map snd (filter (\<lambda>it. fst (fst it) = s) (with_version k order)))) \<and>
    (\<forall>it\<in>set (with_version k order).
       snd it < int (length (filter (\<lambda>it'. fst (fst it') = fst (fst it)) (with_version k order))))"
  using assms by (force simp: with_version_def sorted_append has_key_def)

lemma load_node_loaded:
  assumes "nodes_loaded h domain tenant acc (p, order)" "load_node h path domain tenant (Inr (d, encoded)) (p, order) = Inr state"
    "trimmed domain" "trimmed tenant"
  shows "if of_tenant d domain tenant
    then \<exists>cv. accepted_node path d = Inr cv \<and> nodes_loaded h domain tenant (acc @ [cv]) state
    else state = (p, order)"
proof (cases "of_tenant d domain tenant")
  case True
  with assms(2) obtain c v row where parts: "chunk_of_record d path = Inr c" "record_string path d ''source_version'' = Inr v"
    "node_row_of h c v (ld_count p) = Inr row"
    and new: "wn_chunk_id row \<notin> set (map wn_chunk_id (ws_nodes (ld_workspace p)))"
    and state: "ld_count (fst state) = ld_count p + 1" "snd state = with_version (chunk_source_id c, v) order"
      "ws_nodes (ld_workspace (fst state)) = ws_nodes (ld_workspace p) @ [row]"
      "ws_sources (ld_workspace (fst state)) = ws_sources (insert_source
         \<lparr>wsv_source_id = chunk_source_id c, wsv_source_version = v,
          wsv_order = (case map_of (with_version (chunk_source_id c, v) order) (chunk_source_id c, v) of None \<Rightarrow> 0 | Some n \<Rightarrow> n),
          wsv_domain = chunk_domain c, wsv_tenant_id = chunk_tenant_id c, wsv_source_uri = chunk_source_uri c\<rparr> (ld_workspace p))"
    by (auto simp: load_node_def rbind_eq_Inr Let_def insert_node_def hashed_def insert_source_def split: if_splits)
  let ?k = "(chunk_source_id c, v)" and ?ws = "ld_workspace p"
  have old: "ld_count p = int (length acc)" "map (\<lambda>r. (source_key r, wsv_order r)) (ws_sources ?ws) = order"
    "map fst order = firsts (map node_version acc)" "list_all2 (node_row h) acc (ws_nodes ?ws)"
    "map wn_position (ws_nodes ?ws) = map int [0..<length acc]" "list_all (node_ok domain tenant) acc"
    "\<forall>r\<in>set (ws_sources ?ws). wsv_domain r = domain \<and> wsv_tenant_id r = tenant"
    "\<forall>s. sorted (map snd (filter (\<lambda>it. fst (fst it) = s) order))" "distinct (map wn_chunk_id (ws_nodes ?ws))"
    "\<forall>it\<in>set order. snd it < int (length (filter (\<lambda>it'. fst (fst it') = fst (fst it)) order))"
    using assms(1) by (auto simp: nodes_loaded_def Let_def)
  have keys: "map source_key (ws_sources ?ws) = map fst order" unfolding old(2) [symmetric] by simp
  have known: "has_key order ?k \<longleftrightarrow> ?k \<in> set (map node_version acc)"
    unfolding has_key_def old(3) by simp
  have listed: "?k \<in> set (map (\<lambda>r. (wsv_source_id r, wsv_source_version r)) (ws_sources ?ws)) \<longleftrightarrow> has_key order ?k"
    using keys by (simp add: source_key_def [abs_def] has_key_def)
  note chunk = chunk_of_record_Inr [OF parts(1) True assms(3,4)]
  have sources: "map (\<lambda>r. (source_key r, wsv_order r)) (ws_sources (ld_workspace (fst state))) = with_version ?k order"
    using listed old(2) by (auto simp: state(4) insert_source_def with_version_def source_key_def map_add_def has_key_iff)
  have "nodes_loaded h domain tenant (acc @ [(c, v)]) state"
    unfolding nodes_loaded_def case_prod_beta Let_def state(1-3) sources
    using old new chunk with_version_keeps [OF old(8,10), of ?k] record_string_trimmed [OF parts(2)] known
      node_row_of_fields [OF parts(3)] parts(3)
    by (intro conjI)
      (auto simp: node_ok_def node_row_def firsts_snoc node_version_def with_version_def state(4) insert_source_def
        intro!: list_all2_appendI)
  with True parts show ?thesis by (auto simp: accepted_node_def)
qed (use assms in \<open>simp add: load_node_def\<close>)

lemma load_node_item: "load_node h path domain tenant item state = Inr state' \<Longrightarrow> \<exists>d encoded. item = Inr (d, encoded)"
  by (cases item) (auto simp: load_node_def)

lemma load_items_loaded:
  assumes "rfold (load_node h path domain tenant) items state = Inr state'" "nodes_loaded h domain tenant acc state"
    "trimmed domain" "trimmed tenant"
  shows "\<exists>ds cvs. rmap id items = Inr ds \<and>
    rmap (accepted_node path) (filter (\<lambda>d. of_tenant d domain tenant) (map fst ds)) = Inr cvs \<and>
    nodes_loaded h domain tenant (acc @ cvs) state'"
  using assms(1,2)
proof (induction items arbitrary: state acc)
  case (Cons item items)
  then obtain state1 where step: "load_node h path domain tenant item state = Inr state1"
    "rfold (load_node h path domain tenant) items state1 = Inr state'" by (auto simp: rbind_eq_Inr)
  with load_node_item [OF step(1)] obtain d encoded p order where item: "item = Inr (d, encoded)" "state = (p, order)"
    "load_node h path domain tenant (Inr (d, encoded)) (p, order) = Inr state1"
    "rfold (load_node h path domain tenant) items state1 = Inr state'"
    by (cases state) auto
  note one = load_node_loaded [OF Cons.prems(2) [unfolded item(2)] item(3) assms(3,4)]
  show ?case
  proof (cases "of_tenant d domain tenant")
    case True
    with one obtain cv where cv: "accepted_node path d = Inr cv" "nodes_loaded h domain tenant (acc @ [cv]) state1" by auto
    from Cons.IH [OF item(4) cv(2)] obtain ds cvs where "rmap id items = Inr ds"
      "rmap (accepted_node path) (filter (\<lambda>d. of_tenant d domain tenant) (map fst ds)) = Inr cvs"
      "nodes_loaded h domain tenant ((acc @ [cv]) @ cvs) state'" by blast
    with cv(1) item(1) True show ?thesis
      by (intro exI [of _ "(d, encoded) # ds"] exI [of _ "cv # cvs"]) (simp add: id_def)
  next
    case False
    with one Cons.prems(2) item(2) have "nodes_loaded h domain tenant acc state1" by simp
    from Cons.IH [OF item(4) this] obtain ds cvs where "rmap id items = Inr ds"
      "rmap (accepted_node path) (filter (\<lambda>d. of_tenant d domain tenant) (map fst ds)) = Inr cvs"
      "nodes_loaded h domain tenant (acc @ cvs) state'" by blast
    with item(1) False show ?thesis
      by (intro exI [of _ "(d, encoded) # ds"] exI [of _ cvs]) (simp add: id_def)
  qed
qed simp

lemma load_nodes_Inr:
  assumes "load_nodes h r domain tenant = Inr p" "trimmed domain" "trimmed tenant"
  shows "\<exists>acc order. accepted_nodes h r domain tenant = Inr acc \<and> nodes_loaded h domain tenant acc (p, order)"
proof -
  from assms(1) obtain order where "rfold (load_node h (jr_nodes_path r) domain tenant) (jsonl h (jr_nodes_path r))
      (\<lparr>ld_workspace = empty_workspace, ld_digest = [], ld_count = 0\<rparr>, []) = Inr (p, order)"
    by (auto simp: load_nodes_def rbind_eq_Inr)
  from load_items_loaded [OF this, of "[]"] assms(2,3) show ?thesis
    by (auto simp: nodes_loaded_def empty_workspace_def firsts_def accepted_nodes_def)
qed

section \<open>Operations and edges leave the nodes alone\<close>

definition same_nodes :: "dataset_workspace \<Rightarrow> dataset_workspace \<Rightarrow> bool" where
  "same_nodes ws ws' \<longleftrightarrow> ws_nodes ws' = ws_nodes ws \<and> ws_sources ws' = ws_sources ws"

lemma same_nodes_trans: "same_nodes ws ws' \<Longrightarrow> same_nodes ws' ws'' \<Longrightarrow> same_nodes ws ws''"
  by (simp add: same_nodes_def)

lemma set_current_same: "set_current source version ws = Inr ws' \<Longrightarrow> same_nodes ws ws'"
  by (auto simp: set_current_def same_nodes_def split: if_splits)

lemma load_operation_same:
  assumes "load_operation path domain tenant item p = Inr p'"
  shows "same_nodes (ld_workspace p) (ld_workspace p')"
proof -
  obtain d encoded where item: "item = Inr (d, encoded)" using assms by (cases item) (auto simp: load_operation_def)
  show ?thesis
  proof (cases "of_tenant d domain tenant")
    case True
    with assms obtain operation source ws where ws: "(if operation = ''add_source''
           then rbind (record_string path d ''source_version'') (\<lambda>v. set_current source v (ld_workspace p))
           else if operation = ''replace_source''
           then rbind (record_string path d ''to_version'') (\<lambda>v. set_current source v (ld_workspace p))
           else if operation = ''delete_source''
           then Inr (let ws = ld_workspace p in if source \<in> set (ws_deletions ws) then ws
             else ws\<lparr>ws_deletions := ws_deletions ws @ [source]\<rparr>)
           else Inl (dataset_error (''Unsupported dataset operation: '' @ operation))) = Inr ws"
      "ld_workspace p' = ws"
      unfolding load_operation_def item by (auto simp: rbind_eq_Inr hashed_def simp del: if_split)
    have "same_nodes (ld_workspace p) ws"
      using ws(1) by (auto simp: rbind_eq_Inr same_nodes_def Let_def dest!: set_current_same split: if_splits)
    with ws(2) show ?thesis by simp
  qed (use assms item in \<open>simp add: load_operation_def same_nodes_def\<close>)
qed

lemma load_operations_same:
  "load_operations h r domain tenant p = Inr p' \<Longrightarrow> same_nodes (ld_workspace p) (ld_workspace p')"
  unfolding load_operations_def
  by (erule rfold_invariant [where P = "\<lambda>q. same_nodes (ld_workspace p) (ld_workspace q)"])
    (auto intro: same_nodes_trans load_operation_same, simp add: same_nodes_def)

lemma insert_edge_same: "insert_edge row ws = Inr ws' \<Longrightarrow> same_nodes ws ws'"
  by (auto simp: insert_edge_def same_nodes_def split: if_splits)

lemma load_edge_same:
  assumes "load_edge h r tenant item p = Inr p'"
  shows "same_nodes (ld_workspace p) (ld_workspace p')"
proof -
  have "ld_workspace p' = ld_workspace p \<or> (\<exists>row ws'. insert_edge row (ld_workspace p) = Inr ws' \<and> ld_workspace p' = ws')"
    using assms by (cases item)
      (auto simp: load_edge_def rbind_eq_Inr hashed_def Let_def split: if_splits option.splits)
  then show ?thesis using insert_edge_same by (auto simp: same_nodes_def)
qed

lemma load_edges_same:
  "load_edges h r tenant p = Inr p' \<Longrightarrow> same_nodes (ld_workspace p) (ld_workspace p')"
  unfolding load_edges_def
  by (erule rfold_invariant [where P = "\<lambda>q. same_nodes (ld_workspace p) (ld_workspace q)"])
    (auto intro: same_nodes_trans load_edge_same, simp add: same_nodes_def)

lemma prepare_dataset_Inr:
  assumes "prepare_dataset h r domain tenant s = (Inr request, s')"
  shows "\<exists>acc order p. accepted_nodes h r (strip domain) (strip tenant) = Inr acc \<and>
    nodes_loaded h (strip domain) (strip tenant) acc (p, order) \<and> same_nodes (ld_workspace p) (rst_workspace s') \<and>
    rst_prepared s' \<and> ireq_source_count request = int (length (ws_sources (rst_workspace s'))) \<and>
    ireq_chunk_count request = int (length acc) \<and>
    ireq_deletion_count request = int (length (ws_deletions (rst_workspace s')))"
proof -
  from assms obtain p chunks nodes operations where parts: "strip domain \<noteq> []" "strip tenant \<noteq> []"
    "load_nodes h r (strip domain) (strip tenant) = Inr nodes"
    "load_operations h r (strip domain) (strip tenant) nodes = Inr operations"
    "load_edges h r (strip tenant) operations = Inr p" "chunks = ld_count nodes"
    "rst_workspace s' = ld_workspace p" "rst_prepared s'"
    "ireq_source_count request = int (length (ws_sources (ld_workspace p)))" "ireq_chunk_count request = chunks"
    "ireq_deletion_count request = int (length (ws_deletions (ld_workspace p)))"
    by (auto simp: prepare_dataset_def prog_simps smodify_def load_dataset_def rbind_eq_Inr required_Inr Let_def
        dataset_import_request_post_init_def split: if_splits)
  obtain acc order where acc: "accepted_nodes h r (strip domain) (strip tenant) = Inr acc"
    "nodes_loaded h (strip domain) (strip tenant) acc (nodes, order)"
    using load_nodes_Inr [OF parts(3)] parts(1,2) by auto
  moreover have "same_nodes (ld_workspace nodes) (ld_workspace p)"
    using load_operations_same [OF parts(4)] load_edges_same [OF parts(5)] by (simp add: same_nodes_def)
  moreover have "ld_count nodes = int (length acc)" using acc(2) by (simp add: nodes_loaded_def Let_def)
  ultimately show ?thesis using parts by (metis (no_types))
qed

section \<open>Reading back\<close>

text \<open>
  The texts of a chunk are read back: \<open>json.loads\<close> after \<open>json.dumps\<close> gives lists and texts unchanged, and
  an object with its members in the order of the text. \<open>m\<close> is what it gives for the metadata.
\<close>

definition json_returns :: "dataset_host \<Rightarrow> py \<Rightarrow> py \<Rightarrow> bool" where
  "json_returns h v v' \<longleftrightarrow> (\<exists>t. canonical_json (dh_float_text h) v = Some t \<and> dh_loads h t = Some v')"

definition chunk_returns :: "dataset_host \<Rightarrow> document_chunk \<Rightarrow> mapping \<Rightarrow> bool" where
  "chunk_returns h c m \<longleftrightarrow>
     (let s = chunk_security c; labels = PList (map PStr (doc_classification_labels s))
      in json_returns h (PDict (chunk_metadata c)) (PDict m) \<and>
         json_returns h (PList (map PStr (chunk_acl_labels c))) (PList (map PStr (chunk_acl_labels c))) \<and>
         json_returns h labels labels \<and>
         json_returns h (node_security_payload s) (PDict [(''classification_labels'', labels),
           (''clearance_label'', (case doc_clearance_label s of None \<Rightarrow> PNone | Some l \<Rightarrow> PStr l))]))"

lemma strings_back: "list_all is_str (map PStr xs)" "List.map_filter as_str (map PStr xs) = xs"
  by (induction xs) (simp_all add: map_filter_simps)

lemma json_returns_stored:
  "json_returns h v v' \<Longrightarrow> \<exists>t. dataset_json h v = Inr t \<and> stored_value h t = Inr v'"
  by (auto simp: json_returns_def dataset_json_def stored_value_def)

lemma security_returns:
  assumes "document_security_ok s" "dataset_json h (node_security_payload s) = Inr t"
    "json_returns h (PList (map PStr (doc_classification_labels s))) (PList (map PStr (doc_classification_labels s)))"
    "json_returns h (node_security_payload s) (PDict [(''classification_labels'', PList (map PStr (doc_classification_labels s))),
       (''clearance_label'', (case doc_clearance_label s of None \<Rightarrow> PNone | Some l \<Rightarrow> PStr l))])"
  shows "security_from_json h t = Inr s"
  using json_returns_stored [OF assms(3)] json_returns_stored [OF assms(4)] assms(2)
    document_security_post_init_idem [OF assms(1)]
  by (cases s) (auto simp: security_from_json_def stored_object_def stored_array_def strings_back split: option.splits)

lemma node_chunk_returns:
  assumes "node_row h cv row" "node_ok domain tenant cv" "chunk_returns h (fst cv) m"
    "wsv_domain source = domain" "wsv_tenant_id source = tenant" "wsv_source_id source = chunk_source_id (fst cv)"
  shows "node_chunk h source row = Inr ((fst cv)\<lparr>chunk_metadata := m\<rparr>)"
proof -
  let ?c = "fst cv"
  from assms(1) obtain i where row: "node_row_of h ?c (snd cv) i = Inr row" by (auto simp: node_row_def)
  then have texts: "dataset_json h (PDict (chunk_metadata ?c)) = Inr (wn_metadata_json row)"
    "dataset_json h (PList (map PStr (chunk_acl_labels ?c))) = Inr (wn_acl_json row)"
    "dataset_json h (node_security_payload (chunk_security ?c)) = Inr (wn_security_json row)"
    by (auto simp: node_row_of_def rbind_eq_Inr)
  have "stored_object h (wn_metadata_json row) p = Inr m" for p
    using json_returns_stored [of h "PDict (chunk_metadata ?c)" "PDict m"] assms(3) texts(1)
    by (auto simp: chunk_returns_def Let_def stored_object_def)
  moreover have "stored_array h (wn_acl_json row) p = Inr (chunk_acl_labels ?c)" for p
    using json_returns_stored [of h "PList (map PStr (chunk_acl_labels ?c))"] assms(3) texts(2)
    by (auto simp: chunk_returns_def Let_def stored_array_def strings_back)
  moreover have "security_from_json h (wn_security_json row) = Inr (chunk_security ?c)"
    using security_returns [OF _ texts(3)] assms(2,3) by (simp add: node_ok_def chunk_returns_def Let_def)
  moreover have "document_chunk_post_init (?c\<lparr>chunk_metadata := m\<rparr>) = Inr (?c\<lparr>chunk_metadata := m\<rparr>)"
    using assms(2) by (intro document_chunk_post_init_idem) (auto simp: node_ok_def document_chunk_ok_def)
  ultimately show ?thesis
    using node_row_of_fields [OF row] assms(2,4-6) unfolding node_chunk_def
    by (cases ?c) (simp add: node_ok_def)
qed

lemma selected_chunks:
  assumes "list_all2 (node_row h) acc nodes" "list_all (node_ok domain tenant) acc"
    "\<forall>cv\<in>set acc. chunk_returns h (fst cv) (reload (fst cv))"
    "wsv_domain source = domain" "wsv_tenant_id source = tenant"
  shows "rmap (node_chunk h source) (filter (\<lambda>r. (wn_source_id r, wn_source_version r) = source_key source) nodes) =
    Inr (map (\<lambda>cv. (fst cv)\<lparr>chunk_metadata := reload (fst cv)\<rparr>) (filter (\<lambda>cv. node_version cv = source_key source) acc))"
  using assms(1-3)
proof (induction rule: list_all2_induct)
  case (Cons cv acc row nodes)
  have "(wn_source_id row, wn_source_version row) = node_version cv"
    using Cons.hyps(1) by (auto simp: node_row_def node_version_def dest: node_row_of_fields)
  with Cons node_chunk_returns [OF Cons.hyps(1), of domain tenant "reload (fst cv)" source] assms(4,5) show ?case
    by (auto simp: node_version_def source_key_def)
qed simp

definition source_command ::
    "(document_chunk \<Rightarrow> mapping) \<Rightarrow> (document_chunk \<times> string) list \<Rightarrow> workspace_source \<Rightarrow> ingestion_command" where
  "source_command reload acc source =
     \<lparr>ing_idempotency_key = ''dataset:'' @ wsv_domain source @ '':'' @ wsv_tenant_id source @ '':'' @
        wsv_source_id source @ '':'' @ wsv_source_version source,
      ing_domain = wsv_domain source, ing_tenant_id = wsv_tenant_id source, ing_source_id = wsv_source_id source,
      ing_source_version = wsv_source_version source,
      ing_chunks = map (\<lambda>cv. (fst cv)\<lparr>chunk_metadata := reload (fst cv)\<rparr>)
        (filter (\<lambda>cv. node_version cv = source_key source) acc),
      ing_relationships = [], ing_source_uri = wsv_source_uri source, ing_metadata = []\<rparr>"

lemma trimmed_append: "p \<noteq> [] \<Longrightarrow> \<not> py_isspace (hd p) \<Longrightarrow> trimmed v \<Longrightarrow> trimmed (p @ v)"
  using strip_ends(2) [of v] by (auto simp: trimmed_def strip_nonspace)

lemma dataset_command_returns:
  assumes "nodes_loaded h domain tenant acc (p, order)" "same_nodes (ld_workspace p) ws"
    "\<forall>cv\<in>set acc. chunk_returns h (fst cv) (reload (fst cv))" "source \<in> set (ws_sources ws)"
  shows "dataset_command h ws False source = Inr (source_command reload acc source) \<and>
    command_ok (source_command reload acc source) \<and> wsv_domain source = domain \<and> wsv_tenant_id source = tenant"
proof -
  let ?mine = "filter (\<lambda>cv. node_version cv = source_key source) acc"
  have old: "list_all (node_ok domain tenant) acc" "list_all2 (node_row h) acc (ws_nodes ws)"
    "map wn_position (ws_nodes ws) = map int [0..<length acc]" "distinct (map wn_chunk_id (ws_nodes ws))"
    "map (\<lambda>r. (source_key r, wsv_order r)) (ws_sources ws) = order" "map fst order = firsts (map node_version acc)"
    "wsv_domain source = domain" "wsv_tenant_id source = tenant"
    using assms(1,2,4) by (auto simp: nodes_loaded_def Let_def same_nodes_def)
  have "sorted (map wn_position (filter P (ws_nodes ws)))" for P
  proof -
    have "sorted (map wn_position (ws_nodes ws))" unfolding old(3) by (simp add: sorted_map sorted_wrt_upt)
    then show ?thesis by (induction "ws_nodes ws" arbitrary: ws rule: list.induct) (auto intro: sorted_filter)
  qed
  then have "rmap (node_chunk h source) (sort_key wn_position
      (filter (\<lambda>r. (wn_source_id r, wn_source_version r) = source_key source) (ws_nodes ws))) =
      Inr (ing_chunks (source_command reload acc source))"
    using selected_chunks [OF old(2,1) assms(3) old(7,8)] by (simp add: sort_key_id_if_sorted source_command_def)
  moreover have "command_ok (source_command reload acc source)"
  proof -
    have key: "source_key source \<in> set (map node_version acc)"
      using assms(4) old(5,6) by (metis (no_types, lifting) fst_conv image_eqI list.set_map set_firsts)
    have ids: "map (chunk_id \<circ> fst) acc = map wn_chunk_id (ws_nodes ws)"
      using old(2) by (induction rule: list_all2_induct) (auto simp: node_row_def dest: node_row_of_fields)
    then have "distinct (map (chunk_id \<circ> fst) acc)" using old(4) by simp
    then have distinct: "distinct (map (chunk_id \<circ> fst) ?mine)" by (rule distinct_map_filter)
    from key obtain cv where cv: "cv \<in> set acc" "node_version cv = source_key source" by auto
    then have "node_ok domain tenant cv" using old(1) by (simp add: list_all_iff)
    with cv(2) have "trimmed (wsv_source_id source)" "trimmed (wsv_source_version source)" "trimmed domain" "trimmed tenant"
      by (auto simp: node_ok_def document_chunk_ok_def node_version_def source_key_def)
    moreover have "trimmed (''dataset:'' @ wsv_domain source @ '':'' @ wsv_tenant_id source @ '':'' @
        wsv_source_id source @ '':'' @ wsv_source_version source)"
      using trimmed_append [OF _ _ calculation(2), of "''dataset:'' @ wsv_domain source @ '':'' @ wsv_tenant_id source @
        '':'' @ wsv_source_id source @ '':''"] by (simp add: py_isspace_def)
    ultimately show ?thesis
      using cv distinct old(1,7,8)
      by (auto simp: command_ok_def source_command_def list_all_iff node_ok_def node_version_def source_key_def comp_def
          filter_empty_conv)
  qed
  ultimately show ?thesis
    using ingestion_command_post_init_idem [of "source_command reload acc source"] old(7,8)
    by (simp add: dataset_command_def Let_def source_key_def source_command_def)
qed

section \<open>The order of the commands\<close>

lemma map_sort_key: "map f (sort_key (\<lambda>x. g (f x)) xs) = sort_key g (map f xs)"
proof -
  have "map f (insort_key (\<lambda>x. g (f x)) x ys) = insort_key g (f x) (map f ys)" for x ys
    by (induction ys) auto
  then show ?thesis by (induction xs) simp_all
qed

text \<open>Sorting by the number of the version first changes nothing: within a source the rows are in that order.\<close>

lemma sort_version_order:
  assumes "\<And>s. sorted (map wsv_order (filter (\<lambda>r. wsv_source_id r = s) rows))"
  shows "sort_key wsv_source_id (sort_key wsv_order rows) = sort_key wsv_source_id rows"
proof (rule properties_for_sort_key)
  fix k assume "k \<in> set (sort_key wsv_source_id rows)"
  have "filter (\<lambda>x. wsv_source_id k = wsv_source_id x) (sort_key wsv_order rows) =
      filter (\<lambda>x. wsv_source_id k = wsv_source_id x) rows"
    using assms [of "wsv_source_id k"] by (simp add: filter_sort sort_key_id_if_sorted eq_commute)
  then show "filter (\<lambda>x. wsv_source_id k = wsv_source_id x) (sort_key wsv_source_id rows) =
      filter (\<lambda>x. wsv_source_id k = wsv_source_id x) (sort_key wsv_order rows)"
    using sort_key_stable [of wsv_source_id "wsv_source_id k" rows] by (simp add: eq_commute)
qed simp_all

lemma loaded_order:
  assumes "nodes_loaded h domain tenant acc (p, order)" "same_nodes (ld_workspace p) ws"
  shows "map source_key (sort_key wsv_source_id (sort_key wsv_order (ws_sources ws))) =
    sort_key fst (firsts (map node_version acc))"
proof -
  have old: "map (\<lambda>r. (source_key r, wsv_order r)) (ws_sources ws) = order" "map fst order = firsts (map node_version acc)"
    "\<forall>s. sorted (map snd (filter (\<lambda>it. fst (fst it) = s) order))"
    using assms by (auto simp: nodes_loaded_def Let_def same_nodes_def)
  have "sorted (map wsv_order (filter (\<lambda>r. wsv_source_id r = s) (ws_sources ws)))" for s
    using old(3) unfolding old(1) [symmetric] by (simp add: filter_map comp_def source_key_def)
  then have "sort_key wsv_source_id (sort_key wsv_order (ws_sources ws)) = sort_key wsv_source_id (ws_sources ws)"
    by (rule sort_version_order)
  also have "map source_key \<dots> = sort_key fst (map source_key (ws_sources ws))"
    using map_sort_key [of source_key fst "ws_sources ws"] by (simp add: source_key_def)
  also have "map source_key (ws_sources ws) = firsts (map node_version acc)"
    unfolding old(2) [symmetric] old(1) [symmetric] by simp
  finally show ?thesis .
qed

text \<open>
  C13: When \<open>prepare\<close> accepts a dataset, \<open>source_commands\<close> yields, without failing, one well-formed command
  per version of a source, by source and then in the order in which the versions first appear; each carries
  exactly the accepted chunks of that version, in the order of the file, with the metadata as JSON returns it.
  The request counts exactly these commands and chunks.
\<close>

theorem dataset_sources_read_back:
  assumes "prepare_dataset h r domain tenant s = (Inr request, s')"
    "accepted_nodes h r (strip domain) (strip tenant) = Inr acc"
    "\<forall>cv\<in>set acc. chunk_returns h (fst cv) (reload (fst cv))"
  shows "\<exists>commands. read_sources h s' = map Inr commands \<and> list_all command_ok commands \<and>
    map (\<lambda>c. (ing_source_id c, ing_source_version c)) commands = sort_key fst (firsts (map node_version acc)) \<and>
    int (length commands) = ireq_source_count request \<and> int (length acc) = ireq_chunk_count request \<and>
    (\<forall>c\<in>set commands. ing_domain c = strip domain \<and> ing_tenant_id c = strip tenant \<and> ing_relationships c = [] \<and>
      ing_chunks c = map (\<lambda>cv. (fst cv)\<lparr>chunk_metadata := reload (fst cv)\<rparr>)
        (filter (\<lambda>cv. node_version cv = (ing_source_id c, ing_source_version c)) acc))"
proof -
  obtain order p where l: "nodes_loaded h (strip domain) (strip tenant) acc (p, order)"
    "same_nodes (ld_workspace p) (rst_workspace s')" "rst_prepared s'"
    "ireq_source_count request = int (length (ws_sources (rst_workspace s')))" "ireq_chunk_count request = int (length acc)"
    using prepare_dataset_Inr [OF assms(1)] assms(2) by auto
  let ?rows = "sort_key wsv_source_id (sort_key wsv_order (ws_sources (rst_workspace s')))"
  let ?commands = "map (source_command reload acc) ?rows"
  note each = dataset_command_returns [OF l(1,2) assms(3)]
  have "read_sources h s' = map Inr ?commands"
    using each l(3) by (simp add: read_sources_def when_prepared_def)
  moreover have "map (\<lambda>c. (ing_source_id c, ing_source_version c)) ?commands = map source_key ?rows"
    by (simp add: source_command_def source_key_def)
  moreover have "list_all command_ok ?commands" using each by (auto simp: list_all_iff)
  moreover have "\<forall>r\<in>set ?rows. wsv_domain r = strip domain \<and> wsv_tenant_id r = strip tenant" using each by simp
  ultimately show ?thesis
    using l(4,5) loaded_order [OF l(1,2)]
    by (intro exI [of _ ?commands]) (simp add: source_command_def source_key_def)
qed

text \<open>A dataset of one source with two versions.\<close>

definition demo_node :: "string \<Rightarrow> string \<Rightarrow> mapping" where
  "demo_node c v = [(''domain'', PStr ''docs''), (''tenant_id'', PStr ''acme''), (''source_id'', PStr ''s''),
     (''chunk_id'', PStr c), (''text'', PStr ''text''), (''source_version'', PStr v)]"

definition demo_operation :: mapping where
  "demo_operation = [(''domain'', PStr ''docs''), (''tenant_id'', PStr ''acme''), (''source_id'', PStr ''s''),
     (''operation'', PStr ''add_source''), (''source_version'', PStr ''v2'')]"

definition demo_security_text :: string where
  "demo_security_text = (case canonical_json (\<lambda>q. []) (node_security_payload
     \<lparr>doc_clearance_label = None, doc_classification_labels = []\<rparr>) of None \<Rightarrow> [] | Some t \<Rightarrow> t)"

definition demo_dataset_host :: dataset_host where
  "demo_dataset_host = \<lparr>dh_read = map_of [(''nodes'', ''1'' @ newline @ ''2'' @ newline), (''operations'', ''3''), (''edges'', [])],
     dh_loads = map_of [(''1'' @ newline, PDict (demo_node ''c1'' ''v1'')), (''2'' @ newline, PDict (demo_node ''c2'' ''v2'')),
       (''3'', PDict demo_operation), (''{}'', PDict []), (''[]'', PList []),
       (demo_security_text, PDict [(''classification_labels'', PList []), (''clearance_label'', PNone)])],
     dh_sha256 = (\<lambda>t. ''hash''), dh_float_text = (\<lambda>q. [])\<rparr>"

definition demo_jsonl_reader :: jsonl_reader where
  "demo_jsonl_reader = \<lparr>jr_import_id = ''i'', jr_nodes_path = ''nodes'', jr_edges_path = ''edges'',
     jr_operations_path = ''operations'', jr_scope = SCOPE_COMPLETE\<rparr>"

definition demo_reader_start :: reader_state where
  "demo_reader_start = \<lparr>rst_workspace = empty_workspace, rst_prepared = False\<rparr>"

definition demo_chunk :: "string \<Rightarrow> document_chunk" where
  "demo_chunk c = \<lparr>chunk_id = c, chunk_domain = ''docs'', chunk_tenant_id = ''acme'', chunk_source_id = ''s'',
     chunk_text = ''text'', chunk_source_uri = None, chunk_metadata = [], chunk_acl_labels = [],
     chunk_security = \<lparr>doc_clearance_label = None, doc_classification_labels = []\<rparr>\<rparr>"

lemma demo_dataset_parts:
  "case fst (prepare_dataset demo_dataset_host demo_jsonl_reader ''docs'' ''acme'' demo_reader_start) of
     Inl e \<Rightarrow> False | Inr request \<Rightarrow> ireq_source_count request = 2"
  "accepted_nodes demo_dataset_host demo_jsonl_reader (strip ''docs'') (strip ''acme'') =
     Inr [(demo_chunk ''c1'', ''v1''), (demo_chunk ''c2'', ''v2'')]"
  by code_simp+

lemma demo_texts:
  "canonical_json (dh_float_text demo_dataset_host) (PDict []) = Some ''{}''"
  "canonical_json (dh_float_text demo_dataset_host) (PList []) = Some ''[]''"
  "canonical_json (dh_float_text demo_dataset_host) (node_security_payload \<lparr>doc_clearance_label = None, doc_classification_labels = []\<rparr>) =
     Some demo_security_text"
  "dh_loads demo_dataset_host ''{}'' = Some (PDict [])" "dh_loads demo_dataset_host ''[]'' = Some (PList [])"
  "dh_loads demo_dataset_host demo_security_text =
     Some (PDict [(''classification_labels'', PList []), (''clearance_label'', PNone)])"
  by code_simp+

lemma dataset_sources_read_back_witness:
  "\<exists>request s' commands. prepare_dataset demo_dataset_host demo_jsonl_reader ''docs'' ''acme'' demo_reader_start = (Inr request, s') \<and>
     read_sources demo_dataset_host s' = map Inr commands \<and> ireq_source_count request = 2 \<and>
     map (\<lambda>c. (ing_source_id c, ing_source_version c)) commands = [(''s'', ''v1''), (''s'', ''v2'')]"
proof -
  obtain request s' where run:
    "prepare_dataset demo_dataset_host demo_jsonl_reader ''docs'' ''acme'' demo_reader_start = (Inr request, s')"
    "ireq_source_count request = 2"
    using demo_dataset_parts(1)
    by (cases "prepare_dataset demo_dataset_host demo_jsonl_reader ''docs'' ''acme'' demo_reader_start") (auto split: sum.splits)
  have "\<forall>cv\<in>set [(demo_chunk ''c1'', ''v1''), (demo_chunk ''c2'', ''v2'')]. chunk_returns demo_dataset_host (fst cv) []"
    by (simp add: chunk_returns_def demo_chunk_def json_returns_def demo_texts)
  note commands = dataset_sources_read_back [OF run(1) demo_dataset_parts(2), of "\<lambda>c. []", OF this]
  have order: "sort_key fst (firsts (map node_version [(demo_chunk ''c1'', ''v1''), (demo_chunk ''c2'', ''v2'')])) =
      [(''s'', ''v1''), (''s'', ''v2'')]" by code_simp
  from commands obtain cs where "read_sources demo_dataset_host s' = map Inr cs"
    "map (\<lambda>c. (ing_source_id c, ing_source_version c)) cs = [(''s'', ''v1''), (''s'', ''v2'')]"
    unfolding order by (elim exE conjE)
  with run show ?thesis by (intro exI conjI)
qed

section \<open>An edge that is only rejected later\<close>

text \<open>
  \<open>_load_edges\<close> compares the owner with the node of \<open>from_chunk_id\<close>, but not \<open>from_source_id\<close> with the
  owner: such an edge is accepted and counted, and the command of its source cannot be constructed.
\<close>

definition demo_stray_edge :: mapping where
  "demo_stray_edge = [(''tenant_id'', PStr ''acme''), (''from_chunk_id'', PStr ''c2''), (''to_chunk_id'', PStr ''c1''),
     (''owner_source_id'', PStr ''s''), (''owner_source_version'', PStr ''v2''), (''from_source_id'', PStr ''other''),
     (''to_source_id'', PStr ''s''), (''to_source_version'', PStr ''v1''), (''relationship_type'', PStr ''cites'')]"

definition demo_stray_host :: dataset_host where
  "demo_stray_host = demo_dataset_host\<lparr>
     dh_read := (dh_read demo_dataset_host)(''edges'' \<mapsto> ''4''),
     dh_loads := (dh_loads demo_dataset_host)(''4'' \<mapsto> PDict demo_stray_edge)\<rparr>"

lemma stray_edge_accepted:
  "case prepare_dataset demo_stray_host demo_jsonl_reader ''docs'' ''acme'' demo_reader_start of
     (Inl e, s) \<Rightarrow> False
   | (Inr request, s) \<Rightarrow> ireq_relationship_count request = 1 \<and> map is_ok (read_sources demo_stray_host s) = [True, True] \<and>
       map is_ok (read_relationships demo_stray_host s) = [False]"
  by code_simp

end
