(* ===== verification/Commands.thy ===== *)
theory Commands
  imports Bootstrap Dataset_Reader
begin

text \<open>
  \<open>__main__.py\<close> and \<open>import_cli.py\<close>: the two commands. Argument parsing, the terminal and the WSGI server are
  outside; a command gives its exit code and what it prints.
\<close>

section \<open>The environment file\<close>

text \<open>\<open>str.strip\<close> of one character.\<close>

definition strip_of :: "char \<Rightarrow> string \<Rightarrow> string" where
  "strip_of c s = rev (dropWhile (\<lambda>x. x = c) (rev (dropWhile (\<lambda>x. x = c) s)))"

definition env_line :: "string \<Rightarrow> (string \<times> string) option" where
  "env_line raw =
     (let stripped = strip raw;
          line = (if startswith stripped ''export '' then removeprefix stripped ''export '' else stripped);
          key = strip (takeWhile (\<lambda>c. c \<noteq> CHR ''='') line);
          value = strip_of (CHR 0x27) (strip_of (CHR 0x22) (strip (tl (dropWhile (\<lambda>c. c \<noteq> CHR ''='') line))))
      in if stripped = [] \<or> startswith stripped ''#'' \<or> CHR ''='' \<notin> set line \<or> key = [] then None
         else Some (key, value))"

definition load_env_file :: "string \<Rightarrow> (string \<times> string) list \<Rightarrow> (string \<times> string) list" where
  "load_env_file text_content environ =
     fold (\<lambda>kv env. if has_key env (fst kv) then env else env @ [kv])
       (List.map_filter env_line (splitlines text_content)) environ"

section \<open>The server\<close>

text \<open>The exit code, and the address and number of threads the WSGI server is started with.\<close>

definition server_main ::
    "('w, 'f, 'k) installation \<Rightarrow> host_system \<Rightarrow> bool \<Rightarrow> string \<Rightarrow> ('w, py_exn, int \<times> server_settings option) prog" where
  "server_main inst h waitress config w =
     (case load_settings h config of
        Inl e \<Rightarrow> (Inr (1, None), w)
      | Inr settings \<Rightarrow>
          (case bootstrap inst settings w of
             (Inl e, w') \<Rightarrow> (Inr (1, None), w')
           | (Inr b, w') \<Rightarrow>
               if waitress then (Inr (0, Some (set_server settings)), w')
               else sthen (in_weaviate_close inst) (sreturn (1, None)) w'))"

section \<open>The import command\<close>

datatype import_arguments = Import_Dataset jsonl_reader | Import_Status string | Verify_Storage

fun import_status_text :: "dataset_import_status \<Rightarrow> string" where
  "import_status_text IMPORT_STAGING = ''staging''"
| "import_status_text IMPORT_RELATING = ''relating''"
| "import_status_text IMPORT_DELETING = ''deleting''"
| "import_status_text IMPORT_COMPLETED = ''completed''"
| "import_status_text IMPORT_FAILED = ''failed''"

definition import_run_payload :: "dataset_import_run \<Rightarrow> mapping" where
  "import_run_payload r =
     [(''import_id'', PStr (irun_import_id r)), (''domain'', PStr (irun_domain r)),
      (''tenant_id'', PStr (irun_tenant_id r)), (''dataset_hash'', PStr (irun_dataset_hash r)),
      (''status'', PStr (import_status_text (irun_status r))), (''source_count'', PInt (irun_source_count r)),
      (''chunk_count'', PInt (irun_chunk_count r)), (''relationship_count'', PInt (irun_relationship_count r)),
      (''deletion_count'', PInt (irun_deletion_count r)), (''indexed_sources'', PInt (irun_indexed_sources r)),
      (''published_relationships'', PInt (irun_published_relationships r)),
      (''deleted_sources'', PInt (irun_deleted_sources r)), (''error_code'', opt_py (irun_error_code r)),
      (''error_message'', opt_py (irun_error_message r))]"

definition consistency_payload :: "dataset_consistency_report \<Rightarrow> mapping" where
  "consistency_payload r =
     [(''domain'', PStr (report_domain r)), (''tenant_id'', PStr (report_tenant_id r)),
      (''active_sources'', PInt (report_active_sources r)), (''active_chunks'', PInt (report_active_chunks r)),
      (''indexed_chunks'', PInt (report_indexed_chunks r)),
      (''active_relationships'', PInt (report_active_relationships r)), (''consistent'', PBool (report_consistent r))]"

definition import_command ::
    "'w dataset_import_service \<Rightarrow> dataset_host \<Rightarrow> reader_state \<Rightarrow> import_arguments \<Rightarrow> ('w, py_exn, int \<times> mapping) prog" where
  "import_command svc h s args =
     (case args of
        Import_Dataset r \<Rightarrow>
          sbind (slift (make_jsonl_reader r)) (\<lambda>reader.
          sbind (execute_import svc (jsonl_dataset_reader h reader s (domain_name (is_domain svc))
            (domain_tenant_id (is_domain svc)))) (\<lambda>run. sreturn (0, import_run_payload run)))
      | Import_Status i \<Rightarrow> sbind (import_status svc i) (\<lambda>run. sreturn (0, import_run_payload run))
      | Verify_Storage \<Rightarrow> sbind (import_consistency svc) (\<lambda>report.
          sreturn (if report_consistent report then 0 else 3, consistency_payload report)))"

definition import_failed :: "py_exn \<Rightarrow> int \<times> mapping" where
  "import_failed e =
     (2, [(''error'', PDict (case e of
        Known c m \<Rightarrow> [(''code'', PStr (error_code_of_class c)), (''message'', PStr m)]
      | OtherError _ \<Rightarrow> [(''code'', PStr ''internal_error''),
          (''message'', PStr ''Dataset operation could not be completed'')]))])"

definition import_main ::
    "('w, 'f, 'k) installation \<Rightarrow> host_system \<Rightarrow> dataset_host \<Rightarrow> reader_state \<Rightarrow> string \<Rightarrow> string \<Rightarrow> import_arguments \<Rightarrow>
     ('w, py_exn, int \<times> mapping) prog" where
  "import_main inst h dh s config name args w =
     (case load_settings h config of
        Inl e \<Rightarrow> (Inr (import_failed e), w)
      | Inr settings \<Rightarrow>
          (case bootstrap_import inst settings name w of
             (Inl e, w1) \<Rightarrow> (Inr (import_failed e), w1)
           | (Inr svc, w1) \<Rightarrow>
               (case import_command svc dh s args w1 of
                  (r, w2) \<Rightarrow> sthen (in_weaviate_close inst)
                    (sreturn (case r of Inl e \<Rightarrow> import_failed e | Inr x \<Rightarrow> x)) w2)))"

lemma env_line_examples:
  "env_line '' export KEY = value '' = Some (''KEY'', ''value'')"
  "env_line ''# KEY=value'' = None" "env_line ''KEY'' = None" "env_line ''=value'' = None"
  "load_env_file ''A=1'' [(''A'', ''2'')] = [(''A'', ''2'')]"
  by code_simp+

end
