(* ===== verification/Spec2Isabelle.thy ===== *)
theory Spec2Isabelle
  imports Pipeline_Properties Access_Properties Service_Properties Conversation_Properties Import_Properties
    Index_Properties Loading_Properties Infrastructure_Properties Web_Properties Dataset_Properties Commands
begin

text \<open>
  SovereignFlow is a retrieval service: a request runs a configured pipeline of actions that
  retrieve document chunks, shape them into evidence, decide whether a model server may see them
  and call the model. This development models its Python code (under \<open>src/sovereignflow\<close>) and proves
  what makes it correct.

  \<^bold>\<open>Parts.\<close> \<open>domain/models.py\<close> holds the values and their constructors: a frozen dataclass is a
  record, its \<open>__post_init__\<close> a function \<open><class>_post_init\<close> that returns the normalised value or the
  exception. \<open>application/pipeline.py\<close> holds the registry, the validator and the engine;
  \<open>application/actions/\<close> the eighteen actions. \<open>application/authorization.py\<close> and
  \<open>policy_administration.py\<close> decide who may run a capability, on the tables of
  \<open>infrastructure/access_policies.py\<close>.

  \<^bold>\<open>Conventions.\<close> A fallible function returns \<open>py_exn + 'a\<close> (\<open>result\<close>), with \<open>Inl\<close> the exception. Code with
  effects is a \<open>prog\<close>: a function from the state to the outcome and the new state, so that a raise
  keeps the changes made before it. Ports (search, graph, model gateway, prompts, audit, clock) are
  parameters: functions over an abstract world \<open>'w\<close>. Configuration values and metadata are the
  datatype \<open>py\<close>; a dictionary is an association list in insertion order. Floats are rationals;
  strings are lists of characters below 256, compared by code point.

  \<^bold>\<open>Theories.\<close>
  \<^item> \<open>Prelude\<close>, \<open>Errors\<close>, \<open>Values\<close>: results, programs, the string operations of Python, the exception
    classes, \<open>py\<close> values, required fields and frozen configuration.
  \<^item> \<open>Security\<close>, \<open>Documents\<close>, \<open>Model_Servers\<close>, \<open>Access\<close>, \<open>Pipelines\<close>, \<open>Conversations\<close>,
    \<open>Ingestion_Data\<close>: \<open>domain/models.py\<close> in its own order, each with the well-formedness its constructors
    establish and their idempotence.
  \<^item> \<open>Context\<close>, \<open>Action_Support\<close>, \<open>Actions_Retrieval\<close>, \<open>Actions_Routing\<close>, \<open>Actions_Conversation\<close>,
    \<open>Actions_Model\<close>: the pipeline context and the actions.
  \<^item> \<open>Registry\<close>, \<open>Validator\<close>, \<open>Engine\<close>: \<open>pipeline.py\<close>. The validator's walk is a recursive function
    whose measure is the room left under \<open>max_steps\<close>; the engine's loop likewise, so neither needs
    fuel. \<open>sound_from\<close> is the specification of the walk.
  \<^item> \<open>Run_Invariants\<close>, \<open>Pipeline_Safety\<close>: the configurations a run reaches (an inductive relation),
    locales that turn a contract of the actions into an invariant of every validated run, and their
    interpretations on the default registry.
  \<^item> \<open>Policy_Repository\<close>, \<open>Authorization_Service\<close>: the policy tables and the two services; the locale
    \<open>access_policies\<close> is the interface between them.
  \<^item> \<open>Examples\<close>, \<open>Pipeline_Properties\<close>, \<open>Access_Properties\<close>: concrete instances, the properties and
    their witnesses.

  \<^bold>\<open>Not modelled.\<close> Network and database drivers, the HTTP framework, YAML and JSON parsing, hashing
  and the clock are parameters. Timestamps the code does not read back are left out. Text outside
  Latin-1 and the rounding of floats are outside the model.
\<close>

end
